(* ===== verification/Prelude.thy ===== *)
theory Prelude
  imports Main "HOL-Library.Word" "HOL-Library.List_Lexorder"
begin

text \<open>
  Shared vocabulary of the development: byte strings, Go's machine integers and their
  conversions, errors as values (the sentinel errors of the code and \<open>sdkerrors.Wrap\<close>),
  the result of a Go call (a value, an error or a panic), calls that change a state, Go slices
  with their backing array, and the lemma collections that the component theories use.
\<close>

section \<open>Lemma collections\<close>

named_theorems act_simps \<open>evaluation of results and of state changing calls\<close>
named_theorems kv_simps \<open>reading a key-value store after an update\<close>
named_theorems twasm_keys \<open>the keys of the privilege indexes\<close>

section \<open>Bytes and machine integers\<close>

type_synonym byte = "8 word"
type_synonym bytes = "byte list"
type_synonym addr = "bytes"
type_synonym uint8 = "8 word"
type_synonym uint32 = "32 word"
type_synonym uint64 = "64 word"

text \<open>
  \<open>int64\<close> values are integers; \<open>to_int64\<close> is the wrap-around of Go's arithmetic and
  conversions, \<open>int64_of_uint64\<close> and \<open>uint64_of_int64\<close> are the conversions between the two
  64 bit types (they keep the bits).
\<close>

definition to_int64 :: "int \<Rightarrow> int" where
  "to_int64 x = (x + 2 ^ 63) mod 2 ^ 64 - 2 ^ 63"

definition in_int64 :: "int \<Rightarrow> bool" where
  "in_int64 x \<longleftrightarrow> - (2 ^ 63) \<le> x \<and> x < 2 ^ 63"

definition int64_of_uint64 :: "uint64 \<Rightarrow> int" where
  "int64_of_uint64 w = sint w"

definition uint64_of_int64 :: "int \<Rightarrow> uint64" where
  "uint64_of_int64 x = word_of_int x"

lemma to_int64_range: "in_int64 (to_int64 x)"
proof -
  have "0 \<le> (x + 2 ^ 63) mod 2 ^ 64" "(x + 2 ^ 63) mod 2 ^ 64 < 2 ^ 64"
    by simp_all
  then show ?thesis by (simp add: to_int64_def in_int64_def)
qed

lemma to_int64_id: "in_int64 x \<Longrightarrow> to_int64 x = x"
  by (simp add: to_int64_def in_int64_def)

lemma int64_of_uint64_range: "in_int64 (int64_of_uint64 w)"
proof -
  have "- (2 ^ 63) \<le> sint w" using sint_greater_eq [of w] by simp
  moreover have "sint w < 2 ^ 63" using sint_less [of w] by simp
  ultimately show ?thesis by (simp only: int64_of_uint64_def in_int64_def)
qed

lemma int64_of_uint64_small:
  assumes "uint w < 2 ^ 63"
  shows "int64_of_uint64 w = uint w"
proof -
  have "signed_take_bit 63 (uint w) = uint w"
    using assms by (intro signed_take_bit_int_eq_self) (auto intro: order_trans [of _ 0])
  then show ?thesis by (simp add: int64_of_uint64_def sint_uint)
qed

section \<open>Errors\<close>

text \<open>
  The sentinel errors the code returns, by the package that registers them: \<open>WasmErr\<close> for
  wasmd's types, \<open>SdkErr\<close> for the SDK's errors, \<open>GovErr\<close>, \<open>StakingErr\<close>, \<open>PoeErr\<close> for
  \<open>x/poe/types/errors.go\<close>; \<open>GrpcErr\<close> is \<open>status.Error\<close> with its code, \<open>PlainErr\<close> an
  \<open>errors.New\<close> or \<open>fmt.Errorf\<close>, and \<open>ExternalErr\<close> an error value of code outside the
  repository. Formatted messages are kept as their format string.
\<close>

datatype grpc_code = InvalidArgument | NotFound | Internal | Unimplemented

datatype err_kind =
    WasmErrNotFound | WasmErrInvalid | WasmErrEmpty | WasmErrDuplicate
  | WasmErrInvalidGenesis | WasmErrUnknownMsg | WasmErrExecuteFailed
  | SdkErrUnknownRequest | SdkErrUnauthorized | SdkErrInvalidAddress | SdkErrInvalidCoins
  | SdkErrJSONUnmarshal | SdkErrInvalidRequest | SdkErrInvalidType | SdkErrTxDecode
  | SdkErrInsufficientFee | SdkErrInsufficientFunds | SdkErrUnknownAddress | SdkErrLogic | SdkErrNotSupported
  | GovErrInvalidProposalContent | GovErrNoProposalHandlerExists
  | StakingErrEmptyDelegatorAddr | StakingErrEmptyValidatorPubKey
  | StakingErrPubKeyTypeNotSupported
  | PoeErrDeliverGenTXFailed | PoeErrPubKeyTypeNotSupported
  | PoeErrEmpty | PoeErrInvalid | PoeErrNotFound
  | GrpcErr grpc_code string
  | PlainErr string
  | ExternalErr string

text \<open>\<open>sdkerrors.Wrap\<close> keeps the cause: \<open>Is\<close> compares the root of the chain.\<close>

datatype go_error = Sentinel err_kind | Wrapped go_error string

primrec err_root :: "go_error \<Rightarrow> err_kind" where
  "err_root (Sentinel k) = k"
| "err_root (Wrapped e msg) = err_root e"

definition err_is :: "err_kind \<Rightarrow> go_error \<Rightarrow> bool" where
  "err_is k e \<longleftrightarrow> err_root e = k"

lemma err_is_simps [simp]:
  "err_is k (Sentinel k') \<longleftrightarrow> k' = k"
  "err_is k (Wrapped e msg) \<longleftrightarrow> err_is k e"
  by (simp_all add: err_is_def)

section \<open>Results and state changing calls\<close>

datatype 'a res = Ok 'a | Err go_error | Panic string

fun bind_res :: "'a res \<Rightarrow> ('a \<Rightarrow> 'b res) \<Rightarrow> 'b res" where
  "bind_res (Ok x) f = f x"
| "bind_res (Err e) f = Err e"
| "bind_res (Panic p) f = Panic p"

text \<open>An error that the caller turns into a panic.\<close>

fun must_ok :: "'a res \<Rightarrow> 'a res" where
  "must_ok (Ok x) = Ok x"
| "must_ok (Err e) = Panic ''err''"
| "must_ok (Panic p) = Panic p"

text \<open>\<open>sdkerrors.Wrap(err, msg)\<close> returns nil when \<open>err\<close> is nil, so it keeps a success.\<close>

fun wrap_res :: "string \<Rightarrow> 'a res \<Rightarrow> 'a res" where
  "wrap_res msg (Ok x) = Ok x"
| "wrap_res msg (Err e) = Err (Wrapped e msg)"
| "wrap_res msg (Panic p) = Panic p"

text \<open>
  \<open>sdkerrors.Wrap(k, err.Error())\<close>: the error is replaced by a sentinel that carries its text.
\<close>

fun recast :: "err_kind \<Rightarrow> 'a res \<Rightarrow> 'a res" where
  "recast k (Ok x) = Ok x"
| "recast k (Err e) = Err (Wrapped (Sentinel k) ''err.Error()'')"
| "recast k (Panic p) = Panic p"

definition fail :: "err_kind \<Rightarrow> 'a res" where
  "fail k = Err (Sentinel k)"

definition failw :: "err_kind \<Rightarrow> string \<Rightarrow> 'a res" where
  "failw k msg = Err (Wrapped (Sentinel k) msg)"

fun is_ok :: "'a res \<Rightarrow> bool" where
  "is_ok (Ok x) = True"
| "is_ok (Err e) = False"
| "is_ok (Panic p) = False"

text \<open>
  A call that changes a state returns its result and the state it leaves, also when it fails:
  the SDK discards the writes of a failed transaction, the called code does not.
\<close>

type_synonym ('s, 'a) act = "'s \<Rightarrow> 'a res \<times> 's"

definition ret :: "'a \<Rightarrow> ('s, 'a) act" where
  "ret x s = (Ok x, s)"

definition lift_res :: "'a res \<Rightarrow> ('s, 'a) act" where
  "lift_res r s = (r, s)"

definition bindS :: "('s, 'a) act \<Rightarrow> ('a \<Rightarrow> ('s, 'b) act) \<Rightarrow> ('s, 'b) act" where
  "bindS m f s =
     (case m s of
        (Ok x, s') \<Rightarrow> f x s'
      | (Err e, s') \<Rightarrow> (Err e, s')
      | (Panic p, s') \<Rightarrow> (Panic p, s'))"

definition seqS :: "('s, 'a) act \<Rightarrow> ('s, 'b) act \<Rightarrow> ('s, 'b) act" where
  "seqS m n = bindS m (\<lambda>_. n)"

definition wrapS :: "string \<Rightarrow> ('s, 'a) act \<Rightarrow> ('s, 'a) act" where
  "wrapS msg m s = (wrap_res msg (fst (m s)), snd (m s))"

definition modify :: "('s \<Rightarrow> 's) \<Rightarrow> ('s, unit) act" where
  "modify f s = (Ok (), f s)"

definition gets :: "('s \<Rightarrow> 'a) \<Rightarrow> ('s, 'a) act" where
  "gets f s = (Ok (f s), s)"

lemma ret_simp [act_simps]: "ret x s = (Ok x, s)"
  by (simp add: ret_def)

lemma lift_res_simp [act_simps]: "lift_res r s = (r, s)"
  by (simp add: lift_res_def)

lemma modify_simp [act_simps]: "modify f s = (Ok (), f s)"
  by (simp add: modify_def)

lemma gets_simp [act_simps]: "gets f s = (Ok (f s), s)"
  by (simp add: gets_def)

lemma wrapS_simp [act_simps]: "wrapS msg m s = (wrap_res msg (fst (m s)), snd (m s))"
  by (simp add: wrapS_def)

lemma bindS_Ok [act_simps]: "m s = (Ok x, s') \<Longrightarrow> bindS m f s = f x s'"
  by (simp add: bindS_def)

lemma bindS_Err [act_simps]: "m s = (Err e, s') \<Longrightarrow> bindS m f s = (Err e, s')"
  by (simp add: bindS_def)

lemma bindS_Panic [act_simps]: "m s = (Panic p, s') \<Longrightarrow> bindS m f s = (Panic p, s')"
  by (simp add: bindS_def)

lemma bindS_ret [simp]: "bindS (ret x) f = f x"
  by (simp add: bindS_def ret_def fun_eq_iff)

lemma bindS_modify [simp]: "bindS (modify g) f s = f () (g s)"
  by (simp add: bindS_def modify_def)

lemma bindS_gets [simp]: "bindS (gets g) f s = f (g s) s"
  by (simp add: bindS_def gets_def)

lemma bindS_lift_res [simp]:
  "bindS (lift_res (Ok x)) f s = f x s"
  "bindS (lift_res (Err e)) f s = (Err e, s)"
  "bindS (lift_res (Panic p)) f s = (Panic p, s)"
  by (simp_all add: bindS_def lift_res_def)

lemma bindS_OkE:
  assumes "bindS m f s = (Ok y, t)"
  obtains x s' where "m s = (Ok x, s')" and "f x s' = (Ok y, t)"
proof -
  obtain r s' where r: "m s = (r, s')" by (cases "m s")
  with assms obtain x where "r = Ok x"
    by (cases r) (auto simp: bindS_def)
  with r assms that show thesis by (simp add: bindS_def)
qed

lemma must_ok_Ok_iff [simp]: "must_ok r = Ok x \<longleftrightarrow> r = Ok x"
  by (cases r) simp_all

lemma wrap_res_Ok_iff [simp]: "wrap_res msg r = Ok x \<longleftrightarrow> r = Ok x"
  by (cases r) auto

lemma recast_Ok_iff [simp]: "recast k r = Ok x \<longleftrightarrow> r = Ok x"
  by (cases r) auto

lemma recast_Err: "recast k r = Err e \<Longrightarrow> err_is k e"
  by (cases r) auto

lemma wrapS_Ok_iff: "wrapS msg m s = (Ok x, t) \<longleftrightarrow> m s = (Ok x, t)"
  by (cases "m s") (simp add: wrapS_def)

lemma bind_res_Ok_iff: "bind_res r f = Ok y \<longleftrightarrow> (\<exists>x. r = Ok x \<and> f x = Ok y)"
  by (cases r) auto

text \<open>A loop that converts the elements of a list and returns with the first failure.\<close>

fun traverse :: "('a \<Rightarrow> 'b res) \<Rightarrow> 'a list \<Rightarrow> 'b list res" where
  "traverse f [] = Ok []"
| "traverse f (x # xs) = bind_res (f x) (\<lambda>y. bind_res (traverse f xs) (\<lambda>ys. Ok (y # ys)))"

lemma traverse_all2:
  "traverse f xs = Ok ys \<longleftrightarrow> list_all2 (\<lambda>x y. f x = Ok y) xs ys"
proof (induction xs arbitrary: ys)
  case (Cons x xs)
  then show ?case by (cases ys) (auto simp: bind_res_Ok_iff)
qed auto

lemma fail_simps [simp]:
  "fail k \<noteq> Ok x" "failw k msg \<noteq> Ok x" "Ok x \<noteq> fail k" "Ok x \<noteq> failw k msg"
  by (simp_all add: fail_def failw_def)

text \<open>
  An invariant of the state that a call keeps whatever it returns, and the closure of this
  property under sequencing: the preservation proofs of the keepers use these rules.
\<close>

definition keeps :: "('s \<Rightarrow> bool) \<Rightarrow> ('s, 'a) act \<Rightarrow> bool" where
  "keeps P m \<longleftrightarrow> (\<forall>s. P s \<longrightarrow> P (snd (m s)))"

lemma keepsI [intro?]: "(\<And>s. P s \<Longrightarrow> P (snd (m s))) \<Longrightarrow> keeps P m"
  by (simp add: keeps_def)

lemma keepsD: "keeps P m \<Longrightarrow> P s \<Longrightarrow> m s = (r, t) \<Longrightarrow> P t"
  by (metis keeps_def snd_conv)

lemma keeps_ret: "keeps P (ret x)"
  by (simp add: keeps_def ret_def)

lemma keeps_lift_res: "keeps P (lift_res r)"
  by (simp add: keeps_def lift_res_def)

lemma keeps_gets: "keeps P (gets f)"
  by (simp add: keeps_def gets_def)

lemma keeps_modify: "(\<And>s. P s \<Longrightarrow> P (f s)) \<Longrightarrow> keeps P (modify f)"
  by (simp add: keeps_def modify_def)

lemma keeps_wrapS: "keeps P m \<Longrightarrow> keeps P (wrapS msg m)"
  by (simp add: keeps_def wrapS_def)

lemma keeps_bindS:
  assumes "keeps P m" and "\<And>x. keeps P (f x)"
  shows "keeps P (bindS m f)"
proof
  fix s assume "P s"
  obtain r s' where r: "m s = (r, s')" by (cases "m s")
  with assms(1) \<open>P s\<close> have "P s'" by (rule keepsD)
  with r assms(2) show "P (snd (bindS m f s))"
    by (cases r) (auto simp: bindS_def keeps_def)
qed

lemma keeps_seqS: "keeps P m \<Longrightarrow> keeps P n \<Longrightarrow> keeps P (seqS m n)"
  by (simp add: seqS_def keeps_bindS)

lemmas keeps_rules =
  keeps_ret keeps_lift_res keeps_gets keeps_wrapS keeps_bindS keeps_seqS

text \<open>The same for a call that returns without error; a failed call is rolled back by its caller.\<close>

definition keeps_ok :: "('s \<Rightarrow> bool) \<Rightarrow> ('s, 'a) act \<Rightarrow> bool" where
  "keeps_ok P m \<longleftrightarrow> (\<forall>s x s'. P s \<longrightarrow> m s = (Ok x, s') \<longrightarrow> P s')"

lemma keeps_okI: "(\<And>s x s'. P s \<Longrightarrow> m s = (Ok x, s') \<Longrightarrow> P s') \<Longrightarrow> keeps_ok P m"
  by (auto simp: keeps_ok_def)

lemma keeps_okD: "keeps_ok P m \<Longrightarrow> P s \<Longrightarrow> m s = (Ok x, s') \<Longrightarrow> P s'"
  by (auto simp: keeps_ok_def)

lemma keeps_ok_ret: "keeps_ok P (ret x)" "keeps_ok P (lift_res r)" "keeps_ok P (gets f)"
  by (auto simp: keeps_ok_def ret_def lift_res_def gets_def)

lemma keeps_ok_modify: "(\<And>s. P s \<Longrightarrow> P (f s)) \<Longrightarrow> keeps_ok P (modify f)"
  by (simp add: keeps_ok_def modify_def)

lemma keeps_ok_wrapS: "keeps_ok P m \<Longrightarrow> keeps_ok P (wrapS msg m)"
  by (auto simp: keeps_ok_def wrapS_Ok_iff)

lemma keeps_ok_bindS: "keeps_ok P m \<Longrightarrow> (\<And>x. keeps_ok P (f x)) \<Longrightarrow> keeps_ok P (bindS m f)"
  by (rule keeps_okI) (erule bindS_OkE, blast dest: keeps_okD)

lemma keeps_ok_seqS: "keeps_ok P m \<Longrightarrow> keeps_ok P n \<Longrightarrow> keeps_ok P (seqS m n)"
  by (simp add: seqS_def keeps_ok_bindS)

lemmas keeps_ok_rules = keeps_ok_ret keeps_ok_wrapS keeps_ok_bindS keeps_ok_seqS

section \<open>Events\<close>

text \<open>\<open>sdk.Event\<close>: a type and attributes in order.\<close>

datatype event = Event (event_Type: string) (event_Attributes: "(string \<times> string) list")

section \<open>Slices\<close>

text \<open>
  A Go slice is a window on a backing array: \<open>Slice arr n\<close> shows the first \<open>n\<close> elements of
  \<open>arr\<close>. Copying a slice copies the header only, so two copies see each other's in-place
  changes of the array.
\<close>

datatype 'a slice = Slice (backing: "'a list") (slen: nat)

definition slice_list :: "'a slice \<Rightarrow> 'a list" where
  "slice_list s = take (slen s) (backing s)"

definition slice_of :: "'a list \<Rightarrow> 'a slice" where
  "slice_of xs = Slice xs (length xs)"

text \<open>\<open>append(s, x)\<close>: in place when the capacity allows it, else on a longer array.\<close>

definition slice_append :: "'a slice \<Rightarrow> 'a \<Rightarrow> 'a slice" where
  "slice_append s x =
     Slice (take (slen s) (backing s) @ [x] @ drop (Suc (slen s)) (backing s)) (Suc (slen s))"

text \<open>
  \<open>append(s[0:i], s[i+1:]...)\<close> for an index \<open>i\<close> within the length: the tail moves one place
  to the left in the array, the array's last visible cell keeps its old value.
\<close>

definition slice_cut :: "'a slice \<Rightarrow> nat \<Rightarrow> 'a slice" where
  "slice_cut s i =
     Slice (take i (backing s) @ drop (Suc i) (take (slen s) (backing s)) @ drop (slen s - 1) (backing s))
       (slen s - 1)"

definition slice_ok :: "'a slice \<Rightarrow> bool" where
  "slice_ok s \<longleftrightarrow> slen s \<le> length (backing s)"

lemma slice_list_of [simp]: "slice_list (slice_of xs) = xs"
  by (simp add: slice_list_def slice_of_def)

lemma slice_list_append:
  "slice_ok s \<Longrightarrow> slice_list (slice_append s x) = slice_list s @ [x]"
  by (simp add: slice_list_def slice_append_def slice_ok_def min_def)

lemma slice_list_cut:
  assumes "slice_ok s" and "i < slen s"
  shows "slice_list (slice_cut s i) = take i (slice_list s) @ drop (Suc i) (slice_list s)"
proof -
  have len: "length (take i (backing s) @ drop (Suc i) (take (slen s) (backing s))) = slen s - 1"
    using assms by (simp add: slice_ok_def)
  have "slice_list (slice_cut s i) =
      take (slen s - 1) ((take i (backing s) @ drop (Suc i) (take (slen s) (backing s))) @
        drop (slen s - 1) (backing s))"
    by (simp add: slice_list_def slice_cut_def)
  also have "\<dots> = take i (backing s) @ drop (Suc i) (take (slen s) (backing s))"
    by (subst len [symmetric]) (rule append_eq_conv_conj [THEN iffD1, THEN conjunct1, symmetric], rule refl)
  finally have "slice_list (slice_cut s i) = take i (backing s) @ drop (Suc i) (take (slen s) (backing s))" .
  moreover have "take i (backing s) = take i (slice_list s)"
    using assms by (simp add: slice_list_def min_def)
  ultimately show ?thesis by (simp add: slice_list_def)
qed

end
