(* ===== verification/KVStore.thy ===== *)
theory KVStore
  imports Prelude
begin

text \<open>
  The modules keep their state in a key-value store of the SDK: byte strings to byte strings,
  with reads, writes, deletes and iteration over a key prefix in ascending (or descending) key
  order. The state is a list of entries with strictly ascending keys, so that iteration is
  evaluated on concrete stores. What the keepers rely on is stated once, as the locale
  \<open>kv_store\<close>; the lemmas on prefixes that the keepers use are proved in it and the
  interpretation \<open>kvs\<close> discharges its laws for the entry list.
\<close>

section \<open>The store and its operations\<close>

type_synonym kv = "(bytes \<times> bytes) list"

fun kv_set :: "kv \<Rightarrow> bytes \<Rightarrow> bytes \<Rightarrow> kv" where
  "kv_set [] k v = [(k, v)]"
| "kv_set ((a, w) # s) k v =
     (if k = a then (k, v) # s else if a < k then (a, w) # kv_set s k v else (k, v) # (a, w) # s)"

definition kv_get :: "kv \<Rightarrow> bytes \<Rightarrow> bytes option" where
  "kv_get s k = map_of s k"

definition kv_del :: "kv \<Rightarrow> bytes \<Rightarrow> kv" where
  "kv_del s k = filter (\<lambda>e. fst e \<noteq> k) s"

definition kv_has :: "kv \<Rightarrow> bytes \<Rightarrow> bool" where
  "kv_has s k \<longleftrightarrow> kv_get s k \<noteq> None"

definition kv_sorted :: "kv \<Rightarrow> bool" where
  "kv_sorted s \<longleftrightarrow> sorted_wrt (<) (map fst s)"

text \<open>
  \<open>prefix.NewStore(store, p)\<close> and its iterators: the entries whose key starts with \<open>p\<close>, with
  the prefix cut off the key. \<open>kv_range\<close> bounds the (cut) keys by a start (inclusive) and an
  end (exclusive).
\<close>

definition has_prefix :: "bytes \<Rightarrow> bytes \<Rightarrow> bool" where
  "has_prefix p k \<longleftrightarrow> take (length p) k = p"

definition prefix_entries :: "bytes \<Rightarrow> kv \<Rightarrow> kv" where
  "prefix_entries p s =
     map (\<lambda>e. (drop (length p) (fst e), snd e)) (filter (\<lambda>e. has_prefix p (fst e)) s)"

definition kv_range :: "bytes \<Rightarrow> bytes \<Rightarrow> kv \<Rightarrow> kv" where
  "kv_range lo hi s = filter (\<lambda>e. lo \<le> fst e \<and> fst e < hi) s"

lemma has_prefix_iff: "has_prefix p k \<longleftrightarrow> (\<exists>x. k = p @ x)"
  unfolding has_prefix_def by (metis append_eq_conv_conj append_take_drop_id)

lemma has_prefix_append [simp]: "has_prefix p (p @ x)"
  by (simp add: has_prefix_def)

lemma in_prefix_entries: "(x, v) \<in> set (prefix_entries p s) \<longleftrightarrow> (p @ x, v) \<in> set s"
  by (force simp: prefix_entries_def has_prefix_iff)

lemma append_less_iff: "(p @ x :: bytes) < p @ y \<longleftrightarrow> x < y"
  by (induction p) auto

lemma kv_sorted_prefix_entries: "kv_sorted s \<Longrightarrow> kv_sorted (prefix_entries p s)"
proof (induction s)
  case Nil
  show ?case by (simp add: prefix_entries_def kv_sorted_def)
next
  case (Cons e s)
  obtain k v where e: "e = (k, v)" by (cases e)
  have IH: "kv_sorted (prefix_entries p s)" and hd: "\<And>a w. (a, w) \<in> set s \<Longrightarrow> k < a"
    using Cons by (force simp: kv_sorted_def e)+
  show ?case
  proof (cases "has_prefix p k")
    case True
    then obtain x where k: "k = p @ x" by (auto simp: has_prefix_iff)
    have "x < y" if "(y, w) \<in> set (prefix_entries p s)" for y w
      using hd [of "p @ y" w] that by (simp add: in_prefix_entries k append_less_iff)
    moreover have "prefix_entries p (e # s) = (x, v) # prefix_entries p s"
      by (simp add: prefix_entries_def e k)
    ultimately show ?thesis using IH by (auto simp: kv_sorted_def)
  next
    case False
    with IH show ?thesis by (simp add: prefix_entries_def e)
  qed
qed

lemma kv_sorted_keys_unique: "kv_sorted s \<Longrightarrow> (k, v) \<in> set s \<Longrightarrow> (k, w) \<in> set s \<Longrightarrow> v = w"
  by (induction s) (auto simp: kv_sorted_def)

lemma kv_sorted_eqI:
  assumes s: "kv_sorted s" and t: "kv_sorted t" and eq: "set s = set t"
  shows "s = t"
proof -
  have key: "map fst s = map fst t"
    using s t eq by (intro strict_sorted_equal) (auto simp: kv_sorted_def)
  then have len: "length s = length t" by (metis length_map)
  show ?thesis
  proof (rule nth_equalityI [OF len])
    fix i assume i: "i < length s"
    have fst: "fst (s ! i) = fst (t ! i)" using key i len by (metis nth_map)
    have "(fst (t ! i), snd (s ! i)) \<in> set t" "(fst (t ! i), snd (t ! i)) \<in> set t"
      using i len eq fst nth_mem by (metis prod.collapse)+
    then have "snd (s ! i) = snd (t ! i)" by (rule kv_sorted_keys_unique [OF t])
    with fst show "s ! i = t ! i" by (rule prod_eqI)
  qed
qed

section \<open>The contract of a key-value store\<close>

locale kv_store =
  fixes get :: "'s \<Rightarrow> bytes \<Rightarrow> bytes option"
    and put :: "'s \<Rightarrow> bytes \<Rightarrow> bytes \<Rightarrow> 's"
    and del :: "'s \<Rightarrow> bytes \<Rightarrow> 's"
    and entries :: "'s \<Rightarrow> kv"
    and inv :: "'s \<Rightarrow> bool"
  assumes get_put: "inv s \<Longrightarrow> get (put s k v) k' = (if k' = k then Some v else get s k')"
    and get_del: "inv s \<Longrightarrow> get (del s k) k' = (if k' = k then None else get s k')"
    and inv_put: "inv s \<Longrightarrow> inv (put s k v)"
    and inv_del: "inv s \<Longrightarrow> inv (del s k)"
    and entries_iff: "inv s \<Longrightarrow> (k, v) \<in> set (entries s) \<longleftrightarrow> get s k = Some v"
    and entries_ascending: "inv s \<Longrightarrow> kv_sorted (entries s)"
begin

lemma iterate_iff: "inv s \<Longrightarrow> (x, v) \<in> set (prefix_entries p (entries s)) \<longleftrightarrow> get s (p @ x) = Some v"
  by (simp add: in_prefix_entries entries_iff)

lemma iterate_ascending: "inv s \<Longrightarrow> kv_sorted (prefix_entries p (entries s))"
  by (simp add: entries_ascending kv_sorted_prefix_entries)

text \<open>A write or delete under another prefix is not seen by an iteration.\<close>

lemma iterate_put_other:
  assumes "inv s" and "\<not> has_prefix p k"
  shows "prefix_entries p (entries (put s k v)) = prefix_entries p (entries s)"
proof (rule kv_sorted_eqI)
  show "kv_sorted (prefix_entries p (entries (put s k v)))" "kv_sorted (prefix_entries p (entries s))"
    using assms(1) by (simp_all add: iterate_ascending inv_put)
  show "set (prefix_entries p (entries (put s k v))) = set (prefix_entries p (entries s))"
    using assms by (auto simp: iterate_iff inv_put get_put split: if_splits)
qed

lemma iterate_del_other:
  assumes "inv s" and "\<not> has_prefix p k"
  shows "prefix_entries p (entries (del s k)) = prefix_entries p (entries s)"
proof (rule kv_sorted_eqI)
  show "kv_sorted (prefix_entries p (entries (del s k)))" "kv_sorted (prefix_entries p (entries s))"
    using assms(1) by (simp_all add: iterate_ascending inv_del)
  show "set (prefix_entries p (entries (del s k))) = set (prefix_entries p (entries s))"
    using assms by (auto simp: iterate_iff inv_del get_del split: if_splits)
qed

text \<open>
  Writing a key above every key under the prefix appends to the iteration: the reverse iterator
  then starts with the new entry.
\<close>

lemma iterate_put_above:
  assumes inv: "inv s" and above: "\<And>y w. (y, w) \<in> set (prefix_entries p (entries s)) \<Longrightarrow> y < x"
  shows "prefix_entries p (entries (put s (p @ x) v)) = prefix_entries p (entries s) @ [(x, v)]"
proof (rule kv_sorted_eqI)
  show "kv_sorted (prefix_entries p (entries (put s (p @ x) v)))"
    using inv by (simp add: iterate_ascending inv_put)
  show "kv_sorted (prefix_entries p (entries s) @ [(x, v)])"
    using iterate_ascending [OF inv, of p] above
    by (fastforce simp: kv_sorted_def sorted_wrt_append)
  have "get s (p @ x) = None"
    using above [of x] iterate_iff [OF inv, of x _ p] by (metis less_irrefl option.exhaust)
  then show "set (prefix_entries p (entries (put s (p @ x) v))) =
      set (prefix_entries p (entries s) @ [(x, v)])"
    using inv by (auto simp: iterate_iff inv_put get_put split: if_splits)
qed

lemma iterate_del:
  assumes inv: "inv s"
  shows "prefix_entries p (entries (del s (p @ x))) =
    filter (\<lambda>e. fst e \<noteq> x) (prefix_entries p (entries s))"
proof (rule kv_sorted_eqI)
  show "kv_sorted (prefix_entries p (entries (del s (p @ x))))"
    using inv by (simp add: iterate_ascending inv_del)
  have "sorted_wrt (\<lambda>a b. fst a < fst b) (prefix_entries p (entries s))"
    using iterate_ascending [OF inv, of p] by (simp add: kv_sorted_def sorted_wrt_map)
  then show "kv_sorted (filter (\<lambda>e. fst e \<noteq> x) (prefix_entries p (entries s)))"
    by (simp add: kv_sorted_def sorted_wrt_map sorted_wrt_filter)
  show "set (prefix_entries p (entries (del s (p @ x)))) =
      set (filter (\<lambda>e. fst e \<noteq> x) (prefix_entries p (entries s)))"
    using inv by (auto simp: iterate_iff inv_del get_del split: if_splits)
qed

end

section \<open>The entry list provides it\<close>

lemma set_kv_set:
  "kv_sorted s \<Longrightarrow> set (kv_set s k v) = {(k, v)} \<union> {e \<in> set s. fst e \<noteq> k}"
  by (induction s k v rule: kv_set.induct) (auto simp: kv_sorted_def)

lemma kv_sorted_set: "kv_sorted s \<Longrightarrow> kv_sorted (kv_set s k v)"
  by (induction s k v rule: kv_set.induct) (auto simp: kv_sorted_def set_kv_set)

lemma kv_sorted_del: "kv_sorted s \<Longrightarrow> kv_sorted (kv_del s k)"
  by (simp add: kv_sorted_def kv_del_def sorted_wrt_map sorted_wrt_filter)

lemma kv_get_iff: "kv_sorted s \<Longrightarrow> kv_get s k = Some v \<longleftrightarrow> (k, v) \<in> set s"
  by (induction s) (force simp: kv_sorted_def kv_get_def)+

lemma kv_get_set: "kv_get (kv_set s k v) k' = (if k' = k then Some v else kv_get s k')"
  by (induction s k v rule: kv_set.induct) (auto simp: kv_get_def)

lemma kv_get_del: "kv_get (kv_del s k) k' = (if k' = k then None else kv_get s k')"
  by (induction s) (auto simp: kv_get_def kv_del_def)

lemma kv_sorted_Nil [simp]: "kv_sorted []"
  by (simp add: kv_sorted_def)

interpretation kvs: kv_store kv_get kv_set kv_del "\<lambda>s. s" kv_sorted
  by unfold_locales (simp_all add: kv_get_set kv_get_del kv_sorted_set kv_sorted_del kv_get_iff)

lemmas [kv_simps] = kv_get_set kv_get_del kv_sorted_set kv_sorted_del

end
