(* ===== verification/GoJson.thy ===== *)
theory GoJson
  imports Prelude
begin

text \<open>
  What the messages use of Go's \<open>encoding/json\<close>: decoding a parsed JSON value into a variable
  that already has a value. Null leaves a non-pointer variable as it is; an object sets the fields
  of a struct one after the other, with the key matched exactly or else ignoring the case of
  ASCII letters; unknown keys are ignored; a value of the wrong kind or out of range is an error.
  Raw bytes that are no JSON text are \<open>None\<close> where a caller decodes bytes.
\<close>

text \<open>\<open>JInt\<close> is a number literal without fraction and exponent, \<open>JNum\<close> any other number.\<close>

datatype json =
    JNull | JBool bool | JInt int | JNum string | JStr string
  | JArr "json list" | JObj "(string \<times> json) list"

type_synonym 'a decoder = "json \<Rightarrow> 'a \<Rightarrow> 'a res"

definition json_mismatch :: "'a res" where
  "json_mismatch = Err (Sentinel (PlainErr ''json: cannot unmarshal''))"

definition dec_string :: "string decoder" where
  "dec_string j v = (case j of JStr s \<Rightarrow> Ok s | JNull \<Rightarrow> Ok v | _ \<Rightarrow> json_mismatch)"

definition dec_int64 :: "int decoder" where
  "dec_int64 j v =
     (case j of JInt i \<Rightarrow> if in_int64 i then Ok i else json_mismatch | JNull \<Rightarrow> Ok v | _ \<Rightarrow> json_mismatch)"

definition dec_uint64 :: "uint64 decoder" where
  "dec_uint64 j v =
     (case j of
        JInt i \<Rightarrow> if 0 \<le> i \<and> i < 2 ^ 64 then Ok (word_of_int i) else json_mismatch
      | JNull \<Rightarrow> Ok v
      | _ \<Rightarrow> json_mismatch)"

text \<open>A pointer: null sets it to nil, any other value is decoded into what it points to.\<close>

definition dec_ptr :: "'a \<Rightarrow> 'a decoder \<Rightarrow> 'a option decoder" where
  "dec_ptr zero d j p =
     (case j of
        JNull \<Rightarrow> Ok None
      | _ \<Rightarrow> bind_res (d j (case p of None \<Rightarrow> zero | Some v \<Rightarrow> v)) (\<lambda>v. Ok (Some v)))"

subsection \<open>Structs\<close>

definition fold_char :: "char \<Rightarrow> char" where
  "fold_char c = (let n = of_char c :: nat in if 65 \<le> n \<and> n \<le> 90 then char_of (n + 32) else c)"

definition find_field :: "(string \<times> 'a) list \<Rightarrow> string \<Rightarrow> 'a option" where
  "find_field fs key =
     (case map_of fs key of
        Some d \<Rightarrow> Some d
      | None \<Rightarrow> map_option snd (find (\<lambda>f. map fold_char (fst f) = map fold_char key) fs))"

fun dec_fields :: "(string \<times> 'a decoder) list \<Rightarrow> (string \<times> json) list \<Rightarrow> 'a \<Rightarrow> 'a res" where
  "dec_fields fs [] v = Ok v"
| "dec_fields fs ((key, j) # kvs) v =
     (case find_field fs key of
        None \<Rightarrow> dec_fields fs kvs v
      | Some d \<Rightarrow> bind_res (d j v) (dec_fields fs kvs))"

definition dec_struct :: "(string \<times> 'a decoder) list \<Rightarrow> 'a decoder" where
  "dec_struct fs j v =
     (case j of JNull \<Rightarrow> Ok v | JObj kvs \<Rightarrow> dec_fields fs kvs v | _ \<Rightarrow> json_mismatch)"

definition at_field :: "('r \<Rightarrow> 'a) \<Rightarrow> (('a \<Rightarrow> 'a) \<Rightarrow> 'r \<Rightarrow> 'r) \<Rightarrow> 'a decoder \<Rightarrow> 'r decoder" where
  "at_field get upd d j r = bind_res (d j (get r)) (\<lambda>x. Ok (upd (\<lambda>_. x) r))"

text \<open>\<open>map[string]json.RawMessage\<close>: exact keys, the last one wins.\<close>

definition dec_raw_map :: "json \<Rightarrow> (string \<rightharpoonup> json) res" where
  "dec_raw_map j =
     (case j of JNull \<Rightarrow> Ok (\<lambda>_. None) | JObj kvs \<Rightarrow> Ok (map_of (rev kvs)) | _ \<Rightarrow> json_mismatch)"

subsection \<open>Byte slices\<close>

text \<open>
  A \<open>[]byte\<close> is decoded from a string in base64 (line breaks are ignored, padding is
  required) or from an array of numbers.
\<close>

definition b64_value :: "char \<Rightarrow> nat option" where
  "b64_value c =
     (let n = of_char c :: nat in
      if 65 \<le> n \<and> n \<le> 90 then Some (n - 65)
      else if 97 \<le> n \<and> n \<le> 122 then Some (n - 71)
      else if 48 \<le> n \<and> n \<le> 57 then Some (n + 4)
      else if n = 43 then Some 62
      else if n = 47 then Some 63
      else None)"

fun b64_groups :: "string \<Rightarrow> bytes option" where
  "b64_groups [] = Some []"
| "b64_groups (a # b # c # d # rest) =
     (case (b64_value a, b64_value b) of
        (Some x, Some y) \<Rightarrow>
          if c = CHR ''='' then
            (if d = CHR ''='' \<and> rest = [] then Some [of_nat (4 * x + y div 16)] else None)
          else (case b64_value c of
            None \<Rightarrow> None
          | Some z \<Rightarrow>
              if d = CHR ''='' then
                (if rest = [] then Some [of_nat (4 * x + y div 16), of_nat (16 * y + z div 4)] else None)
              else (case (b64_value d, b64_groups rest) of
                (Some u, Some bs) \<Rightarrow>
                  Some (of_nat (4 * x + y div 16) # of_nat (16 * y + z div 4) # of_nat (64 * z + u) # bs)
              | _ \<Rightarrow> None))
      | _ \<Rightarrow> None)"
| "b64_groups _ = None"

definition base64_decode :: "string \<Rightarrow> bytes res" where
  "base64_decode s =
     (case b64_groups (filter (\<lambda>c. of_char c \<noteq> (10 :: nat) \<and> of_char c \<noteq> (13 :: nat)) s) of
        Some bs \<Rightarrow> Ok bs
      | None \<Rightarrow> Err (Sentinel (PlainErr ''illegal base64 data'')))"

fun dec_byte_list :: "json list \<Rightarrow> bytes res" where
  "dec_byte_list [] = Ok []"
| "dec_byte_list (JInt i # js) =
     (if 0 \<le> i \<and> i < 256 then bind_res (dec_byte_list js) (\<lambda>bs. Ok (word_of_int i # bs))
      else json_mismatch)"
| "dec_byte_list (JNull # js) = bind_res (dec_byte_list js) (\<lambda>bs. Ok (0 # bs))"
| "dec_byte_list (_ # js) = json_mismatch"

definition dec_bytes :: "bytes decoder" where
  "dec_bytes j v =
     (case j of
        JNull \<Rightarrow> Ok []
      | JStr s \<Rightarrow> base64_decode s
      | JArr js \<Rightarrow> dec_byte_list js
      | _ \<Rightarrow> json_mismatch)"

lemmas dec_defs =
  dec_string_def dec_int64_def dec_uint64_def dec_ptr_def dec_struct_def at_field_def
  find_field_def fold_char_def dec_raw_map_def dec_bytes_def json_mismatch_def

lemma json_mismatch_simps [simp]: "json_mismatch \<noteq> Ok x" "Ok x \<noteq> json_mismatch"
  by (simp_all add: json_mismatch_def)

lemma dec_int64_range: "dec_int64 j v = Ok i \<Longrightarrow> in_int64 v \<Longrightarrow> in_int64 i"
  by (auto simp: dec_int64_def split: json.splits if_splits)

end
