(* ===== verification/Privileges.thy ===== *)
theory Privileges
  imports KVStore GoJson "HOL-Library.Char_ord"
begin

text \<open>
  \<open>x/twasm/types/privilege.go\<close>: the registry of privilege types that the package variables
  fill when the program starts, the conversions between a type and its name, and the JSON form.
  The lemmas compute the registry and show that names and types correspond one to one.
\<close>

section \<open>The registry of privilege types\<close>

type_synonym PrivilegeType = uint8

definition PrivilegeTypeEmpty :: PrivilegeType where "PrivilegeTypeEmpty = 0"
definition PrivilegeTypeBeginBlock :: PrivilegeType where "PrivilegeTypeBeginBlock = 0x1"
definition PrivilegeTypeEndBlock :: PrivilegeType where "PrivilegeTypeEndBlock = 0x2"
definition PrivilegeTypeValidatorSetUpdate :: PrivilegeType where
  "PrivilegeTypeValidatorSetUpdate = 0x3"
definition PrivilegeTypeGovProposalExecutor :: PrivilegeType where
  "PrivilegeTypeGovProposalExecutor = 0x4"
definition PrivilegeTypeTokenMinter :: PrivilegeType where "PrivilegeTypeTokenMinter = 0x5"
definition PrivilegeConsensusParamChanger :: PrivilegeType where
  "PrivilegeConsensusParamChanger = 0x6"
definition PrivilegeDelegator :: PrivilegeType where "PrivilegeDelegator = 0x7"
definition PrivilegeStateExporterImporter :: PrivilegeType where
  "PrivilegeStateExporterImporter = 0x8"

lemmas privilege_type_defs =
  PrivilegeTypeEmpty_def PrivilegeTypeBeginBlock_def PrivilegeTypeEndBlock_def
  PrivilegeTypeValidatorSetUpdate_def PrivilegeTypeGovProposalExecutor_def
  PrivilegeTypeTokenMinter_def PrivilegeConsensusParamChanger_def PrivilegeDelegator_def
  PrivilegeStateExporterImporter_def

text \<open>
  The two package level maps that the registrations fill. A Go map is iterated in any order;
  the list keeps one order and \<open>type_from_order_irrelevant\<close> shows that it does not matter.
\<close>

record privilege_registry =
  callbackTypeToString :: "(PrivilegeType \<times> string) list"
  singleInstanceCallbackTypes :: "PrivilegeType list"

definition type_from :: "(PrivilegeType \<times> string) list \<Rightarrow> string \<Rightarrow> PrivilegeType option" where
  "type_from tbl name = map_option fst (find (\<lambda>e. snd e = name) tbl)"

definition registerCallbackType ::
    "uint8 \<Rightarrow> string \<Rightarrow> bool \<Rightarrow> (privilege_registry, PrivilegeType) act" where
  "registerCallbackType i name singleton r =
     (if i = 0 then (Panic ''unique number must not be empty'', r)
      else if map_of (callbackTypeToString r) i \<noteq> None then (Panic ''type exists already'', r)
      else if type_from (callbackTypeToString r) name \<noteq> None then (Panic ''name exists already'', r)
      else (Ok i,
        r\<lparr>callbackTypeToString := callbackTypeToString r @ [(i, name)],
          singleInstanceCallbackTypes :=
            (if singleton then singleInstanceCallbackTypes r @ [i]
             else singleInstanceCallbackTypes r)\<rparr>))"

text \<open>The initialisation of the package variables, in source order.\<close>

definition initPrivilegeTypes :: "(privilege_registry, PrivilegeType list) act" where
  "initPrivilegeTypes =
     bindS (registerCallbackType 0x1 ''begin_blocker'' False) (\<lambda>a.
     bindS (registerCallbackType 0x2 ''end_blocker'' False) (\<lambda>b.
     bindS (registerCallbackType 0x3 ''validator_set_updater'' True) (\<lambda>c.
     bindS (registerCallbackType 0x4 ''gov_proposal_executor'' False) (\<lambda>d.
     bindS (registerCallbackType 0x5 ''token_minter'' False) (\<lambda>e.
     bindS (registerCallbackType 0x6 ''consensus_param_changer'' False) (\<lambda>f.
     bindS (registerCallbackType 0x7 ''delegator'' False) (\<lambda>g.
     bindS (registerCallbackType 0x8 ''state_exporter_importer'' False) (\<lambda>h.
     ret [a, b, c, d, e, f, g, h]))))))))"

definition privilegeTypes :: privilege_registry where
  "privilegeTypes =
     snd (initPrivilegeTypes \<lparr>callbackTypeToString = [], singleInstanceCallbackTypes = []\<rparr>)"

definition PrivilegeTypeFrom :: "string \<Rightarrow> PrivilegeType option" where
  "PrivilegeTypeFrom name = type_from (callbackTypeToString privilegeTypes) name"

definition AllPrivilegeTypeNames :: "string list" where
  "AllPrivilegeTypeNames = sort (map snd (callbackTypeToString privilegeTypes))"

definition PrivilegeType_String :: "PrivilegeType \<Rightarrow> string" where
  "PrivilegeType_String t =
     (case map_of (callbackTypeToString privilegeTypes) t of None \<Rightarrow> '''' | Some n \<Rightarrow> n)"

definition IsSingleton :: "PrivilegeType \<Rightarrow> bool" where
  "IsSingleton t \<longleftrightarrow> t \<in> set (singleInstanceCallbackTypes privilegeTypes)"

definition PrivilegeType_ValidateBasic :: "PrivilegeType \<Rightarrow> unit res" where
  "PrivilegeType_ValidateBasic t =
     (if map_of (callbackTypeToString privilegeTypes) t = None then fail WasmErrInvalid else Ok ())"

text \<open>\<open>json.Unmarshal\<close> into a fresh \<open>string\<close>.\<close>

definition PrivilegeType_UnmarshalJSON :: "json \<Rightarrow> PrivilegeType \<Rightarrow> PrivilegeType res" where
  "PrivilegeType_UnmarshalJSON raw t =
     bind_res (dec_string raw '''') (\<lambda>src.
       if length src = 0 then fail WasmErrInvalid
       else (case PrivilegeTypeFrom src of Some v \<Rightarrow> Ok v | None \<Rightarrow> Ok t))"

text \<open>The zero value marshals to no bytes at all (\<open>None\<close>).\<close>

definition PrivilegeType_MarshalJSON :: "PrivilegeType \<Rightarrow> json option res" where
  "PrivilegeType_MarshalJSON t =
     (if t = 0 then Ok None
      else bind_res (PrivilegeType_ValidateBasic t) (\<lambda>_. Ok (Some (JStr (PrivilegeType_String t)))))"

subsection \<open>What the registry holds\<close>

definition registry_table :: "(PrivilegeType \<times> string) list" where
  "registry_table =
     [(1, ''begin_blocker''), (2, ''end_blocker''), (3, ''validator_set_updater''),
      (4, ''gov_proposal_executor''), (5, ''token_minter''), (6, ''consensus_param_changer''),
      (7, ''delegator''), (8, ''state_exporter_importer'')]"

lemma initPrivilegeTypes_result:
  "initPrivilegeTypes \<lparr>callbackTypeToString = [], singleInstanceCallbackTypes = []\<rparr> =
     (Ok [1, 2, 3, 4, 5, 6, 7, 8],
      \<lparr>callbackTypeToString = registry_table, singleInstanceCallbackTypes = [3]\<rparr>)"
  by (simp add: initPrivilegeTypes_def bindS_def registerCallbackType_def type_from_def
      registry_table_def ret_def)

lemma privilegeTypes_eq:
  "privilegeTypes = \<lparr>callbackTypeToString = registry_table, singleInstanceCallbackTypes = [3]\<rparr>"
  by (simp add: privilegeTypes_def initPrivilegeTypes_result)

lemma distinct_registry_table:
  "distinct (map fst registry_table)" "distinct (map snd registry_table)"
  by (simp_all add: registry_table_def)

lemma type_from_Some_iff:
  assumes "distinct (map snd tbl)"
  shows "type_from tbl name = Some t \<longleftrightarrow> (t, name) \<in> set tbl"
  using assms by (induction tbl) (auto simp: type_from_def image_iff)

text \<open>A Go map has no order: any listing of the same registrations gives the same lookups.\<close>

lemma type_from_order_irrelevant:
  assumes "distinct (map snd tbl)" and "distinct (map snd tbl')" and "set tbl = set tbl'"
  shows "type_from tbl = type_from tbl'"
  using assms type_from_Some_iff [of tbl] type_from_Some_iff [of tbl']
  by (metis ext not_None_eq)

lemma PrivilegeTypeFrom_iff: "PrivilegeTypeFrom name = Some t \<longleftrightarrow> (t, name) \<in> set registry_table"
  by (simp add: PrivilegeTypeFrom_def privilegeTypes_eq type_from_Some_iff distinct_registry_table)

lemma PrivilegeType_String_registered:
  "(t, name) \<in> set registry_table \<Longrightarrow> PrivilegeType_String t = name"
  by (simp add: PrivilegeType_String_def privilegeTypes_eq map_of_eq_Some_iff
      distinct_registry_table split: option.split)

lemma IsSingleton_iff [simp]: "IsSingleton t \<longleftrightarrow> t = PrivilegeTypeValidatorSetUpdate"
  by (simp add: IsSingleton_def privilegeTypes_eq privilege_type_defs)

lemma String_of_From: "PrivilegeTypeFrom name = Some t \<Longrightarrow> PrivilegeType_String t = name"
  by (simp add: PrivilegeTypeFrom_iff PrivilegeType_String_registered)

lemma ValidateBasic_registered:
  "PrivilegeType_ValidateBasic t = Ok () \<longleftrightarrow> (\<exists>name. (t, name) \<in> set registry_table)"
  by (auto simp: PrivilegeType_ValidateBasic_def privilegeTypes_eq map_of_eq_None_iff image_iff)

lemma From_of_String:
  "PrivilegeType_ValidateBasic t = Ok () \<Longrightarrow> PrivilegeTypeFrom (PrivilegeType_String t) = Some t"
  by (auto simp: ValidateBasic_registered PrivilegeTypeFrom_iff PrivilegeType_String_registered)

lemma registered_nonempty: "(t, name) \<in> set registry_table \<Longrightarrow> name \<noteq> '''' \<and> t \<noteq> 0"
  by (auto simp: registry_table_def)

end
