(* ===== verification/ContractDetails.thy ===== *)
theory ContractDetails
  imports Privileges
begin

text \<open>
  \<open>x/twasm/types/contract_extension.go\<close>: the list of registered privileges that a contract
  carries in its contract info. The list is a Go slice that \<open>RemoveRegisteredPrivilege\<close> shortens
  in place; \<open>IterateRegisteredPrivileges\<close> has a value receiver, which copies the slice header
  only, so a callback that removes entries changes the array under the running loop. The lemmas
  say what each operation does to the list, and \<open>drain_result\<close> what remains when the callback
  removes every entry it is called with.
\<close>

section \<open>Data and operations\<close>

record RegisteredPrivilege =
  rp_PrivilegeType :: string
  rp_Position :: uint32

record PetriContractDetails =
  RegisteredPrivileges :: "RegisteredPrivilege slice"

definition registered_as :: "PrivilegeType \<Rightarrow> uint8 \<Rightarrow> RegisteredPrivilege" where
  "registered_as t pos = \<lparr>rp_PrivilegeType = PrivilegeType_String t, rp_Position = ucast pos\<rparr>"

definition AddRegisteredPrivilege ::
    "PetriContractDetails \<Rightarrow> PrivilegeType \<Rightarrow> uint8 \<Rightarrow> PetriContractDetails" where
  "AddRegisteredPrivilege d t pos =
     d\<lparr>RegisteredPrivileges := slice_append (RegisteredPrivileges d) (registered_as t pos)\<rparr>"

text \<open>
  The loop of \<open>RemoveRegisteredPrivilege\<close>: \<open>range\<close> fixes the length \<open>n\<close> when it starts but
  reads each element from the array when it gets there. Slicing \<open>d.RegisteredPrivileges[i+1:]\<close>
  beyond the current length panics.
\<close>

function remove_loop ::
    "RegisteredPrivilege \<Rightarrow> nat \<Rightarrow> nat \<Rightarrow> RegisteredPrivilege slice \<Rightarrow> RegisteredPrivilege slice res"
where
  "remove_loop src i n s =
     (if i < n then
        if backing s ! i = src then
          if Suc i \<le> slen s then remove_loop src (Suc i) n (slice_cut s i)
          else Panic ''slice bounds out of range''
        else remove_loop src (Suc i) n s
      else Ok s)"
  by pat_completeness auto
termination
  by (relation "measure (\<lambda>(src, i, n, s). n - i)") auto

declare remove_loop.simps [simp del]

definition RemoveRegisteredPrivilege ::
    "PetriContractDetails \<Rightarrow> PrivilegeType \<Rightarrow> uint8 \<Rightarrow> PetriContractDetails res" where
  "RemoveRegisteredPrivilege d t pos =
     bind_res
       (remove_loop (registered_as t pos) 0 (slen (RegisteredPrivileges d)) (RegisteredPrivileges d))
       (\<lambda>s. Ok (d\<lparr>RegisteredPrivileges := s\<rparr>))"

definition HasRegisteredPrivilege :: "PetriContractDetails \<Rightarrow> PrivilegeType \<Rightarrow> bool" where
  "HasRegisteredPrivilege d c \<longleftrightarrow>
     list_ex (\<lambda>v. rp_PrivilegeType v = PrivilegeType_String c) (slice_list (RegisteredPrivileges d))"

text \<open>
  The loop of \<open>IterateRegisteredPrivileges\<close> over the cells \<open>i, \<dots>, n - 1\<close>. The callback works
  on a state \<open>'s\<close> that may hold the shared array: \<open>arr\<close> reads it. Dereferencing the nil that
  \<open>PrivilegeTypeFrom\<close> returns for an unknown name panics.
\<close>

function iterate_cells ::
    "('s \<Rightarrow> RegisteredPrivilege list) \<Rightarrow> nat \<Rightarrow> nat \<Rightarrow> (PrivilegeType \<Rightarrow> uint8 \<Rightarrow> ('s, bool) act) \<Rightarrow>
     ('s, unit) act"
where
  "iterate_cells arr i n cb s =
     (if i < n then
        (let v = arr s ! i in
         case PrivilegeTypeFrom (rp_PrivilegeType v) of
           None \<Rightarrow> (Panic ''nil pointer dereference'', s)
         | Some t \<Rightarrow>
             (case cb t (ucast (rp_Position v)) s of
                (Ok stop, s') \<Rightarrow> if stop then (Ok (), s') else iterate_cells arr (Suc i) n cb s'
              | (Err e, s') \<Rightarrow> (Err e, s')
              | (Panic p, s') \<Rightarrow> (Panic p, s')))
      else (Ok (), s))"
  by pat_completeness auto
termination
  by (relation "measure (\<lambda>(arr, i, n, cb, s). n - i)") auto

declare iterate_cells.simps [simp del]

definition IterateRegisteredPrivileges ::
    "('s \<Rightarrow> PetriContractDetails) \<Rightarrow> (PrivilegeType \<Rightarrow> uint8 \<Rightarrow> ('s, bool) act) \<Rightarrow> ('s, unit) act"
where
  "IterateRegisteredPrivileges details cb s =
     iterate_cells (\<lambda>s. backing (RegisteredPrivileges (details s))) 0
       (slen (RegisteredPrivileges (details s))) cb s"

definition RegisteredPrivilege_ValidateBasic :: "RegisteredPrivilege \<Rightarrow> unit res" where
  "RegisteredPrivilege_ValidateBasic r =
     (if rp_Position r > 255 then failw WasmErrInvalid ''position exceeds max''
      else if rp_Position r = 0 then failw WasmErrEmpty ''position''
      else if PrivilegeTypeFrom (rp_PrivilegeType r) = None then failw WasmErrInvalid ''privilege type''
      else Ok ())"

fun validate_details :: "PrivilegeType list \<Rightarrow> RegisteredPrivilege list \<Rightarrow> unit res" where
  "validate_details unique [] = Ok ()"
| "validate_details unique (c # cs) =
     bind_res (wrap_res ''privilege %d'' (RegisteredPrivilege_ValidateBasic c)) (\<lambda>_.
       case PrivilegeTypeFrom (rp_PrivilegeType c) of
         None \<Rightarrow> Panic ''nil pointer dereference''
       | Some t \<Rightarrow>
           if t \<in> set unique then failw WasmErrDuplicate ''privilege %q''
           else validate_details (t # unique) cs)"

definition PetriContractDetails_ValidateBasic :: "PetriContractDetails \<Rightarrow> unit res" where
  "PetriContractDetails_ValidateBasic d = validate_details [] (slice_list (RegisteredPrivileges d))"

section \<open>Well-formed lists of privileges\<close>

text \<open>
  What \<open>ValidateBasic\<close> accepts: every entry is valid and no privilege type occurs twice.
\<close>

definition priv_ok :: "RegisteredPrivilege \<Rightarrow> bool" where
  "priv_ok r \<longleftrightarrow> 0 < rp_Position r \<and> rp_Position r \<le> 255 \<and>
     PrivilegeTypeFrom (rp_PrivilegeType r) \<noteq> None"

definition privs_ok :: "RegisteredPrivilege list \<Rightarrow> bool" where
  "privs_ok rs \<longleftrightarrow> (\<forall>r \<in> set rs. priv_ok r) \<and> distinct (map rp_PrivilegeType rs)"

definition priv_type :: "RegisteredPrivilege \<Rightarrow> PrivilegeType" where
  "priv_type r = the (PrivilegeTypeFrom (rp_PrivilegeType r))"

definition priv_pos :: "RegisteredPrivilege \<Rightarrow> uint8" where
  "priv_pos r = ucast (rp_Position r)"

lemma priv_okE:
  assumes "priv_ok r"
  shows "PrivilegeTypeFrom (rp_PrivilegeType r) = Some (priv_type r)"
  using assms by (auto simp: priv_ok_def priv_type_def)

lemma ucast_up_down:
  assumes "(w :: uint32) \<le> 255"
  shows "ucast (ucast w :: uint8) = w"
proof (rule word_uint_eqI)
  have "uint w \<le> 255" using assms by (simp add: word_le_def)
  then have "take_bit 8 (uint w) = uint w" by (intro take_bit_int_eq_self) auto
  then show "uint (ucast (ucast w :: uint8) :: uint32) = uint w"
    by (simp add: unsigned_ucast_eq unsigned_take_bit_eq)
qed

lemma registered_as_priv: "priv_ok r \<Longrightarrow> registered_as (priv_type r) (priv_pos r) = r"
  by (cases r) (auto simp: registered_as_def priv_pos_def priv_ok_def priv_type_def ucast_up_down
      dest: String_of_From)

lemma priv_ok_iff: "RegisteredPrivilege_ValidateBasic r = Ok () \<longleftrightarrow> priv_ok r"
  by (auto simp: RegisteredPrivilege_ValidateBasic_def priv_ok_def word_neq_0_conv not_less)

lemma validate_details_iff:
  "validate_details unique rs = Ok () \<longleftrightarrow>
     privs_ok rs \<and> (\<forall>r \<in> set rs. priv_type r \<notin> set unique)"
proof (induction unique rs rule: validate_details.induct)
  case (1 unique)
  show ?case by (simp add: privs_ok_def)
next
  case (2 unique c cs)
  have inj: "priv_type r = priv_type c \<longleftrightarrow> rp_PrivilegeType r = rp_PrivilegeType c"
    if "priv_ok r" "priv_ok c" for r
    by (metis priv_okE String_of_From priv_type_def that)
  show ?case
  proof (cases "priv_ok c")
    case True
    then show ?thesis
      using "2" inj priv_okE [OF True]
      by (auto simp: bind_res_Ok_iff priv_ok_iff privs_ok_def image_iff)
  next
    case False
    then show ?thesis
      by (auto simp: bind_res_Ok_iff priv_ok_iff privs_ok_def)
  qed
qed


section \<open>Removing one privilege\<close>

lemma backing_slice_cut_nth:
  assumes "slice_ok s" and "i < slen s" and "k < length (backing s)"
  shows "backing (slice_cut s i) ! k =
    (if k < i then backing s ! k else if Suc k < slen s then backing s ! Suc k else backing s ! k)"
  using assms by (auto simp: slice_cut_def slice_ok_def nth_append min_def)

lemma length_backing_slice_cut [simp]:
  "slice_ok s \<Longrightarrow> i < slen s \<Longrightarrow> length (backing (slice_cut s i)) = length (backing s)"
  by (simp add: slice_cut_def slice_ok_def)

lemma slen_slice_cut [simp]: "slen (slice_cut s i) = slen s - 1"
  by (simp add: slice_cut_def)

lemma slice_ok_cut: "slice_ok s \<Longrightarrow> i < slen s \<Longrightarrow> slice_ok (slice_cut s i)"
  using length_backing_slice_cut [of s i] by (simp add: slice_ok_def)

lemma remove_loop_absent:
  "(\<And>k. i \<le> k \<Longrightarrow> k < n \<Longrightarrow> backing s ! k \<noteq> src) \<Longrightarrow> remove_loop src i n s = Ok s"
proof (induction src i n s rule: remove_loop.induct)
  case (1 src i n s)
  show ?case
  proof (cases "i < n")
    case True
    with "1.prems" [of i] have "remove_loop src i n s = remove_loop src (Suc i) n s"
      by (simp add: remove_loop.simps [of src i n s])
    also have "\<dots> = Ok s"
      using "1.IH"(2) True "1.prems" by simp
    finally show ?thesis .
  next
    case False
    then show ?thesis by (simp add: remove_loop.simps [of src i n s])
  qed
qed

lemma remove_loop_skip:
  "(\<And>k. i \<le> k \<Longrightarrow> k < j \<Longrightarrow> backing s ! k \<noteq> src) \<Longrightarrow> i \<le> j \<Longrightarrow> j \<le> n \<Longrightarrow>
   remove_loop src i n s = remove_loop src j n s"
proof (induction "j - i" arbitrary: i)
  case 0
  then show ?case by simp
next
  case (Suc m)
  have i: "i < j" "i < n" "backing s ! i \<noteq> src"
    using Suc.hyps(2) Suc.prems by auto
  then have "remove_loop src i n s = remove_loop src (Suc i) n s"
    by (simp add: remove_loop.simps [of src i n s])
  also have "\<dots> = remove_loop src j n s"
    using Suc.hyps(2) Suc.prems i by (intro Suc.hyps(1)) auto
  finally show ?case .
qed

text \<open>On a list without repetition exactly the entry is cut out, in place.\<close>

lemma remove_loop_at:
  assumes ok: "slice_ok s" and dist: "distinct (slice_list s)"
    and j: "j < slen s" and src: "backing s ! j = src"
  shows "remove_loop src 0 (slen s) s = Ok (slice_cut s j)"
proof -
  have ne: "backing s ! k \<noteq> src" if "k < slen s" "k \<noteq> j" for k
  proof -
    have "slice_list s ! k \<noteq> slice_list s ! j"
      using dist j that ok by (subst nth_eq_iff_index_eq) (auto simp: slice_list_def slice_ok_def)
    then show ?thesis using that j src by (simp add: slice_list_def)
  qed
  have "remove_loop src 0 (slen s) s = remove_loop src j (slen s) s"
    using j ne by (intro remove_loop_skip) auto
  also have "\<dots> = remove_loop src (Suc j) (slen s) (slice_cut s j)"
    using j src by (simp add: remove_loop.simps [of src j])
  also have "\<dots> = Ok (slice_cut s j)"
    using ok j ne by (intro remove_loop_absent) (auto simp: backing_slice_cut_nth slice_ok_def)
  finally show ?thesis .
qed

lemma remove_loop_not_in:
  assumes "slice_ok s" and "src \<notin> set (slice_list s)"
  shows "remove_loop src 0 (slen s) s = Ok s"
  using assms by (intro remove_loop_absent) (auto simp: slice_list_def slice_ok_def in_set_conv_nth)

section \<open>Removing while iterating\<close>

text \<open>
  The callback of \<open>UnsetPrivileged\<close>: act on the privilege, then remove it from the list that is
  being iterated. \<open>f\<close> is what the caller does with the privilege.
\<close>

definition drain_cb ::
    "(PrivilegeType \<Rightarrow> uint8 \<Rightarrow> 'x \<Rightarrow> 'x) \<Rightarrow> PrivilegeType \<Rightarrow> uint8 \<Rightarrow>
     ('x \<times> PetriContractDetails, bool) act" where
  "drain_cb f t pos s =
     (case RemoveRegisteredPrivilege (snd s) t pos of
        Ok d \<Rightarrow> (Ok False, (f t pos (fst s), d))
      | Err e \<Rightarrow> (Err e, (f t pos (fst s), snd s))
      | Panic p \<Rightarrow> (Panic p, (f t pos (fst s), snd s)))"

definition drain ::
    "(PrivilegeType \<Rightarrow> uint8 \<Rightarrow> 'x \<Rightarrow> 'x) \<Rightarrow> ('x \<times> PetriContractDetails, unit) act" where
  "drain f = IterateRegisteredPrivileges snd (drain_cb f)"

text \<open>What the loop leaves in the list: every second entry, but never the last one.\<close>

fun skipped :: "'a list \<Rightarrow> 'a list" where
  "skipped [] = []"
| "skipped [x] = []"
| "skipped (x # y # xs) = x # skipped xs"

definition survivors :: "'a list \<Rightarrow> 'a list" where
  "survivors xs = skipped (tl xs)"

abbreviation drain_from ::
    "(PrivilegeType \<Rightarrow> uint8 \<Rightarrow> 'x \<Rightarrow> 'x) \<Rightarrow> nat \<Rightarrow> nat \<Rightarrow> 'x \<Rightarrow> RegisteredPrivilege slice \<Rightarrow>
     unit res \<times> 'x \<times> PetriContractDetails" where
  "drain_from f i n x s \<equiv>
     iterate_cells (\<lambda>st. backing (RegisteredPrivileges (snd st))) i n (drain_cb f)
       (x, \<lparr>RegisteredPrivileges = s\<rparr>)"

definition visit :: "(PrivilegeType \<Rightarrow> uint8 \<Rightarrow> 'x \<Rightarrow> 'x) \<Rightarrow> RegisteredPrivilege \<Rightarrow> 'x \<Rightarrow> 'x" where
  "visit f r x = f (priv_type r) (priv_pos r) x"

lemma drain_step:
  assumes "i < n" and v: "priv_ok (backing s ! i)"
    and rm: "remove_loop (backing s ! i) 0 (slen s) s = Ok s'"
  shows "drain_from f i n x s = drain_from f (Suc i) n (visit f (backing s ! i) x) s'"
  using assms registered_as_priv [OF v] priv_okE [OF v]
  by (subst iterate_cells.simps)
    (simp add: drain_cb_def RemoveRegisteredPrivilege_def visit_def priv_pos_def Let_def)

lemma drain_step_hit:
  assumes "i < n" and "priv_ok (backing s ! i)" and "slice_ok s" and "distinct (slice_list s)"
    and "j < slen s" and "backing s ! j = backing s ! i"
  shows "drain_from f i n x s = drain_from f (Suc i) n (visit f (backing s ! i) x) (slice_cut s j)"
  using assms by (intro drain_step) (simp_all add: remove_loop_at)

lemma drain_tail:
  assumes "slice_ok s" and "priv_ok z" and "z \<notin> set (slice_list s)"
    and "\<And>k. i \<le> k \<Longrightarrow> k < n \<Longrightarrow> backing s ! k = z"
  shows "\<exists>vs. set vs \<subseteq> {z} \<and>
    drain_from f i n x s = (Ok (), (fold (visit f) vs x, \<lparr>RegisteredPrivileges = s\<rparr>))"
  using assms(4)
proof (induction "n - i" arbitrary: i x)
  case 0
  then show ?case
    by (intro exI [of _ "[]"]) (simp add: iterate_cells.simps)
next
  case (Suc m)
  have m: "m = n - Suc i" using Suc.hyps(2) by simp
  have "drain_from f i n x s = drain_from f (Suc i) n (visit f z x) s"
    using Suc.hyps(2) Suc.prems [of i] assms(1-3) drain_step [of i n s s f x]
    by (simp add: remove_loop_not_in)
  moreover obtain vs where "set vs \<subseteq> {z}"
    "drain_from f (Suc i) n (visit f z x) s =
       (Ok (), (fold (visit f) vs (visit f z x), \<lparr>RegisteredPrivileges = s\<rparr>))"
    using Suc.hyps(1) [of "Suc i" "visit f z x"] m Suc.prems by auto
  ultimately show ?case
    by (intro exI [of _ "z # vs"]) simp
qed

lemma drop_last: "xs \<noteq> [] \<Longrightarrow> drop (length xs - 1) (xs @ ys) = last xs # ys"
  by (cases xs rule: rev_cases) auto

lemma skipped_subset: "set (skipped xs) \<subseteq> set xs"
  by (induction xs rule: skipped.induct) auto

lemma drain_loop:
  assumes "backing s = P @ R @ replicate k z" and "slen s = length P + length R"
    and "0 < k" and "distinct (P @ R)" and "\<forall>r \<in> set (P @ R). priv_ok r" and "priv_ok z"
    and "if R = [] then z \<notin> set P else last R = z"
  shows "\<exists>vs s'. drain_from f (Suc (length P)) (length P + length R + k) x s =
        (Ok (), (fold (visit f) vs x, \<lparr>RegisteredPrivileges = s'\<rparr>)) \<and>
      slice_list s' = P @ skipped R \<and> slice_ok s' \<and>
      set R - set (skipped R) \<subseteq> set vs \<and> set vs \<subseteq> insert z (set R - set (skipped R))"
  using assms
proof (induction R arbitrary: P k s x rule: skipped.induct)
  case 1
  have ok: "slice_ok s" and list: "slice_list s = P"
    using "1.prems"(1,2) by (simp_all add: slice_ok_def slice_list_def)
  have cells: "backing s ! j = z" if "Suc (length P) \<le> j" "j < length P + length [] + k" for j
    using that "1.prems"(1) by (simp add: nth_append)
  obtain vs where "set vs \<subseteq> {z}" and "drain_from f (Suc (length P)) (length P + length [] + k) x s =
      (Ok (), (fold (visit f) vs x, \<lparr>RegisteredPrivileges = s\<rparr>))"
    using drain_tail [OF ok "1.prems"(6), of "Suc (length P)" "length P + length [] + k" f x] cells "1.prems"(7)
    by (auto simp: list)
  then show ?case
    by (intro exI [of _ vs] exI [of _ s]) (simp add: list ok)
next
  case (2 b)
  have b: "b = z" using "2.prems"(7) by simp
  have ok: "slice_ok s" and list: "slice_list s = P @ [b]"
    using "2.prems"(1,2) by (simp_all add: slice_ok_def slice_list_def)
  let ?s = "slice_cut s (length P)" and ?i = "Suc (length P)" and ?n = "length P + length [b] + k"
  have cell: "backing s ! ?i = z" "backing s ! length P = z"
    using "2.prems"(1,3) b by (simp_all add: nth_append)
  have step: "drain_from f ?i ?n x s = drain_from f (Suc ?i) ?n (visit f z x) ?s"
    using drain_step_hit [of ?i ?n s "length P" f x] cell ok list "2.prems"(2-6) by simp
  have ok': "slice_ok ?s" and list': "slice_list ?s = P"
    using ok list "2.prems"(2) slice_list_cut [of s "length P"] by (simp_all add: slice_ok_cut)
  have cells: "backing ?s ! j = z" if "Suc ?i \<le> j" "j < ?n" for j
    using that ok "2.prems"(1,2) b by (simp add: backing_slice_cut_nth nth_append)
  obtain vs where "set vs \<subseteq> {z}" and "drain_from f (Suc ?i) ?n (visit f z x) ?s =
      (Ok (), (fold (visit f) vs (visit f z x), \<lparr>RegisteredPrivileges = ?s\<rparr>))"
    using drain_tail [OF ok' "2.prems"(6), of "Suc ?i" ?n f "visit f z x"] cells "2.prems"(4) b
    by (auto simp: list')
  with step show ?case
    by (intro exI [of _ "z # vs"] exI [of _ ?s]) (simp add: list' ok' b)
next
  case (3 b c R)
  have ok: "slice_ok s" and list: "slice_list s = P @ b # c # R"
    using "3.prems"(1,2) by (simp_all add: slice_ok_def slice_list_def)
  let ?i = "Suc (length P)" and ?n = "length P + length (b # c # R) + k"
  let ?s = "slice_cut s ?i"
  have cell: "backing s ! ?i = c"
    using "3.prems"(1) by (simp add: nth_append)
  have step: "drain_from f ?i ?n x s = drain_from f (Suc ?i) ?n (visit f c x) ?s"
    using drain_step_hit [of ?i ?n s ?i f x] cell ok list "3.prems"(2-6) by simp
  have drop: "drop (slen s - 1) (backing s) = last (c # R) # replicate k z"
    using drop_last [of "P @ b # c # R" "replicate k z"] "3.prems"(1,2) by (simp del: drop_append)
  then have "backing ?s = (P @ [b]) @ R @ replicate (Suc k) z"
    using "3.prems"(1,2,7) by (simp add: slice_cut_def)
  moreover have "slen ?s = length (P @ [b]) + length R"
    using "3.prems"(2) by simp
  moreover have "if R = [] then z \<notin> set (P @ [b]) else last R = z"
    using "3.prems"(4,7) by (auto split: if_splits)
  ultimately obtain vs s' where
    "drain_from f (Suc (length (P @ [b]))) (length (P @ [b]) + length R + Suc k) (visit f c x) ?s =
        (Ok (), (fold (visit f) vs (visit f c x), \<lparr>RegisteredPrivileges = s'\<rparr>))"
    "slice_list s' = (P @ [b]) @ skipped R" "slice_ok s'"
    "set R - set (skipped R) \<subseteq> set vs" "set vs \<subseteq> insert z (set R - set (skipped R))"
    using "3.IH" [of ?s "P @ [b]" "Suc k" "visit f c x"] "3.prems"(4-6) by auto
  moreover have "c \<notin> set (skipped R)" "b \<notin> set R" "b \<noteq> c" "z \<in> set R \<or> z = c"
    using "3.prems"(4,7) skipped_subset [of R] by (auto split: if_splits)
  ultimately show ?case
    using step by (intro exI [of _ "c # vs"] exI [of _ s']) auto
qed

lemma privs_ok_distinct: "privs_ok rs \<Longrightarrow> distinct rs"
  by (auto simp: privs_ok_def distinct_map)

lemma last_not_skipped: "distinct xs \<Longrightarrow> xs \<noteq> [] \<Longrightarrow> last xs \<notin> set (skipped xs)"
proof (induction xs rule: skipped.induct)
  case (3 b c R)
  then show ?case using skipped_subset [of R] by (cases "R = []") auto
qed simp_all

lemma length_skipped: "length (skipped xs) = length xs div 2"
  by (induction xs rule: skipped.induct) auto

lemma length_survivors: "length (survivors xs) = (length xs - 1) div 2"
  by (simp add: survivors_def length_skipped)

lemma survivors_subset: "set (survivors xs) \<subseteq> set xs"
  using skipped_subset [of "tl xs"] by (cases xs) (auto simp: survivors_def)

lemma distinct_map_skipped: "distinct (map f xs) \<Longrightarrow> distinct (map f (skipped xs))"
proof (induction xs rule: skipped.induct)
  case (3 x y xs)
  then show ?case using skipped_subset [of xs] by auto
qed simp_all

lemma privs_ok_survivors: "privs_ok xs \<Longrightarrow> privs_ok (survivors xs)"
  using survivors_subset [of xs] distinct_map_skipped [of rp_PrivilegeType "tl xs"]
  by (auto simp: privs_ok_def survivors_def map_tl distinct_tl)

lemma survivors_Nil_iff: "survivors xs = [] \<longleftrightarrow> length xs \<le> 2"
  using length_survivors [of xs] by (cases "survivors xs") auto

lemma drain_result:
  assumes "privs_ok xs"
  shows "\<exists>vs s'. drain f (x, \<lparr>RegisteredPrivileges = slice_of xs\<rparr>) =
      (Ok (), (fold (visit f) vs x, \<lparr>RegisteredPrivileges = s'\<rparr>)) \<and>
    slice_list s' = survivors xs \<and> slice_ok s' \<and> set vs = set xs - set (survivors xs)"
proof -
  have ok: "slice_ok (slice_of xs)" and dist: "distinct xs"
    using assms privs_ok_distinct by (auto simp: slice_ok_def slice_of_def)
  have drain: "drain f (x, \<lparr>RegisteredPrivileges = slice_of xs\<rparr>) =
      drain_from f 0 (length xs) x (slice_of xs)"
    by (simp add: drain_def IterateRegisteredPrivileges_def slice_of_def)
  show ?thesis
  proof (cases xs)
    case Nil
    then show ?thesis
      using drain ok by (intro exI [of _ "[]"] exI [of _ "slice_of []"])
        (simp add: iterate_cells.simps survivors_def)
  next
    case (Cons a R)
    have first: "drain_from f 0 (length xs) x (slice_of xs) =
        drain_from f 1 (length xs) (visit f a x) (slice_cut (slice_of xs) 0)"
      using drain_step_hit [of 0 "length xs" "slice_of xs" 0 f x] ok dist assms Cons
      by (simp add: slice_of_def slice_list_def privs_ok_def)
    show ?thesis
    proof (cases "R = []")
      case True
      then show ?thesis
        using drain first ok Cons
        by (intro exI [of _ "[a]"] exI [of _ "slice_cut (slice_of xs) 0"])
          (simp add: iterate_cells.simps survivors_def slice_cut_def slice_of_def slice_list_def slice_ok_def)
    next
      case False
      let ?s = "slice_cut (slice_of xs) 0"
      have bk: "backing ?s = [] @ R @ replicate 1 (last R)"
        using drop_last [of xs "[]"] Cons False by (simp add: slice_cut_def slice_of_def)
      obtain vs s' where vs: "drain_from f 1 (length xs) (visit f a x) ?s =
          (Ok (), (fold (visit f) vs (visit f a x), \<lparr>RegisteredPrivileges = s'\<rparr>))"
        "slice_list s' = skipped R" "slice_ok s'"
        "set R - set (skipped R) \<subseteq> set vs" "set vs \<subseteq> insert (last R) (set R - set (skipped R))"
        using drain_loop [OF bk, of f "visit f a x"] assms dist Cons False
        by (auto simp: slice_of_def privs_ok_def)
      moreover have "last R \<in> set R - set (skipped R)"
        using last_not_skipped [of R] dist Cons False by simp
      moreover have "a \<notin> set (skipped R)"
        using skipped_subset [of R] dist Cons by auto
      ultimately show ?thesis
        using drain first Cons
        by (intro exI [of _ "a # vs"] exI [of _ s']) (auto simp: survivors_def)
    qed
  qed
qed

section \<open>Removing the privilege of one type while iterating\<close>

text \<open>The callback of \<open>unregister\<close> in the message handler: it acts on one type only.\<close>

definition release_cb ::
    "(PrivilegeType \<Rightarrow> uint8 \<Rightarrow> 'x \<Rightarrow> 'x) \<Rightarrow> PrivilegeType \<Rightarrow> PrivilegeType \<Rightarrow> uint8 \<Rightarrow>
     ('x \<times> PetriContractDetails, bool) act" where
  "release_cb f tp c pos s = (if c \<noteq> tp then (Ok False, s) else drain_cb f c pos s)"

abbreviation release_from ::
    "(PrivilegeType \<Rightarrow> uint8 \<Rightarrow> 'x \<Rightarrow> 'x) \<Rightarrow> PrivilegeType \<Rightarrow> nat \<Rightarrow> nat \<Rightarrow> 'x \<Rightarrow>
     RegisteredPrivilege slice \<Rightarrow> unit res \<times> 'x \<times> PetriContractDetails" where
  "release_from f tp i n x s \<equiv>
     iterate_cells (\<lambda>st. backing (RegisteredPrivileges (snd st))) i n (release_cb f tp)
       (x, \<lparr>RegisteredPrivileges = s\<rparr>)"

lemma release_step_other:
  assumes "i < n" and "priv_ok (backing s ! i)" and "priv_type (backing s ! i) \<noteq> tp"
  shows "release_from f tp i n x s = release_from f tp (Suc i) n x s"
  using assms priv_okE [OF assms(2)]
  by (subst iterate_cells.simps) (simp add: release_cb_def Let_def)

lemma release_skip:
  assumes "\<And>k. i \<le> k \<Longrightarrow> k < j \<Longrightarrow> priv_ok (backing s ! k) \<and> priv_type (backing s ! k) \<noteq> tp"
    and "i \<le> j" and "j \<le> n"
  shows "release_from f tp i n x s = release_from f tp j n x s"
  using assms
proof (induction "j - i" arbitrary: i)
  case 0
  then show ?case by simp
next
  case (Suc m)
  have i: "i < j" "m = j - Suc i" using Suc.hyps(2) by simp_all
  have "release_from f tp i n x s = release_from f tp (Suc i) n x s"
    using i(1) Suc.prems by (intro release_step_other) auto
  also have "\<dots> = release_from f tp j n x s"
    using i Suc.prems by (intro Suc.hyps(1)) auto
  finally show ?case .
qed

lemma release_step_hit:
  assumes "i < n" and v: "priv_ok (backing s ! i)" and "priv_type (backing s ! i) = tp"
    and "slice_ok s" and "distinct (slice_list s)" and "i < slen s"
  shows "release_from f tp i n x s =
    release_from f tp (Suc i) n (visit f (backing s ! i) x) (slice_cut s i)"
proof -
  have "remove_loop (backing s ! i) 0 (slen s) s = Ok (slice_cut s i)"
    using assms by (intro remove_loop_at) simp_all
  with assms registered_as_priv [OF v] priv_okE [OF v] show ?thesis
    by (subst iterate_cells.simps)
      (simp add: release_cb_def drain_cb_def RemoveRegisteredPrivilege_def visit_def priv_pos_def Let_def)
qed

lemma release_done: "n \<le> i \<Longrightarrow> release_from f tp i n x s = (Ok (), (x, \<lparr>RegisteredPrivileges = s\<rparr>))"
  by (subst iterate_cells.simps) simp

lemma rp_PrivilegeType_registered_as:
  "rp_PrivilegeType (registered_as t pos) = PrivilegeType_String t"
  by (simp add: registered_as_def)

lemma String_priv_type: "priv_ok r \<Longrightarrow> PrivilegeType_String (priv_type r) = rp_PrivilegeType r"
  by (rule String_of_From) (rule priv_okE)

lemma priv_type_inj:
  "priv_ok r \<Longrightarrow> priv_ok q \<Longrightarrow> priv_type r = priv_type q \<longleftrightarrow> rp_PrivilegeType r = rp_PrivilegeType q"
  using String_priv_type [of r] String_priv_type [of q] by (metis priv_type_def)

lemma privs_ok_nth_type:
  assumes "privs_ok xs" and "i < length xs" and "j < length xs" and "priv_type (xs ! i) = priv_type (xs ! j)"
  shows "i = j"
proof -
  have "rp_PrivilegeType (xs ! i) = rp_PrivilegeType (xs ! j)"
    using assms priv_type_inj [of "xs ! i" "xs ! j"] by (auto simp: privs_ok_def)
  with assms show ?thesis
    by (metis distinct_conv_nth length_map nth_map privs_ok_def)
qed

definition release ::
    "(PrivilegeType \<Rightarrow> uint8 \<Rightarrow> 'x \<Rightarrow> 'x) \<Rightarrow> PrivilegeType \<Rightarrow> ('x \<times> PetriContractDetails, unit) act" where
  "release f tp = IterateRegisteredPrivileges snd (release_cb f tp)"

lemma release_result:
  assumes xs: "privs_ok xs" and j: "j < length xs" and tp: "priv_type (xs ! j) = tp"
  shows "\<exists>s'. release f tp (x, \<lparr>RegisteredPrivileges = slice_of xs\<rparr>) =
      (Ok (), (visit f (xs ! j) x, \<lparr>RegisteredPrivileges = s'\<rparr>)) \<and>
    slice_list s' = take j xs @ drop (Suc j) xs \<and> slice_ok s'"
proof -
  let ?s = "slice_of xs" and ?n = "length xs"
  have ok: "slice_ok ?s" and dist: "distinct (slice_list ?s)"
    using xs privs_ok_distinct by (auto simp: slice_ok_def slice_of_def slice_list_def)
  have other: "priv_ok (xs ! k) \<and> priv_type (xs ! k) \<noteq> tp" if "k < ?n" "k \<noteq> j" for k
    using privs_ok_nth_type [OF xs that(1) j] that tp xs by (auto simp: privs_ok_def)
  have "release f tp (x, \<lparr>RegisteredPrivileges = ?s\<rparr>) = release_from f tp 0 ?n x ?s"
    by (simp add: release_def IterateRegisteredPrivileges_def slice_of_def)
  also have "\<dots> = release_from f tp j ?n x ?s"
    using j other by (intro release_skip) (auto simp: slice_of_def)
  also have "\<dots> = release_from f tp (Suc j) ?n (visit f (xs ! j) x) (slice_cut ?s j)"
    using release_step_hit [of j ?n ?s tp f x] j tp xs ok dist by (simp add: slice_of_def privs_ok_def)
  also have "\<dots> = release_from f tp ?n ?n (visit f (xs ! j) x) (slice_cut ?s j)"
  proof (rule release_skip)
    fix k assume k: "Suc j \<le> k" "k < ?n"
    then show "priv_ok (backing (slice_cut ?s j) ! k) \<and> priv_type (backing (slice_cut ?s j) ! k) \<noteq> tp"
      using ok j other [of k] other [of "Suc k"] by (simp add: backing_slice_cut_nth slice_of_def)
  qed (use j in auto)
  also have "\<dots> = (Ok (), (visit f (xs ! j) x, \<lparr>RegisteredPrivileges = slice_cut ?s j\<rparr>))"
    by (simp add: release_done)
  finally show ?thesis
    using ok j slice_list_cut [of ?s j] slice_ok_cut [of ?s j]
    by (intro exI [of _ "slice_cut ?s j"]) (simp add: slice_of_def slice_list_def)
qed

end
