(* ===== verification/TwasmCallbacks.thy ===== *)
theory TwasmCallbacks
  imports ContractDetails
begin

text \<open>
  \<open>x/twasm/contract/callback_msgs.go\<close>: the messages the chain sends to privileged contracts
  through \<open>Sudo\<close>. A pointer field is an option; \<open>*struct{}\<close> is \<open>unit option\<close>. The messages are
  passed to the contract as these values; marshalling them to JSON cannot fail.
\<close>

datatype EvidenceType = EvidenceDuplicateVote | EvidenceLightClientAttack

record Validator =
  val_Address :: bytes
  val_Power :: uint64

record Evidence =
  ev_EvidenceType :: EvidenceType
  ev_Validator :: Validator
  ev_Height :: uint64
  ev_Time :: uint64
  ev_TotalVotingPower :: uint64

record BeginBlock =
  bb_Evidence :: "Evidence list"

record PrivilegeChangeMsg =
  Promoted :: "unit option"
  Demoted :: "unit option"

record PetriSudoMsg =
  sudo_PrivilegeChange :: "PrivilegeChangeMsg option"
  sudo_BeginBlock :: "BeginBlock option"
  sudo_EndBlock :: "unit option"
  sudo_EndWithValidatorUpdate :: "unit option"
  sudo_Export :: "unit option"
  sudo_Import :: "bytes option"

definition emptySudoMsg :: PetriSudoMsg where
  "emptySudoMsg =
     \<lparr>sudo_PrivilegeChange = None, sudo_BeginBlock = None, sudo_EndBlock = None,
      sudo_EndWithValidatorUpdate = None, sudo_Export = None, sudo_Import = None\<rparr>"

definition promotedMsg :: PetriSudoMsg where
  "promotedMsg = emptySudoMsg\<lparr>sudo_PrivilegeChange := Some \<lparr>Promoted = Some (), Demoted = None\<rparr>\<rparr>"

definition demotedMsg :: PetriSudoMsg where
  "demotedMsg = emptySudoMsg\<lparr>sudo_PrivilegeChange := Some \<lparr>Promoted = None, Demoted = Some ()\<rparr>\<rparr>"

end
