(* ===== verification/PrivilegeIndex.thy ===== *)
theory PrivilegeIndex
  imports ContractDetails
begin

text \<open>
  The interface between the message handler and the keeper of privileges: the operations of
  \<open>PetriWasmHandlerKeeper\<close> (\<open>x/twasm/keeper/handler_plugin.go\<close>) that read and change the index
  of registrations, with the laws the handler relies on. The lemmas show, for any index with these
  laws, that registering and releasing privileges keeps the index and the privilege lists of the
  contracts in agreement. \<open>TwasmKeeper\<close> interprets the locale on the keeper's own operations.
\<close>

section \<open>The contract of the privilege index\<close>

text \<open>
  A list of privileges per contract and an index from type and position to contract agree when
  each lists what the other lists.
\<close>

definition agrees ::
    "(PrivilegeType \<Rightarrow> uint8 \<Rightarrow> addr option) \<Rightarrow> (addr \<Rightarrow> RegisteredPrivilege list) \<Rightarrow> bool" where
  "agrees reg privs \<longleftrightarrow>
     (\<forall>t pos a. reg t pos = Some a \<longleftrightarrow> (\<exists>r \<in> set (privs a). priv_type r = t \<and> priv_pos r = pos))"

lemma ucast_down_up: "ucast (ucast (w :: uint8) :: uint32) = w"
  by (rule ucast_up_ucast_id) (simp add: is_up)

lemma priv_of_registered_as:
  assumes "PrivilegeType_ValidateBasic t = Ok ()"
  shows "priv_type (registered_as t pos) = t" and "priv_pos (registered_as t pos) = pos"
    and "pos \<noteq> 0 \<Longrightarrow> priv_ok (registered_as t pos)"
proof -
  show "priv_type (registered_as t pos) = t"
    using From_of_String [OF assms] by (simp add: priv_type_def registered_as_def)
  show "priv_pos (registered_as t pos) = pos"
    by (simp add: priv_pos_def registered_as_def ucast_down_up)
  have "(ucast pos :: uint32) \<le> 255"
    using uint_bounded [of pos] by (simp add: word_le_def unsigned_ucast_eq take_bit_int_eq_self)
  moreover have "(ucast pos :: uint32) \<noteq> 0" if "pos \<noteq> 0"
    using that by (metis ucast_0 ucast_down_up)
  ultimately show "pos \<noteq> 0 \<Longrightarrow> priv_ok (registered_as t pos)"
    using From_of_String [OF assms] by (simp add: priv_ok_def registered_as_def word_neq_0_conv)
qed

locale privilege_index =
  fixes reg :: "'s \<Rightarrow> PrivilegeType \<Rightarrow> uint8 \<Rightarrow> addr option"
    and append :: "PrivilegeType \<Rightarrow> addr \<Rightarrow> 's \<Rightarrow> uint8 res \<times> 's"
    and remove :: "PrivilegeType \<Rightarrow> uint8 \<Rightarrow> addr \<Rightarrow> 's \<Rightarrow> bool \<times> 's"
    and inv :: "'s \<Rightarrow> bool"
  assumes append_pos: "inv s \<Longrightarrow> append t a s = (Ok pos, s') \<Longrightarrow>
      pos \<noteq> 0 \<and> (\<forall>q. reg s t q \<noteq> None \<longrightarrow> q < pos)"
    and append_reg: "inv s \<Longrightarrow> append t a s = (Ok pos, s') \<Longrightarrow>
      reg s' = (reg s)(t := (reg s t)(pos := Some a))"
    and append_singleton: "inv s \<Longrightarrow> append t a s = (Ok pos, s') \<Longrightarrow> IsSingleton t \<Longrightarrow>
      reg s t q = None"
    and append_fails: "append t a s = (r, s') \<Longrightarrow> \<not> is_ok r \<Longrightarrow> s' = s"
    and inv_append: "inv s \<Longrightarrow> inv (snd (append t a s))"
    and remove_reg: "reg (snd (remove t pos a s)) = (reg s)(t := (reg s t)(pos := None))"
    and inv_remove: "inv s \<Longrightarrow> inv (snd (remove t pos a s))"
begin

definition released :: "addr \<Rightarrow> RegisteredPrivilege list \<Rightarrow> 's \<Rightarrow> 's" where
  "released a vs = fold (visit (\<lambda>t pos s. snd (remove t pos a s))) vs"

lemma inv_released: "inv s \<Longrightarrow> inv (released a vs s)"
  unfolding released_def by (induction vs arbitrary: s) (simp_all add: visit_def inv_remove)

lemma reg_released:
  "reg (released a vs s) t pos =
     (if \<exists>r \<in> set vs. priv_type r = t \<and> priv_pos r = pos then None else reg s t pos)"
  unfolding released_def
  by (induction vs arbitrary: s) (auto simp: visit_def remove_reg)

lemma register_agrees:
  assumes inv: "inv s" and agr: "agrees (reg s) privs"
    and t: "PrivilegeType_ValidateBasic t = Ok ()" and app: "append t a s = (Ok pos, s')"
  shows "agrees (reg s') (privs(a := privs a @ [registered_as t pos]))"
proof -
  have free: "reg s t pos = None"
    using append_pos [OF inv app] by blast
  then have "priv_type r \<noteq> t \<or> priv_pos r \<noteq> pos" if "r \<in> set (privs b)" for r b
    using agr that by (metis agrees_def option.distinct(1))
  then show ?thesis
    using agr priv_of_registered_as [OF t]
    by (auto simp: agrees_def append_reg [OF inv app])
qed

lemma release_agrees:
  assumes agr: "agrees (reg s) privs" and ok: "privs_ok (privs a)"
    and keep: "set ys \<subseteq> set (privs a)" and vs: "set vs = set (privs a) - set ys"
  shows "agrees (reg (released a vs s)) (privs(a := ys))"
  unfolding agrees_def
proof (intro allI)
  fix t pos b
  let ?at = "\<lambda>r. priv_type r = t \<and> priv_pos r = pos"
  have uniq: "r = q" if "r \<in> set (privs a)" "q \<in> set (privs a)" "priv_type r = priv_type q" for r q
    using ok that privs_ok_nth_type [OF ok] by (metis in_set_conv_nth)
  have excl: "b = a" if "r \<in> set (privs a)" "?at r" "q \<in> set (privs b)" "?at q" for r q
    using agr that by (metis agrees_def option.inject)
  have "reg (released a vs s) t pos = Some b \<longleftrightarrow>
      \<not> (\<exists>r \<in> set vs. ?at r) \<and> (\<exists>r \<in> set (privs b). ?at r)"
    using agr by (auto simp: reg_released agrees_def)
  also have "\<dots> \<longleftrightarrow> (\<exists>r \<in> set ((privs(a := ys)) b). ?at r)"
    using vs keep uniq excl by (cases "b = a") (auto; blast)+
  finally show "reg (released a vs s) t pos = Some b \<longleftrightarrow> (\<exists>r \<in> set ((privs(a := ys)) b). ?at r)" .
qed

end

end
