(* ===== verification/TwasmKeeper.thy ===== *)
theory TwasmKeeper
  imports TwasmCallbacks PrivilegeIndex
begin

text \<open>
  \<open>x/twasm/keeper/privileged.go\<close>, \<open>keeper.go\<close> and \<open>store.go\<close>: the keeper that marks contracts
  as privileged and keeps, per privilege type, the positions at which contracts registered.

  State: \<open>tw_store\<close> holds the two secondary indexes of the keeper (prefixes \<open>0xa0\<close>: privileged
  flag per address, \<open>0xa1\<close>: privilege type and position to address), \<open>tw_wasm\<close> everything that
  belongs to code outside the repository (wasmd's contract infos and pinned codes, the bank, the
  consensus parameters), \<open>tw_events\<close> the events emitted so far.

  The wasmd keeper and the address codec are the record \<open>wasm_ext\<close>, an argument of every
  operation; what the theorems need of it is the predicate \<open>wasm_laws\<close>.
\<close>

section \<open>State and environment\<close>

type_synonym code_id = uint64

record contract_info =
  ci_CodeID :: code_id
  ci_Admin :: string
  ci_Extension :: "(string \<times> bytes) option"

record 'w tw_state =
  tw_store :: kv
  tw_wasm :: 'w
  tw_events :: "event list"

record 'w wasm_ext =
  AddrString :: "addr \<Rightarrow> string"
  AttributeKeyContractAddr :: string
  AccAddressFromBech32 :: "string \<Rightarrow> addr res"
  wGetContractInfo :: "'w \<Rightarrow> addr \<Rightarrow> contract_info option"
  wReadExtension :: "contract_info \<Rightarrow> RegisteredPrivilege list res"
  wSetContractInfoExtension :: "addr \<Rightarrow> RegisteredPrivilege list \<Rightarrow> ('w, unit) act"
  wPinCode :: "code_id \<Rightarrow> ('w, unit) act"
  wUnpinCode :: "code_id \<Rightarrow> ('w, unit) act"
  wContractsByCode :: "'w \<Rightarrow> code_id \<Rightarrow> addr list"
  wSudo :: "addr \<Rightarrow> PetriSudoMsg \<Rightarrow> ('w tw_state, bytes) act"

text \<open>A call into the wasmd keeper changes its part of the state only.\<close>

definition on_wasm :: "('w, 'a) act \<Rightarrow> ('w tw_state, 'a) act" where
  "on_wasm m s = (let (r, w) = m (tw_wasm s) in (r, s\<lparr>tw_wasm := w\<rparr>))"

definition EmitEvent :: "event \<Rightarrow> ('w tw_state, unit) act" where
  "EmitEvent e = modify (\<lambda>s. s\<lparr>tw_events := tw_events s @ [e]\<rparr>)"

section \<open>Keys\<close>

definition privilegedContractsSecondaryIndexPrefix :: bytes where
  "privilegedContractsSecondaryIndexPrefix = [0xa0]"

definition contractCallbacksSecondaryIndexPrefix :: bytes where
  "contractCallbacksSecondaryIndexPrefix = [0xa1]"

definition privilegedContractsSecondaryIndexKey :: "addr \<Rightarrow> bytes" where
  "privilegedContractsSecondaryIndexKey a = privilegedContractsSecondaryIndexPrefix @ a"

definition getContractPrivilegesSecondaryIndexPrefix :: "PrivilegeType \<Rightarrow> bytes" where
  "getContractPrivilegesSecondaryIndexPrefix t = contractCallbacksSecondaryIndexPrefix @ [t]"

definition contractPrivilegesSecondaryIndexKey :: "PrivilegeType \<Rightarrow> uint8 \<Rightarrow> bytes" where
  "contractPrivilegesSecondaryIndexKey t pos = getContractPrivilegesSecondaryIndexPrefix t @ [pos]"

definition parseContractPosition :: "bytes \<Rightarrow> uint8 res" where
  "parseContractPosition key =
     (case key of [pos] \<Rightarrow> Ok pos | _ \<Rightarrow> Panic ''unexpected key length %d'')"

lemmas [twasm_keys] =
  privilegedContractsSecondaryIndexPrefix_def contractCallbacksSecondaryIndexPrefix_def
  privilegedContractsSecondaryIndexKey_def getContractPrivilegesSecondaryIndexPrefix_def
  contractPrivilegesSecondaryIndexKey_def

section \<open>Contract details\<close>

definition setContractDetails ::
    "'w wasm_ext \<Rightarrow> addr \<Rightarrow> PetriContractDetails \<Rightarrow> ('w tw_state, unit) act" where
  "setContractDetails X a details =
     on_wasm (wSetContractInfoExtension X a (slice_list (RegisteredPrivileges details)))"

definition GetContractInfo :: "'w wasm_ext \<Rightarrow> addr \<Rightarrow> 'w tw_state \<Rightarrow> contract_info option" where
  "GetContractInfo X a s = wGetContractInfo X (tw_wasm s) a"

text \<open>\<open>contractInfo.ReadExtension(&details)\<close> with a zero valued \<open>details\<close>.\<close>

definition readDetails :: "'w wasm_ext \<Rightarrow> contract_info \<Rightarrow> PetriContractDetails res" where
  "readDetails X info =
     bind_res (wReadExtension X info) (\<lambda>rs. Ok \<lparr>RegisteredPrivileges = slice_of rs\<rparr>)"

definition getContractDetails :: "'w wasm_ext \<Rightarrow> addr \<Rightarrow> 'w tw_state \<Rightarrow> PetriContractDetails res" where
  "getContractDetails X a s =
     (case GetContractInfo X a s of
        None \<Rightarrow> failw WasmErrNotFound ''contract info''
      | Some info \<Rightarrow> readDetails X info)"

section \<open>The privileged flag\<close>

definition setPrivilegedFlag :: "addr \<Rightarrow> ('w tw_state, unit) act" where
  "setPrivilegedFlag a =
     modify (\<lambda>s. s\<lparr>tw_store := kv_set (tw_store s) (privilegedContractsSecondaryIndexKey a) [1]\<rparr>)"

definition clearPrivilegedFlag :: "addr \<Rightarrow> ('w tw_state, unit) act" where
  "clearPrivilegedFlag a =
     modify (\<lambda>s. s\<lparr>tw_store := kv_del (tw_store s) (privilegedContractsSecondaryIndexKey a)\<rparr>)"

definition IsPrivileged :: "addr \<Rightarrow> 'w tw_state \<Rightarrow> bool" where
  "IsPrivileged a s \<longleftrightarrow> kv_has (tw_store s) (privilegedContractsSecondaryIndexKey a)"

text \<open>
  A loop with a callback that stops when it returns true. The iterator walks over the entries
  that the store holds when the loop starts.
\<close>

fun iterate_entries :: "('e \<Rightarrow> ('s, bool) act) \<Rightarrow> 'e list \<Rightarrow> ('s, unit) act" where
  "iterate_entries cb [] s = (Ok (), s)"
| "iterate_entries cb (e # es) s =
     (case cb e s of
        (Ok stop, s') \<Rightarrow> if stop then (Ok (), s') else iterate_entries cb es s'
      | (Err x, s') \<Rightarrow> (Err x, s')
      | (Panic p, s') \<Rightarrow> (Panic p, s'))"

definition IteratePrivileged :: "(addr \<Rightarrow> ('w tw_state, bool) act) \<Rightarrow> ('w tw_state, unit) act" where
  "IteratePrivileged cb s =
     iterate_entries (\<lambda>e. cb (fst e))
       (prefix_entries privilegedContractsSecondaryIndexPrefix (tw_store s)) s"

section \<open>Privilege registrations\<close>

definition storeContractPrivilegeRegistration ::
    "PrivilegeType \<Rightarrow> uint8 \<Rightarrow> addr \<Rightarrow> ('w tw_state, unit) act" where
  "storeContractPrivilegeRegistration t pos a =
     modify (\<lambda>s. s\<lparr>tw_store := kv_set (tw_store s) (contractPrivilegesSecondaryIndexKey t pos) a\<rparr>)"

definition privilege_event :: "'w wasm_ext \<Rightarrow> string \<Rightarrow> addr \<Rightarrow> PrivilegeType \<Rightarrow> event" where
  "privilege_event X kind a t =
     Event kind [(AttributeKeyContractAddr X, AddrString X a), (''privilege_type'', PrivilegeType_String t)]"

definition appendToPrivilegedContracts ::
    "'w wasm_ext \<Rightarrow> PrivilegeType \<Rightarrow> addr \<Rightarrow> ('w tw_state, uint8) act" where
  "appendToPrivilegedContracts X t a s =
     (let es = prefix_entries (getContractPrivilegesSecondaryIndexPrefix t) (tw_store s) in
      case (if es = [] then Ok 0
            else case fst (last es) of [] \<Rightarrow> Panic ''index out of range'' | pos # _ \<Rightarrow> Ok pos) of
        Err e \<Rightarrow> (Err e, s)
      | Panic p \<Rightarrow> (Panic p, s)
      | Ok pos \<Rightarrow>
          if es \<noteq> [] \<and> IsSingleton t then (fail WasmErrDuplicate, s)
          else
            let newPos = pos + 1 in
            if newPos \<le> pos then (Panic ''Overflow in privilege positions'', s)
            else
              (seqS (storeContractPrivilegeRegistration t newPos a)
                (seqS (EmitEvent (privilege_event X ''register_privilege'' a t))
                  (ret newPos))) s)"

definition removePrivilegeRegistration ::
    "'w wasm_ext \<Rightarrow> PrivilegeType \<Rightarrow> uint8 \<Rightarrow> addr \<Rightarrow> 'w tw_state \<Rightarrow> bool \<times> 'w tw_state" where
  "removePrivilegeRegistration X t pos a s =
     (let key = contractPrivilegesSecondaryIndexKey t pos in
      if \<not> kv_has (tw_store s) key then (False, s)
      else
        (True,
         s\<lparr>tw_store := kv_del (tw_store s) key,
           tw_events := tw_events s @ [privilege_event X ''release_privilege'' a t]\<rparr>))"

definition getPrivilegedContract :: "PrivilegeType \<Rightarrow> uint8 \<Rightarrow> 'w tw_state \<Rightarrow> addr option" where
  "getPrivilegedContract t pos s = kv_get (tw_store s) (contractPrivilegesSecondaryIndexKey t pos)"

definition ExistsAnyPrivilegedContract :: "PrivilegeType \<Rightarrow> 'w tw_state \<Rightarrow> bool" where
  "ExistsAnyPrivilegedContract t s \<longleftrightarrow>
     kv_range [0] [255] (prefix_entries (getContractPrivilegesSecondaryIndexPrefix t) (tw_store s)) \<noteq> []"

definition IteratePrivilegedContractsByType ::
    "PrivilegeType \<Rightarrow> (uint8 \<Rightarrow> addr \<Rightarrow> ('w tw_state, bool) act) \<Rightarrow> ('w tw_state, unit) act" where
  "IteratePrivilegedContractsByType t cb s =
     iterate_entries
       (\<lambda>e. bindS (lift_res (parseContractPosition (fst e))) (\<lambda>pos. cb pos (snd e)))
       (prefix_entries (getContractPrivilegesSecondaryIndexPrefix t) (tw_store s)) s"

definition HasPrivilegedContract ::
    "'w wasm_ext \<Rightarrow> addr \<Rightarrow> PrivilegeType \<Rightarrow> 'w tw_state \<Rightarrow> bool res" where
  "HasPrivilegedContract X a t s =
     bind_res (getContractDetails X a s) (\<lambda>d. Ok (HasRegisteredPrivilege d t))"

section \<open>Promotion, demotion and import\<close>

definition contract_event :: "'w wasm_ext \<Rightarrow> string \<Rightarrow> addr \<Rightarrow> event" where
  "contract_event X kind a = Event kind [(AttributeKeyContractAddr X, AddrString X a)]"

definition SetPrivileged :: "'w wasm_ext \<Rightarrow> addr \<Rightarrow> ('w tw_state, unit) act" where
  "SetPrivileged X a s =
     (case GetContractInfo X a s of
        None \<Rightarrow> (failw WasmErrNotFound ''contractAddr'', s)
      | Some info \<Rightarrow>
          (seqS (wrapS ''pin'' (on_wasm (wPinCode X (ci_CodeID info))))
          (seqS (setPrivilegedFlag a)
          (seqS (wrapS ''sudo'' (wSudo X a promotedMsg))
            (EmitEvent (contract_event X ''set_privileged_contract'' a))))) s)"

definition unset_finish ::
    "'w wasm_ext \<Rightarrow> addr \<Rightarrow> PetriContractDetails \<Rightarrow> ('w tw_state, unit) act" where
  "unset_finish X a details s =
     (case drain (\<lambda>t pos s. snd (removePrivilegeRegistration X t pos a s)) (s, details) of
        (Ok _, (s', d')) \<Rightarrow>
          (seqS (wrapS ''store contract info extension'' (setContractDetails X a d'))
            (EmitEvent (contract_event X ''unset_privileged_contract'' a))) s'
      | (Err e, (s', d')) \<Rightarrow> (Err e, s')
      | (Panic p, (s', d')) \<Rightarrow> (Panic p, s'))"

definition UnsetPrivileged :: "'w wasm_ext \<Rightarrow> addr \<Rightarrow> ('w tw_state, unit) act" where
  "UnsetPrivileged X a =
     seqS (wrapS ''sudo'' (wSudo X a demotedMsg))
       (\<lambda>s. case GetContractInfo X a s of
          None \<Rightarrow> (failw WasmErrNotFound ''contractAddr'', s)
        | Some info \<Rightarrow>
            (let isUniqueContractInstance =
                   list_all (\<lambda>b. a = b) (wContractsByCode X (tw_wasm s) (ci_CodeID info)) in
             (seqS (if isUniqueContractInstance
                    then wrapS ''unpin'' (on_wasm (wUnpinCode X (ci_CodeID info)))
                    else ret ())
             (seqS (clearPrivilegedFlag a)
             (bindS (lift_res (readDetails X info)) (unset_finish X a)))) s))"

fun import_registrations :: "addr \<Rightarrow> RegisteredPrivilege list \<Rightarrow> ('w tw_state, unit) act" where
  "import_registrations a [] s = (Ok (), s)"
| "import_registrations a (c # cs) s =
     (let pos = ucast (rp_Position c) in
      case PrivilegeTypeFrom (rp_PrivilegeType c) of
        None \<Rightarrow> (failw WasmErrInvalidGenesis ''unknown privilege type: %q'', s)
      | Some t \<Rightarrow>
          if kv_has (tw_store s) (contractPrivilegesSecondaryIndexKey t pos)
          then (failw WasmErrInvalidGenesis ''privilege exists already: %s for contract %s'', s)
          else seqS (storeContractPrivilegeRegistration t pos a) (import_registrations a cs) s)"

definition importPrivileged ::
    "'w wasm_ext \<Rightarrow> addr \<Rightarrow> code_id \<Rightarrow> PetriContractDetails \<Rightarrow> ('w tw_state, unit) act" where
  "importPrivileged X a codeID details =
     seqS (wrapS ''pin'' (on_wasm (wPinCode X codeID)))
     (seqS (setPrivilegedFlag a)
       (import_registrations a (slice_list (RegisteredPrivileges details))))"

section \<open>The keeper provides the privilege index\<close>

definition privilege_reg :: "'w tw_state \<Rightarrow> PrivilegeType \<Rightarrow> uint8 \<Rightarrow> addr option" where
  "privilege_reg s t pos = getPrivilegedContract t pos s"

text \<open>Well-formed store: ascending keys, and every index key has a type and a position.\<close>

definition index_inv :: "'w tw_state \<Rightarrow> bool" where
  "index_inv s \<longleftrightarrow> kv_sorted (tw_store s) \<and>
     (\<forall>k v. kv_get (tw_store s) (contractCallbacksSecondaryIndexPrefix @ k) = Some v \<longrightarrow> length k = 2)"

abbreviation type_entries :: "PrivilegeType \<Rightarrow> 'w tw_state \<Rightarrow> kv" where
  "type_entries t s \<equiv> prefix_entries (getContractPrivilegesSecondaryIndexPrefix t) (tw_store s)"

lemma in_type_entries:
  assumes "index_inv s"
  shows "(x, a) \<in> set (type_entries t s) \<longleftrightarrow> (\<exists>pos. x = [pos] \<and> privilege_reg s t pos = Some a)"
proof -
  have "(x, a) \<in> set (type_entries t s) \<longleftrightarrow> kv_get (tw_store s) ([0xa1] @ t # x) = Some a"
    using assms by (simp add: kvs.iterate_iff index_inv_def twasm_keys)
  moreover have "length x = 1" if "kv_get (tw_store s) ([0xa1] @ t # x) = Some a"
    using assms that by (force simp: index_inv_def twasm_keys)
  ultimately show ?thesis
    by (auto simp: privilege_reg_def getPrivilegedContract_def twasm_keys length_Suc_conv)
qed

lemma type_entries_Nil: "index_inv s \<Longrightarrow> type_entries t s = [] \<longleftrightarrow> (\<forall>q. privilege_reg s t q = None)"
  using in_type_entries [of s _ _ t]
  by (metis (no_types, lifting) list.set_intros(1) list.exhaust not_None_eq prod.collapse empty_iff list.set(1))

lemma last_type_entry:
  assumes inv: "index_inv s" and ne: "type_entries t s \<noteq> []"
  obtains m a where "last (type_entries t s) = ([m], a)" "privilege_reg s t m = Some a"
    "\<And>q. privilege_reg s t q \<noteq> None \<Longrightarrow> q \<le> m"
proof -
  obtain x a where l: "last (type_entries t s) = (x, a)" by fastforce
  with ne have "(x, a) \<in> set (type_entries t s)" by (metis last_in_set)
  then obtain m where x: "x = [m]" "privilege_reg s t m = Some a"
    using in_type_entries [OF inv] by blast
  have "kv_sorted (type_entries t s)"
    using inv by (simp add: index_inv_def kvs.iterate_ascending)
  then have top: "y \<le> x" if "(y, b) \<in> set (type_entries t s)" for y b
    using that ne l
    by (cases "type_entries t s" rule: rev_cases) (auto simp: kv_sorted_def sorted_wrt_append)
  have "q \<le> m" if "privilege_reg s t q \<noteq> None" for q
    using that top [of "[q]"] in_type_entries [OF inv] x by auto
  with that l x show thesis by blast
qed

lemma succ_le_255: "(m :: uint8) + 1 \<le> m \<Longrightarrow> m = 255"
  by unat_arith auto

lemma append_cases:
  assumes inv: "index_inv s"
  obtains (dup) "IsSingleton t" "appendToPrivilegedContracts X t a s = (fail WasmErrDuplicate, s)"
      "\<exists>q. privilege_reg s t q \<noteq> None"
    | (full) "appendToPrivilegedContracts X t a s = (Panic ''Overflow in privilege positions'', s)"
      "privilege_reg s t 255 \<noteq> None"
    | (new) pos where "pos \<noteq> 0" "\<And>q. privilege_reg s t q \<noteq> None \<Longrightarrow> q < pos"
      "IsSingleton t \<Longrightarrow> \<forall>q. privilege_reg s t q = None"
      "appendToPrivilegedContracts X t a s = (Ok pos,
        s\<lparr>tw_store := kv_set (tw_store s) (contractPrivilegesSecondaryIndexKey t pos) a,
          tw_events := tw_events s @ [privilege_event X ''register_privilege'' a t]\<rparr>)"
proof (cases "type_entries t s = []")
  case True
  then have "\<forall>q. privilege_reg s t q = None" using inv type_entries_Nil by blast
  with True show ?thesis
    by (intro new [of 1]) (simp_all add: appendToPrivilegedContracts_def seqS_def
        storeContractPrivilegeRegistration_def EmitEvent_def ret_def Let_def)
next
  case False
  then obtain m b where m: "last (type_entries t s) = ([m], b)" "privilege_reg s t m = Some b"
    "\<And>q. privilege_reg s t q \<noteq> None \<Longrightarrow> q \<le> m"
    using inv last_type_entry by blast
  show ?thesis
  proof (cases "IsSingleton t")
    case True
    with False m show ?thesis
      by (intro dup) (auto simp: appendToPrivilegedContracts_def Let_def)
  next
    case single: False
    show ?thesis
    proof (cases "m + 1 \<le> m")
      case True
      then have "m = 255" by (rule succ_le_255)
      with True False single m show ?thesis
        by (intro full) (simp_all add: appendToPrivilegedContracts_def Let_def)
    next
      case above: False
      have "m + 1 \<noteq> 0" using above by auto
      moreover have "q < m + 1" if "privilege_reg s t q \<noteq> None" for q
        using m(3) [OF that] above by simp
      ultimately show ?thesis
        using above False single m(1)
        by (intro new [of "m + 1"]) (simp_all add: appendToPrivilegedContracts_def seqS_def
          storeContractPrivilegeRegistration_def EmitEvent_def ret_def Let_def)
    qed
  qed
qed

lemma index_inv_set:
  "index_inv s \<Longrightarrow> index_inv (s\<lparr>tw_store := kv_set (tw_store s) (contractPrivilegesSecondaryIndexKey t pos) a\<rparr>)"
  by (auto simp: index_inv_def twasm_keys kv_simps split: if_splits)

lemma index_inv_del: "index_inv s \<Longrightarrow> index_inv (s\<lparr>tw_store := kv_del (tw_store s) key\<rparr>)"
  by (auto simp: index_inv_def kv_simps split: if_splits)

lemma index_inv_flag:
  "index_inv s \<Longrightarrow> index_inv (s\<lparr>tw_store := kv_set (tw_store s) (privilegedContractsSecondaryIndexKey a) v\<rparr>)"
  by (auto simp: index_inv_def twasm_keys kv_simps split: if_splits)

lemma index_inv_other [simp]:
  "index_inv (s\<lparr>tw_events := es\<rparr>) = index_inv s" "index_inv (s\<lparr>tw_wasm := w\<rparr>) = index_inv s"
  by (simp_all add: index_inv_def)

lemma privilege_reg_other [simp]:
  "privilege_reg (s\<lparr>tw_events := es\<rparr>) = privilege_reg s"
  "privilege_reg (s\<lparr>tw_wasm := w\<rparr>) = privilege_reg s"
  by (simp_all add: privilege_reg_def getPrivilegedContract_def fun_eq_iff)

lemma privilege_reg_set:
  "privilege_reg (s\<lparr>tw_store := kv_set (tw_store s) (contractPrivilegesSecondaryIndexKey t pos) a\<rparr>) =
     (privilege_reg s)(t := (privilege_reg s t)(pos := Some a))"
  by (auto simp: privilege_reg_def getPrivilegedContract_def fun_eq_iff kv_simps twasm_keys)

lemma privilege_reg_flag:
  "privilege_reg (s\<lparr>tw_store := kv_set (tw_store s) (privilegedContractsSecondaryIndexKey a) v\<rparr>) = privilege_reg s"
  "privilege_reg (s\<lparr>tw_store := kv_del (tw_store s) (privilegedContractsSecondaryIndexKey a)\<rparr>) = privilege_reg s"
  by (auto simp: privilege_reg_def getPrivilegedContract_def fun_eq_iff kv_simps twasm_keys)

lemma privilege_reg_remove:
  "privilege_reg (snd (removePrivilegeRegistration X t pos a s)) =
     (privilege_reg s)(t := (privilege_reg s t)(pos := None))"
  by (auto simp: removePrivilegeRegistration_def privilege_reg_def getPrivilegedContract_def
      fun_eq_iff kv_simps twasm_keys kv_has_def Let_def)

lemma index_inv_remove:
  "index_inv s \<Longrightarrow> index_inv (snd (removePrivilegeRegistration X t pos a s))"
  by (simp add: removePrivilegeRegistration_def Let_def index_inv_del)

lemma append_fails_unchanged:
  "appendToPrivilegedContracts X t a s = (r, s') \<Longrightarrow> \<not> is_ok r \<Longrightarrow> s' = s"
  by (auto simp: appendToPrivilegedContracts_def Let_def seqS_def storeContractPrivilegeRegistration_def
      EmitEvent_def ret_def split: if_splits list.splits res.splits)

interpretation pidx: privilege_index privilege_reg "appendToPrivilegedContracts X"
    "removePrivilegeRegistration X" index_inv for X
proof unfold_locales
  fix s :: "'a tw_state" and s' t a pos q
  assume inv: "index_inv s" and app: "appendToPrivilegedContracts X t a s = (Ok pos, s')"
  show "pos \<noteq> 0 \<and> (\<forall>q. privilege_reg s t q \<noteq> None \<longrightarrow> q < pos)"
    using inv app by (cases rule: append_cases [OF inv, of t X a]) (auto simp: fail_def)
  show "privilege_reg s' = (privilege_reg s)(t := (privilege_reg s t)(pos := Some a))"
    using app by (cases rule: append_cases [OF inv, of t X a]) (auto simp: fail_def privilege_reg_set)
  show "privilege_reg s t q = None" if "IsSingleton t"
    using app that by (cases rule: append_cases [OF inv, of t X a]) (auto simp: fail_def)
next
  show "index_inv (snd (appendToPrivilegedContracts X t a s))" if "index_inv s" for s :: "'a tw_state" and t a
    using that by (cases rule: append_cases [OF that, of t X a]) (auto simp: index_inv_set)
qed (simp_all add: append_fails_unchanged privilege_reg_remove index_inv_remove)

end
