(* ===== verification/TwasmPrivileged.thy ===== *)
theory TwasmPrivileged
  imports TwasmKeeper
begin

text \<open>
  What promotion (\<open>SetPrivileged\<close>) and demotion (\<open>UnsetPrivileged\<close>) of
  \<open>x/twasm/keeper/privileged.go\<close> do to the privilege index and to the privilege lists of the
  contracts. \<open>tw_inv\<close> is the invariant of the keeper: the index is well formed, it agrees with
  the lists in the contract infos, the lists are valid, and a singleton privilege has at most one
  holder. \<open>wasm_laws\<close> states the documented behaviour of the wasmd keeper that the proofs use:
  \<open>SetContractInfoExtension\<close> stores the extension of one contract, pinning and unpinning a code
  leave the contract infos as they are.
\<close>

section \<open>What the keeper relies on\<close>

definition w_privs :: "'w wasm_ext \<Rightarrow> 'w \<Rightarrow> addr \<Rightarrow> RegisteredPrivilege list" where
  "w_privs X w a =
     (case wGetContractInfo X w a of
        None \<Rightarrow> []
      | Some info \<Rightarrow> (case wReadExtension X info of Ok rs \<Rightarrow> rs | _ \<Rightarrow> []))"

definition wasm_laws :: "'w wasm_ext \<Rightarrow> bool" where
  "wasm_laws X \<longleftrightarrow>
     (\<forall>a rs w w'. wSetContractInfoExtension X a rs w = (Ok (), w') \<longrightarrow>
        w_privs X w' = (w_privs X w)(a := rs)) \<and>
     (\<forall>c w. w_privs X (snd (wPinCode X c w)) = w_privs X w) \<and>
     (\<forall>c w. w_privs X (snd (wUnpinCode X c w)) = w_privs X w)"

abbreviation privs_of :: "'w wasm_ext \<Rightarrow> 'w tw_state \<Rightarrow> addr \<Rightarrow> RegisteredPrivilege list" where
  "privs_of X s \<equiv> w_privs X (tw_wasm s)"

definition tw_inv :: "'w wasm_ext \<Rightarrow> 'w tw_state \<Rightarrow> bool" where
  "tw_inv X s \<longleftrightarrow>
     index_inv s \<and> agrees (privilege_reg s) (privs_of X s) \<and> (\<forall>a. privs_ok (privs_of X s a)) \<and>
     (\<forall>t p q. IsSingleton t \<longrightarrow> privilege_reg s t p \<noteq> None \<longrightarrow> privilege_reg s t q \<noteq> None \<longrightarrow> p = q)"

definition flag_inv :: "'w tw_state \<Rightarrow> bool" where
  "flag_inv s \<longleftrightarrow> (\<forall>t pos a. privilege_reg s t pos = Some a \<longrightarrow> IsPrivileged a s)"

lemma tw_inv_cong:
  "tw_inv X s \<Longrightarrow> tw_store s' = tw_store s \<Longrightarrow> w_privs X (tw_wasm s') = w_privs X (tw_wasm s) \<Longrightarrow> tw_inv X s'"
  by (simp add: tw_inv_def index_inv_def privilege_reg_def [abs_def] getPrivilegedContract_def)

lemma pin_keeps:
  assumes "wasm_laws X" and "tw_inv X s"
  shows "tw_inv X (snd (on_wasm (wPinCode X c) s))" and "tw_inv X (snd (on_wasm (wUnpinCode X c) s))"
  using assms by (auto simp: on_wasm_def wasm_laws_def split_beta intro: tw_inv_cong)

lemma flag_keeps:
  assumes "tw_inv X s"
  shows "tw_inv X (snd (setPrivilegedFlag a s))" and "tw_inv X (snd (clearPrivilegedFlag a s))"
  using assms unfolding tw_inv_def setPrivilegedFlag_def clearPrivilegedFlag_def modify_def
  by (simp_all add: index_inv_flag index_inv_del privilege_reg_flag)

lemma event_keeps: "tw_inv X s \<Longrightarrow> tw_inv X (snd (EmitEvent e s))"
  by (simp add: EmitEvent_def modify_def tw_inv_def)

lemma IsPrivileged_set [simp]: "IsPrivileged b (snd (setPrivilegedFlag a s)) \<longleftrightarrow> b = a \<or> IsPrivileged b s"
  by (simp add: setPrivilegedFlag_def modify_def IsPrivileged_def kv_has_def kv_simps twasm_keys)

lemma IsPrivileged_clear [simp]: "IsPrivileged b (snd (clearPrivilegedFlag a s)) \<longleftrightarrow> b \<noteq> a \<and> IsPrivileged b s"
  by (simp add: clearPrivilegedFlag_def modify_def IsPrivileged_def kv_has_def kv_simps twasm_keys)

lemma IsPrivileged_remove [simp]:
  "IsPrivileged b (snd (removePrivilegeRegistration X t pos a s)) \<longleftrightarrow> IsPrivileged b s"
  by (simp add: removePrivilegeRegistration_def IsPrivileged_def kv_has_def kv_simps twasm_keys Let_def)

lemma IsPrivileged_released [simp]: "IsPrivileged b (pidx.released X a vs s) \<longleftrightarrow> IsPrivileged b s"
  unfolding pidx.released_def by (induction vs arbitrary: s) (simp_all add: visit_def)

lemma tw_wasm_released [simp]: "tw_wasm (pidx.released X a vs s) = tw_wasm s"
  unfolding pidx.released_def
  by (induction vs arbitrary: s) (simp_all add: visit_def removePrivilegeRegistration_def Let_def)

section \<open>Demotion\<close>

text \<open>
  The last part of \<open>UnsetPrivileged\<close>: registrations are removed while the list is iterated.
\<close>

lemma unset_finish_ok:
  assumes laws: "wasm_laws X" and inv: "tw_inv X s" and xs: "privs_of X s a = xs"
    and fin: "unset_finish X a \<lparr>RegisteredPrivileges = slice_of xs\<rparr> s = (Ok (), s')"
  shows "tw_inv X s'" and "privs_of X s' = (privs_of X s)(a := survivors xs)"
    and "\<And>b. IsPrivileged b s' \<longleftrightarrow> IsPrivileged b s"
    and "\<And>t pos. privilege_reg s' t pos =
      (if \<exists>r \<in> set xs - set (survivors xs). priv_type r = t \<and> priv_pos r = pos then None
       else privilege_reg s t pos)"
proof -
  have ok: "privs_ok xs" using inv xs by (auto simp: tw_inv_def)
  obtain vs sl where dr: "drain (\<lambda>t pos s. snd (removePrivilegeRegistration X t pos a s))
        (s, \<lparr>RegisteredPrivileges = slice_of xs\<rparr>) =
      (Ok (), (pidx.released X a vs s, \<lparr>RegisteredPrivileges = sl\<rparr>))"
    and sl: "slice_list sl = survivors xs" and vs: "set vs = set xs - set (survivors xs)"
    using drain_result [OF ok, of "\<lambda>t pos s. snd (removePrivilegeRegistration X t pos a s)" s]
    by (auto simp: pidx.released_def)
  let ?s1 = "pidx.released X a vs s"
  obtain w' where set: "wSetContractInfoExtension X a (survivors xs) (tw_wasm s) = (Ok (), w')"
    and s': "s' = ?s1\<lparr>tw_wasm := w', tw_events := tw_events ?s1 @ [contract_event X ''unset_privileged_contract'' a]\<rparr>"
  proof (cases "wSetContractInfoExtension X a (survivors xs) (tw_wasm s)")
    case (Pair r w')
    then have "r = Ok ()" using fin dr
      by (cases r) (simp_all add: unset_finish_def seqS_def bindS_def wrapS_def setContractDetails_def on_wasm_def sl)
    then show thesis
      using that Pair fin dr
      by (simp add: unset_finish_def seqS_def bindS_def wrapS_def setContractDetails_def on_wasm_def
          EmitEvent_def modify_def sl)
  qed
  have privs: "privs_of X s' = (privs_of X s)(a := survivors xs)"
    using laws set s' by (simp add: wasm_laws_def)
  have reg: "privilege_reg s' = privilege_reg ?s1" by (simp add: s')
  have agr: "agrees (privilege_reg s') (privs_of X s')"
    unfolding reg privs
    using inv xs vs survivors_subset [of xs]
    by (intro pidx.release_agrees) (auto simp: tw_inv_def)
  have regs: "privilege_reg s' t pos =
      (if \<exists>r \<in> set xs - set (survivors xs). priv_type r = t \<and> priv_pos r = pos then None
       else privilege_reg s t pos)" for t pos
    by (simp add: reg pidx.reg_released vs)
  have "privs_ok (survivors xs)"
    using ok by (rule privs_ok_survivors)
  then show "tw_inv X s'"
    using inv agr regs pidx.inv_released [of s X a vs] unfolding tw_inv_def privs
    by (auto simp: s' split: if_splits)
  show "privs_of X s' = (privs_of X s)(a := survivors xs)" by (rule privs)
  show "IsPrivileged b s' \<longleftrightarrow> IsPrivileged b s" for b
    using IsPrivileged_released [of b X a vs s] by (simp add: s' IsPrivileged_def)
  show "privilege_reg s' t pos =
      (if \<exists>r \<in> set xs - set (survivors xs). priv_type r = t \<and> priv_pos r = pos then None
       else privilege_reg s t pos)" for t pos by (rule regs)
qed

lemma UnsetPrivileged_OkE:
  assumes "UnsetPrivileged X a s = (Ok (), s')"
  obtains bz s1 info s2 d where "wSudo X a demotedMsg s = (Ok bz, s1)" "GetContractInfo X a s1 = Some info"
    "s2 = s1 \<or> s2 = snd (on_wasm (wUnpinCode X (ci_CodeID info)) s1)"
    "readDetails X info = Ok d" "unset_finish X a d (snd (clearPrivilegedFlag a s2)) = (Ok (), s')"
proof -
  from assms obtain bz s1 where sudo: "wSudo X a demotedMsg s = (Ok bz, s1)"
    by (auto simp: UnsetPrivileged_def seqS_def wrapS_Ok_iff elim!: bindS_OkE)
  with assms obtain info where info: "GetContractInfo X a s1 = Some info"
    by (cases "GetContractInfo X a s1") (auto simp: UnsetPrivileged_def seqS_def bindS_def wrapS_def)
  let ?pin = "if list_all (\<lambda>b. a = b) (wContractsByCode X (tw_wasm s1) (ci_CodeID info))
      then wrapS ''unpin'' (on_wasm (wUnpinCode X (ci_CodeID info))) else ret ()"
  have rest: "seqS ?pin (seqS (clearPrivilegedFlag a) (bindS (lift_res (readDetails X info)) (unset_finish X a))) s1 = (Ok (), s')"
    using assms sudo info by (simp add: UnsetPrivileged_def seqS_def bindS_def [of "wrapS _ _"] wrapS_def Let_def)
  then obtain s2 where s2: "?pin s1 = (Ok (), s2)"
    and cont: "seqS (clearPrivilegedFlag a) (bindS (lift_res (readDetails X info)) (unset_finish X a)) s2 = (Ok (), s')"
    unfolding seqS_def [of ?pin] by (rule bindS_OkE) simp
  have "s2 = s1 \<or> s2 = snd (on_wasm (wUnpinCode X (ci_CodeID info)) s1)"
    using s2 by (auto simp: wrapS_Ok_iff ret_def split: if_splits)
  moreover from cont obtain d where "readDetails X info = Ok d"
    "unset_finish X a d (snd (clearPrivilegedFlag a s2)) = (Ok (), s')"
    by (cases "readDetails X info") (auto simp: seqS_def clearPrivilegedFlag_def modify_def bindS_def lift_res_def)
  ultimately show thesis using that sudo info by blast
qed

lemma readDetails_privs:
  "GetContractInfo X a s = Some info \<Longrightarrow> readDetails X info = Ok d \<Longrightarrow>
   d = \<lparr>RegisteredPrivileges = slice_of (privs_of X s a)\<rparr>"
  by (auto simp: GetContractInfo_def readDetails_def w_privs_def bind_res_Ok_iff)

lemma privs_of_unpin:
  "wasm_laws X \<Longrightarrow> s2 = s1 \<or> s2 = snd (on_wasm (wUnpinCode X c) s1) \<Longrightarrow> privs_of X s2 = privs_of X s1"
  by (auto simp: on_wasm_def wasm_laws_def split_beta)

lemma privilege_reg_unpin:
  "s2 = s1 \<or> s2 = snd (on_wasm m s1) \<Longrightarrow> privilege_reg s2 = privilege_reg s1 \<and> (IsPrivileged b s2 \<longleftrightarrow> IsPrivileged b s1)"
  by (auto simp: on_wasm_def split_beta IsPrivileged_def)

lemma tw_wasm_clear [simp]: "tw_wasm (snd (clearPrivilegedFlag a s)) = tw_wasm s"
  by (simp add: clearPrivilegedFlag_def modify_def)

lemma reg_on_wasm [simp]: "privilege_reg (snd (on_wasm m s)) = privilege_reg s"
  by (simp add: on_wasm_def split_beta)

lemma IsPrivileged_on_wasm [simp]: "IsPrivileged b (snd (on_wasm m s)) \<longleftrightarrow> IsPrivileged b s"
  by (simp add: on_wasm_def split_beta IsPrivileged_def)

lemma reg_set [simp]: "privilege_reg (snd (setPrivilegedFlag a s)) = privilege_reg s"
  by (simp add: setPrivilegedFlag_def modify_def privilege_reg_flag)

lemma reg_clear [simp]: "privilege_reg (snd (clearPrivilegedFlag a s)) = privilege_reg s"
  by (simp add: clearPrivilegedFlag_def modify_def privilege_reg_flag)

text \<open>
  Demotion, completely: starting from the state \<open>s1\<close> that the contract leaves after its
  \<open>Demoted\<close> callback, the flag is cleared, and of the privileges \<open>xs\<close> the contract still holds
  every second one stays registered, in the list and in the index.
\<close>

lemma UnsetPrivileged_effect:
  assumes laws: "wasm_laws X" and sudo: "wSudo X a demotedMsg s = (Ok bz, s1)"
    and inv: "tw_inv X s1" and run: "UnsetPrivileged X a s = (Ok (), s')"
  shows "tw_inv X s'" and "privs_of X s' = (privs_of X s1)(a := survivors (privs_of X s1 a))"
    and "\<And>b. IsPrivileged b s' \<longleftrightarrow> b \<noteq> a \<and> IsPrivileged b s1"
    and "\<And>t pos. privilege_reg s' t pos =
      (if \<exists>r \<in> set (privs_of X s1 a) - set (survivors (privs_of X s1 a)).
            priv_type r = t \<and> priv_pos r = pos then None
       else privilege_reg s1 t pos)"
proof -
  let ?xs = "privs_of X s1 a"
  obtain info s2 d where info: "GetContractInfo X a s1 = Some info"
    and s2: "s2 = s1 \<or> s2 = snd (on_wasm (wUnpinCode X (ci_CodeID info)) s1)"
    and d: "readDetails X info = Ok d"
    and fin: "unset_finish X a d (snd (clearPrivilegedFlag a s2)) = (Ok (), s')"
    using UnsetPrivileged_OkE [OF run] sudo by (metis prod.inject)
  have privs: "privs_of X (snd (clearPrivilegedFlag a s2)) = privs_of X s1"
    using privs_of_unpin [OF laws s2] by simp
  have inv2: "tw_inv X (snd (clearPrivilegedFlag a s2))"
    using s2 inv pin_keeps [OF laws inv] by (auto intro: flag_keeps(2))
  have fin': "unset_finish X a \<lparr>RegisteredPrivileges = slice_of ?xs\<rparr> (snd (clearPrivilegedFlag a s2)) = (Ok (), s')"
    using fin readDetails_privs [OF info d] by simp
  note eff = unset_finish_ok [OF laws inv2 _ fin', unfolded privs, OF refl]
  note unpin = privilege_reg_unpin [OF s2]
  show "tw_inv X s'" by (rule eff(1))
  show "privs_of X s' = (privs_of X s1)(a := survivors ?xs)" by (rule eff(2))
  show "IsPrivileged b s' \<longleftrightarrow> b \<noteq> a \<and> IsPrivileged b s1" for b using eff(3) unpin by simp
  show "privilege_reg s' t pos = (if \<exists>r \<in> set ?xs - set (survivors ?xs).
      priv_type r = t \<and> priv_pos r = pos then None else privilege_reg s1 t pos)" for t pos
    by (simp only: eff(4) reg_clear unpin [THEN conjunct1])
qed

text \<open>With at most two privileges left, demotion removes them all.\<close>

lemma UnsetPrivileged_clears:
  assumes "wasm_laws X" and "wSudo X a demotedMsg s = (Ok bz, s1)" and "tw_inv X s1"
    and "UnsetPrivileged X a s = (Ok (), s')" and short: "length (privs_of X s1 a) \<le> 2"
  shows "privs_of X s' a = []" and "privilege_reg s' t pos \<noteq> Some a"
proof -
  note eff = UnsetPrivileged_effect [OF assms(1-4)]
  show *: "privs_of X s' a = []"
    using eff(2) short by (simp add: survivors_Nil_iff)
  show "privilege_reg s' t pos \<noteq> Some a"
    using eff(1) * by (auto simp: tw_inv_def agrees_def)
qed

text \<open>No step of a demotion can panic: when the external calls succeed, so does it.\<close>

lemma drain_total:
  assumes "privs_ok xs"
  shows "\<exists>s' d'. drain f (x, \<lparr>RegisteredPrivileges = slice_of xs\<rparr>) = (Ok (), (s', d')) \<and>
    slice_list (RegisteredPrivileges d') = survivors xs"
  using drain_result [OF assms, of f x] by auto

lemma SetPrivileged_effect:
  assumes laws: "wasm_laws X" and inv: "tw_inv X s" and run: "SetPrivileged X a s = (Ok (), s')"
  obtains info s1 bz s2 where "GetContractInfo X a s = Some info"
    "tw_inv X s1" "privilege_reg s1 = privilege_reg s" "privs_of X s1 = privs_of X s"
    "\<And>b. IsPrivileged b s1 \<longleftrightarrow> b = a \<or> IsPrivileged b s"
    "wSudo X a promotedMsg s1 = (Ok bz, s2)"
    "s' = snd (EmitEvent (contract_event X ''set_privileged_contract'' a) s2)"
proof -
  obtain info where info: "GetContractInfo X a s = Some info"
    using run by (cases "GetContractInfo X a s") (auto simp: SetPrivileged_def failw_def)
  let ?s0 = "snd (on_wasm (wPinCode X (ci_CodeID info)) s)"
  let ?s1 = "snd (setPrivilegedFlag a ?s0)"
  obtain bz s2 where sudo: "wSudo X a promotedMsg ?s1 = (Ok bz, s2)"
    and s': "s' = snd (EmitEvent (contract_event X ''set_privileged_contract'' a) s2)"
    using run info
    by (fastforce simp: SetPrivileged_def seqS_def wrapS_Ok_iff setPrivilegedFlag_def modify_def
        elim!: bindS_OkE)
  have "tw_inv X ?s1" using laws inv by (intro flag_keeps(1) pin_keeps(1))
  moreover have "privilege_reg ?s1 = privilege_reg s"
    by simp
  moreover have "privs_of X ?s1 = privs_of X s"
    using laws by (simp add: setPrivilegedFlag_def modify_def on_wasm_def split_beta wasm_laws_def)
  moreover have "IsPrivileged b ?s1 \<longleftrightarrow> b = a \<or> IsPrivileged b s" for b
    by simp
  ultimately show thesis using that info sudo s' by blast
qed

end
