(* ===== verification/Coins.thy ===== *)
theory Coins
  imports Prelude
begin

text \<open>
  The coins of wasmvm (amount as text) and of the SDK (amount as number), and the functions of the
  SDK on them that the code calls, as a record.
\<close>

record wasm_coin =
  wc_Denom :: string
  wc_Amount :: string

record coin =
  coin_Denom :: string
  coin_Amount :: int

text \<open>\<open>sdk.NewIntFromString\<close> and \<open>Coin.Validate\<close> of the SDK.\<close>

record coin_ext =
  NewIntFromString :: "string \<Rightarrow> int option"
  Coin_Validate :: "coin \<Rightarrow> unit res"

end
