(* ===== verification/TwasmMsgs.thy ===== *)
theory TwasmMsgs
  imports Privileges TwasmKeeper Coins
begin

text \<open>
  \<open>x/twasm/contract/incoming_msgs.go\<close> and \<open>x/twasm/types/proposal.go\<close>: the messages a
  privileged contract sends to the chain, how they are decoded from JSON and validated, and the
  two governance proposals of the module.

  The proposal types of the SDK, of wasmd and of ibc-go are records with the fields the code sets
  and a \<open>rest\<close> of type \<open>'f\<close> for the fields it never looks at; how \<open>encoding/json\<close> maps those
  foreign structs is the record \<open>gov_json\<close>, and their \<open>ValidateBasic\<close> and \<open>ProposalRoute\<close> are
  part of \<open>content_ext\<close>.
\<close>

section \<open>Coins\<close>

text \<open>The conversion of the coins of wasmvm, an error at the first invalid one.\<close>

definition convertWasmCoinToSdkCoin :: "coin_ext \<Rightarrow> wasm_coin \<Rightarrow> coin res" where
  "convertWasmCoinToSdkCoin C c =
     (case NewIntFromString C (wc_Amount c) of
        None \<Rightarrow> failw SdkErrInvalidCoins (wc_Amount c @ wc_Denom c)
      | Some amount \<Rightarrow>
          let r = \<lparr>coin_Denom = wc_Denom c, coin_Amount = amount\<rparr> in
          bind_res (Coin_Validate C r) (\<lambda>_. Ok r))"

fun convertWasmCoinsToSdkCoins :: "coin_ext \<Rightarrow> wasm_coin list \<Rightarrow> coin list res" where
  "convertWasmCoinsToSdkCoins C [] = Ok []"
| "convertWasmCoinsToSdkCoins C (c # cs) =
     bind_res (convertWasmCoinToSdkCoin C c) (\<lambda>r.
     bind_res (convertWasmCoinsToSdkCoins C cs) (\<lambda>rs. Ok (r # rs)))"

section \<open>Consensus parameter updates\<close>

record BlockParams =
  bp_MaxBytes :: "int option"
  bp_MaxGas :: "int option"

record EvidenceParams =
  ep_MaxAgeNumBlocks :: "int option"
  ep_MaxAgeDuration :: "int option"
  ep_MaxBytes :: "int option"

record ConsensusParamsUpdate =
  cu_Block :: "BlockParams option"
  cu_Evidence :: "EvidenceParams option"

definition BlockParams_ValidateBasic :: "BlockParams option \<Rightarrow> unit res" where
  "BlockParams_ValidateBasic p =
     (case p of
        None \<Rightarrow> Ok ()
      | Some b \<Rightarrow> if bp_MaxBytes b = None \<and> bp_MaxGas b = None then fail WasmErrEmpty else Ok ())"

definition EvidenceParams_ValidateBasic :: "EvidenceParams option \<Rightarrow> unit res" where
  "EvidenceParams_ValidateBasic p =
     (case p of
        None \<Rightarrow> Ok ()
      | Some e \<Rightarrow>
          if ep_MaxAgeNumBlocks e = None \<and> ep_MaxAgeDuration e = None \<and> ep_MaxBytes e = None
          then fail WasmErrEmpty else Ok ())"

definition ConsensusParamsUpdate_ValidateBasic :: "ConsensusParamsUpdate \<Rightarrow> unit res" where
  "ConsensusParamsUpdate_ValidateBasic c =
     (if cu_Block c = None \<and> cu_Evidence c = None then fail WasmErrEmpty
      else
        bind_res (wrap_res ''block'' (BlockParams_ValidateBasic (cu_Block c))) (\<lambda>_.
          wrap_res ''evidence'' (EvidenceParams_ValidateBasic (cu_Evidence c))))"

section \<open>Governance proposals\<close>

record 'f titled =
  t_Title :: string
  t_Description :: string
  t_rest :: 'f

record 'f Plan =
  pl_Name :: string
  pl_Height :: int
  pl_Info :: string
  pl_UpgradedClientState :: "'f option"
  pl_rest :: 'f

record ParamChange =
  pc_Subspace :: string
  pc_Key :: string
  pc_Value :: string

record 'f ClientUpdateProposal =
  cl_Title :: string
  cl_Description :: string
  cl_SubjectClientId :: string
  cl_rest :: 'f

record PrivilegedContractProposal =
  pp_Title :: string
  pp_Description :: string
  pp_Contract :: string

record InstantiateContractProposal =
  ic_Title :: string
  ic_Description :: string
  ic_RunAs :: string
  ic_Admin :: string
  ic_CodeID :: uint64
  ic_Label :: string
  ic_Msg :: bytes
  ic_Funds :: "coin list"

record 'f StoreCodeProposal =
  sc_Title :: string
  sc_Description :: string
  sc_RunAs :: string
  sc_rest :: 'f

record MigrateContractProposal =
  mc_Title :: string
  mc_Description :: string
  mc_Contract :: string
  mc_CodeID :: uint64
  mc_Msg :: bytes

record 'f proposalContent =
  Text :: "'f titled option"
  RegisterUpgrade :: "'f Plan option"
  CancelUpgrade :: "'f titled option"
  ChangeParams :: "ParamChange list option"
  IBCClientUpdate :: "'f ClientUpdateProposal option"
  PromoteToPrivilegedContract :: "PrivilegedContractProposal option"
  DemotePrivilegedContract :: "PrivilegedContractProposal option"
  InstantiateContract :: "InstantiateContractProposal option"
  StoreCode :: "'f StoreCodeProposal option"
  MigrateContract :: "MigrateContractProposal option"
  SetContractAdmin :: "'f titled option"
  ClearContractAdmin :: "'f titled option"
  PinCodes :: "'f titled option"
  UnpinCodes :: "'f titled option"

definition emptyContent :: "'f proposalContent" where
  "emptyContent =
     \<lparr>Text = None, RegisterUpgrade = None, CancelUpgrade = None, ChangeParams = None,
      IBCClientUpdate = None, PromoteToPrivilegedContract = None, DemotePrivilegedContract = None,
      InstantiateContract = None, StoreCode = None, MigrateContract = None,
      SetContractAdmin = None, ClearContractAdmin = None, PinCodes = None, UnpinCodes = None\<rparr>"

text \<open>A value of the interface type \<open>govtypes.Content\<close>.\<close>

datatype 'f content =
    TextProposal "'f titled"
  | SoftwareUpgradeProposal string string "'f Plan"
  | CancelSoftwareUpgradeProposal "'f titled"
  | ParameterChangeProposal string string "ParamChange list"
  | ClientUpdate "'f ClientUpdateProposal"
  | PromoteProposal PrivilegedContractProposal
  | DemoteProposal PrivilegedContractProposal
  | InstantiateProposal InstantiateContractProposal
  | StoreCodeContent "'f StoreCodeProposal"
  | MigrateProposal MigrateContractProposal
  | UpdateAdminProposal "'f titled"
  | ClearAdminProposal "'f titled"
  | PinCodesProposal "'f titled"
  | UnpinCodesProposal "'f titled"

record 'f ExecuteGovProposal =
  eg_Title :: string
  eg_Description :: string
  eg_Proposal :: "'f proposalContent"

text \<open>The first case of the \<open>switch\<close> whose pointer is not nil.\<close>

fun first_some :: "'a option list \<Rightarrow> 'a option" where
  "first_some [] = None"
| "first_some (Some x # os) = Some x"
| "first_some (None # os) = first_some os"

definition GetProposalContent :: "'w wasm_ext \<Rightarrow> 'f ExecuteGovProposal \<Rightarrow> addr \<Rightarrow> 'f content option" where
  "GetProposalContent X p sender =
     (let title = eg_Title p; desc = eg_Description p; c = eg_Proposal p;
          stamp = (\<lambda>v. v\<lparr>t_Title := title, t_Description := desc\<rparr>);
          stamp_pp = (\<lambda>v. v\<lparr>pp_Title := title, pp_Description := desc\<rparr>) in
      first_some
        [map_option (\<lambda>v. TextProposal (stamp v)) (Text c),
         map_option (\<lambda>v. SoftwareUpgradeProposal title desc v) (RegisterUpgrade c),
         map_option (\<lambda>v. CancelSoftwareUpgradeProposal (stamp v)) (CancelUpgrade c),
         map_option (\<lambda>v. ParameterChangeProposal title desc v) (ChangeParams c),
         map_option (\<lambda>v. ClientUpdate (v\<lparr>cl_Title := title, cl_Description := desc\<rparr>)) (IBCClientUpdate c),
         map_option (\<lambda>v. PromoteProposal (stamp_pp v)) (PromoteToPrivilegedContract c),
         map_option (\<lambda>v. DemoteProposal (stamp_pp v)) (DemotePrivilegedContract c),
         map_option (\<lambda>v. InstantiateProposal
             (v\<lparr>ic_Title := title, ic_Description := desc, ic_RunAs := AddrString X sender\<rparr>))
           (InstantiateContract c),
         map_option (\<lambda>v. StoreCodeContent
             (v\<lparr>sc_Title := title, sc_Description := desc, sc_RunAs := AddrString X sender\<rparr>))
           (StoreCode c),
         map_option (\<lambda>v. MigrateProposal (v\<lparr>mc_Title := title, mc_Description := desc\<rparr>))
           (MigrateContract c),
         map_option (\<lambda>v. UpdateAdminProposal (stamp v)) (SetContractAdmin c),
         map_option (\<lambda>v. ClearAdminProposal (stamp v)) (ClearContractAdmin c),
         map_option (\<lambda>v. PinCodesProposal (stamp v)) (PinCodes c),
         map_option (\<lambda>v. UnpinCodesProposal (stamp v)) (UnpinCodes c)])"

definition unpackInterfaces :: "'f ExecuteGovProposal \<Rightarrow> unit res" where
  "unpackInterfaces p =
     (case RegisterUpgrade (eg_Proposal p) of
        Some plan \<Rightarrow>
          if pl_UpgradedClientState plan \<noteq> None
          then failw SdkErrInvalidRequest ''upgrade logic for IBC has been moved to the IBC module''
          else Ok ()
      | None \<Rightarrow> Ok ())"

section \<open>Decoding\<close>

text \<open>
  How \<open>encoding/json\<close> decodes pointers to the foreign structs, and the wasmvm instantiate message.
\<close>

record InstantiateMsg =
  im_Admin :: string
  im_CodeID :: uint64
  im_Label :: string
  im_Msg :: bytes
  im_Funds :: "wasm_coin list"

record 'f gov_json =
  jRest :: 'f
  jText :: "'f titled option decoder"
  jPlan :: "'f Plan option decoder"
  jCancelUpgrade :: "'f titled option decoder"
  jParamChanges :: "ParamChange list option decoder"
  jClientUpdate :: "'f ClientUpdateProposal option decoder"
  jInstantiate :: "InstantiateContractProposal option decoder"
  jStoreCode :: "'f StoreCodeProposal option decoder"
  jMigrate :: "MigrateContractProposal option decoder"
  jUpdateAdmin :: "'f titled option decoder"
  jClearAdmin :: "'f titled option decoder"
  jPinCodes :: "'f titled option decoder"
  jUnpinCodes :: "'f titled option decoder"
  jInstantiateMsg :: "json \<Rightarrow> InstantiateMsg res"
  jWasmCoin :: "wasm_coin decoder"

text \<open>The proxy structs of the custom unmarshalers.\<close>

record client_update_proxy =
  cp_ClientID :: string
  cp_Header :: "(string \<times> bytes) option"

record upgrade_proxy =
  up_Name :: string
  up_Height :: int
  up_Info :: string

record migrate_proxy =
  mp_Contract :: string
  mp_CodeID :: uint64
  mp_Msg :: bytes

definition dec_ProtoAny :: "(string \<times> bytes) decoder" where
  "dec_ProtoAny =
     dec_struct
       [(''type_url'', at_field fst apfst dec_string),
        (''value'', at_field snd apsnd dec_bytes)]"

definition unmarshal_ibc_client_update ::
    "'f gov_json \<Rightarrow> json \<Rightarrow> 'f proposalContent \<Rightarrow> 'f proposalContent res" where
  "unmarshal_ibc_client_update J b result =
     bind_res (recast SdkErrJSONUnmarshal
       (dec_struct
         [(''client_id'', at_field cp_ClientID cp_ClientID_update dec_string),
          (''header'', at_field cp_Header cp_Header_update (dec_ptr ('''', []) dec_ProtoAny))]
         b \<lparr>cp_ClientID = '''', cp_Header = None\<rparr>))
     (\<lambda>proxy. Ok (result\<lparr>IBCClientUpdate := Some
        \<lparr>cl_Title = '''', cl_Description = '''', cl_SubjectClientId = cp_ClientID proxy, cl_rest = jRest J\<rparr>\<rparr>))"

definition unmarshal_register_upgrade ::
    "'f gov_json \<Rightarrow> json \<Rightarrow> 'f proposalContent \<Rightarrow> 'f proposalContent res" where
  "unmarshal_register_upgrade J b result =
     bind_res (recast SdkErrJSONUnmarshal
       (dec_struct
         [(''name'', at_field up_Name up_Name_update dec_string),
          (''height'', at_field up_Height up_Height_update dec_int64),
          (''info'', at_field up_Info up_Info_update dec_string)]
         b \<lparr>up_Name = '''', up_Height = 0, up_Info = ''''\<rparr>))
     (\<lambda>proxy. Ok (result\<lparr>RegisterUpgrade := Some
        \<lparr>pl_Name = up_Name proxy, pl_Height = up_Height proxy, pl_Info = up_Info proxy,
         pl_UpgradedClientState = None, pl_rest = jRest J\<rparr>\<rparr>))"

definition unmarshal_migrate_contract :: "json \<Rightarrow> 'f proposalContent \<Rightarrow> 'f proposalContent res" where
  "unmarshal_migrate_contract b result =
     bind_res (recast SdkErrJSONUnmarshal
       (dec_struct
         [(''contract'', at_field mp_Contract mp_Contract_update dec_string),
          (''code_id'', at_field mp_CodeID mp_CodeID_update dec_uint64),
          (''migrate_msg'', at_field mp_Msg mp_Msg_update dec_bytes)]
         b \<lparr>mp_Contract = '''', mp_CodeID = 0, mp_Msg = []\<rparr>))
     (\<lambda>proxy. Ok (result\<lparr>MigrateContract := Some
        \<lparr>mc_Title = '''', mc_Description = '''', mc_Contract = mp_Contract proxy,
         mc_CodeID = mp_CodeID proxy, mc_Msg = mp_Msg proxy\<rparr>\<rparr>))"

definition unmarshal_instantiate_contract ::
    "coin_ext \<Rightarrow> 'f gov_json \<Rightarrow> json \<Rightarrow> 'f proposalContent \<Rightarrow> 'f proposalContent res" where
  "unmarshal_instantiate_contract C J b result =
     bind_res (recast SdkErrJSONUnmarshal (jInstantiateMsg J b)) (\<lambda>proxy.
     bind_res (recast SdkErrJSONUnmarshal (convertWasmCoinsToSdkCoins C (im_Funds proxy))) (\<lambda>funds.
       Ok (result\<lparr>InstantiateContract := Some
         \<lparr>ic_Title = '''', ic_Description = '''', ic_RunAs = '''', ic_Admin = im_Admin proxy,
          ic_CodeID = im_CodeID proxy, ic_Label = im_Label proxy, ic_Msg = im_Msg proxy,
          ic_Funds = funds\<rparr>\<rparr>)))"

text \<open>The custom unmarshalers in the order of their sorted field names.\<close>

definition customUnmarshalers ::
    "coin_ext \<Rightarrow> 'f gov_json \<Rightarrow>
     (string \<times> (json \<Rightarrow> 'f proposalContent \<Rightarrow> 'f proposalContent res)) list" where
  "customUnmarshalers C J =
     [(''ibc_client_update'', unmarshal_ibc_client_update J),
      (''register_upgrade'', unmarshal_register_upgrade J),
      (''migrate_contract'', unmarshal_migrate_contract),
      (''instantiate_contract'', unmarshal_instantiate_contract C J)]"

definition dec_privileged_proposal :: "PrivilegedContractProposal option decoder" where
  "dec_privileged_proposal =
     dec_ptr \<lparr>pp_Title = '''', pp_Description = '''', pp_Contract = ''''\<rparr>
       (dec_struct
         [(''title'', at_field pp_Title pp_Title_update dec_string),
          (''description'', at_field pp_Description pp_Description_update dec_string),
          (''contract'', at_field pp_Contract pp_Contract_update dec_string)])"

definition dec_proposalContent :: "'f gov_json \<Rightarrow> 'f proposalContent decoder" where
  "dec_proposalContent J =
     dec_struct
       [(''text'', at_field Text Text_update (jText J)),
        (''register_upgrade'', at_field RegisterUpgrade RegisterUpgrade_update (jPlan J)),
        (''cancel_upgrade'', at_field CancelUpgrade CancelUpgrade_update (jCancelUpgrade J)),
        (''change_params'', at_field ChangeParams ChangeParams_update (jParamChanges J)),
        (''ibc_client_update'', at_field IBCClientUpdate IBCClientUpdate_update (jClientUpdate J)),
        (''promote_to_privileged_contract'',
          at_field PromoteToPrivilegedContract PromoteToPrivilegedContract_update dec_privileged_proposal),
        (''demote_privileged_contract'',
          at_field DemotePrivilegedContract DemotePrivilegedContract_update dec_privileged_proposal),
        (''instantiate_contract'',
          at_field InstantiateContract InstantiateContract_update (jInstantiate J)),
        (''store_code'', at_field StoreCode StoreCode_update (jStoreCode J)),
        (''migrate_contract'', at_field MigrateContract MigrateContract_update (jMigrate J)),
        (''set_contract_admin'', at_field SetContractAdmin SetContractAdmin_update (jUpdateAdmin J)),
        (''clear_contract_admin'', at_field ClearContractAdmin ClearContractAdmin_update (jClearAdmin J)),
        (''pin_codes'', at_field PinCodes PinCodes_update (jPinCodes J)),
        (''unpin_codes'', at_field UnpinCodes UnpinCodes_update (jUnpinCodes J))]"

fun unmarshal_custom ::
    "(string \<times> (json \<Rightarrow> 'p \<Rightarrow> 'p res)) list \<Rightarrow> (string \<rightharpoonup> json) \<Rightarrow> 'p \<Rightarrow> 'p res option" where
  "unmarshal_custom [] raws result = None"
| "unmarshal_custom ((field, unmarshaler) # us) raws result =
     (case raws field of
        Some bz \<Rightarrow> Some (recast SdkErrJSONUnmarshal (unmarshaler bz result))
      | None \<Rightarrow> unmarshal_custom us raws result)"

definition GovProposal_UnmarshalJSON :: "coin_ext \<Rightarrow> 'f gov_json \<Rightarrow> 'f proposalContent decoder" where
  "GovProposal_UnmarshalJSON C J b p =
     bind_res (recast SdkErrJSONUnmarshal (dec_raw_map b)) (\<lambda>raws.
       case unmarshal_custom (sort_key fst (customUnmarshalers C J)) raws emptyContent of
         Some r \<Rightarrow> r
       | None \<Rightarrow> recast SdkErrJSONUnmarshal (dec_proposalContent J b emptyContent))"

section \<open>The message of a contract\<close>

record PrivilegeMsg =
  pm_Request :: PrivilegeType
  pm_Release :: PrivilegeType

record MintTokens =
  mt_Denom :: string
  mt_Amount :: string
  mt_RecipientAddr :: string

record Delegate =
  de_Funds :: wasm_coin
  de_StakerAddr :: string

record Undelegate =
  un_Funds :: wasm_coin
  un_RecipientAddr :: string

record 'f PetriMsg =
  pm_Privilege :: "PrivilegeMsg option"
  pm_ExecuteGovProposal :: "'f ExecuteGovProposal option"
  pm_MintTokens :: "MintTokens option"
  pm_ConsensusParams :: "ConsensusParamsUpdate option"
  pm_Delegate :: "Delegate option"
  pm_Undelegate :: "Undelegate option"

definition dec_PrivilegeMsg :: "PrivilegeMsg decoder" where
  "dec_PrivilegeMsg =
     dec_struct
       [(''request'', at_field pm_Request pm_Request_update PrivilegeType_UnmarshalJSON),
        (''release'', at_field pm_Release pm_Release_update PrivilegeType_UnmarshalJSON)]"

definition dec_ExecuteGovProposal :: "coin_ext \<Rightarrow> 'f gov_json \<Rightarrow> 'f ExecuteGovProposal decoder" where
  "dec_ExecuteGovProposal C J =
     dec_struct
       [(''title'', at_field eg_Title eg_Title_update dec_string),
        (''description'', at_field eg_Description eg_Description_update dec_string),
        (''proposal'', at_field eg_Proposal eg_Proposal_update (GovProposal_UnmarshalJSON C J))]"

definition dec_MintTokens :: "MintTokens decoder" where
  "dec_MintTokens =
     dec_struct
       [(''denom'', at_field mt_Denom mt_Denom_update dec_string),
        (''amount'', at_field mt_Amount mt_Amount_update dec_string),
        (''recipient'', at_field mt_RecipientAddr mt_RecipientAddr_update dec_string)]"

definition dec_BlockParams :: "BlockParams decoder" where
  "dec_BlockParams =
     dec_struct
       [(''max_bytes'', at_field bp_MaxBytes bp_MaxBytes_update (dec_ptr 0 dec_int64)),
        (''max_gas'', at_field bp_MaxGas bp_MaxGas_update (dec_ptr 0 dec_int64))]"

definition dec_EvidenceParams :: "EvidenceParams decoder" where
  "dec_EvidenceParams =
     dec_struct
       [(''max_age_num_blocks'',
          at_field ep_MaxAgeNumBlocks ep_MaxAgeNumBlocks_update (dec_ptr 0 dec_int64)),
        (''max_age_duration'',
          at_field ep_MaxAgeDuration ep_MaxAgeDuration_update (dec_ptr 0 dec_int64)),
        (''max_bytes'', at_field ep_MaxBytes ep_MaxBytes_update (dec_ptr 0 dec_int64))]"

definition dec_ConsensusParamsUpdate :: "ConsensusParamsUpdate decoder" where
  "dec_ConsensusParamsUpdate =
     dec_struct
       [(''block'', at_field cu_Block cu_Block_update
          (dec_ptr \<lparr>bp_MaxBytes = None, bp_MaxGas = None\<rparr> dec_BlockParams)),
        (''evidence'', at_field cu_Evidence cu_Evidence_update
          (dec_ptr \<lparr>ep_MaxAgeNumBlocks = None, ep_MaxAgeDuration = None, ep_MaxBytes = None\<rparr>
            dec_EvidenceParams))]"

definition dec_Delegate :: "'f gov_json \<Rightarrow> Delegate decoder" where
  "dec_Delegate J =
     dec_struct
       [(''funds'', at_field de_Funds de_Funds_update (jWasmCoin J)),
        (''staker'', at_field de_StakerAddr de_StakerAddr_update dec_string)]"

definition dec_Undelegate :: "'f gov_json \<Rightarrow> Undelegate decoder" where
  "dec_Undelegate J =
     dec_struct
       [(''funds'', at_field un_Funds un_Funds_update (jWasmCoin J)),
        (''recipient'', at_field un_RecipientAddr un_RecipientAddr_update dec_string)]"

definition emptyPetriMsg :: "'f PetriMsg" where
  "emptyPetriMsg =
     \<lparr>pm_Privilege = None, pm_ExecuteGovProposal = None, pm_MintTokens = None,
      pm_ConsensusParams = None, pm_Delegate = None, pm_Undelegate = None\<rparr>"

definition PetriMsg_fields :: "coin_ext \<Rightarrow> 'f gov_json \<Rightarrow> (string \<times> 'f PetriMsg decoder) list" where
  "PetriMsg_fields C J =
     (let noCoin = \<lparr>wc_Denom = '''', wc_Amount = ''''\<rparr> in
       [(''privilege'', at_field pm_Privilege pm_Privilege_update
          (dec_ptr \<lparr>pm_Request = 0, pm_Release = 0\<rparr> dec_PrivilegeMsg)),
        (''execute_gov_proposal'', at_field pm_ExecuteGovProposal pm_ExecuteGovProposal_update
          (dec_ptr \<lparr>eg_Title = '''', eg_Description = '''', eg_Proposal = emptyContent\<rparr>
            (dec_ExecuteGovProposal C J))),
        (''mint_tokens'', at_field pm_MintTokens pm_MintTokens_update
          (dec_ptr \<lparr>mt_Denom = '''', mt_Amount = '''', mt_RecipientAddr = ''''\<rparr> dec_MintTokens)),
        (''consensus_params'', at_field pm_ConsensusParams pm_ConsensusParams_update
          (dec_ptr \<lparr>cu_Block = None, cu_Evidence = None\<rparr> dec_ConsensusParamsUpdate)),
        (''delegate'', at_field pm_Delegate pm_Delegate_update
          (dec_ptr \<lparr>de_Funds = noCoin, de_StakerAddr = ''''\<rparr> (dec_Delegate J))),
        (''undelegate'', at_field pm_Undelegate pm_Undelegate_update
          (dec_ptr \<lparr>un_Funds = noCoin, un_RecipientAddr = ''''\<rparr> (dec_Undelegate J)))])"

definition dec_PetriMsg :: "coin_ext \<Rightarrow> 'f gov_json \<Rightarrow> 'f PetriMsg decoder" where
  "dec_PetriMsg C J = dec_struct (PetriMsg_fields C J)"

text \<open>The raw bytes of the message are given by the JSON value they hold, if they hold one.\<close>

definition UnmarshalWithAny :: "coin_ext \<Rightarrow> 'f gov_json \<Rightarrow> json option \<Rightarrow> 'f PetriMsg res" where
  "UnmarshalWithAny C J bz =
     (case bz of
        None \<Rightarrow> failw SdkErrJSONUnmarshal ''err.Error()''
      | Some j \<Rightarrow>
          bind_res (recast SdkErrJSONUnmarshal (dec_PetriMsg C J j emptyPetriMsg)) (\<lambda>p.
            case pm_ExecuteGovProposal p of
              Some g \<Rightarrow> bind_res (wrap_res ''execute_gov_proposal'' (unpackInterfaces g)) (\<lambda>_. Ok p)
            | None \<Rightarrow> Ok p))"

section \<open>The proposals of the module\<close>

text \<open>
  \<open>strings.TrimSpace\<close> on the bytes of a string: the white space characters of Unicode in UTF-8.
\<close>

definition space_codes :: "string list" where
  "space_codes =
     map (map char_of)
       ([[9], [10], [11], [12], [13], [32], [0xC2, 0x85], [0xC2, 0xA0], [0xE1, 0x9A, 0x80],
         [0xE2, 0x80, 0xA8], [0xE2, 0x80, 0xA9], [0xE2, 0x80, 0xAF], [0xE2, 0x81, 0x9F],
         [0xE3, 0x80, 0x80]] @ map (\<lambda>b. [0xE2, 0x80, b]) [0x80 ..< (0x8B :: nat)])"

function trim_prefixes :: "string list \<Rightarrow> string \<Rightarrow> string" where
  "trim_prefixes cs s =
     (case find (\<lambda>c. c \<noteq> [] \<and> take (length c) s = c) cs of
        Some c \<Rightarrow> trim_prefixes cs (drop (length c) s)
      | None \<Rightarrow> s)"
  by auto
termination
  by (relation "measure (\<lambda>(cs, s). length s)") (auto simp: find_Some_iff intro!: diff_less)

declare trim_prefixes.simps [simp del]

definition TrimSpace :: "string \<Rightarrow> string" where
  "TrimSpace s = rev (trim_prefixes (map rev space_codes) (rev (trim_prefixes space_codes s)))"

record gov_limits =
  MaxTitleLength :: nat
  MaxDescriptionLength :: nat

definition validateProposalCommons :: "gov_limits \<Rightarrow> string \<Rightarrow> string \<Rightarrow> unit res" where
  "validateProposalCommons L title description =
     (if TrimSpace title \<noteq> title
      then failw GovErrInvalidProposalContent ''proposal title must not start/end with white spaces''
      else if length title = 0
      then failw GovErrInvalidProposalContent ''proposal title cannot be blank''
      else if length title > MaxTitleLength L
      then failw GovErrInvalidProposalContent ''proposal title is longer than max length of %d''
      else if TrimSpace description \<noteq> description
      then failw GovErrInvalidProposalContent ''proposal description must not start/end with white spaces''
      else if length description = 0
      then failw GovErrInvalidProposalContent ''proposal description cannot be blank''
      else if length description > MaxDescriptionLength L
      then failw GovErrInvalidProposalContent ''proposal description is longer than max length of %d''
      else Ok ())"

definition PromoteProposal_ValidateBasic ::
    "'w wasm_ext \<Rightarrow> gov_limits \<Rightarrow> PrivilegedContractProposal \<Rightarrow> unit res" where
  "PromoteProposal_ValidateBasic X L p =
     bind_res (validateProposalCommons L (pp_Title p) (pp_Description p)) (\<lambda>_.
     bind_res (wrap_res ''contract'' (AccAddressFromBech32 X (pp_Contract p))) (\<lambda>_. Ok ()))"

definition DemoteProposal_ValidateBasic ::
    "'w wasm_ext \<Rightarrow> gov_limits \<Rightarrow> PrivilegedContractProposal \<Rightarrow> unit res" where
  "DemoteProposal_ValidateBasic X L p =
     bind_res (validateProposalCommons L (pp_Title p) (pp_Description p)) (\<lambda>_.
     bind_res (wrap_res ''contract'' (AccAddressFromBech32 X (pp_Contract p))) (\<lambda>_. Ok ()))"

definition proposal_string :: "PrivilegedContractProposal \<Rightarrow> string" where
  "proposal_string p =
     ''Store Code Proposal:'' @ [CHR 0x0A] @
     ''  Title:       '' @ pp_Title p @ [CHR 0x0A] @
     ''  Description: '' @ pp_Description p @ [CHR 0x0A] @
     ''  Contract:    '' @ pp_Contract p @ [CHR 0x0A]"

section \<open>Lemmas\<close>

lemma first_some_None: "first_some os = None \<longleftrightarrow> (\<forall>v \<in> set os. v = None)"
  by (induction os rule: first_some.induct) auto

fun content_title :: "'f content \<Rightarrow> string" where
  "content_title (TextProposal v) = t_Title v"
| "content_title (SoftwareUpgradeProposal t d v) = t"
| "content_title (CancelSoftwareUpgradeProposal v) = t_Title v"
| "content_title (ParameterChangeProposal t d v) = t"
| "content_title (ClientUpdate v) = cl_Title v"
| "content_title (PromoteProposal v) = pp_Title v"
| "content_title (DemoteProposal v) = pp_Title v"
| "content_title (InstantiateProposal v) = ic_Title v"
| "content_title (StoreCodeContent v) = sc_Title v"
| "content_title (MigrateProposal v) = mc_Title v"
| "content_title (UpdateAdminProposal v) = t_Title v"
| "content_title (ClearAdminProposal v) = t_Title v"
| "content_title (PinCodesProposal v) = t_Title v"
| "content_title (UnpinCodesProposal v) = t_Title v"

lemma first_some_in: "first_some os = Some c \<Longrightarrow> list_ex (\<lambda>v. v = Some c) os"
  by (induction os rule: first_some.induct) auto

lemma GetProposalContent_title: "GetProposalContent X p sender = Some c \<Longrightarrow> content_title c = eg_Title p"
  unfolding GetProposalContent_def Let_def by (drule first_some_in) (auto)

lemma GetProposalContent_run_as:
  "GetProposalContent X p sender = Some (InstantiateProposal v) \<Longrightarrow> ic_RunAs v = AddrString X sender"
  "GetProposalContent X p sender = Some (StoreCodeContent w) \<Longrightarrow> sc_RunAs w = AddrString X sender"
  unfolding GetProposalContent_def Let_def by (drule first_some_in; auto)+

lemma trim_prefixes_drop: "\<exists>k. trim_prefixes cs s = drop k s"
proof (induction cs s rule: trim_prefixes.induct)
  case (1 cs s)
  show ?case
  proof (cases "find (\<lambda>c. c \<noteq> [] \<and> take (length c) s = c) cs")
    case None
    then have "trim_prefixes cs s = drop 0 s" by (simp add: trim_prefixes.simps [of cs s])
    then show ?thesis by blast
  next
    case (Some c)
    with 1 obtain k where "trim_prefixes cs (drop (length c) s) = drop k (drop (length c) s)" by blast
    with Some show ?thesis by (auto simp: trim_prefixes.simps [of cs s])
  qed
qed

lemma trim_prefixes_full: "length s \<le> length (trim_prefixes cs s) \<Longrightarrow> trim_prefixes cs s = s"
proof -
  assume le: "length s \<le> length (trim_prefixes cs s)"
  obtain k where k: "trim_prefixes cs s = drop k s" using trim_prefixes_drop by blast
  with le have "k = 0 \<or> length s = 0" by (simp only: length_drop) linarith
  with k show ?thesis by auto
qed

lemma trim_prefixes_le: "length (trim_prefixes cs s) \<le> length s"
  using trim_prefixes_drop [of cs s] by auto

lemma trim_prefixes_id:
  "trim_prefixes cs s = s \<longleftrightarrow> (\<forall>c \<in> set cs. c \<noteq> [] \<longrightarrow> take (length c) s \<noteq> c)"
proof (cases "find (\<lambda>c. c \<noteq> [] \<and> take (length c) s = c) cs")
  case None
  then have "trim_prefixes cs s = s" by (simp add: trim_prefixes.simps [of cs s])
  with None show ?thesis by (auto simp: find_None_iff)
next
  case (Some c)
  have c: "c \<in> set cs" "c \<noteq> []" "take (length c) s = c" using Some by (auto simp: find_Some_iff)
  then have "length (drop (length c) s) < length s" by (cases s) auto
  then have "trim_prefixes cs s \<noteq> s"
    using trim_prefixes_le [of cs "drop (length c) s"] Some by (auto simp: trim_prefixes.simps [of cs s])
  with c show ?thesis by auto
qed

text \<open>Trimming leaves a string alone exactly when no white space begins or ends it.\<close>

definition no_outer_space :: "string \<Rightarrow> bool" where
  "no_outer_space s \<longleftrightarrow>
     list_all (\<lambda>c. take (length c) s \<noteq> c \<and> drop (length s - length c) s \<noteq> c) space_codes"

lemma space_codes_nonempty: "c \<in> set space_codes \<Longrightarrow> c \<noteq> []"
  by (auto simp: space_codes_def)

lemma TrimSpace_id: "TrimSpace s = s \<longleftrightarrow> no_outer_space s"
proof -
  have "rev (trim_prefixes (map rev space_codes) (rev s)) = s \<longleftrightarrow>
      (\<forall>c \<in> set space_codes. drop (length s - length c) s \<noteq> c)"
    using trim_prefixes_id [of "map rev space_codes" "rev s"] space_codes_nonempty
    by (auto simp: rev_swap take_rev)
  moreover have "TrimSpace s = s \<longleftrightarrow> trim_prefixes space_codes s = s \<and>
      rev (trim_prefixes (map rev space_codes) (rev s)) = s"
    using trim_prefixes_full [of s space_codes]
      trim_prefixes_le [of "map rev space_codes" "rev (trim_prefixes space_codes s)"]
    by (metis TrimSpace_def length_rev)
  ultimately show ?thesis
    using trim_prefixes_id [of space_codes s] space_codes_nonempty
    by (auto simp: no_outer_space_def list_all_iff)
qed

lemma validateProposalCommons_iff:
  "validateProposalCommons L title description = Ok () \<longleftrightarrow>
     no_outer_space title \<and> title \<noteq> [] \<and> length title \<le> MaxTitleLength L \<and>
     no_outer_space description \<and> description \<noteq> [] \<and> length description \<le> MaxDescriptionLength L"
  by (simp add: validateProposalCommons_def TrimSpace_id not_less)

lemma ConsensusParamsUpdate_ValidateBasic_iff:
  "ConsensusParamsUpdate_ValidateBasic c = Ok () \<longleftrightarrow>
     (cu_Block c \<noteq> None \<or> cu_Evidence c \<noteq> None) \<and>
     (\<forall>b. cu_Block c = Some b \<longrightarrow> bp_MaxBytes b \<noteq> None \<or> bp_MaxGas b \<noteq> None) \<and>
     (\<forall>e. cu_Evidence c = Some e \<longrightarrow>
        ep_MaxAgeNumBlocks e \<noteq> None \<or> ep_MaxAgeDuration e \<noteq> None \<or> ep_MaxBytes e \<noteq> None)"
  by (auto simp: ConsensusParamsUpdate_ValidateBasic_def BlockParams_ValidateBasic_def
      EvidenceParams_ValidateBasic_def bind_res_Ok_iff split: option.splits)

text \<open>
  A proposal that names one of the custom fields is decoded by the first of them in the order of
  the names, and holds nothing else.
\<close>

definition custom_names :: "string list" where
  "custom_names = [''ibc_client_update'', ''instantiate_contract'', ''migrate_contract'', ''register_upgrade'']"

lemma sorted_customs:
  "sort_key fst (customUnmarshalers C J) =
     [(''ibc_client_update'', unmarshal_ibc_client_update J),
      (''instantiate_contract'', unmarshal_instantiate_contract C J),
      (''migrate_contract'', unmarshal_migrate_contract),
      (''register_upgrade'', unmarshal_register_upgrade J)]"
  by (simp add: customUnmarshalers_def less_le)


definition only_content :: "string \<Rightarrow> 'f proposalContent \<Rightarrow> bool" where
  "only_content field c \<longleftrightarrow>
     Text c = None \<and> CancelUpgrade c = None \<and> ChangeParams c = None \<and>
     PromoteToPrivilegedContract c = None \<and> DemotePrivilegedContract c = None \<and>
     StoreCode c = None \<and> SetContractAdmin c = None \<and> ClearContractAdmin c = None \<and>
     PinCodes c = None \<and> UnpinCodes c = None \<and>
     (IBCClientUpdate c \<noteq> None \<longleftrightarrow> field = ''ibc_client_update'') \<and>
     (InstantiateContract c \<noteq> None \<longleftrightarrow> field = ''instantiate_contract'') \<and>
     (MigrateContract c \<noteq> None \<longleftrightarrow> field = ''migrate_contract'') \<and>
     (RegisterUpgrade c \<noteq> None \<longleftrightarrow> field = ''register_upgrade'')"

lemma custom_only:
  "unmarshal_ibc_client_update J b emptyContent = Ok c \<Longrightarrow> only_content ''ibc_client_update'' c"
  "unmarshal_register_upgrade J b emptyContent = Ok c \<Longrightarrow> only_content ''register_upgrade'' c"
  "unmarshal_migrate_contract b emptyContent = Ok c \<Longrightarrow> only_content ''migrate_contract'' c"
  "unmarshal_instantiate_contract C J b emptyContent = Ok c \<Longrightarrow> only_content ''instantiate_contract'' c"
  unfolding unmarshal_ibc_client_update_def unmarshal_register_upgrade_def
    unmarshal_migrate_contract_def unmarshal_instantiate_contract_def bind_res_Ok_iff
  by (clarsimp simp: only_content_def emptyContent_def)+

lemma custom_in_table:
  "(field, u) \<in> set (customUnmarshalers C J) \<Longrightarrow> u b emptyContent = Ok c \<Longrightarrow> only_content field c"
  unfolding customUnmarshalers_def set_simps
  by (elim insertE emptyE) (simp_all only: prod.inject custom_only)

lemma unmarshal_custom_find:
  "unmarshal_custom us raws r =
     (case find (\<lambda>u. raws (fst u) \<noteq> None) us of
        None \<Rightarrow> None
      | Some (field, u) \<Rightarrow> Some (recast SdkErrJSONUnmarshal (u (the (raws field)) r)))"
  by (induction us raws r rule: unmarshal_custom.induct) (auto split: option.splits)

lemma find_by_name:
  "find Q (map fst us) = Some field \<Longrightarrow> \<exists>u. (field, u) \<in> set us \<and> find (\<lambda>u. Q (fst u)) us = Some (field, u)"
  by (induction us) (auto split: if_splits)

lemma GovProposal_custom:
  assumes raws: "dec_raw_map b = Ok raws"
    and field: "find (\<lambda>f. raws f \<noteq> None) custom_names = Some field"
    and ok: "GovProposal_UnmarshalJSON C J b p = Ok c"
  shows "only_content field c"
proof -
  let ?us = "sort_key fst (customUnmarshalers C J)"
  have "map fst ?us = custom_names" by (simp add: sorted_customs custom_names_def)
  with field obtain u where u: "(field, u) \<in> set ?us"
    and find: "find (\<lambda>u. raws (fst u) \<noteq> None) ?us = Some (field, u)"
    using find_by_name [of "\<lambda>f. raws f \<noteq> None" ?us field] by auto
  have "u (the (raws field)) emptyContent = Ok c"
    using ok raws find by (simp add: GovProposal_UnmarshalJSON_def unmarshal_custom_find)
  with u show ?thesis by (auto intro: custom_in_table)
qed

lemma find_field_in: "find_field fs key = Some d \<Longrightarrow> \<exists>n. (n, d) \<in> set fs"
  by (auto simp: find_field_def find_Some_iff in_set_conv_nth dest!: map_of_SomeD split: option.splits)
    (metis prod.collapse)

text \<open>What every field decoder keeps, a struct decoder keeps.\<close>

lemma dec_fields_inv:
  assumes "dec_fields fs kvs v = Ok w" and "P v"
    and step: "\<And>n d j u u'. (n, d) \<in> set fs \<Longrightarrow> P u \<Longrightarrow> d j u = Ok u' \<Longrightarrow> P u'"
  shows "P w"
  using assms(1,2)
proof (induction kvs arbitrary: v)
  case (Cons kv kvs)
  obtain key j where kv: "kv = (key, j)" by fastforce
  show ?case
  proof (cases "find_field fs key")
    case None
    with Cons kv show ?thesis by simp
  next
    case (Some d)
    with Cons.prems kv obtain u where u: "d j v = Ok u" "dec_fields fs kvs u = Ok w"
      by (auto simp: bind_res_Ok_iff)
    with Some step Cons.prems(2) have "P u" using find_field_in [OF Some] by blast
    with u Cons.IH show ?thesis by blast
  qed
qed simp

lemma dec_struct_inv:
  assumes "dec_struct fs j v = Ok w" and "P v"
    and "\<And>n d j u u'. (n, d) \<in> set fs \<Longrightarrow> P u \<Longrightarrow> d j u = Ok u' \<Longrightarrow> P u'"
  shows "P w"
  using assms dec_fields_inv [of fs _ v w P]
  by (auto simp: dec_struct_def split: json.splits)

definition int64_opt :: "int option \<Rightarrow> bool" where
  "int64_opt x \<longleftrightarrow> (\<forall>i. x = Some i \<longrightarrow> in_int64 i)"

definition update_in_range :: "ConsensusParamsUpdate \<Rightarrow> bool" where
  "update_in_range c \<longleftrightarrow>
     (\<forall>b. cu_Block c = Some b \<longrightarrow> int64_opt (bp_MaxBytes b) \<and> int64_opt (bp_MaxGas b)) \<and>
     (\<forall>e. cu_Evidence c = Some e \<longrightarrow> int64_opt (ep_MaxAgeNumBlocks e) \<and>
        int64_opt (ep_MaxAgeDuration e) \<and> int64_opt (ep_MaxBytes e))"

lemma dec_ptr_Some:
  "dec_ptr zero d j p = Ok (Some w) \<Longrightarrow> d j (case p of None \<Rightarrow> zero | Some v \<Rightarrow> v) = Ok w"
  by (cases j) (auto simp: dec_ptr_def bind_res_Ok_iff)

lemma dec_ptr_int64: "dec_ptr 0 dec_int64 j p = Ok q \<Longrightarrow> int64_opt p \<Longrightarrow> int64_opt q"
  by (cases q) (auto simp: int64_opt_def in_int64_def [of 0] split: option.splits
      dest!: dec_ptr_Some intro: dec_int64_range)

lemma at_field_int64:
  "at_field get upd (dec_ptr 0 dec_int64) j u = Ok u' \<Longrightarrow> int64_opt (get u) \<Longrightarrow>
   \<exists>x. u' = upd (\<lambda>_. x) u \<and> int64_opt x"
  unfolding at_field_def bind_res_Ok_iff using dec_ptr_int64 by blast

lemma dec_BlockParams_range:
  "dec_BlockParams j v = Ok w \<Longrightarrow> int64_opt (bp_MaxBytes v) \<and> int64_opt (bp_MaxGas v) \<Longrightarrow>
   int64_opt (bp_MaxBytes w) \<and> int64_opt (bp_MaxGas w)"
  unfolding dec_BlockParams_def
  by (erule dec_struct_inv) (auto dest: at_field_int64)

lemma dec_EvidenceParams_range:
  "dec_EvidenceParams j v = Ok w \<Longrightarrow>
   int64_opt (ep_MaxAgeNumBlocks v) \<and> int64_opt (ep_MaxAgeDuration v) \<and> int64_opt (ep_MaxBytes v) \<Longrightarrow>
   int64_opt (ep_MaxAgeNumBlocks w) \<and> int64_opt (ep_MaxAgeDuration w) \<and> int64_opt (ep_MaxBytes w)"
  unfolding dec_EvidenceParams_def
  by (erule dec_struct_inv) (auto dest: at_field_int64)


lemma dec_ConsensusParamsUpdate_range:
  assumes "dec_ConsensusParamsUpdate j v = Ok w" and "update_in_range v"
  shows "update_in_range w"
  using assms unfolding dec_ConsensusParamsUpdate_def
proof (rule dec_struct_inv)
  fix n d j u u'
  assume fld: "(n, d) \<in> set [(''block'', at_field cu_Block cu_Block_update
          (dec_ptr \<lparr>bp_MaxBytes = None, bp_MaxGas = None\<rparr> dec_BlockParams)),
        (''evidence'', at_field cu_Evidence cu_Evidence_update
          (dec_ptr \<lparr>ep_MaxAgeNumBlocks = None, ep_MaxAgeDuration = None, ep_MaxBytes = None\<rparr>
            dec_EvidenceParams))]"
    and u: "update_in_range u" and d: "d j u = Ok u'"
  have None: "int64_opt None" by (simp add: int64_opt_def)
  have block: "int64_opt (bp_MaxBytes b) \<and> int64_opt (bp_MaxGas b)"
    if "dec_ptr \<lparr>bp_MaxBytes = None, bp_MaxGas = None\<rparr> dec_BlockParams j (cu_Block u) = Ok (Some b)" for b
    using dec_BlockParams_range [OF dec_ptr_Some [OF that]] u None
    by (cases "cu_Block u") (auto simp: update_in_range_def)
  have evidence: "int64_opt (ep_MaxAgeNumBlocks e) \<and> int64_opt (ep_MaxAgeDuration e) \<and> int64_opt (ep_MaxBytes e)"
    if "dec_ptr \<lparr>ep_MaxAgeNumBlocks = None, ep_MaxAgeDuration = None, ep_MaxBytes = None\<rparr>
      dec_EvidenceParams j (cu_Evidence u) = Ok (Some e)" for e
    using dec_EvidenceParams_range [OF dec_ptr_Some [OF that]] u None
    by (cases "cu_Evidence u") (auto simp: update_in_range_def)
  show "update_in_range u'"
    using fld d u block evidence by (auto simp: at_field_def bind_res_Ok_iff update_in_range_def)
qed

end
