(* ===== verification/TwasmHandler.thy ===== *)
theory TwasmHandler
  imports TwasmPrivileged TwasmMsgs
begin

text \<open>
  \<open>x/twasm/keeper/handler_plugin.go\<close>: the message handler that dispatches the custom messages of
  privileged contracts. The bank keeper, the store of consensus parameters, the governance router,
  the coin functions of the SDK and the foreign proposal types are the record \<open>handler_ext\<close>.

  Lemmas: a privilege message keeps the invariant \<open>tw_inv\<close> of the keeper and changes one
  contract's list; no other message changes the privileges by itself; each message needs its
  privilege; a parameter proposal cannot touch the restricted subspace; the update of the
  consensus parameters changes the named fields only.
\<close>

section \<open>Environment\<close>

record cons_block =
  cb_MaxBytes :: int
  cb_MaxGas :: int

record cons_evidence =
  ce_MaxAgeNumBlocks :: int
  ce_MaxAgeDuration :: int
  ce_MaxBytes :: int

record 'v ConsensusParams =
  cp_Block :: "cons_block option"
  cp_Evidence :: "cons_evidence option"
  cp_rest :: 'v

record ('w, 'f, 'v) handler_ext =
  hMintCoins :: "string \<Rightarrow> coin list \<Rightarrow> ('w, unit) act"
  hSendCoinsFromModuleToAccount :: "string \<Rightarrow> addr \<Rightarrow> coin list \<Rightarrow> ('w, unit) act"
  hSendCoinsFromAccountToModule :: "addr \<Rightarrow> string \<Rightarrow> coin list \<Rightarrow> ('w, unit) act"
  hDelegateCoinsFromAccountToModule :: "addr \<Rightarrow> string \<Rightarrow> coin list \<Rightarrow> ('w, unit) act"
  hUndelegateCoinsFromModuleToAccount :: "string \<Rightarrow> addr \<Rightarrow> coin list \<Rightarrow> ('w, unit) act"
  hGetConsensusParams :: "'w \<Rightarrow> 'v ConsensusParams"
  hStoreConsensusParams :: "'v ConsensusParams \<Rightarrow> 'w \<Rightarrow> 'w"
  hCoins :: coin_ext
  hNewCoins :: "coin \<Rightarrow> coin list res"
  hCoinString :: "coin \<Rightarrow> string"
  hCoinsString :: "coin list \<Rightarrow> string"
  hConvertWasmCoinsToSdkCoins :: "wasm_coin list \<Rightarrow> coin list res"
  hModuleName :: string
  hAttributeKeyAmount :: string
  hBaseappParamspace :: string
  hParamsRouterKey :: string
  hRouterKey :: string
  hLimits :: gov_limits
  hJson :: "'f gov_json"
  hContentValidateBasic :: "'f content \<Rightarrow> unit res"
  hContentRoute :: "'f content \<Rightarrow> string"
  hHasRoute :: "string \<Rightarrow> bool"
  hGetRoute :: "string \<Rightarrow> 'f content \<Rightarrow> ('w tw_state, unit) act"

definition BondedPoolName :: string where "BondedPoolName = ''bonded_tokens_pool''"

section \<open>Content and router\<close>

definition content_ValidateBasic ::
    "'w wasm_ext \<Rightarrow> ('w, 'f, 'v) handler_ext \<Rightarrow> 'f content \<Rightarrow> unit res" where
  "content_ValidateBasic X H c =
     (case c of
        PromoteProposal p \<Rightarrow> PromoteProposal_ValidateBasic X (hLimits H) p
      | DemoteProposal p \<Rightarrow> DemoteProposal_ValidateBasic X (hLimits H) p
      | _ \<Rightarrow> hContentValidateBasic H c)"

definition content_ProposalRoute :: "('w, 'f, 'v) handler_ext \<Rightarrow> 'f content \<Rightarrow> string" where
  "content_ProposalRoute H c =
     (case c of
        PromoteProposal p \<Rightarrow> hRouterKey H
      | DemoteProposal p \<Rightarrow> hRouterKey H
      | _ \<Rightarrow> hContentRoute H c)"

definition HasRoute :: "('w, 'f, 'v) handler_ext \<Rightarrow> string \<Rightarrow> bool" where
  "HasRoute H r = hHasRoute H r"

definition GetRoute ::
    "('w, 'f, 'v) handler_ext \<Rightarrow> string \<Rightarrow> 'f content \<Rightarrow> ('w tw_state, unit) act" where
  "GetRoute H path =
     (let r = hGetRoute H path in
      if path = hParamsRouterKey H then
        (\<lambda>content.
           case content of
             ParameterChangeProposal title desc changes \<Rightarrow>
               if list_ex (\<lambda>c. pc_Subspace c = hBaseappParamspace H) changes
               then lift_res (failw SdkErrUnauthorized
                 ''base params can not be modified via params proposal'')
               else r content
           | _ \<Rightarrow> r content)
      else r)"

section \<open>Handlers\<close>

definition assertHasPrivilege :: "'w wasm_ext \<Rightarrow> addr \<Rightarrow> PrivilegeType \<Rightarrow> 'w tw_state \<Rightarrow> unit res" where
  "assertHasPrivilege X contractAddr requiredPrivilege s =
     (case GetContractInfo X contractAddr s of
        None \<Rightarrow> failw WasmErrNotFound ''contract info''
      | Some contractInfo \<Rightarrow>
          bind_res (readDetails X contractInfo) (\<lambda>details.
            if \<not> HasRegisteredPrivilege details requiredPrivilege
            then failw SdkErrUnauthorized ''requires: %s''
            else Ok ()))"

definition require :: "'w wasm_ext \<Rightarrow> addr \<Rightarrow> PrivilegeType \<Rightarrow> ('w tw_state, unit) act" where
  "require X contractAddr t s = (assertHasPrivilege X contractAddr t s, s)"

definition register ::
    "'w wasm_ext \<Rightarrow> addr \<Rightarrow> PetriContractDetails \<Rightarrow> PrivilegeType \<Rightarrow> ('w tw_state, unit) act" where
  "register X contractAddr details c =
     (if HasRegisteredPrivilege details c then ret ()
      else
        bindS (wrapS ''privilege registration'' (appendToPrivilegedContracts X c contractAddr)) (\<lambda>pos.
          wrapS ''store details''
            (setContractDetails X contractAddr (AddRegisteredPrivilege details c pos))))"

definition unregister ::
    "'w wasm_ext \<Rightarrow> addr \<Rightarrow> PetriContractDetails \<Rightarrow> PrivilegeType \<Rightarrow> ('w tw_state, unit) act" where
  "unregister X contractAddr details tp s =
     (if \<not> HasRegisteredPrivilege details tp then (Ok (), s)
      else
        (case release (\<lambda>c pos s. snd (removePrivilegeRegistration X c pos contractAddr s)) tp (s, details) of
           (Ok _, (s', d')) \<Rightarrow> wrapS ''store details'' (setContractDetails X contractAddr d') s'
         | (Err e, (s', d')) \<Rightarrow> (Err e, s')
         | (Panic p, (s', d')) \<Rightarrow> (Panic p, s')))"

definition handlePrivilege ::
    "'w wasm_ext \<Rightarrow> addr \<Rightarrow> PrivilegeMsg \<Rightarrow> ('w tw_state, unit) act" where
  "handlePrivilege X contractAddr msg s =
     (case GetContractInfo X contractAddr s of
        None \<Rightarrow> (failw WasmErrNotFound ''contract info'', s)
      | Some contractInfo \<Rightarrow>
          (bindS (lift_res (readDetails X contractInfo)) (\<lambda>details.
             if pm_Release msg \<noteq> PrivilegeTypeEmpty then unregister X contractAddr details (pm_Release msg)
             else if pm_Request msg \<noteq> PrivilegeTypeEmpty then register X contractAddr details (pm_Request msg)
             else lift_res (fail WasmErrUnknownMsg))) s)"

definition handleGovProposalExecution ::
    "'w wasm_ext \<Rightarrow> ('w, 'f, 'v) handler_ext \<Rightarrow> addr \<Rightarrow> 'f ExecuteGovProposal \<Rightarrow> ('w tw_state, unit) act" where
  "handleGovProposalExecution X H contractAddr exec =
     seqS (require X contractAddr PrivilegeTypeGovProposalExecutor)
       (case GetProposalContent X exec contractAddr of
          None \<Rightarrow> lift_res (failw WasmErrUnknownMsg ''unsupported content type'')
        | Some content \<Rightarrow>
            seqS (lift_res (wrap_res ''content'' (content_ValidateBasic X H content)))
              (if \<not> HasRoute H (content_ProposalRoute H content)
               then lift_res (failw GovErrNoProposalHandlerExists (content_ProposalRoute H content))
               else GetRoute H (content_ProposalRoute H content) content))"

definition token_event :: "'w wasm_ext \<Rightarrow> ('w, 'f, 'v) handler_ext \<Rightarrow> string \<Rightarrow> addr \<Rightarrow> string \<Rightarrow> string \<Rightarrow> string \<Rightarrow> event" where
  "token_event X H kind contractAddr amount key other =
     Event kind
       [(AttributeKeyContractAddr X, AddrString X contractAddr), (hAttributeKeyAmount H, amount), (key, other)]"

definition handleMintToken ::
    "'w wasm_ext \<Rightarrow> ('w, 'f, 'v) handler_ext \<Rightarrow> addr \<Rightarrow> MintTokens \<Rightarrow> ('w tw_state, event list) act" where
  "handleMintToken X H contractAddr mint =
     seqS (require X contractAddr PrivilegeTypeTokenMinter)
       (case AccAddressFromBech32 X (mt_RecipientAddr mint) of
          Panic p \<Rightarrow> lift_res (Panic p)
        | Err e \<Rightarrow> lift_res (failw SdkErrInvalidAddress ''recipient'')
        | Ok recipient \<Rightarrow>
            (case NewIntFromString (hCoins H) (mt_Amount mint) of
               None \<Rightarrow> lift_res (failw SdkErrInvalidCoins (mt_Amount mint @ mt_Denom mint))
             | Some amount \<Rightarrow>
                 (let token = \<lparr>coin_Denom = mt_Denom mint, coin_Amount = amount\<rparr> in
                  seqS (lift_res (wrap_res ''mint tokens handler''
                     (recast SdkErrInvalidCoins (Coin_Validate (hCoins H) token))))
                  (bindS (lift_res (hNewCoins H token)) (\<lambda>coins.
                   seqS (wrapS ''mint'' (on_wasm (hMintCoins H (hModuleName H) coins)))
                  (bindS (lift_res (hNewCoins H token)) (\<lambda>coins.
                   seqS (wrapS ''send to recipient''
                     (on_wasm (hSendCoinsFromModuleToAccount H (hModuleName H) recipient coins)))
                   (ret [token_event X H ''mint'' contractAddr (hCoinString H token)
                     ''recipient'' (mt_RecipientAddr mint)]))))))))"

text \<open>Dereferencing a nil section panics; a duration is counted in nanoseconds, with wrap-around.\<close>

definition set_opt :: "('a \<Rightarrow> 'b \<Rightarrow> 'b) \<Rightarrow> 'a option \<Rightarrow> 'b option \<Rightarrow> 'b option res" where
  "set_opt f delta src =
     (case delta of
        None \<Rightarrow> Ok src
      | Some x \<Rightarrow> (case src of None \<Rightarrow> Panic ''nil pointer dereference'' | Some v \<Rightarrow> Ok (Some (f x v))))"

definition mergeConsensusParamsUpdate ::
    "'v ConsensusParams \<Rightarrow> ConsensusParamsUpdate \<Rightarrow> 'v ConsensusParams res" where
  "mergeConsensusParamsUpdate src delta =
     bind_res
       (case cu_Block delta of
          None \<Rightarrow> Ok (cp_Block src)
        | Some b \<Rightarrow>
            bind_res (set_opt (\<lambda>x v. v\<lparr>cb_MaxBytes := x\<rparr>) (bp_MaxBytes b) (cp_Block src)) (\<lambda>block.
              set_opt (\<lambda>x v. v\<lparr>cb_MaxGas := x\<rparr>) (bp_MaxGas b) block))
       (\<lambda>block.
     bind_res
       (case cu_Evidence delta of
          None \<Rightarrow> Ok (cp_Evidence src)
        | Some e \<Rightarrow>
            bind_res (set_opt (\<lambda>x v. v\<lparr>ce_MaxAgeNumBlocks := x\<rparr>) (ep_MaxAgeNumBlocks e) (cp_Evidence src)) (\<lambda>ev.
            bind_res (set_opt (\<lambda>x v. v\<lparr>ce_MaxAgeDuration := to_int64 (x * 1000000000)\<rparr>)
              (ep_MaxAgeDuration e) ev) (\<lambda>ev.
              set_opt (\<lambda>x v. v\<lparr>ce_MaxBytes := x\<rparr>) (ep_MaxBytes e) ev)))
       (\<lambda>evidence. Ok (src\<lparr>cp_Block := block, cp_Evidence := evidence\<rparr>)))"

definition handleConsensusParamsUpdate ::
    "'w wasm_ext \<Rightarrow> ('w, 'f, 'v) handler_ext \<Rightarrow> addr \<Rightarrow> ConsensusParamsUpdate \<Rightarrow> ('w tw_state, event list) act" where
  "handleConsensusParamsUpdate X H contractAddr pUpdate =
     seqS (require X contractAddr PrivilegeConsensusParamChanger)
     (seqS (lift_res (ConsensusParamsUpdate_ValidateBasic pUpdate))
     (bindS (gets (\<lambda>s. hGetConsensusParams H (tw_wasm s))) (\<lambda>params.
      bindS (lift_res (mergeConsensusParamsUpdate params pUpdate)) (\<lambda>merged.
      seqS (modify (\<lambda>s. s\<lparr>tw_wasm := hStoreConsensusParams H merged (tw_wasm s)\<rparr>)) (ret [])))))"

definition handleDelegate ::
    "'w wasm_ext \<Rightarrow> ('w, 'f, 'v) handler_ext \<Rightarrow> addr \<Rightarrow> Delegate \<Rightarrow> ('w tw_state, event list) act" where
  "handleDelegate X H contractAddr delegate =
     seqS (require X contractAddr PrivilegeDelegator)
       (case AccAddressFromBech32 X (de_StakerAddr delegate) of
          Panic p \<Rightarrow> lift_res (Panic p)
        | Err e \<Rightarrow> lift_res (failw SdkErrInvalidAddress ''fromAddr'')
        | Ok fromAddr \<Rightarrow>
            bindS (lift_res (recast SdkErrJSONUnmarshal (hConvertWasmCoinsToSdkCoins H [de_Funds delegate]))) (\<lambda>amt.
            seqS (wrapS ''delegate'' (on_wasm (hDelegateCoinsFromAccountToModule H fromAddr BondedPoolName amt)))
            (seqS (wrapS ''module to contract''
              (on_wasm (hSendCoinsFromModuleToAccount H BondedPoolName contractAddr amt)))
            (ret [token_event X H ''delegate'' contractAddr (hCoinsString H amt) ''sender'' (de_StakerAddr delegate)]))))"

definition handleUndelegate ::
    "'w wasm_ext \<Rightarrow> ('w, 'f, 'v) handler_ext \<Rightarrow> addr \<Rightarrow> Undelegate \<Rightarrow> ('w tw_state, event list) act" where
  "handleUndelegate X H contractAddr undelegate =
     seqS (require X contractAddr PrivilegeDelegator)
       (case AccAddressFromBech32 X (un_RecipientAddr undelegate) of
          Panic p \<Rightarrow> lift_res (Panic p)
        | Err e \<Rightarrow> lift_res (failw SdkErrInvalidAddress ''recipient'')
        | Ok recipient \<Rightarrow>
            bindS (lift_res (recast SdkErrJSONUnmarshal (hConvertWasmCoinsToSdkCoins H [un_Funds undelegate]))) (\<lambda>amt.
            seqS (wrapS ''contract to module'' (on_wasm (hSendCoinsFromAccountToModule H contractAddr BondedPoolName amt)))
            (seqS (wrapS ''undelegate'' (on_wasm (hUndelegateCoinsFromModuleToAccount H BondedPoolName recipient amt)))
            (ret [token_event X H ''undelegate'' contractAddr (hCoinsString H amt) ''recipient'' (un_RecipientAddr undelegate)]))))"

section \<open>Dispatch\<close>

text \<open>
  The handlers run with a fresh event manager, whose events are returned to the caller (which
  ignores them when there is an error); the caller's own event list stays as it was.
\<close>

definition with_events :: "('w tw_state, event list) act \<Rightarrow> ('w tw_state, event list) act" where
  "with_events m s =
     (let (r, s') = m (s\<lparr>tw_events := []\<rparr>) in
      (bind_res r (\<lambda>evts. Ok (evts @ tw_events s')), s'\<lparr>tw_events := tw_events s\<rparr>))"

definition DispatchMsg ::
    "'w wasm_ext \<Rightarrow> ('w, 'f, 'v) handler_ext \<Rightarrow> addr \<Rightarrow> json option option \<Rightarrow> ('w tw_state, event list) act" where
  "DispatchMsg X H contractAddr custom s =
     (case custom of
        None \<Rightarrow> (fail WasmErrUnknownMsg, s)
      | Some bz \<Rightarrow>
          if \<not> IsPrivileged contractAddr s then (fail WasmErrUnknownMsg, s)
          else
            (bindS (lift_res (recast SdkErrJSONUnmarshal (UnmarshalWithAny (hCoins H) (hJson H) bz))) (\<lambda>tMsg.
               case pm_Privilege tMsg of Some m \<Rightarrow>
                 with_events (seqS (handlePrivilege X contractAddr m) (ret []))
             | None \<Rightarrow>
               case pm_ExecuteGovProposal tMsg of Some m \<Rightarrow>
                 with_events (seqS (handleGovProposalExecution X H contractAddr m) (ret []))
             | None \<Rightarrow>
               case pm_MintTokens tMsg of Some m \<Rightarrow> with_events (handleMintToken X H contractAddr m)
             | None \<Rightarrow>
               case pm_ConsensusParams tMsg of Some m \<Rightarrow>
                 with_events (handleConsensusParamsUpdate X H contractAddr m)
             | None \<Rightarrow>
               case pm_Delegate tMsg of Some m \<Rightarrow> with_events (handleDelegate X H contractAddr m)
             | None \<Rightarrow>
               case pm_Undelegate tMsg of Some m \<Rightarrow> with_events (handleUndelegate X H contractAddr m)
             | None \<Rightarrow> lift_res (failw WasmErrUnknownMsg ''unknown type: %T''))) s)"

section \<open>Privilege messages\<close>

lemma String_nonempty: "PrivilegeType_String t \<noteq> '''' \<Longrightarrow> PrivilegeTypeFrom (PrivilegeType_String t) = Some t"
  by (rule From_of_String)
    (auto simp: PrivilegeType_String_def PrivilegeType_ValidateBasic_def split: option.splits)

lemma HasRegisteredPrivilege_iff:
  assumes "privs_ok xs"
  shows "HasRegisteredPrivilege \<lparr>RegisteredPrivileges = slice_of xs\<rparr> t \<longleftrightarrow> (\<exists>r \<in> set xs. priv_type r = t)"
proof -
  have "rp_PrivilegeType r = PrivilegeType_String t \<longleftrightarrow> priv_type r = t" if "r \<in> set xs" for r
  proof
    have ok: "priv_ok r" using assms that by (simp add: privs_ok_def)
    have "rp_PrivilegeType r \<noteq> ''''"
      using priv_okE [OF ok] registered_nonempty by (auto simp: PrivilegeTypeFrom_iff)
    then show "priv_type r = t" if "rp_PrivilegeType r = PrivilegeType_String t"
      using that priv_okE [OF ok] String_nonempty [of t] by simp
    show "rp_PrivilegeType r = PrivilegeType_String t" if "priv_type r = t"
      using String_priv_type [OF ok] that by simp
  qed
  then show ?thesis by (auto simp: HasRegisteredPrivilege_def list_ex_iff)
qed

lemma set_details_ok:
  assumes "wasm_laws X" and "setContractDetails X a d s = (Ok (), s')"
  shows "privs_of X s' = (privs_of X s)(a := slice_list (RegisteredPrivileges d))"
    and "privilege_reg s' = privilege_reg s" and "index_inv s' = index_inv s"
    and "\<And>b. IsPrivileged b s' = IsPrivileged b s"
  using assms
  by (auto simp: setContractDetails_def on_wasm_def wasm_laws_def IsPrivileged_def split: prod.splits)

lemma IsPrivileged_append:
  assumes "index_inv s" and "appendToPrivilegedContracts X t a s = (Ok pos, s')"
  shows "IsPrivileged b s' = IsPrivileged b s" and "tw_wasm s' = tw_wasm s"
  using assms(2) by (cases rule: append_cases [OF assms(1), of t X a];
      auto simp: fail_def IsPrivileged_def kv_has_def kv_simps twasm_keys)+

text \<open>
  A successful registration appends the privilege at a position above every position in use.
\<close>

lemma register_effect:
  assumes laws: "wasm_laws X" and inv: "tw_inv X s" and c: "PrivilegeType_ValidateBasic c = Ok ()"
    and new: "\<not> (\<exists>r \<in> set (privs_of X s a). priv_type r = c)"
    and run: "register X a \<lparr>RegisteredPrivileges = slice_of (privs_of X s a)\<rparr> c s = (Ok (), s')"
  obtains pos where "pos \<noteq> 0" "\<And>q. privilege_reg s c q \<noteq> None \<Longrightarrow> q < pos"
    "IsSingleton c \<Longrightarrow> (\<forall>q. privilege_reg s c q = None)"
    "privs_of X s' = (privs_of X s)(a := privs_of X s a @ [registered_as c pos])"
    "privilege_reg s' = (privilege_reg s)(c := (privilege_reg s c)(pos := Some a))"
    "tw_inv X s'" "\<And>b. IsPrivileged b s' = IsPrivileged b s"
proof -
  let ?xs = "privs_of X s a"
  have ok: "privs_ok ?xs" and idx: "index_inv s" and agr: "agrees (privilege_reg s) (privs_of X s)"
    using inv by (auto simp: tw_inv_def)
  obtain pos s1 where app: "appendToPrivilegedContracts X c a s = (Ok pos, s1)"
    and store: "setContractDetails X a (AddRegisteredPrivilege \<lparr>RegisteredPrivileges = slice_of ?xs\<rparr> c pos) s1 = (Ok (), s')"
    using run new by (auto simp: register_def HasRegisteredPrivilege_iff [OF ok] wrapS_Ok_iff elim!: bindS_OkE)
  note st = set_details_ok [OF laws store]
  have details: "slice_list (RegisteredPrivileges (AddRegisteredPrivilege \<lparr>RegisteredPrivileges = slice_of ?xs\<rparr> c pos)) =
      ?xs @ [registered_as c pos]"
    by (simp add: AddRegisteredPrivilege_def slice_list_append slice_ok_def slice_of_def)
       (simp add: slice_list_def)
  have privs: "privs_of X s' = (privs_of X s)(a := ?xs @ [registered_as c pos])"
    using st(1) IsPrivileged_append(2) [OF idx app] by (simp add: details)
  have reg: "privilege_reg s' = (privilege_reg s)(c := (privilege_reg s c)(pos := Some a))"
    using st(2) pidx.append_reg [OF idx app] by simp
  have pos: "pos \<noteq> 0" "\<And>q. privilege_reg s c q \<noteq> None \<Longrightarrow> q < pos"
    using pidx.append_pos [OF idx app] by auto
  have single: "IsSingleton c \<Longrightarrow> \<forall>q. privilege_reg s c q = None"
    using pidx.append_singleton [OF idx app] by blast
  have agr': "agrees (privilege_reg s') (privs_of X s')"
    unfolding privs st(2) by (rule pidx.register_agrees [OF idx agr c app])
  have "PrivilegeType_String c \<notin> rp_PrivilegeType ` set ?xs"
    using new From_of_String [OF c] by (auto simp: priv_type_def)
  then have "privs_ok (?xs @ [registered_as c pos])"
    using ok priv_of_registered_as(3) [OF c pos(1)]
    by (auto simp: privs_ok_def rp_PrivilegeType_registered_as)
  moreover have "index_inv s'"
    using st(3) pidx.inv_append [OF idx, of X c a] app by simp
  ultimately have "tw_inv X s'"
    using inv agr' single unfolding tw_inv_def by (auto simp: privs reg)
  moreover have "IsPrivileged b s' = IsPrivileged b s" for b
    using st(4) IsPrivileged_append(1) [OF idx app] by simp
  ultimately show thesis using that pos single privs reg by blast
qed


text \<open>A successful release removes the privilege, from the list and from the index, and nothing else.\<close>

lemma cut_type:
  assumes "privs_ok xs" and "j < length xs"
  shows "take j xs @ drop (Suc j) xs = filter (\<lambda>r. priv_type r \<noteq> priv_type (xs ! j)) xs"
proof -
  have ne: "priv_type (xs ! i) \<noteq> priv_type (xs ! j)" if "i < length xs" "i \<noteq> j" for i
    using privs_ok_nth_type [OF assms(1), of i j] assms(2) that by blast
  have "filter (\<lambda>r. priv_type r \<noteq> priv_type (xs ! j)) (take j xs) = take j xs"
    using assms(2) by (auto simp: filter_id_conv in_set_conv_nth ne)
  moreover have "filter (\<lambda>r. priv_type r \<noteq> priv_type (xs ! j)) (drop (Suc j) xs) = drop (Suc j) xs"
    using assms(2) by (auto simp: filter_id_conv in_set_conv_nth ne)
  moreover have "xs = take j xs @ xs ! j # drop (Suc j) xs" using assms(2) by (rule id_take_nth_drop)
  ultimately show ?thesis
    by (metis (mono_tags, lifting) filter.simps(2) filter_append)
qed

definition privilege_released ::
    "'w wasm_ext \<Rightarrow> addr \<Rightarrow> PrivilegeType \<Rightarrow> 'w tw_state \<Rightarrow> 'w tw_state \<Rightarrow> bool" where
  "privilege_released X a tp s s' \<longleftrightarrow>
     privs_of X s' = (privs_of X s)(a := filter (\<lambda>r. priv_type r \<noteq> tp) (privs_of X s a)) \<and>
     (\<forall>t pos. privilege_reg s' t pos =
        (if t = tp \<and> privilege_reg s t pos = Some a then None else privilege_reg s t pos)) \<and>
     (\<forall>b. IsPrivileged b s' = IsPrivileged b s)"

lemma unregister_held:
  assumes laws: "wasm_laws X" and inv: "tw_inv X s" and j: "j < length (privs_of X s a)"
    and run: "unregister X a \<lparr>RegisteredPrivileges = slice_of (privs_of X s a)\<rparr>
      (priv_type (privs_of X s a ! j)) s = (Ok (), s')"
  shows "privilege_released X a (priv_type (privs_of X s a ! j)) s s'" and "tw_inv X s'"
proof -
  let ?xs = "privs_of X s a" let ?tp = "priv_type (?xs ! j)"
  have ok: "privs_ok ?xs" and idx: "index_inv s" and agr: "agrees (privilege_reg s) (privs_of X s)"
    using inv by (auto simp: tw_inv_def)
  let ?ys = "filter (\<lambda>r. priv_type r \<noteq> ?tp) ?xs" and ?s1 = "pidx.released X a [?xs ! j] s"
  obtain sl where rel: "release (\<lambda>c pos s. snd (removePrivilegeRegistration X c pos a s)) ?tp
        (s, \<lparr>RegisteredPrivileges = slice_of ?xs\<rparr>) = (Ok (), (?s1, \<lparr>RegisteredPrivileges = sl\<rparr>))"
    and sl: "slice_list sl = ?ys"
    using release_result [OF ok j refl, of "\<lambda>c pos s. snd (removePrivilegeRegistration X c pos a s)" s]
      cut_type [OF ok j] by (auto simp: pidx.released_def)
  have "\<exists>r \<in> set ?xs. priv_type r = ?tp" using j by auto
  with run rel have "setContractDetails X a \<lparr>RegisteredPrivileges = sl\<rparr> ?s1 = (Ok (), s')"
    by (simp add: unregister_def HasRegisteredPrivilege_iff [OF ok] wrapS_Ok_iff)
  note st = set_details_ok [OF laws this]
  have only: "r = ?xs ! j" if "r \<in> set ?xs" "priv_type r = ?tp" for r
    using that j privs_ok_nth_type [OF ok] by (metis in_set_conv_nth)
  have privs: "privs_of X s' = (privs_of X s)(a := ?ys)" using st(1) sl by simp
  have reg_a: "privilege_reg s t pos = Some a \<longleftrightarrow> (\<exists>r \<in> set ?xs. priv_type r = t \<and> priv_pos r = pos)" for t pos
    using agr by (simp add: agrees_def)
  have regs: "privilege_reg s' t pos =
      (if t = ?tp \<and> privilege_reg s t pos = Some a then None else privilege_reg s t pos)" for t pos
    using only nth_mem [OF j] by (auto simp: st(2) pidx.reg_released reg_a)
  then show "privilege_released X a ?tp s s'" using st(4) by (simp add: privilege_released_def privs)
  have "set [?xs ! j] = set ?xs - set ?ys" using only j by auto
  then have "agrees (privilege_reg s') (privs_of X s')"
    unfolding privs st(2) by (intro pidx.release_agrees [OF agr ok]) auto
  moreover have "privs_ok ?ys" using ok by (auto simp: privs_ok_def distinct_map_filter)
  moreover have "index_inv s'" using st(3) pidx.inv_released [OF idx] by simp
  ultimately show "tw_inv X s'" using inv unfolding tw_inv_def by (auto simp: privs regs split: if_splits)
qed

lemma unregister_effect:
  assumes laws: "wasm_laws X" and inv: "tw_inv X s"
    and run: "unregister X a \<lparr>RegisteredPrivileges = slice_of (privs_of X s a)\<rparr> tp s = (Ok (), s')"
  shows "privilege_released X a tp s s' \<and> tw_inv X s'"
proof (cases "\<exists>r \<in> set (privs_of X s a). priv_type r = tp")
  case False
  have "privs_ok (privs_of X s a)" using inv by (simp add: tw_inv_def)
  with False run have "s' = s" by (simp add: unregister_def HasRegisteredPrivilege_iff)
  moreover have "filter (\<lambda>r. priv_type r \<noteq> tp) (privs_of X s a) = privs_of X s a"
    using False by (auto simp: filter_id_conv)
  moreover have "privilege_reg s tp pos \<noteq> Some a" for pos
    using inv False unfolding tw_inv_def agrees_def by blast
  ultimately show ?thesis using inv by (simp add: privilege_released_def)
next
  case True
  then obtain j where "j < length (privs_of X s a)" "priv_type (privs_of X s a ! j) = tp"
    by (auto simp: in_set_conv_nth)
  then show ?thesis using unregister_held [OF laws inv, of j a s'] run by blast
qed

section \<open>What a privilege message does\<close>

definition priv_msg_ok :: "PrivilegeMsg \<Rightarrow> bool" where
  "priv_msg_ok m \<longleftrightarrow> pm_Request m = PrivilegeTypeEmpty \<or> PrivilegeType_ValidateBasic (pm_Request m) = Ok ()"

lemma handlePrivilege_cases:
  assumes inv: "tw_inv X s" and run: "handlePrivilege X a m s = (Ok (), s')"
  obtains (release) "pm_Release m \<noteq> PrivilegeTypeEmpty"
      "unregister X a \<lparr>RegisteredPrivileges = slice_of (privs_of X s a)\<rparr> (pm_Release m) s = (Ok (), s')"
    | (held) "s' = s" "pm_Release m = PrivilegeTypeEmpty"
      "\<exists>r \<in> set (privs_of X s a). priv_type r = pm_Request m"
    | (request) "pm_Release m = PrivilegeTypeEmpty" "pm_Request m \<noteq> PrivilegeTypeEmpty"
      "\<not> (\<exists>r \<in> set (privs_of X s a). priv_type r = pm_Request m)"
      "register X a \<lparr>RegisteredPrivileges = slice_of (privs_of X s a)\<rparr> (pm_Request m) s = (Ok (), s')"
proof -
  obtain info d where info: "GetContractInfo X a s = Some info" and d: "readDetails X info = Ok d"
    using run by (cases "GetContractInfo X a s")
      (auto simp: handlePrivilege_def lift_res_def elim!: bindS_OkE)
  have d_eq: "d = \<lparr>RegisteredPrivileges = slice_of (privs_of X s a)\<rparr>"
    by (rule readDetails_privs [OF info d])
  have has: "HasRegisteredPrivilege d t \<longleftrightarrow> (\<exists>r \<in> set (privs_of X s a). priv_type r = t)" for t
    unfolding d_eq by (rule HasRegisteredPrivilege_iff) (use inv in \<open>simp add: tw_inv_def\<close>)
  have body: "(if pm_Release m \<noteq> PrivilegeTypeEmpty then unregister X a d (pm_Release m)
      else if pm_Request m \<noteq> PrivilegeTypeEmpty then register X a d (pm_Request m)
      else lift_res (fail WasmErrUnknownMsg)) s = (Ok (), s')"
    using run by (simp add: handlePrivilege_def info d)
  show thesis
  proof (cases "pm_Release m \<noteq> PrivilegeTypeEmpty")
    case True
    then show thesis using body release d_eq by simp
  next
    case rel: False
    then have req: "pm_Request m \<noteq> PrivilegeTypeEmpty" "register X a d (pm_Request m) s = (Ok (), s')"
      using body by (auto simp: lift_res_def split: if_splits)
    show thesis
    proof (cases "\<exists>r \<in> set (privs_of X s a). priv_type r = pm_Request m")
      case True
      then have "s' = s" using req(2) has by (simp add: register_def ret_def)
      then show thesis using held True rel by blast
    next
      case False
      then show thesis using request rel req d_eq by blast
    qed
  qed
qed

lemma handlePrivilege_keeps:
  assumes laws: "wasm_laws X" and inv: "tw_inv X s" and msg: "priv_msg_ok m"
    and run: "handlePrivilege X a m s = (Ok (), s')"
  shows "tw_inv X s' \<and> (\<forall>b. b \<noteq> a \<longrightarrow> privs_of X s' b = privs_of X s b) \<and>
    (\<forall>b. IsPrivileged b s' = IsPrivileged b s)"
  using inv run
proof (cases rule: handlePrivilege_cases)
  case release
  then show ?thesis using unregister_effect [OF laws inv] by (auto simp: privilege_released_def)
next
  case held
  with inv show ?thesis by simp
next
  case request
  then have "PrivilegeType_ValidateBasic (pm_Request m) = Ok ()" using msg by (simp add: priv_msg_ok_def)
  then show ?thesis by (rule register_effect [OF laws inv _ request(3,4)]) simp
qed

lemma dec_PrivilegeMsg_ok:
  "dec_PrivilegeMsg j v = Ok m \<Longrightarrow> priv_msg_ok v \<Longrightarrow> priv_msg_ok m"
  unfolding dec_PrivilegeMsg_def
  by (erule dec_struct_inv)
    (auto simp: at_field_def bind_res_Ok_iff priv_msg_ok_def PrivilegeType_UnmarshalJSON_def
      PrivilegeTypeFrom_iff ValidateBasic_registered split: if_splits option.splits)

text \<open>Every decoded message asks for a privilege of the registry, if for any.\<close>

lemma UnmarshalWithAny_privilege:
  assumes "UnmarshalWithAny C J bz = Ok p" and "pm_Privilege p = Some m"
  shows "priv_msg_ok m"
proof -
  obtain j where "dec_PetriMsg C J j emptyPetriMsg = Ok p"
    using assms(1) by (auto simp: UnmarshalWithAny_def bind_res_Ok_iff split: option.splits)
  then have "\<forall>m. pm_Privilege p = Some m \<longrightarrow> priv_msg_ok m"
    unfolding dec_PetriMsg_def
  proof (rule dec_struct_inv [where P = "\<lambda>p. \<forall>m. pm_Privilege p = Some m \<longrightarrow> priv_msg_ok m"])
    fix n d j and u u' :: "'a PetriMsg"
    let ?zero = "\<lparr>pm_Request = 0, pm_Release = 0\<rparr>"
    assume fld: "(n, d) \<in> set (PetriMsg_fields C J)" and d: "d j u = Ok u'"
      and u: "\<forall>m. pm_Privilege u = Some m \<longrightarrow> priv_msg_ok m"
    have "priv_msg_ok ?zero" by (simp add: priv_msg_ok_def PrivilegeTypeEmpty_def)
    with u have step: "priv_msg_ok m"
      if "dec_ptr ?zero dec_PrivilegeMsg j (pm_Privilege u) = Ok (Some m)" for m
      using dec_PrivilegeMsg_ok [OF dec_ptr_Some [OF that]] by (auto split: option.splits)
    show "\<forall>m. pm_Privilege u' = Some m \<longrightarrow> priv_msg_ok m"
      using fld d u step by (auto simp: PetriMsg_fields_def Let_def at_field_def bind_res_Ok_iff)
  qed (simp add: emptyPetriMsg_def)
  with assms(2) show ?thesis by blast
qed

section \<open>Authorisation\<close>

text \<open>The privilege that a message needs: none for a request or release of privileges.\<close>

definition required_privilege :: "'f PetriMsg \<Rightarrow> PrivilegeType option" where
  "required_privilege p =
     (if pm_Privilege p \<noteq> None then None
      else if pm_ExecuteGovProposal p \<noteq> None then Some PrivilegeTypeGovProposalExecutor
      else if pm_MintTokens p \<noteq> None then Some PrivilegeTypeTokenMinter
      else if pm_ConsensusParams p \<noteq> None then Some PrivilegeConsensusParamChanger
      else if pm_Delegate p \<noteq> None \<or> pm_Undelegate p \<noteq> None then Some PrivilegeDelegator
      else None)"

lemma assertHasPrivilege_iff:
  "assertHasPrivilege X a t s = Ok () \<longleftrightarrow> HasPrivilegedContract X a t s = Ok True"
  by (auto simp: assertHasPrivilege_def HasPrivilegedContract_def getContractDetails_def bind_res_Ok_iff
      split: option.splits)

lemma require_denied:
  assumes "HasPrivilegedContract X a t s \<noteq> Ok True"
  shows "seqS (require X a t) m s = (fst (seqS (require X a t) m s), s)"
    and "\<not> is_ok (fst (seqS (require X a t) m s))"
  using assms assertHasPrivilege_iff [of X a t s]
  by (cases "assertHasPrivilege X a t s"; simp add: seqS_def bindS_def require_def)+

lemma with_events_frame:
  assumes "m (s\<lparr>tw_events := []\<rparr>) = (r, s\<lparr>tw_events := []\<rparr>)" and "\<not> is_ok r"
  shows "snd (with_events m s) = s" and "\<not> is_ok (fst (with_events m s))"
  using assms by (cases r; simp add: with_events_def)+

lemma HasPrivilegedContract_events [simp]:
  "HasPrivilegedContract X a t (s\<lparr>tw_events := es\<rparr>) = HasPrivilegedContract X a t s"
  by (simp add: HasPrivilegedContract_def getContractDetails_def GetContractInfo_def)

lemma denied:
  assumes "HasPrivilegedContract X a t s \<noteq> Ok True"
  shows "snd (with_events (seqS (require X a t) m) s) = s"
    and "\<not> is_ok (fst (with_events (seqS (require X a t) m) s))"
proof -
  have "HasPrivilegedContract X a t (s\<lparr>tw_events := []\<rparr>) \<noteq> Ok True" using assms by simp
  note d = require_denied [OF this, of m]
  show "snd (with_events (seqS (require X a t) m) s) = s"
    "\<not> is_ok (fst (with_events (seqS (require X a t) m) s))"
    using with_events_frame [of "seqS (require X a t) m" s] d by (metis prod.collapse)+
qed

lemma seqS_assoc: "seqS (seqS m n) k = seqS m (seqS n k)"
  by (auto simp: seqS_def bindS_def fun_eq_iff split: prod.splits res.splits)

text \<open>
  A message whose privilege the contract does not hold fails and leaves the state as it is; so does
  every message of a contract that is not privileged.
\<close>

lemma DispatchMsg_denied:
  assumes "UnmarshalWithAny (hCoins H) (hJson H) bz = Ok p" and "required_privilege p = Some t"
    and "HasPrivilegedContract X a t s \<noteq> Ok True"
  shows "snd (DispatchMsg X H a (Some bz) s) = s \<and> \<not> is_ok (fst (DispatchMsg X H a (Some bz) s))"
proof (cases "IsPrivileged a s")
  case False
  then show ?thesis by (simp add: DispatchMsg_def fail_def)
next
  case True
  then show ?thesis
    using assms denied [OF assms(3)]
    by (auto simp: DispatchMsg_def required_privilege_def handleGovProposalExecution_def
        handleMintToken_def handleConsensusParamsUpdate_def handleDelegate_def handleUndelegate_def
        seqS_assoc split: if_splits option.splits)
qed

text \<open>Messages about tokens and consensus parameters do not touch the privileges.\<close>

lemma keeps_on_wasm: "keeps (\<lambda>s. tw_store s = st) (on_wasm m)"
  by (simp add: keeps_def on_wasm_def split_beta)

lemma keeps_require: "keeps P (require X a t)"
  by (simp add: keeps_def require_def)

lemma keeps_with_events:
  "keeps (\<lambda>s. tw_store s = st) m \<Longrightarrow> keeps (\<lambda>s. tw_store s = st) (with_events m)"
  by (simp add: keeps_def with_events_def split_beta)

lemma keeps_set_wasm: "keeps (\<lambda>s. tw_store s = st) (modify (\<lambda>s. s\<lparr>tw_wasm := f s\<rparr>))"
  by (simp add: keeps_def modify_def)

lemmas handler_keeps = keeps_rules keeps_on_wasm keeps_require keeps_with_events keeps_set_wasm

lemma token_handlers_frame:
  "keeps (\<lambda>s. tw_store s = st) (handleMintToken X H a mint)"
  "keeps (\<lambda>s. tw_store s = st) (handleConsensusParamsUpdate X H a upd)"
  "keeps (\<lambda>s. tw_store s = st) (handleDelegate X H a del)"
  "keeps (\<lambda>s. tw_store s = st) (handleUndelegate X H a undel)"
  unfolding handleMintToken_def handleConsensusParamsUpdate_def handleDelegate_def handleUndelegate_def Let_def
  by (auto intro!: handler_keeps split: res.split option.split)

section \<open>Parameter proposals\<close>

lemma gov_baseapp_refused:
  assumes "hContentRoute H (ParameterChangeProposal title desc changes) = hParamsRouterKey H"
    and "GetProposalContent X exec a = Some (ParameterChangeProposal title desc changes)"
    and "c \<in> set changes" and "pc_Subspace c = hBaseappParamspace H"
  shows "snd (handleGovProposalExecution X H a exec s) = s \<and> \<not> is_ok (fst (handleGovProposalExecution X H a exec s))"
proof -
  have "list_ex (\<lambda>c. pc_Subspace c = hBaseappParamspace H) changes" using assms by (auto simp: list_ex_iff)
  with assms show ?thesis
    by (cases "assertHasPrivilege X a PrivilegeTypeGovProposalExecutor s";
        cases "hContentValidateBasic H (ParameterChangeProposal title desc changes)")
      (auto simp: handleGovProposalExecution_def seqS_def bindS_def require_def lift_res_def
        content_ValidateBasic_def content_ProposalRoute_def HasRoute_def GetRoute_def failw_def Let_def)
qed

section \<open>Consensus parameters\<close>

definition override :: "'a \<Rightarrow> 'a option \<Rightarrow> 'a" where
  "override old new = (case new of None \<Rightarrow> old | Some x \<Rightarrow> x)"

definition merged_block :: "cons_block \<Rightarrow> ConsensusParamsUpdate \<Rightarrow> cons_block" where
  "merged_block b d =
     \<lparr>cb_MaxBytes = override (cb_MaxBytes b) (Option.bind (cu_Block d) bp_MaxBytes),
      cb_MaxGas = override (cb_MaxGas b) (Option.bind (cu_Block d) bp_MaxGas)\<rparr>"

definition merged_evidence :: "cons_evidence \<Rightarrow> ConsensusParamsUpdate \<Rightarrow> cons_evidence" where
  "merged_evidence e d =
     \<lparr>ce_MaxAgeNumBlocks = override (ce_MaxAgeNumBlocks e) (Option.bind (cu_Evidence d) ep_MaxAgeNumBlocks),
      ce_MaxAgeDuration = override (ce_MaxAgeDuration e)
        (map_option (\<lambda>x. to_int64 (x * 1000000000)) (Option.bind (cu_Evidence d) ep_MaxAgeDuration)),
      ce_MaxBytes = override (ce_MaxBytes e) (Option.bind (cu_Evidence d) ep_MaxBytes)\<rparr>"

lemma merge_spec:
  "mergeConsensusParamsUpdate \<lparr>cp_Block = Some b, cp_Evidence = Some e, cp_rest = r\<rparr> d =
     Ok \<lparr>cp_Block = Some (merged_block b d), cp_Evidence = Some (merged_evidence e d), cp_rest = r\<rparr>"
  by (cases "cu_Block d"; cases "cu_Evidence d")
    (auto simp: mergeConsensusParamsUpdate_def set_opt_def merged_block_def merged_evidence_def override_def
      split: option.split)

lemma duration_exact: "\<bar>x\<bar> \<le> 9223372036 \<Longrightarrow> to_int64 (x * 1000000000) = x * 1000000000"
  by (rule to_int64_id) (auto simp: in_int64_def)

end
