(* ===== verification/TwasmAbci.thy ===== *)
theory TwasmAbci
  imports TwasmHandler
begin

text \<open>
  \<open>x/twasm/abci.go\<close>: the callbacks to privileged contracts at the beginning and the end of a
  block, with the panic and error barrier around each contract, and \<open>x/twasm/keeper/querier.go\<close>.

  \<open>fwd\<close> is what the SDK's \<open>CacheContext\<close> forwards of the events of a committed branch (all of
  them or none, depending on the SDK's version).
\<close>

section \<open>Evidence\<close>

datatype abci_evidence_type = DUPLICATE_VOTE | LIGHT_CLIENT_ATTACK | OTHER_EVIDENCE int

record abci_evidence =
  ae_Type :: abci_evidence_type
  ae_ValidatorAddress :: bytes
  ae_ValidatorPower :: int
  ae_Height :: int
  ae_TimeUnix :: int
  ae_TotalVotingPower :: int

definition convUint64 :: "int \<Rightarrow> uint64 res" where
  "convUint64 s = (if s < 0 then Panic ''must not be negative'' else Ok (uint64_of_int64 s))"

definition convert_evidence :: "EvidenceType \<Rightarrow> abci_evidence \<Rightarrow> Evidence res" where
  "convert_evidence et e =
     bind_res (convUint64 (ae_ValidatorPower e)) (\<lambda>power.
     bind_res (convUint64 (ae_Height e)) (\<lambda>height.
     bind_res (convUint64 (ae_TimeUnix e)) (\<lambda>time.
     bind_res (convUint64 (ae_TotalVotingPower e)) (\<lambda>total.
       Ok \<lparr>ev_EvidenceType = et,
           ev_Validator = \<lparr>val_Address = ae_ValidatorAddress e, val_Power = power\<rparr>,
           ev_Height = height, ev_Time = time, ev_TotalVotingPower = total\<rparr>))))"

fun collect_evidence :: "abci_evidence list \<Rightarrow> Evidence list res" where
  "collect_evidence [] = Ok []"
| "collect_evidence (e # es) =
     (case ae_Type e of
        DUPLICATE_VOTE \<Rightarrow>
          bind_res (convert_evidence EvidenceDuplicateVote e) (\<lambda>v.
          bind_res (collect_evidence es) (\<lambda>vs. Ok (v # vs)))
      | LIGHT_CLIENT_ATTACK \<Rightarrow>
          bind_res (convert_evidence EvidenceLightClientAttack e) (\<lambda>v.
          bind_res (collect_evidence es) (\<lambda>vs. Ok (v # vs)))
      | OTHER_EVIDENCE n \<Rightarrow> collect_evidence es)"

section \<open>Callbacks\<close>

text \<open>
  The callback runs \<open>Sudo\<close> on a branch of the state. It is committed on success only; an error is
  logged and a panic is recovered, and both let the iteration continue.
\<close>

definition abciContractCallback ::
    "'w wasm_ext \<Rightarrow> (event list \<Rightarrow> event list) \<Rightarrow> PetriSudoMsg \<Rightarrow> uint8 \<Rightarrow> addr \<Rightarrow> ('w tw_state, bool) act" where
  "abciContractCallback X fwd msg pos contractAddr s =
     (case wSudo X contractAddr msg (s\<lparr>tw_events := []\<rparr>) of
        (Ok bz, s') \<Rightarrow> (Ok False, s'\<lparr>tw_events := tw_events s @ fwd (tw_events s')\<rparr>)
      | (Err e, s') \<Rightarrow> (Ok False, s)
      | (Panic p, s') \<Rightarrow> (Ok False, s))"

definition BeginBlocker ::
    "'w wasm_ext \<Rightarrow> (event list \<Rightarrow> event list) \<Rightarrow> abci_evidence list \<Rightarrow> ('w tw_state, unit) act" where
  "BeginBlocker X fwd byzantine =
     bindS (lift_res (collect_evidence byzantine)) (\<lambda>evidence.
       IteratePrivilegedContractsByType PrivilegeTypeBeginBlock
         (abciContractCallback X fwd (emptySudoMsg\<lparr>sudo_BeginBlock := Some \<lparr>bb_Evidence = evidence\<rparr>\<rparr>)))"

definition EndBlocker ::
    "'w wasm_ext \<Rightarrow> (event list \<Rightarrow> event list) \<Rightarrow> ('w tw_state, 'u list) act" where
  "EndBlocker X fwd =
     seqS (IteratePrivilegedContractsByType PrivilegeTypeEndBlock
       (abciContractCallback X fwd (emptySudoMsg\<lparr>sudo_EndBlock := Some ()\<rparr>)))
     (ret [])"

section \<open>Queries\<close>

text \<open>A query that collects addresses: the response is built by the callback.\<close>

fun collect_all :: "('e \<Rightarrow> 'r res) \<Rightarrow> 'e list \<Rightarrow> 'r list res" where
  "collect_all f [] = Ok []"
| "collect_all f (e # es) = bind_res (f e) (\<lambda>r. bind_res (collect_all f es) (\<lambda>rs. Ok (r # rs)))"

definition PrivilegedContracts :: "'w wasm_ext \<Rightarrow> 'w tw_state \<Rightarrow> string list res" where
  "PrivilegedContracts X s =
     collect_all (\<lambda>e. Ok (AddrString X (fst e)))
       (prefix_entries privilegedContractsSecondaryIndexPrefix (tw_store s))"

definition ContractsByPrivilegeType :: "'w wasm_ext \<Rightarrow> string \<Rightarrow> 'w tw_state \<Rightarrow> string list res" where
  "ContractsByPrivilegeType X privilegeType s =
     (case PrivilegeTypeFrom privilegeType of
        None \<Rightarrow> fail (GrpcErr NotFound ''privilege type'')
      | Some t \<Rightarrow>
          collect_all (\<lambda>e. bind_res (parseContractPosition (fst e)) (\<lambda>_. Ok (AddrString X (snd e))))
            (prefix_entries (getContractPrivilegesSecondaryIndexPrefix t) (tw_store s)))"

section \<open>What the callbacks do\<close>

text \<open>The contracts of a privilege type in the order of their positions.\<close>

definition contracts_of :: "PrivilegeType \<Rightarrow> 'w tw_state \<Rightarrow> addr list" where
  "contracts_of t s = map snd (type_entries t s)"

definition try_sudo ::
    "'w wasm_ext \<Rightarrow> (event list \<Rightarrow> event list) \<Rightarrow> PetriSudoMsg \<Rightarrow> addr \<Rightarrow> 'w tw_state \<Rightarrow> 'w tw_state" where
  "try_sudo X fwd msg a s =
     (let (r, s') = wSudo X a msg (s\<lparr>tw_events := []\<rparr>) in
      if is_ok r then s'\<lparr>tw_events := tw_events s @ fwd (tw_events s')\<rparr> else s)"

lemma callback_total: "abciContractCallback X fwd msg = (\<lambda>pos a s. (Ok False, try_sudo X fwd msg a s))"
  by (auto simp: abciContractCallback_def try_sudo_def fun_eq_iff split: prod.split res.split)

lemma iterate_callbacks:
  assumes "\<And>k v. (k, v) \<in> set es \<Longrightarrow> \<exists>p. k = [p]"
  shows "iterate_entries
      (\<lambda>e. bindS (lift_res (parseContractPosition (fst e))) (\<lambda>pos. abciContractCallback X fwd msg pos (snd e))) es s =
    (Ok (), fold (try_sudo X fwd msg) (map snd es) s)"
  unfolding callback_total using assms
proof (induction es arbitrary: s)
  case (Cons e es)
  obtain p v where e: "e = ([p], v)" using Cons.prems [of "fst e" "snd e"] by (cases e) auto
  have pos: "parseContractPosition [p] = Ok p" by (simp add: parseContractPosition_def)
  have "\<And>k v. (k, v) \<in> set es \<Longrightarrow> \<exists>p. k = [p]" using Cons.prems by (meson list.set_intros(2))
  then show ?case by (simp add: e pos Cons.IH)
qed simp

lemma iterate_by_type:
  assumes "index_inv s"
  shows "IteratePrivilegedContractsByType t (abciContractCallback X fwd msg) s =
    (Ok (), fold (try_sudo X fwd msg) (contracts_of t s) s)"
proof -
  have "\<exists>p. k = [p]" if "(k, v) \<in> set (type_entries t s)" for k v
    using that in_type_entries [OF assms] by blast
  then show ?thesis
    using iterate_callbacks [of "type_entries t s"]
    by (simp add: IteratePrivilegedContractsByType_def contracts_of_def)
qed

lemma EndBlocker_spec:
  assumes "index_inv s"
  shows "EndBlocker X fwd s =
    (Ok [], fold (try_sudo X fwd (emptySudoMsg\<lparr>sudo_EndBlock := Some ()\<rparr>)) (contracts_of PrivilegeTypeEndBlock s) s)"
  by (simp add: EndBlocker_def seqS_def bindS_def iterate_by_type [OF assms] ret_def)

text \<open>Evidence is converted exactly when no number in it is negative.\<close>

definition evidence_nonneg :: "abci_evidence \<Rightarrow> bool" where
  "evidence_nonneg e \<longleftrightarrow>
     0 \<le> ae_ValidatorPower e \<and> 0 \<le> ae_Height e \<and> 0 \<le> ae_TimeUnix e \<and> 0 \<le> ae_TotalVotingPower e"

definition known_evidence :: "abci_evidence \<Rightarrow> bool" where
  "known_evidence e \<longleftrightarrow> (case ae_Type e of OTHER_EVIDENCE n \<Rightarrow> False | _ \<Rightarrow> True)"

lemma convert_evidence_iff:
  "(\<exists>v. convert_evidence et e = Ok v) \<longleftrightarrow> evidence_nonneg e"
  by (auto simp: convert_evidence_def convUint64_def evidence_nonneg_def)

lemma convert_evidence_panics:
  "\<not> evidence_nonneg e \<Longrightarrow> convert_evidence et e = Panic ''must not be negative''"
  by (auto simp: convert_evidence_def convUint64_def evidence_nonneg_def)

lemma collect_evidence_ok:
  "(\<exists>vs. collect_evidence es = Ok vs) \<longleftrightarrow> (\<forall>e \<in> set es. known_evidence e \<longrightarrow> evidence_nonneg e)"
proof (induction es)
  case (Cons e es)
  then show ?case
    using convert_evidence_iff [of EvidenceDuplicateVote e] convert_evidence_iff [of EvidenceLightClientAttack e]
    by (cases "ae_Type e") (auto simp: known_evidence_def bind_res_Ok_iff)
qed simp

lemma collect_evidence_panics:
  "(\<exists>e \<in> set es. known_evidence e \<and> \<not> evidence_nonneg e) \<Longrightarrow> collect_evidence es = Panic ''must not be negative''"
proof (induction es)
  case (Cons e es)
  show ?case
  proof (cases "known_evidence e \<and> \<not> evidence_nonneg e")
    case True
    then show ?thesis
      using convert_evidence_panics [of e] by (cases "ae_Type e") (simp_all add: known_evidence_def)
  next
    case False
    with Cons have tail: "collect_evidence es = Panic ''must not be negative''" by auto
    show ?thesis
    proof (cases "ae_Type e")
      case (OTHER_EVIDENCE n)
      then show ?thesis by (simp add: tail)
    next
      case DUPLICATE_VOTE
      then obtain v where "convert_evidence EvidenceDuplicateVote e = Ok v"
        using False convert_evidence_iff by (auto simp: known_evidence_def)
      with DUPLICATE_VOTE show ?thesis by (simp add: tail)
    next
      case LIGHT_CLIENT_ATTACK
      then obtain v where "convert_evidence EvidenceLightClientAttack e = Ok v"
        using False convert_evidence_iff by (auto simp: known_evidence_def)
      with LIGHT_CLIENT_ATTACK show ?thesis by (simp add: tail)
    qed
  qed
qed simp

lemma BeginBlocker_spec:
  assumes "index_inv s"
  shows "BeginBlocker X fwd es s =
    (case collect_evidence es of
       Ok vs \<Rightarrow> (Ok (), fold (try_sudo X fwd (emptySudoMsg\<lparr>sudo_BeginBlock := Some \<lparr>bb_Evidence = vs\<rparr>\<rparr>))
         (contracts_of PrivilegeTypeBeginBlock s) s)
     | Err e \<Rightarrow> (Err e, s) | Panic p \<Rightarrow> (Panic p, s))"
  by (simp add: BeginBlocker_def bindS_def lift_res_def iterate_by_type [OF assms] split: res.split)

text \<open>The callbacks come in the order of the positions.\<close>

lemma type_entries_ascending:
  assumes "index_inv s" and "i < j" and "j < length (type_entries t s)"
  shows "\<exists>p q a b. type_entries t s ! i = ([p], a) \<and> type_entries t s ! j = ([q], b) \<and> p < q \<and>
    privilege_reg s t p = Some a \<and> privilege_reg s t q = Some b"
proof -
  have "kv_sorted (type_entries t s)" using assms(1) by (simp add: index_inv_def kvs.iterate_ascending)
  then have "fst (type_entries t s ! i) < fst (type_entries t s ! j)"
    using assms(2,3) by (auto simp: kv_sorted_def sorted_wrt_iff_nth_less)
  moreover have entry: "\<exists>p a. type_entries t s ! k = ([p], a) \<and> privilege_reg s t p = Some a"
    if "k < length (type_entries t s)" for k
    using in_type_entries [OF assms(1)] nth_mem [OF that] by (metis surj_pair)
  obtain p a q b where "type_entries t s ! i = ([p], a)" "privilege_reg s t p = Some a"
    "type_entries t s ! j = ([q], b)" "privilege_reg s t q = Some b"
    using entry [of i] entry [of j] assms(2,3) by auto
  ultimately show ?thesis by auto
qed
end
