(* ===== verification/TwasmGenesis.thy ===== *)
theory TwasmGenesis
  imports TwasmAbci
begin

text \<open>
  \<open>x/twasm/types/genesis.go\<close> and \<open>x/twasm/keeper/genesis.go\<close>: the genesis state of the module,
  its validation, import and export. wasmd's own genesis (its fields the code only passes on, its
  validation, import and export) is the record \<open>genesis_ext\<close>; \<open>'m\<close> is wasmd's key-value model of
  a contract, \<open>'g\<close> stands for its opaque fields, \<open>'u\<close> for a validator update.
\<close>

section \<open>Genesis state\<close>

datatype 'm ContractState = NoState | KvModel "'m list" | CustomModel bytes

record 'm Contract =
  ct_ContractAddress :: string
  ct_ContractInfo :: contract_info
  ct_ContractState :: "'m ContractState"

record ('m, 'g) GenesisState =
  gs_Params :: 'g
  gs_Codes :: 'g
  gs_Contracts :: "'m Contract list"
  gs_Sequences :: 'g
  gs_GenMsgs :: 'g
  gs_PrivilegedContractAddresses :: "string list"
  gs_PinnedCodeIDs :: "code_id list"

record 'm wasm_contract =
  wt_ContractAddress :: string
  wt_ContractInfo :: contract_info
  wt_ContractState :: "'m list"

record ('m, 'g) wasm_genesis =
  wg_Params :: 'g
  wg_Codes :: 'g
  wg_Contracts :: "'m wasm_contract list"
  wg_Sequences :: 'g
  wg_GenMsgs :: 'g

record ('w, 'm, 'g, 'u) genesis_ext =
  gValidateBasic :: "('m, 'g) wasm_genesis \<Rightarrow> unit res"
  gGetAllCodes :: "('m, 'g) wasm_genesis \<Rightarrow> code_id list"
  gGetAllContracts :: "('m, 'g) wasm_genesis \<Rightarrow> string list"
  gInitGenesis :: "('m, 'g) wasm_genesis \<Rightarrow> ('w tw_state, 'u list) act"
  gExportGenesis :: "'w tw_state \<Rightarrow> ('m, 'g) wasm_genesis"

definition furyaExtType :: string where
  "furyaExtType = ''/confio.twasm.v1beta1.PetriContractDetails''"

definition raw_contract :: "'m Contract \<Rightarrow> 'm wasm_contract" where
  "raw_contract v =
     \<lparr>wt_ContractAddress = ct_ContractAddress v, wt_ContractInfo = ct_ContractInfo v,
      wt_ContractState = (case ct_ContractState v of KvModel ms \<Rightarrow> ms | _ \<Rightarrow> [])\<rparr>"

definition RawWasmState :: "('m, 'g) GenesisState \<Rightarrow> ('m, 'g) wasm_genesis" where
  "RawWasmState g =
     \<lparr>wg_Params = gs_Params g, wg_Codes = gs_Codes g, wg_Contracts = map raw_contract (gs_Contracts g),
      wg_Sequences = gs_Sequences g, wg_GenMsgs = gs_GenMsgs g\<rparr>"

section \<open>Validation\<close>

fun check_extensions :: "'m wasm_contract list \<Rightarrow> unit res" where
  "check_extensions [] = Ok ()"
| "check_extensions (c # cs) =
     (case ci_Extension (wt_ContractInfo c) of
        Some (typeUrl, v) \<Rightarrow>
          if furyaExtType \<noteq> typeUrl
          then failw WasmErrInvalidGenesis ''invalid extension type: %s, contract %s''
          else check_extensions cs
      | None \<Rightarrow> check_extensions cs)"

fun collect_addresses :: "'w wasm_ext \<Rightarrow> string list \<Rightarrow> string list \<Rightarrow> string list res" where
  "collect_addresses X uniqueAddr [] = Ok uniqueAddr"
| "collect_addresses X uniqueAddr (a # as) =
     (case AccAddressFromBech32 X a of
        Panic p \<Rightarrow> Panic p
      | Err e \<Rightarrow> failw SdkErrInvalidAddress ''privileged contract [%d, %s]: %s''
      | Ok _ \<Rightarrow>
          if a \<in> set uniqueAddr then failw WasmErrDuplicate ''privileged contract %s''
          else collect_addresses X (a # uniqueAddr) as)"

fun collect_pinned :: "code_id list \<Rightarrow> code_id list \<Rightarrow> code_id list res" where
  "collect_pinned unique [] = Ok unique"
| "collect_pinned unique (code # codes) =
     (if code \<in> set unique then failw WasmErrDuplicate ''pinned codeID %d''
      else collect_pinned (code # unique) codes)"

definition GenesisState_ValidateBasic ::
    "'w wasm_ext \<Rightarrow> ('w, 'm, 'g, 'u) genesis_ext \<Rightarrow> ('m, 'g) GenesisState \<Rightarrow> unit res" where
  "GenesisState_ValidateBasic X G g =
     (let wasmState = RawWasmState g in
      bind_res (wrap_res ''wasm'' (gValidateBasic G wasmState)) (\<lambda>_.
      bind_res (check_extensions (wg_Contracts wasmState)) (\<lambda>_.
      bind_res (collect_addresses X [] (gs_PrivilegedContractAddresses g)) (\<lambda>uniqueAddr.
      bind_res (collect_pinned [] (gs_PinnedCodeIDs g)) (\<lambda>uniquePinned.
        if filter (\<lambda>c. c \<notin> set (gGetAllCodes G wasmState)) uniquePinned \<noteq> []
        then failw WasmErrInvalidGenesis ''%d pinned codeIDs not found in genesis codeIDs''
        else if filter (\<lambda>a. a \<notin> set (gGetAllContracts G wasmState)) uniqueAddr \<noteq> []
        then failw WasmErrInvalidGenesis ''%d privileged contract addresses not found in genesis contract addresses''
        else Ok ())))))"

section \<open>Import\<close>

definition import_custom_state ::
    "'w wasm_ext \<Rightarrow> 'm Contract \<Rightarrow> addr \<Rightarrow> PetriContractDetails \<Rightarrow> ('w tw_state, unit) act" where
  "import_custom_state X m addr d =
     (if HasRegisteredPrivilege d PrivilegeStateExporterImporter then
        (case ct_ContractState m of
           CustomModel msg \<Rightarrow>
             seqS (wrapS ''init custom state for %s'' (wSudo X addr (emptySudoMsg\<lparr>sudo_Import := Some msg\<rparr>))) (ret ())
         | _ \<Rightarrow> lift_res (failw WasmErrInvalidGenesis ''custom state model not set for %s''))
      else ret ())"

definition import_contract :: "'w wasm_ext \<Rightarrow> 'm Contract \<Rightarrow> ('w tw_state, unit) act" where
  "import_contract X m =
     (let info = ct_ContractInfo m in
      bindS (lift_res (wrap_res ''extension contract: %d, %s'' (readDetails X info))) (\<lambda>d.
        if slen (RegisteredPrivileges d) = 0 then ret ()
        else
          bindS (lift_res (wrap_res ''contract: %d'' (AccAddressFromBech32 X (ct_ContractAddress m)))) (\<lambda>addr.
          seqS (wrapS ''privilege registration for contract: %s'' (importPrivileged X addr (ci_CodeID info) d))
            (import_custom_state X m addr d))))"

primrec for_each :: "('e \<Rightarrow> ('s, unit) act) \<Rightarrow> 'e list \<Rightarrow> ('s, unit) act" where
  "for_each f [] = ret ()"
| "for_each f (e # es) = seqS (f e) (for_each f es)"

definition set_privileged_address :: "'w wasm_ext \<Rightarrow> string \<Rightarrow> ('w tw_state, unit) act" where
  "set_privileged_address X a =
     bindS (lift_res (wrap_res ''privileged contract: %d'' (AccAddressFromBech32 X a))) (\<lambda>addr.
       wrapS ''set privileged flag for contract %s'' (SetPrivileged X addr))"

definition pin_code :: "'w wasm_ext \<Rightarrow> code_id \<Rightarrow> ('w tw_state, unit) act" where
  "pin_code X codeID = wrapS ''pin code with ID %d'' (on_wasm (wPinCode X codeID))"

definition InitGenesis ::
    "'w wasm_ext \<Rightarrow> ('w, 'm, 'g, 'u) genesis_ext \<Rightarrow> ('m, 'g) GenesisState \<Rightarrow> ('w tw_state, 'u list) act" where
  "InitGenesis X G data =
     bindS (wrapS ''wasm'' (gInitGenesis G (RawWasmState data))) (\<lambda>result.
     seqS (for_each (import_contract X) (gs_Contracts data))
     (seqS (for_each (set_privileged_address X) (gs_PrivilegedContractAddresses data))
     (seqS (for_each (pin_code X) (gs_PinnedCodeIDs data))
     (ret result))))"

section \<open>Export\<close>

text \<open>Every failure during the export panics.\<close>

definition or_panic :: "string \<Rightarrow> ('s, 'a) act \<Rightarrow> ('s, 'a) act" where
  "or_panic msg m s = (case m s of (Err e, s') \<Rightarrow> (Panic msg, s') | r \<Rightarrow> r)"

definition export_contract :: "'w wasm_ext \<Rightarrow> 'm wasm_contract \<Rightarrow> ('w tw_state, 'm Contract) act" where
  "export_contract X v =
     bindS (or_panic ''read contract info extension for %s'' (lift_res (readDetails X (wt_ContractInfo v)))) (\<lambda>details.
       let c = (\<lambda>st. \<lparr>ct_ContractAddress = wt_ContractAddress v, ct_ContractInfo = wt_ContractInfo v,
                       ct_ContractState = st\<rparr>) in
       if \<not> HasRegisteredPrivilege details PrivilegeStateExporterImporter
       then ret (c (KvModel (wt_ContractState v)))
       else
         bindS (or_panic ''address %s: %s'' (lift_res (AccAddressFromBech32 X (wt_ContractAddress v)))) (\<lambda>addr.
         bindS (or_panic ''export custom state for %s with %q''
             (wSudo X addr (emptySudoMsg\<lparr>sudo_Export := Some ()\<rparr>))) (\<lambda>got.
           ret (c (CustomModel got)))))"

primrec map_act :: "('e \<Rightarrow> ('s, 'r) act) \<Rightarrow> 'e list \<Rightarrow> ('s, 'r list) act" where
  "map_act f [] = ret []"
| "map_act f (e # es) = bindS (f e) (\<lambda>r. bindS (map_act f es) (\<lambda>rs. ret (r # rs)))"

definition ExportGenesis ::
    "'w wasm_ext \<Rightarrow> ('w, 'm, 'g, 'u) genesis_ext \<Rightarrow> ('w tw_state, ('m, 'g) GenesisState) act" where
  "ExportGenesis X G s =
     (let wasmState = gExportGenesis G s in
      bindS (map_act (export_contract X) (wg_Contracts wasmState)) (\<lambda>contracts.
        ret \<lparr>gs_Params = wg_Params wasmState, gs_Codes = wg_Codes wasmState, gs_Contracts = contracts,
             gs_Sequences = wg_Sequences wasmState, gs_GenMsgs = wg_GenMsgs wasmState,
             gs_PrivilegedContractAddresses = [], gs_PinnedCodeIDs = []\<rparr>) s)"

section \<open>Lemmas: validation\<close>

lemma check_extensions_iff:
  "check_extensions cs = Ok () \<longleftrightarrow>
     (\<forall>c \<in> set cs. \<forall>u v. ci_Extension (wt_ContractInfo c) = Some (u, v) \<longrightarrow> u = furyaExtType)"
  by (induction cs rule: check_extensions.induct) (auto split: option.splits)

lemma collect_addresses_iff:
  "collect_addresses X u as = Ok v \<longleftrightarrow>
     (\<forall>a \<in> set as. is_ok (AccAddressFromBech32 X a)) \<and> distinct as \<and> set as \<inter> set u = {} \<and> v = rev as @ u"
  by (induction X u as rule: collect_addresses.induct) (auto split: res.splits)

lemma collect_pinned_iff:
  "collect_pinned u cs = Ok v \<longleftrightarrow> distinct cs \<and> set cs \<inter> set u = {} \<and> v = rev cs @ u"
  by (induction u cs rule: collect_pinned.induct) auto

lemma GenesisState_ValidateBasic_iff:
  "GenesisState_ValidateBasic X G g = Ok () \<longleftrightarrow>
     gValidateBasic G (RawWasmState g) = Ok () \<and>
     (\<forall>c \<in> set (gs_Contracts g). \<forall>u v. ci_Extension (ct_ContractInfo c) = Some (u, v) \<longrightarrow> u = furyaExtType) \<and>
     (\<forall>a \<in> set (gs_PrivilegedContractAddresses g). is_ok (AccAddressFromBech32 X a)) \<and>
     distinct (gs_PrivilegedContractAddresses g) \<and> distinct (gs_PinnedCodeIDs g) \<and>
     set (gs_PinnedCodeIDs g) \<subseteq> set (gGetAllCodes G (RawWasmState g)) \<and>
     set (gs_PrivilegedContractAddresses g) \<subseteq> set (gGetAllContracts G (RawWasmState g))"
  by (auto simp: GenesisState_ValidateBasic_def Let_def bind_res_Ok_iff check_extensions_iff
      collect_addresses_iff collect_pinned_iff RawWasmState_def raw_contract_def filter_empty_conv)

section \<open>Lemmas: export\<close>

lemma or_panic_Ok: "or_panic msg m s = (Ok x, s') \<longleftrightarrow> m s = (Ok x, s')"
  by (auto simp: or_panic_def split: prod.splits res.splits)

definition exports_custom :: "'w wasm_ext \<Rightarrow> contract_info \<Rightarrow> bool" where
  "exports_custom X info \<longleftrightarrow>
     (\<exists>d. readDetails X info = Ok d \<and> HasRegisteredPrivilege d PrivilegeStateExporterImporter)"

lemma export_contract_raw:
  assumes "export_contract X v s = (Ok c, s')"
  shows "raw_contract c = (if exports_custom X (wt_ContractInfo v) then v\<lparr>wt_ContractState := []\<rparr> else v)"
  using assms
  by (auto simp: export_contract_def Let_def or_panic_Ok lift_res_def ret_def raw_contract_def exports_custom_def
      split: if_splits elim!: bindS_OkE)

lemma map_act_Ok:
  assumes "map_act f es s = (Ok rs, s')" and "\<And>e r s s'. f e s = (Ok r, s') \<Longrightarrow> g r = h e"
  shows "map g rs = map h es"
  using assms(1) by (induction es arbitrary: s rs) (auto simp: ret_def elim!: bindS_OkE; erule assms(2))+

lemma ExportGenesis_raw:
  assumes "ExportGenesis X G s = (Ok g, s')"
  shows "RawWasmState g = (gExportGenesis G s)\<lparr>wg_Contracts :=
    map (\<lambda>v. if exports_custom X (wt_ContractInfo v) then v\<lparr>wt_ContractState := []\<rparr> else v)
      (wg_Contracts (gExportGenesis G s))\<rparr>"
proof -
  obtain cs where g: "map_act (export_contract X) (wg_Contracts (gExportGenesis G s)) s = (Ok cs, s')"
    "g = \<lparr>gs_Params = wg_Params (gExportGenesis G s), gs_Codes = wg_Codes (gExportGenesis G s),
      gs_Contracts = cs, gs_Sequences = wg_Sequences (gExportGenesis G s),
      gs_GenMsgs = wg_GenMsgs (gExportGenesis G s), gs_PrivilegedContractAddresses = [], gs_PinnedCodeIDs = []\<rparr>"
    using assms by (auto simp: ExportGenesis_def Let_def ret_def elim!: bindS_OkE)
  have "map raw_contract cs = map (\<lambda>v. if exports_custom X (wt_ContractInfo v) then v\<lparr>wt_ContractState := []\<rparr> else v)
      (wg_Contracts (gExportGenesis G s))"
    by (rule map_act_Ok [OF g(1)]) (rule export_contract_raw)
  then show ?thesis by (simp add: g(2) RawWasmState_def)
qed

section \<open>Lemmas: import\<close>

lemma has_registration: "kv_has (tw_store s) (contractPrivilegesSecondaryIndexKey t pos) \<longleftrightarrow> privilege_reg s t pos \<noteq> None"
  by (simp add: kv_has_def privilege_reg_def getPrivilegedContract_def)

lemma stored:
  "privilege_reg (snd (storeContractPrivilegeRegistration t pos a s)) =
     (privilege_reg s)(t := (privilege_reg s t)(pos := Some a))"
  "index_inv s \<Longrightarrow> index_inv (snd (storeContractPrivilegeRegistration t pos a s))"
  "tw_wasm (snd (storeContractPrivilegeRegistration t pos a s)) = tw_wasm s"
  "IsPrivileged b (snd (storeContractPrivilegeRegistration t pos a s)) = IsPrivileged b s"
  unfolding storeContractPrivilegeRegistration_def modify_def snd_conv
  by (rule privilege_reg_set, erule index_inv_set, simp)
    (simp add: IsPrivileged_def kv_has_def kv_simps twasm_keys)

lemma index_inv_on_wasm [simp]: "index_inv (snd (on_wasm m s)) = index_inv s"
  by (simp add: on_wasm_def split_beta)

lemma index_inv_setflag: "index_inv s \<Longrightarrow> index_inv (snd (setPrivilegedFlag a s))"
  by (simp add: setPrivilegedFlag_def modify_def index_inv_flag)

text \<open>
  What one contract's import adds to the index: its registrations, on free positions only.
\<close>

lemma import_registrations_effect:
  assumes "import_registrations a rs s = (Ok (), s')" and "index_inv s" and "\<forall>r \<in> set rs. priv_ok r"
  shows "privilege_reg s' t pos =
      (if \<exists>r \<in> set rs. priv_type r = t \<and> priv_pos r = pos then Some a else privilege_reg s t pos)"
    and "\<forall>r \<in> set rs. privilege_reg s (priv_type r) (priv_pos r) = None"
    and "index_inv s'" and "tw_wasm s' = tw_wasm s" and "\<And>b. IsPrivileged b s' = IsPrivileged b s"
proof -
  have "(\<forall>t pos. privilege_reg s' t pos =
      (if \<exists>r \<in> set rs. priv_type r = t \<and> priv_pos r = pos then Some a else privilege_reg s t pos)) \<and>
    (\<forall>r \<in> set rs. privilege_reg s (priv_type r) (priv_pos r) = None) \<and>
    index_inv s' \<and> tw_wasm s' = tw_wasm s \<and> (\<forall>b. IsPrivileged b s' = IsPrivileged b s)"
    using assms
  proof (induction rs arbitrary: s)
    case (Cons c cs)
    let ?s1 = "snd (storeContractPrivilegeRegistration (priv_type c) (priv_pos c) a s)"
    have named: "PrivilegeTypeFrom (rp_PrivilegeType c) = Some (priv_type c)" using Cons.prems by (simp add: priv_okE)
    have free: "privilege_reg s (priv_type c) (priv_pos c) = None"
      and run: "import_registrations a cs ?s1 = (Ok (), s')"
      using Cons.prems(1)
      by (auto simp: named has_registration priv_pos_def storeContractPrivilegeRegistration_def modify_def
          seqS_def bindS_def Let_def split: if_splits)
    have s1: "privilege_reg ?s1 = (privilege_reg s)(priv_type c := (privilege_reg s (priv_type c))(priv_pos c := Some a))"
      "index_inv ?s1" "tw_wasm ?s1 = tw_wasm s" "\<And>b. IsPrivileged b ?s1 = IsPrivileged b s"
      using Cons.prems(2) by (simp_all add: stored)
    have "\<forall>r \<in> set cs. priv_ok r" using Cons.prems(3) by simp
    note ih = Cons.IH [OF run s1(2) this]
    show ?case using ih free s1 by (auto simp: fun_upd_def split: if_splits; metis option.distinct(1))
  qed simp
  then show "privilege_reg s' t pos =
      (if \<exists>r \<in> set rs. priv_type r = t \<and> priv_pos r = pos then Some a else privilege_reg s t pos)"
    "\<forall>r \<in> set rs. privilege_reg s (priv_type r) (priv_pos r) = None"
    "index_inv s'" "tw_wasm s' = tw_wasm s" "\<And>b. IsPrivileged b s' = IsPrivileged b s" by blast+
qed

lemma importPrivileged_effect:
  assumes laws: "wasm_laws X" and idx: "index_inv s" and ok: "\<forall>r \<in> set rs. priv_ok r"
    and run: "importPrivileged X a code \<lparr>RegisteredPrivileges = slice_of rs\<rparr> s = (Ok (), s')"
  shows "privilege_reg s' t pos =
      (if \<exists>r \<in> set rs. priv_type r = t \<and> priv_pos r = pos then Some a else privilege_reg s t pos)"
    and "\<forall>r \<in> set rs. privilege_reg s (priv_type r) (priv_pos r) = None"
    and "index_inv s'" and "privs_of X s' = privs_of X s"
    and "\<And>b. IsPrivileged b s' \<longleftrightarrow> b = a \<or> IsPrivileged b s"
proof -
  let ?s1 = "snd (setPrivilegedFlag a (snd (on_wasm (wPinCode X code) s)))"
  have reg: "import_registrations a rs ?s1 = (Ok (), s')"
    using run by (fastforce simp: importPrivileged_def seqS_def wrapS_Ok_iff setPrivilegedFlag_def modify_def
        elim!: bindS_OkE)
  have s1: "index_inv ?s1"
    using idx by (simp add: index_inv_setflag)
  note eff = import_registrations_effect [OF reg s1 ok]
  show "privilege_reg s' t pos =
      (if \<exists>r \<in> set rs. priv_type r = t \<and> priv_pos r = pos then Some a else privilege_reg s t pos)"
    by (simp only: eff(1) reg_set reg_on_wasm)
  show "\<forall>r \<in> set rs. privilege_reg s (priv_type r) (priv_pos r) = None" using eff(2) by simp
  show "index_inv s'" by (rule eff(3))
  show "privs_of X s' = privs_of X s"
    using eff(4) laws by (simp add: setPrivilegedFlag_def modify_def on_wasm_def split_beta wasm_laws_def)
  show "IsPrivileged b s' \<longleftrightarrow> b = a \<or> IsPrivileged b s" for b using eff(5) by simp
qed

text \<open>
  The registrations a contract of the genesis file brings with it, when it has no custom state.
\<close>

definition brings :: "'w wasm_ext \<Rightarrow> 'm Contract \<Rightarrow> addr \<Rightarrow> RegisteredPrivilege \<Rightarrow> bool" where
  "brings X m a r \<longleftrightarrow>
     AccAddressFromBech32 X (ct_ContractAddress m) = Ok a \<and>
     (\<exists>rs. wReadExtension X (ct_ContractInfo m) = Ok rs \<and> r \<in> set rs)"

definition plain_contract :: "'w wasm_ext \<Rightarrow> 'm Contract \<Rightarrow> bool" where
  "plain_contract X m \<longleftrightarrow>
     (\<forall>rs. wReadExtension X (ct_ContractInfo m) = Ok rs \<longrightarrow> privs_ok rs) \<and>
     \<not> exports_custom X (ct_ContractInfo m)"

lemma import_contract_effect:
  assumes laws: "wasm_laws X" and idx: "index_inv s" and plain: "plain_contract X m"
    and run: "import_contract X m s = (Ok (), s')"
  shows "(privilege_reg s' t pos = Some b \<longleftrightarrow>
      privilege_reg s t pos = Some b \<or> (\<exists>r. brings X m b r \<and> priv_type r = t \<and> priv_pos r = pos)) \<and>
    index_inv s' \<and> privs_of X s' = privs_of X s"
proof -
  obtain rs where rs: "wReadExtension X (ct_ContractInfo m) = Ok rs"
    using run by (auto simp: import_contract_def Let_def lift_res_def readDetails_def bind_res_Ok_iff elim!: bindS_OkE)
  have ok: "\<forall>r \<in> set rs. priv_ok r" using plain rs by (auto simp: plain_contract_def privs_ok_def)
  show ?thesis
  proof (cases "rs = []")
    case True
    then have "s' = s" using run rs by (simp add: import_contract_def readDetails_def slice_of_def ret_def)
    with True rs idx show ?thesis by (simp add: brings_def)
  next
    case False
    have no_custom: "import_custom_state X m addr \<lparr>RegisteredPrivileges = slice_of rs\<rparr> = ret ()" for addr
      using plain rs by (simp add: import_custom_state_def plain_contract_def exports_custom_def readDetails_def)
    obtain a where a: "AccAddressFromBech32 X (ct_ContractAddress m) = Ok a"
      and imp: "importPrivileged X a (ci_CodeID (ct_ContractInfo m)) \<lparr>RegisteredPrivileges = slice_of rs\<rparr> s = (Ok (), s')"
      using run rs False no_custom
      by (auto simp: import_contract_def readDetails_def slice_of_def lift_res_def wrapS_Ok_iff ret_def seqS_def
          elim!: bindS_OkE)
    note eff = importPrivileged_effect [OF laws idx ok imp]
    show ?thesis
      using eff(1) [of t pos] eff(2-4) a rs by (auto simp: brings_def split: if_splits)
  qed
qed

lemma import_contracts_effect:
  assumes "wasm_laws X" and "index_inv s" and "\<forall>m \<in> set cs. plain_contract X m"
    and "for_each (import_contract X) cs s = (Ok (), s')"
  shows "(privilege_reg s' t pos = Some b \<longleftrightarrow>
      privilege_reg s t pos = Some b \<or>
      (\<exists>m \<in> set cs. \<exists>r. brings X m b r \<and> priv_type r = t \<and> priv_pos r = pos)) \<and>
    index_inv s' \<and> privs_of X s' = privs_of X s"
  using assms(2-4)
proof (induction cs arbitrary: s)
  case (Cons m cs)
  obtain s1 where s1: "import_contract X m s = (Ok (), s1)" "for_each (import_contract X) cs s1 = (Ok (), s')"
    using Cons.prems(3) by (auto simp: seqS_def elim!: bindS_OkE)
  have "plain_contract X m" using Cons.prems(2) by simp
  note one = import_contract_effect [OF assms(1) Cons.prems(1) this s1(1)]
  have "index_inv s1" and "\<forall>m \<in> set cs. plain_contract X m" using one Cons.prems(2) by simp_all
  from Cons.IH [OF this s1(2)] one show ?case by auto
qed (simp add: ret_def)
end
