(* ===== verification/TwasmGov.thy ===== *)
theory TwasmGov
  imports TwasmGenesis
begin

text \<open>
  \<open>x/twasm/keeper/proposal_handler.go\<close> and the module as a state machine. The step relation
  \<open>tw_reachable\<close> has one rule per entry point of the module: the start of an empty chain, the import
  of a genesis state, the promotion and demotion of a contract, a message dispatched for a contract,
  the block callbacks, and changes made by code outside the module. Failed calls are rolled back by
  the SDK and make no step.

  The import takes the lists of the contracts as they are: it accepts a genesis state in which a
  singleton privilege is given out twice (\<open>TwasmProperties.import_accepts_two_updaters\<close>), and the
  callback of a contract with custom state runs while the index is still incomplete. The rule for the
  import therefore asks for a genesis state that is \<open>genesis_ok\<close>: valid lists, no custom state, and
  every singleton privilege at most once. \<open>genesis_laws\<close> is what the rule uses of wasmd's own import.

  Contracts run outside the repository. \<open>contract_effect\<close> says what such a run can do to the
  state of the module: nothing but what the module's own entry points do (\<open>wasmd\<close> routes every
  custom message of a contract through \<open>DispatchMsg\<close>), in any order. \<open>sudo_effects\<close> is the
  hypothesis that \<open>Sudo\<close> is such a run. The theorem \<open>reachable_inv\<close> shows the invariant of the
  keeper in every reachable state.
\<close>

section \<open>The handler of governance proposals\<close>

definition handlePromoteContractProposal ::
    "'w wasm_ext \<Rightarrow> gov_limits \<Rightarrow> PrivilegedContractProposal \<Rightarrow> ('w tw_state, unit) act" where
  "handlePromoteContractProposal X L p =
     seqS (lift_res (PromoteProposal_ValidateBasic X L p))
     (bindS (lift_res (wrap_res ''contract address'' (AccAddressFromBech32 X (pp_Contract p)))) (\<lambda>contractAddr.
       SetPrivileged X contractAddr))"

definition handleDemoteContractProposal ::
    "'w wasm_ext \<Rightarrow> gov_limits \<Rightarrow> PrivilegedContractProposal \<Rightarrow> ('w tw_state, unit) act" where
  "handleDemoteContractProposal X L p =
     seqS (lift_res (DemoteProposal_ValidateBasic X L p))
     (bindS (lift_res (wrap_res ''contract address'' (AccAddressFromBech32 X (pp_Contract p)))) (\<lambda>contractAddr.
       UnsetPrivileged X contractAddr))"

definition NewProposalHandlerX ::
    "'w wasm_ext \<Rightarrow> gov_limits \<Rightarrow> ('f content option \<Rightarrow> ('w tw_state, unit) act) \<Rightarrow>
     'f content option \<Rightarrow> ('w tw_state, unit) act" where
  "NewProposalHandlerX X L wasmProposalHandler content s =
     (case wasmProposalHandler content s of
        (Ok _, s') \<Rightarrow> (Ok (), s')
      | (Panic p, s') \<Rightarrow> (Panic p, s')
      | (Err e, s') \<Rightarrow>
          if \<not> err_is SdkErrUnknownRequest e then (Err e, s')
          else
            (case content of
               None \<Rightarrow> (failw SdkErrUnknownRequest ''content must not be empty'', s')
             | Some (PromoteProposal p) \<Rightarrow> handlePromoteContractProposal X L p s'
             | Some (DemoteProposal p) \<Rightarrow> handleDemoteContractProposal X L p s'
             | Some _ \<Rightarrow>
                 (failw SdkErrUnknownRequest ''unrecognized twasm srcProposal content type: %T'', s')))"

lemma promote_proposal:
  assumes "wasmH (Some (PromoteProposal p)) s = (Err e, s)" and "err_is SdkErrUnknownRequest e"
    and "validateProposalCommons L (pp_Title p) (pp_Description p) = Ok ()"
    and "AccAddressFromBech32 X (pp_Contract p) = Ok a"
  shows "NewProposalHandlerX X L wasmH (Some (PromoteProposal p)) s = SetPrivileged X a s"
  using assms
  by (simp add: NewProposalHandlerX_def handlePromoteContractProposal_def PromoteProposal_ValidateBasic_def seqS_def)

lemma demote_proposal:
  assumes "wasmH (Some (DemoteProposal p)) s = (Err e, s)" and "err_is SdkErrUnknownRequest e"
    and "validateProposalCommons L (pp_Title p) (pp_Description p) = Ok ()"
    and "AccAddressFromBech32 X (pp_Contract p) = Ok a"
  shows "NewProposalHandlerX X L wasmH (Some (DemoteProposal p)) s = UnsetPrivileged X a s"
  using assms
  by (simp add: NewProposalHandlerX_def handleDemoteContractProposal_def DemoteProposal_ValidateBasic_def seqS_def)

section \<open>What a contract can do\<close>

inductive contract_effect :: "'w wasm_ext \<Rightarrow> 'w tw_state \<Rightarrow> 'w tw_state \<Rightarrow> bool" for X where
  frame: "tw_store s' = tw_store s \<Longrightarrow> privs_of X s' = privs_of X s \<Longrightarrow> contract_effect X s s'"
| message: "IsPrivileged a s \<Longrightarrow> priv_msg_ok m \<Longrightarrow> handlePrivilege X a m s = (Ok (), s') \<Longrightarrow>
    contract_effect X s s'"
| flag: "contract_effect X s (snd (setPrivilegedFlag a s))"
| unflag: "contract_effect X s (snd (clearPrivilegedFlag a s))"
| drained: "GetContractInfo X a s = Some info \<Longrightarrow> readDetails X info = Ok d \<Longrightarrow>
    unset_finish X a d s = (Ok (), s') \<Longrightarrow> contract_effect X s s'"
| trans: "contract_effect X s s1 \<Longrightarrow> contract_effect X s1 s2 \<Longrightarrow> contract_effect X s s2"

definition sudo_effects :: "'w wasm_ext \<Rightarrow> bool" where
  "sudo_effects X \<longleftrightarrow> (\<forall>a msg s bz s'. wSudo X a msg s = (Ok bz, s') \<longrightarrow> contract_effect X s s')"

lemma effect_inv:
  assumes "wasm_laws X"
  shows "contract_effect X s s' \<Longrightarrow> tw_inv X s \<Longrightarrow> tw_inv X s'"
proof (induction rule: contract_effect.induct)
  case (frame s' s)
  then show ?case by (metis tw_inv_cong)
next
  case (message a s m s')
  then show ?case using handlePrivilege_keeps [OF assms] by blast
next
  case (drained a s info d s')
  have "d = \<lparr>RegisteredPrivileges = slice_of (privs_of X s a)\<rparr>"
    using drained(1,2) by (rule readDetails_privs)
  then show ?case using unset_finish_ok(1) [OF assms drained(4) refl] drained(3) by simp
qed (simp_all add: flag_keeps)

lemma sudo_inv:
  "wasm_laws X \<Longrightarrow> sudo_effects X \<Longrightarrow> wSudo X a msg s = (Ok bz, s') \<Longrightarrow> tw_inv X s \<Longrightarrow> tw_inv X s'"
  unfolding sudo_effects_def using effect_inv by blast

lemma SetPrivileged_inv:
  assumes "wasm_laws X" and "sudo_effects X" and "tw_inv X s" and "SetPrivileged X a s = (Ok (), s')"
  shows "tw_inv X s'"
  by (rule SetPrivileged_effect [OF assms(1,3,4)]) (use sudo_inv [OF assms(1,2)] in \<open>auto intro: event_keeps\<close>)

lemma UnsetPrivileged_inv:
  assumes "wasm_laws X" and "sudo_effects X" and "tw_inv X s" and "UnsetPrivileged X a s = (Ok (), s')"
  shows "tw_inv X s'"
proof -
  obtain bz s1 where sudo: "wSudo X a demotedMsg s = (Ok bz, s1)" by (rule UnsetPrivileged_OkE [OF assms(4)])
  have "tw_inv X s1" using assms sudo by (auto intro: sudo_inv)
  then show ?thesis using UnsetPrivileged_effect(1) [OF assms(1) sudo _ assms(4)] by blast
qed

lemma inv_events [simp]: "tw_inv X (s\<lparr>tw_events := es\<rparr>) \<longleftrightarrow> tw_inv X s"
  by (simp add: tw_inv_def)

lemma try_sudo_inv:
  assumes "wasm_laws X" and "sudo_effects X" and "tw_inv X s"
  shows "tw_inv X (try_sudo X fwd msg a s)"
proof (cases "wSudo X a msg (s\<lparr>tw_events := []\<rparr>)")
  case (Pair r s')
  then have "tw_inv X s'" if "is_ok r"
    using that sudo_inv [OF assms(1,2), of a msg "s\<lparr>tw_events := []\<rparr>"] assms(3) by (cases r) auto
  with Pair assms(3) show ?thesis by (simp add: try_sudo_def)
qed

lemma callbacks_inv:
  assumes "wasm_laws X" and "sudo_effects X" and "tw_inv X s"
  shows "tw_inv X (fold (try_sudo X fwd msg) as s)"
  using assms(3) by (induction as arbitrary: s) (auto intro: try_sudo_inv [OF assms(1,2)])

section \<open>What the environment of the handler keeps\<close>

definition w_frame :: "'w wasm_ext \<Rightarrow> ('w, 'a) act \<Rightarrow> bool" where
  "w_frame X m \<longleftrightarrow> (\<forall>w. w_privs X (snd (m w)) = w_privs X w)"

definition handler_laws :: "'w wasm_ext \<Rightarrow> ('w, 'f, 'v) handler_ext \<Rightarrow> bool" where
  "handler_laws X H \<longleftrightarrow>
     (\<forall>n cs. w_frame X (hMintCoins H n cs)) \<and>
     (\<forall>n a cs. w_frame X (hSendCoinsFromModuleToAccount H n a cs)) \<and>
     (\<forall>a n cs. w_frame X (hSendCoinsFromAccountToModule H a n cs)) \<and>
     (\<forall>a n cs. w_frame X (hDelegateCoinsFromAccountToModule H a n cs)) \<and>
     (\<forall>n a cs. w_frame X (hUndelegateCoinsFromModuleToAccount H n a cs)) \<and>
     (\<forall>cp w. w_privs X (hStoreConsensusParams H cp w) = w_privs X w) \<and>
     (\<forall>path c s s'. hGetRoute H path c s = (Ok (), s') \<longrightarrow> contract_effect X s s')"

lemma keeps_ok_on_wasm: "w_frame X m \<Longrightarrow> keeps_ok (tw_inv X) (on_wasm m)"
  by (rule keeps_okI) (auto simp: on_wasm_def w_frame_def split_beta elim!: tw_inv_cong)

lemma keeps_ok_require: "keeps_ok P (require X a t)"
  by (simp add: keeps_ok_def require_def)

lemma keeps_ok_with_events: "keeps_ok (tw_inv X) m \<Longrightarrow> keeps_ok (tw_inv X) (with_events m)"
  by (rule keeps_okI)
    (auto simp: with_events_def bind_res_Ok_iff split: prod.splits; metis inv_events keeps_okD)

lemma keeps_ok_store:
  "handler_laws X H \<Longrightarrow> keeps_ok (tw_inv X) (modify (\<lambda>s. s\<lparr>tw_wasm := hStoreConsensusParams H cp (tw_wasm s)\<rparr>))"
  by (rule keeps_ok_modify) (auto simp: handler_laws_def elim!: tw_inv_cong)

lemma keeps_ok_route:
  assumes "wasm_laws X" and "handler_laws X H"
  shows "keeps_ok (tw_inv X) (GetRoute H path c)"
proof -
  have "keeps_ok (tw_inv X) (hGetRoute H path c)"
    using assms effect_inv [OF assms(1)] unfolding handler_laws_def
    by (intro keeps_okI) (metis (full_types) old.unit.exhaust)
  then show ?thesis
    by (auto simp: GetRoute_def Let_def keeps_ok_rules split: content.split)
qed

lemma keeps_ok_privilege:
  "wasm_laws X \<Longrightarrow> priv_msg_ok m \<Longrightarrow> keeps_ok (tw_inv X) (handlePrivilege X a m)"
  by (rule keeps_okI) (metis (full_types) handlePrivilege_keeps old.unit.exhaust)

lemma keeps_ok_handlers:
  assumes "wasm_laws X" and "handler_laws X H"
  shows "keeps_ok (tw_inv X) (handleGovProposalExecution X H a g)"
    and "keeps_ok (tw_inv X) (handleMintToken X H a mint)"
    and "keeps_ok (tw_inv X) (handleConsensusParamsUpdate X H a upd)"
    and "keeps_ok (tw_inv X) (handleDelegate X H a del)"
    and "keeps_ok (tw_inv X) (handleUndelegate X H a undel)"
proof -
  have frames: "w_frame X (hMintCoins H n cs)" "w_frame X (hSendCoinsFromModuleToAccount H n b cs)"
    "w_frame X (hSendCoinsFromAccountToModule H b n cs)" "w_frame X (hDelegateCoinsFromAccountToModule H b n cs)"
    "w_frame X (hUndelegateCoinsFromModuleToAccount H n b cs)" for n b cs
    using assms(2) by (simp_all add: handler_laws_def)
  note rules = keeps_ok_rules keeps_ok_require keeps_ok_on_wasm frames keeps_ok_store [OF assms(2)]
    keeps_ok_route [OF assms]
  show "keeps_ok (tw_inv X) (handleGovProposalExecution X H a g)"
    unfolding handleGovProposalExecution_def by (auto intro!: rules split: option.split)
  show "keeps_ok (tw_inv X) (handleMintToken X H a mint)"
    unfolding handleMintToken_def Let_def by (auto intro!: rules split: option.split res.split)
  show "keeps_ok (tw_inv X) (handleConsensusParamsUpdate X H a upd)"
    unfolding handleConsensusParamsUpdate_def by (auto intro!: rules)
  show "keeps_ok (tw_inv X) (handleDelegate X H a del)"
    unfolding handleDelegate_def by (auto intro!: rules split: res.split)
  show "keeps_ok (tw_inv X) (handleUndelegate X H a undel)"
    unfolding handleUndelegate_def by (auto intro!: rules split: res.split)
qed

lemma DispatchMsg_inv:
  assumes laws: "wasm_laws X" and "handler_laws X H" and inv: "tw_inv X s"
    and run: "DispatchMsg X H a custom s = (Ok evts, s')"
  shows "tw_inv X s'"
proof -
  obtain bz where custom: "custom = Some bz" and priv: "IsPrivileged a s"
    using run by (cases custom) (auto simp: DispatchMsg_def split: if_splits)
  obtain p where p: "UnmarshalWithAny (hCoins H) (hJson H) bz = Ok p"
    using run custom priv by (auto simp: DispatchMsg_def lift_res_def elim!: bindS_OkE)
  have ok: "keeps_ok (tw_inv X) (handlePrivilege X a m)" if "pm_Privilege p = Some m" for m
    using laws UnmarshalWithAny_privilege [OF p that] by (rule keeps_ok_privilege)
  note rules = keeps_ok_with_events keeps_ok_rules keeps_ok_handlers [OF assms(1,2)]
  show ?thesis
    using run inv ok
    by (auto simp: DispatchMsg_def custom priv p lift_res_def split: option.splits
        elim!: keeps_okD [rotated -1] intro!: rules)
qed


section \<open>Genesis import\<close>

definition carried :: "'w wasm_ext \<Rightarrow> 'm Contract \<Rightarrow> RegisteredPrivilege list" where
  "carried X m = (case wReadExtension X (ct_ContractInfo m) of Ok rs \<Rightarrow> rs | _ \<Rightarrow> [])"

definition genesis_ok :: "'w wasm_ext \<Rightarrow> ('m, 'g) GenesisState \<Rightarrow> bool" where
  "genesis_ok X data \<longleftrightarrow>
     (\<forall>m \<in> set (gs_Contracts data). plain_contract X m) \<and>
     (\<forall>t. IsSingleton t \<longrightarrow>
        length (filter (\<lambda>r. priv_type r = t) (concat (map (carried X) (gs_Contracts data)))) \<le> 1)"

text \<open>
  wasmd's import on an empty chain: no contract is privileged yet, so nothing is registered; the
  contracts of the genesis state are stored with their infos, under the addresses their texts stand
  for, and no other contract has an extension with privileges.
\<close>

definition genesis_laws :: "'w wasm_ext \<Rightarrow> ('w, 'm, 'g, 'u) genesis_ext \<Rightarrow> bool" where
  "genesis_laws X G \<longleftrightarrow>
     (\<forall>g s us s1. tw_store s = [] \<longrightarrow> (\<forall>a. privs_of X s a = []) \<longrightarrow> gInitGenesis G g s = (Ok us, s1) \<longrightarrow>
        tw_store s1 = [] \<and>
        (\<forall>c \<in> set (wg_Contracts g). \<exists>a. AccAddressFromBech32 X (wt_ContractAddress c) = Ok a \<and>
           wGetContractInfo X (tw_wasm s1) a = Some (wt_ContractInfo c)) \<and>
        (\<forall>a. privs_of X s1 a \<noteq> [] \<longrightarrow>
           (\<exists>c \<in> set (wg_Contracts g). AccAddressFromBech32 X (wt_ContractAddress c) = Ok a)))"

lemma filter_le_1:
  assumes "length (filter P xs) \<le> 1" and "x \<in> set xs" and "P x" and "y \<in> set xs" and "P y"
  shows "x = y"
proof -
  have "x \<in> set (filter P xs)" "y \<in> set (filter P xs)" using assms(2-5) by simp_all
  with assms(1) show ?thesis by (cases "filter P xs") auto
qed

lemma imported_contracts:
  assumes "genesis_laws X G" and "tw_store s = []" and "\<forall>a. privs_of X s a = []"
    and "gInitGenesis G (RawWasmState data) s = (Ok us, s1)"
  shows "tw_store s1 = []"
    and "r \<in> set (privs_of X s1 a) \<longleftrightarrow> (\<exists>m \<in> set (gs_Contracts data). brings X m a r)"
    and "privs_of X s1 a \<noteq> [] \<Longrightarrow> \<exists>m \<in> set (gs_Contracts data). wReadExtension X (ct_ContractInfo m) = Ok (privs_of X s1 a)"
proof -
  have laws: "tw_store s1 = []"
    "\<forall>m \<in> set (gs_Contracts data). \<exists>a. AccAddressFromBech32 X (ct_ContractAddress m) = Ok a \<and>
      wGetContractInfo X (tw_wasm s1) a = Some (ct_ContractInfo m)"
    "\<forall>a. privs_of X s1 a \<noteq> [] \<longrightarrow> (\<exists>m \<in> set (gs_Contracts data). AccAddressFromBech32 X (ct_ContractAddress m) = Ok a)"
    using assms(1) [unfolded genesis_laws_def, rule_format, OF assms(2) _ assms(4)] assms(3)
    by (simp_all add: RawWasmState_def raw_contract_def)
  have stored: "wGetContractInfo X (tw_wasm s1) b = Some (ct_ContractInfo m)"
    if "m \<in> set (gs_Contracts data)" "AccAddressFromBech32 X (ct_ContractAddress m) = Ok b" for m b
    using laws(2) that by force
  show "tw_store s1 = []" by (rule laws(1))
  show ext: "\<exists>m \<in> set (gs_Contracts data). wReadExtension X (ct_ContractInfo m) = Ok (privs_of X s1 a)"
    if nonempty: "privs_of X s1 a \<noteq> []" for a
  proof -
    obtain m where m: "m \<in> set (gs_Contracts data)" "AccAddressFromBech32 X (ct_ContractAddress m) = Ok a"
      using laws(3) nonempty by blast
    with nonempty show ?thesis by (intro bexI [OF _ m(1)]) (auto simp: w_privs_def stored [OF m] split: res.splits)
  qed
  show "r \<in> set (privs_of X s1 a) \<longleftrightarrow> (\<exists>m \<in> set (gs_Contracts data). brings X m a r)"
  proof
    assume r: "r \<in> set (privs_of X s1 a)"
    then obtain m where m: "m \<in> set (gs_Contracts data)" "AccAddressFromBech32 X (ct_ContractAddress m) = Ok a"
      using laws(3) by (metis empty_iff list.set(1))
    have "brings X m a r" using r m(2) by (cases "wReadExtension X (ct_ContractInfo m)") (simp_all add: brings_def w_privs_def stored [OF m])
    with m(1) show "\<exists>m \<in> set (gs_Contracts data). brings X m a r" by blast
  next
    assume "\<exists>m \<in> set (gs_Contracts data). brings X m a r"
    then show "r \<in> set (privs_of X s1 a)" using stored by (auto simp: brings_def w_privs_def)
  qed
qed

lemma keeps_ok_for_each: "(\<And>e. keeps_ok P (f e)) \<Longrightarrow> keeps_ok P (for_each f es)"
  by (induction es) (simp_all add: keeps_ok_rules)

lemma carried_once:
  assumes "genesis_ok X data" and "IsSingleton t"
    and "m \<in> set (gs_Contracts data)" "brings X m a r" "priv_type r = t"
    and "m' \<in> set (gs_Contracts data)" "brings X m' b r'" "priv_type r' = t"
  shows "r = r'"
proof -
  let ?all = "concat (map (carried X) (gs_Contracts data))"
  have "length (filter (\<lambda>r. priv_type r = t) ?all) \<le> 1" using assms(1,2) by (simp add: genesis_ok_def)
  moreover have "r \<in> set ?all" "r' \<in> set ?all"
    using assms(3,4,6,7) by (force simp: brings_def carried_def)+
  ultimately show ?thesis using assms(5,8) by (intro filter_le_1 [where P = "\<lambda>r. priv_type r = t"])
qed

lemma InitGenesis_inv:
  assumes laws: "wasm_laws X" and eff: "sudo_effects X" and gen: "genesis_laws X G"
    and empty: "tw_store s = []" "\<forall>a. privs_of X s a = []"
    and ok: "genesis_ok X data" and imp: "InitGenesis X G data s = (Ok us, s')"
  shows "tw_inv X s'"
proof -
  let ?rest = "\<lambda>vs. seqS (for_each (set_privileged_address X) (gs_PrivilegedContractAddresses data))
     (seqS (for_each (pin_code X) (gs_PinnedCodeIDs data)) (ret vs))"
  obtain vs s1 where s1: "gInitGenesis G (RawWasmState data) s = (Ok vs, s1)"
    and "seqS (for_each (import_contract X) (gs_Contracts data)) (?rest vs) s1 = (Ok us, s')"
    using imp unfolding InitGenesis_def by (elim bindS_OkE) (simp add: wrapS_Ok_iff that)
  then obtain s2 where s2: "for_each (import_contract X) (gs_Contracts data) s1 = (Ok (), s2)"
    and s': "?rest vs s2 = (Ok us, s')"
    unfolding seqS_def [of "for_each (import_contract X) _"] by (elim bindS_OkE) simp
  note wasmd = imported_contracts [OF gen empty s1]
  have idx: "index_inv s1" and no_reg: "privilege_reg s1 t pos = None" for t pos
    using wasmd(1)
    by (simp_all add: index_inv_def privilege_reg_def getPrivilegedContract_def kv_sorted_def kv_get_def)
  have plain: "\<forall>m \<in> set (gs_Contracts data). plain_contract X m" using ok by (simp add: genesis_ok_def)
  note imported = import_contracts_effect [OF laws idx plain s2]
  have reg: "privilege_reg s2 t pos = Some b \<longleftrightarrow>
      (\<exists>m \<in> set (gs_Contracts data). \<exists>r. brings X m b r \<and> priv_type r = t \<and> priv_pos r = pos)" for t pos b
    using imported [of t pos b] no_reg [of t pos] by simp
  have privs: "privs_of X s2 = privs_of X s1" "index_inv s2" using imported by blast+
  have agr: "agrees (privilege_reg s2) (privs_of X s2)"
    unfolding agrees_def privs(1) by (simp only: reg Bex_def wasmd(2)) blast
  have valid: "privs_ok (privs_of X s2 a)" for a
    using wasmd(3) [of a] plain unfolding privs(1) by (cases "privs_of X s1 a = []") (auto simp: plain_contract_def privs_ok_def)
  have single: "p = q" if one: "IsSingleton t" and regp: "privilege_reg s2 t p \<noteq> None" and regq: "privilege_reg s2 t q \<noteq> None" for t p q
  proof -
    obtain m b r where r: "m \<in> set (gs_Contracts data)" "brings X m b r" "priv_type r = t" and p: "priv_pos r = p"
      using regp reg by (meson not_None_eq)
    obtain m' b' r' where r': "m' \<in> set (gs_Contracts data)" "brings X m' b' r'" "priv_type r' = t" and q: "priv_pos r' = q"
      using regq reg by (meson not_None_eq)
    show ?thesis using carried_once [OF ok one r r'] p q by simp
  qed
  have inv: "tw_inv X s2" unfolding tw_inv_def using privs(2) agr valid single by blast
  have "keeps_ok (tw_inv X) (SetPrivileged X a)" for a
    by (rule keeps_okI) (metis (full_types) SetPrivileged_inv [OF laws eff] old.unit.exhaust)
  moreover have "keeps_ok (tw_inv X) (on_wasm (wPinCode X c))" for c
    by (rule keeps_ok_on_wasm) (use laws in \<open>simp add: wasm_laws_def w_frame_def\<close>)
  ultimately have "keeps_ok (tw_inv X) (?rest vs)"
    by (auto simp: set_privileged_address_def pin_code_def intro!: keeps_ok_rules keeps_ok_for_each)
  then show ?thesis using inv s' by (rule keeps_okD)
qed

section \<open>Reachable states\<close>

inductive tw_reachable ::
    "'w wasm_ext \<Rightarrow> ('w, 'm, 'g, 'u) genesis_ext \<Rightarrow> ('w, 'f, 'v) handler_ext \<Rightarrow> (event list \<Rightarrow> event list) \<Rightarrow>
     'w tw_state \<Rightarrow> bool"
  for X G H fwd where
  init: "tw_store s = [] \<Longrightarrow> (\<forall>a. privs_of X s a = []) \<Longrightarrow> tw_reachable X G H fwd s"
| genesis: "tw_store s = [] \<Longrightarrow> (\<forall>a. privs_of X s a = []) \<Longrightarrow> genesis_ok X data \<Longrightarrow>
    InitGenesis X G data s = (Ok us, s') \<Longrightarrow> tw_reachable X G H fwd s'"
| promote: "tw_reachable X G H fwd s \<Longrightarrow> SetPrivileged X a s = (Ok (), s') \<Longrightarrow> tw_reachable X G H fwd s'"
| demote: "tw_reachable X G H fwd s \<Longrightarrow> UnsetPrivileged X a s = (Ok (), s') \<Longrightarrow> tw_reachable X G H fwd s'"
| dispatch: "tw_reachable X G H fwd s \<Longrightarrow> DispatchMsg X H a custom s = (Ok evts, s') \<Longrightarrow> tw_reachable X G H fwd s'"
| begin_block: "tw_reachable X G H fwd s \<Longrightarrow> BeginBlocker X fwd es s = (Ok (), s') \<Longrightarrow> tw_reachable X G H fwd s'"
| end_block: "tw_reachable X G H fwd s \<Longrightarrow> EndBlocker X fwd s = (Ok ([] :: unit list), s') \<Longrightarrow> tw_reachable X G H fwd s'"
| outside: "tw_reachable X G H fwd s \<Longrightarrow> tw_store s' = tw_store s \<Longrightarrow> privs_of X s' = privs_of X s \<Longrightarrow>
    tw_reachable X G H fwd s'"

lemma init_inv: "tw_store s = [] \<Longrightarrow> (\<forall>a. privs_of X s a = []) \<Longrightarrow> tw_inv X s"
  by (auto simp: tw_inv_def index_inv_def agrees_def privs_ok_def privilege_reg_def getPrivilegedContract_def
      kv_sorted_def kv_get_def)

lemma inv_index: "tw_inv X s \<Longrightarrow> index_inv s"
  by (simp add: tw_inv_def)

lemma reachable_inv:
  assumes "wasm_laws X" and "sudo_effects X" and "handler_laws X H" and "genesis_laws X G"
  shows "tw_reachable X G H fwd s \<Longrightarrow> tw_inv X s"
proof (induction rule: tw_reachable.induct)
  case (genesis s data us s')
  then show ?case using InitGenesis_inv [OF assms(1,2,4)] by blast
next
  case (begin_block s es s')
  then show ?case
    using callbacks_inv [OF assms(1,2)] BeginBlocker_spec [OF inv_index, of X s X fwd es]
    by (auto split: res.splits)
next
  case (end_block s s')
  then show ?case
    using callbacks_inv [OF assms(1,2)] by (auto simp: EndBlocker_spec [OF inv_index])
next
  case (outside s s')
  then show ?case by (metis tw_inv_cong)
qed (use assms in \<open>auto intro: init_inv SetPrivileged_inv UnsetPrivileged_inv DispatchMsg_inv\<close>)

end
