(* ===== verification/TwasmSample.thy ===== *)
theory TwasmSample
  imports TwasmGov
begin

text \<open>
  A concrete environment for the twasm module: a store of contract infos whose extensions are
  decoded and encoded, addresses that are their own text, contracts that accept every callback.
  It satisfies \<open>wasm_laws\<close>, \<open>sudo_effects\<close>, \<open>handler_laws\<close> and \<open>genesis_laws\<close>; the theorems that assume them
  are applied to it on states that are computed from an empty chain.
\<close>

section \<open>The wasmd keeper\<close>

definition sample_enc :: "RegisteredPrivilege list \<Rightarrow> bytes" where
  "sample_enc rs =
     concat (map (\<lambda>r. [case PrivilegeTypeFrom (rp_PrivilegeType r) of Some t \<Rightarrow> t | None \<Rightarrow> 0,
                       ucast (rp_Position r)]) rs)"

fun sample_dec :: "bytes \<Rightarrow> RegisteredPrivilege list" where
  "sample_dec (t # p # bs) = registered_as t p # sample_dec bs"
| "sample_dec _ = []"

type_synonym sample_w = "(addr \<times> bytes) list"

definition sample_ext :: "sample_w wasm_ext" where
  "sample_ext =
     \<lparr>AddrString = map (\<lambda>b. char_of (unat b)),
      AttributeKeyContractAddr = ''_contract_address'',
      AccAddressFromBech32 = (\<lambda>a. if a = [] then fail SdkErrInvalidAddress else Ok (map (\<lambda>c. of_nat (of_char c)) a)),
      wGetContractInfo = (\<lambda>w a. map_option (\<lambda>bs. \<lparr>ci_CodeID = 1, ci_Admin = [], ci_Extension = Some (furyaExtType, bs)\<rparr>)
        (map_of w a)),
      wReadExtension = (\<lambda>info. Ok (case ci_Extension info of Some (u, bs) \<Rightarrow> sample_dec bs | None \<Rightarrow> [])),
      wSetContractInfoExtension = (\<lambda>a rs w.
        if map_of w a = None then (fail WasmErrNotFound, w)
        else if sample_dec (sample_enc rs) = rs then (Ok (), (a, sample_enc rs) # w)
        else (fail WasmErrInvalid, w)),
      wPinCode = (\<lambda>c. ret ()),
      wUnpinCode = (\<lambda>c. ret ()),
      wContractsByCode = (\<lambda>w c. map fst w),
      wSudo = (\<lambda>a msg. ret [])\<rparr>"

lemma sample_laws: "wasm_laws sample_ext"
  by (auto simp: wasm_laws_def sample_ext_def w_privs_def ret_def fail_def fun_eq_iff split: if_splits)

lemma sample_effects: "sudo_effects sample_ext"
  by (auto simp: sudo_effects_def sample_ext_def ret_def intro: contract_effect.frame)

section \<open>Bank, parameters and governance\<close>

definition sample_json :: "unit gov_json" where
  "sample_json =
     \<lparr>jRest = (), jText = (\<lambda>j p. json_mismatch), jPlan = (\<lambda>j p. json_mismatch),
      jCancelUpgrade = (\<lambda>j p. json_mismatch), jParamChanges = (\<lambda>j p. json_mismatch),
      jClientUpdate = (\<lambda>j p. json_mismatch), jInstantiate = (\<lambda>j p. json_mismatch),
      jStoreCode = (\<lambda>j p. json_mismatch), jMigrate = (\<lambda>j p. json_mismatch),
      jUpdateAdmin = (\<lambda>j p. json_mismatch), jClearAdmin = (\<lambda>j p. json_mismatch),
      jPinCodes = (\<lambda>j p. json_mismatch), jUnpinCodes = (\<lambda>j p. json_mismatch),
      jInstantiateMsg = (\<lambda>j. json_mismatch), jWasmCoin = (\<lambda>j c. json_mismatch)\<rparr>"

definition sample_coins :: coin_ext where
  "sample_coins =
     \<lparr>NewIntFromString = (\<lambda>s. if s = [] then None else Some (int (length s))), Coin_Validate = (\<lambda>c. Ok ())\<rparr>"

definition sample_handler :: "(sample_w, unit, unit) handler_ext" where
  "sample_handler =
     \<lparr>hMintCoins = (\<lambda>n cs. ret ()),
      hSendCoinsFromModuleToAccount = (\<lambda>n a cs. ret ()),
      hSendCoinsFromAccountToModule = (\<lambda>a n cs. ret ()),
      hDelegateCoinsFromAccountToModule = (\<lambda>a n cs. ret ()),
      hUndelegateCoinsFromModuleToAccount = (\<lambda>n a cs. ret ()),
      hGetConsensusParams = (\<lambda>w. \<lparr>cp_Block = Some \<lparr>cb_MaxBytes = 1, cb_MaxGas = 2\<rparr>,
        cp_Evidence = Some \<lparr>ce_MaxAgeNumBlocks = 3, ce_MaxAgeDuration = 4, ce_MaxBytes = 5\<rparr>, cp_rest = ()\<rparr>),
      hStoreConsensusParams = (\<lambda>cp w. w),
      hCoins = sample_coins,
      hNewCoins = (\<lambda>c. Ok [c]),
      hCoinString = coin_Denom,
      hCoinsString = (\<lambda>cs. concat (map coin_Denom cs)),
      hConvertWasmCoinsToSdkCoins = convertWasmCoinsToSdkCoins sample_coins,
      hModuleName = ''wasm'',
      hAttributeKeyAmount = ''amount'',
      hBaseappParamspace = ''baseapp'',
      hParamsRouterKey = ''params'',
      hRouterKey = ''wasm'',
      hLimits = \<lparr>MaxTitleLength = 140, MaxDescriptionLength = 10000\<rparr>,
      hJson = sample_json,
      hContentValidateBasic = (\<lambda>c. Ok ()),
      hContentRoute = (\<lambda>c. case c of ParameterChangeProposal t d cs \<Rightarrow> ''params'' | _ \<Rightarrow> ''wasm''),
      hHasRoute = (\<lambda>r. True),
      hGetRoute = (\<lambda>r c. ret ())\<rparr>"

lemma sample_handler_laws: "handler_laws sample_ext sample_handler"
  by (auto simp: handler_laws_def w_frame_def sample_handler_def ret_def intro: contract_effect.frame)

section \<open>Genesis\<close>

text \<open>
  A wasmd import that stores the extensions of the contracts, for contracts as this environment
  stores them and with different addresses.
\<close>

definition sample_import :: "(unit, unit) wasm_genesis \<Rightarrow> (sample_w tw_state, unit list) act" where
  "sample_import g s =
     (let entry = (\<lambda>c. (map (\<lambda>x. of_nat (of_char x)) (wt_ContractAddress c),
                      case ci_Extension (wt_ContractInfo c) of Some (u, bs) \<Rightarrow> bs | None \<Rightarrow> [])) in
      if list_all (\<lambda>c. wt_ContractAddress c \<noteq> [] \<and>
           wt_ContractInfo c = \<lparr>ci_CodeID = 1, ci_Admin = [], ci_Extension = Some (furyaExtType, snd (entry c))\<rparr>)
           (wg_Contracts g) \<and> distinct (map (fst \<circ> entry) (wg_Contracts g))
      then (Ok [], s\<lparr>tw_wasm := map entry (wg_Contracts g) @ tw_wasm s\<rparr>)
      else (fail WasmErrInvalidGenesis, s))"

definition sample_genesis_ext :: "(sample_w, unit, unit, unit) genesis_ext" where
  "sample_genesis_ext =
     \<lparr>gValidateBasic = (\<lambda>g. Ok ()), gGetAllCodes = (\<lambda>g. [1]),
      gGetAllContracts = (\<lambda>g. map wt_ContractAddress (wg_Contracts g)), gInitGenesis = sample_import,
      gExportGenesis = (\<lambda>s. \<lparr>wg_Params = (), wg_Codes = (), wg_Contracts =
        map (\<lambda>(a, bs). \<lparr>wt_ContractAddress = map (\<lambda>b. char_of (unat b)) a,
          wt_ContractInfo = \<lparr>ci_CodeID = 1, ci_Admin = [], ci_Extension = Some (furyaExtType, bs)\<rparr>,
          wt_ContractState = [()]\<rparr>) (tw_wasm s), wg_Sequences = (), wg_GenMsgs = ()\<rparr>)\<rparr>"

definition sample_contract :: "unit Contract" where
  "sample_contract =
     \<lparr>ct_ContractAddress = [CHR 0x07],
      ct_ContractInfo = \<lparr>ci_CodeID = 1, ci_Admin = [], ci_Extension = Some (furyaExtType, [1, 4, 2, 9])\<rparr>,
      ct_ContractState = KvModel []\<rparr>"

definition sample_genesis :: "(unit, unit) GenesisState" where
  "sample_genesis =
     \<lparr>gs_Params = (), gs_Codes = (), gs_Contracts = [sample_contract], gs_Sequences = (), gs_GenMsgs = (),
      gs_PrivilegedContractAddresses = [[CHR 0x07]], gs_PinnedCodeIDs = [1]\<rparr>"

text \<open>A contract of the genesis state that brings the validator set updater privilege.\<close>

definition updater_contract :: "char \<Rightarrow> byte \<Rightarrow> unit Contract" where
  "updater_contract c pos =
     sample_contract\<lparr>ct_ContractAddress := [c],
       ct_ContractInfo := \<lparr>ci_CodeID = 1, ci_Admin = [], ci_Extension = Some (furyaExtType, [3, pos])\<rparr>\<rparr>"

lemma sample_genesis_laws: "genesis_laws sample_ext sample_genesis_ext"
proof -
  have "tw_store s1 = [] \<and>
    (\<forall>c \<in> set (wg_Contracts g). \<exists>a. AccAddressFromBech32 sample_ext (wt_ContractAddress c) = Ok a \<and>
       wGetContractInfo sample_ext (tw_wasm s1) a = Some (wt_ContractInfo c)) \<and>
    (\<forall>a. privs_of sample_ext s1 a \<noteq> [] \<longrightarrow>
       (\<exists>c \<in> set (wg_Contracts g). AccAddressFromBech32 sample_ext (wt_ContractAddress c) = Ok a))"
    if "tw_store s = []" "\<forall>a. privs_of sample_ext s a = []" and imp: "sample_import g s = (Ok us, s1)" for g s us s1
  proof -
    define entry :: "unit wasm_contract \<Rightarrow> addr \<times> bytes" where
      "entry = (\<lambda>c. (map (\<lambda>x. of_nat (of_char x)) (wt_ContractAddress c),
         case ci_Extension (wt_ContractInfo c) of Some (u, bs) \<Rightarrow> bs | None \<Rightarrow> []))"
    have cs: "\<forall>c \<in> set (wg_Contracts g). wt_ContractAddress c \<noteq> [] \<and>
         wt_ContractInfo c = \<lparr>ci_CodeID = 1, ci_Admin = [], ci_Extension = Some (furyaExtType, snd (entry c))\<rparr>"
      and dist: "distinct (map fst (map entry (wg_Contracts g)))"
      and s1: "s1 = s\<lparr>tw_wasm := map entry (wg_Contracts g) @ tw_wasm s\<rparr>"
      using imp unfolding sample_import_def entry_def [symmetric] Let_def
      by (auto simp: list_all_iff fail_def split: if_splits)
    have acc: "AccAddressFromBech32 sample_ext (wt_ContractAddress c) = Ok (fst (entry c))" if "c \<in> set (wg_Contracts g)" for c
      using bspec [OF cs that] by (simp add: sample_ext_def entry_def)
    have stored: "map_of (tw_wasm s1) (fst (entry c)) = Some (snd (entry c))" if "c \<in> set (wg_Contracts g)" for c
      using that dist by (auto simp: s1 map_add_Some_iff intro: map_of_is_SomeI)
    have other: "\<exists>c \<in> set (wg_Contracts g). a = fst (entry c)" if "map_of (tw_wasm s1) a \<noteq> map_of (tw_wasm s) a" for a
      using that by (auto simp: s1 map_add_def split: option.splits dest!: map_of_SomeD) (metis fst_conv)
    show ?thesis
    proof (intro conjI ballI allI impI)
      show "tw_store s1 = []" using s1 that(1) by simp
    next
      fix c assume c: "c \<in> set (wg_Contracts g)"
      then show "\<exists>a. AccAddressFromBech32 sample_ext (wt_ContractAddress c) = Ok a \<and>
          wGetContractInfo sample_ext (tw_wasm s1) a = Some (wt_ContractInfo c)"
        using acc [OF c] stored [OF c] bspec [OF cs c] by (intro exI [of _ "fst (entry c)"]) (simp add: sample_ext_def)
    next
      fix a assume "privs_of sample_ext s1 a \<noteq> []"
      then have "map_of (tw_wasm s1) a \<noteq> map_of (tw_wasm s) a"
        using that(2) by (auto simp: w_privs_def sample_ext_def)
      then show "\<exists>c \<in> set (wg_Contracts g). AccAddressFromBech32 sample_ext (wt_ContractAddress c) = Ok a"
        using other acc by blast
    qed
  qed
  then show ?thesis unfolding genesis_laws_def by (simp add: sample_genesis_ext_def)
qed

section \<open>States\<close>

text \<open>An empty chain with one contract, its promotion, and the registrations it asks for.\<close>

definition sample_addr :: addr where "sample_addr = [7]"

definition sample0 :: "sample_w tw_state" where
  "sample0 = \<lparr>tw_store = [], tw_wasm = [(sample_addr, [])], tw_events = []\<rparr>"

definition asks :: "PrivilegeType \<Rightarrow> PrivilegeMsg" where
  "asks t = \<lparr>pm_Request = t, pm_Release = 0\<rparr>"

fun sample_register :: "PrivilegeType list \<Rightarrow> sample_w tw_state \<Rightarrow> sample_w tw_state" where
  "sample_register [] s = s"
| "sample_register (t # ts) s = sample_register ts (snd (handlePrivilege sample_ext sample_addr (asks t) s))"

definition sample1 :: "sample_w tw_state" where
  "sample1 = snd (SetPrivileged sample_ext sample_addr sample0)"

text \<open>The state after three registrations, without the events.\<close>

definition sample4 :: "sample_w tw_state" where
  "sample4 =
     \<lparr>tw_store = [([0xa0, 7], [1]), ([0xa1, 1, 1], [7]), ([0xa1, 2, 1], [7]), ([0xa1, 3, 1], [7])],
      tw_wasm = [([7], [1, 1, 2, 1, 3, 1]), ([7], [1, 1, 2, 1]), ([7], [1, 1]), ([7], [])],
      tw_events = []\<rparr>"

lemma sample0_inv: "tw_inv sample_ext sample0"
  by (rule init_inv) (simp_all add: sample0_def w_privs_def sample_ext_def)

lemma sample1_run: "SetPrivileged sample_ext sample_addr sample0 = (Ok (), sample1)"
  by code_simp

lemma sample1_inv: "tw_inv sample_ext sample1"
  by (rule SetPrivileged_inv [OF sample_laws sample_effects sample0_inv sample1_run])

lemma asks_inv:
  assumes "tw_inv sample_ext s" and "priv_msg_ok (asks t)"
    and "fst (handlePrivilege sample_ext sample_addr (asks t) s) = Ok ()"
  shows "tw_inv sample_ext (snd (handlePrivilege sample_ext sample_addr (asks t) s))"
  using handlePrivilege_keeps [OF sample_laws assms(1,2), of sample_addr] assms(3)
  by (metis prod.collapse)

lemma sample4_eq: "sample4 = (sample_register [1, 2, 3] sample1)\<lparr>tw_events := []\<rparr>"
  by code_simp

lemma sample4_inv: "tw_inv sample_ext sample4"
  unfolding sample4_eq sample_register.simps inv_events
  by (intro asks_inv sample1_inv; code_simp)

end
