(* ===== verification/TwasmProperties.thy ===== *)
theory TwasmProperties
  imports TwasmSample
begin

text \<open>
  The properties of the twasm module, each with a witness where it has hypotheses. The lemmas they
  rest on are in the theories of the components; the witnesses use the environment of
  \<open>TwasmSample\<close>.
\<close>

section \<open>Reachable states\<close>

text \<open>
  C1: In every reachable state of the module, that is after any sequence of promotions, demotions,
  messages and block callbacks from an empty chain or from an imported genesis state (with valid lists,
  no custom state to import and every singleton privilege given out at most once), the index of privileges and the privilege lists in
  the contract infos say the same: a contract is registered for a privilege type at a position
  exactly when its list has that entry; and every list passes \<open>PetriContractDetails.ValidateBasic\<close>.
\<close>

theorem reachable_index_agrees:
  assumes "wasm_laws X" and "sudo_effects X" and "handler_laws X H" and "genesis_laws X G"
    and "tw_reachable X G H fwd s"
  shows "(privilege_reg s t pos = Some a \<longleftrightarrow> (\<exists>r \<in> set (privs_of X s a). priv_type r = t \<and> priv_pos r = pos)) \<and>
    PetriContractDetails_ValidateBasic \<lparr>RegisteredPrivileges = slice_of (privs_of X s a)\<rparr> = Ok ()"
proof -
  have "agrees (privilege_reg s) (privs_of X s)" and "privs_ok (privs_of X s a)"
    using reachable_inv [OF assms] unfolding tw_inv_def by blast+
  then show ?thesis
    unfolding agrees_def PetriContractDetails_ValidateBasic_def by (simp only: validate_details_iff) simp
qed

lemma sample1_reachable: "tw_reachable sample_ext sample_genesis_ext sample_handler fwd sample1"
  by (rule tw_reachable.promote [OF tw_reachable.init sample1_run]) (simp_all add: sample0_def w_privs_def sample_ext_def)

definition ask_msg :: "string \<Rightarrow> json option option" where
  "ask_msg name = Some (Some (JObj [(''privilege'', JObj [(''request'', JStr name)])]))"

definition sample5 :: "sample_w tw_state" where
  "sample5 = \<lparr>tw_store = [([0xa0, 7], [1]), ([0xa1, 3, 1], [7])], tw_wasm = [([7], [3, 1]), ([7], [])], tw_events = []\<rparr>"

lemma sample5_run:
  "DispatchMsg sample_ext sample_handler sample_addr (ask_msg ''validator_set_updater'') sample1 =
     (Ok [Event ''register_privilege'' [(''_contract_address'', [CHR 0x07]), (''privilege_type'', ''validator_set_updater'')]],
      sample5\<lparr>tw_events := tw_events sample1\<rparr>)"
  by code_simp

lemma sample5_reachable: "tw_reachable sample_ext sample_genesis_ext sample_handler fwd sample5"
  by (rule tw_reachable.outside [OF tw_reachable.dispatch [OF sample1_reachable sample5_run]]) simp_all

theorem reachable_index_agrees_witness:
  "privilege_reg sample5 3 1 = Some [7] \<and> privilege_reg sample5 3 2 \<noteq> Some [7]"
proof -
  have "privs_of sample_ext sample5 [7] = [registered_as 3 1]" by code_simp
  moreover have "priv_type (registered_as 3 1) = 3 \<and> priv_pos (registered_as 3 1) = 1" by code_simp
  ultimately show ?thesis
    using reachable_index_agrees [OF sample_laws sample_effects sample_handler_laws sample_genesis_laws sample5_reachable, of 3 1 "[7]"]
      reachable_index_agrees [OF sample_laws sample_effects sample_handler_laws sample_genesis_laws sample5_reachable, of 3 2 "[7]"]
    by simp
qed

text \<open>
  C2: In every state reachable from an empty chain, or from an imported genesis state that gives out every
  singleton privilege at most once (with valid lists and no custom state), at most one contract is
  registered as validator set updater, and at one position only. The condition on the genesis state is
  needed: the import does not check it (\<open>import_accepts_two_updaters\<close>).
\<close>

theorem validator_set_updater_unique:
  assumes "wasm_laws X" and "sudo_effects X" and "handler_laws X H" and "genesis_laws X G"
    and "tw_reachable X G H fwd s"
    and "privilege_reg s PrivilegeTypeValidatorSetUpdate p = Some a"
    and "privilege_reg s PrivilegeTypeValidatorSetUpdate q = Some b"
  shows "a = b \<and> p = q"
proof -
  have "p = q" using reachable_inv [OF assms(1-5)] assms(6,7) unfolding tw_inv_def by (metis IsSingleton_iff option.distinct(1))
  with assms(6,7) show ?thesis by simp
qed

text \<open>A genesis state with one validator set updater, and the state after its import.\<close>

definition updater_genesis :: "(unit, unit) GenesisState" where
  "updater_genesis = sample_genesis\<lparr>gs_Contracts := [updater_contract (CHR 0x07) 4, sample_contract\<lparr>ct_ContractAddress := [CHR 0x08]\<rparr>]\<rparr>"

definition sample6 :: "sample_w tw_state" where
  "sample6 = snd (InitGenesis sample_ext sample_genesis_ext updater_genesis sample0)"

lemma updater_genesis_ok: "genesis_ok sample_ext updater_genesis"
proof -
  have "plain_contract sample_ext (updater_contract (CHR 0x07) 4)"
    "plain_contract sample_ext (sample_contract\<lparr>ct_ContractAddress := [CHR 0x08]\<rparr>)"
    by (simp_all add: plain_contract_def exports_custom_def readDetails_def sample_ext_def updater_contract_def
        sample_contract_def) (code_simp)+
  moreover have "IsSingleton t \<longrightarrow> length (filter (\<lambda>r. priv_type r = t)
      (concat (map (carried sample_ext) (gs_Contracts updater_genesis)))) \<le> 1" for t
    unfolding IsSingleton_iff by (rule impI) (simp, code_simp)
  ultimately show ?thesis by (simp add: genesis_ok_def updater_genesis_def sample_genesis_def)
qed

lemma sample6_reachable: "tw_reachable sample_ext sample_genesis_ext sample_handler fwd sample6"
proof -
  have "InitGenesis sample_ext sample_genesis_ext updater_genesis sample0 = (Ok [], sample6)" by code_simp
  then show ?thesis
    by (intro tw_reachable.genesis [OF _ _ updater_genesis_ok]) (simp_all add: sample0_def w_privs_def sample_ext_def)
qed

theorem validator_set_updater_unique_witness:
  "privilege_reg sample6 PrivilegeTypeValidatorSetUpdate 4 = Some [7] \<and>
   \<not> (\<exists>q b. privilege_reg sample6 PrivilegeTypeValidatorSetUpdate q = Some b \<and> (b, q) \<noteq> ([7], 4))"
proof -
  have r: "privilege_reg sample6 PrivilegeTypeValidatorSetUpdate 4 = Some [7]" by code_simp
  with validator_set_updater_unique
    [OF sample_laws sample_effects sample_handler_laws sample_genesis_laws sample6_reachable r] show ?thesis by blast
qed

section \<open>Messages of contracts\<close>

text \<open>
  C3: A message that needs a privilege the sender does not hold (or any message of a contract
  that is not privileged) returns an error or a panic and leaves the whole state as it was.
\<close>

theorem dispatch_needs_privilege:
  assumes "UnmarshalWithAny (hCoins H) (hJson H) bz = Ok p"
    and "\<not> IsPrivileged a s \<or> (\<exists>t. required_privilege p = Some t \<and> HasPrivilegedContract X a t s \<noteq> Ok True)"
  shows "snd (DispatchMsg X H a (Some bz) s) = s \<and> \<not> is_ok (fst (DispatchMsg X H a (Some bz) s))"
  using assms DispatchMsg_denied [OF assms(1), of _ X a s]
  by (auto simp: DispatchMsg_def fail_def)

definition mint_msg :: json where
  "mint_msg = JObj [(''mint_tokens'', JObj [(''denom'', JStr ''utgd''), (''amount'', JStr ''1''), (''recipient'', JStr ''a'')])]"

theorem dispatch_needs_privilege_witness:
  "snd (DispatchMsg sample_ext sample_handler sample_addr (Some (Some mint_msg)) sample5) = sample5"
proof -
  have p: "UnmarshalWithAny (hCoins sample_handler) (hJson sample_handler) (Some mint_msg) =
      Ok (emptyPetriMsg\<lparr>pm_MintTokens := Some \<lparr>mt_Denom = ''utgd'', mt_Amount = ''1'', mt_RecipientAddr = ''a''\<rparr>\<rparr>)"
    by code_simp
  have "required_privilege (emptyPetriMsg\<lparr>pm_MintTokens := Some \<lparr>mt_Denom = ''utgd'', mt_Amount = ''1'', mt_RecipientAddr = ''a''\<rparr>\<rparr>) =
      Some PrivilegeTypeTokenMinter"
    by code_simp
  moreover have "HasPrivilegedContract sample_ext sample_addr PrivilegeTypeTokenMinter sample5 \<noteq> Ok True" by code_simp
  ultimately show ?thesis using dispatch_needs_privilege [OF p, of sample_addr sample5 sample_ext] by blast
qed

text \<open>
  C4: A successful request for a privilege that the sender does not hold appends it to the list of the
  sender and to the index, at a position above all positions in use for that type; for a singleton type
  no position was in use. Nothing else changes in the lists and the index, and no contract's privileged
  flag changes. A successful request for a privilege that the sender holds already changes nothing.
\<close>

theorem request_registers:
  assumes "wasm_laws X" and "tw_inv X s" and "priv_msg_ok m" and "handlePrivilege X a m s = (Ok (), s')"
    and "pm_Release m = PrivilegeTypeEmpty"
  shows "if \<exists>r \<in> set (privs_of X s a). priv_type r = pm_Request m then s' = s
    else \<exists>pos. pos \<noteq> 0 \<and> (\<forall>q. privilege_reg s (pm_Request m) q \<noteq> None \<longrightarrow> q < pos) \<and>
      (IsSingleton (pm_Request m) \<longrightarrow> (\<forall>q. privilege_reg s (pm_Request m) q = None)) \<and>
      privs_of X s' = (privs_of X s)(a := privs_of X s a @ [registered_as (pm_Request m) pos]) \<and>
      privilege_reg s' = (privilege_reg s)(pm_Request m := (privilege_reg s (pm_Request m))(pos := Some a)) \<and>
      (\<forall>b. IsPrivileged b s' = IsPrivileged b s)"
  using assms(2,4)
proof (cases rule: handlePrivilege_cases)
  case request
  then have t: "PrivilegeType_ValidateBasic (pm_Request m) = Ok ()" using assms(3) by (simp add: priv_msg_ok_def)
  show ?thesis
    unfolding if_not_P [OF request(3)] by (rule register_effect [OF assms(1,2) t request(3,4)]) blast
qed (use assms in \<open>simp_all\<close>)

theorem request_registers_witness:
  "(\<exists>pos. privs_of sample_ext (snd (handlePrivilege sample_ext sample_addr (asks 7) sample4)) [7] =
     privs_of sample_ext sample4 [7] @ [registered_as 7 pos]) \<and>
   snd (handlePrivilege sample_ext sample_addr (asks 2) sample4) = sample4"
proof -
  have run: "handlePrivilege sample_ext sample_addr (asks 7) sample4 =
      (Ok (), snd (handlePrivilege sample_ext sample_addr (asks 7) sample4))"
    "handlePrivilege sample_ext sample_addr (asks 2) sample4 =
      (Ok (), snd (handlePrivilege sample_ext sample_addr (asks 2) sample4))"
    by code_simp+
  have msg: "priv_msg_ok (asks 7)" "priv_msg_ok (asks 2)" "pm_Release (asks 7) = PrivilegeTypeEmpty"
    "pm_Release (asks 2) = PrivilegeTypeEmpty"
    and free: "\<not> (\<exists>r \<in> set (privs_of sample_ext sample4 sample_addr). priv_type r = pm_Request (asks 7))"
    and held: "\<exists>r \<in> set (privs_of sample_ext sample4 sample_addr). priv_type r = pm_Request (asks 2)"
    by code_simp+
  note new = request_registers [OF sample_laws sample4_inv msg(1) run(1) msg(3), unfolded if_not_P [OF free]]
    and old = request_registers [OF sample_laws sample4_inv msg(2) run(2) msg(4), unfolded if_P [OF held]]
  from new old show ?thesis by (auto simp: asks_def sample_addr_def)
qed

text \<open>
  C5: A successful release removes the privilege from the list of the sender and from the index,
  and changes no other entry; the invariant of the keeper is kept.
\<close>

theorem release_removes:
  assumes "wasm_laws X" and "tw_inv X s" and "handlePrivilege X a m s = (Ok (), s')"
    and "pm_Release m \<noteq> PrivilegeTypeEmpty"
  shows "tw_inv X s' \<and>
    privs_of X s' = (privs_of X s)(a := filter (\<lambda>r. priv_type r \<noteq> pm_Release m) (privs_of X s a)) \<and>
    (\<forall>t pos. privilege_reg s' t pos =
      (if t = pm_Release m \<and> privilege_reg s t pos = Some a then None else privilege_reg s t pos))"
  using assms(2,3)
proof (cases rule: handlePrivilege_cases)
  case release
  then show ?thesis using unregister_effect [OF assms(1,2)] by (simp add: privilege_released_def)
qed (use assms(4) in \<open>simp_all\<close>)

theorem release_removes_witness:
  "privs_of sample_ext (snd (handlePrivilege sample_ext sample_addr \<lparr>pm_Request = 0, pm_Release = 2\<rparr> sample4)) [7] =
     [registered_as 1 1, registered_as 3 1]"
proof -
  let ?m = "\<lparr>pm_Request = 0, pm_Release = 2\<rparr>"
  have run: "handlePrivilege sample_ext sample_addr ?m sample4 =
      (Ok (), snd (handlePrivilege sample_ext sample_addr ?m sample4))"
    by code_simp
  have "filter (\<lambda>r. priv_type r \<noteq> 2) (privs_of sample_ext sample4 [7]) = [registered_as 1 1, registered_as 3 1]"
    by code_simp
  with release_removes [OF sample_laws sample4_inv run] show ?thesis
    by (simp add: PrivilegeTypeEmpty_def sample_addr_def)
qed

section \<open>Demotion\<close>

text \<open>
  What \<open>UnsetPrivileged\<close> does, completely, from the state that the contract's \<open>Demoted\<close>
  callback leaves: the flag is cleared; of the contract's list \<open>xs\<close> every second entry stays
  (\<open>survivors xs\<close>), in the list and in the index; the other contracts are not affected.
\<close>

lemma demotion_effect:
  assumes "wasm_laws X" and "wSudo X a demotedMsg s = (Ok bz, s1)" and "tw_inv X s1"
    and "UnsetPrivileged X a s = (Ok (), s')"
  shows "\<not> IsPrivileged a s' \<and>
    privs_of X s' = (privs_of X s1)(a := survivors (privs_of X s1 a)) \<and>
    length (survivors (privs_of X s1 a)) = (length (privs_of X s1 a) - 1) div 2 \<and>
    (\<forall>t pos. privilege_reg s' t pos = Some a \<longleftrightarrow>
      (\<exists>r \<in> set (survivors (privs_of X s1 a)). priv_type r = t \<and> priv_pos r = pos))"
proof -
  note eff = UnsetPrivileged_effect [OF assms]
  have "agrees (privilege_reg s') (privs_of X s')" using eff(1) unfolding tw_inv_def by blast
  then have "privilege_reg s' t pos = Some a \<longleftrightarrow>
      (\<exists>r \<in> set (survivors (privs_of X s1 a)). priv_type r = t \<and> priv_pos r = pos)" for t pos
    unfolding agrees_def eff(2) by (simp only: fun_upd_same)
  then show ?thesis using eff(2,3) length_survivors by blast
qed

lemma sample_demoted_run:
  "UnsetPrivileged sample_ext sample_addr sample4 = (Ok (), snd (UnsetPrivileged sample_ext sample_addr sample4))"
  by code_simp

lemma sample_demoted_sudo: "wSudo sample_ext sample_addr demotedMsg sample4 = (Ok [], sample4)"
  by code_simp

lemma demotion_effect_sample:
  "\<not> IsPrivileged sample_addr (snd (UnsetPrivileged sample_ext sample_addr sample4))"
  using demotion_effect [OF sample_laws sample_demoted_sudo sample4_inv sample_demoted_run] by blast

text \<open>
  C6: A contract that still holds three or more privileges when it is demoted stays registered:
  it is no longer privileged, but the index still names it for at least one privilege type.
\<close>

theorem demoted_contract_stays_registered:
  assumes "wasm_laws X" and "wSudo X a demotedMsg s = (Ok bz, s1)" and "tw_inv X s1"
    and "UnsetPrivileged X a s = (Ok (), s')" and "3 \<le> length (privs_of X s1 a)"
  shows "\<not> IsPrivileged a s' \<and> (\<exists>t pos. privilege_reg s' t pos = Some a)"
proof -
  note eff = UnsetPrivileged_effect [OF assms(1-4)]
  have "survivors (privs_of X s1 a) \<noteq> []" using assms(5) by (simp add: survivors_Nil_iff)
  then obtain r where r: "r \<in> set (survivors (privs_of X s1 a))" by (meson list.set_sel(1))
  have "agrees (privilege_reg s') (privs_of X s')" using eff(1) unfolding tw_inv_def by blast
  then have "privilege_reg s' (priv_type r) (priv_pos r) = Some a"
    using r unfolding agrees_def eff(2) by (metis fun_upd_same)
  then show ?thesis using eff(3) by blast
qed

theorem demoted_contract_stays_registered_witness:
  "\<exists>t pos. privilege_reg (snd (UnsetPrivileged sample_ext sample_addr sample4)) t pos = Some sample_addr"
proof -
  have "3 \<le> length (privs_of sample_ext sample4 sample_addr)" by code_simp
  from demoted_contract_stays_registered [OF sample_laws sample_demoted_sudo sample4_inv sample_demoted_run this]
  show ?thesis by blast
qed

section \<open>Block callbacks\<close>

text \<open>
  C7: \<open>EndBlocker\<close> never fails. It calls the contracts registered for the end of a block in the
  order of their positions; the writes of a contract whose call fails or panics are dropped, and
  the next contract is called on the state before it.
\<close>

theorem end_blocker_isolates:
  assumes "index_inv s"
  shows "EndBlocker X fwd s =
    (Ok [], fold (\<lambda>a s. let (r, s') = wSudo X a (emptySudoMsg\<lparr>sudo_EndBlock := Some ()\<rparr>) (s\<lparr>tw_events := []\<rparr>) in
        if is_ok r then s'\<lparr>tw_events := tw_events s @ fwd (tw_events s')\<rparr> else s)
      (contracts_of PrivilegeTypeEndBlock s) s)"
  by (simp add: EndBlocker_spec [OF assms] try_sudo_def [abs_def])

lemma sample4_index: "index_inv sample4"
  using sample4_inv by (rule inv_index)

theorem end_blocker_isolates_witness:
  "fst (EndBlocker sample_ext id sample4) = Ok ([] :: unit list)"
  by (simp add: end_blocker_isolates [OF sample4_index])

text \<open>
  C8: \<open>BeginBlocker\<close> panics, before any contract is called, exactly when an evidence of a known
  kind has a negative number; otherwise it never fails and calls the contracts in order.
\<close>

theorem begin_blocker_panics_iff:
  assumes "index_inv s"
  shows "((\<exists>e \<in> set es. known_evidence e \<and> \<not> evidence_nonneg e) \<and>
      BeginBlocker X fwd es s = (Panic ''must not be negative'', s)) \<or>
    (\<not> (\<exists>e \<in> set es. known_evidence e \<and> \<not> evidence_nonneg e) \<and>
      (\<exists>vs. collect_evidence es = Ok vs \<and> BeginBlocker X fwd es s =
        (Ok (), fold (try_sudo X fwd (emptySudoMsg\<lparr>sudo_BeginBlock := Some \<lparr>bb_Evidence = vs\<rparr>\<rparr>))
          (contracts_of PrivilegeTypeBeginBlock s) s)))"
proof (cases "\<exists>e \<in> set es. known_evidence e \<and> \<not> evidence_nonneg e")
  case True
  then show ?thesis by (simp add: BeginBlocker_spec [OF assms] collect_evidence_panics)
next
  case False
  then obtain vs where "collect_evidence es = Ok vs" using collect_evidence_ok by blast
  with False show ?thesis by (simp add: BeginBlocker_spec [OF assms])
qed

theorem begin_blocker_panics_iff_witness:
  "BeginBlocker sample_ext id [\<lparr>ae_Type = DUPLICATE_VOTE, ae_ValidatorAddress = [], ae_ValidatorPower = 1,
     ae_Height = - 1, ae_TimeUnix = 0, ae_TotalVotingPower = 1\<rparr>] sample4 = (Panic ''must not be negative'', sample4)"
  using begin_blocker_panics_iff [OF sample4_index, of "[\<lparr>ae_Type = DUPLICATE_VOTE, ae_ValidatorAddress = [],
    ae_ValidatorPower = 1, ae_Height = - 1, ae_TimeUnix = 0, ae_TotalVotingPower = 1\<rparr>]" sample_ext id]
  by (simp add: known_evidence_def evidence_nonneg_def)

text \<open>
  \<open>ExistsAnyPrivilegedContract\<close> answers whether a contract is registered at a position below
  255: the end of its range is exclusive, so the last position is not seen.
\<close>

lemma exists_any_below_255:
  assumes "index_inv s"
  shows "ExistsAnyPrivilegedContract t s \<longleftrightarrow> (\<exists>pos. pos < 255 \<and> privilege_reg s t pos \<noteq> None)"
proof -
  have keys: "(k, v) \<in> set (type_entries t s) \<longleftrightarrow> (\<exists>pos. k = [pos] \<and> privilege_reg s t pos = Some v)" for k v
    by (rule in_type_entries [OF assms])
  have "ExistsAnyPrivilegedContract t s \<longleftrightarrow> (\<exists>k v. (k, v) \<in> set (type_entries t s) \<and> [0] \<le> k \<and> k < [255])"
    by (auto simp: ExistsAnyPrivilegedContract_def kv_range_def filter_empty_conv) force
  also have "\<dots> \<longleftrightarrow> (\<exists>pos v. privilege_reg s t pos = Some v \<and> [0] \<le> [pos] \<and> [pos] < [255])"
    by (simp only: keys) blast
  also have "\<dots> \<longleftrightarrow> (\<exists>pos. pos < 255 \<and> privilege_reg s t pos \<noteq> None)"
    by (auto simp: word_gt_0)
  finally show ?thesis .
qed

lemma exists_any_below_255_sample: "ExistsAnyPrivilegedContract 3 sample4"
proof -
  have "privilege_reg sample4 3 1 = Some [7]" by code_simp
  then show ?thesis using exists_any_below_255 [OF sample4_index, of 3] by force
qed

section \<open>Governance and parameters\<close>

text \<open>
  A parameter change proposal that names the restricted subspace in any of its changes is
  never executed: the call fails and the state stays as it was.
\<close>

lemma baseapp_params_refused:
  assumes "GetProposalContent X exec a = Some (ParameterChangeProposal title desc changes)"
    and "hContentRoute H (ParameterChangeProposal title desc changes) = hParamsRouterKey H"
    and "c \<in> set changes" and "pc_Subspace c = hBaseappParamspace H"
  shows "snd (handleGovProposalExecution X H a exec s) = s \<and>
    \<not> is_ok (fst (handleGovProposalExecution X H a exec s))"
  using assms by (intro gov_baseapp_refused)

lemma baseapp_params_refused_sample:
  "\<not> is_ok (fst (handleGovProposalExecution sample_ext sample_handler sample_addr
     \<lparr>eg_Title = ''t'', eg_Description = ''d'', eg_Proposal = emptyContent\<lparr>ChangeParams :=
       Some [\<lparr>pc_Subspace = ''gov'', pc_Key = ''k'', pc_Value = ''v''\<rparr>,
             \<lparr>pc_Subspace = ''baseapp'', pc_Key = ''k'', pc_Value = ''v''\<rparr>]\<rparr>\<rparr> sample4))"
proof -
  let ?cs = "[\<lparr>pc_Subspace = ''gov'', pc_Key = ''k'', pc_Value = ''v''\<rparr>,
      \<lparr>pc_Subspace = ''baseapp'', pc_Key = ''k'', pc_Value = ''v''\<rparr>]"
  have "GetProposalContent sample_ext \<lparr>eg_Title = ''t'', eg_Description = ''d'', eg_Proposal =
      emptyContent\<lparr>ChangeParams := Some ?cs\<rparr>\<rparr> sample_addr = Some (ParameterChangeProposal ''t'' ''d'' ?cs)"
    by (simp add: GetProposalContent_def emptyContent_def)
  then show ?thesis
    by (rule baseapp_params_refused [where c = "\<lparr>pc_Subspace = ''baseapp'', pc_Key = ''k'', pc_Value = ''v''\<rparr>", THEN conjunct2])
      (simp_all add: sample_handler_def)
qed

text \<open>
  C9: The update of the consensus parameters sets exactly the fields the message names and keeps
  the others; a maximum evidence age given in seconds is stored in nanoseconds, exactly when it is
  at most 9223372036 seconds.
\<close>

theorem consensus_update_spec:
  "mergeConsensusParamsUpdate \<lparr>cp_Block = Some b, cp_Evidence = Some e, cp_rest = r\<rparr> d =
     Ok \<lparr>cp_Block = Some
           \<lparr>cb_MaxBytes = override (cb_MaxBytes b) (Option.bind (cu_Block d) bp_MaxBytes),
            cb_MaxGas = override (cb_MaxGas b) (Option.bind (cu_Block d) bp_MaxGas)\<rparr>,
         cp_Evidence = Some
           \<lparr>ce_MaxAgeNumBlocks = override (ce_MaxAgeNumBlocks e) (Option.bind (cu_Evidence d) ep_MaxAgeNumBlocks),
            ce_MaxAgeDuration = override (ce_MaxAgeDuration e)
              (map_option (\<lambda>x. if - 9223372036 \<le> x \<and> x \<le> 9223372036 then x * 1000000000
                               else to_int64 (x * 1000000000))
                (Option.bind (cu_Evidence d) ep_MaxAgeDuration)),
            ce_MaxBytes = override (ce_MaxBytes e) (Option.bind (cu_Evidence d) ep_MaxBytes)\<rparr>,
         cp_rest = r\<rparr>"
proof -
  have "(\<lambda>x. to_int64 (x * 1000000000)) =
      (\<lambda>x. if - 9223372036 \<le> x \<and> x \<le> 9223372036 then x * 1000000000 else to_int64 (x * 1000000000))"
    using duration_exact by (auto simp: fun_eq_iff abs_le_iff)
  then show ?thesis by (simp only: merge_spec merged_block_def merged_evidence_def)
qed

text \<open>
  A proposal in JSON that has one of the four fields with a custom decoder is decoded to the
  first of them in the order of their names, and holds no other content.
\<close>

lemma custom_proposal_exclusive:
  assumes "dec_raw_map b = Ok raws"
    and "find (\<lambda>f. raws f \<noteq> None)
      [''ibc_client_update'', ''instantiate_contract'', ''migrate_contract'', ''register_upgrade''] = Some field"
    and "GovProposal_UnmarshalJSON C J b p = Ok c"
  shows "only_content field c"
  using assms by (intro GovProposal_custom) (simp_all add: custom_names_def)

lemma custom_proposal_exclusive_sample:
  "\<exists>c. GovProposal_UnmarshalJSON sample_coins sample_json
     (JObj [(''register_upgrade'', JObj [(''name'', JStr ''v2''), (''height'', JInt 7)]), (''text'', JNull)]) emptyContent = Ok c \<and>
     only_content ''register_upgrade'' c"
proof -
  let ?b = "JObj [(''register_upgrade'', JObj [(''name'', JStr ''v2''), (''height'', JInt 7)]), (''text'', JNull)]"
  have raws: "dec_raw_map ?b = Ok [''text'' \<mapsto> JNull, ''register_upgrade'' \<mapsto> JObj [(''name'', JStr ''v2''), (''height'', JInt 7)]]"
    by (simp add: dec_raw_map_def fun_upd_twist)
  have "GovProposal_UnmarshalJSON sample_coins sample_json ?b emptyContent =
      Ok (emptyContent\<lparr>RegisterUpgrade := Some \<lparr>pl_Name = ''v2'', pl_Height = 7, pl_Info = [],
        pl_UpgradedClientState = None, pl_rest = ()\<rparr>\<rparr>)"
    by code_simp
  with custom_proposal_exclusive [OF raws _ this, of "''register_upgrade''"] show ?thesis by simp
qed

section \<open>Names, lists and genesis\<close>

text \<open>
  A privilege type is valid exactly when its JSON form decodes back to it, whatever the
  variable held before; and a name is found exactly when it is the name of the type.
\<close>

lemma privilege_name_roundtrip:
  "(PrivilegeType_ValidateBasic t = Ok () \<longleftrightarrow>
      (\<exists>j. PrivilegeType_MarshalJSON t = Ok (Some j) \<and> PrivilegeType_UnmarshalJSON j u = Ok t)) \<and>
   (PrivilegeTypeFrom name = Some t \<longleftrightarrow> name \<noteq> [] \<and> PrivilegeType_String t = name)"
proof
  have zero: "PrivilegeType_ValidateBasic 0 \<noteq> Ok ()" by code_simp
  have "PrivilegeType_String t \<noteq> []" if "PrivilegeType_ValidateBasic t = Ok ()"
    using that registered_nonempty PrivilegeType_String_registered by (auto simp: ValidateBasic_registered)
  then show "PrivilegeType_ValidateBasic t = Ok () \<longleftrightarrow>
      (\<exists>j. PrivilegeType_MarshalJSON t = Ok (Some j) \<and> PrivilegeType_UnmarshalJSON j u = Ok t)"
    using zero From_of_String [of t]
    by (auto simp: PrivilegeType_MarshalJSON_def PrivilegeType_UnmarshalJSON_def dec_string_def bind_res_Ok_iff
        split: if_splits)
  show "PrivilegeTypeFrom name = Some t \<longleftrightarrow> name \<noteq> [] \<and> PrivilegeType_String t = name"
    using String_nonempty [of t] String_of_From [of name t] registered_nonempty [of t name]
    by (auto simp: PrivilegeTypeFrom_iff)
qed

text \<open>
  The details of a contract are valid exactly when every position is between 1 and 255,
  every privilege type has a registered name and no type occurs twice.
\<close>

lemma contract_details_valid_iff:
  "PetriContractDetails_ValidateBasic d = Ok () \<longleftrightarrow>
     (\<forall>r \<in> set (slice_list (RegisteredPrivileges d)).
        0 < rp_Position r \<and> rp_Position r \<le> 255 \<and> PrivilegeTypeFrom (rp_PrivilegeType r) \<noteq> None) \<and>
     distinct (map rp_PrivilegeType (slice_list (RegisteredPrivileges d)))"
  by (simp add: PetriContractDetails_ValidateBasic_def validate_details_iff privs_ok_def priv_ok_def)

lemma contract_details_valid_iff_sample:
  "PetriContractDetails_ValidateBasic \<lparr>RegisteredPrivileges = slice_of [registered_as 1 4, registered_as 2 4]\<rparr> = Ok ()"
  by (rule contract_details_valid_iff [THEN iffD2]) code_simp

text \<open>
  On a valid list \<open>RemoveRegisteredPrivilege\<close> removes the entry it is given, if it is there,
  and keeps the order of the others. (On a list with the entry twice it panics.)
\<close>

lemma remove_registered_privilege:
  assumes "privs_ok xs"
  shows "\<exists>sl. RemoveRegisteredPrivilege \<lparr>RegisteredPrivileges = slice_of xs\<rparr> t pos = Ok \<lparr>RegisteredPrivileges = sl\<rparr> \<and>
    slice_list sl = filter (\<lambda>r. r \<noteq> registered_as t pos) xs"
proof (cases "registered_as t pos \<in> set xs")
  case False
  then have "remove_loop (registered_as t pos) 0 (slen (slice_of xs)) (slice_of xs) = Ok (slice_of xs)"
    by (intro remove_loop_not_in) (simp_all add: slice_ok_def slice_of_def slice_list_def)
  moreover have "filter (\<lambda>r. r \<noteq> registered_as t pos) xs = xs" using False by (auto simp: filter_id_conv)
  ultimately show ?thesis by (simp add: RemoveRegisteredPrivilege_def)
next
  case True
  have dist: "distinct xs" using assms by (rule privs_ok_distinct)
  obtain j where j: "j < length xs" "xs ! j = registered_as t pos" using True by (auto simp: in_set_conv_nth)
  have "remove_loop (registered_as t pos) 0 (slen (slice_of xs)) (slice_of xs) = Ok (slice_cut (slice_of xs) j)"
    using dist j by (intro remove_loop_at) (simp_all add: slice_ok_def slice_of_def slice_list_def)
  moreover have "slice_list (slice_cut (slice_of xs) j) = take j xs @ drop (Suc j) xs"
    using j by (subst slice_list_cut) (simp_all add: slice_ok_def slice_of_def slice_list_def)
  moreover have "take j xs @ drop (Suc j) xs = remove1 (registered_as t pos) xs"
    using j dist by (metis append_Nil2 distinct_append id_take_nth_drop list.set_intros(1) remove1.simps(2)
        remove1_append disjoint_iff)
  moreover have "remove1 (registered_as t pos) xs = filter (\<lambda>r. r \<noteq> registered_as t pos) xs"
    using dist by (metis (mono_tags, lifting) distinct_remove1_removeAll removeAll_filter_not_eq filter_cong)
  ultimately show ?thesis by (simp add: RemoveRegisteredPrivilege_def)
qed

lemma remove_registered_privilege_sample:
  "\<exists>sl. RemoveRegisteredPrivilege \<lparr>RegisteredPrivileges = slice_of [registered_as 1 4, registered_as 2 4]\<rparr> 1 4 =
     Ok \<lparr>RegisteredPrivileges = sl\<rparr> \<and> slice_list sl = [registered_as 2 4]"
proof -
  have "privs_ok [registered_as 1 4, registered_as 2 4]"
    "filter (\<lambda>r. r \<noteq> registered_as 1 4) [registered_as 1 4, registered_as 2 4] = [registered_as 2 4]"
    by code_simp+
  with remove_registered_privilege [of "[registered_as 1 4, registered_as 2 4]" 1 4] show ?thesis by simp
qed

lemma remove_duplicate_panics:
  "RemoveRegisteredPrivilege \<lparr>RegisteredPrivileges = slice_of [registered_as 1 4, registered_as 1 4]\<rparr> 1 4 =
     Panic ''slice bounds out of range''"
  by code_simp

text \<open>
  A genesis state is valid exactly when its wasm part is, every extension has the type of the
  contract details, the privileged addresses are well formed, unique and contracts of the genesis
  state, and the pinned code ids are unique and codes of the genesis state.
\<close>

lemma genesis_valid_iff:
  "GenesisState_ValidateBasic X G g = Ok () \<longleftrightarrow>
     gValidateBasic G (RawWasmState g) = Ok () \<and>
     (\<forall>c \<in> set (gs_Contracts g). \<forall>u v. ci_Extension (ct_ContractInfo c) = Some (u, v) \<longrightarrow> u = furyaExtType) \<and>
     (\<forall>a \<in> set (gs_PrivilegedContractAddresses g). is_ok (AccAddressFromBech32 X a)) \<and>
     distinct (gs_PrivilegedContractAddresses g) \<and> distinct (gs_PinnedCodeIDs g) \<and>
     set (gs_PinnedCodeIDs g) \<subseteq> set (gGetAllCodes G (RawWasmState g)) \<and>
     set (gs_PrivilegedContractAddresses g) \<subseteq> set (gGetAllContracts G (RawWasmState g))"
  by (rule GenesisState_ValidateBasic_iff)

lemma genesis_valid_iff_sample:
  "GenesisState_ValidateBasic sample_ext sample_genesis_ext sample_genesis = Ok ()"
  using genesis_valid_iff [of sample_ext sample_genesis_ext sample_genesis]
  by (simp add: sample_genesis_ext_def sample_genesis_def sample_ext_def sample_contract_def RawWasmState_def raw_contract_def)

text \<open>
  C10: Importing the contracts of a genesis state rebuilds the index from the privilege lists they
  carry: afterwards the index names a contract for a type and a position exactly when it did
  before or one of the contracts brings this entry. (For contracts whose lists are valid and that
  have no custom state to import.)
\<close>

theorem import_rebuilds_index:
  assumes "wasm_laws X" and "index_inv s" and "\<forall>m \<in> set cs. plain_contract X m"
    and "for_each (import_contract X) cs s = (Ok (), s')"
  shows "privilege_reg s' t pos = Some b \<longleftrightarrow>
    privilege_reg s t pos = Some b \<or>
    (\<exists>m \<in> set cs. \<exists>rs. wReadExtension X (ct_ContractInfo m) = Ok rs \<and>
       AccAddressFromBech32 X (ct_ContractAddress m) = Ok b \<and>
       (\<exists>r \<in> set rs. priv_type r = t \<and> priv_pos r = pos))"
  using import_contracts_effect [OF assms, of t pos b] unfolding brings_def by blast

theorem import_rebuilds_index_witness:
  "privilege_reg (snd (for_each (import_contract sample_ext) [sample_contract] sample0)) 2 9 = Some [7]"
proof -
  have run: "for_each (import_contract sample_ext) [sample_contract] sample0 =
      (Ok (), snd (for_each (import_contract sample_ext) [sample_contract] sample0))"
    by code_simp
  have rs: "wReadExtension sample_ext (ct_ContractInfo sample_contract) = Ok [registered_as 1 4, registered_as 2 9]"
    and a: "AccAddressFromBech32 sample_ext (ct_ContractAddress sample_contract) = Ok [7]"
    by code_simp+
  have "privs_ok [registered_as 1 4, registered_as 2 9]"
    and "\<not> HasRegisteredPrivilege \<lparr>RegisteredPrivileges = slice_of [registered_as 1 4, registered_as 2 9]\<rparr>
      PrivilegeStateExporterImporter"
    and r: "priv_type (registered_as 2 9) = 2 \<and> priv_pos (registered_as 2 9) = 9"
    by code_simp+
  then have plain: "\<forall>m \<in> set [sample_contract]. plain_contract sample_ext m"
    by (simp add: plain_contract_def exports_custom_def readDetails_def rs)
  have "index_inv sample0" using sample0_inv by (rule inv_index)
  from import_rebuilds_index [OF sample_laws this plain run, of 2 9 "[7]"] rs a r show ?thesis by simp
qed

text \<open>
  C12: The wasm part of an exported genesis state is wasmd's own export, except that contracts
  with the exporter privilege carry no key-value state.
\<close>

theorem export_keeps_wasm_state:
  assumes "ExportGenesis X G s = (Ok g, s')"
  shows "RawWasmState g = (gExportGenesis G s)\<lparr>wg_Contracts :=
      map (\<lambda>v. if exports_custom X (wt_ContractInfo v) then v\<lparr>wt_ContractState := []\<rparr> else v)
        (wg_Contracts (gExportGenesis G s))\<rparr>"
  using assms by (rule ExportGenesis_raw)

theorem export_keeps_wasm_state_witness:
  "\<exists>g. fst (ExportGenesis sample_ext sample_genesis_ext sample0) = Ok g \<and>
     map wt_ContractState (wg_Contracts (RawWasmState g)) = [[()]]"
proof -
  obtain g where g: "ExportGenesis sample_ext sample_genesis_ext sample0 = (Ok g, sample0)"
    by (simp add: ExportGenesis_def export_contract_def sample_genesis_ext_def sample0_def sample_addr_def
        readDetails_def sample_ext_def or_panic_def lift_res_def bindS_def ret_def HasRegisteredPrivilege_def Let_def)
  have "\<not> exports_custom sample_ext \<lparr>ci_CodeID = 1, ci_Admin = [], ci_Extension = Some (furyaExtType, [])\<rparr>"
    by (simp add: exports_custom_def readDetails_def sample_ext_def HasRegisteredPrivilege_def)
  with export_keeps_wasm_state [OF g] g show ?thesis
    by (simp add: sample_genesis_ext_def sample0_def)
qed

text \<open>
  The import does not look at singletons: two contracts that both bring the validator set
  updater privilege, at different positions, are both registered.
\<close>

lemma import_accepts_two_updaters:
  "(let r = for_each (import_contract sample_ext) [updater_contract (CHR 0x07) 1, updater_contract (CHR 0x08) 2] sample0 in
    fst r = Ok () \<and> privilege_reg (snd r) PrivilegeTypeValidatorSetUpdate 1 = Some [7] \<and>
    privilege_reg (snd r) PrivilegeTypeValidatorSetUpdate 2 = Some [8])"
  by code_simp

end
