(* ===== verification/GlobalFee.thy ===== *)
theory GlobalFee
  imports Complex_Main Coins "HOL-Library.Char_ord"
begin

text \<open>
  \<open>x/globalfee\<close>: the ante decorator that enforces a minimum fee for every transaction, the
  parameter it reads, its query and its genesis. The decimal and coin types of the SDK are the
  record \<open>fee_ext\<close> with \<open>'d\<close> for \<open>sdk.Dec\<close>; \<open>fee_laws\<close> states the documented behaviour that
  the theorem uses, with \<open>val\<close> for the number a decimal stands for.
\<close>

section \<open>Environment\<close>

record 'd dec_coin =
  dc_Denom :: string
  dc_Amount :: 'd

record 'd fee_ext =
  NewDec :: "int \<Rightarrow> 'd"
  Dec_Mul :: "'d \<Rightarrow> 'd \<Rightarrow> 'd res"
  Dec_Ceil :: "'d \<Rightarrow> 'd"
  Dec_RoundInt :: "'d \<Rightarrow> int"
  NewCoin :: "string \<Rightarrow> int \<Rightarrow> coin res"
  DecCoins_IsZero :: "'d dec_coin list \<Rightarrow> bool"
  DecCoins_Validate :: "'d dec_coin list \<Rightarrow> unit res"
  Coins_IsAnyGTE :: "coin list \<Rightarrow> coin list \<Rightarrow> bool res"
  ValidateDenom :: "string \<Rightarrow> bool"

text \<open>A transaction is a \<open>FeeTx\<close> with gas limit and fee, or any other transaction (\<open>None\<close>).\<close>

record fee_tx =
  tx_Gas :: uint64
  tx_Fee :: "coin list"

record 'd gf_Params =
  MinimumGasPrices :: "'d dec_coin list"

text \<open>The parameter subspace: the stored parameter, if it was set.\<close>

type_synonym 'd param_source = "'d dec_coin list option"

section \<open>The decorator\<close>

fun required_fees :: "'d fee_ext \<Rightarrow> 'd \<Rightarrow> 'd dec_coin list \<Rightarrow> coin list res" where
  "required_fees F glDec [] = Ok []"
| "required_fees F glDec (gp # gps) =
     bind_res (Dec_Mul F (dc_Amount gp) glDec) (\<lambda>fee.
     let amount = Dec_RoundInt F (Dec_Ceil F fee) in
     bind_res (NewCoin F (dc_Denom gp) amount) (\<lambda>c.
     bind_res (required_fees F glDec gps) (\<lambda>cs. Ok (c # cs))))"

definition GlobalFee_AnteHandle ::
    "'d fee_ext \<Rightarrow> 'd param_source \<Rightarrow> fee_tx option \<Rightarrow> bool \<Rightarrow> 'c res \<Rightarrow> 'c res" where
  "GlobalFee_AnteHandle F paramSource tx simulate next =
     (if \<not> simulate \<and> paramSource \<noteq> None then
        (case tx of
           None \<Rightarrow> failw SdkErrTxDecode ''tx must be a sdk FeeTx''
         | Some feeTx \<Rightarrow>
             (let minGasPrices = the paramSource in
              if \<not> DecCoins_IsZero F minGasPrices then
                bind_res (required_fees F (NewDec F (int64_of_uint64 (tx_Gas feeTx))) minGasPrices) (\<lambda>requiredFees.
                bind_res (Coins_IsAnyGTE F (tx_Fee feeTx) requiredFees) (\<lambda>anyGTE.
                  if \<not> anyGTE then failw SdkErrInsufficientFee ''got: %s required: %s''
                  else next))
              else next))
      else next)"

section \<open>Parameters, query and genesis\<close>

datatype 'd param_value = DecCoinsValue "'d dec_coin list" | OtherValue

definition validateMinimumGasPrices :: "'d fee_ext \<Rightarrow> 'd param_value \<Rightarrow> unit res" where
  "validateMinimumGasPrices F i =
     (case i of
        DecCoinsValue v \<Rightarrow> DecCoins_Validate F v
      | OtherValue \<Rightarrow> failw WasmErrInvalid ''type: %T'')"

definition gf_Params_ValidateBasic :: "'d fee_ext \<Rightarrow> 'd gf_Params \<Rightarrow> unit res" where
  "gf_Params_ValidateBasic F p = validateMinimumGasPrices F (DecCoinsValue (MinimumGasPrices p))"

definition gf_DefaultParams :: "'d gf_Params" where
  "gf_DefaultParams = \<lparr>MinimumGasPrices = []\<rparr>"

definition QueryMinimumGasPrices :: "'d param_source \<Rightarrow> 'd dec_coin list" where
  "QueryMinimumGasPrices paramSource = (case paramSource of Some v \<Rightarrow> v | None \<Rightarrow> [])"

text \<open>The genesis message is given by the state it decodes to, or the decoding error.\<close>

definition gf_ValidateGenesis :: "'d fee_ext \<Rightarrow> 'd gf_Params res \<Rightarrow> unit res" where
  "gf_ValidateGenesis F message = bind_res message (\<lambda>data. wrap_res ''params'' (gf_Params_ValidateBasic F data))"

text \<open>\<open>SetParamSet\<close> panics on a value that does not pass its validation function.\<close>

definition gf_InitGenesis :: "'d fee_ext \<Rightarrow> 'd gf_Params res \<Rightarrow> ('d param_source, unit) act" where
  "gf_InitGenesis F message s =
     (case message of
        Ok data \<Rightarrow>
          (if is_ok (gf_Params_ValidateBasic F data) then (Ok (), Some (MinimumGasPrices data))
           else (Panic ''value from ParamSetPair is invalid'', s))
      | Err e \<Rightarrow> (Panic ''MustUnmarshalJSON'', s)
      | Panic p \<Rightarrow> (Panic p, s))"

definition gf_ExportGenesis :: "'d param_source \<Rightarrow> 'd gf_Params res" where
  "gf_ExportGenesis s = (case s of Some v \<Rightarrow> Ok \<lparr>MinimumGasPrices = v\<rparr> | None \<Rightarrow> Panic ''UnmarshalJSON'')"

section \<open>What the decorator enforces\<close>

text \<open>
  A set of coins as the SDK documents it: strictly sorted by denomination, with valid denominations and
  positive amounts.
\<close>

definition coin_set :: "'d fee_ext \<Rightarrow> coin list \<Rightarrow> bool" where
  "coin_set F cs \<longleftrightarrow>
     sorted_wrt (<) (map coin_Denom cs) \<and> (\<forall>c \<in> set cs. ValidateDenom F (coin_Denom c) \<and> 0 < coin_Amount c)"

text \<open>
  \<open>IsAnyGTE\<close> is specified on sets of coins only; on another list its answer is open, and it may panic
  (as it does on an invalid denomination). Prices that pass \<open>DecCoins.Validate\<close> are sorted and positive.
\<close>

definition fee_laws :: "('d \<Rightarrow> rat) \<Rightarrow> 'd fee_ext \<Rightarrow> bool" where
  "fee_laws val F \<longleftrightarrow>
     (\<forall>n. val (NewDec F n) = of_int n) \<and>
     (\<forall>x n y. Dec_Mul F x (NewDec F n) = Ok y \<longrightarrow> val y = val x * of_int n) \<and>
     (\<forall>x. Dec_RoundInt F (Dec_Ceil F x) = \<lceil>val x\<rceil>) \<and>
     (\<forall>d n c. NewCoin F d n = Ok c \<longrightarrow> 0 \<le> n \<and> c = \<lparr>coin_Denom = d, coin_Amount = n\<rparr>) \<and>
     (\<forall>gps. DecCoins_Validate F gps = Ok () \<longrightarrow>
        sorted_wrt (<) (map dc_Denom gps) \<and> (\<forall>gp \<in> set gps. ValidateDenom F (dc_Denom gp) \<and> 0 < val (dc_Amount gp))) \<and>
     (\<forall>a b. coin_set F a \<longrightarrow> coin_set F b \<longrightarrow> Coins_IsAnyGTE F a b =
        Ok (\<exists>c \<in> set a. \<exists>d \<in> set b. coin_Denom c = coin_Denom d \<and> coin_Amount d \<le> coin_Amount c))"

lemma required_fees_ok:
  assumes "fee_laws val F" and "required_fees F (NewDec F n) gps = Ok cs"
  shows "cs = map (\<lambda>gp. \<lparr>coin_Denom = dc_Denom gp, coin_Amount = \<lceil>val (dc_Amount gp) * of_int n\<rceil>\<rparr>) gps"
  using assms(2)
proof (induction gps arbitrary: cs)
  case (Cons gp gps)
  then obtain fee c rest where "Dec_Mul F (dc_Amount gp) (NewDec F n) = Ok fee"
    "NewCoin F (dc_Denom gp) (Dec_RoundInt F (Dec_Ceil F fee)) = Ok c"
    "required_fees F (NewDec F n) gps = Ok rest" "cs = c # rest"
    by (auto simp: bind_res_Ok_iff Let_def)
  then show ?case using Cons.IH assms(1) by (simp add: fee_laws_def)
qed simp

text \<open>The required fees of valid prices are a set of coins.\<close>

lemma required_fees_set:
  assumes laws: "fee_laws val F" and valid: "DecCoins_Validate F gps = Ok ()" and "0 < n"
    and req: "required_fees F (NewDec F n) gps = Ok cs"
  shows "coin_set F cs"
proof -
  have gps: "sorted_wrt (<) (map dc_Denom gps)" "\<forall>gp \<in> set gps. ValidateDenom F (dc_Denom gp) \<and> 0 < val (dc_Amount gp)"
    using laws valid by (simp_all add: fee_laws_def)
  have "0 < val (dc_Amount gp) * of_int n" if "gp \<in> set gps" for gp using gps(2) that assms(3) by simp
  with gps show ?thesis by (simp add: required_fees_ok [OF laws req] coin_set_def comp_def)
qed

definition covers :: "('d \<Rightarrow> rat) \<Rightarrow> 'd dec_coin list \<Rightarrow> fee_tx \<Rightarrow> bool" where
  "covers val gps feeTx \<longleftrightarrow>
     (\<exists>c \<in> set (tx_Fee feeTx). \<exists>gp \<in> set gps.
        coin_Denom c = dc_Denom gp \<and>
        \<lceil>val (dc_Amount gp) * of_int (uint (tx_Gas feeTx))\<rceil> \<le> coin_Amount c)"

lemma IsAnyGTE_covers:
  assumes laws: "fee_laws val F" and valid: "DecCoins_Validate F gps = Ok ()" and gas: "0 < uint (tx_Gas feeTx)"
    and req: "required_fees F (NewDec F (uint (tx_Gas feeTx))) gps = Ok req" and fee: "coin_set F (tx_Fee feeTx)"
  shows "Coins_IsAnyGTE F (tx_Fee feeTx) req = Ok (covers val gps feeTx)"
proof -
  have "coin_set F req" by (rule required_fees_set [OF laws valid gas req])
  with laws fee have "Coins_IsAnyGTE F (tx_Fee feeTx) req =
      Ok (\<exists>c \<in> set (tx_Fee feeTx). \<exists>d \<in> set req. coin_Denom c = coin_Denom d \<and> coin_Amount d \<le> coin_Amount c)"
    unfolding fee_laws_def by blast
  then show ?thesis by (simp add: required_fees_ok [OF laws req] covers_def)
qed

text \<open>
  C13: Outside of a simulation, with valid minimum prices that are not zero, a transaction whose fee is a
  set of coins (sorted, with valid denominations and positive amounts), whose gas limit is positive and
  below \<open>2 ^ 63\<close>, and whose required fees can be computed reaches the next handler exactly when its fee
  covers the rounded up price of its gas in at least one denomination; otherwise it is refused with
  \<open>ErrInsufficientFee\<close>. When the comparison panics, on a fee that is not a set of coins, so does the
  decorator, and the next handler is not reached.
\<close>

theorem global_fee_enforced:
  assumes laws: "fee_laws val F" and valid: "DecCoins_Validate F gps = Ok ()" and prices: "\<not> DecCoins_IsZero F gps"
    and gas: "0 < uint (tx_Gas feeTx)" "uint (tx_Gas feeTx) < 2 ^ 63"
    and req: "required_fees F (NewDec F (uint (tx_Gas feeTx))) gps = Ok req"
  shows "(coin_set F (tx_Fee feeTx) \<longrightarrow> GlobalFee_AnteHandle F (Some gps) (Some feeTx) False next =
      (if covers val gps feeTx then next else failw SdkErrInsufficientFee ''got: %s required: %s'')) \<and>
    (Coins_IsAnyGTE F (tx_Fee feeTx) req = Panic p \<longrightarrow>
      GlobalFee_AnteHandle F (Some gps) (Some feeTx) False next = Panic p)"
  using prices req IsAnyGTE_covers [OF laws valid gas(1) req]
  by (simp add: GlobalFee_AnteHandle_def int64_of_uint64_small [OF gas(2)])

text \<open>A concrete environment: decimals are rational numbers.\<close>

definition sample_fees :: "rat fee_ext" where
  "sample_fees =
     \<lparr>NewDec = of_int, Dec_Mul = (\<lambda>x y. Ok (x * y)), Dec_Ceil = (\<lambda>x. of_int \<lceil>x\<rceil>), Dec_RoundInt = floor,
      NewCoin = (\<lambda>d n. if n < 0 then Panic ''negative coin amount'' else Ok \<lparr>coin_Denom = d, coin_Amount = n\<rparr>),
      DecCoins_IsZero = (\<lambda>cs. \<forall>c \<in> set cs. dc_Amount c = 0),
      DecCoins_Validate = (\<lambda>cs. if sorted_wrt (<) (map dc_Denom cs) \<and> (\<forall>c \<in> set cs. dc_Denom c \<noteq> [] \<and> 0 < dc_Amount c)
        then Ok () else fail (PlainErr ''invalid prices'')),
      Coins_IsAnyGTE = (\<lambda>a b. if \<exists>c \<in> set a. coin_Denom c = [] then Panic ''invalid denom''
        else Ok (\<exists>c \<in> set a. \<exists>d \<in> set b. coin_Denom c = coin_Denom d \<and> coin_Amount d \<le> coin_Amount c)),
      ValidateDenom = (\<lambda>d. d \<noteq> [])\<rparr>"

lemma sample_fee_laws: "fee_laws (\<lambda>x. x) sample_fees"
  by (auto simp: fee_laws_def sample_fees_def coin_set_def fail_def split: if_splits)

theorem global_fee_enforced_witness:
  "GlobalFee_AnteHandle sample_fees (Some [\<lparr>dc_Denom = ''alx'', dc_Amount = 1 / 4\<rparr>])
     (Some \<lparr>tx_Gas = 5, tx_Fee = [\<lparr>coin_Denom = ''alx'', coin_Amount = 2\<rparr>]\<rparr>) False (Ok ()) = Ok () \<and>
   GlobalFee_AnteHandle sample_fees (Some [\<lparr>dc_Denom = ''alx'', dc_Amount = 1 / 4\<rparr>])
     (Some \<lparr>tx_Gas = 5, tx_Fee = [\<lparr>coin_Denom = [], coin_Amount = 2\<rparr>]\<rparr>) False (Ok ()) = Panic ''invalid denom''"
proof -
  let ?gps = "[\<lparr>dc_Denom = ''alx'', dc_Amount = 1 / 4 :: rat\<rparr>]"
  let ?tx = "\<lambda>d. \<lparr>tx_Gas = 5, tx_Fee = [\<lparr>coin_Denom = d, coin_Amount = 2\<rparr>]\<rparr>"
  have c: "\<lceil>(5 / 4 :: rat)\<rceil> = 2" by (simp add: ceiling_eq_iff)
  have hyps: "DecCoins_Validate sample_fees ?gps = Ok ()" "\<not> DecCoins_IsZero sample_fees ?gps"
    "0 < uint (tx_Gas (?tx d))" "uint (tx_Gas (?tx d)) < 2 ^ 63"
    "required_fees sample_fees (NewDec sample_fees (uint (tx_Gas (?tx d)))) ?gps = Ok [\<lparr>coin_Denom = ''alx'', coin_Amount = 2\<rparr>]" for d
    by (simp_all add: sample_fees_def c)
  have "coin_set sample_fees (tx_Fee (?tx ''alx''))" "covers (\<lambda>x. x) ?gps (?tx ''alx'')"
    "Coins_IsAnyGTE sample_fees (tx_Fee (?tx [])) [\<lparr>coin_Denom = ''alx'', coin_Amount = 2\<rparr>] = Panic ''invalid denom''"
    by (simp_all add: coin_set_def sample_fees_def covers_def c)
  then show ?thesis
    using global_fee_enforced [OF sample_fee_laws hyps, of "''alx''" "Ok ()"]
      global_fee_enforced [OF sample_fee_laws hyps, of "[]" "Ok ()" "''invalid denom''"] by simp
qed

text \<open>A valid genesis state of the module is stored and exported again unchanged.\<close>

lemma global_fee_genesis_roundtrip:
  assumes "gf_ValidateGenesis F (Ok p) = Ok ()"
  shows "gf_ExportGenesis (snd (gf_InitGenesis F (Ok p) s)) = Ok p \<and> fst (gf_InitGenesis F (Ok p) s) = Ok ()"
  using assms by (simp add: gf_ValidateGenesis_def gf_InitGenesis_def gf_ExportGenesis_def)

end
