(* ===== verification/GoStrings.thy ===== *)
theory GoStrings
  imports Prelude "HOL-Library.Char_ord"
begin

text \<open>
  Strings and numerals of Go's standard library: \<open>strconv.FormatInt\<close>, \<open>strconv.ParseInt\<close>
  and the conversion between strings and byte slices.
\<close>

section \<open>Decimal numerals\<close>

text \<open>\<open>strconv.FormatInt(i, 10)\<close>.\<close>

fun format_nat :: "nat \<Rightarrow> string" where
  "format_nat n = (if n < 10 then [] else format_nat (n div 10)) @ [char_of (48 + n mod 10)]"

declare format_nat.simps [simp del]

definition format_int :: "int \<Rightarrow> string" where
  "format_int i = (if i < 0 then CHR ''-'' # format_nat (nat (- i)) else format_nat (nat i))"

text \<open>A byte slice of a string.\<close>

definition string_bytes :: "string \<Rightarrow> bytes" where
  "string_bytes s = map of_char s"

definition bytes_string :: "bytes \<Rightarrow> string" where
  "bytes_string b = map (\<lambda>w. char_of (unat w)) b"

definition read_nat :: "string \<Rightarrow> nat" where
  "read_nat s = foldl (\<lambda>n c. 10 * n + (of_char c - 48)) 0 s"

lemma digit_of_char: "d < 10 \<Longrightarrow> of_char (char_of (48 + d :: nat)) - (48 :: nat) = d"
  by simp

lemma read_format_nat: "read_nat (format_nat n) = n"
proof (induction n rule: format_nat.induct)
  case (1 n)
  show ?case
  proof (cases "n < 10")
    case True
    then show ?thesis by (subst format_nat.simps) (simp add: read_nat_def)
  next
    case False
    with 1 have "read_nat (format_nat (n div 10)) = n div 10" by simp
    with False show ?thesis by (subst format_nat.simps) (simp add: read_nat_def)
  qed
qed

lemma format_nat_inj: "format_nat m = format_nat n \<longleftrightarrow> m = n"
  by (metis read_format_nat)

lemma hd_format_nat: "\<exists>d xs. d < 10 \<and> format_nat n = char_of (48 + d :: nat) # xs"
proof (induction n rule: format_nat.induct)
  case (1 n)
  show ?case
  proof (cases "n < 10")
    case True
    then show ?thesis by (subst format_nat.simps) auto
  next
    case False
    with 1 show ?thesis by (subst format_nat.simps) (auto intro: exI)
  qed
qed

lemma format_nat_no_minus: "format_nat n \<noteq> CHR ''-'' # xs"
proof
  assume "format_nat n = CHR ''-'' # xs"
  then obtain d where "d < 10" "CHR ''-'' = char_of (48 + d :: nat)"
    using hd_format_nat [of n] by auto
  then have "of_char (CHR ''-'') = (48 + d :: nat)" by simp
  then show False by simp
qed

lemma format_int_inj: "format_int i = format_int j \<longleftrightarrow> i = j"
  using format_nat_no_minus [symmetric] format_nat_no_minus
  by (auto simp: format_int_def format_nat_inj split: if_splits)

lemma unat_of_char_byte [simp]: "unat (of_char c :: byte) = of_char c"
proof -
  have "unat (of_nat (of_char c) :: byte) = of_char c mod 2 ^ LENGTH(8)" by (rule unat_of_nat)
  then show ?thesis by (simp add: of_nat_of_char)
qed

lemma of_char_byte_inj: "(of_char c :: byte) = of_char d \<longleftrightarrow> c = d"
  by (metis unat_of_char_byte of_char_eq_iff)

lemma string_bytes_inj: "string_bytes s = string_bytes t \<longleftrightarrow> s = t"
  unfolding string_bytes_def
  by (rule inj_map_eq_map) (simp add: inj_def of_char_byte_inj)

lemma bytes_string_inverse [simp]: "bytes_string (string_bytes s) = s"
  by (simp add: bytes_string_def string_bytes_def map_idI)

lemma string_bytes_inverse: "string_bytes (bytes_string b) = b"
proof -
  have "(of_char (char_of (unat w)) :: 8 word) = w" for w :: "8 word"
  proof -
    have "unat w < 2 ^ LENGTH(8)" by (rule unsigned_less)
    then have lt: "unat w < 256" by simp
    have "(of_char (char_of (unat w)) :: 8 word) = of_nat (of_char (char_of (unat w)))" by (simp only: of_nat_of_char)
    also have "\<dots> = of_nat (unat w mod 256)" by (simp only: of_char_of)
    also have "\<dots> = of_nat (unat w)" using lt by simp
    also have "\<dots> = w" by simp
    finally show ?thesis .
  qed
  then show ?thesis by (simp add: string_bytes_def bytes_string_def map_idI)
qed

section \<open>Parsing\<close>

text \<open>
  \<open>strconv.ParseInt(s, 10, 64)\<close>: an optional sign, then one or more digits; a number outside
  of the range of \<open>int64\<close> is an error.
\<close>

definition is_digit :: "char \<Rightarrow> bool" where
  "is_digit c \<longleftrightarrow> 48 \<le> (of_char c :: nat) \<and> (of_char c :: nat) \<le> 57"

definition parse_digits :: "string \<Rightarrow> nat option" where
  "parse_digits s = (if s \<noteq> [] \<and> list_all is_digit s then Some (read_nat s) else None)"

definition parse_int :: "string \<Rightarrow> int res" where
  "parse_int s =
     (let (neg, ds) = (case s of
            c # cs \<Rightarrow> if c = CHR ''-'' then (True, cs) else if c = CHR ''+'' then (False, cs) else (False, s)
          | [] \<Rightarrow> (False, s)) in
      case parse_digits ds of
        None \<Rightarrow> Err (Sentinel (PlainErr ''invalid syntax''))
      | Some n \<Rightarrow>
          (let i = (if neg then - int n else int n) in
           if in_int64 i then Ok i else Err (Sentinel (PlainErr ''value out of range''))))"

lemma list_all_format_nat: "list_all is_digit (format_nat n)"
proof (induction n rule: format_nat.induct)
  case (1 n)
  have "is_digit (char_of (48 + n mod 10))"
  proof -
    have "n mod 10 < 10" by simp
    then show ?thesis by (simp add: is_digit_def)
  qed
  with 1 show ?case by (subst format_nat.simps) auto
qed

lemma format_nat_not_Nil: "format_nat n \<noteq> []"
  by (subst format_nat.simps) simp

lemma parse_digits_format: "parse_digits (format_nat n) = Some n"
  by (simp add: parse_digits_def list_all_format_nat format_nat_not_Nil read_format_nat)

lemma parse_int_format: "in_int64 i \<Longrightarrow> parse_int (format_int i) = Ok i"
proof (cases "i < 0")
  case True
  assume "in_int64 i"
  with True show ?thesis by (simp add: parse_int_def format_int_def parse_digits_format)
next
  case False
  assume i: "in_int64 i"
  obtain c cs where c: "format_nat (nat i) = c # cs" "is_digit c"
    using list_all_format_nat [of "nat i"] format_nat_not_Nil [of "nat i"]
    by (cases "format_nat (nat i)") auto
  then have "c \<noteq> CHR ''-''" "c \<noteq> CHR ''+''" by (auto simp: is_digit_def)
  with c False i parse_digits_format [of "nat i"] show ?thesis
    by (simp add: parse_int_def format_int_def)
qed

lemma parse_int_range: "parse_int s = Ok i \<Longrightarrow> in_int64 i"
  by (auto simp: parse_int_def Let_def split: option.splits if_splits list.splits)

end
