(* ===== verification/PoETypes.thy ===== *)
theory PoETypes
  imports Coins GoStrings "HOL-Library.Multiset"
begin

text \<open>
  \<open>x/poe/types\<close> without the genesis state: the kinds of PoE contracts, the parameters of the
  module and its messages. The coins and addresses of the SDK are the record \<open>sdk_ops\<close>, an argument
  of the operations that use them; \<open>sdk_laws\<close> states the documented behaviour that theorems rely on.
\<close>

section \<open>Environment\<close>

text \<open>
  A coin of a message: \<open>sdk.Int\<close> is a pointer that is nil when the encoded field is empty.
\<close>

record msg_coin =
  mc_Denom :: string
  mc_Amount :: "int option"

record sdk_ops =
  sAccAddressFromBech32 :: "string \<Rightarrow> addr res"
  sAddrString :: "addr \<Rightarrow> string"
  Coin_IsNil :: "msg_coin \<Rightarrow> bool"
  Coin_IsValid :: "msg_coin \<Rightarrow> bool res"
  Coin_IsZero :: "msg_coin \<Rightarrow> bool res"
  Coin_Add :: "msg_coin \<Rightarrow> msg_coin \<Rightarrow> msg_coin res"
  Coin_IsNegative :: "msg_coin \<Rightarrow> bool res"
  Coin_String :: "msg_coin \<Rightarrow> string"
  Int_IsPositive :: "int option \<Rightarrow> bool res"
  Int_Add :: "int option \<Rightarrow> int option \<Rightarrow> int option res"
  Int_LTE :: "int option \<Rightarrow> int option \<Rightarrow> bool res"
  Int_IsInt64 :: "int option \<Rightarrow> bool res"
  Int_Uint64 :: "int option \<Rightarrow> uint64 res"
  Int_String :: "int option \<Rightarrow> string"
  NewCoins :: "msg_coin list \<Rightarrow> coin list res"
  Coins_IsAllGTE :: "coin list \<Rightarrow> coin list \<Rightarrow> bool"
  Coins_Validate :: "coin list \<Rightarrow> unit res"
  ValidateDenom :: "string \<Rightarrow> unit res"
  DoNotModifyDesc :: string

text \<open>
  A coin is valid when its denomination is and its amount is not negative; adding panics for
  different denominations and for sums out of the range of \<open>sdk.Int\<close>.
\<close>

definition coin_valid :: "sdk_ops \<Rightarrow> msg_coin \<Rightarrow> bool" where
  "coin_valid K c \<longleftrightarrow> ValidateDenom K (mc_Denom c) = Ok () \<and> (\<exists>n. mc_Amount c = Some n \<and> 0 \<le> n)"

definition sdk_laws :: "sdk_ops \<Rightarrow> bool" where
  "sdk_laws K \<longleftrightarrow>
     (\<forall>c. Coin_IsNil K c \<longleftrightarrow> mc_Amount c = None) \<and>
     (\<forall>c. Coin_IsValid K c = Ok True \<longleftrightarrow> coin_valid K c) \<and>
     (\<forall>c n. mc_Amount c = Some n \<longrightarrow> (\<exists>b. Coin_IsValid K c = Ok b)) \<and>
     (\<forall>c n. mc_Amount c = Some n \<longrightarrow> Coin_IsZero K c = Ok (n = 0)) \<and>
     (\<forall>a b. mc_Denom a \<noteq> mc_Denom b \<longrightarrow> (\<exists>p. Coin_Add K a b = Panic p)) \<and>
     (\<forall>a b m n. mc_Denom a = mc_Denom b \<longrightarrow> mc_Amount a = Some m \<longrightarrow> mc_Amount b = Some n \<longrightarrow>
        Coin_Add K a b = Ok \<lparr>mc_Denom = mc_Denom a, mc_Amount = Some (m + n)\<rparr> \<or>
        (2 ^ 256 \<le> m + n \<and> (\<exists>p. Coin_Add K a b = Panic p))) \<and>
     (\<forall>n. Int_IsPositive K (Some n) = Ok (0 < n)) \<and>
     (\<forall>m n. \<bar>m + n\<bar> < 2 ^ 255 \<longrightarrow> Int_Add K (Some m) (Some n) = Ok (Some (m + n))) \<and>
     (\<forall>m n. Int_LTE K (Some m) (Some n) = Ok (m \<le> n)) \<and>
     (\<forall>c n. mc_Amount c = Some n \<longrightarrow> Coin_IsNegative K c = Ok (n < 0)) \<and>
     (\<forall>n. Int_IsInt64 K (Some n) = Ok (in_int64 n)) \<and>
     (\<forall>n. 0 \<le> n \<longrightarrow> n < 2 ^ 64 \<longrightarrow> Int_Uint64 K (Some n) = Ok (word_of_int n))"

section \<open>Kinds of PoE contracts\<close>

type_synonym PoEContractType = int

definition PoEContractTypeUndefined :: PoEContractType where
  "PoEContractTypeUndefined = 0"

definition PoEContractTypeStaking :: PoEContractType where
  "PoEContractTypeStaking = 1"

definition PoEContractTypeValset :: PoEContractType where
  "PoEContractTypeValset = 2"

definition PoEContractTypeEngagement :: PoEContractType where
  "PoEContractTypeEngagement = 3"

definition PoEContractTypeMixer :: PoEContractType where
  "PoEContractTypeMixer = 4"

definition PoEContractTypeDistribution :: PoEContractType where
  "PoEContractTypeDistribution = 5"

definition PoEContractTypeOversightCommunity :: PoEContractType where
  "PoEContractTypeOversightCommunity = 6"

definition PoEContractTypeOversightCommunityGovProposals :: PoEContractType where
  "PoEContractTypeOversightCommunityGovProposals = 7"

definition PoEContractTypeCommunityPool :: PoEContractType where
  "PoEContractTypeCommunityPool = 8"

definition PoEContractTypeValidatorVoting :: PoEContractType where
  "PoEContractTypeValidatorVoting = 9"

definition PoEContractTypeArbiterPool :: PoEContractType where
  "PoEContractTypeArbiterPool = 10"

definition PoEContractTypeArbiterPoolVoting :: PoEContractType where
  "PoEContractTypeArbiterPoolVoting = 11"

lemmas poe_type_defs =
  PoEContractTypeUndefined_def
  PoEContractTypeStaking_def
  PoEContractTypeValset_def
  PoEContractTypeEngagement_def
  PoEContractTypeMixer_def
  PoEContractTypeDistribution_def
  PoEContractTypeOversightCommunity_def
  PoEContractTypeOversightCommunityGovProposals_def
  PoEContractTypeCommunityPool_def
  PoEContractTypeValidatorVoting_def
  PoEContractTypeArbiterPool_def
  PoEContractTypeArbiterPoolVoting_def

text \<open>The two maps that the protobuf compiler generates for the enumeration.\<close>

definition PoEContractType_name :: "(int \<times> string) list" where
  "PoEContractType_name =
     [(0, ''UNDEFINED''),
      (1, ''STAKING''),
      (2, ''VALSET''),
      (3, ''ENGAGEMENT''),
      (4, ''MIXER''),
      (5, ''DISTRIBUTION''),
      (6, ''OVERSIGHT_COMMUNITY''),
      (7, ''OVERSIGHT_COMMUNITY_PROPOSALS''),
      (8, ''COMMUNITY_POOL''),
      (9, ''VALIDATOR_VOTING''),
      (10, ''ARBITER_POOL''),
      (11, ''ARBITER_POOL_VOTING'')]"

definition PoEContractType_value :: "(string \<times> int) list" where
  "PoEContractType_value =
     [(''UNDEFINED'', 0),
      (''STAKING'', 1),
      (''VALSET'', 2),
      (''ENGAGEMENT'', 3),
      (''MIXER'', 4),
      (''DISTRIBUTION'', 5),
      (''OVERSIGHT_COMMUNITY'', 6),
      (''OVERSIGHT_COMMUNITY_PROPOSALS'', 7),
      (''COMMUNITY_POOL'', 8),
      (''VALIDATOR_VOTING'', 9),
      (''ARBITER_POOL'', 10),
      (''ARBITER_POOL_VOTING'', 11)]"

text \<open>\<open>proto.EnumName\<close>: the name or, without one, the number.\<close>

definition PoEContractType_String :: "PoEContractType \<Rightarrow> string" where
  "PoEContractType_String t =
     (case map_of PoEContractType_name t of Some n \<Rightarrow> n | None \<Rightarrow> format_int t)"

definition PoEContractType_ValidateBasic :: "PoEContractType \<Rightarrow> unit res" where
  "PoEContractType_ValidateBasic t =
     (if t = PoEContractTypeUndefined then fail WasmErrInvalid
      else if map_of PoEContractType_name t = None then fail WasmErrNotFound
      else Ok ())"

definition PoEContractTypeFrom :: "string \<Rightarrow> PoEContractType" where
  "PoEContractTypeFrom s =
     (case map_of PoEContractType_value s of None \<Rightarrow> PoEContractTypeUndefined | Some v \<Rightarrow> v)"

text \<open>
  The loop over the map visits its entries in an order that Go leaves open: it is the argument
  \<open>order\<close>, some arrangement of the entries. The callback is a call on a state that returns whether
  to stop.
\<close>

definition collect_names :: "(int \<times> string) list \<Rightarrow> string list" where
  "collect_names order = filter (\<lambda>v. v \<noteq> PoEContractType_String PoEContractTypeUndefined) (map snd order)"

fun call_types :: "string list \<Rightarrow> (PoEContractType \<Rightarrow> ('s, bool) act) \<Rightarrow> ('s, unit) act" where
  "call_types [] cb = ret ()"
| "call_types (v # names) cb =
     bindS (cb (PoEContractTypeFrom v)) (\<lambda>stop. if stop then ret () else call_types names cb)"

definition IteratePoEContractTypes ::
    "(int \<times> string) list \<Rightarrow> (PoEContractType \<Rightarrow> ('s, bool) act) \<Rightarrow> ('s, unit) act" where
  "IteratePoEContractTypes order cb = call_types (sort (collect_names order)) cb"

section \<open>Parameters\<close>

record poe_Params =
  HistoricalEntries :: uint32
  InitialValEngagementPoints :: uint64
  MinDelegationAmounts :: "coin list"

definition DefaultHistoricalEntries :: uint32 where
  "DefaultHistoricalEntries = 10000"

definition DefaultInitialValidatorEngagementPoints :: uint64 where
  "DefaultInitialValidatorEngagementPoints = 1"

definition NewParams :: "uint32 \<Rightarrow> uint64 \<Rightarrow> coin list \<Rightarrow> poe_Params" where
  "NewParams historicalEntries engagementPoints minAmounts =
     \<lparr>HistoricalEntries = historicalEntries, InitialValEngagementPoints = engagementPoints,
      MinDelegationAmounts = minAmounts\<rparr>"

definition poe_DefaultParams :: poe_Params where
  "poe_DefaultParams = NewParams DefaultHistoricalEntries DefaultInitialValidatorEngagementPoints []"

text \<open>A value of type \<open>interface{}\<close> by its dynamic type.\<close>

datatype poe_param = Uint32Param uint32 | Uint64Param uint64 | CoinsParam "coin list" | OtherParam

definition validateUint64 :: "poe_param \<Rightarrow> unit res" where
  "validateUint64 i =
     (case i of Uint64Param _ \<Rightarrow> Ok () | _ \<Rightarrow> fail (PlainErr ''invalid parameter type: %T''))"

definition validateUint32 :: "poe_param \<Rightarrow> unit res" where
  "validateUint32 i =
     (case i of Uint32Param _ \<Rightarrow> Ok () | _ \<Rightarrow> fail (PlainErr ''invalid parameter type: %T''))"

definition validateSDKCoins :: "sdk_ops \<Rightarrow> poe_param \<Rightarrow> unit res" where
  "validateSDKCoins K i =
     (case i of CoinsParam c \<Rightarrow> Coins_Validate K c | _ \<Rightarrow> fail (PlainErr ''invalid parameter type: %T''))"

definition KeyHistoricalEntries :: string where
  "KeyHistoricalEntries = ''HistoricalEntries''"

definition KeyInitialValEngagementPoints :: string where
  "KeyInitialValEngagementPoints = ''InitialValidatorEngagementPoints''"

definition KeyMinDelegationAmounts :: string where
  "KeyMinDelegationAmounts = ''MinDelegationAmounts''"

definition ParamSetPairs :: "sdk_ops \<Rightarrow> poe_Params \<Rightarrow> (string \<times> poe_param \<times> (poe_param \<Rightarrow> unit res)) list" where
  "ParamSetPairs K p =
     [(KeyHistoricalEntries, Uint32Param (HistoricalEntries p), validateUint32),
      (KeyInitialValEngagementPoints, Uint64Param (InitialValEngagementPoints p), validateUint64),
      (KeyMinDelegationAmounts, CoinsParam (MinDelegationAmounts p), validateSDKCoins K)]"

definition Params_Validate :: "sdk_ops \<Rightarrow> poe_Params \<Rightarrow> unit res" where
  "Params_Validate K p = wrap_res ''min delegation amounts'' (Coins_Validate K (MinDelegationAmounts p))"

section \<open>Messages\<close>

record Description =
  Moniker :: string
  Identity :: string
  Website :: string
  SecurityContact :: string
  Details :: string

definition emptyDescription :: Description where
  "emptyDescription = \<lparr>Moniker = [], Identity = [], Website = [], SecurityContact = [], Details = []\<rparr>"

definition RouterKey :: string where
  "RouterKey = ''poe''"

text \<open>\<open>'a\<close> is the protobuf \<open>Any\<close> that holds the public key; the field is a pointer.\<close>

record 'a MsgCreateValidator =
  cv_Description :: Description
  cv_OperatorAddress :: string
  cv_Pubkey :: "'a option"
  cv_Amount :: msg_coin
  cv_VestingAmount :: msg_coin

record MsgUpdateValidator =
  uv_Description :: Description
  uv_OperatorAddress :: string

record MsgDelegate =
  de_OperatorAddress :: string
  de_Amount :: msg_coin
  de_VestingAmount :: msg_coin

record MsgUndelegate =
  un_OperatorAddress :: string
  un_Amount :: msg_coin

text \<open>\<open>newAny\<close> is \<open>codectypes.NewAnyWithValue\<close>.\<close>

definition NewMsgCreateValidator ::
    "sdk_ops \<Rightarrow> ('k \<Rightarrow> 'a res) \<Rightarrow> addr \<Rightarrow> 'k option \<Rightarrow> msg_coin \<Rightarrow> msg_coin \<Rightarrow> Description \<Rightarrow> 'a MsgCreateValidator res" where
  "NewMsgCreateValidator K newAny valAddr pubKey selfDelegationLiquid selfDelegationVesting description =
     bind_res (case pubKey of None \<Rightarrow> Ok None | Some k \<Rightarrow> bind_res (newAny k) (\<lambda>a. Ok (Some a))) (\<lambda>pkAny.
     Ok \<lparr>cv_Description = description, cv_OperatorAddress = sAddrString K valAddr, cv_Pubkey = pkAny,
         cv_Amount = selfDelegationLiquid, cv_VestingAmount = selfDelegationVesting\<rparr>)"

definition NewMsgUpdateValidator :: "sdk_ops \<Rightarrow> addr \<Rightarrow> Description \<Rightarrow> MsgUpdateValidator" where
  "NewMsgUpdateValidator K valAddr description =
     \<lparr>uv_Description = description, uv_OperatorAddress = sAddrString K valAddr\<rparr>"

definition NewMsgDelegate :: "sdk_ops \<Rightarrow> addr \<Rightarrow> msg_coin \<Rightarrow> msg_coin \<Rightarrow> MsgDelegate" where
  "NewMsgDelegate K delAddr amount vestingAmount =
     \<lparr>de_OperatorAddress = sAddrString K delAddr, de_Amount = amount, de_VestingAmount = vestingAmount\<rparr>"

definition NewMsgUndelegate :: "sdk_ops \<Rightarrow> addr \<Rightarrow> msg_coin \<Rightarrow> MsgUndelegate" where
  "NewMsgUndelegate K delAddr amount =
     \<lparr>un_OperatorAddress = sAddrString K delAddr, un_Amount = amount\<rparr>"

definition signer_of :: "sdk_ops \<Rightarrow> string \<Rightarrow> addr list res" where
  "signer_of K s = (case sAccAddressFromBech32 K s of Ok a \<Rightarrow> Ok [a] | Err e \<Rightarrow> Panic ''err'' | Panic p \<Rightarrow> Panic p)"

definition MsgCreateValidator_GetSigners :: "sdk_ops \<Rightarrow> 'a MsgCreateValidator \<Rightarrow> addr list res" where
  "MsgCreateValidator_GetSigners K msg = signer_of K (cv_OperatorAddress msg)"

definition MsgUpdateValidator_GetSigners :: "sdk_ops \<Rightarrow> MsgUpdateValidator \<Rightarrow> addr list res" where
  "MsgUpdateValidator_GetSigners K msg = signer_of K (uv_OperatorAddress msg)"

definition MsgDelegate_GetSigners :: "sdk_ops \<Rightarrow> MsgDelegate \<Rightarrow> addr list res" where
  "MsgDelegate_GetSigners K msg = signer_of K (de_OperatorAddress msg)"

definition MsgUndelegate_GetSigners :: "sdk_ops \<Rightarrow> MsgUndelegate \<Rightarrow> addr list res" where
  "MsgUndelegate_GetSigners K msg = signer_of K (un_OperatorAddress msg)"

text \<open>\<open>coin.IsNil() || !coin.IsValid()\<close>.\<close>

definition nil_or_invalid :: "sdk_ops \<Rightarrow> msg_coin \<Rightarrow> bool res" where
  "nil_or_invalid K c =
     (if Coin_IsNil K c then Ok True else bind_res (Coin_IsValid K c) (\<lambda>v. Ok (\<not> v)))"

definition MsgCreateValidator_ValidateBasic :: "sdk_ops \<Rightarrow> 'a MsgCreateValidator \<Rightarrow> unit res" where
  "MsgCreateValidator_ValidateBasic K msg =
     bind_res (sAccAddressFromBech32 K (cv_OperatorAddress msg)) (\<lambda>delAddr.
     if delAddr = [] then fail StakingErrEmptyDelegatorAddr
     else if cv_Pubkey msg = None then fail StakingErrEmptyValidatorPubKey
     else bind_res (nil_or_invalid K (cv_Amount msg)) (\<lambda>bad.
     if bad then failw SdkErrInvalidRequest ''delegation liquid amount''
     else bind_res (nil_or_invalid K (cv_VestingAmount msg)) (\<lambda>bad.
     if bad then failw SdkErrInvalidRequest ''delegation vesting amount''
     else bind_res (Coin_Add K (cv_Amount msg) (cv_VestingAmount msg)) (\<lambda>sum.
     bind_res (Coin_IsZero K sum) (\<lambda>zero.
     if zero then failw SdkErrInvalidRequest ''empty delegation amounts''
     else if cv_Description msg = emptyDescription then failw SdkErrInvalidRequest ''empty description''
     else if length (Moniker (cv_Description msg)) < 3
     then failw SdkErrInvalidRequest ''moniker must be at least 3 characters''
     else Ok ())))))"

definition MsgUpdateValidator_ValidateBasic :: "sdk_ops \<Rightarrow> MsgUpdateValidator \<Rightarrow> unit res" where
  "MsgUpdateValidator_ValidateBasic K msg =
     bind_res (sAccAddressFromBech32 K (uv_OperatorAddress msg)) (\<lambda>_.
     let d = uv_Description msg; no = DoNotModifyDesc K in
     if d = emptyDescription \<or>
        d = \<lparr>Moniker = no, Identity = no, Website = no, SecurityContact = no, Details = no\<rparr>
     then failw SdkErrInvalidRequest ''empty description''
     else if length (Moniker d) < 3
     then failw SdkErrInvalidRequest ''moniker must be at least 3 characters''
     else Ok ())"

text \<open>An error of the address is replaced; a panic of the SDK is none.\<close>

fun replace_err :: "go_error \<Rightarrow> 'a res \<Rightarrow> 'a res" where
  "replace_err e (Ok x) = Ok x"
| "replace_err e (Err e') = Err e"
| "replace_err e (Panic p) = Panic p"

definition MsgDelegate_ValidateBasic :: "sdk_ops \<Rightarrow> MsgDelegate \<Rightarrow> unit res" where
  "MsgDelegate_ValidateBasic K msg =
     bind_res (replace_err (Wrapped (Sentinel PoeErrEmpty) ''operator address'')
       (sAccAddressFromBech32 K (de_OperatorAddress msg))) (\<lambda>_.
     bind_res (Coin_IsValid K (de_Amount msg)) (\<lambda>valid.
     if \<not> valid then failw PoeErrInvalid ''delegation amount''
     else bind_res (Coin_IsValid K (de_VestingAmount msg)) (\<lambda>valid.
     if \<not> valid then failw PoeErrInvalid ''vesting amount''
     else bind_res (Coin_IsZero K (de_Amount msg)) (\<lambda>zero.
     if \<not> zero then Ok ()
     else bind_res (Coin_IsZero K (de_VestingAmount msg)) (\<lambda>zero.
     if zero then failw PoeErrInvalid ''empty amounts'' else Ok ())))))"

definition MsgUndelegate_ValidateBasic :: "sdk_ops \<Rightarrow> MsgUndelegate \<Rightarrow> unit res" where
  "MsgUndelegate_ValidateBasic K msg =
     bind_res (replace_err (Wrapped (Sentinel PoeErrEmpty) ''operator address'')
       (sAccAddressFromBech32 K (un_OperatorAddress msg))) (\<lambda>_.
     bind_res (Coin_IsValid K (un_Amount msg)) (\<lambda>valid.
     if \<not> valid then failw PoeErrInvalid ''delegation amount''
     else bind_res (Int_IsPositive K (mc_Amount (un_Amount msg))) (\<lambda>pos.
     if \<not> pos then failw PoeErrInvalid ''delegation amount'' else Ok ())))"

section \<open>Facts on the kinds of contracts\<close>

lemma PoEContractType_valid_iff:
  "PoEContractType_ValidateBasic t = Ok () \<longleftrightarrow> 1 \<le> t \<and> t \<le> 11"
proof -
  have "map_of PoEContractType_name t \<noteq> None \<longleftrightarrow> 0 \<le> t \<and> t \<le> 11"
  proof -
    have "map_of PoEContractType_name t \<noteq> None \<longleftrightarrow> t \<in> fst ` set PoEContractType_name"
      by (metis map_of_eq_None_iff)
    also have "\<dots> \<longleftrightarrow> t = 0 \<or> t = 1 \<or> t = 2 \<or> t = 3 \<or> t = 4 \<or> t = 5 \<or> t = 6 \<or> t = 7 \<or> t = 8 \<or>
        t = 9 \<or> t = 10 \<or> t = 11"
      by (simp add: PoEContractType_name_def)
    finally show ?thesis by arith
  qed
  then show ?thesis
    by (auto simp: PoEContractType_ValidateBasic_def poe_type_defs)
qed

lemma valid_type_cases:
  assumes "PoEContractType_ValidateBasic t = Ok ()"
  obtains "t = 1" | "t = 2" | "t = 3" | "t = 4" | "t = 5" | "t = 6" | "t = 7" | "t = 8" | "t = 9"
    | "t = 10" | "t = 11"
proof -
  have "1 \<le> t" "t \<le> 11" using assms by (simp_all add: PoEContractType_valid_iff)
  then have "t = 1 \<or> t = 2 \<or> t = 3 \<or> t = 4 \<or> t = 5 \<or> t = 6 \<or> t = 7 \<or> t = 8 \<or> t = 9 \<or> t = 10 \<or> t = 11"
    by arith
  with that show thesis by blast
qed

lemma PoEContractTypeFrom_String:
  assumes "PoEContractType_ValidateBasic t = Ok ()"
  shows "PoEContractTypeFrom (PoEContractType_String t) = t"
  using assms
  by (rule valid_type_cases)
    (simp_all add: PoEContractTypeFrom_def PoEContractType_String_def PoEContractType_name_def
      PoEContractType_value_def)

lemma PoEContractType_String_inj:
  assumes "PoEContractType_ValidateBasic t = Ok ()" and "PoEContractType_ValidateBasic u = Ok ()"
  shows "PoEContractType_String t = PoEContractType_String u \<longleftrightarrow> t = u"
  using assms by (metis PoEContractTypeFrom_String)

definition sorted_type_names :: "string list" where
  "sorted_type_names =
     [''ARBITER_POOL'', ''ARBITER_POOL_VOTING'', ''COMMUNITY_POOL'', ''DISTRIBUTION'', ''ENGAGEMENT'',
      ''MIXER'', ''OVERSIGHT_COMMUNITY'', ''OVERSIGHT_COMMUNITY_PROPOSALS'', ''STAKING'',
      ''VALIDATOR_VOTING'', ''VALSET'']"

lemma sorted_type_names_sorted: "sorted sorted_type_names"
  by (simp add: sorted_type_names_def less_char_def)

lemma sort_collect_names:
  assumes "mset order = mset PoEContractType_name"
  shows "sort (collect_names order) = sorted_type_names"
proof -
  have "mset (map snd order) = mset (map snd PoEContractType_name)" using assms by (metis mset_map)
  then have "mset (collect_names order) =
      mset (filter (\<lambda>v. v \<noteq> PoEContractType_String PoEContractTypeUndefined) (map snd PoEContractType_name))"
    unfolding collect_names_def by (metis mset_filter)
  also have "\<dots> = mset sorted_type_names"
    by (simp add: PoEContractType_name_def PoEContractType_String_def sorted_type_names_def poe_type_defs)
  finally show ?thesis using sorted_type_names_sorted by (intro properties_for_sort) auto
qed

lemma sorted_type_names_types:
  "map PoEContractTypeFrom sorted_type_names = [10, 11, 8, 5, 3, 4, 6, 7, 1, 9, 2]"
  by (simp add: sorted_type_names_def PoEContractTypeFrom_def PoEContractType_value_def)

section \<open>Facts on the messages\<close>

lemma nil_or_invalid_law: "sdk_laws K \<Longrightarrow> nil_or_invalid K c = Ok False \<longleftrightarrow> coin_valid K c"
  by (auto simp: nil_or_invalid_def sdk_laws_def coin_valid_def bind_res_Ok_iff)

lemma sdk_lawsD:
  assumes "sdk_laws K"
  shows "Coin_IsValid K c = Ok True \<longleftrightarrow> coin_valid K c"
    and "mc_Amount c = Some n \<Longrightarrow> Coin_IsZero K c = Ok (n = 0)"
    and "mc_Denom a \<noteq> mc_Denom b \<Longrightarrow> \<exists>p. Coin_Add K a b = Panic p"
    and "mc_Denom a = mc_Denom b \<Longrightarrow> mc_Amount a = Some m \<Longrightarrow> mc_Amount b = Some n \<Longrightarrow> m + n < 2 ^ 256 \<Longrightarrow>
      Coin_Add K a b = Ok \<lparr>mc_Denom = mc_Denom a, mc_Amount = Some (m + n)\<rparr>"
    and "Int_IsPositive K (Some n) = Ok (0 < n)"
    and "Int_LTE K (Some m) (Some n) = Ok (m \<le> n)"
    and "mc_Amount c = Some n \<Longrightarrow> Coin_IsNegative K c = Ok (n < 0)"
    and "Int_IsInt64 K (Some n) = Ok (in_int64 n)"
    and "0 \<le> n \<Longrightarrow> n < 2 ^ 64 \<Longrightarrow> Int_Uint64 K (Some n) = Ok (word_of_int n)"
    and "Coin_IsNil K c \<longleftrightarrow> mc_Amount c = None"
proof -
  note laws = assms [unfolded sdk_laws_def]
  show "Coin_IsValid K c = Ok True \<longleftrightarrow> coin_valid K c"
    and "mc_Amount c = Some n \<Longrightarrow> Coin_IsZero K c = Ok (n = 0)"
    and "Int_IsPositive K (Some n) = Ok (0 < n)"
    and "Int_LTE K (Some m) (Some n) = Ok (m \<le> n)"
    and "mc_Amount c = Some n \<Longrightarrow> Coin_IsNegative K c = Ok (n < 0)"
    and "Int_IsInt64 K (Some n) = Ok (in_int64 n)"
    and "0 \<le> n \<Longrightarrow> n < 2 ^ 64 \<Longrightarrow> Int_Uint64 K (Some n) = Ok (word_of_int n)"
    and "Coin_IsNil K c \<longleftrightarrow> mc_Amount c = None"
    using laws by - (elim conjE, simp)+
  show "mc_Denom a \<noteq> mc_Denom b \<Longrightarrow> \<exists>p. Coin_Add K a b = Panic p"
    using laws by (elim conjE) simp
  assume "mc_Denom a = mc_Denom b" "mc_Amount a = Some m" "mc_Amount b = Some n" and b: "m + n < 2 ^ 256"
  then have "Coin_Add K a b = Ok \<lparr>mc_Denom = mc_Denom a, mc_Amount = Some (m + n)\<rparr> \<or> 2 ^ 256 \<le> m + n"
    using laws by (elim conjE) metis
  with b show "Coin_Add K a b = Ok \<lparr>mc_Denom = mc_Denom a, mc_Amount = Some (m + n)\<rparr>" by linarith
qed

definition amounts_sum :: "msg_coin \<Rightarrow> msg_coin \<Rightarrow> int" where
  "amounts_sum a b =
     (case (mc_Amount a, mc_Amount b) of (Some m, Some n) \<Rightarrow> m + n | _ \<Rightarrow> 0)"

text \<open>Both coins have an amount, and the sum fits the SDK's integers.\<close>

lemma sum_zero_iff:
  assumes K: "sdk_laws K" and a: "coin_valid K a" and b: "coin_valid K b" and sum: "amounts_sum a b < 2 ^ 256"
  shows "mc_Denom a = mc_Denom b \<Longrightarrow> bind_res (Coin_Add K a b) (Coin_IsZero K) = Ok (amounts_sum a b = 0)"
    and "mc_Denom a \<noteq> mc_Denom b \<Longrightarrow> \<exists>p. Coin_Add K a b = Panic p"
    and "0 \<le> amounts_sum a b"
proof -
  obtain m n where mn: "mc_Amount a = Some m" "mc_Amount b = Some n" "0 \<le> m" "0 \<le> n"
    using a b by (auto simp: coin_valid_def)
  then show "0 \<le> amounts_sum a b" by (simp add: amounts_sum_def)
  show "mc_Denom a \<noteq> mc_Denom b \<Longrightarrow> \<exists>p. Coin_Add K a b = Panic p" by (rule sdk_lawsD(3) [OF K])
  assume "mc_Denom a = mc_Denom b"
  with mn sum have "Coin_Add K a b = Ok \<lparr>mc_Denom = mc_Denom a, mc_Amount = Some (m + n)\<rparr>"
    by (intro sdk_lawsD(4) [OF K]) (simp_all add: amounts_sum_def)
  with mn show "bind_res (Coin_Add K a b) (Coin_IsZero K) = Ok (amounts_sum a b = 0)"
    using sdk_lawsD(2) [OF K, of "\<lparr>mc_Denom = mc_Denom a, mc_Amount = Some (m + n)\<rparr>" "m + n"]
    by (simp add: amounts_sum_def)
qed

lemma bind_res_assoc: "bind_res (bind_res r f) g = bind_res r (\<lambda>x. bind_res (f x) g)"
  by (cases r) simp_all

text \<open>The checks that follow the amounts; a moniker of three bytes is no empty description.\<close>

lemma create_validator_checks:
  assumes K: "sdk_laws K" and sum: "amounts_sum (cv_Amount msg) (cv_VestingAmount msg) < 2 ^ 256"
  shows "MsgCreateValidator_ValidateBasic K msg = Ok () \<longleftrightarrow>
    (\<exists>a. sAccAddressFromBech32 K (cv_OperatorAddress msg) = Ok a \<and> a \<noteq> []) \<and> cv_Pubkey msg \<noteq> None \<and>
    coin_valid K (cv_Amount msg) \<and> coin_valid K (cv_VestingAmount msg) \<and>
    mc_Denom (cv_Amount msg) = mc_Denom (cv_VestingAmount msg) \<and>
    0 < amounts_sum (cv_Amount msg) (cv_VestingAmount msg) \<and> 3 \<le> length (Moniker (cv_Description msg))"
proof (cases "coin_valid K (cv_Amount msg) \<and> coin_valid K (cv_VestingAmount msg)")
  case False
  then show ?thesis
    by (auto simp: MsgCreateValidator_ValidateBasic_def bind_res_Ok_iff nil_or_invalid_law [OF K] split: if_splits)
next
  case True
  let ?a = "cv_Amount msg" let ?b = "cv_VestingAmount msg"
  have ok: "nil_or_invalid K ?a = Ok False" "nil_or_invalid K ?b = Ok False"
    using True by (simp_all add: nil_or_invalid_law [OF K])
  have emp: "cv_Description msg = emptyDescription \<Longrightarrow> \<not> 3 \<le> length (Moniker (cv_Description msg))"
    by (simp add: emptyDescription_def)
  show ?thesis
  proof (cases "mc_Denom ?a = mc_Denom ?b")
    case False
    then obtain p where "Coin_Add K ?a ?b = Panic p" using sum_zero_iff(2) [OF K _ _ sum] True by blast
    with False ok show ?thesis
      by (auto simp: MsgCreateValidator_ValidateBasic_def bind_res_Ok_iff split: if_splits)
  next
    case den: True
    have z: "bind_res (Coin_Add K ?a ?b) (Coin_IsZero K) = Ok (amounts_sum ?a ?b = 0)" "0 \<le> amounts_sum ?a ?b"
      using sum_zero_iff [OF K _ _ sum] True den by blast+
    then obtain c where "Coin_Add K ?a ?b = Ok c" "Coin_IsZero K c = Ok (amounts_sum ?a ?b = 0)"
      by (auto simp: bind_res_Ok_iff)
    with z(2) ok True den emp show ?thesis
      by (auto simp: MsgCreateValidator_ValidateBasic_def bind_res_Ok_iff)
  qed
qed

section \<open>A sample environment\<close>

text \<open>
  Addresses are written as their bytes, every non-empty denomination is valid, coins compute as the
  SDK documents it.
\<close>

definition sample_sdk :: sdk_ops where
  "sample_sdk =
     \<lparr>sAccAddressFromBech32 = (\<lambda>s. if s = [] then Err (Sentinel (ExternalErr ''empty address string is not allowed''))
        else Ok (string_bytes s)),
      sAddrString = bytes_string,
      Coin_IsNil = (\<lambda>c. mc_Amount c = None),
      Coin_IsValid = (\<lambda>c. case mc_Amount c of None \<Rightarrow> Panic ''nil'' | Some n \<Rightarrow> Ok (mc_Denom c \<noteq> [] \<and> 0 \<le> n)),
      Coin_IsZero = (\<lambda>c. case mc_Amount c of None \<Rightarrow> Panic ''nil'' | Some n \<Rightarrow> Ok (n = 0)),
      Coin_Add = (\<lambda>a b. if mc_Denom a \<noteq> mc_Denom b then Panic ''invalid coin denominations''
        else (case (mc_Amount a, mc_Amount b) of
          (Some m, Some n) \<Rightarrow> if 2 ^ 256 \<le> m + n then Panic ''Int overflow''
            else Ok \<lparr>mc_Denom = mc_Denom a, mc_Amount = Some (m + n)\<rparr>
        | _ \<Rightarrow> Panic ''nil'')),
      Coin_IsNegative = (\<lambda>c. case mc_Amount c of None \<Rightarrow> Panic ''nil'' | Some n \<Rightarrow> Ok (n < 0)),
      Coin_String = (\<lambda>c. (case mc_Amount c of None \<Rightarrow> ''<nil>'' | Some n \<Rightarrow> format_int n) @ mc_Denom c),
      Int_IsPositive = (\<lambda>i. case i of None \<Rightarrow> Panic ''nil'' | Some n \<Rightarrow> Ok (0 < n)),
      Int_Add = (\<lambda>i j. case (i, j) of (Some m, Some n) \<Rightarrow>
        if \<bar>m + n\<bar> < 2 ^ 255 then Ok (Some (m + n)) else Panic ''Int overflow'' | _ \<Rightarrow> Panic ''nil''),
      Int_LTE = (\<lambda>i j. case (i, j) of (Some m, Some n) \<Rightarrow> Ok (m \<le> n) | _ \<Rightarrow> Panic ''nil''),
      Int_IsInt64 = (\<lambda>i. case i of None \<Rightarrow> Panic ''nil'' | Some n \<Rightarrow> Ok (in_int64 n)),
      Int_Uint64 = (\<lambda>i. case i of None \<Rightarrow> Panic ''nil''
        | Some n \<Rightarrow> if 0 \<le> n \<and> n < 2 ^ 64 then Ok (word_of_int n) else Panic ''Uint64() out of bounds''),
      Int_String = (\<lambda>i. case i of None \<Rightarrow> ''<nil>'' | Some n \<Rightarrow> format_int n),
      NewCoins = (\<lambda>cs. if list_all (\<lambda>c. mc_Amount c \<noteq> None \<and> 0 \<le> the (mc_Amount c) \<and> mc_Denom c \<noteq> []) cs
        then Ok (map (\<lambda>c. \<lparr>coin_Denom = mc_Denom c, coin_Amount = the (mc_Amount c)\<rparr>)
          (filter (\<lambda>c. mc_Amount c \<noteq> Some 0) cs))
        else Panic ''invalid coins''),
      Coins_IsAllGTE = (\<lambda>a b. list_all (\<lambda>d. list_ex (\<lambda>c. coin_Denom c = coin_Denom d \<and> coin_Amount d \<le> coin_Amount c) a) b),
      Coins_Validate = (\<lambda>cs. if list_all (\<lambda>c. coin_Denom c \<noteq> [] \<and> 0 < coin_Amount c) cs then Ok ()
        else Err (Sentinel (ExternalErr ''invalid coins''))),
      ValidateDenom = (\<lambda>d. if d = [] then Err (Sentinel (ExternalErr ''invalid denom'')) else Ok ()),
      DoNotModifyDesc = ''[do-not-modify]''\<rparr>"

lemma sample_sdk_laws: "sdk_laws sample_sdk"
  by (auto simp: sdk_laws_def sample_sdk_def coin_valid_def split: option.splits)

section \<open>Properties\<close>

text \<open>
  When the sum of the amounts fits the SDK's integers, a message to create a validator passes
  its validation exactly when the operator address decodes to a non-empty address, the public key is
  set, both amounts are valid coins of one denomination with a positive sum, and the moniker has at
  least three bytes; amounts of different denominations make the validation panic.
\<close>

lemma create_validator_valid_iff:
  assumes K: "sdk_laws K" and sum: "amounts_sum (cv_Amount msg) (cv_VestingAmount msg) < 2 ^ 256"
  shows "(MsgCreateValidator_ValidateBasic K msg = Ok () \<longleftrightarrow>
      (\<exists>a. sAccAddressFromBech32 K (cv_OperatorAddress msg) = Ok a \<and> a \<noteq> []) \<and> cv_Pubkey msg \<noteq> None \<and>
      coin_valid K (cv_Amount msg) \<and> coin_valid K (cv_VestingAmount msg) \<and>
      mc_Denom (cv_Amount msg) = mc_Denom (cv_VestingAmount msg) \<and>
      0 < amounts_sum (cv_Amount msg) (cv_VestingAmount msg) \<and> 3 \<le> length (Moniker (cv_Description msg))) \<and>
    ((\<exists>a. sAccAddressFromBech32 K (cv_OperatorAddress msg) = Ok a \<and> a \<noteq> []) \<and> cv_Pubkey msg \<noteq> None \<and>
      coin_valid K (cv_Amount msg) \<and> coin_valid K (cv_VestingAmount msg) \<and>
      mc_Denom (cv_Amount msg) \<noteq> mc_Denom (cv_VestingAmount msg) \<longrightarrow>
      (\<exists>p. MsgCreateValidator_ValidateBasic K msg = Panic p))"
proof (intro conjI impI)
  show "MsgCreateValidator_ValidateBasic K msg = Ok () \<longleftrightarrow>
      (\<exists>a. sAccAddressFromBech32 K (cv_OperatorAddress msg) = Ok a \<and> a \<noteq> []) \<and> cv_Pubkey msg \<noteq> None \<and>
      coin_valid K (cv_Amount msg) \<and> coin_valid K (cv_VestingAmount msg) \<and>
      mc_Denom (cv_Amount msg) = mc_Denom (cv_VestingAmount msg) \<and>
      0 < amounts_sum (cv_Amount msg) (cv_VestingAmount msg) \<and> 3 \<le> length (Moniker (cv_Description msg))"
    by (rule create_validator_checks [OF K sum])
next
  assume v: "(\<exists>a. sAccAddressFromBech32 K (cv_OperatorAddress msg) = Ok a \<and> a \<noteq> []) \<and> cv_Pubkey msg \<noteq> None \<and>
      coin_valid K (cv_Amount msg) \<and> coin_valid K (cv_VestingAmount msg) \<and>
      mc_Denom (cv_Amount msg) \<noteq> mc_Denom (cv_VestingAmount msg)"
  then obtain p where "Coin_Add K (cv_Amount msg) (cv_VestingAmount msg) = Panic p"
    using sdk_lawsD(3) [OF K] by blast
  with v show "\<exists>p. MsgCreateValidator_ValidateBasic K msg = Panic p"
    by (auto simp: MsgCreateValidator_ValidateBasic_def nil_or_invalid_law [OF K, THEN iffD2])
qed

lemma create_validator_valid_iff_sample:
  "\<exists>p. MsgCreateValidator_ValidateBasic sample_sdk
     \<lparr>cv_Description = emptyDescription\<lparr>Moniker := ''abc''\<rparr>, cv_OperatorAddress = ''furya1'', cv_Pubkey = Some (),
      cv_Amount = \<lparr>mc_Denom = ''ufury'', mc_Amount = Some 1\<rparr>,
      cv_VestingAmount = \<lparr>mc_Denom = ''uother'', mc_Amount = Some 0\<rparr>\<rparr> = Panic p"
  using create_validator_valid_iff [OF sample_sdk_laws, of
     "\<lparr>cv_Description = emptyDescription\<lparr>Moniker := ''abc''\<rparr>, cv_OperatorAddress = ''furya1'', cv_Pubkey = Some (),
      cv_Amount = \<lparr>mc_Denom = ''ufury'', mc_Amount = Some 1\<rparr>,
      cv_VestingAmount = \<lparr>mc_Denom = ''uother'', mc_Amount = Some 0\<rparr>\<rparr>"]
  by (simp add: amounts_sum_def coin_valid_def) (simp add: sample_sdk_def string_bytes_def)

text \<open>
  A delegation passes its validation exactly when the operator address decodes and both amounts
  are valid coins that are not both zero; an undelegation exactly when the address decodes and the
  amount is a valid positive coin.
\<close>

lemma delegation_valid_iff:
  assumes K: "sdk_laws K"
  shows "(MsgDelegate_ValidateBasic K d = Ok () \<longleftrightarrow>
      (\<exists>a. sAccAddressFromBech32 K (de_OperatorAddress d) = Ok a) \<and>
      coin_valid K (de_Amount d) \<and> coin_valid K (de_VestingAmount d) \<and>
      (mc_Amount (de_Amount d) \<noteq> Some 0 \<or> mc_Amount (de_VestingAmount d) \<noteq> Some 0)) \<and>
    (MsgUndelegate_ValidateBasic K u = Ok () \<longleftrightarrow>
      (\<exists>a. sAccAddressFromBech32 K (un_OperatorAddress u) = Ok a) \<and>
      coin_valid K (un_Amount u) \<and> mc_Amount (un_Amount u) \<noteq> Some 0)"
proof
  have r: "\<And>e r x. replace_err e r = Ok x \<longleftrightarrow> r = Ok x" by (case_tac r) auto
  have z: "\<And>c. coin_valid K c \<Longrightarrow> Coin_IsZero K c = Ok (mc_Amount c = Some 0)"
    using sdk_lawsD(2) [OF K] by (auto simp: coin_valid_def)
  show "MsgDelegate_ValidateBasic K d = Ok () \<longleftrightarrow>
      (\<exists>a. sAccAddressFromBech32 K (de_OperatorAddress d) = Ok a) \<and>
      coin_valid K (de_Amount d) \<and> coin_valid K (de_VestingAmount d) \<and>
      (mc_Amount (de_Amount d) \<noteq> Some 0 \<or> mc_Amount (de_VestingAmount d) \<noteq> Some 0)"
    by (cases "coin_valid K (de_Amount d) \<and> coin_valid K (de_VestingAmount d)")
      (auto simp: MsgDelegate_ValidateBasic_def bind_res_Ok_iff r z sdk_lawsD(1) [OF K] split: if_splits)
  show "MsgUndelegate_ValidateBasic K u = Ok () \<longleftrightarrow>
      (\<exists>a. sAccAddressFromBech32 K (un_OperatorAddress u) = Ok a) \<and>
      coin_valid K (un_Amount u) \<and> mc_Amount (un_Amount u) \<noteq> Some 0"
  proof (cases "coin_valid K (un_Amount u)")
    case True
    then obtain n where n: "mc_Amount (un_Amount u) = Some n" "0 \<le> n" by (auto simp: coin_valid_def)
    have "Coin_IsValid K (un_Amount u) = Ok True" using True by (simp add: sdk_lawsD(1) [OF K])
    with True n show ?thesis
      by (auto simp: MsgUndelegate_ValidateBasic_def bind_res_Ok_iff r sdk_lawsD(5) [OF K])
  next
    case False
    then have "Coin_IsValid K (un_Amount u) \<noteq> Ok True" by (simp add: sdk_lawsD(1) [OF K])
    with False show ?thesis
      by (auto simp: MsgUndelegate_ValidateBasic_def bind_res_Ok_iff split: if_splits)
  qed
qed

fun until_stop :: "('a \<Rightarrow> bool) \<Rightarrow> 'a list \<Rightarrow> 'a list" where
  "until_stop stop [] = []"
| "until_stop stop (x # xs) = x # (if stop x then [] else until_stop stop xs)"

lemma call_types_trace:
  "call_types names (\<lambda>t s. (Ok (stop t), s @ [t])) acc =
     (Ok (), acc @ until_stop stop (map PoEContractTypeFrom names))"
  by (induction names arbitrary: acc) (simp_all add: bindS_def ret_def)

text \<open>
  Whatever order Go visits the entries of the map in, \<open>IteratePoEContractTypes\<close> calls back the
  eleven defined kinds of contracts, each once and in the order of their names, up to the first one
  for which the callback returns true.
\<close>

lemma poe_types_iterated_in_order:
  assumes "mset order = mset PoEContractType_name"
  shows "IteratePoEContractTypes order (\<lambda>t s. (Ok (stop t), s @ [t])) [] =
      (Ok (), until_stop stop [10, 11, 8, 5, 3, 4, 6, 7, 1, 9, 2]) \<and>
    (\<forall>t. PoEContractType_ValidateBasic t = Ok () \<longleftrightarrow> t \<in> {10, 11, 8, 5, 3, 4, 6, 7, 1, 9, 2})"
proof
  show "IteratePoEContractTypes order (\<lambda>t s. (Ok (stop t), s @ [t])) [] =
      (Ok (), until_stop stop [10, 11, 8, 5, 3, 4, 6, 7, 1, 9, 2])"
    using assms
    by (simp only: IteratePoEContractTypes_def sort_collect_names call_types_trace sorted_type_names_types) simp
  show "\<forall>t. PoEContractType_ValidateBasic t = Ok () \<longleftrightarrow> t \<in> {10, 11, 8, 5, 3, 4, 6, 7, 1, 9, 2}"
    unfolding PoEContractType_valid_iff insert_iff empty_iff by (intro allI) arith
qed

lemma poe_types_iterated_in_order_sample:
  "IteratePoEContractTypes (rev PoEContractType_name) (\<lambda>t s. (Ok (t = 8), s @ [t])) [] = (Ok (), [10, 11, 8])"
  using poe_types_iterated_in_order [of "rev PoEContractType_name" "\<lambda>t. t = 8"] by simp

end
