(* ===== verification/GoTime.thy ===== *)
theory GoTime
  imports Prelude Complex_Main
begin

text \<open>
  What the code uses of Go's \<open>time.Duration\<close>: a duration is an \<open>int64\<close> of nanoseconds, its
  \<open>Seconds\<close> a \<open>float64\<close>. The floating point operations are exact on rational numbers followed by
  rounding to the nearest double (ties to even); all numbers that occur are below 2^53.
\<close>

section \<open>Double precision\<close>

definition round_even :: "rat \<Rightarrow> int" where
  "round_even y =
     (let f = \<lfloor>y\<rfloor>; d = y - of_int f in
      if d < 1 / 2 then f else if d > 1 / 2 then f + 1 else if even f then f else f + 1)"

text \<open>The number of fractional bits of the double next to \<open>x\<close>, for \<open>|x| < 2^53\<close>.\<close>

definition fraction_bits :: "rat \<Rightarrow> nat" where
  "fraction_bits x =
     (case find (\<lambda>k. 2 ^ 52 \<le> 2 ^ k * \<bar>x\<bar>) [0..<1075] of Some k \<Rightarrow> k | None \<Rightarrow> 1074)"

definition float64 :: "rat \<Rightarrow> rat" where
  "float64 x = of_int (round_even (x * 2 ^ fraction_bits x)) / 2 ^ fraction_bits x"

text \<open>Conversion to an integer drops the fraction.\<close>

definition trunc :: "rat \<Rightarrow> int" where
  "trunc x = (if x < 0 then \<lceil>x\<rceil> else \<lfloor>x\<rfloor>)"

section \<open>Durations\<close>

type_synonym duration = int

abbreviation "Second \<equiv> (1000000000 :: duration)"
abbreviation "Hour \<equiv> (3600000000000 :: duration)"

definition go_quot :: "int \<Rightarrow> int \<Rightarrow> int" where
  "go_quot a m = (if a < 0 then - (- a div m) else a div m)"

definition go_rem :: "int \<Rightarrow> int \<Rightarrow> int" where
  "go_rem a m = a - go_quot a m * m"

definition Duration_Seconds :: "duration \<Rightarrow> rat" where
  "Duration_Seconds d =
     float64 (float64 (of_int (go_quot d Second)) + float64 (float64 (of_int (go_rem d Second)) / 1000000000))"

definition Duration_Truncate :: "duration \<Rightarrow> duration \<Rightarrow> duration" where
  "Duration_Truncate d m = (if m \<le> 0 then d else d - go_rem d m)"

text \<open>
  \<open>time.Duration(d.Seconds())*time.Second\<close>; the product wraps around.
\<close>

definition whole_seconds :: "duration \<Rightarrow> duration" where
  "whole_seconds d = to_int64 (trunc (Duration_Seconds d) * Second)"

text \<open>
  \<open>uint64(d.Seconds())\<close>: for a negative number the result depends on the platform, given by
  \<open>neg\<close>.
\<close>

definition uint64_seconds :: "(rat \<Rightarrow> uint64) \<Rightarrow> duration \<Rightarrow> uint64" where
  "uint64_seconds neg d =
     (let x = Duration_Seconds d in if x < 0 then neg x else word_of_int (trunc x))"

definition uint64_whole_seconds :: "(rat \<Rightarrow> uint64) \<Rightarrow> duration \<Rightarrow> duration" where
  "uint64_whole_seconds neg d = to_int64 (int64_of_uint64 (uint64_seconds neg d) * Second)"

section \<open>Rounding\<close>

lemma round_even_of_int [simp]: "round_even (of_int n) = n"
  by (simp add: round_even_def)

lemma round_even_le: "y \<le> of_int N \<Longrightarrow> round_even y \<le> N"
proof -
  assume y: "y \<le> of_int N"
  then have f: "\<lfloor>y\<rfloor> \<le> N" by (simp add: floor_le_iff)
  show ?thesis
  proof (cases "\<lfloor>y\<rfloor> = N")
    case True
    with y have "y = of_int N" by (metis floor_correct order_antisym)
    then show ?thesis by simp
  next
    case False
    with f have "\<lfloor>y\<rfloor> + 1 \<le> N" by simp
    then show ?thesis by (auto simp: round_even_def Let_def)
  qed
qed

lemma round_even_ge: "of_int N \<le> y \<Longrightarrow> N \<le> round_even y"
proof -
  assume "of_int N \<le> y"
  then have "N \<le> \<lfloor>y\<rfloor>" by (simp add: le_floor_iff)
  then show ?thesis by (auto simp: round_even_def Let_def)
qed

lemma float64_of_int [simp]: "float64 (of_int n) = of_int n"
proof -
  have "of_int n * 2 ^ fraction_bits (of_int n) = (of_int (n * 2 ^ fraction_bits (of_int n)) :: rat)"
    by simp
  then show ?thesis unfolding float64_def by (metis (no_types, lifting) nonzero_mult_div_cancel_right
    of_int_mult of_int_numeral of_int_power power_not_zero round_even_of_int zero_neq_numeral)
qed

lemma float64_le: "x \<le> of_int n \<Longrightarrow> float64 x \<le> of_int n"
proof -
  assume "x \<le> of_int n"
  then have "x * 2 ^ fraction_bits x \<le> of_int (n * 2 ^ fraction_bits x)" by simp
  then have "round_even (x * 2 ^ fraction_bits x) \<le> n * 2 ^ fraction_bits x" by (rule round_even_le)
  then have "(of_int (round_even (x * 2 ^ fraction_bits x)) :: rat) \<le> of_int (n * 2 ^ fraction_bits x)"
    by (simp only: of_int_le_iff)
  then show ?thesis by (simp add: float64_def divide_le_eq)
qed

lemma float64_ge: "of_int n \<le> x \<Longrightarrow> of_int n \<le> float64 x"
proof -
  assume "of_int n \<le> x"
  then have "of_int (n * 2 ^ fraction_bits x) \<le> x * 2 ^ fraction_bits x" by simp
  then have "n * 2 ^ fraction_bits x \<le> round_even (x * 2 ^ fraction_bits x)" by (rule round_even_ge)
  then have "(of_int (n * 2 ^ fraction_bits x) :: rat) \<le> of_int (round_even (x * 2 ^ fraction_bits x))"
    by (simp only: of_int_le_iff)
  then show ?thesis by (simp add: float64_def le_divide_eq)
qed

lemma trunc_of_int [simp]: "trunc (of_int n) = n"
  by (simp add: trunc_def)

lemma trunc_bounds: "of_int m \<le> x \<Longrightarrow> x \<le> of_int n \<Longrightarrow> m \<le> trunc x \<and> trunc x \<le> n"
  by (auto simp: trunc_def le_floor_iff ceiling_le_iff floor_le_iff le_ceiling_iff)

lemma go_rem_mod: "go_rem a m = (if a < 0 then - (- a mod m) else a mod m)"
proof (cases "a < 0")
  case True
  have "(- a) div m * m + (- a) mod m = - a" by (rule div_mult_mod_eq)
  then have "a + (- a) div m * m = - ((- a) mod m)" by linarith
  with True show ?thesis by (simp add: go_rem_def go_quot_def)
qed (simp add: go_rem_def go_quot_def minus_div_mult_eq_mod)

lemma go_rem_zero_iff: "go_rem a m = 0 \<longleftrightarrow> m dvd a"
  by (simp add: go_rem_mod mod_eq_0_iff_dvd)

lemma Duration_Truncate_eq_iff: "0 < m \<Longrightarrow> Duration_Truncate d m = d \<longleftrightarrow> m dvd d"
  by (simp add: Duration_Truncate_def go_rem_zero_iff)

lemma Duration_Seconds_exact:
  assumes "Second dvd d"
  shows "Duration_Seconds d = of_int (go_quot d Second)"
proof -
  have "go_rem d Second = 0" using assms by (simp add: go_rem_zero_iff)
  moreover have "float64 0 = 0" using float64_of_int [of 0] by simp
  ultimately show ?thesis by (simp add: Duration_Seconds_def)
qed

lemma go_quot_exact: "Second dvd d \<Longrightarrow> go_quot d Second * Second = d"
  using go_rem_zero_iff [of d Second] by (simp add: go_rem_def)

text \<open>With a fraction of a second left, the float is off the whole seconds by at most one.\<close>

lemma Duration_Seconds_bounds:
  "of_int (go_quot d Second - 1) \<le> Duration_Seconds d \<and> Duration_Seconds d \<le> of_int (go_quot d Second + 1)"
proof -
  let ?r = "of_int (go_rem d Second) / 1000000000 :: rat"
  have "0 \<le> d mod Second \<and> d mod Second < Second" "0 \<le> (- d) mod Second \<and> (- d) mod Second < Second"
    by simp_all
  then have "- 1000000000 < go_rem d Second \<and> go_rem d Second < 1000000000"
    unfolding go_rem_mod by (cases "d < 0") auto
  then have "of_int (- 1000000000) \<le> (of_int (go_rem d Second) :: rat)"
    "(of_int (go_rem d Second) :: rat) \<le> of_int 1000000000"
    by (simp_all only: of_int_le_iff) simp_all
  then have r: "of_int (- 1) \<le> ?r" "?r \<le> of_int 1" by (simp_all add: divide_le_eq le_divide_eq)
  have f: "of_int (- 1) \<le> float64 ?r" "float64 ?r \<le> of_int 1"
    using float64_ge [OF r(1)] float64_le [OF r(2)] by simp_all
  have "of_int (go_quot d Second - 1) \<le> of_int (go_quot d Second) + float64 ?r"
    "of_int (go_quot d Second) + float64 ?r \<le> of_int (go_quot d Second + 1)"
    using f by simp_all
  then have "of_int (go_quot d Second - 1) \<le> float64 (of_int (go_quot d Second) + float64 ?r)"
    "float64 (of_int (go_quot d Second) + float64 ?r) \<le> of_int (go_quot d Second + 1)"
    by (metis float64_ge, metis float64_le)
  then show ?thesis by (simp only: Duration_Seconds_def float64_of_int)
qed

lemma whole_seconds_iff:
  assumes "in_int64 d"
  shows "whole_seconds d = d \<longleftrightarrow> Second dvd d"
proof
  assume "Second dvd d"
  then show "whole_seconds d = d"
    using assms by (simp add: whole_seconds_def Duration_Seconds_exact go_quot_exact to_int64_id)
next
  assume eq: "whole_seconds d = d"
  let ?t = "trunc (Duration_Seconds d)"
  have b: "go_quot d Second - 1 \<le> ?t" "?t \<le> go_quot d Second + 1"
    using Duration_Seconds_bounds [of d] trunc_bounds by blast+
  moreover have "- 9223372036 \<le> go_quot d Second" "go_quot d Second \<le> 9223372036"
    using assms by (auto simp: go_quot_def in_int64_def)
  ultimately have t: "- 9223372037 \<le> ?t" "?t \<le> 9223372037" by linarith+
  show "Second dvd d"
  proof (cases "in_int64 (?t * Second)")
    case True
    with eq show ?thesis by (metis to_int64_id whole_seconds_def dvd_triv_right)
  next
    case False
    with t have "?t = 9223372037 \<or> ?t = - 9223372037"
      by (auto simp: in_int64_def)
    then have "d = - 9223372036709551616 \<and> ?t = 9223372037 \<or> d = 9223372036709551616 \<and> ?t = - 9223372037"
      using eq by (auto simp: whole_seconds_def to_int64_def)
    with b show ?thesis by (auto simp: go_quot_def)
  qed
qed

text \<open>The unsigned conversion agrees with the signed one on durations that are not negative.\<close>

lemma uint64_whole_seconds_nonneg:
  assumes d: "in_int64 d" and nonneg: "0 \<le> d"
  shows "uint64_whole_seconds neg d = whole_seconds d"
proof -
  let ?x = "Duration_Seconds d"
  have "0 \<le> go_rem d Second" using nonneg by (simp add: go_rem_mod)
  then have "of_int 0 \<le> (of_int (go_rem d Second) / 1000000000 :: rat)" by simp
  then have "of_int 0 \<le> float64 (of_int (go_rem d Second) / 1000000000)" by (rule float64_ge)
  moreover have "0 \<le> go_quot d Second" using nonneg by (simp add: go_quot_def pos_imp_zdiv_nonneg_iff)
  ultimately have "of_int 0 \<le> (of_int (go_quot d Second) :: rat) + float64 (of_int (go_rem d Second) / 1000000000)"
    by simp
  then have "of_int 0 \<le> ?x" unfolding Duration_Seconds_def float64_of_int by (rule float64_ge)
  moreover have "?x \<le> of_int (go_quot d Second + 1)" using Duration_Seconds_bounds [of d] by blast
  ultimately have t: "0 \<le> trunc ?x" "trunc ?x \<le> go_quot d Second + 1" and x: "\<not> ?x < 0"
    using trunc_bounds [of 0 ?x "go_quot d Second + 1"] by simp_all
  moreover have "go_quot d Second \<le> 9223372036" using d nonneg by (auto simp: go_quot_def in_int64_def)
  ultimately have le: "trunc ?x < 2 ^ 63" by simp
  then have "uint (word_of_int (trunc ?x) :: uint64) = trunc ?x"
    using t(1) by (simp add: uint_word_of_int)
  with le have "int64_of_uint64 (word_of_int (trunc ?x)) = trunc ?x"
    by (metis int64_of_uint64_small)
  with x show ?thesis by (simp add: uint64_whole_seconds_def uint64_seconds_def whole_seconds_def Let_def)
qed

end
