(* ===== verification/PoEGenesis.thy ===== *)
theory PoEGenesis
  imports PoETypes GoTime
begin

text \<open>
  \<open>x/poe/types/genesis.go\<close>: the genesis state of the PoE module, either the configuration of the
  contracts to set up (seed mode) or the addresses of existing contracts (import mode), and its
  validation. Decimals of the SDK are an abstract type \<open>'d\<close> (a pointer that may be nil) with the
  operations \<open>dec_ops\<close>; \<open>dec_laws\<close> states what they compute, with \<open>val\<close> for the number.
\<close>

section \<open>Environment\<close>

record 'd dec_ops =
  Dec_IsNil :: "'d \<Rightarrow> bool"
  Dec_IsZero :: "'d \<Rightarrow> bool res"
  Dec_LT :: "'d \<Rightarrow> 'd \<Rightarrow> bool res"
  Dec_GT :: "'d \<Rightarrow> 'd \<Rightarrow> bool res"
  Dec_Equal :: "'d \<Rightarrow> 'd \<Rightarrow> bool res"
  Dec_Add :: "'d \<Rightarrow> 'd \<Rightarrow> 'd res"
  dNewDec :: "int \<Rightarrow> 'd"
  OneDec :: 'd
  NewDecFromIntWithPrec :: "int \<Rightarrow> nat \<Rightarrow> 'd"
  MustNewDecFromStr :: "string \<Rightarrow> 'd"

definition dec_laws :: "('d \<Rightarrow> rat) \<Rightarrow> 'd dec_ops \<Rightarrow> bool" where
  "dec_laws val D \<longleftrightarrow>
     (\<forall>x. \<not> Dec_IsNil D x \<longrightarrow> Dec_IsZero D x = Ok (val x = 0)) \<and>
     (\<forall>x y. \<not> Dec_IsNil D x \<longrightarrow> \<not> Dec_IsNil D y \<longrightarrow>
        Dec_LT D x y = Ok (val x < val y) \<and> Dec_GT D x y = Ok (val y < val x) \<and>
        Dec_Equal D x y = Ok (val x = val y) \<and>
        (\<bar>val x\<bar> \<le> 10 ^ 70 \<longrightarrow> \<bar>val y\<bar> \<le> 10 ^ 70 \<longrightarrow>
          (\<exists>z. Dec_Add D x y = Ok z \<and> \<not> Dec_IsNil D z \<and> val z = val x + val y))) \<and>
     (\<forall>n. \<not> Dec_IsNil D (dNewDec D n) \<and> val (dNewDec D n) = of_int n) \<and>
     (\<not> Dec_IsNil D (OneDec D) \<and> val (OneDec D) = 1) \<and>
     (\<forall>n p. p \<le> 18 \<longrightarrow> \<not> Dec_IsNil D (NewDecFromIntWithPrec D n p) \<and>
        val (NewDecFromIntWithPrec D n p) = of_int n / 10 ^ p)"

text \<open>Sums of magnitudes up to \<open>10^70\<close> are far below the SDK's limit of 315 bits.\<close>

section \<open>Sequences of checks\<close>

text \<open>Checks in the order of the code: the first one that does not pass decides.\<close>

fun all_checks :: "unit res list \<Rightarrow> unit res" where
  "all_checks [] = Ok ()"
| "all_checks (c # cs) = bind_res c (\<lambda>_. all_checks cs)"

definition refuse :: "bool \<Rightarrow> err_kind \<Rightarrow> string \<Rightarrow> unit res" where
  "refuse bad k msg = (if bad then failw k msg else Ok ())"

definition refuse_res :: "bool res \<Rightarrow> err_kind \<Rightarrow> string \<Rightarrow> unit res" where
  "refuse_res bad k msg = bind_res bad (\<lambda>b. refuse b k msg)"

lemma all_checks_Ok: "all_checks cs = Ok () \<longleftrightarrow> (\<forall>c \<in> set cs. c = Ok ())"
  by (induction cs) (auto simp: bind_res_Ok_iff)

declare all_checks.simps [simp del]

lemma refuse_Ok [simp]: "refuse bad k msg = Ok () \<longleftrightarrow> \<not> bad"
  by (simp add: refuse_def)

lemma refuse_res_Ok [simp]: "refuse_res bad k msg = Ok () \<longleftrightarrow> bad = Ok False"
  by (auto simp: refuse_res_def bind_res_Ok_iff)

section \<open>The genesis state\<close>

record 'd VotingRules =
  VotingPeriod :: uint32
  Quorum :: 'd
  Threshold :: 'd
  AllowEndEarly :: bool

record StakeContractConfig =
  MinBond :: uint64
  TokensPerPoint :: uint64
  UnbondingPeriod :: duration
  ClaimAutoreturnLimit :: uint64

record 'd ValsetContractConfig =
  MinPoints :: uint64
  MaxValidators :: uint32
  EpochLength :: duration
  EpochReward :: msg_coin
  Scaling :: uint32
  FeePercentage :: 'd
  CommunityPoolRewardRatio :: 'd
  EngagementRewardRatio :: 'd
  ValidatorRewardRatio :: 'd
  AutoUnjail :: bool
  DoubleSignSlashRatio :: 'd
  VerifyValidators :: bool
  OfflineJailDuration :: duration

record EngagementContractConfig =
  Halflife :: duration

record 'd OversightCommitteeContractConfig =
  oc_Name :: string
  oc_EscrowAmount :: msg_coin
  oc_VotingRules :: "'d VotingRules"
  oc_DenyListContractAddress :: string

record 'd CommunityPoolContractConfig =
  cp_VotingRules :: "'d VotingRules"

record 'd ValidatorVotingContractConfig =
  vv_VotingRules :: "'d VotingRules"

record 'd ArbiterPoolContractConfig =
  ap_Name :: string
  ap_EscrowAmount :: msg_coin
  ap_VotingRules :: "'d VotingRules"
  ap_DenyListContractAddress :: string
  ap_DisputeCost :: msg_coin
  ap_WaitingPeriod :: duration

record 'd MixerContractConfig =
  MaxPoints :: uint64
  Sigmoid_P :: 'd
  Sigmoid_S :: 'd

record genesis_member =
  gm_Address :: string
  gm_Points :: uint64

record PoEContract =
  pc_ContractType :: PoEContractType
  pc_Address :: string

record ('t, 'd) SeedContracts =
  GenTxs :: "'t list"
  BootstrapAccountAddress :: string
  Engagement :: "genesis_member list"
  sc_Stake :: "StakeContractConfig option"
  sc_Valset :: "'d ValsetContractConfig option"
  sc_Engagement :: "EngagementContractConfig option"
  BondDenom :: string
  sc_OversightCommittee :: "'d OversightCommitteeContractConfig option"
  sc_CommunityPool :: "'d CommunityPoolContractConfig option"
  sc_ValidatorVoting :: "'d ValidatorVotingContractConfig option"
  OversightCommunityMembers :: "string list"
  ArbiterPoolMembers :: "string list"
  sc_ArbiterPool :: "'d ArbiterPoolContractConfig option"
  sc_Mixer :: "'d MixerContractConfig option"

text \<open>The field \<open>SetupMode\<close>: nothing, or one of the two modes with a pointer to its data.\<close>

datatype ('t, 'd) setup_mode =
    NoSetup
  | SeedMode "('t, 'd) SeedContracts option"
  | ImportMode "PoEContract list option"

record ('t, 'd) poe_GenesisState =
  gs_Params :: poe_Params
  gs_SetupMode :: "('t, 'd) setup_mode"

definition GetSeedContracts :: "('t, 'd) poe_GenesisState \<Rightarrow> ('t, 'd) SeedContracts option" where
  "GetSeedContracts g = (case gs_SetupMode g of SeedMode s \<Rightarrow> s | _ \<Rightarrow> None)"

definition GetImportDump :: "('t, 'd) poe_GenesisState \<Rightarrow> PoEContract list option" where
  "GetImportDump g = (case gs_SetupMode g of ImportMode d \<Rightarrow> d | _ \<Rightarrow> None)"

section \<open>Validation of the configurations\<close>

definition VotingRules_ValidateBasic :: "'d dec_ops \<Rightarrow> 'd VotingRules \<Rightarrow> unit res" where
  "VotingRules_ValidateBasic D v =
     all_checks
      [refuse (VotingPeriod v = 0) PoeErrEmpty ''voting period'',
       refuse_res (if Dec_IsNil D (Quorum v) then Ok True else Dec_LT D (Quorum v) (OneDec D))
         PoeErrInvalid ''quorum must be > 0'',
       refuse_res (Dec_GT D (Quorum v) (dNewDec D 100)) PoeErrInvalid ''quorum must be <=100'',
       refuse_res (if Dec_IsNil D (Threshold v) then Ok True else Dec_LT D (Threshold v) (dNewDec D 50))
         PoeErrInvalid ''threshold must be => 50'',
       refuse_res (Dec_GT D (Threshold v) (dNewDec D 100)) PoeErrInvalid ''threshold must be <=100'']"

definition EngagementContractConfig_ValidateBasic :: "EngagementContractConfig \<Rightarrow> unit res" where
  "EngagementContractConfig_ValidateBasic c =
     (if Duration_Truncate (Halflife c) Second \<noteq> Halflife c
      then failw PoeErrInvalid ''halflife must not contain anything less than seconds'' else Ok ())"

definition ValsetContractConfig_ValidateBasic :: "'d dec_ops \<Rightarrow> 'd ValsetContractConfig \<Rightarrow> unit res" where
  "ValsetContractConfig_ValidateBasic D c =
     (let hundred = dNewDec D 100 in
      all_checks
       [refuse (VerifyValidators c) PoeErrInvalid ''not supported currently'',
        refuse (MaxValidators c = 0) PoeErrEmpty ''max validators'',
        refuse (EpochLength c = 0) PoeErrEmpty ''epoch length'',
        refuse (EpochLength c \<noteq> whole_seconds (EpochLength c)) PoeErrInvalid ''epoch length not convertible to seconds'',
        refuse (Scaling c = 0) PoeErrEmpty ''scaling'',
        refuse_res (Dec_GT D (CommunityPoolRewardRatio c) hundred) PoeErrInvalid
          ''community pool reward ratio must not be greater 100'',
        refuse_res (Dec_GT D (EngagementRewardRatio c) hundred) PoeErrInvalid
          ''engagement reward ratio must not be greater 100'',
        refuse_res (Dec_GT D (ValidatorRewardRatio c) hundred) PoeErrInvalid
          ''validator reward ratio must not be greater 100'',
        refuse_res
          (bind_res (Dec_Add D (EngagementRewardRatio c) (CommunityPoolRewardRatio c)) (\<lambda>t.
           bind_res (Dec_Add D t (ValidatorRewardRatio c)) (\<lambda>totalRatio.
           bind_res (Dec_Equal D totalRatio hundred) (\<lambda>eq. Ok (\<not> eq)))))
          PoeErrInvalid ''total reward ratio must be 100 but was %s'',
        refuse_res (Dec_LT D (FeePercentage c) (NewDecFromIntWithPrec D 1 16)) PoeErrEmpty ''fee percentage'',
        refuse (OfflineJailDuration c = 0) PoeErrEmpty ''offline jail duration'',
        refuse (OfflineJailDuration c \<noteq> whole_seconds (OfflineJailDuration c)) PoeErrInvalid
          ''offline jail duration not convertible to seconds''])"

text \<open>\<open>neg\<close> is the platform's conversion of a negative float to \<open>uint64\<close>.\<close>

definition StakeContractConfig_ValidateBasic :: "(rat \<Rightarrow> uint64) \<Rightarrow> StakeContractConfig \<Rightarrow> unit res" where
  "StakeContractConfig_ValidateBasic neg c =
     all_checks
      [refuse (MinBond c = 0) PoeErrEmpty ''min bond'',
       refuse (TokensPerPoint c = 0) PoeErrEmpty ''tokens per weight'',
       refuse (UnbondingPeriod c = 0) PoeErrEmpty ''unbonding period'',
       refuse (uint64_whole_seconds neg (UnbondingPeriod c) \<noteq> UnbondingPeriod c) PoeErrInvalid
         ''unbonding period not convertible to seconds'']"

definition PoEContract_ValidateBasic :: "sdk_ops \<Rightarrow> PoEContract \<Rightarrow> unit res" where
  "PoEContract_ValidateBasic K c =
     bind_res (wrap_res ''address'' (sAccAddressFromBech32 K (pc_Address c))) (\<lambda>_.
     wrap_res ''contract type'' (PoEContractType_ValidateBasic (pc_ContractType c)))"

definition minNameLength :: nat where "minNameLength = 1"
definition maxNameLength :: nat where "maxNameLength = 100"
definition minEscrowAmount :: int where "minEscrowAmount = 999999"

text \<open>The checks that the oversight committee and the arbiter pool have in common, written twice in the code.\<close>

definition circle_checks ::
    "sdk_ops \<Rightarrow> 'd dec_ops \<Rightarrow> string \<Rightarrow> msg_coin \<Rightarrow> 'd VotingRules \<Rightarrow> string \<Rightarrow> unit res list" where
  "circle_checks K D name escrow rules denyList =
     [if length name < minNameLength then failw PoeErrEmpty ''name''
      else if maxNameLength < length name then failw PoeErrInvalid ''name length > %d'' else Ok (),
      refuse_res (Int_LTE K (mc_Amount escrow) (Some minEscrowAmount)) PoeErrInvalid
        ''escrow amount must be greater %d'',
      wrap_res ''voting rules'' (VotingRules_ValidateBasic D rules),
      if denyList \<noteq> [] then
        bind_res (replace_err (Wrapped (Sentinel PoeErrInvalid) ''deny list contract address'')
          (sAccAddressFromBech32 K denyList)) (\<lambda>_. Ok ())
      else Ok ()]"

definition OversightCommitteeContractConfig_ValidateBasic ::
    "sdk_ops \<Rightarrow> 'd dec_ops \<Rightarrow> 'd OversightCommitteeContractConfig \<Rightarrow> unit res" where
  "OversightCommitteeContractConfig_ValidateBasic K D c =
     all_checks (circle_checks K D (oc_Name c) (oc_EscrowAmount c) (oc_VotingRules c) (oc_DenyListContractAddress c))"

definition ArbiterPoolContractConfig_ValidateBasic ::
    "sdk_ops \<Rightarrow> 'd dec_ops \<Rightarrow> (rat \<Rightarrow> uint64) \<Rightarrow> 'd ArbiterPoolContractConfig \<Rightarrow> unit res" where
  "ArbiterPoolContractConfig_ValidateBasic K D neg c =
     all_checks (circle_checks K D (ap_Name c) (ap_EscrowAmount c) (ap_VotingRules c) (ap_DenyListContractAddress c) @
      [refuse (uint64_whole_seconds neg (ap_WaitingPeriod c) \<noteq> ap_WaitingPeriod c) PoeErrInvalid
         ''waiting period not convertible to seconds''])"

definition CommunityPoolContractConfig_ValidateBasic :: "'d dec_ops \<Rightarrow> 'd CommunityPoolContractConfig \<Rightarrow> unit res" where
  "CommunityPoolContractConfig_ValidateBasic D c =
     wrap_res ''voting rules'' (VotingRules_ValidateBasic D (cp_VotingRules c))"

definition ValidatorVotingContractConfig_ValidateBasic ::
    "'d dec_ops \<Rightarrow> 'd ValidatorVotingContractConfig \<Rightarrow> unit res" where
  "ValidatorVotingContractConfig_ValidateBasic D c =
     wrap_res ''voting rules'' (VotingRules_ValidateBasic D (vv_VotingRules c))"

definition TG4Member_ValidateBasic :: "sdk_ops \<Rightarrow> genesis_member \<Rightarrow> unit res" where
  "TG4Member_ValidateBasic K c =
     bind_res (wrap_res ''address'' (sAccAddressFromBech32 K (gm_Address c))) (\<lambda>_.
     if gm_Points c = 0 then failw WasmErrInvalid ''weight'' else Ok ())"

definition nil_or_zero :: "'d dec_ops \<Rightarrow> 'd \<Rightarrow> bool res" where
  "nil_or_zero D x = (if Dec_IsNil D x then Ok True else Dec_IsZero D x)"

definition MixerContractConfig_ValidateBasic :: "'d dec_ops \<Rightarrow> 'd MixerContractConfig option \<Rightarrow> unit res" where
  "MixerContractConfig_ValidateBasic D m =
     (case m of
        None \<Rightarrow> failw WasmErrInvalidGenesis ''empty''
      | Some m \<Rightarrow>
          all_checks
           [refuse (MaxPoints m = 0) PoeErrEmpty ''max rewards'',
            refuse_res (nil_or_zero D (Sigmoid_S m)) PoeErrEmpty ''S'',
            refuse_res (nil_or_zero D (Sigmoid_P m)) PoeErrEmpty ''P''])"

section \<open>Import mode\<close>

fun collect_types :: "sdk_ops \<Rightarrow> PoEContractType list \<Rightarrow> PoEContract list \<Rightarrow> PoEContractType list res" where
  "collect_types K unique [] = Ok unique"
| "collect_types K unique (v # vs) =
     bind_res (wrap_res ''contract %d'' (PoEContract_ValidateBasic K v)) (\<lambda>_.
     if pc_ContractType v \<in> set unique then failw WasmErrDuplicate ''contract type %s''
     else collect_types K (pc_ContractType v # unique) vs)"

definition ImportDump_ValidateBasic :: "sdk_ops \<Rightarrow> PoEContract list \<Rightarrow> unit res" where
  "ImportDump_ValidateBasic K contracts =
     bind_res (collect_types K [] contracts) (\<lambda>uniqueContractTypes.
     if length uniqueContractTypes \<noteq> length PoEContractType_name - 1
     then failw WasmErrInvalidGenesis ''PoE contract(s) missing'' else Ok ())"

section \<open>Seed mode\<close>

text \<open>A decoded genesis transaction has messages of this module or of another one.\<close>

datatype 'a gen_msg = CreateMsg "'a MsgCreateValidator" | OtherMsg

record ('t, 'a) genesis_env =
  txJSONDecoder :: "'t \<Rightarrow> 'a gen_msg list res"
  Any_String :: "'a \<Rightarrow> string"
  negUint64 :: "rat \<Rightarrow> uint64"

fun check_members :: "sdk_ops \<Rightarrow> string list \<Rightarrow> genesis_member list \<Rightarrow> string list res" where
  "check_members K unique [] = Ok unique"
| "check_members K unique (v # vs) =
     bind_res (wrap_res ''contract %d'' (TG4Member_ValidateBasic K v)) (\<lambda>_.
     if gm_Address v \<in> set unique then failw WasmErrDuplicate ''member: %s''
     else check_members K (gm_Address v # unique) vs)"

fun check_gentxs ::
    "sdk_ops \<Rightarrow> ('t, 'a) genesis_env \<Rightarrow> string list \<Rightarrow> string list \<Rightarrow> string list \<Rightarrow> 't list \<Rightarrow> unit res" where
  "check_gentxs K E members operators pubKeys [] = Ok ()"
| "check_gentxs K E members operators pubKeys (v # vs) =
     bind_res (wrap_res ''gentx %d'' (txJSONDecoder E v)) (\<lambda>msgs.
     if length msgs \<noteq> 1 then failw WasmErrInvalidGenesis ''tx with single message required''
     else (case hd msgs of
       OtherMsg \<Rightarrow> Panic ''interface conversion''
     | CreateMsg msg \<Rightarrow>
         bind_res (wrap_res ''gentx %d'' (MsgCreateValidator_ValidateBasic K msg)) (\<lambda>_.
         if cv_OperatorAddress msg \<notin> set members
         then failw WasmErrInvalidGenesis ''gen tx delegator not in engagement group: %q, gentx: %d''
         else if cv_OperatorAddress msg \<in> set operators
         then failw WasmErrInvalidGenesis ''gen tx delegator used already with another gen tx: %q, gentx: %d''
         else (case cv_Pubkey msg of
           None \<Rightarrow> Panic ''nil pointer dereference''
         | Some any \<Rightarrow>
             (let pk = Any_String E any in
              if pk \<in> set pubKeys
              then failw WasmErrInvalidGenesis ''gen tx public key used already with another gen tx: %q, gentx: %d''
              else check_gentxs K E members (cv_OperatorAddress msg # operators) (pk # pubKeys) vs)))))"

fun check_addresses :: "sdk_ops \<Rightarrow> string \<Rightarrow> string \<Rightarrow> string list \<Rightarrow> string list \<Rightarrow> unit res" where
  "check_addresses K wrapMsg dupMsg unique [] = Ok ()"
| "check_addresses K wrapMsg dupMsg unique (member # ms) =
     bind_res (wrap_res wrapMsg (sAccAddressFromBech32 K member)) (\<lambda>_.
     if member \<in> set unique then failw WasmErrDuplicate dupMsg
     else check_addresses K wrapMsg dupMsg (member # unique) ms)"

definition config_check :: "string \<Rightarrow> string \<Rightarrow> ('c \<Rightarrow> unit res) \<Rightarrow> 'c option \<Rightarrow> unit res" where
  "config_check emptyMsg wrapMsg validate c =
     (case c of None \<Rightarrow> failw WasmErrInvalidGenesis emptyMsg | Some v \<Rightarrow> wrap_res wrapMsg (validate v))"

definition validateSeedContracts ::
    "sdk_ops \<Rightarrow> 'd dec_ops \<Rightarrow> ('t, 'a) genesis_env \<Rightarrow> ('t, 'd) SeedContracts \<Rightarrow> unit res" where
  "validateSeedContracts K D E g =
     all_checks
      [refuse (Engagement g = []) WasmErrInvalidGenesis ''empty engagement group'',
       config_check ''empty engagement contract config'' ''engagement contract config''
         EngagementContractConfig_ValidateBasic (sc_Engagement g),
       wrap_res ''bond denom'' (ValidateDenom K (BondDenom g)),
       config_check ''empty valset contract config'' ''valset contract config''
         (ValsetContractConfig_ValidateBasic D) (sc_Valset g),
       config_check ''empty stake contract config'' ''stake contract config''
         (StakeContractConfig_ValidateBasic (negUint64 E)) (sc_Stake g),
       refuse (mc_Denom (EpochReward (the (sc_Valset g))) \<noteq> BondDenom g) WasmErrInvalidGenesis
         ''rewards not in bonded denom'',
       config_check ''empty oversight committee contract config'' ''oversight committee config''
         (OversightCommitteeContractConfig_ValidateBasic K D) (sc_OversightCommittee g),
       config_check ''empty arbiter pool contract config'' ''arbiter pool config''
         (ArbiterPoolContractConfig_ValidateBasic K D (negUint64 E)) (sc_ArbiterPool g),
       refuse (mc_Denom (oc_EscrowAmount (the (sc_OversightCommittee g))) \<noteq> BondDenom g) WasmErrInvalidGenesis
         ''escrow not in bonded denom'',
       config_check ''empty community pool contract config'' ''community pool config''
         (CommunityPoolContractConfig_ValidateBasic D) (sc_CommunityPool g),
       config_check ''empty validator voting contract config'' ''validator voting config''
         (ValidatorVotingContractConfig_ValidateBasic D) (sc_ValidatorVoting g),
       wrap_res ''mixer config'' (MixerContractConfig_ValidateBasic D (sc_Mixer g)),
       bind_res (wrap_res ''bootstrap account address'' (sAccAddressFromBech32 K (BootstrapAccountAddress g))) (\<lambda>_. Ok ()),
       bind_res (check_members K [] (Engagement g)) (\<lambda>members. check_gentxs K E members [] [] (GenTxs g)),
       refuse (OversightCommunityMembers g = []) WasmErrEmpty ''oversight community members'',
       check_addresses K ''oc member address'' ''oc member: %s'' [] (OversightCommunityMembers g),
       refuse (ArbiterPoolMembers g = []) WasmErrEmpty ''arbiter pool members'',
       check_addresses K ''ap member address'' ''ap member: %s'' [] (ArbiterPoolMembers g)]"

definition poe_ValidateGenesis ::
    "sdk_ops \<Rightarrow> 'd dec_ops \<Rightarrow> ('t, 'a) genesis_env \<Rightarrow> ('t, 'd) poe_GenesisState \<Rightarrow> unit res" where
  "poe_ValidateGenesis K D E g =
     bind_res (wrap_res ''params'' (Params_Validate K (gs_Params g))) (\<lambda>_.
     case (GetSeedContracts g, GetImportDump g) of
       (Some _, Some _) \<Rightarrow> failw WasmErrInvalidGenesis ''both seed and import data setup''
     | (None, None) \<Rightarrow> failw WasmErrInvalidGenesis ''neither seed or import data setup''
     | (Some s, None) \<Rightarrow> wrap_res ''seed contracts'' (validateSeedContracts K D E s)
     | (None, Some d) \<Rightarrow> wrap_res ''import dump'' (ImportDump_ValidateBasic K d))"

section \<open>The default state\<close>

definition DefaultBondDenom :: string where
  "DefaultBondDenom = ''ufury''"

definition bond_coin :: "int \<Rightarrow> msg_coin" where
  "bond_coin n = \<lparr>mc_Denom = DefaultBondDenom, mc_Amount = Some n\<rparr>"

text \<open>
  \<open>powerReduction\<close> is \<open>sdk.DefaultPowerReduction\<close>, \<open>rnd\<close> the random bytes of the bootstrap address.
\<close>

definition poe_DefaultGenesisState ::
    "sdk_ops \<Rightarrow> 'd dec_ops \<Rightarrow> uint64 \<Rightarrow> addr \<Rightarrow> ('t, 'd) poe_GenesisState" where
  "poe_DefaultGenesisState K D powerReduction rnd =
     \<lparr>gs_Params = poe_DefaultParams,
      gs_SetupMode = SeedMode (Some
       \<lparr>GenTxs = [], BootstrapAccountAddress = sAddrString K rnd, Engagement = [],
        sc_Stake = Some \<lparr>MinBond = 1, TokensPerPoint = powerReduction, UnbondingPeriod = Hour * 21 * 24,
          ClaimAutoreturnLimit = 20\<rparr>,
        sc_Valset = Some \<lparr>MinPoints = 1, MaxValidators = 100, EpochLength = 60 * Second,
          EpochReward = bond_coin 100000, Scaling = 1, FeePercentage = dNewDec D 50,
          CommunityPoolRewardRatio = MustNewDecFromStr D ''5'', EngagementRewardRatio = MustNewDecFromStr D ''47.5'',
          ValidatorRewardRatio = MustNewDecFromStr D ''47.5'', AutoUnjail = False,
          DoubleSignSlashRatio = dNewDec D 50, VerifyValidators = False, OfflineJailDuration = 24 * Hour\<rparr>,
        sc_Engagement = Some \<lparr>Halflife = 180 * 24 * Hour\<rparr>,
        BondDenom = DefaultBondDenom,
        sc_OversightCommittee = Some \<lparr>oc_Name = ''Oversight Community'', oc_EscrowAmount = bond_coin 1000000,
          oc_VotingRules = \<lparr>VotingPeriod = 30, Quorum = dNewDec D 51, Threshold = dNewDec D 55, AllowEndEarly = True\<rparr>,
          oc_DenyListContractAddress = []\<rparr>,
        sc_CommunityPool = Some \<lparr>cp_VotingRules =
          \<lparr>VotingPeriod = 21, Quorum = dNewDec D 10, Threshold = dNewDec D 60, AllowEndEarly = True\<rparr>\<rparr>,
        sc_ValidatorVoting = Some \<lparr>vv_VotingRules =
          \<lparr>VotingPeriod = 14, Quorum = dNewDec D 40, Threshold = dNewDec D 66, AllowEndEarly = True\<rparr>\<rparr>,
        OversightCommunityMembers = [], ArbiterPoolMembers = [],
        sc_ArbiterPool = Some \<lparr>ap_Name = ''Arbiter Pool'', ap_EscrowAmount = bond_coin 1000000,
          ap_VotingRules = \<lparr>VotingPeriod = 30, Quorum = dNewDec D 51, Threshold = dNewDec D 55, AllowEndEarly = True\<rparr>,
          ap_DenyListContractAddress = [], ap_DisputeCost = bond_coin 1000000, ap_WaitingPeriod = 0\<rparr>,
        sc_Mixer = Some \<lparr>MaxPoints = 1000000, Sigmoid_P = MustNewDecFromStr D ''0.62'',
          Sigmoid_S = MustNewDecFromStr D ''0.00001''\<rparr>\<rparr>)\<rparr>"

section \<open>What the validations accept\<close>

lemma collect_types_Ok:
  "collect_types K unique cs = Ok r \<longleftrightarrow>
     (\<forall>c \<in> set cs. PoEContract_ValidateBasic K c = Ok ()) \<and> distinct (map pc_ContractType cs) \<and>
     set (map pc_ContractType cs) \<inter> set unique = {} \<and> r = rev (map pc_ContractType cs) @ unique"
  by (induction cs arbitrary: unique) (auto simp: bind_res_Ok_iff split: if_splits)

lemma PoEContract_valid_iff:
  "PoEContract_ValidateBasic K c = Ok () \<longleftrightarrow>
     (\<exists>a. sAccAddressFromBech32 K (pc_Address c) = Ok a) \<and> pc_ContractType c \<in> {1..11}"
  by (simp add: PoEContract_ValidateBasic_def bind_res_Ok_iff PoEContractType_valid_iff)

lemma ImportDump_valid_iff:
  "ImportDump_ValidateBasic K cs = Ok () \<longleftrightarrow>
     (\<forall>c \<in> set cs. \<exists>a. sAccAddressFromBech32 K (pc_Address c) = Ok a) \<and>
     distinct (map pc_ContractType cs) \<and> set (map pc_ContractType cs) = {1..11}"
proof -
  have len: "length PoEContractType_name = 12" by (simp add: PoEContractType_name_def)
  have card: "set (map pc_ContractType cs) = {1..11} \<longleftrightarrow> length cs = 11"
    if "distinct (map pc_ContractType cs)" and "\<forall>c \<in> set cs. pc_ContractType c \<in> {1..11}"
  proof -
    have sub: "set (map pc_ContractType cs) \<subseteq> {1..11}" using that(2) by auto
    have "card (set (map pc_ContractType cs)) = length cs" using distinct_card [OF that(1)] by simp
    moreover have "card {1..11 :: int} = 11" by simp
    ultimately show ?thesis using sub by (metis card_subset_eq finite_atLeastAtMost_int)
  qed
  have sub: "\<forall>c \<in> set cs. pc_ContractType c \<in> {1..11}" if "set (map pc_ContractType cs) = {1..11}"
    using that by auto
  have "ImportDump_ValidateBasic K cs = Ok () \<longleftrightarrow>
      (\<forall>c \<in> set cs. PoEContract_ValidateBasic K c = Ok ()) \<and> distinct (map pc_ContractType cs) \<and> length cs = 11"
    by (simp add: ImportDump_ValidateBasic_def bind_res_Ok_iff collect_types_Ok len)
  then show ?thesis unfolding PoEContract_valid_iff using card sub by blast
qed

lemma check_members_Ok:
  "check_members K unique vs = Ok r \<longleftrightarrow>
     (\<forall>v \<in> set vs. TG4Member_ValidateBasic K v = Ok ()) \<and> distinct (map gm_Address vs) \<and>
     set (map gm_Address vs) \<inter> set unique = {} \<and> r = rev (map gm_Address vs) @ unique"
  by (induction vs arbitrary: unique) (auto simp: bind_res_Ok_iff split: if_splits)

lemma check_addresses_Ok:
  "check_addresses K w d unique ms = Ok () \<longleftrightarrow>
     (\<forall>m \<in> set ms. \<exists>a. sAccAddressFromBech32 K m = Ok a) \<and> distinct ms \<and> set ms \<inter> set unique = {}"
  by (induction ms arbitrary: unique) (auto simp: bind_res_Ok_iff split: if_splits)

text \<open>The messages of genesis transactions: each transaction holds one, of this module.\<close>

definition gentx_msg :: "('t, 'a) genesis_env \<Rightarrow> 't \<Rightarrow> 'a MsgCreateValidator option" where
  "gentx_msg E t = (case txJSONDecoder E t of Ok [CreateMsg m] \<Rightarrow> Some m | _ \<Rightarrow> None)"

lemma gentx_msg_Some: "gentx_msg E t = Some m \<longleftrightarrow> txJSONDecoder E t = Ok [CreateMsg m]"
  by (auto simp: gentx_msg_def split: res.splits list.splits gen_msg.splits)

lemma check_gentxs_Ok:
  "check_gentxs K E members ops pks ts = Ok () \<longleftrightarrow>
     (\<exists>ms. map (gentx_msg E) ts = map Some ms \<and>
        (\<forall>m \<in> set ms. MsgCreateValidator_ValidateBasic K m = Ok () \<and> cv_Pubkey m \<noteq> None \<and>
           cv_OperatorAddress m \<in> set members) \<and>
        distinct (map cv_OperatorAddress ms) \<and> set (map cv_OperatorAddress ms) \<inter> set ops = {} \<and>
        distinct (map (\<lambda>m. Any_String E (the (cv_Pubkey m))) ms) \<and>
        set (map (\<lambda>m. Any_String E (the (cv_Pubkey m))) ms) \<inter> set pks = {})"
proof (induction ts arbitrary: ops pks)
  case Nil
  show ?case by simp
next
  case (Cons t ts)
  show ?case
  proof (cases "gentx_msg E t")
    case None
    then have "\<And>m. txJSONDecoder E t \<noteq> Ok [CreateMsg m]" by (metis gentx_msg_Some option.distinct(1))
    then have "check_gentxs K E members ops pks (t # ts) \<noteq> Ok ()"
      by (auto simp: bind_res_Ok_iff length_Suc_conv split: if_splits gen_msg.splits)
    with None show ?thesis by (auto simp: Cons_eq_map_conv)
  next
    case (Some m)
    then have dec: "txJSONDecoder E t = Ok [CreateMsg m]" by (simp add: gentx_msg_Some)
    have step: "check_gentxs K E members ops pks (t # ts) = Ok () \<longleftrightarrow>
      MsgCreateValidator_ValidateBasic K m = Ok () \<and> cv_OperatorAddress m \<in> set members \<and>
      cv_OperatorAddress m \<notin> set ops \<and> cv_Pubkey m \<noteq> None \<and> Any_String E (the (cv_Pubkey m)) \<notin> set pks \<and>
      check_gentxs K E members (cv_OperatorAddress m # ops) (Any_String E (the (cv_Pubkey m)) # pks) ts = Ok ()"
      by (auto simp: dec bind_res_Ok_iff Let_def split: option.splits if_splits)
    have ex: "(\<exists>ms. map (gentx_msg E) (t # ts) = map Some ms \<and> P ms) \<longleftrightarrow>
      (\<exists>ms. map (gentx_msg E) ts = map Some ms \<and> P (m # ms))" for P
      using Some by (auto simp: Cons_eq_map_conv)
    show ?thesis unfolding step Cons.IH ex by fastforce
  qed
qed

lemma dec_lawsD:
  assumes "dec_laws val D"
  shows "\<not> Dec_IsNil D x \<Longrightarrow> Dec_IsZero D x = Ok (val x = 0)"
    and "\<not> Dec_IsNil D x \<Longrightarrow> \<not> Dec_IsNil D y \<Longrightarrow> Dec_LT D x y = Ok (val x < val y)"
    and "\<not> Dec_IsNil D x \<Longrightarrow> \<not> Dec_IsNil D y \<Longrightarrow> Dec_GT D x y = Ok (val y < val x)"
    and "\<not> Dec_IsNil D x \<Longrightarrow> \<not> Dec_IsNil D y \<Longrightarrow> Dec_Equal D x y = Ok (val x = val y)"
    and "\<not> Dec_IsNil D x \<Longrightarrow> \<not> Dec_IsNil D y \<Longrightarrow> \<bar>val x\<bar> \<le> 10 ^ 70 \<Longrightarrow> \<bar>val y\<bar> \<le> 10 ^ 70 \<Longrightarrow>
      \<exists>z. Dec_Add D x y = Ok z \<and> \<not> Dec_IsNil D z \<and> val z = val x + val y"
    and "\<not> Dec_IsNil D (dNewDec D n)" "val (dNewDec D n) = of_int n"
    and "\<not> Dec_IsNil D (OneDec D)" "val (OneDec D) = 1"
    and "\<not> Dec_IsNil D (NewDecFromIntWithPrec D 1 16)" "val (NewDecFromIntWithPrec D 1 16) = 1 / 10 ^ 16"
proof -
  show "\<not> Dec_IsNil D (NewDecFromIntWithPrec D 1 16)" "val (NewDecFromIntWithPrec D 1 16) = 1 / 10 ^ 16"
    using assms unfolding dec_laws_def by (metis (no_types, lifting) of_int_1 numeral_le_iff semiring_norm(68,69,71,72,73))+
qed (use assms in \<open>unfold dec_laws_def; blast\<close>)+

lemma VotingRules_valid_iff:
  assumes D: "dec_laws val D"
  shows "VotingRules_ValidateBasic D v = Ok () \<longleftrightarrow>
    VotingPeriod v \<noteq> 0 \<and> \<not> Dec_IsNil D (Quorum v) \<and> 1 \<le> val (Quorum v) \<and> val (Quorum v) \<le> 100 \<and>
    \<not> Dec_IsNil D (Threshold v) \<and> 50 \<le> val (Threshold v) \<and> val (Threshold v) \<le> 100"
  by (cases "Dec_IsNil D (Quorum v)"; cases "Dec_IsNil D (Threshold v)")
    (auto simp: VotingRules_ValidateBasic_def all_checks_Ok dec_lawsD [OF D])

text \<open>The sum of the three ratios is computed exactly.\<close>

lemma total_ratio:
  assumes D: "dec_laws val D" and n: "\<not> Dec_IsNil D x" "\<not> Dec_IsNil D y" "\<not> Dec_IsNil D z"
    and b: "\<bar>val x\<bar> \<le> 10 ^ 69" "\<bar>val y\<bar> \<le> 10 ^ 69" "\<bar>val z\<bar> \<le> 10 ^ 69"
  shows "bind_res (Dec_Add D x y) (\<lambda>t. bind_res (Dec_Add D t z) (\<lambda>s. bind_res (Dec_Equal D s (dNewDec D 100)) (\<lambda>e. Ok (\<not> e))))
    = Ok (val x + val y + val z \<noteq> 100)"
proof -
  have b': "\<bar>val x\<bar> \<le> 10 ^ 70" "\<bar>val y\<bar> \<le> 10 ^ 70" "\<bar>val z\<bar> \<le> 10 ^ 70" "\<bar>val x + val y\<bar> \<le> 10 ^ 70"
    using b by (simp_all add: abs_le_iff)
  obtain t where t: "Dec_Add D x y = Ok t" "\<not> Dec_IsNil D t" "val t = val x + val y"
    using dec_lawsD(5) [OF D n(1,2) b'(1,2)] by blast
  obtain s where s: "Dec_Add D t z = Ok s" "\<not> Dec_IsNil D s" "val s = val x + val y + val z"
    using dec_lawsD(5) [OF D t(2) n(3)] b'(3,4) t(3) by auto
  show ?thesis using t(1) s by (simp add: dec_lawsD [OF D])
qed

definition ratios :: "'d ValsetContractConfig \<Rightarrow> 'd list" where
  "ratios c = [EngagementRewardRatio c, CommunityPoolRewardRatio c, ValidatorRewardRatio c]"

lemma ValsetConfig_valid_iff:
  assumes D: "dec_laws val D" and n: "\<forall>r \<in> set (ratios c). \<not> Dec_IsNil D r \<and> \<bar>val r\<bar> \<le> 10 ^ 69"
    and f: "\<not> Dec_IsNil D (FeePercentage c)" and d: "in_int64 (EpochLength c)" "in_int64 (OfflineJailDuration c)"
  shows "ValsetContractConfig_ValidateBasic D c = Ok () \<longleftrightarrow>
    \<not> VerifyValidators c \<and> MaxValidators c \<noteq> 0 \<and> EpochLength c \<noteq> 0 \<and> Second dvd EpochLength c \<and> Scaling c \<noteq> 0 \<and>
    (\<forall>r \<in> set (ratios c). val r \<le> 100) \<and> sum_list (map val (ratios c)) = 100 \<and>
    1 / 10 ^ 16 \<le> val (FeePercentage c) \<and> OfflineJailDuration c \<noteq> 0 \<and> Second dvd OfflineJailDuration c"
proof -
  have w: "EpochLength c \<noteq> whole_seconds (EpochLength c) \<longleftrightarrow> \<not> Second dvd EpochLength c"
    "OfflineJailDuration c \<noteq> whole_seconds (OfflineJailDuration c) \<longleftrightarrow> \<not> Second dvd OfflineJailDuration c"
    using whole_seconds_iff d by metis+
  have nn: "\<not> Dec_IsNil D (EngagementRewardRatio c)" "\<not> Dec_IsNil D (CommunityPoolRewardRatio c)"
    "\<not> Dec_IsNil D (ValidatorRewardRatio c)" and bb: "\<bar>val (EngagementRewardRatio c)\<bar> \<le> 10 ^ 69"
    "\<bar>val (CommunityPoolRewardRatio c)\<bar> \<le> 10 ^ 69" "\<bar>val (ValidatorRewardRatio c)\<bar> \<le> 10 ^ 69"
    using n by (simp_all add: ratios_def)
  note tot = total_ratio [OF D nn bb]
  show ?thesis
    unfolding ValsetContractConfig_ValidateBasic_def Let_def all_checks_Ok w tot
    using nn f by (auto simp: dec_lawsD [OF D] ratios_def add.assoc not_less)
qed

lemma config_check_Ok [simp]: "config_check em wm f c = Ok () \<longleftrightarrow> (\<exists>v. c = Some v \<and> f v = Ok ())"
  by (cases c) (simp_all add: config_check_def)

text \<open>What the genesis transactions of a seed have to be.\<close>

definition gentxs_ok :: "sdk_ops \<Rightarrow> ('t, 'a) genesis_env \<Rightarrow> ('t, 'd) SeedContracts \<Rightarrow> bool" where
  "gentxs_ok K E g \<longleftrightarrow>
     (\<exists>ms. map (gentx_msg E) (GenTxs g) = map Some ms \<and>
        (\<forall>m \<in> set ms. MsgCreateValidator_ValidateBasic K m = Ok () \<and> cv_Pubkey m \<noteq> None \<and>
           cv_OperatorAddress m \<in> gm_Address ` set (Engagement g)) \<and>
        distinct (map cv_OperatorAddress ms) \<and> distinct (map (\<lambda>m. Any_String E (the (cv_Pubkey m))) ms))"

lemma members_gentxs_Ok:
  "bind_res (check_members K [] (Engagement g)) (\<lambda>members. check_gentxs K E members [] [] (GenTxs g)) = Ok () \<longleftrightarrow>
     (\<forall>v \<in> set (Engagement g). TG4Member_ValidateBasic K v = Ok ()) \<and> distinct (map gm_Address (Engagement g)) \<and>
     gentxs_ok K E g"
  unfolding bind_res_Ok_iff check_members_Ok check_gentxs_Ok gentxs_ok_def by auto

text \<open>What an accepted seed is, check by check.\<close>

lemma seed_valid_iff:
  "validateSeedContracts K D E g = Ok () \<longleftrightarrow>
     Engagement g \<noteq> [] \<and> ValidateDenom K (BondDenom g) = Ok () \<and>
     (\<exists>c. sc_Engagement g = Some c \<and> EngagementContractConfig_ValidateBasic c = Ok ()) \<and>
     (\<exists>c. sc_Valset g = Some c \<and> ValsetContractConfig_ValidateBasic D c = Ok () \<and> mc_Denom (EpochReward c) = BondDenom g) \<and>
     (\<exists>c. sc_Stake g = Some c \<and> StakeContractConfig_ValidateBasic (negUint64 E) c = Ok ()) \<and>
     (\<exists>c. sc_OversightCommittee g = Some c \<and> OversightCommitteeContractConfig_ValidateBasic K D c = Ok () \<and>
        mc_Denom (oc_EscrowAmount c) = BondDenom g) \<and>
     (\<exists>c. sc_ArbiterPool g = Some c \<and> ArbiterPoolContractConfig_ValidateBasic K D (negUint64 E) c = Ok ()) \<and>
     (\<exists>c. sc_CommunityPool g = Some c \<and> CommunityPoolContractConfig_ValidateBasic D c = Ok ()) \<and>
     (\<exists>c. sc_ValidatorVoting g = Some c \<and> ValidatorVotingContractConfig_ValidateBasic D c = Ok ()) \<and>
     MixerContractConfig_ValidateBasic D (sc_Mixer g) = Ok () \<and>
     (\<exists>a. sAccAddressFromBech32 K (BootstrapAccountAddress g) = Ok a) \<and>
     (\<forall>v \<in> set (Engagement g). TG4Member_ValidateBasic K v = Ok ()) \<and> distinct (map gm_Address (Engagement g)) \<and>
     gentxs_ok K E g \<and>
     OversightCommunityMembers g \<noteq> [] \<and> distinct (OversightCommunityMembers g) \<and>
     (\<forall>m \<in> set (OversightCommunityMembers g). \<exists>a. sAccAddressFromBech32 K m = Ok a) \<and>
     ArbiterPoolMembers g \<noteq> [] \<and> distinct (ArbiterPoolMembers g) \<and>
     (\<forall>m \<in> set (ArbiterPoolMembers g). \<exists>a. sAccAddressFromBech32 K m = Ok a)"
  unfolding validateSeedContracts_def all_checks_Ok list.set ball_simps(5,7) members_gentxs_Ok check_addresses_Ok
    config_check_Ok refuse_Ok
  by (auto simp: bind_res_Ok_iff [of "wrap_res _ _"])

section \<open>A sample environment\<close>

text \<open>Decimals are rational numbers, nil is \<open>None\<close>.\<close>

definition sample_dec :: "rat option dec_ops" where
  "sample_dec =
     \<lparr>Dec_IsNil = (\<lambda>x. case x of None \<Rightarrow> True | Some r \<Rightarrow> False),
      Dec_IsZero = (\<lambda>x. case x of None \<Rightarrow> Panic ''nil'' | Some r \<Rightarrow> Ok (r = 0)),
      Dec_LT = (\<lambda>x y. case (x, y) of (Some r, Some s) \<Rightarrow> Ok (r < s) | _ \<Rightarrow> Panic ''nil''),
      Dec_GT = (\<lambda>x y. case (x, y) of (Some r, Some s) \<Rightarrow> Ok (s < r) | _ \<Rightarrow> Panic ''nil''),
      Dec_Equal = (\<lambda>x y. case (x, y) of (Some r, Some s) \<Rightarrow> Ok (r = s) | _ \<Rightarrow> Panic ''nil''),
      Dec_Add = (\<lambda>x y. case (x, y) of (Some r, Some s) \<Rightarrow> Ok (Some (r + s)) | _ \<Rightarrow> Panic ''nil''),
      dNewDec = (\<lambda>n. Some (of_int n)), OneDec = Some 1,
      NewDecFromIntWithPrec = (\<lambda>n p. Some (of_int n / 10 ^ p)),
      MustNewDecFromStr = (\<lambda>s. if s = ''5'' then Some 5 else if s = ''47.5'' then Some (95 / 2)
        else if s = ''0.62'' then Some (62 / 100) else Some (1 / 100000))\<rparr>"

lemma sample_dec_laws: "dec_laws the sample_dec"
  by (auto simp: dec_laws_def sample_dec_def split: option.splits)

definition sample_genesis_env :: "(unit, string) genesis_env" where
  "sample_genesis_env =
     \<lparr>txJSONDecoder = (\<lambda>_. Err (Sentinel (ExternalErr ''invalid tx''))), Any_String = (\<lambda>s. s), negUint64 = (\<lambda>_. 0)\<rparr>"

definition sample_seed :: "(unit, rat option) SeedContracts" where
  "sample_seed =
     (the (GetSeedContracts (poe_DefaultGenesisState sample_sdk sample_dec 1000000 [1])))
       \<lparr>Engagement := [\<lparr>gm_Address = ''furya1'', gm_Points = 5\<rparr>],
        OversightCommunityMembers := [''furya1''], ArbiterPoolMembers := [''furya1'']\<rparr>"

lemma sample_seed_valid:
  "validateSeedContracts sample_sdk sample_dec sample_genesis_env sample_seed = Ok ()"
proof -
  have vs: "ValsetContractConfig_ValidateBasic sample_dec (the (sc_Valset sample_seed)) = Ok ()"
    by (rule ValsetConfig_valid_iff [OF sample_dec_laws, THEN iffD2])
      (simp_all add: sample_seed_def poe_DefaultGenesisState_def GetSeedContracts_def ratios_def in_int64_def sample_dec_def)
  have us: "uint64_whole_seconds (\<lambda>_. 0) (Hour * 21 * 24) = Hour * 21 * 24" "uint64_whole_seconds (\<lambda>_. 0) 0 = 0"
    using uint64_whole_seconds_nonneg [of "Hour * 21 * 24"] whole_seconds_iff [of "Hour * 21 * 24"]
      uint64_whole_seconds_nonneg [of 0] whole_seconds_iff [of 0]
    by (simp_all add: in_int64_def)
  note seed = sample_seed_def poe_DefaultGenesisState_def GetSeedContracts_def
  have "EngagementContractConfig_ValidateBasic (the (sc_Engagement sample_seed)) = Ok ()"
    by (simp add: seed EngagementContractConfig_ValidateBasic_def Duration_Truncate_eq_iff)
  moreover have "StakeContractConfig_ValidateBasic (negUint64 sample_genesis_env) (the (sc_Stake sample_seed)) = Ok ()"
    using us by (simp add: seed StakeContractConfig_ValidateBasic_def all_checks_Ok sample_genesis_env_def)
  moreover have rules: "VotingRules_ValidateBasic sample_dec (oc_VotingRules (the (sc_OversightCommittee sample_seed))) = Ok ()"
    "VotingRules_ValidateBasic sample_dec (ap_VotingRules (the (sc_ArbiterPool sample_seed))) = Ok ()"
    "VotingRules_ValidateBasic sample_dec (cp_VotingRules (the (sc_CommunityPool sample_seed))) = Ok ()"
    "VotingRules_ValidateBasic sample_dec (vv_VotingRules (the (sc_ValidatorVoting sample_seed))) = Ok ()"
    unfolding VotingRules_valid_iff [OF sample_dec_laws] by (simp_all add: seed sample_dec_def)
  moreover have "OversightCommitteeContractConfig_ValidateBasic sample_sdk sample_dec
      (the (sc_OversightCommittee sample_seed)) = Ok ()"
    using rules(1) by (simp add: seed OversightCommitteeContractConfig_ValidateBasic_def all_checks_Ok circle_checks_def
      minNameLength_def maxNameLength_def minEscrowAmount_def sample_sdk_def bond_coin_def)
  moreover have "ArbiterPoolContractConfig_ValidateBasic sample_sdk sample_dec (negUint64 sample_genesis_env)
      (the (sc_ArbiterPool sample_seed)) = Ok ()"
    using rules(2) us(2) by (simp add: seed ArbiterPoolContractConfig_ValidateBasic_def all_checks_Ok circle_checks_def
      minNameLength_def maxNameLength_def minEscrowAmount_def sample_sdk_def bond_coin_def sample_genesis_env_def)
  moreover have "MixerContractConfig_ValidateBasic sample_dec (sc_Mixer sample_seed) = Ok ()"
    by (simp add: seed MixerContractConfig_ValidateBasic_def all_checks_Ok nil_or_zero_def sample_dec_def)
  moreover have "ValidateDenom sample_sdk (BondDenom sample_seed) = Ok ()"
    "\<And>s. s \<noteq> [] \<Longrightarrow> \<exists>a. sAccAddressFromBech32 sample_sdk s = Ok a" "BootstrapAccountAddress sample_seed \<noteq> []"
    "TG4Member_ValidateBasic sample_sdk \<lparr>gm_Address = ''furya1'', gm_Points = 5\<rparr> = Ok ()"
    by (simp_all add: seed sample_sdk_def DefaultBondDenom_def bytes_string_def TG4Member_ValidateBasic_def)
  moreover have "gentxs_ok sample_sdk sample_genesis_env sample_seed" by (simp add: gentxs_ok_def seed)
  ultimately show ?thesis
    unfolding seed_valid_iff using vs
    by (simp add: seed CommunityPoolContractConfig_ValidateBasic_def ValidatorVotingContractConfig_ValidateBasic_def
      bond_coin_def)
qed

section \<open>Properties\<close>

text \<open>
  A dump of contracts is accepted exactly when every address decodes and the dump holds each of
  the eleven kinds of PoE contracts exactly once.
\<close>

lemma import_dump_valid_iff:
  "ImportDump_ValidateBasic K cs = Ok () \<longleftrightarrow>
     (\<forall>c \<in> set cs. \<exists>a. sAccAddressFromBech32 K (pc_Address c) = Ok a) \<and>
     distinct (map pc_ContractType cs) \<and> set (map pc_ContractType cs) = {t. PoEContractType_ValidateBasic t = Ok ()}"
proof -
  have "{t. PoEContractType_ValidateBasic t = Ok ()} = {1..11}" by (auto simp: PoEContractType_valid_iff)
  then show ?thesis by (simp only: ImportDump_valid_iff)
qed

definition sample_dump :: "PoEContract list" where
  "sample_dump = map (\<lambda>t. \<lparr>pc_ContractType = t, pc_Address = ''furya1''\<rparr>) [1, 2, 3, 4, 5, 6, 7, 8, 9, 10, 11]"

lemma import_dump_valid_iff_sample:
  "ImportDump_ValidateBasic sample_sdk sample_dump = Ok () \<and>
   ImportDump_ValidateBasic sample_sdk (tl sample_dump) \<noteq> Ok ()"
proof
  show "ImportDump_ValidateBasic sample_sdk sample_dump = Ok ()"
  proof (rule import_dump_valid_iff [THEN iffD2], intro conjI)
    show "set (map pc_ContractType sample_dump) = {t. PoEContractType_ValidateBasic t = Ok ()}"
      unfolding PoEContractType_valid_iff set_eq_iff mem_Collect_eq
      by (simp add: sample_dump_def) arith
  qed (simp_all add: sample_dump_def sample_sdk_def)
  show "ImportDump_ValidateBasic sample_sdk (tl sample_dump) \<noteq> Ok ()"
  proof
    assume "ImportDump_ValidateBasic sample_sdk (tl sample_dump) = Ok ()"
    then have "set (map pc_ContractType (tl sample_dump)) = {t. PoEContractType_ValidateBasic t = Ok ()}"
      using import_dump_valid_iff by blast
    then have "1 \<in> set (map pc_ContractType (tl sample_dump))" by (simp add: PoEContractType_valid_iff)
    then show False by (simp add: sample_dump_def)
  qed
qed

text \<open>
  Voting rules are accepted exactly when the voting period is not zero, the quorum is set and
  between 1 and 100, and the threshold is set and between 50 and 100 (percent).
\<close>

lemma voting_rules_valid_iff:
  assumes D: "dec_laws val D"
  shows "VotingRules_ValidateBasic D v = Ok () \<longleftrightarrow>
    VotingPeriod v \<noteq> 0 \<and> \<not> Dec_IsNil D (Quorum v) \<and> 1 \<le> val (Quorum v) \<and> val (Quorum v) \<le> 100 \<and>
    \<not> Dec_IsNil D (Threshold v) \<and> 50 \<le> val (Threshold v) \<and> val (Threshold v) \<le> 100"
  by (rule VotingRules_valid_iff [OF D])

lemma voting_rules_valid_iff_sample:
  "VotingRules_ValidateBasic sample_dec
     \<lparr>VotingPeriod = 1, Quorum = Some (1 / 2), Threshold = Some 50, AllowEndEarly = True\<rparr> \<noteq> Ok ()"
  by (simp add: voting_rules_valid_iff [OF sample_dec_laws])

text \<open>
  A configuration of the validator set contract whose decimals are set and of moderate size is
  accepted exactly when the validators are not verified, the number of validators and the scaling
  are not zero, both durations are non-zero multiples of a second, no reward ratio is above 100 and
  their sum is 100, and the fee percentage is at least \<open>10^-16\<close>. Negative ratios and negative
  durations pass.
\<close>

lemma valset_config_valid_iff:
  assumes D: "dec_laws val D" and n: "\<forall>r \<in> set (ratios c). \<not> Dec_IsNil D r \<and> \<bar>val r\<bar> \<le> 10 ^ 69"
    and f: "\<not> Dec_IsNil D (FeePercentage c)" and d: "in_int64 (EpochLength c)" "in_int64 (OfflineJailDuration c)"
  shows "ValsetContractConfig_ValidateBasic D c = Ok () \<longleftrightarrow>
    \<not> VerifyValidators c \<and> MaxValidators c \<noteq> 0 \<and> EpochLength c \<noteq> 0 \<and> Second dvd EpochLength c \<and> Scaling c \<noteq> 0 \<and>
    (\<forall>r \<in> set (ratios c). val r \<le> 100) \<and> sum_list (map val (ratios c)) = 100 \<and>
    1 / 10 ^ 16 \<le> val (FeePercentage c) \<and> OfflineJailDuration c \<noteq> 0 \<and> Second dvd OfflineJailDuration c"
  by (rule ValsetConfig_valid_iff [OF D n f d])

lemma valset_config_valid_iff_sample:
  "ValsetContractConfig_ValidateBasic sample_dec
     ((the (sc_Valset sample_seed))\<lparr>EngagementRewardRatio := Some (- 50), CommunityPoolRewardRatio := Some 50,
       ValidatorRewardRatio := Some 100, EpochLength := - Second\<rparr>) = Ok ()"
  by (rule valset_config_valid_iff [OF sample_dec_laws, THEN iffD2])
    (simp_all add: sample_seed_def poe_DefaultGenesisState_def GetSeedContracts_def ratios_def in_int64_def sample_dec_def)

text \<open>
  The seed of a chain is accepted exactly when every contract is configured and its configuration
  accepted, epoch reward and oversight committee escrow are in the bond denomination, the engagement
  members are valid and listed once, every genesis transaction is one valid message that creates a
  validator for an engagement member, with no operator and no public key used twice, and the members
  of oversight committee and arbiter pool are non-empty lists of addresses without repetition.
\<close>

lemma seed_contracts_valid_iff:
  "validateSeedContracts K D E g = Ok () \<longleftrightarrow>
     Engagement g \<noteq> [] \<and> ValidateDenom K (BondDenom g) = Ok () \<and>
     (\<exists>c. sc_Engagement g = Some c \<and> EngagementContractConfig_ValidateBasic c = Ok ()) \<and>
     (\<exists>c. sc_Valset g = Some c \<and> ValsetContractConfig_ValidateBasic D c = Ok () \<and> mc_Denom (EpochReward c) = BondDenom g) \<and>
     (\<exists>c. sc_Stake g = Some c \<and> StakeContractConfig_ValidateBasic (negUint64 E) c = Ok ()) \<and>
     (\<exists>c. sc_OversightCommittee g = Some c \<and> OversightCommitteeContractConfig_ValidateBasic K D c = Ok () \<and>
        mc_Denom (oc_EscrowAmount c) = BondDenom g) \<and>
     (\<exists>c. sc_ArbiterPool g = Some c \<and> ArbiterPoolContractConfig_ValidateBasic K D (negUint64 E) c = Ok ()) \<and>
     (\<exists>c. sc_CommunityPool g = Some c \<and> CommunityPoolContractConfig_ValidateBasic D c = Ok ()) \<and>
     (\<exists>c. sc_ValidatorVoting g = Some c \<and> ValidatorVotingContractConfig_ValidateBasic D c = Ok ()) \<and>
     MixerContractConfig_ValidateBasic D (sc_Mixer g) = Ok () \<and>
     (\<exists>a. sAccAddressFromBech32 K (BootstrapAccountAddress g) = Ok a) \<and>
     (\<forall>v \<in> set (Engagement g). TG4Member_ValidateBasic K v = Ok ()) \<and> distinct (map gm_Address (Engagement g)) \<and>
     gentxs_ok K E g \<and>
     OversightCommunityMembers g \<noteq> [] \<and> distinct (OversightCommunityMembers g) \<and>
     (\<forall>m \<in> set (OversightCommunityMembers g). \<exists>a. sAccAddressFromBech32 K m = Ok a) \<and>
     ArbiterPoolMembers g \<noteq> [] \<and> distinct (ArbiterPoolMembers g) \<and>
     (\<forall>m \<in> set (ArbiterPoolMembers g). \<exists>a. sAccAddressFromBech32 K m = Ok a)"
  by (rule seed_valid_iff)

lemma seed_contracts_valid_iff_sample:
  "validateSeedContracts sample_sdk sample_dec sample_genesis_env sample_seed = Ok ()"
  by (rule seed_contracts_valid_iff [THEN iffD2]) (rule sample_seed_valid [unfolded seed_valid_iff])

end
