(* ===== verification/ContractJson.thy ===== *)
theory ContractJson
  imports GoJson GoStrings
begin

text \<open>
  Further parts of \<open>encoding/json\<close> that the contract adapters use: the bytes of a response, slices,
  flags and quoted numbers on the decoding side, and the encoding of messages as JSON values.
\<close>

section \<open>Responses\<close>

text \<open>The bytes a contract returns: none at all, no JSON text, or a JSON value.\<close>

datatype raw_json = RawEmpty | RawInvalid | RawJson json

definition json_Unmarshal :: "'a decoder \<Rightarrow> raw_json \<Rightarrow> 'a \<Rightarrow> 'a res" where
  "json_Unmarshal d raw v =
     (case raw of
        RawEmpty \<Rightarrow> fail (PlainErr ''unexpected end of JSON input'')
      | RawInvalid \<Rightarrow> fail (PlainErr ''invalid character'')
      | RawJson j \<Rightarrow> d j v)"

section \<open>Decoders\<close>

definition dec_bool :: "bool decoder" where
  "dec_bool j v = (case j of JBool b \<Rightarrow> Ok b | JNull \<Rightarrow> Ok v | _ \<Rightarrow> json_mismatch)"

definition dec_uint32 :: "uint32 decoder" where
  "dec_uint32 j v =
     (case j of
        JInt i \<Rightarrow> if 0 \<le> i \<and> i < 2 ^ 32 then Ok (word_of_int i) else json_mismatch
      | JNull \<Rightarrow> Ok v
      | _ \<Rightarrow> json_mismatch)"

text \<open>A field tagged \<open>,string\<close>: the number stands in quotes.\<close>

definition dec_uint64_string :: "uint64 decoder" where
  "dec_uint64_string j v =
     (case j of
        JStr s \<Rightarrow>
          if s = ''null'' then Ok v
          else (case parse_digits s of
            Some n \<Rightarrow> if n < 2 ^ 64 then Ok (of_nat n) else json_mismatch
          | None \<Rightarrow> json_mismatch)
      | JNull \<Rightarrow> Ok v
      | _ \<Rightarrow> json_mismatch)"

text \<open>A \<open>[]byte\<close> that may be nil: null sets it to nil, an empty string to an empty slice.\<close>

definition dec_bytes_nil :: "bytes option decoder" where
  "dec_bytes_nil j v = (case j of JNull \<Rightarrow> Ok None | _ \<Rightarrow> bind_res (dec_bytes j []) (\<lambda>b. Ok (Some b)))"

text \<open>
  An array is decoded into the elements that the slice's backing array already has: only a slice
  that starts out nil gives elements that are decoded into zero values. The result is the list of
  new elements; the elements of the array behind them are kept.
\<close>

fun dec_elems :: "'a \<Rightarrow> 'a decoder \<Rightarrow> json list \<Rightarrow> 'a list \<Rightarrow> 'a list res" where
  "dec_elems zero d [] old = Ok []"
| "dec_elems zero d (j # js) old =
     bind_res (d j (case old of [] \<Rightarrow> zero | x # _ \<Rightarrow> x)) (\<lambda>v.
     bind_res (dec_elems zero d js (tl old)) (\<lambda>vs. Ok (v # vs)))"

definition dec_slice :: "'a \<Rightarrow> 'a decoder \<Rightarrow> 'a slice decoder" where
  "dec_slice zero d j s =
     (case j of
        JNull \<Rightarrow> Ok (Slice [] 0)
      | JArr [] \<Rightarrow> Ok (Slice [] 0)
      | JArr js \<Rightarrow>
          bind_res (dec_elems zero d js (backing s)) (\<lambda>vs.
          Ok (Slice (vs @ drop (length vs) (backing s)) (length vs)))
      | _ \<Rightarrow> json_mismatch)"

text \<open>A slice of a variable that is decoded once.\<close>

definition dec_list :: "'a \<Rightarrow> 'a decoder \<Rightarrow> 'a list decoder" where
  "dec_list zero d j v =
     (case j of
        JNull \<Rightarrow> Ok []
      | JArr js \<Rightarrow> dec_elems zero d js []
      | _ \<Rightarrow> json_mismatch)"

lemma dec_list_slice:
  "bind_res (dec_slice zero d j (Slice [] 0)) (\<lambda>s. Ok (slice_list s)) = dec_list zero d j []"
proof (cases j)
  case (JArr js)
  then show ?thesis
    by (cases js; cases "dec_elems zero d js []") (auto simp: dec_slice_def dec_list_def slice_list_def)
qed (simp_all add: dec_slice_def dec_list_def slice_list_def json_mismatch_def)

text \<open>Decoding into used elements agrees with decoding into zero values when the element decoder ignores the old value.\<close>

lemma dec_elems_fresh:
  assumes "\<And>j v w. d j v = d j w"
  shows "dec_elems zero d js old = dec_elems zero d js []"
proof (induction js arbitrary: old)
  case (Cons j js)
  have "\<And>v w. d j v = d j w" by (rule assms)
  then have "d j (case old of [] \<Rightarrow> zero | x # _ \<Rightarrow> x) = d j zero" by blast
  then show ?case by (simp add: Cons.IH [of "tl old"])
qed simp

section \<open>Encoders\<close>

text \<open>Fields tagged \<open>omitempty\<close> are left out when they hold the zero value.\<close>

definition omit_str :: "string \<Rightarrow> string \<Rightarrow> (string \<times> json) list" where
  "omit_str k s = (if s = [] then [] else [(k, JStr s)])"

definition omit_int :: "string \<Rightarrow> int \<Rightarrow> (string \<times> json) list" where
  "omit_int k n = (if n = 0 then [] else [(k, JInt n)])"

definition omit_nil :: "string \<Rightarrow> ('a \<Rightarrow> json) \<Rightarrow> 'a option \<Rightarrow> (string \<times> json) list" where
  "omit_nil k enc p = (case p of None \<Rightarrow> [] | Some v \<Rightarrow> [(k, enc v)])"

definition enc_unit :: "unit \<Rightarrow> json" where
  "enc_unit u = JObj []"

definition enc_uint64 :: "uint64 \<Rightarrow> json" where
  "enc_uint64 w = JInt (uint w)"

text \<open>Standard base64 with padding.\<close>

definition b64_char :: "nat \<Rightarrow> char" where
  "b64_char n = char_of (if n < 26 then n + 65 else if n < 52 then n + 71 else if n < 62 then n - 4
     else if n = 62 then 43 else 47)"

fun base64_encode :: "bytes \<Rightarrow> string" where
  "base64_encode [] = []"
| "base64_encode [a] =
     (let x = unat a in [b64_char (x div 4), b64_char (x mod 4 * 16), CHR ''='', CHR ''=''])"
| "base64_encode [a, b] =
     (let x = unat a; y = unat b in
      [b64_char (x div 4), b64_char (x mod 4 * 16 + y div 16), b64_char (y mod 16 * 4), CHR ''=''])"
| "base64_encode (a # b # c # rest) =
     (let x = unat a; y = unat b; z = unat c in
      b64_char (x div 4) # b64_char (x mod 4 * 16 + y div 16) # b64_char (y mod 16 * 4 + z div 64) #
      b64_char (z mod 64) # base64_encode rest)"

lemma b64_value_char: "n < 64 \<Longrightarrow> b64_value (b64_char n) = Some n"
  by (auto simp: b64_value_def b64_char_def Let_def)

lemma of_char_b64:
  "n < 64 \<Longrightarrow> of_char (b64_char n) = (if n < 26 then n + 65 else if n < 52 then n + 71 else if n < 62 then n - 4
     else if n = 62 then 43 else (47 :: nat))"
  by (simp add: b64_char_def)

lemma b64_char_plain:
  assumes "n < 64"
  shows "b64_char n \<noteq> CHR ''=''" "of_char (b64_char n) \<noteq> (10 :: nat)" "of_char (b64_char n) \<noteq> (13 :: nat)"
proof -
  show "of_char (b64_char n) \<noteq> (10 :: nat)" "of_char (b64_char n) \<noteq> (13 :: nat)"
    using assms by (auto simp: of_char_b64)
  have "of_char (b64_char n) \<noteq> (61 :: nat)" using assms by (auto simp: of_char_b64)
  then show "b64_char n \<noteq> CHR ''=''" by auto
qed

lemma unat_byte_lt: "unat (a :: byte) < 256"
  using unsigned_less [of a, where ?'a = nat] by simp

lemma base64_no_breaks:
  "filter (\<lambda>c. of_char c \<noteq> (10 :: nat) \<and> of_char c \<noteq> (13 :: nat)) (base64_encode bs) = base64_encode bs"
proof (induction bs rule: base64_encode.induct)
  case (2 a)
  show ?case using unat_byte_lt [of a] by (simp add: Let_def b64_char_plain)
next
  case (3 a b)
  show ?case using unat_byte_lt [of a] unat_byte_lt [of b] by (simp add: Let_def b64_char_plain)
next
  case (4 a b c rest)
  then show ?case using unat_byte_lt [of a] unat_byte_lt [of b] unat_byte_lt [of c]
    by (simp add: Let_def b64_char_plain)
qed simp

lemma byte_of_mod: "m mod 256 = unat (a :: byte) \<Longrightarrow> of_nat m = a"
  using unat_of_nat [of m, where ?'a = 8] by (simp add: word_unat_eq_iff)

text \<open>The three bytes that four sextets stand for.\<close>

lemma sextets:
  fixes x y z :: nat
  assumes "x < 256" "y < 256" "z < 256"
  shows "4 * (x div 4) + (x mod 4 * 16 + y div 16) div 16 = x"
    and "(16 * (x mod 4 * 16 + y div 16) + (y mod 16 * 4 + z div 64) div 4) mod 256 = y"
    and "(64 * (y mod 16 * 4 + z div 64) + z mod 64) mod 256 = z"
proof -
  have q: "y div 16 < 16" "z div 64 < 4" using assms by simp_all
  then have e: "(x mod 4 * 16 + y div 16) div 16 = x mod 4" "(y mod 16 * 4 + z div 64) div 4 = y mod 16"
    by simp_all
  show "4 * (x div 4) + (x mod 4 * 16 + y div 16) div 16 = x" unfolding e by simp
  have "16 * (x mod 4 * 16 + y div 16) + y mod 16 = x mod 4 * 256 + y" by simp
  then show "(16 * (x mod 4 * 16 + y div 16) + (y mod 16 * 4 + z div 64) div 4) mod 256 = y"
    unfolding e using assms by simp
  have "64 * (y mod 16 * 4 + z div 64) + z mod 64 = y mod 16 * 256 + z" by simp
  then show "(64 * (y mod 16 * 4 + z div 64) + z mod 64) mod 256 = z" using assms by simp
qed

lemma sextet_bytes:
  fixes a b c :: byte
  shows "4 * (unat a div 4) + (unat a mod 4 * 16 + unat b div 16) div 16 = unat a"
    and "(16 * (unat a mod 4 * 16 + unat b div 16) + (unat b mod 16 * 4 + unat c div 64) div 4) mod 256 = unat b"
    and "(64 * (unat b mod 16 * 4 + unat c div 64) + unat c mod 64) mod 256 = unat c"
  by (rule sextets; rule unat_byte_lt)+

lemma sextets_bound: "x mod 4 * 16 + y div 16 < 64" "y mod 16 * 4 + z div 64 < 64" "y mod 16 * 4 < 64" "x mod 4 * 16 < 64" "x div 4 < 64"
  if "x < 256" "y < 256" "z < 256" for x y z :: nat
proof -
  have "y div 16 < 16" "z div 64 < 4" "x mod 4 < 4" "y mod 16 < 16" using that by simp_all
  then show "x mod 4 * 16 + y div 16 < 64" "y mod 16 * 4 + z div 64 < 64" "y mod 16 * 4 < 64" "x mod 4 * 16 < 64" by linarith+
  show "x div 4 < 64" using that by simp
qed

lemma sextet_bounds:
  fixes a b c :: byte
  shows "unat a mod 4 * 16 + unat b div 16 < 64" "unat b mod 16 * 4 + unat c div 64 < 64" "unat b mod 16 * 4 < 64"
    "unat a mod 4 * 16 < 64" "unat a div 4 < 64"
  by (rule sextets_bound; rule unat_byte_lt)+

lemma b64_groups_encode: "b64_groups (base64_encode bs) = Some bs"
proof (induction bs rule: base64_encode.induct)
  case (2 a)
  have "of_nat (4 * (unat a div 4) + unat a mod 4 * 16 div 16) = a"
    using sextet_bytes(1) [of a 0] unat_byte_lt [of a] by (intro byte_of_mod) simp
  then show ?case by (simp add: sextet_bounds Let_def b64_value_char)
next
  case (3 a b)
  have "of_nat (4 * (unat a div 4) + (unat a mod 4 * 16 + unat b div 16) div 16) = a"
    "of_nat (16 * (unat a mod 4 * 16 + unat b div 16) + unat b mod 16 * 4 div 4) = b"
    using sextet_bytes(1) [of a b] sextet_bytes(2) [of a b 0] unat_byte_lt [of a] by (intro byte_of_mod; simp)+
  then show ?case by (simp add: sextet_bounds Let_def b64_value_char b64_char_plain)
next
  case (4 a b c rest)
  have "of_nat (4 * (unat a div 4) + (unat a mod 4 * 16 + unat b div 16) div 16) = a"
    "of_nat (16 * (unat a mod 4 * 16 + unat b div 16) + (unat b mod 16 * 4 + unat c div 64) div 4) = b"
    "of_nat (64 * (unat b mod 16 * 4 + unat c div 64) + unat c mod 64) = c"
    using sextet_bytes(1) [of a b] sextet_bytes(2) [of a b c] sextet_bytes(3) [of b c] unat_byte_lt [of a] by (intro byte_of_mod; simp)+
  with 4 show ?case 
    by (simp add: sextet_bounds Let_def b64_value_char b64_char_plain)
qed simp

lemma base64_roundtrip: "base64_decode (base64_encode bs) = Ok bs"
  by (simp add: base64_decode_def base64_no_breaks b64_groups_encode)

end
