(* ===== verification/PoEContract.thy ===== *)
theory PoEContract
  imports PoEGenesis ContractJson
begin

text \<open>
  \<open>x/poe/contract\<close>: the messages and queries of the PoE contracts and the calls that send them.
  A message is the JSON value that \<open>json.Marshal\<close> makes of it. The contracts are reached through
  \<open>Execute\<close>, \<open>Sudo\<close> and \<open>QuerySmart\<close>, which are arguments of the functions; the JSON forms of the
  SDK's coin, integer and decimal types are the record \<open>sdk_json\<close>. A function that returns a value with
  an error returns the error only: no caller reads the value then.
\<close>

section \<open>Environment\<close>

type_synonym 's executor = "addr \<Rightarrow> addr \<Rightarrow> json \<Rightarrow> coin list \<Rightarrow> ('s, bytes) act"
type_synonym 's sudoer = "addr \<Rightarrow> json \<Rightarrow> ('s, raw_json) act"
type_synonym querier = "addr \<Rightarrow> json \<Rightarrow> raw_json res"

record 'd sdk_json =
  dec_sdk_Coin :: "msg_coin decoder"
  dec_sdk_Int :: "int option decoder"
  dec_sdk_Dec :: "'d decoder"
  enc_sdk_Coin :: "msg_coin \<Rightarrow> json"
  enc_sdk_Int :: "int option \<Rightarrow> json"
  enc_sdk_Dec :: "'d \<Rightarrow> json"

text \<open>\<open>cryptotypes.PubKey\<close> by the methods the code calls.\<close>

record pubkey =
  pk_Type :: string
  pk_Bytes :: bytes

section \<open>Validator keys\<close>

record ValidatorPubkey =
  vp_Ed25519 :: "bytes option"
  vp_Secp256k1 :: "bytes option"
  vp_Sr25519 :: "bytes option"

definition noPubkey :: ValidatorPubkey where
  "noPubkey = \<lparr>vp_Ed25519 = None, vp_Secp256k1 = None, vp_Sr25519 = None\<rparr>"

definition NewValidatorPubkey :: "pubkey \<Rightarrow> ValidatorPubkey res" where
  "NewValidatorPubkey pk =
     (if pk_Type pk = ''ed25519'' then Ok (noPubkey\<lparr>vp_Ed25519 := Some (pk_Bytes pk)\<rparr>)
      else if pk_Type pk = ''secp256k1'' then Ok (noPubkey\<lparr>vp_Secp256k1 := Some (pk_Bytes pk)\<rparr>)
      else failw PoeErrPubKeyTypeNotSupported (pk_Type pk))"

definition omit_bytes :: "string \<Rightarrow> bytes option \<Rightarrow> (string \<times> json) list" where
  "omit_bytes k b = (case b of None \<Rightarrow> [] | Some v \<Rightarrow> if v = [] then [] else [(k, JStr (base64_encode v))])"

definition enc_ValidatorPubkey :: "ValidatorPubkey \<Rightarrow> json" where
  "enc_ValidatorPubkey k =
     JObj (omit_bytes ''ed25519'' (vp_Ed25519 k) @ omit_bytes ''secp256k1'' (vp_Secp256k1 k) @
       omit_bytes ''sr25519'' (vp_Sr25519 k))"

definition dec_ValidatorPubkey :: "ValidatorPubkey decoder" where
  "dec_ValidatorPubkey = dec_struct
     [(''ed25519'', at_field vp_Ed25519 vp_Ed25519_update dec_bytes_nil),
      (''secp256k1'', at_field vp_Secp256k1 vp_Secp256k1_update dec_bytes_nil),
      (''sr25519'', at_field vp_Sr25519 vp_Sr25519_update dec_bytes_nil)]"

text \<open>The keys of Tendermint and of the SDK that a validator key is converted to.\<close>

datatype tm_pubkey = TmEd25519 bytes | TmSecp256K1 bytes

definition ConvertToTendermintPubKey :: "ValidatorPubkey \<Rightarrow> tm_pubkey res" where
  "ConvertToTendermintPubKey key =
     (case vp_Ed25519 key of
        Some k \<Rightarrow> Ok (TmEd25519 k)
      | None \<Rightarrow>
          (case vp_Secp256k1 key of
             Some k \<Rightarrow> Ok (TmSecp256K1 k)
           | None \<Rightarrow> fail PoeErrPubKeyTypeNotSupported))"

definition toCosmosPubKey :: "ValidatorPubkey \<Rightarrow> pubkey res" where
  "toCosmosPubKey key =
     (case vp_Ed25519 key of
        Some k \<Rightarrow> Ok \<lparr>pk_Type = ''ed25519'', pk_Bytes = k\<rparr>
      | None \<Rightarrow>
          (case vp_Secp256k1 key of
             Some k \<Rightarrow> Ok \<lparr>pk_Type = ''secp256k1'', pk_Bytes = k\<rparr>
           | None \<Rightarrow> fail PoeErrPubKeyTypeNotSupported))"

section \<open>Messages to the validator set contract\<close>

record ValidatorMetadata =
  vm_Moniker :: string
  vm_Identity :: string
  vm_Website :: string
  vm_SecurityContact :: string
  vm_Details :: string

definition MetadataFromDescription :: "Description \<Rightarrow> ValidatorMetadata" where
  "MetadataFromDescription d =
     \<lparr>vm_Moniker = Moniker d, vm_Identity = Identity d, vm_Website = Website d,
      vm_SecurityContact = SecurityContact d, vm_Details = Details d\<rparr>"

definition ToDescription :: "ValidatorMetadata \<Rightarrow> Description" where
  "ToDescription m =
     \<lparr>Moniker = vm_Moniker m, Identity = vm_Identity m, Website = vm_Website m,
      SecurityContact = vm_SecurityContact m, Details = vm_Details m\<rparr>"

definition enc_ValidatorMetadata :: "ValidatorMetadata \<Rightarrow> json" where
  "enc_ValidatorMetadata m =
     JObj ([(''moniker'', JStr (vm_Moniker m))] @ omit_str ''identity'' (vm_Identity m) @
       omit_str ''website'' (vm_Website m) @ omit_str ''security_contact'' (vm_SecurityContact m) @
       omit_str ''details'' (vm_Details m))"

definition dec_ValidatorMetadata :: "ValidatorMetadata decoder" where
  "dec_ValidatorMetadata = dec_struct
     [(''moniker'', at_field vm_Moniker vm_Moniker_update dec_string),
      (''identity'', at_field vm_Identity vm_Identity_update dec_string),
      (''website'', at_field vm_Website vm_Website_update dec_string),
      (''security_contact'', at_field vm_SecurityContact vm_SecurityContact_update dec_string),
      (''details'', at_field vm_Details vm_Details_update dec_string)]"

definition noMetadata :: ValidatorMetadata where
  "noMetadata = \<lparr>vm_Moniker = [], vm_Identity = [], vm_Website = [], vm_SecurityContact = [], vm_Details = []\<rparr>"

record RegisterValidatorKey =
  rk_PubKey :: ValidatorPubkey
  rk_Metadata :: ValidatorMetadata

record JailingDuration =
  jd_Duration :: uint64
  jd_Forever :: "unit option"

record JailMsg =
  jm_Operator :: string
  jm_Duration :: JailingDuration

record UnjailMsg =
  um_Operator :: string

record TG4UpdateAdminMsg =
  NewAdmin :: "string option"

record UpdateConfigMsg =
  uc_MinPoints :: uint64
  uc_MaxValidators :: uint32

record TG4ValsetExecute =
  ve_RegisterValidatorKey :: "RegisterValidatorKey option"
  ve_UpdateMetadata :: "ValidatorMetadata option"
  ve_Jail :: "JailMsg option"
  ve_Unjail :: "UnjailMsg option"
  ve_UpdateAdmin :: "TG4UpdateAdminMsg option"
  ve_UpdateConfig :: "UpdateConfigMsg option"

definition noValsetExecute :: TG4ValsetExecute where
  "noValsetExecute =
     \<lparr>ve_RegisterValidatorKey = None, ve_UpdateMetadata = None, ve_Jail = None, ve_Unjail = None,
      ve_UpdateAdmin = None, ve_UpdateConfig = None\<rparr>"

definition enc_RegisterValidatorKey :: "RegisterValidatorKey \<Rightarrow> json" where
  "enc_RegisterValidatorKey r =
     JObj [(''pubkey'', enc_ValidatorPubkey (rk_PubKey r)), (''metadata'', enc_ValidatorMetadata (rk_Metadata r))]"

definition enc_JailMsg :: "JailMsg \<Rightarrow> json" where
  "enc_JailMsg m =
     JObj [(''operator'', JStr (jm_Operator m)),
       (''duration'', JObj (omit_int ''duration'' (uint (jd_Duration (jm_Duration m))) @
          omit_nil ''forever'' enc_unit (jd_Forever (jm_Duration m))))]"

definition enc_UnjailMsg :: "UnjailMsg \<Rightarrow> json" where
  "enc_UnjailMsg m = JObj (omit_str ''operator'' (um_Operator m))"

definition enc_TG4UpdateAdminMsg :: "TG4UpdateAdminMsg \<Rightarrow> json" where
  "enc_TG4UpdateAdminMsg m = JObj (omit_nil ''admin'' JStr (NewAdmin m))"

definition enc_UpdateConfigMsg :: "UpdateConfigMsg \<Rightarrow> json" where
  "enc_UpdateConfigMsg m =
     JObj (omit_int ''min_points'' (uint (uc_MinPoints m)) @ omit_int ''max_validators'' (uint (uc_MaxValidators m)))"

definition enc_TG4ValsetExecute :: "TG4ValsetExecute \<Rightarrow> json" where
  "enc_TG4ValsetExecute m =
     JObj (omit_nil ''register_validator_key'' enc_RegisterValidatorKey (ve_RegisterValidatorKey m) @
       omit_nil ''update_metadata'' enc_ValidatorMetadata (ve_UpdateMetadata m) @
       omit_nil ''jail'' enc_JailMsg (ve_Jail m) @ omit_nil ''unjail'' enc_UnjailMsg (ve_Unjail m) @
       omit_nil ''update_admin'' enc_TG4UpdateAdminMsg (ve_UpdateAdmin m) @
       omit_nil ''update_config'' enc_UpdateConfigMsg (ve_UpdateConfig m))"

text \<open>\<open>sdkerrors.Wrap(err, msg)\<close> on the error of a call whose value is dropped.\<close>

definition dropS :: "('s, 'a) act \<Rightarrow> ('s, unit) act" where
  "dropS m = bindS m (\<lambda>_. ret ())"

definition RegisterValidator ::
    "'s executor \<Rightarrow> addr \<Rightarrow> pubkey \<Rightarrow> addr \<Rightarrow> Description \<Rightarrow> ('s, unit) act" where
  "RegisterValidator execute contractAddr pk operatorAddress description =
     bindS (lift_res (NewValidatorPubkey pk)) (\<lambda>pub.
     wrapS ''execute contract'' (dropS (execute contractAddr operatorAddress
       (enc_TG4ValsetExecute (noValsetExecute\<lparr>ve_RegisterValidatorKey :=
          Some \<lparr>rk_PubKey = pub, rk_Metadata = MetadataFromDescription description\<rparr>\<rparr>)) [])))"

definition contract_UpdateValidator :: "'s executor \<Rightarrow> addr \<Rightarrow> addr \<Rightarrow> Description \<Rightarrow> ('s, unit) act" where
  "contract_UpdateValidator execute contractAddr operatorAddress description =
     wrapS ''execute contract'' (dropS (execute contractAddr operatorAddress
       (enc_TG4ValsetExecute (noValsetExecute\<lparr>ve_UpdateMetadata := Some (MetadataFromDescription description)\<rparr>)) []))"

section \<open>The validator diff\<close>

record ValidatorUpdate =
  vu_PubKey :: ValidatorPubkey
  vu_Power :: uint64

definition dec_ValidatorUpdate :: "ValidatorUpdate decoder" where
  "dec_ValidatorUpdate = dec_struct
     [(''pubkey'', at_field vu_PubKey vu_PubKey_update dec_ValidatorPubkey),
      (''power'', at_field vu_Power vu_Power_update dec_uint64)]"

record EndWithValidatorUpdateResponse =
  er_Diffs :: "ValidatorUpdate list"

definition dec_EndWithValidatorUpdateResponse :: "EndWithValidatorUpdateResponse decoder" where
  "dec_EndWithValidatorUpdateResponse = dec_struct
     [(''diffs'', at_field er_Diffs er_Diffs_update
         (dec_list \<lparr>vu_PubKey = noPubkey, vu_Power = 0\<rparr> dec_ValidatorUpdate))]"

text \<open>\<open>ValidatorUpdateSudoMsg\<close> has one field.\<close>

definition enc_ValidatorUpdateSudoMsg :: "unit option \<Rightarrow> json" where
  "enc_ValidatorUpdateSudoMsg m = JObj (omit_nil ''end_with_validator_update'' enc_unit m)"

record abci_ValidatorUpdate =
  au_PubKey :: tm_pubkey
  au_Power :: int

fun convert_diffs :: "ValidatorUpdate list \<Rightarrow> abci_ValidatorUpdate list res" where
  "convert_diffs [] = Ok []"
| "convert_diffs (v # vs) =
     bind_res (ConvertToTendermintPubKey (vu_PubKey v)) (\<lambda>pub.
     bind_res (convert_diffs vs) (\<lambda>rs.
     Ok (\<lparr>au_PubKey = pub, au_Power = int64_of_uint64 (vu_Power v)\<rparr> # rs)))"

definition CallEndBlockWithValidatorUpdate ::
    "'s sudoer \<Rightarrow> addr \<Rightarrow> ('s, abci_ValidatorUpdate list) act" where
  "CallEndBlockWithValidatorUpdate sudo contractAddr =
     bindS (wrapS ''sudo'' (sudo contractAddr (enc_ValidatorUpdateSudoMsg (Some ())))) (\<lambda>resp.
     if resp = RawEmpty then ret []
     else bindS (lift_res (wrap_res ''contract response''
         (json_Unmarshal dec_EndWithValidatorUpdateResponse resp \<lparr>er_Diffs = []\<rparr>))) (\<lambda>contractResult.
       if er_Diffs contractResult = [] then ret []
       else lift_res (convert_diffs (er_Diffs contractResult))))"

section \<open>Staking\<close>

text \<open>What the code uses of wasmd and wasmvm besides the calls.\<close>

record wasmd_ops =
  WasmModuleEventType :: string
  wn_AttributeKeyContractAddr :: string
  wasmvm_NewCoin :: "uint64 \<Rightarrow> string \<Rightarrow> wasm_coin"

record TG4StakeExecute =
  se_Bond :: "wasm_coin option option"
  se_Unbond :: "wasm_coin option"
  se_Claim :: "unit option"

definition noStakeExecute :: TG4StakeExecute where
  "noStakeExecute = \<lparr>se_Bond = None, se_Unbond = None, se_Claim = None\<rparr>"

definition enc_wasm_coin :: "wasm_coin \<Rightarrow> json" where
  "enc_wasm_coin c = JObj [(''denom'', JStr (wc_Denom c)), (''amount'', JStr (wc_Amount c))]"

definition enc_TG4StakeExecute :: "TG4StakeExecute \<Rightarrow> json" where
  "enc_TG4StakeExecute m =
     JObj (omit_nil ''bond'' (\<lambda>b. JObj (omit_nil ''vesting_tokens'' enc_wasm_coin b)) (se_Bond m) @
       omit_nil ''unbond'' (\<lambda>t. JObj [(''tokens'', enc_wasm_coin t)]) (se_Unbond m) @
       omit_nil ''claim'' enc_unit (se_Claim m))"

definition BondDelegation ::
    "sdk_ops \<Rightarrow> 's executor \<Rightarrow> addr \<Rightarrow> addr \<Rightarrow> coin list \<Rightarrow> msg_coin option \<Rightarrow> ('s, unit) act" where
  "BondDelegation K execute contractAddr operatorAddress amount vestingAmount =
     (let vestingTokens = map_option (\<lambda>c. \<lparr>wc_Denom = mc_Denom c, wc_Amount = Int_String K (mc_Amount c)\<rparr>) vestingAmount in
      wrapS ''execute contract'' (dropS (execute contractAddr operatorAddress
        (enc_TG4StakeExecute (noStakeExecute\<lparr>se_Bond := Some vestingTokens\<rparr>)) amount)))"

text \<open>
  The events of the staking contract: the first attribute \<open>completion_time\<close> of an event of the wasm
  module that names the contract, as nanoseconds.
\<close>

definition trusted_event :: "sdk_ops \<Rightarrow> wasmd_ops \<Rightarrow> addr \<Rightarrow> event \<Rightarrow> bool" where
  "trusted_event K N contractAddr e \<longleftrightarrow>
     list_ex (\<lambda>a. fst a = wn_AttributeKeyContractAddr N \<and> snd a = sAddrString K contractAddr) (event_Attributes e)"

fun find_completion :: "sdk_ops \<Rightarrow> wasmd_ops \<Rightarrow> addr \<Rightarrow> event list \<Rightarrow> int res" where
  "find_completion K N contractAddr [] = failw PoeErrInvalid ''completion_time event attribute''"
| "find_completion K N contractAddr (e # es) =
     (if event_Type e \<noteq> WasmModuleEventType N then find_completion K N contractAddr es
      else if \<not> trusted_event K N contractAddr e then find_completion K N contractAddr es
      else (case find (\<lambda>a. fst a = ''completion_time'') (event_Attributes e) of
        None \<Rightarrow> find_completion K N contractAddr es
      | Some a \<Rightarrow> wrap_res ''completion time value'' (parse_int (snd a))))"

text \<open>
  \<open>executeEm\<close> is \<open>Execute\<close> with an event manager of its own, whose events it returns also when the
  call fails; they are emitted to the caller's manager in any case.
\<close>

definition bad_unbond_amount :: "sdk_ops \<Rightarrow> msg_coin \<Rightarrow> bool res" where
  "bad_unbond_amount K amount =
     (if mc_Amount amount = None then Ok True
      else bind_res (Coin_IsZero K amount) (\<lambda>zero. if zero then Ok True
      else bind_res (Coin_IsNegative K amount) (\<lambda>neg. if neg then Ok True
      else bind_res (Int_IsInt64 K (mc_Amount amount)) (\<lambda>fits. Ok (\<not> fits)))))"

definition UnbondDelegation ::
    "sdk_ops \<Rightarrow> wasmd_ops \<Rightarrow> (addr \<Rightarrow> addr \<Rightarrow> json \<Rightarrow> coin list \<Rightarrow> 's \<Rightarrow> (bytes res \<times> event list) \<times> 's) \<Rightarrow>
     (event list \<Rightarrow> 's \<Rightarrow> 's) \<Rightarrow> addr \<Rightarrow> addr \<Rightarrow> msg_coin \<Rightarrow> ('s, int) act" where
  "UnbondDelegation K N executeEm emit contractAddr operatorAddress amount s =
     (case bind_res (bad_unbond_amount K amount) (\<lambda>bad.
        if bad then failw PoeErrInvalid ''amount'' else Int_Uint64 K (mc_Amount amount)) of
        Err e \<Rightarrow> (Err e, s)
      | Panic p \<Rightarrow> (Panic p, s)
      | Ok n \<Rightarrow>
          (case executeEm contractAddr operatorAddress
             (enc_TG4StakeExecute (noStakeExecute\<lparr>se_Unbond := Some (wasmvm_NewCoin N n (mc_Denom amount))\<rparr>)) [] s of
             ((Ok data, evs), s') \<Rightarrow> (find_completion K N contractAddr evs, emit evs s')
           | ((Err e, evs), s') \<Rightarrow> (Err (Wrapped e ''execute staking contract''), emit evs s')
           | ((Panic p, evs), s') \<Rightarrow> (Panic p, emit evs s')))"

section \<open>Groups of members\<close>

record TG4Member =
  tm_Addr :: string
  tm_Points :: uint64
  tm_StartHeight :: uint64

definition noMember :: TG4Member where
  "noMember = \<lparr>tm_Addr = [], tm_Points = 0, tm_StartHeight = 0\<rparr>"

definition enc_TG4Member :: "TG4Member \<Rightarrow> json" where
  "enc_TG4Member m =
     JObj ([(''addr'', JStr (tm_Addr m)), (''points'', enc_uint64 (tm_Points m))] @
       omit_int ''start_height'' (uint (tm_StartHeight m)))"

definition dec_TG4Member :: "TG4Member decoder" where
  "dec_TG4Member = dec_struct
     [(''addr'', at_field tm_Addr tm_Addr_update dec_string),
      (''points'', at_field tm_Points tm_Points_update dec_uint64),
      (''start_height'', at_field tm_StartHeight tm_StartHeight_update dec_uint64)]"

text \<open>\<open>TG4EngagementSudoMsg\<close> has one field.\<close>

definition enc_TG4EngagementSudoMsg :: "TG4Member option \<Rightarrow> json" where
  "enc_TG4EngagementSudoMsg m = JObj (omit_nil ''update_member'' enc_TG4Member m)"

definition SetEngagementPoints :: "sdk_ops \<Rightarrow> 's sudoer \<Rightarrow> addr \<Rightarrow> addr \<Rightarrow> uint64 \<Rightarrow> ('s, unit) act" where
  "SetEngagementPoints K sudo contractAddr opAddr points =
     wrapS ''sudo'' (dropS (sudo contractAddr (enc_TG4EngagementSudoMsg
       (Some (noMember\<lparr>tm_Addr := sAddrString K opAddr, tm_Points := points\<rparr>)))))"

section \<open>Pagination\<close>

text \<open>A cursor is a byte slice; nil and empty are told apart in one place.\<close>

record Paginator =
  pg_StartAfter :: "bytes option"
  pg_Limit :: uint64

record PageRequest =
  pr_Key :: "bytes option"
  pr_Offset :: uint64
  pr_Limit :: uint64
  pr_CountTotal :: bool

definition cursor_bytes :: "bytes option \<Rightarrow> bytes" where
  "cursor_bytes c = (case c of None \<Rightarrow> [] | Some b \<Rightarrow> b)"

definition PaginationCursor_Empty :: "bytes option \<Rightarrow> bool" where
  "PaginationCursor_Empty c \<longleftrightarrow> cursor_bytes c = []"

definition PaginationCursor_String :: "bytes option \<Rightarrow> string" where
  "PaginationCursor_String c = (if PaginationCursor_Empty c then [] else bytes_string (cursor_bytes c))"

definition PaginationCursor_Equal :: "bytes option \<Rightarrow> bytes option \<Rightarrow> bool" where
  "PaginationCursor_Equal p o' \<longleftrightarrow> cursor_bytes p = cursor_bytes o'"

definition ToQuery :: "Paginator option \<Rightarrow> string \<times> int" where
  "ToQuery p =
     (case p of
        None \<Rightarrow> ([], 0)
      | Some p \<Rightarrow> (bytes_string (cursor_bytes (pg_StartAfter p)), int64_of_uint64 (pg_Limit p)))"

definition NewPaginator :: "PageRequest option \<Rightarrow> Paginator option res" where
  "NewPaginator pag =
     (case pag of
        None \<Rightarrow> Ok None
      | Some p \<Rightarrow>
          if pr_Offset p \<noteq> 0 then fail (GrpcErr InvalidArgument ''pagination offset not supported'')
          else if pr_CountTotal p then fail (GrpcErr InvalidArgument ''pagination count total not supported'')
          else Ok (Some \<lparr>pg_StartAfter = pr_Key p, pg_Limit = pr_Limit p\<rparr>))"

section \<open>Calls through an adapter\<close>

record BaseContractAdapter =
  ba_contractAddr :: addr
  ba_addressLookupErr :: "go_error option"

definition NewBaseContractAdapter :: "addr \<Rightarrow> go_error option \<Rightarrow> BaseContractAdapter" where
  "NewBaseContractAdapter contractAddr addressLookupErr =
     \<lparr>ba_contractAddr = contractAddr, ba_addressLookupErr = addressLookupErr\<rparr>"

definition doExecute :: "'s executor \<Rightarrow> BaseContractAdapter \<Rightarrow> json \<Rightarrow> addr \<Rightarrow> coin list \<Rightarrow> ('s, unit) act" where
  "doExecute execute a msg sender coins =
     (case ba_addressLookupErr a of
        Some err \<Rightarrow> lift_res (Err err)
      | None \<Rightarrow> wrapS ''execute'' (dropS (execute (ba_contractAddr a) sender msg coins)))"

definition doQuery :: "querier \<Rightarrow> addr \<Rightarrow> json \<Rightarrow> 'a decoder \<Rightarrow> 'a \<Rightarrow> 'a res" where
  "doQuery Q contractAddr query d result =
     bind_res (Q contractAddr query) (\<lambda>res. json_Unmarshal d res result)"

definition adapter_doQuery :: "querier \<Rightarrow> BaseContractAdapter \<Rightarrow> json \<Rightarrow> 'a decoder \<Rightarrow> 'a \<Rightarrow> 'a res" where
  "adapter_doQuery Q a query d result =
     (case ba_addressLookupErr a of
        Some err \<Rightarrow> Err err
      | None \<Rightarrow>
          bind_res (Q (ba_contractAddr a) query) (\<lambda>res. json_Unmarshal d res result))"

text \<open>The cursor is what the result's method \<open>PaginationCursor\<close> makes of it.\<close>

definition doPageableQuery ::
    "querier \<Rightarrow> BaseContractAdapter \<Rightarrow> json \<Rightarrow> 'a decoder \<Rightarrow> ('a \<Rightarrow> bytes option) \<Rightarrow> 'a \<Rightarrow> ('a \<times> bytes option) res" where
  "doPageableQuery Q a query d cursor result =
     (case ba_addressLookupErr a of
        Some err \<Rightarrow> Err err
      | None \<Rightarrow>
          bind_res (Q (ba_contractAddr a) query) (\<lambda>res.
          bind_res (wrap_res ''unmarshal result'' (json_Unmarshal d res result)) (\<lambda>r. Ok (r, cursor r))))"

definition adapter_Address :: "BaseContractAdapter \<Rightarrow> addr res" where
  "adapter_Address a = (case ba_addressLookupErr a of None \<Rightarrow> Ok (ba_contractAddr a) | Some e \<Rightarrow> Err e)"

section \<open>Queries of groups\<close>

text \<open>\<open>TG4Query\<close> and its parts; one of the fields is set.\<close>

datatype TG4Query =
    QAdmin
  | QTotalPoints
  | QListMembers string int
  | QListMembersByPoints "TG4Member option" int
  | QMember string int

primrec enc_TG4Query :: "TG4Query \<Rightarrow> json" where
  "enc_TG4Query QAdmin = JObj [(''admin'', JObj [])]"
| "enc_TG4Query QTotalPoints = JObj [(''total_points'', JObj [])]"
| "enc_TG4Query (QListMembers startAfter limit) =
     JObj [(''list_members'', JObj (omit_str ''start_after'' startAfter @ omit_int ''limit'' limit))]"
| "enc_TG4Query (QListMembersByPoints startAfter limit) =
     JObj [(''list_members_by_points'', JObj (omit_nil ''start_after'' enc_TG4Member startAfter @ omit_int ''limit'' limit))]"
| "enc_TG4Query (QMember a atHeight) =
     JObj [(''member'', JObj ([(''addr'', JStr a)] @ omit_int ''at_height'' atHeight))]"

definition dec_TG4MemberListResponse :: "TG4Member list decoder" where
  "dec_TG4MemberListResponse = dec_struct [(''members'', dec_list noMember dec_TG4Member)]"

record TG4MemberResponse =
  mr_Points :: "int option"
  mr_StartHeight :: uint64

definition dec_TG4MemberResponse :: "TG4MemberResponse decoder" where
  "dec_TG4MemberResponse = dec_struct
     [(''points'', at_field mr_Points mr_Points_update (dec_ptr 0 dec_int64)),
      (''start_height'', at_field mr_StartHeight mr_StartHeight_update dec_uint64)]"

text \<open>\<open>parseRaw\<close> reads the JSON text of a cursor.\<close>

definition QueryTG4MembersByWeight ::
    "(bytes \<Rightarrow> raw_json) \<Rightarrow> querier \<Rightarrow> addr \<Rightarrow> Paginator option \<Rightarrow> TG4Member list res" where
  "QueryTG4MembersByWeight parseRaw Q pt4Addr pagination =
     bind_res (case pagination of
        None \<Rightarrow> Ok (None, 0)
      | Some p \<Rightarrow>
          bind_res (case pg_StartAfter p of
             None \<Rightarrow> Ok None
           | Some c \<Rightarrow> bind_res (wrap_res ''query pt4 members by weight''
                (json_Unmarshal dec_TG4Member (parseRaw c) noMember)) (\<lambda>sa. Ok (Some sa))) (\<lambda>startAfter.
          Ok (startAfter, int64_of_uint64 (pg_Limit p)))) (\<lambda>(startAfter, limit).
     doQuery Q pt4Addr (enc_TG4Query (QListMembersByPoints startAfter limit)) dec_TG4MemberListResponse [])"

definition QueryTG4Members :: "querier \<Rightarrow> addr \<Rightarrow> Paginator option \<Rightarrow> TG4Member list res" where
  "QueryTG4Members Q pt4Addr pagination =
     (let (startAfter, limit) = ToQuery pagination in
      doQuery Q pt4Addr (enc_TG4Query (QListMembers startAfter limit)) dec_TG4MemberListResponse [])"

definition QueryTG4Member :: "sdk_ops \<Rightarrow> querier \<Rightarrow> addr \<Rightarrow> addr \<Rightarrow> int option res" where
  "QueryTG4Member K Q pt4Addr member =
     bind_res (doQuery Q pt4Addr (enc_TG4Query (QMember (sAddrString K member) 0)) dec_TG4MemberResponse
       \<lparr>mr_Points = None, mr_StartHeight = 0\<rparr>) (\<lambda>response. Ok (mr_Points response))"

definition QueryTG4TotalPoints :: "querier \<Rightarrow> addr \<Rightarrow> int res" where
  "QueryTG4TotalPoints Q pt4Addr =
     doQuery Q pt4Addr (enc_TG4Query QTotalPoints) (dec_struct [(''total_points'', dec_int64)]) 0"

definition QueryTG4Admin :: "sdk_ops \<Rightarrow> querier \<Rightarrow> addr \<Rightarrow> addr option res" where
  "QueryTG4Admin K Q pt4Addr =
     bind_res (doQuery Q pt4Addr (enc_TG4Query QAdmin) (dec_struct [(''admin'', dec_string)]) []) (\<lambda>admin.
     if admin = [] then Ok None
     else bind_res (sAccAddressFromBech32 K admin) (\<lambda>a. Ok (Some a)))"

end
