(* ===== verification/PoEAdapters.thy ===== *)
theory PoEAdapters
  imports PoEContract
begin

text \<open>
  The contract adapters of \<open>x/poe/contract\<close>: engagement, staking, distribution and validator set
  contracts, with their queries and the conversion of the responses to the SDK's types.
\<close>

section \<open>Engagement contract\<close>

record UpdateMembersMsg =
  ub_Add :: "TG4Member list"
  ub_Remove :: "string list"

record WithdrawRewardsMsg =
  wr_Owner :: "string option"
  wr_Receiver :: "string option"

record TG4EngagementExecute =
  ee_UpdateMembers :: "UpdateMembersMsg option"
  ee_UpdateAdmin :: "TG4UpdateAdminMsg option"
  ee_WithdrawRewards :: "WithdrawRewardsMsg option"
  ee_DelegateWithdrawal :: "string option"

definition enc_TG4EngagementExecute :: "TG4EngagementExecute \<Rightarrow> json" where
  "enc_TG4EngagementExecute m =
     JObj (omit_nil ''update_members'' (\<lambda>u. JObj [(''add'', JArr (map enc_TG4Member (ub_Add u))),
         (''remove'', JArr (map JStr (ub_Remove u)))]) (ee_UpdateMembers m) @
       omit_nil ''update_admin'' enc_TG4UpdateAdminMsg (ee_UpdateAdmin m) @
       omit_nil ''withdraw_rewards'' (\<lambda>w. JObj (omit_nil ''owner'' JStr (wr_Owner w) @
         omit_nil ''receiver'' JStr (wr_Receiver w))) (ee_WithdrawRewards m) @
       omit_nil ''delegate_withdrawal'' (\<lambda>d. JObj [(''delegated'', JStr d)]) (ee_DelegateWithdrawal m))"

definition Engagement_UpdateAdmin :: "sdk_ops \<Rightarrow> 's executor \<Rightarrow> BaseContractAdapter \<Rightarrow> addr \<Rightarrow> addr \<Rightarrow> ('s, unit) act" where
  "Engagement_UpdateAdmin K execute a newAdmin sender =
     doExecute execute a (enc_TG4EngagementExecute
       \<lparr>ee_UpdateMembers = None, ee_UpdateAdmin = Some \<lparr>NewAdmin = Some (sAddrString K newAdmin)\<rparr>,
        ee_WithdrawRewards = None, ee_DelegateWithdrawal = None\<rparr>) sender []"

text \<open>The two variants of \<open>EngagementQuery\<close> that the code sends; the others have no sender.\<close>

definition enc_delegated_query :: "string \<Rightarrow> json" where
  "enc_delegated_query owner = JObj [(''delegated'', JObj [(''owner'', JStr owner)])]"

definition enc_withdrawable_query :: "string \<Rightarrow> json" where
  "enc_withdrawable_query owner = JObj [(''withdrawable_rewards'', JObj [(''owner'', JStr owner)])]"

definition QueryDelegated :: "sdk_ops \<Rightarrow> querier \<Rightarrow> BaseContractAdapter \<Rightarrow> addr \<Rightarrow> string res" where
  "QueryDelegated K Q a ownerAddr =
     wrap_res ''contract query'' (adapter_doQuery Q a (enc_delegated_query (sAddrString K ownerAddr))
       (dec_struct [(''delegated'', dec_string)]) [])"

definition noCoin :: msg_coin where
  "noCoin = \<lparr>mc_Denom = [], mc_Amount = None\<rparr>"

text \<open>\<open>RewardsResponse\<close> has the untagged field \<open>Rewards\<close>.\<close>

definition dec_RewardsResponse :: "'d sdk_json \<Rightarrow> msg_coin decoder" where
  "dec_RewardsResponse J = dec_struct [(''Rewards'', dec_sdk_Coin J)]"

definition QueryWithdrawableRewards :: "sdk_ops \<Rightarrow> 'd sdk_json \<Rightarrow> querier \<Rightarrow> BaseContractAdapter \<Rightarrow> addr \<Rightarrow> msg_coin res" where
  "QueryWithdrawableRewards K J Q a owner =
     adapter_doQuery Q a (enc_withdrawable_query (sAddrString K owner)) (dec_RewardsResponse J) noCoin"

section \<open>Distribution contract\<close>

definition contract_ValidatorOutstandingReward ::
    "sdk_ops \<Rightarrow> 'd sdk_json \<Rightarrow> querier \<Rightarrow> BaseContractAdapter \<Rightarrow> addr \<Rightarrow> msg_coin res" where
  "contract_ValidatorOutstandingReward K J Q d a =
     (case ba_addressLookupErr d of
        Some err \<Rightarrow> Err err
      | None \<Rightarrow> doQuery Q (ba_contractAddr d) (enc_withdrawable_query (sAddrString K a)) (dec_RewardsResponse J) noCoin)"

section \<open>Staking contract\<close>

record ListClaimsQuery =
  lc_Address :: string
  lc_Limit :: uint32
  lc_StartAfter :: uint64

datatype TG4StakeQuery = QUnbondingPeriod | QClaims ListClaimsQuery | QStaked string

primrec enc_TG4StakeQuery :: "TG4StakeQuery \<Rightarrow> json" where
  "enc_TG4StakeQuery QUnbondingPeriod = JObj [(''unbonding_period'', JObj [])]"
| "enc_TG4StakeQuery (QClaims q) =
     JObj [(''claims'', JObj ([(''address'', JStr (lc_Address q))] @ omit_int ''limit'' (uint (lc_Limit q)) @
       (if lc_StartAfter q = 0 then [] else [(''start_after'', JStr (format_nat (unat (lc_StartAfter q))))])))]"
| "enc_TG4StakeQuery (QStaked a) = JObj [(''staked'', JObj [(''address'', JStr a)])]"

definition dec_wasm_coin :: "wasm_coin decoder" where
  "dec_wasm_coin = dec_struct
     [(''denom'', at_field wc_Denom wc_Denom_update dec_string),
      (''amount'', at_field wc_Amount wc_Amount_update dec_string)]"

record TG4StakedAmountsResponse =
  sa_Liquid :: wasm_coin
  sa_Vesting :: wasm_coin

definition noStaked :: TG4StakedAmountsResponse where
  "noStaked = \<lparr>sa_Liquid = \<lparr>wc_Denom = [], wc_Amount = []\<rparr>, sa_Vesting = \<lparr>wc_Denom = [], wc_Amount = []\<rparr>\<rparr>"

definition dec_TG4StakedAmountsResponse :: "TG4StakedAmountsResponse decoder" where
  "dec_TG4StakedAmountsResponse = dec_struct
     [(''liquid'', at_field sa_Liquid sa_Liquid_update dec_wasm_coin),
      (''vesting'', at_field sa_Vesting sa_Vesting_update dec_wasm_coin)]"

record TG4StakeClaim =
  cl_Addr :: string
  cl_Amount :: "int option"
  cl_CreationHeight :: uint64
  cl_ReleaseAt :: uint64

definition dec_TG4StakeClaim :: "'d sdk_json \<Rightarrow> TG4StakeClaim decoder" where
  "dec_TG4StakeClaim J = dec_struct
     [(''addr'', at_field cl_Addr cl_Addr_update dec_string),
      (''amount'', at_field cl_Amount cl_Amount_update (dec_sdk_Int J)),
      (''creation_height'', at_field cl_CreationHeight cl_CreationHeight_update dec_uint64),
      (''release_at'', at_field cl_ReleaseAt cl_ReleaseAt_update dec_uint64_string)]"

definition contract_QueryStakedAmount :: "sdk_ops \<Rightarrow> querier \<Rightarrow> addr \<Rightarrow> addr \<Rightarrow> TG4StakedAmountsResponse res" where
  "contract_QueryStakedAmount K Q stakeAddr opAddr =
     doQuery Q stakeAddr (enc_TG4StakeQuery (QStaked (sAddrString K opAddr))) dec_TG4StakedAmountsResponse noStaked"

definition QueryStakingUnbondingPeriod :: "querier \<Rightarrow> BaseContractAdapter \<Rightarrow> duration res" where
  "QueryStakingUnbondingPeriod Q v =
     (case ba_addressLookupErr v of
        Some err \<Rightarrow> Err err
      | None \<Rightarrow>
          bind_res (wrap_res ''contract query'' (doQuery Q (ba_contractAddr v) (enc_TG4StakeQuery QUnbondingPeriod)
            (dec_struct [(''unbonding_period'', dec_uint64)]) 0)) (\<lambda>p.
          Ok (to_int64 (int64_of_uint64 p * Second))))"

text \<open>
  \<open>StakeContractAdapter.QueryStakedAmount\<close>: an amount that is no number gives \<open>sdkerrors.Wrap(err, ..)\<close>
  of a nil error, that is no error and no amount.
\<close>

definition QueryStakedAmount :: "sdk_ops \<Rightarrow> coin_ext \<Rightarrow> querier \<Rightarrow> BaseContractAdapter \<Rightarrow> addr \<Rightarrow> int option res" where
  "QueryStakedAmount K C Q v opAddr =
     bind_res (wrap_res ''query staked amount'' (contract_QueryStakedAmount K Q (ba_contractAddr v) opAddr)) (\<lambda>resp.
     case NewIntFromString C (wc_Amount (sa_Liquid resp)) of
       None \<Rightarrow> Ok None
     | Some liquidAmount \<Rightarrow>
         (case NewIntFromString C (wc_Amount (sa_Vesting resp)) of
            None \<Rightarrow> Ok None
          | Some vestingAmount \<Rightarrow>
              if liquidAmount = 0 \<and> vestingAmount = 0 then Ok None
              else Int_Add K (Some liquidAmount) (Some vestingAmount)))"

record UnbondingDelegationEntry =
  ue_CreationHeight :: int
  ue_CompletionTime :: int
  ue_InitialBalance :: "int option"
  ue_Balance :: "int option"

definition unbonding_entry :: "TG4StakeClaim \<Rightarrow> UnbondingDelegationEntry" where
  "unbonding_entry v =
     \<lparr>ue_CreationHeight = int64_of_uint64 (cl_CreationHeight v), ue_CompletionTime = int64_of_uint64 (cl_ReleaseAt v),
      ue_InitialBalance = cl_Amount v, ue_Balance = cl_Amount v\<rparr>"

definition QueryStakingUnbonding ::
    "sdk_ops \<Rightarrow> 'd sdk_json \<Rightarrow> querier \<Rightarrow> BaseContractAdapter \<Rightarrow> addr \<Rightarrow> UnbondingDelegationEntry list res" where
  "QueryStakingUnbonding K J Q v opAddr =
     (case ba_addressLookupErr v of
        Some err \<Rightarrow> Err err
      | None \<Rightarrow>
          bind_res (wrap_res ''contract query'' (doQuery Q (ba_contractAddr v)
            (enc_TG4StakeQuery (QClaims \<lparr>lc_Address = sAddrString K opAddr, lc_Limit = 0, lc_StartAfter = 0\<rparr>))
            (dec_struct [(''claims'', dec_list \<lparr>cl_Addr = [], cl_Amount = None, cl_CreationHeight = 0, cl_ReleaseAt = 0\<rparr>
               (dec_TG4StakeClaim J))]) [])) (\<lambda>claims.
          Ok (map unbonding_entry claims)))"

section \<open>Validator set contract\<close>

text \<open>A point in time in nanoseconds since the epoch; \<open>None\<close> is the zero \<open>time.Time\<close>.\<close>

record JailingEnd =
  je_Forever :: bool
  je_Until :: "int option"

record JailingPeriod =
  jp_Start :: "int option"
  jp_End :: JailingEnd

definition noJailingPeriod :: JailingPeriod where
  "noJailingPeriod = \<lparr>jp_Start = None, jp_End = \<lparr>je_Forever = False, je_Until = None\<rparr>\<rparr>"

record jailing_proxy =
  jx_Start :: string
  jx_Until :: string
  jx_Forever :: "unit option"

definition dec_jailing_proxy :: "jailing_proxy decoder" where
  "dec_jailing_proxy = dec_struct
     [(''start'', at_field jx_Start jx_Start_update dec_string),
      (''end'', dec_struct
         [(''until'', at_field jx_Until jx_Until_update dec_string),
          (''forever'', at_field jx_Forever jx_Forever_update (dec_ptr () (dec_struct [])))])]"

definition JailingPeriod_UnmarshalJSON :: "JailingPeriod decoder" where
  "JailingPeriod_UnmarshalJSON data j =
     bind_res (dec_jailing_proxy data \<lparr>jx_Start = [], jx_Until = [], jx_Forever = None\<rparr>) (\<lambda>r.
     bind_res (if jx_Start r \<noteq> [] then bind_res (parse_int (jx_Start r)) (\<lambda>start. Ok (j\<lparr>jp_Start := Some start\<rparr>))
       else Ok j) (\<lambda>j.
     if jx_Forever r \<noteq> None then Ok (j\<lparr>jp_End := (jp_End j)\<lparr>je_Forever := True\<rparr>\<rparr>)
     else if jx_Until r \<noteq> [] then
       bind_res (parse_int (jx_Until r)) (\<lambda>until. Ok (j\<lparr>jp_End := (jp_End j)\<lparr>je_Until := Some until\<rparr>\<rparr>))
     else fail (PlainErr ''unknown json data: '')))"

record OperatorResponse =
  or_Operator :: string
  or_Pubkey :: ValidatorPubkey
  or_Metadata :: ValidatorMetadata
  or_JailedUntil :: "JailingPeriod option"
  or_ActiveValidator :: bool

definition noOperator :: OperatorResponse where
  "noOperator = \<lparr>or_Operator = [], or_Pubkey = noPubkey, or_Metadata = noMetadata, or_JailedUntil = None,
     or_ActiveValidator = False\<rparr>"

definition dec_OperatorResponse :: "OperatorResponse decoder" where
  "dec_OperatorResponse = dec_struct
     [(''operator'', at_field or_Operator or_Operator_update dec_string),
      (''pubkey'', at_field or_Pubkey or_Pubkey_update dec_ValidatorPubkey),
      (''metadata'', at_field or_Metadata or_Metadata_update dec_ValidatorMetadata),
      (''jailed_until'', at_field or_JailedUntil or_JailedUntil_update
         (dec_ptr noJailingPeriod JailingPeriod_UnmarshalJSON)),
      (''active_validator'', at_field or_ActiveValidator or_ActiveValidator_update dec_bool)]"

text \<open>\<open>stakingtypes.Validator\<close> with the fields the code sets; \<open>newAny\<close> is \<open>codectypes.NewAnyWithValue\<close>.\<close>

datatype bond_status = Unbonded | Bonded

record ('a, 'd) sdk_Validator =
  sv_OperatorAddress :: string
  sv_ConsensusPubkey :: 'a
  sv_Description :: Description
  sv_DelegatorShares :: 'd
  sv_Status :: bond_status
  sv_Jailed :: bool

record ('a, 'd) val_env =
  newAny :: "pubkey \<Rightarrow> 'a res"
  val_OneDec :: 'd

definition ToValidator :: "('a, 'd) val_env \<Rightarrow> OperatorResponse \<Rightarrow> ('a, 'd) sdk_Validator res" where
  "ToValidator V v =
     bind_res (wrap_res ''convert to cosmos key'' (toCosmosPubKey (or_Pubkey v))) (\<lambda>pubKey.
     bind_res (wrap_res ''convert to any type'' (newAny V pubKey)) (\<lambda>any.
     Ok \<lparr>sv_OperatorAddress = or_Operator v, sv_ConsensusPubkey = any, sv_Description = ToDescription (or_Metadata v),
         sv_DelegatorShares = val_OneDec V, sv_Status = (if or_ActiveValidator v then Bonded else Unbonded),
         sv_Jailed = (or_JailedUntil v \<noteq> None)\<rparr>))"

datatype ValsetQuery =
    QConfig
  | QEpoch
  | QValidator string
  | QListValidators string int
  | QListActiveValidators string int
  | QSimulateActiveValidators
  | QListValidatorSlashing string

definition enc_ListValidatorsQuery :: "string \<Rightarrow> int \<Rightarrow> json" where
  "enc_ListValidatorsQuery startAfter limit = JObj (omit_str ''start_after'' startAfter @ omit_int ''limit'' limit)"

primrec enc_ValsetQuery :: "ValsetQuery \<Rightarrow> json" where
  "enc_ValsetQuery QConfig = JObj [(''configuration'', JObj [])]"
| "enc_ValsetQuery QEpoch = JObj [(''epoch'', JObj [])]"
| "enc_ValsetQuery (QValidator a) = JObj [(''validator'', JObj [(''operator'', JStr a)])]"
| "enc_ValsetQuery (QListValidators c l) = JObj [(''list_validators'', enc_ListValidatorsQuery c l)]"
| "enc_ValsetQuery (QListActiveValidators c l) = JObj [(''list_active_validators'', enc_ListValidatorsQuery c l)]"
| "enc_ValsetQuery QSimulateActiveValidators = JObj [(''simulate_active_validators'', JObj [])]"
| "enc_ValsetQuery (QListValidatorSlashing a) = JObj [(''list_validator_slashing'', JObj [(''operator'', JStr a)])]"

record ValidatorInfo =
  vi_Operator :: string
  vi_ValidatorPubkey :: ValidatorPubkey
  vi_Power :: uint64

definition noInfo :: ValidatorInfo where
  "noInfo = \<lparr>vi_Operator = [], vi_ValidatorPubkey = noPubkey, vi_Power = 0\<rparr>"

definition dec_ValidatorInfo :: "ValidatorInfo decoder" where
  "dec_ValidatorInfo = dec_struct
     [(''operator'', at_field vi_Operator vi_Operator_update dec_string),
      (''validator_pubkey'', at_field vi_ValidatorPubkey vi_ValidatorPubkey_update dec_ValidatorPubkey),
      (''power'', at_field vi_Power vi_Power_update dec_uint64)]"

text \<open>\<open>ListActiveValidatorsResponse\<close> and \<open>ListValidatorsResponse\<close> have one field, a slice.\<close>

definition dec_ListActiveValidatorsResponse :: "ValidatorInfo slice decoder" where
  "dec_ListActiveValidatorsResponse = dec_struct [(''validators'', dec_slice noInfo dec_ValidatorInfo)]"

definition ListActiveValidators_PaginationCursor :: "ValidatorInfo slice \<Rightarrow> bytes option" where
  "ListActiveValidators_PaginationCursor l =
     (if slice_list l = [] then None else Some (string_bytes (vi_Operator (last (slice_list l)))))"

definition dec_ListValidatorsResponse :: "OperatorResponse list decoder" where
  "dec_ListValidatorsResponse = dec_struct [(''validators'', dec_list noOperator dec_OperatorResponse)]"

definition ListValidators_PaginationCursor :: "OperatorResponse list \<Rightarrow> bytes option" where
  "ListValidators_PaginationCursor l = (if l = [] then None else Some (string_bytes (or_Operator (last l))))"

record ValsetEpochResponse =
  ve_EpochLength :: uint64
  ve_CurrentEpoch :: uint64
  ve_LastUpdateTime :: uint64
  ve_LastUpdateHeight :: uint64

definition dec_ValsetEpochResponse :: "ValsetEpochResponse decoder" where
  "dec_ValsetEpochResponse = dec_struct
     [(''epoch_length'', at_field ve_EpochLength ve_EpochLength_update dec_uint64),
      (''current_epoch'', at_field ve_CurrentEpoch ve_CurrentEpoch_update dec_uint64),
      (''last_update_time'', at_field ve_LastUpdateTime ve_LastUpdateTime_update dec_uint64),
      (''last_update_height'', at_field ve_LastUpdateHeight ve_LastUpdateHeight_update dec_uint64)]"

definition QueryValsetEpoch :: "querier \<Rightarrow> addr \<Rightarrow> ValsetEpochResponse res" where
  "QueryValsetEpoch Q valset =
     doQuery Q valset (enc_ValsetQuery QEpoch) dec_ValsetEpochResponse
       \<lparr>ve_EpochLength = 0, ve_CurrentEpoch = 0, ve_LastUpdateTime = 0, ve_LastUpdateHeight = 0\<rparr>"

definition SimulateActiveValidators :: "querier \<Rightarrow> addr \<Rightarrow> ValidatorInfo list res" where
  "SimulateActiveValidators Q valset =
     bind_res (doQuery Q valset (enc_ValsetQuery QSimulateActiveValidators) dec_ListActiveValidatorsResponse (Slice [] 0))
       (\<lambda>l. Ok (slice_list l))"

definition QueryRawValidator :: "sdk_ops \<Rightarrow> querier \<Rightarrow> BaseContractAdapter \<Rightarrow> addr \<Rightarrow> OperatorResponse option res" where
  "QueryRawValidator K Q v opAddr =
     wrap_res ''contract query'' (adapter_doQuery Q v (enc_ValsetQuery (QValidator (sAddrString K opAddr)))
       (dec_struct [(''validator'', dec_ptr noOperator dec_OperatorResponse)]) None)"

definition QueryValidator ::
    "sdk_ops \<Rightarrow> ('a, 'd) val_env \<Rightarrow> querier \<Rightarrow> BaseContractAdapter \<Rightarrow> addr \<Rightarrow> ('a, 'd) sdk_Validator option res" where
  "QueryValidator K V Q v opAddr =
     bind_res (wrap_res ''contract query'' (adapter_doQuery Q v (enc_ValsetQuery (QValidator (sAddrString K opAddr)))
       (dec_struct [(''validator'', dec_ptr noOperator dec_OperatorResponse)]) None)) (\<lambda>rsp.
     case rsp of
       None \<Rightarrow> Ok None
     | Some r \<Rightarrow> bind_res (ToValidator V r) (\<lambda>val. Ok (Some val)))"

fun convert_validators :: "('a, 'd) val_env \<Rightarrow> OperatorResponse list \<Rightarrow> ('a, 'd) sdk_Validator list res" where
  "convert_validators V [] = Ok []"
| "convert_validators V (v # vs) =
     bind_res (ToValidator V v) (\<lambda>x. bind_res (convert_validators V vs) (\<lambda>xs. Ok (x # xs)))"

definition ListValidators ::
    "('a, 'd) val_env \<Rightarrow> querier \<Rightarrow> BaseContractAdapter \<Rightarrow> Paginator option \<Rightarrow>
     (('a, 'd) sdk_Validator list \<times> bytes option) res" where
  "ListValidators V Q v pagination =
     (let (startAfter, limit) = ToQuery pagination in
      bind_res (wrap_res ''contract query'' (doPageableQuery Q v (enc_ValsetQuery (QListValidators startAfter limit))
        dec_ListValidatorsResponse ListValidators_PaginationCursor [])) (\<lambda>(rsp, cursor).
      bind_res (convert_validators V rsp) (\<lambda>vals. Ok (vals, cursor))))"

text \<open>
  The loop over the pages of active validators. The variable \<open>rsp\<close> is decoded into again for every
  page. The contract may answer with pages for ever: \<open>fuel\<close> bounds the number of pages and \<open>None\<close>
  stands for a loop that has not ended by then.
\<close>

fun call_infos :: "(ValidatorInfo \<Rightarrow> ('s, bool) act) \<Rightarrow> ValidatorInfo list \<Rightarrow> ('s, bool) act" where
  "call_infos callback [] = ret False"
| "call_infos callback (v # vs) = bindS (callback v) (\<lambda>stop. if stop then ret True else call_infos callback vs)"

fun iterate_pages ::
    "nat \<Rightarrow> ('s \<Rightarrow> querier) \<Rightarrow> BaseContractAdapter \<Rightarrow> (ValidatorInfo \<Rightarrow> ('s, bool) act) \<Rightarrow>
     ValidatorInfo slice \<Rightarrow> bytes option \<Rightarrow> 's \<Rightarrow> (unit res \<times> 's) option" where
  "iterate_pages 0 Q v callback rsp cursor s = None"
| "iterate_pages (Suc fuel) Q v callback rsp cursor s =
     (if PaginationCursor_Empty cursor then Some (Ok (), s)
      else (case call_infos callback (slice_list rsp) s of
        (Err e, s') \<Rightarrow> Some (Err e, s')
      | (Panic p, s') \<Rightarrow> Some (Panic p, s')
      | (Ok stop, s') \<Rightarrow>
          if stop then Some (Ok (), s')
          else (case doPageableQuery (Q s') v (enc_ValsetQuery (QListActiveValidators (PaginationCursor_String cursor) 0))
                  dec_ListActiveValidatorsResponse ListActiveValidators_PaginationCursor rsp of
            Err e \<Rightarrow> Some (Err e, s')
          | Panic p \<Rightarrow> Some (Panic p, s')
          | Ok (rsp', newCursor) \<Rightarrow> iterate_pages fuel Q v callback rsp' newCursor s')))"

definition IterateActiveValidators ::
    "nat \<Rightarrow> ('s \<Rightarrow> querier) \<Rightarrow> BaseContractAdapter \<Rightarrow> (ValidatorInfo \<Rightarrow> ('s, bool) act) \<Rightarrow> Paginator option \<Rightarrow>
     's \<Rightarrow> (unit res \<times> 's) option" where
  "IterateActiveValidators fuel Q v callback pagination s =
     (let (startAfter, limit) = ToQuery pagination in
      case doPageableQuery (Q s) v (enc_ValsetQuery (QListActiveValidators startAfter limit))
             dec_ListActiveValidatorsResponse ListActiveValidators_PaginationCursor (Slice [] 0) of
        Err e \<Rightarrow> Some (Err e, s)
      | Panic p \<Rightarrow> Some (Panic p, s)
      | Ok (rsp, cursor) \<Rightarrow> iterate_pages fuel Q v callback rsp cursor s)"

record 'd ValidatorSlashing =
  sl_Height :: uint64
  sl_Portion :: 'd

definition dec_ValidatorSlashing :: "'d sdk_json \<Rightarrow> 'd ValidatorSlashing decoder" where
  "dec_ValidatorSlashing J = dec_struct
     [(''slash_height'', at_field sl_Height sl_Height_update dec_uint64),
      (''portion'', at_field sl_Portion sl_Portion_update (dec_sdk_Dec J))]"

record 'd ListValidatorSlashingResponse =
  ls_Operator :: string
  ls_StartHeight :: uint64
  ls_Slashing :: "'d ValidatorSlashing list"

definition dec_ListValidatorSlashingResponse :: "'d \<Rightarrow> 'd sdk_json \<Rightarrow> 'd ListValidatorSlashingResponse decoder" where
  "dec_ListValidatorSlashingResponse nilDec J = dec_struct
     [(''operator'', at_field ls_Operator ls_Operator_update dec_string),
      (''start_height'', at_field ls_StartHeight ls_StartHeight_update dec_uint64),
      (''slashing'', at_field ls_Slashing ls_Slashing_update
         (dec_list \<lparr>sl_Height = 0, sl_Portion = nilDec\<rparr> (dec_ValidatorSlashing J)))]"

text \<open>\<open>nilDec\<close> is the zero value of \<open>sdk.Dec\<close>.\<close>

definition ListValidatorSlashing ::
    "sdk_ops \<Rightarrow> 'd \<Rightarrow> 'd sdk_json \<Rightarrow> querier \<Rightarrow> BaseContractAdapter \<Rightarrow> addr \<Rightarrow> 'd ValidatorSlashing list res" where
  "ListValidatorSlashing K nilDec J Q v opAddr =
     bind_res (wrap_res ''contract query'' (adapter_doQuery Q v
       (enc_ValsetQuery (QListValidatorSlashing (sAddrString K opAddr))) (dec_ListValidatorSlashingResponse nilDec J)
       \<lparr>ls_Operator = [], ls_StartHeight = 0, ls_Slashing = []\<rparr>)) (\<lambda>rsp. Ok (ls_Slashing rsp))"

record 'd contract_DistributionContract =
  dc_Address :: string
  dc_Ratio :: 'd

record 'd ValsetConfigResponse =
  vc_Membership :: string
  vc_MinPoints :: uint64
  vc_MaxValidators :: uint32
  vc_Scaling :: uint32
  vc_EpochReward :: msg_coin
  vc_FeePercentage :: 'd
  vc_DistributionContracts :: "'d contract_DistributionContract list"
  vc_ValidatorGroup :: string
  vc_AutoUnjail :: bool

definition dec_ValsetConfigResponse :: "'d \<Rightarrow> 'd sdk_json \<Rightarrow> 'd ValsetConfigResponse decoder" where
  "dec_ValsetConfigResponse nilDec J = dec_struct
     [(''membership'', at_field vc_Membership vc_Membership_update dec_string),
      (''min_points'', at_field vc_MinPoints vc_MinPoints_update dec_uint64),
      (''max_validators'', at_field vc_MaxValidators vc_MaxValidators_update dec_uint32),
      (''scaling'', at_field vc_Scaling vc_Scaling_update dec_uint32),
      (''epoch_reward'', at_field vc_EpochReward vc_EpochReward_update (dec_sdk_Coin J)),
      (''fee_percentage'', at_field vc_FeePercentage vc_FeePercentage_update (dec_sdk_Dec J)),
      (''distribution_contracts'', at_field vc_DistributionContracts vc_DistributionContracts_update
         (dec_list \<lparr>dc_Address = [], dc_Ratio = nilDec\<rparr>
           (dec_struct [(''contract'', at_field dc_Address dc_Address_update dec_string),
              (''ratio'', at_field dc_Ratio dc_Ratio_update (dec_sdk_Dec J))]))),
      (''validator_group'', at_field vc_ValidatorGroup vc_ValidatorGroup_update dec_string),
      (''auto_unjail'', at_field vc_AutoUnjail vc_AutoUnjail_update dec_bool)]"

definition QueryConfig :: "'d \<Rightarrow> 'd sdk_json \<Rightarrow> querier \<Rightarrow> BaseContractAdapter \<Rightarrow> 'd ValsetConfigResponse res" where
  "QueryConfig nilDec J Q v =
     (case ba_addressLookupErr v of
        Some err \<Rightarrow> Err err
      | None \<Rightarrow>
          wrap_res ''contract query'' (adapter_doQuery Q v (enc_ValsetQuery QConfig) (dec_ValsetConfigResponse nilDec J)
            \<lparr>vc_Membership = [], vc_MinPoints = 0, vc_MaxValidators = 0, vc_Scaling = 0, vc_EpochReward = noCoin,
             vc_FeePercentage = nilDec, vc_DistributionContracts = [], vc_ValidatorGroup = [], vc_AutoUnjail = False\<rparr>))"

definition Valset_UpdateAdmin :: "sdk_ops \<Rightarrow> 's executor \<Rightarrow> BaseContractAdapter \<Rightarrow> addr \<Rightarrow> addr \<Rightarrow> ('s, unit) act" where
  "Valset_UpdateAdmin K execute v newAdmin sender =
     doExecute execute v (enc_TG4ValsetExecute
       (noValsetExecute\<lparr>ve_UpdateAdmin := Some \<lparr>NewAdmin = Some (sAddrString K newAdmin)\<rparr>\<rparr>)) sender []"

text \<open>\<open>neg\<close> is the platform's conversion of a negative float to \<open>uint64\<close>.\<close>

definition JailValidator ::
    "sdk_ops \<Rightarrow> (rat \<Rightarrow> uint64) \<Rightarrow> 's executor \<Rightarrow> BaseContractAdapter \<Rightarrow> addr \<Rightarrow> duration \<Rightarrow> bool \<Rightarrow> addr \<Rightarrow> ('s, unit) act" where
  "JailValidator K neg execute v nodeOperator duration forever sender =
     (if whole_seconds duration \<noteq> duration then lift_res (failw PoeErrInvalid ''must fit into seconds'')
      else if forever \<and> duration > 1 then lift_res (failw PoeErrInvalid ''either duration or forever'')
      else if \<not> forever \<and> \<not> duration > 1 then lift_res (fail PoeErrEmpty)
      else
        (let jailDuration = (if forever then \<lparr>jd_Duration = 0, jd_Forever = Some ()\<rparr>
           else \<lparr>jd_Duration = uint64_seconds neg duration, jd_Forever = None\<rparr>) in
         doExecute execute v (enc_TG4ValsetExecute (noValsetExecute\<lparr>ve_Jail :=
           Some \<lparr>jm_Operator = sAddrString K nodeOperator, jm_Duration = jailDuration\<rparr>\<rparr>)) sender []))"

definition UnjailValidator :: "'s executor \<Rightarrow> BaseContractAdapter \<Rightarrow> addr \<Rightarrow> ('s, unit) act" where
  "UnjailValidator execute v sender =
     doExecute execute v (enc_TG4ValsetExecute (noValsetExecute\<lparr>ve_Unjail := Some \<lparr>um_Operator = []\<rparr>\<rparr>)) sender []"

end
