(* ===== verification/PoEKeeper.thy ===== *)
theory PoEKeeper
  imports PoEAdapters KVStore
begin

text \<open>
  \<open>x/poe/keeper\<close> without message server and queries: the registry of PoE contract addresses with its
  in-memory cache, the historical infos, the parameters, engagement points and genesis.

  State: \<open>p_store\<close> is the module's key-value store (prefix \<open>0x01\<close>: contract addresses by the name of
  their kind, \<open>0x02\<close>: historical infos by height in decimal), \<open>p_cache\<close> the keeper's cache, which is
  no part of the store and is not rolled back with it, \<open>p_params\<close> the parameter subspace, \<open>p_votes\<close>
  the votes of the last commit, \<open>p_events\<close> the emitted events and \<open>p_world\<close> everything outside of the
  module. The interface on which the other components rely is the locale \<open>contract_source\<close>.
\<close>

section \<open>State and environment\<close>

record abci_VoteInfo =
  vt_Address :: bytes
  vt_Power :: int
  vt_SignedLastBlock :: bool

record 'w poe_state =
  p_store :: kv
  p_cache :: "PoEContractType \<rightharpoonup> addr"
  p_params :: "string \<rightharpoonup> poe_param"
  p_votes :: "abci_VoteInfo list"
  p_events :: "event list"
  p_world :: 'w

text \<open>
  The contract calls of the twasm keeper on the whole state; \<open>'h\<close> are historical infos of the
  SDK with their codec and constructor.
\<close>

record 'w poe_calls =
  x_Execute :: "'w poe_state executor"
  x_Sudo :: "'w poe_state sudoer"
  x_QuerySmart :: "'w poe_state \<Rightarrow> querier"

record ('hd, 'h) hist_ops =
  MarshalHistoricalInfo :: "'h \<Rightarrow> bytes"
  UnmarshalHistoricalInfo :: "bytes \<Rightarrow> 'h res"
  NewHistoricalInfo :: "'hd \<Rightarrow> 'h"

section \<open>Contract addresses\<close>

definition ContractPrefix :: bytes where
  "ContractPrefix = [0x01]"

definition HistoricalInfoKey :: bytes where
  "HistoricalInfoKey = [0x02]"

definition poeContractAddressKey :: "PoEContractType \<Rightarrow> bytes" where
  "poeContractAddressKey ctype = ContractPrefix @ string_bytes (PoEContractType_String ctype)"

definition SetPoEContractAddress :: "PoEContractType \<Rightarrow> addr \<Rightarrow> 'w poe_state \<Rightarrow> 'w poe_state" where
  "SetPoEContractAddress ctype contractAddr s =
     s\<lparr>p_store := kv_set (p_store s) (poeContractAddressKey ctype) contractAddr,
       p_cache := (p_cache s)(ctype \<mapsto> contractAddr)\<rparr>"

definition GetPoEContractAddress :: "PoEContractType \<Rightarrow> 'w poe_state \<Rightarrow> addr res" where
  "GetPoEContractAddress ctype s =
     bind_res (wrap_res ''contract type'' (PoEContractType_ValidateBasic ctype)) (\<lambda>_.
     case p_cache s ctype of
       Some addr \<Rightarrow> Ok addr
     | None \<Rightarrow>
         (case kv_get (p_store s) (poeContractAddressKey ctype) of
            None \<Rightarrow> fail WasmErrNotFound
          | Some addr \<Rightarrow> if addr = [] then fail WasmErrNotFound else Ok addr))"

text \<open>The callback is a call that returns whether to stop.\<close>

fun iterate_contracts :: "(PoEContractType \<Rightarrow> addr \<Rightarrow> ('s, bool) act) \<Rightarrow> kv \<Rightarrow> ('s, unit) act" where
  "iterate_contracts cb [] = ret ()"
| "iterate_contracts cb ((key, value) # es) =
     bindS (cb (PoEContractTypeFrom (bytes_string key)) value) (\<lambda>stop.
     if stop then ret () else iterate_contracts cb es)"

definition IteratePoEContracts ::
    "(PoEContractType \<Rightarrow> addr \<Rightarrow> ('w poe_state, bool) act) \<Rightarrow> ('w poe_state, unit) act" where
  "IteratePoEContracts cb s = iterate_contracts cb (prefix_entries ContractPrefix (p_store s)) s"

definition cache_address :: "PoEContractType \<Rightarrow> addr \<Rightarrow> ('w poe_state, bool) act" where
  "cache_address contractType address s =
     (Ok False, s\<lparr>p_cache := (p_cache s)(contractType \<mapsto> address)\<rparr>)"

definition InitContractAddressCache :: "('w poe_state, unit) act" where
  "InitContractAddressCache = IteratePoEContracts cache_address"

definition GetBondDenom :: "'w poe_state \<Rightarrow> string" where
  "GetBondDenom s = DefaultBondDenom"

definition UpdateValidatorVotes :: "abci_VoteInfo list \<Rightarrow> 'w poe_state \<Rightarrow> 'w poe_state" where
  "UpdateValidatorVotes validatorVotes s = s\<lparr>p_votes := validatorVotes\<rparr>"

definition GetValidatorVotes :: "'w poe_state \<Rightarrow> abci_VoteInfo list" where
  "GetValidatorVotes s = p_votes s"

section \<open>Contract adapters\<close>

text \<open>The error of a failed lookup is kept in the adapter, with a nil address.\<close>

definition lookup_adapter :: "PoEContractType \<Rightarrow> 'w poe_state \<Rightarrow> BaseContractAdapter" where
  "lookup_adapter ctype s =
     (case GetPoEContractAddress ctype s of
        Ok addr \<Rightarrow> NewBaseContractAdapter addr None
      | Err e \<Rightarrow> NewBaseContractAdapter [] (Some e)
      | Panic p \<Rightarrow> NewBaseContractAdapter [] None)"

definition DistributionContract :: "'w poe_state \<Rightarrow> BaseContractAdapter" where
  "DistributionContract s = lookup_adapter PoEContractTypeDistribution s"

definition ValsetContract :: "'w poe_state \<Rightarrow> BaseContractAdapter" where
  "ValsetContract s = lookup_adapter PoEContractTypeValset s"

definition StakeContract :: "'w poe_state \<Rightarrow> BaseContractAdapter" where
  "StakeContract s = lookup_adapter PoEContractTypeStaking s"

definition EngagementContract :: "'w poe_state \<Rightarrow> BaseContractAdapter" where
  "EngagementContract s = lookup_adapter PoEContractTypeEngagement s"

definition UnbondingTime :: "'w poe_calls \<Rightarrow> 'w poe_state \<Rightarrow> duration res" where
  "UnbondingTime X s =
     (case QueryStakingUnbondingPeriod (x_QuerySmart X s) (StakeContract s) of
        Ok d \<Rightarrow> Ok d
      | Err e \<Rightarrow> Panic ''unboding period: %s''
      | Panic p \<Rightarrow> Panic p)"

section \<open>Parameters\<close>

text \<open>
  \<open>Subspace.Get\<close> panics on a parameter that was never set; \<open>SetParamSet\<close> checks every pair with its
  validation function before it stores it and panics when the check fails.
\<close>

definition poe_HistoricalEntries :: "'w poe_state \<Rightarrow> uint32 res" where
  "poe_HistoricalEntries s =
     (case p_params s KeyHistoricalEntries of Some (Uint32Param n) \<Rightarrow> Ok n | _ \<Rightarrow> Panic ''param not set'')"

definition GetInitialValidatorEngagementPoints :: "'w poe_state \<Rightarrow> uint64 res" where
  "GetInitialValidatorEngagementPoints s =
     (case p_params s KeyInitialValEngagementPoints of Some (Uint64Param n) \<Rightarrow> Ok n | _ \<Rightarrow> Panic ''param not set'')"

definition MinimumDelegationAmounts :: "'w poe_state \<Rightarrow> coin list res" where
  "MinimumDelegationAmounts s =
     (case p_params s KeyMinDelegationAmounts of Some (CoinsParam c) \<Rightarrow> Ok c | _ \<Rightarrow> Panic ''param not set'')"

definition GetParams :: "'w poe_state \<Rightarrow> poe_Params res" where
  "GetParams s =
     bind_res (poe_HistoricalEntries s) (\<lambda>h.
     bind_res (GetInitialValidatorEngagementPoints s) (\<lambda>p.
     bind_res (MinimumDelegationAmounts s) (\<lambda>m. Ok (NewParams h p m))))"

fun set_pairs :: "(string \<times> poe_param \<times> (poe_param \<Rightarrow> unit res)) list \<Rightarrow> ('w poe_state, unit) act" where
  "set_pairs [] = ret ()"
| "set_pairs ((k, v, check) # ps) =
     (\<lambda>s. if is_ok (check v) then set_pairs ps (s\<lparr>p_params := (p_params s)(k \<mapsto> v)\<rparr>)
          else (Panic ''value from ParamSetPair is invalid'', s))"

definition setParams :: "sdk_ops \<Rightarrow> poe_Params \<Rightarrow> ('w poe_state, unit) act" where
  "setParams K params = set_pairs (ParamSetPairs K params)"

section \<open>Historical infos\<close>

definition getHistoricalInfoKey :: "int \<Rightarrow> bytes" where
  "getHistoricalInfoKey height = HistoricalInfoKey @ string_bytes (format_int height)"

text \<open>\<open>MustUnmarshalHistoricalInfo\<close> panics on a value that does not decode.\<close>

definition GetHistoricalInfo :: "('hd, 'h) hist_ops \<Rightarrow> int \<Rightarrow> 'w poe_state \<Rightarrow> 'h option res" where
  "GetHistoricalInfo H height s =
     (case kv_get (p_store s) (getHistoricalInfoKey height) of
        None \<Rightarrow> Ok None
      | Some value \<Rightarrow> bind_res (must_ok (UnmarshalHistoricalInfo H value)) (\<lambda>hi. Ok (Some hi)))"

definition SetHistoricalInfo :: "('hd, 'h) hist_ops \<Rightarrow> int \<Rightarrow> 'h \<Rightarrow> 'w poe_state \<Rightarrow> 'w poe_state" where
  "SetHistoricalInfo H height hi s =
     s\<lparr>p_store := kv_set (p_store s) (getHistoricalInfoKey height) (MarshalHistoricalInfo H hi)\<rparr>"

definition DeleteHistoricalInfo :: "int \<Rightarrow> 'w poe_state \<Rightarrow> 'w poe_state" where
  "DeleteHistoricalInfo height s = s\<lparr>p_store := kv_del (p_store s) (getHistoricalInfoKey height)\<rparr>"

fun iterate_hist :: "('hd, 'h) hist_ops \<Rightarrow> ('h \<Rightarrow> ('s, bool) act) \<Rightarrow> kv \<Rightarrow> ('s, unit) act" where
  "iterate_hist H cb [] = ret ()"
| "iterate_hist H cb ((key, value) # es) =
     bindS (lift_res (must_ok (UnmarshalHistoricalInfo H value))) (\<lambda>hi.
     bindS (cb hi) (\<lambda>stop. if stop then ret () else iterate_hist H cb es))"

definition iterateHistoricalInfo ::
    "('hd, 'h) hist_ops \<Rightarrow> 'w poe_state \<Rightarrow> ('h \<Rightarrow> ('s, bool) act) \<Rightarrow> ('s, unit) act" where
  "iterateHistoricalInfo H s cb = iterate_hist H cb (prefix_entries HistoricalInfoKey (p_store s))"

definition getAllHistoricalInfo :: "('hd, 'h) hist_ops \<Rightarrow> 'w poe_state \<Rightarrow> 'h list res" where
  "getAllHistoricalInfo H s =
     (let (r, infos) = iterateHistoricalInfo H s (\<lambda>hi infos. (Ok False, infos @ [hi])) [] in
      bind_res r (\<lambda>_. Ok infos))"

text \<open>
  The pruning loop runs from a height down to the first height without an entry: \<open>prune H n\<close> is
  the loop with \<open>n - 1\<close> as the current height, and ends below zero.
\<close>

fun prune :: "('hd, 'h) hist_ops \<Rightarrow> nat \<Rightarrow> ('w poe_state, unit) act" where
  "prune H 0 s = (Ok (), s)"
| "prune H (Suc i) s =
     (case GetHistoricalInfo H (int i) s of
        Err e \<Rightarrow> (Err e, s)
      | Panic p \<Rightarrow> (Panic p, s)
      | Ok None \<Rightarrow> (Ok (), s)
      | Ok (Some _) \<Rightarrow> prune H i (DeleteHistoricalInfo (int i) s))"

definition TrackHistoricalInfo :: "('hd, 'h) hist_ops \<Rightarrow> int \<Rightarrow> 'hd \<Rightarrow> ('w poe_state, unit) act" where
  "TrackHistoricalInfo H blockHeight header =
     bindS (\<lambda>s. (poe_HistoricalEntries s, s)) (\<lambda>entryNum.
     bindS (prune H (nat (to_int64 (blockHeight - uint entryNum) + 1))) (\<lambda>_.
     if entryNum = 0 then ret ()
     else modify (SetHistoricalInfo H blockHeight (NewHistoricalInfo H header))))"

section \<open>Engagement points\<close>

definition GetEngagementPoints :: "sdk_ops \<Rightarrow> 'w poe_calls \<Rightarrow> addr \<Rightarrow> 'w poe_state \<Rightarrow> uint64 res" where
  "GetEngagementPoints K X opAddr s =
     bind_res (wrap_res ''get contract addr'' (GetPoEContractAddress PoEContractTypeEngagement s)) (\<lambda>engagementContractAddr.
     bind_res (wrap_res ''query staking contract''
       (QueryTG4Member K (x_QuerySmart X s) engagementContractAddr opAddr)) (\<lambda>weight.
     case weight of None \<Rightarrow> Ok 0 | Some w \<Rightarrow> Ok (uint64_of_int64 w)))"

definition setEngagementPoints :: "sdk_ops \<Rightarrow> 'w poe_calls \<Rightarrow> addr \<Rightarrow> uint64 \<Rightarrow> ('w poe_state, unit) act" where
  "setEngagementPoints K X opAddr points =
     bindS (\<lambda>s. (wrap_res ''get contract addr'' (GetPoEContractAddress PoEContractTypeEngagement s), s)) (\<lambda>engagementContractAddr.
     SetEngagementPoints K (x_Sudo X) engagementContractAddr opAddr points)"

definition SetValidatorInitialEngagementPoints ::
    "sdk_ops \<Rightarrow> 'w poe_calls \<Rightarrow> addr \<Rightarrow> msg_coin \<Rightarrow> ('w poe_state, unit) act" where
  "SetValidatorInitialEngagementPoints K X opAddr selfDelegation =
     bindS (\<lambda>s. (GetInitialValidatorEngagementPoints s, s)) (\<lambda>newPoints.
     if newPoints = 0 then ret ()
     else bindS (\<lambda>s. (MinimumDelegationAmounts s, s)) (\<lambda>minAmounts.
     bindS (lift_res (NewCoins K [selfDelegation])) (\<lambda>coins.
     if \<not> Coins_IsAllGTE K coins minAmounts then ret ()
     else bindS (\<lambda>s. (wrap_res ''get engagement points'' (GetEngagementPoints K X opAddr s), s)) (\<lambda>currentPoints.
     if newPoints \<le> currentPoints then ret ()
     else wrapS ''set engagement points'' (setEngagementPoints K X opAddr newPoints)))))"

section \<open>Genesis\<close>

text \<open>
  \<open>deliverTx\<close> delivers the bytes of a transaction and returns whether the response is OK; the
  transaction decoder, its basic validation and the encoder are those of the SDK.
\<close>

record ('t, 'x, 'w) gentx_ops =
  TxJSONDecoder :: "'t \<Rightarrow> 'x res"
  Tx_ValidateBasic :: "'x \<Rightarrow> unit res"
  TxEncoder :: "'x \<Rightarrow> bytes res"
  deliverTx :: "bytes \<Rightarrow> 'w poe_state \<Rightarrow> bool \<times> 'w poe_state"

fun DeliverGenTxs :: "('t, 'x, 'w) gentx_ops \<Rightarrow> 't list \<Rightarrow> ('w poe_state, unit) act" where
  "DeliverGenTxs G [] = ret ()"
| "DeliverGenTxs G (genTx # ts) =
     bindS (lift_res (wrap_res ''json decode gentx'' (TxJSONDecoder G genTx))) (\<lambda>tx.
     bindS (lift_res (wrap_res ''gentx %d'' (Tx_ValidateBasic G tx))) (\<lambda>_.
     bindS (lift_res (wrap_res ''encode tx'' (TxEncoder G tx))) (\<lambda>bz.
     bindS (\<lambda>s. (let (ok, s') = deliverTx G bz s in
        (if ok then Ok () else failw PoeErrDeliverGenTXFailed ''gentx at position %d: %s'', s'))) (\<lambda>_.
     DeliverGenTxs G ts))))"

fun import_contracts :: "sdk_ops \<Rightarrow> PoEContract list \<Rightarrow> ('w poe_state, unit) act" where
  "import_contracts K [] = ret ()"
| "import_contracts K (v # vs) =
     bindS (lift_res (wrap_res ''decode address: %s'' (sAccAddressFromBech32 K (pc_Address v)))) (\<lambda>addr.
     bindS (modify (SetPoEContractAddress (pc_ContractType v) addr)) (\<lambda>_. import_contracts K vs))"

definition poe_InitGenesis ::
    "sdk_ops \<Rightarrow> ('t, 'x, 'w) gentx_ops \<Rightarrow> ('t, 'd) poe_GenesisState \<Rightarrow> ('w poe_state, unit) act" where
  "poe_InitGenesis K G genesisState =
     bindS (setParams K (gs_Params genesisState)) (\<lambda>_.
     case GetImportDump genesisState of
       Some contracts \<Rightarrow> import_contracts K contracts
     | None \<Rightarrow>
         (case GetSeedContracts genesisState of
            Some seed \<Rightarrow> wrapS ''deliver gentx'' (DeliverGenTxs G (GenTxs seed))
          | None \<Rightarrow> ret ()))"

text \<open>The export collects the contracts in a list that the callback appends to.\<close>

definition export_contract_cb ::
    "sdk_ops \<Rightarrow> PoEContractType \<Rightarrow> addr \<Rightarrow> (PoEContract list, bool) act" where
  "export_contract_cb K ctype addr cs =
     (Ok False, cs @ [\<lparr>pc_ContractType = ctype, pc_Address = sAddrString K addr\<rparr>])"

definition poe_ExportGenesis :: "sdk_ops \<Rightarrow> 'w poe_state \<Rightarrow> ('t, 'd) poe_GenesisState res" where
  "poe_ExportGenesis K s =
     bind_res (GetParams s) (\<lambda>params.
     Ok \<lparr>gs_Params = params,
         gs_SetupMode = ImportMode (Some (snd (iterate_contracts (export_contract_cb K)
           (prefix_entries ContractPrefix (p_store s)) [])))\<rparr>)"

end
