(* ===== verification/PoERegistry.thy ===== *)
theory PoERegistry
  imports PoEKeeper
begin

text \<open>
  Correctness of the PoE keeper: the cache of contract addresses agrees with the store, the window of
  historical infos, the initial engagement points and the genesis round trip.
\<close>

section \<open>The registry of contract addresses\<close>

text \<open>
  What clients rely on: an address that was set is found, other kinds are not affected, unknown
  kinds are refused.
\<close>

locale contract_source =
  fixes get :: "PoEContractType \<Rightarrow> 's \<Rightarrow> addr res"
    and put :: "PoEContractType \<Rightarrow> addr \<Rightarrow> 's \<Rightarrow> 's"
  assumes get_put: "PoEContractType_ValidateBasic t = Ok () \<Longrightarrow> get t (put u a s) = (if t = u then Ok a else get t s)"
    and get_undefined: "PoEContractType_ValidateBasic t \<noteq> Ok () \<Longrightarrow> \<not> is_ok (get t s)"
begin

text \<open>Registering a list of contracts of different kinds.\<close>

definition put_all :: "(PoEContractType \<times> addr) list \<Rightarrow> 's \<Rightarrow> 's" where
  "put_all cs s = fold (\<lambda>(t, a). put t a) cs s"

lemma get_put_all:
  assumes "PoEContractType_ValidateBasic t = Ok ()"
  shows "get t (put_all cs s) = (case map_of (rev cs) t of Some a \<Rightarrow> Ok a | None \<Rightarrow> get t s)"
  by (induction cs arbitrary: s) (auto simp: put_all_def get_put assms map_add_def split: option.splits)

lemma get_put_all_member:
  assumes "distinct (map fst cs)" and "(t, a) \<in> set cs" and "PoEContractType_ValidateBasic t = Ok ()"
  shows "get t (put_all cs s) = Ok a"
  using assms by (simp add: get_put_all rev_map [symmetric])

text \<open>Later registrations of another kind do not matter: the order of two is free.\<close>

lemma get_put_swap:
  assumes "t \<noteq> u" and "PoEContractType_ValidateBasic v = Ok ()"
  shows "get v (put t a (put u b s)) = get v (put u b (put t a s))"
  using assms by (cases "v = t"; cases "v = u") (simp_all add: get_put)

end

lemma name_not_number:
  assumes "map_of PoEContractType_name t = Some n"
  shows "n \<noteq> format_int u"
proof -
  have "n \<in> snd ` set PoEContractType_name" using assms by (metis image_eqI map_of_SomeD snd_conv)
  moreover have "\<forall>n \<in> snd ` set PoEContractType_name. n \<noteq> [] \<and> 65 \<le> (of_char (hd n) :: nat)"
    by (simp add: PoEContractType_name_def)
  ultimately have "n \<noteq> [] \<and> 65 \<le> (of_char (hd n) :: nat)" by blast
  then obtain c cs where n: "n = c # cs" and c: "65 \<le> (of_char c :: nat)" by (cases n) auto
  obtain d ds where d: "format_nat (nat u) = d # ds" "is_digit d"
    using list_all_format_nat [of "nat u"] format_nat_not_Nil [of "nat u"] by (cases "format_nat (nat u)") auto
  show ?thesis
  proof (cases "u < 0")
    case True
    then show ?thesis using n c by (auto simp: format_int_def)
  next
    case False
    then show ?thesis using n c d by (auto simp: format_int_def is_digit_def)
  qed
qed

lemma type_names_distinct: "distinct (map snd PoEContractType_name)" "distinct (map fst PoEContractType_name)"
  by (simp_all add: PoEContractType_name_def)

lemma PoEContractType_String_eq_iff: "PoEContractType_String t = PoEContractType_String u \<longleftrightarrow> t = u"
proof
  assume eq: "PoEContractType_String t = PoEContractType_String u"
  show "t = u"
  proof (cases "map_of PoEContractType_name t"; cases "map_of PoEContractType_name u")
    fix m n assume m: "map_of PoEContractType_name t = Some m" and n: "map_of PoEContractType_name u = Some n"
    then have "(t, m) \<in> set PoEContractType_name" "(u, m) \<in> set PoEContractType_name"
      using eq by (auto simp: PoEContractType_String_def dest: map_of_SomeD)
    then show "t = u" by (metis type_names_distinct(1) eq_key_imp_eq_value map_of_SomeD distinct_map inj_onD snd_conv prod.inject)
  next
    fix m assume "map_of PoEContractType_name t = Some m" "map_of PoEContractType_name u = None"
    then show "t = u" using eq name_not_number [of t m u] by (simp add: PoEContractType_String_def)
  next
    fix m assume "map_of PoEContractType_name t = None" "map_of PoEContractType_name u = Some m"
    then show "t = u" using eq name_not_number [of u m t] by (simp add: PoEContractType_String_def)
  next
    assume "map_of PoEContractType_name t = None" "map_of PoEContractType_name u = None"
    then show "t = u" using eq by (simp add: PoEContractType_String_def format_int_inj)
  qed
qed simp

lemma poeContractAddressKey_inj [simp]: "poeContractAddressKey t = poeContractAddressKey u \<longleftrightarrow> t = u"
  by (simp add: poeContractAddressKey_def string_bytes_inj PoEContractType_String_eq_iff)

interpretation cs: contract_source GetPoEContractAddress SetPoEContractAddress
proof
  fix t u a and s :: "'w poe_state"
  show "PoEContractType_ValidateBasic t = Ok () \<Longrightarrow>
      GetPoEContractAddress t (SetPoEContractAddress u a s) = (if t = u then Ok a else GetPoEContractAddress t s)"
    by (auto simp: GetPoEContractAddress_def SetPoEContractAddress_def kv_get_set split: option.splits)
  show "PoEContractType_ValidateBasic t \<noteq> Ok () \<Longrightarrow> \<not> is_ok (GetPoEContractAddress t s)"
    by (cases "PoEContractType_ValidateBasic t") (simp_all add: GetPoEContractAddress_def)
qed

text \<open>
  The registry as it should be: every entry is a defined kind with an address, and the cache holds
  nothing that is not in the store.
\<close>

definition registry_ok :: "'w poe_state \<Rightarrow> bool" where
  "registry_ok s \<longleftrightarrow>
     kv_sorted (p_store s) \<and>
     (\<forall>(k, v) \<in> set (prefix_entries ContractPrefix (p_store s)). v \<noteq> [] \<and>
        (\<exists>t. PoEContractType_ValidateBasic t = Ok () \<and> k = string_bytes (PoEContractType_String t))) \<and>
     (\<forall>t a. p_cache s t = Some a \<longrightarrow> kv_get (p_store s) (poeContractAddressKey t) = Some a \<and> a \<noteq> [])"

definition without_cache :: "'w poe_state \<Rightarrow> 'w poe_state" where
  "without_cache s = s\<lparr>p_cache := (\<lambda>_. None)\<rparr>"

lemma contract_entries_iff:
  "kv_sorted s \<Longrightarrow> (k, v) \<in> set (prefix_entries ContractPrefix s) \<longleftrightarrow> kv_get s (ContractPrefix @ k) = Some v"
  by (rule kvs.iterate_iff)

lemma registry_ok_set:
  assumes "registry_ok s" and "PoEContractType_ValidateBasic t = Ok ()" and "a \<noteq> []"
  shows "registry_ok (SetPoEContractAddress t a s)"
  unfolding registry_ok_def
proof (intro conjI allI impI ballI)
  have srt: "kv_sorted (p_store s)" using assms(1) by (simp add: registry_ok_def)
  then show "kv_sorted (p_store (SetPoEContractAddress t a s))"
    by (simp add: SetPoEContractAddress_def kv_sorted_set)
  fix e assume "e \<in> set (prefix_entries ContractPrefix (p_store (SetPoEContractAddress t a s)))"
  moreover obtain k v where e: "e = (k, v)" by (cases e)
  ultimately have g: "kv_get (kv_set (p_store s) (poeContractAddressKey t) a) (ContractPrefix @ k) = Some v"
    using srt by (simp add: SetPoEContractAddress_def contract_entries_iff kv_sorted_set)
  show "case e of (k, v) \<Rightarrow> v \<noteq> [] \<and>
      (\<exists>t. PoEContractType_ValidateBasic t = Ok () \<and> k = string_bytes (PoEContractType_String t))"
  proof (cases "ContractPrefix @ k = poeContractAddressKey t")
    case True
    with g assms e show ?thesis by (auto simp: kv_get_set poeContractAddressKey_def)
  next
    case False
    with g have "(k, v) \<in> set (prefix_entries ContractPrefix (p_store s))"
      using srt by (simp add: kv_get_set contract_entries_iff)
    with assms(1) e show ?thesis by (auto simp: registry_ok_def)
  qed
next
  fix u b assume "p_cache (SetPoEContractAddress t a s) u = Some b"
  with assms show "kv_get (p_store (SetPoEContractAddress t a s)) (poeContractAddressKey u) = Some b" "b \<noteq> []"
    by (auto simp: SetPoEContractAddress_def kv_get_set registry_ok_def split: if_splits)
qed

lemma cache_transparent:
  assumes "registry_ok s"
  shows "GetPoEContractAddress t s = GetPoEContractAddress t (without_cache s)"
  using assms by (auto simp: GetPoEContractAddress_def without_cache_def registry_ok_def split: option.splits)

text \<open>A restart loses the cache; initialising it from the store restores a registry that reads the same.\<close>

lemma iterate_cache:
  "iterate_contracts cache_address es s =
     (Ok (), s\<lparr>p_cache := p_cache s ++ map_of (rev (map (\<lambda>(k, v). (PoEContractTypeFrom (bytes_string k), v)) es))\<rparr>)"
proof (induction es arbitrary: s)
  case (Cons e es)
  obtain k v where "e = (k, v)" by (cases e)
  with Cons show ?case
    by (simp add: bindS_def cache_address_def)
qed (simp add: ret_def)

lemma registry_entry_type:
  assumes "registry_ok s" and "(k, v) \<in> set (prefix_entries ContractPrefix (p_store s))"
  shows "kv_get (p_store s) (poeContractAddressKey (PoEContractTypeFrom (bytes_string k))) = Some v" "v \<noteq> []"
    and "PoEContractType_ValidateBasic (PoEContractTypeFrom (bytes_string k)) = Ok ()"
proof -
  obtain t where t: "PoEContractType_ValidateBasic t = Ok ()" "k = string_bytes (PoEContractType_String t)"
    using assms by (auto simp: registry_ok_def)
  then have k: "PoEContractTypeFrom (bytes_string k) = t" by (simp add: PoEContractTypeFrom_String)
  have "kv_get (p_store s) (ContractPrefix @ k) = Some v"
    using assms by (simp add: registry_ok_def contract_entries_iff)
  then show "kv_get (p_store s) (poeContractAddressKey (PoEContractTypeFrom (bytes_string k))) = Some v"
    using k t(2) by (simp only: poeContractAddressKey_def)
  show "v \<noteq> []" using assms by (auto simp: registry_ok_def)
  show "PoEContractType_ValidateBasic (PoEContractTypeFrom (bytes_string k)) = Ok ()" using k t(1) by simp
qed

lemma init_cache_ok:
  assumes "registry_ok s"
  obtains s' where "InitContractAddressCache (without_cache s) = (Ok (), s')" "registry_ok s'"
    "p_store s' = p_store s"
proof -
  let ?es = "prefix_entries ContractPrefix (p_store s)"
  let ?m = "map_of (rev (map (\<lambda>(k, v). (PoEContractTypeFrom (bytes_string k), v)) ?es))"
  let ?s = "(without_cache s)\<lparr>p_cache := Map.empty ++ ?m\<rparr>"
  have "kv_get (p_store s) (poeContractAddressKey t) = Some a \<and> a \<noteq> []" if "?m t = Some a" for t a
  proof -
    have "(t, a) \<in> set (rev (map (\<lambda>(k, v). (PoEContractTypeFrom (bytes_string k), v)) ?es))"
      using that by (rule map_of_SomeD)
    then obtain k where "(k, a) \<in> set ?es" "t = PoEContractTypeFrom (bytes_string k)" by auto
    then show ?thesis using registry_entry_type [OF assms] by blast
  qed
  then have "registry_ok ?s" using assms by (simp add: registry_ok_def without_cache_def)
  moreover have "InitContractAddressCache (without_cache s) = (Ok (), ?s)"
    unfolding InitContractAddressCache_def IteratePoEContracts_def iterate_cache by (simp add: without_cache_def)
  ultimately show thesis using that by (simp add: without_cache_def)
qed

section \<open>The window of historical infos\<close>

definition has_info :: "'w poe_state \<Rightarrow> int \<Rightarrow> bool" where
  "has_info s i \<longleftrightarrow> kv_get (p_store s) (getHistoricalInfoKey i) \<noteq> None"

text \<open>What is stored decodes.\<close>

definition hist_ok :: "('hd, 'h) hist_ops \<Rightarrow> 'w poe_state \<Rightarrow> bool" where
  "hist_ok H s \<longleftrightarrow>
     (\<forall>i v. kv_get (p_store s) (getHistoricalInfoKey i) = Some v \<longrightarrow> is_ok (UnmarshalHistoricalInfo H v))"

definition hist_laws :: "('hd, 'h) hist_ops \<Rightarrow> bool" where
  "hist_laws H \<longleftrightarrow> (\<forall>h. UnmarshalHistoricalInfo H (MarshalHistoricalInfo H h) = Ok h)"

lemma getHistoricalInfoKey_inj [simp]: "getHistoricalInfoKey i = getHistoricalInfoKey j \<longleftrightarrow> i = j"
  by (simp add: getHistoricalInfoKey_def string_bytes_inj format_int_inj)

lemma keys_disjoint [simp]:
  "getHistoricalInfoKey i \<noteq> poeContractAddressKey t" "poeContractAddressKey t \<noteq> getHistoricalInfoKey i"
  "\<not> has_prefix ContractPrefix (getHistoricalInfoKey i)"
  by (simp_all add: getHistoricalInfoKey_def poeContractAddressKey_def ContractPrefix_def HistoricalInfoKey_def has_prefix_def)

lemma GetHistoricalInfo_cases:
  assumes "hist_ok H s"
  shows "\<exists>h. GetHistoricalInfo H i s = Ok h \<and> (h = None \<longleftrightarrow> \<not> has_info s i)"
proof (cases "kv_get (p_store s) (getHistoricalInfoKey i)")
  case None
  then show ?thesis by (simp add: GetHistoricalInfo_def has_info_def)
next
  case (Some v)
  then have "is_ok (UnmarshalHistoricalInfo H v)" using assms by (simp add: hist_ok_def)
  then obtain h where "UnmarshalHistoricalInfo H v = Ok h" by (cases "UnmarshalHistoricalInfo H v") auto
  with Some show ?thesis by (simp add: GetHistoricalInfo_def has_info_def)
qed

lemma has_info_delete: "has_info (DeleteHistoricalInfo i s) j \<longleftrightarrow> has_info s j \<and> j \<noteq> i"
  by (simp add: has_info_def DeleteHistoricalInfo_def kv_get_del)

lemma hist_ok_delete: "hist_ok H s \<Longrightarrow> hist_ok H (DeleteHistoricalInfo i s)"
  by (simp add: hist_ok_def DeleteHistoricalInfo_def kv_get_del)

text \<open>The heights from \<open>j\<close> up to below \<open>n\<close> all have an entry.\<close>

definition run :: "'w poe_state \<Rightarrow> int \<Rightarrow> nat \<Rightarrow> bool" where
  "run s j n \<longleftrightarrow> 0 \<le> j \<and> j < int n \<and> (\<forall>k. j \<le> k \<and> k < int n \<longrightarrow> has_info s k)"

lemma run_Suc:
  assumes "has_info s (int n)"
  shows "run s j (Suc n) \<longleftrightarrow> j = int n \<or> run (DeleteHistoricalInfo (int n) s) j n"
proof
  assume r: "run s j (Suc n)"
  show "j = int n \<or> run (DeleteHistoricalInfo (int n) s) j n"
    using r by (cases "j = int n") (simp_all add: run_def has_info_delete)
next
  assume r: "j = int n \<or> run (DeleteHistoricalInfo (int n) s) j n"
  have "has_info s k" if "j \<le> k" "k < int (Suc n)" for k
  proof (cases "k = int n")
    case False
    with that r have "run (DeleteHistoricalInfo (int n) s) j n" "k < int n" by auto
    with that show ?thesis by (simp add: run_def has_info_delete)
  qed (simp add: assms)
  with r show "run s j (Suc n)" by (auto simp: run_def)
qed

lemma prune_effect:
  assumes "hist_ok H s"
  shows "\<exists>s'. prune H n s = (Ok (), s') \<and> hist_ok H s' \<and> p_params s' = p_params s \<and>
    (\<forall>j. has_info s' j \<longleftrightarrow> has_info s j \<and> \<not> run s j n)"
  using assms
proof (induction n arbitrary: s)
  case 0
  then show ?case by (simp add: run_def)
next
  case (Suc n)
  obtain h where h: "GetHistoricalInfo H (int n) s = Ok h" "h = None \<longleftrightarrow> \<not> has_info s (int n)"
    using GetHistoricalInfo_cases [OF Suc.prems] by blast
  show ?case
  proof (cases h)
    case None
    then have "\<not> has_info s (int n)" using h by simp
    then have "\<not> run s j (Suc n)" for j unfolding run_def by (intro notI) (elim conjE allE [of _ "int n"], simp)
    with None h Suc.prems show ?thesis by simp
  next
    case (Some x)
    let ?d = "DeleteHistoricalInfo (int n) s"
    have top: "has_info s (int n)" using h Some by simp
    obtain s' where s': "prune H n ?d = (Ok (), s')" "hist_ok H s'" "p_params s' = p_params ?d"
      "\<forall>j. has_info s' j \<longleftrightarrow> has_info ?d j \<and> \<not> run ?d j n"
      using Suc.IH [OF hist_ok_delete [OF Suc.prems]] by blast
    have "\<forall>j. has_info s' j \<longleftrightarrow> has_info s j \<and> \<not> run s j (Suc n)"
      using s'(4) by (auto simp: run_Suc [OF top] has_info_delete)
    with s' h Some show ?thesis by (simp add: DeleteHistoricalInfo_def)
  qed
qed

text \<open>Heights from \<open>a\<close> to the previous one have an entry: the state that the begin blocker finds.\<close>

definition window :: "'w poe_state \<Rightarrow> int \<Rightarrow> int \<Rightarrow> bool" where
  "window s a h \<longleftrightarrow> (\<forall>j \<ge> 0. has_info s j \<longleftrightarrow> a \<le> j \<and> j < h)"

lemma has_info_set: "has_info (SetHistoricalInfo H h hi s) j \<longleftrightarrow> has_info s j \<or> j = h"
  by (simp add: has_info_def SetHistoricalInfo_def kv_get_set)

lemma hist_ok_set: "hist_laws H \<Longrightarrow> hist_ok H s \<Longrightarrow> hist_ok H (SetHistoricalInfo H h hi s)"
  by (simp add: hist_ok_def hist_laws_def SetHistoricalInfo_def kv_get_set)

text \<open>Pruning below the new window cuts the interval; pruning from a height without entry does nothing.\<close>

lemma prune_window:
  assumes w: "window s a h" and a: "0 \<le> a" and m: "m < h" and j: "0 \<le> j"
  shows "has_info s j \<and> \<not> run s j (nat (m + 1)) \<longleftrightarrow> max a (m + 1) \<le> j \<and> j < h"
proof (cases "a \<le> j \<and> j < h")
  case False
  then show ?thesis using w j by (auto simp: window_def)
next
  case True
  then have "has_info s j" using w j by (simp add: window_def)
  moreover have "run s j (nat (m + 1)) \<longleftrightarrow> j \<le> m"
    using True w j m by (auto simp: run_def window_def)
  ultimately show ?thesis using True by auto
qed

lemma prune_empty:
  assumes "window s a h" and "0 \<le> h"
  shows "\<not> run s j (nat (h + 1))"
proof
  assume "run s j (nat (h + 1))"
  then have "has_info s h" using assms(2) by (simp add: run_def)
  then show False using assms by (simp add: window_def)
qed

lemma track_window:
  assumes H: "hist_laws H" and ok: "hist_ok H s" and w: "window s a h" and a: "0 \<le> a" "a \<le> h"
    and h: "0 \<le> h" "in_int64 h" and e: "poe_HistoricalEntries s = Ok entryNum"
  shows "\<exists>s'. TrackHistoricalInfo H h header s = (Ok (), s') \<and> hist_ok H s' \<and>
    (if entryNum = 0 then window s' a h
     else window s' (max a (h - uint entryNum + 1)) (h + 1) \<and>
       GetHistoricalInfo H h s' = Ok (Some (NewHistoricalInfo H header)))"
proof -
  have u: "0 \<le> uint entryNum" "uint entryNum < 2 ^ 32" using uint_lt2p [of entryNum] by simp_all
  have "in_int64 (h - uint entryNum)"
    unfolding in_int64_def
  proof
    show "- (2 ^ 63) \<le> h - uint entryNum" using h(1) u(2) by simp
    show "h - uint entryNum < 2 ^ 63" using h(2) u(1) unfolding in_int64_def by linarith
  qed
  then have i: "to_int64 (h - uint entryNum) = h - uint entryNum" by (rule to_int64_id)
  obtain s' where s': "prune H (nat (h - uint entryNum + 1)) s = (Ok (), s')" "hist_ok H s'"
    "\<forall>j. has_info s' j \<longleftrightarrow> has_info s j \<and> \<not> run s j (nat (h - uint entryNum + 1))"
    using prune_effect [OF ok] by blast
  show ?thesis
  proof (cases "entryNum = 0")
    case True
    then have "window s' a h" using s'(3) prune_empty [OF w h(1)] w by (simp add: window_def)
    with True s' e i show ?thesis by (simp add: TrackHistoricalInfo_def bindS_def ret_def)
  next
    case False
    then have n: "0 < uint entryNum" using u(1) by (simp add: less_le unsigned_eq_0_iff)
    then have "h - uint entryNum < h" by simp
    then have pw: "has_info s' j \<longleftrightarrow> max a (h - uint entryNum + 1) \<le> j \<and> j < h" if "0 \<le> j" for j
      using s'(3) prune_window [OF w a(1) _ that] by blast
    let ?t = "SetHistoricalInfo H h (NewHistoricalInfo H header) s'"
    have "window ?t (max a (h - uint entryNum + 1)) (h + 1)"
      unfolding window_def
    proof (intro allI impI)
      fix j :: int assume j: "0 \<le> j"
      show "has_info ?t j \<longleftrightarrow> max a (h - uint entryNum + 1) \<le> j \<and> j < h + 1"
        using pw [OF j] a(2) n by (cases "j = h") (auto simp: has_info_set)
    qed
    moreover have "GetHistoricalInfo H h ?t = Ok (Some (NewHistoricalInfo H header))"
      using H by (simp add: GetHistoricalInfo_def SetHistoricalInfo_def kv_get_set hist_laws_def)
    ultimately show ?thesis using False s' e i hist_ok_set [OF H s'(2)]
      by (simp add: TrackHistoricalInfo_def bindS_def modify_def)
  qed
qed

section \<open>Engagement points\<close>

definition points_of :: "int option \<Rightarrow> uint64" where
  "points_of w = (case w of None \<Rightarrow> 0 | Some n \<Rightarrow> uint64_of_int64 n)"

lemma initial_points_cases:
  assumes n: "GetInitialValidatorEngagementPoints s = Ok n" and m: "MinimumDelegationAmounts s = Ok m"
    and c: "NewCoins K [selfDelegation] = Ok coins" and a: "GetPoEContractAddress PoEContractTypeEngagement s = Ok a"
    and q: "QueryTG4Member K (x_QuerySmart X s) a opAddr = Ok w"
  shows "SetValidatorInitialEngagementPoints K X opAddr selfDelegation s =
    (if n = 0 \<or> \<not> Coins_IsAllGTE K coins m \<or> n \<le> points_of w then (Ok (), s)
     else wrapS ''set engagement points'' (SetEngagementPoints K (x_Sudo X) a opAddr n) s)"
proof -
  have "GetEngagementPoints K X opAddr s = Ok (points_of w)"
    by (cases w) (simp_all add: GetEngagementPoints_def a q points_of_def)
  then show ?thesis
    by (simp add: SetValidatorInitialEngagementPoints_def setEngagementPoints_def bindS_def n m c a ret_def lift_res_def wrapS_def)
qed

section \<open>Genesis import and export\<close>

lemma get_iff_stored:
  assumes "registry_ok s" and "PoEContractType_ValidateBasic t = Ok ()"
  shows "GetPoEContractAddress t s = Ok a \<longleftrightarrow> kv_get (p_store s) (poeContractAddressKey t) = Some a \<and> a \<noteq> []"
  using assms by (auto simp: GetPoEContractAddress_def registry_ok_def split: option.splits)

lemma iterate_export:
  "iterate_contracts (export_contract_cb K) es cs =
     (Ok (), cs @ map (\<lambda>(k, v). \<lparr>pc_ContractType = PoEContractTypeFrom (bytes_string k), pc_Address = sAddrString K v\<rparr>) es)"
  by (induction es arbitrary: cs) (auto simp: ret_def bindS_def export_contract_cb_def)

definition exported :: "sdk_ops \<Rightarrow> 'w poe_state \<Rightarrow> PoEContract list" where
  "exported K s =
     map (\<lambda>(k, v). \<lparr>pc_ContractType = PoEContractTypeFrom (bytes_string k), pc_Address = sAddrString K v\<rparr>)
       (prefix_entries ContractPrefix (p_store s))"

lemma exported_iff:
  assumes "registry_ok s"
  shows "c \<in> set (exported K s) \<longleftrightarrow>
    (\<exists>t a. PoEContractType_ValidateBasic t = Ok () \<and> GetPoEContractAddress t s = Ok a \<and>
       c = \<lparr>pc_ContractType = t, pc_Address = sAddrString K a\<rparr>)"
proof
  assume "c \<in> set (exported K s)"
  then obtain k v where "(k, v) \<in> set (prefix_entries ContractPrefix (p_store s))"
    "c = \<lparr>pc_ContractType = PoEContractTypeFrom (bytes_string k), pc_Address = sAddrString K v\<rparr>"
    by (auto simp: exported_def)
  then show "\<exists>t a. PoEContractType_ValidateBasic t = Ok () \<and> GetPoEContractAddress t s = Ok a \<and>
       c = \<lparr>pc_ContractType = t, pc_Address = sAddrString K a\<rparr>"
    using registry_entry_type [OF assms] get_iff_stored [OF assms] by blast
next
  assume "\<exists>t a. PoEContractType_ValidateBasic t = Ok () \<and> GetPoEContractAddress t s = Ok a \<and>
       c = \<lparr>pc_ContractType = t, pc_Address = sAddrString K a\<rparr>"
  then obtain t a where t: "PoEContractType_ValidateBasic t = Ok ()"
    "kv_get (p_store s) (poeContractAddressKey t) = Some a"
    "c = \<lparr>pc_ContractType = t, pc_Address = sAddrString K a\<rparr>"
    using get_iff_stored [OF assms] by blast
  then have "(string_bytes (PoEContractType_String t), a) \<in> set (prefix_entries ContractPrefix (p_store s))"
    using assms by (simp add: registry_ok_def contract_entries_iff poeContractAddressKey_def)
  then show "c \<in> set (exported K s)"
    using t by (force simp: exported_def PoEContractTypeFrom_String)
qed

lemma exported_distinct:
  assumes "registry_ok s"
  shows "distinct (map pc_ContractType (exported K s))"
proof -
  let ?es = "prefix_entries ContractPrefix (p_store s)"
  have "kv_sorted ?es" using assms by (simp add: registry_ok_def kvs.iterate_ascending)
  then have d: "distinct (map fst ?es)" by (simp add: kv_sorted_def strict_sorted_iff)
  have key: "\<forall>k \<in> set (map fst ?es). \<exists>t. PoEContractType_ValidateBasic t = Ok () \<and> k = string_bytes (PoEContractType_String t)"
    using assms by (auto simp: registry_ok_def)
  have inj: "inj_on (\<lambda>k. PoEContractTypeFrom (bytes_string k)) (set (map fst ?es))"
  proof (rule inj_onI)
    fix k l assume kl: "k \<in> set (map fst ?es)" "l \<in> set (map fst ?es)"
      "PoEContractTypeFrom (bytes_string k) = PoEContractTypeFrom (bytes_string l)"
    obtain t where "PoEContractType_ValidateBasic t = Ok ()" "k = string_bytes (PoEContractType_String t)"
      using kl(1) key by blast
    moreover obtain u where "PoEContractType_ValidateBasic u = Ok ()" "l = string_bytes (PoEContractType_String u)"
      using kl(2) key by blast
    ultimately show "k = l" using kl(3) by (simp add: PoEContractTypeFrom_String)
  qed
  have "map pc_ContractType (exported K s) = map (\<lambda>k. PoEContractTypeFrom (bytes_string k)) (map fst ?es)"
    by (simp add: exported_def case_prod_beta)
  moreover have "distinct (map (\<lambda>k. PoEContractTypeFrom (bytes_string k)) (map fst ?es))"
    unfolding distinct_map [of "\<lambda>k. PoEContractTypeFrom (bytes_string k)"] using d inj by blast
  ultimately show ?thesis by metis
qed

text \<open>A dump whose addresses are in the form that \<open>AccAddress.String\<close> writes.\<close>

definition canonical :: "sdk_ops \<Rightarrow> PoEContract \<Rightarrow> bool" where
  "canonical K c \<longleftrightarrow>
     (case sAccAddressFromBech32 K (pc_Address c) of Ok a \<Rightarrow> a \<noteq> [] \<and> sAddrString K a = pc_Address c | _ \<Rightarrow> False)"

definition decoded :: "sdk_ops \<Rightarrow> PoEContract \<Rightarrow> PoEContractType \<times> addr" where
  "decoded K c = (pc_ContractType c, case sAccAddressFromBech32 K (pc_Address c) of Ok a \<Rightarrow> a | _ \<Rightarrow> [])"

lemma import_dump_effect:
  assumes "\<forall>c \<in> set contracts. canonical K c"
  shows "import_contracts K contracts s = (Ok (), cs.put_all (map (decoded K) contracts) s)"
  using assms
proof (induction contracts arbitrary: s)
  case (Cons c contracts)
  then obtain a where "sAccAddressFromBech32 K (pc_Address c) = Ok a"
    by (auto simp: canonical_def split: res.splits)
  with Cons show ?case by (simp add: cs.put_all_def decoded_def)
qed (simp add: ret_def cs.put_all_def)

lemma registry_ok_put_all:
  assumes "registry_ok s"
    and "\<forall>(t, a) \<in> set pairs. PoEContractType_ValidateBasic t = Ok () \<and> a \<noteq> []"
  shows "registry_ok (cs.put_all pairs s)"
  using assms by (induction pairs arbitrary: s) (auto simp: cs.put_all_def registry_ok_set)

lemma p_params_put_all: "p_params (cs.put_all pairs s) = p_params s"
  by (induction pairs arbitrary: s) (auto simp: cs.put_all_def SetPoEContractAddress_def)

lemma setParams_GetParams:
  assumes "setParams K p s = (Ok (), s')"
  shows "GetParams s' = Ok p" "p_store s' = p_store s" "p_cache s' = p_cache s"
  using assms
  by (auto simp: setParams_def ParamSetPairs_def GetParams_def poe_HistoricalEntries_def
      GetInitialValidatorEngagementPoints_def MinimumDelegationAmounts_def NewParams_def KeyHistoricalEntries_def
      KeyInitialValEngagementPoints_def KeyMinDelegationAmounts_def ret_def split: if_splits)

lemma setParams_ok:
  assumes "Params_Validate K p = Ok ()"
  obtains s' where "setParams K p s = (Ok (), s')"
  using assms
  by (auto simp: setParams_def ParamSetPairs_def Params_Validate_def validateSDKCoins_def validateUint32_def
      validateUint64_def ret_def)

lemma import_export:
  assumes reg: "registry_ok s" and none: "prefix_entries ContractPrefix (p_store s) = []" and cache: "p_cache s = Map.empty"
    and dump: "ImportDump_ValidateBasic K contracts = Ok ()" and can: "\<forall>c \<in> set contracts. canonical K c"
  shows "set (exported K (cs.put_all (map (decoded K) contracts) s)) = set contracts"
    and "registry_ok (cs.put_all (map (decoded K) contracts) s)"
proof -
  let ?p = "map (decoded K) contracts" let ?s = "cs.put_all ?p s"
  have d: "distinct (map fst ?p)" and v: "\<forall>c \<in> set contracts. PoEContractType_ValidateBasic (pc_ContractType c) = Ok ()"
    using dump by (auto simp: ImportDump_valid_iff decoded_def comp_def PoEContractType_valid_iff)
  have addr: "\<forall>c \<in> set contracts. snd (decoded K c) \<noteq> [] \<and> sAddrString K (snd (decoded K c)) = pc_Address c"
    using can by (auto simp: canonical_def decoded_def split: res.splits)
  show reg': "registry_ok ?s"
    using reg v addr by (intro registry_ok_put_all) (auto simp: decoded_def)
  have old: "\<not> is_ok (GetPoEContractAddress t s)" for t
  proof (cases "PoEContractType_ValidateBasic t = Ok ()")
    case True
    have "kv_get (p_store s) (poeContractAddressKey t) = None"
      using none contract_entries_iff [of "p_store s" "string_bytes (PoEContractType_String t)"] reg
      by (cases "kv_get (p_store s) (poeContractAddressKey t)") (auto simp: poeContractAddressKey_def registry_ok_def)
    then show ?thesis using cache True by (simp add: GetPoEContractAddress_def fail_def)
  qed (simp add: cs.get_undefined)
  have get: "GetPoEContractAddress t ?s = Ok a \<longleftrightarrow> (t, a) \<in> set ?p" if "PoEContractType_ValidateBasic t = Ok ()" for t a
  proof -
    have "map_of (rev ?p) t = Some a \<longleftrightarrow> (t, a) \<in> set ?p"
      using d map_of_eq_Some_iff [of "rev ?p"] by (simp add: rev_map [symmetric])
    moreover have "GetPoEContractAddress t s \<noteq> Ok a" using old [of t] by auto
    ultimately show ?thesis by (auto simp: cs.get_put_all [OF that] split: option.splits)
  qed
  have "c \<in> set (exported K ?s) \<longleftrightarrow> c \<in> set contracts" for c
  proof
    assume "c \<in> set (exported K ?s)"
    then obtain t a where t: "PoEContractType_ValidateBasic t = Ok ()" "GetPoEContractAddress t ?s = Ok a"
        "c = \<lparr>pc_ContractType = t, pc_Address = sAddrString K a\<rparr>"
      unfolding exported_iff [OF reg'] by blast
    then have "(t, a) \<in> set ?p" using get by blast
    then obtain c' where c': "c' \<in> set contracts" "decoded K c' = (t, a)" by auto
    then have "c = c'" using addr t by (auto simp: decoded_def)
    with c' show "c \<in> set contracts" by simp
  next
    assume c: "c \<in> set contracts"
    then have "(pc_ContractType c, snd (decoded K c)) \<in> set ?p" by (auto simp: decoded_def image_iff)
    moreover have "c = \<lparr>pc_ContractType = pc_ContractType c, pc_Address = sAddrString K (snd (decoded K c))\<rparr>"
      using addr c by simp
    ultimately show "c \<in> set (exported K ?s)" unfolding exported_iff [OF reg'] using get v c by blast
  qed
  then show "set (exported K ?s) = set contracts" by blast
qed

section \<open>A sample state\<close>

definition emptyState :: "'w \<Rightarrow> 'w poe_state" where
  "emptyState w = \<lparr>p_store = [], p_cache = (\<lambda>_. None), p_params = (\<lambda>_. None), p_votes = [], p_events = [], p_world = w\<rparr>"

lemma registry_ok_empty: "registry_ok (emptyState w)"
  by (simp add: registry_ok_def emptyState_def prefix_entries_def)

definition sample_hist :: "(bytes, bytes) hist_ops" where
  "sample_hist = \<lparr>MarshalHistoricalInfo = (\<lambda>h. h), UnmarshalHistoricalInfo = Ok, NewHistoricalInfo = (\<lambda>h. h)\<rparr>"

lemma sample_hist_laws: "hist_laws sample_hist" "hist_ok sample_hist s"
  by (simp_all add: hist_laws_def hist_ok_def sample_hist_def)

section \<open>Properties\<close>

text \<open>
  C14: The cache of contract addresses is an optimisation: on a registry whose cache is backed by the
  store, a lookup gives what the store alone gives, also after a restart that initialises the cache
  again, and setting an address keeps the registry and changes the lookup of its kind only.
\<close>

theorem contract_cache_transparent:
  assumes reg: "registry_ok s"
  shows "GetPoEContractAddress t s = GetPoEContractAddress t (without_cache s) \<and>
    (\<exists>s'. InitContractAddressCache (without_cache s) = (Ok (), s') \<and> registry_ok s' \<and>
       GetPoEContractAddress t s' = GetPoEContractAddress t s) \<and>
    (PoEContractType_ValidateBasic u = Ok () \<and> a \<noteq> [] \<longrightarrow> registry_ok (SetPoEContractAddress u a s) \<and>
       GetPoEContractAddress u (SetPoEContractAddress u a s) = Ok a \<and>
       (t \<noteq> u \<longrightarrow> GetPoEContractAddress t (SetPoEContractAddress u a s) = GetPoEContractAddress t s))"
proof (intro conjI impI)
  show "GetPoEContractAddress t s = GetPoEContractAddress t (without_cache s)" by (rule cache_transparent [OF reg])
  obtain s' where s': "InitContractAddressCache (without_cache s) = (Ok (), s')" "registry_ok s'" "p_store s' = p_store s"
    by (rule init_cache_ok [OF reg])
  then have "GetPoEContractAddress t s' = GetPoEContractAddress t s"
    using cache_transparent [OF reg] cache_transparent [OF s'(2)] by (simp add: GetPoEContractAddress_def without_cache_def)
  with s' show "\<exists>s'. InitContractAddressCache (without_cache s) = (Ok (), s') \<and> registry_ok s' \<and>
       GetPoEContractAddress t s' = GetPoEContractAddress t s" by blast
next
  assume u: "PoEContractType_ValidateBasic u = Ok () \<and> a \<noteq> []"
  then show "registry_ok (SetPoEContractAddress u a s)" using reg by (simp add: registry_ok_set)
  show "GetPoEContractAddress u (SetPoEContractAddress u a s) = Ok a" using u by (simp add: cs.get_put)
  assume "t \<noteq> u"
  then show "GetPoEContractAddress t (SetPoEContractAddress u a s) = GetPoEContractAddress t s"
  proof (cases "PoEContractType_ValidateBasic t")
    case (Ok x)
    with \<open>t \<noteq> u\<close> show ?thesis by (simp add: cs.get_put)
  qed (simp_all add: GetPoEContractAddress_def)
qed

theorem contract_cache_transparent_witness:
  "GetPoEContractAddress 2 (SetPoEContractAddress 2 [7] (emptyState ())) = Ok [7]"
  using contract_cache_transparent [OF registry_ok_empty [of "()"], where t=2 and u=2 and a="[7]"] by (simp add: PoEContractType_valid_iff)

text \<open>
  C15: When the heights from \<open>a\<close> to below the current height \<open>h\<close> have an historical info and the
  number of entries to keep is not zero, tracking stores the info of \<open>h\<close> and leaves exactly the last
  entries, at most that many. With zero entries to keep it leaves every old entry in place.
\<close>

theorem historical_window:
  assumes H: "hist_laws H" and ok: "hist_ok H s" and w: "window s a h" and a: "0 \<le> a" "a \<le> h"
    and h: "0 \<le> h" "in_int64 h" and e: "poe_HistoricalEntries s = Ok entryNum"
  shows "\<exists>s'. TrackHistoricalInfo H h header s = (Ok (), s') \<and> hist_ok H s' \<and>
    (if entryNum = 0 then window s' a h
     else window s' (max a (h - uint entryNum + 1)) (h + 1) \<and>
       GetHistoricalInfo H h s' = Ok (Some (NewHistoricalInfo H header)))"
  by (rule track_window [OF H ok w a h e])

theorem historical_window_witness:
  "\<exists>s'. TrackHistoricalInfo sample_hist 5 [9]
      (SetHistoricalInfo sample_hist 4 [2] (SetHistoricalInfo sample_hist 3 [1]
        ((emptyState ())\<lparr>p_params := [KeyHistoricalEntries \<mapsto> Uint32Param 2]\<rparr>))) = (Ok (), s') \<and> window s' 4 6"
proof -
  let ?s = "SetHistoricalInfo sample_hist 4 [2] (SetHistoricalInfo sample_hist 3 [1]
        ((emptyState ())\<lparr>p_params := [KeyHistoricalEntries \<mapsto> Uint32Param 2]\<rparr>))"
  have "window ?s 3 5"
    unfolding window_def has_info_set by (auto simp: has_info_def emptyState_def kv_get_def)
  moreover have "poe_HistoricalEntries ?s = Ok 2"
    by (simp add: poe_HistoricalEntries_def SetHistoricalInfo_def)
  ultimately show ?thesis
    using historical_window [OF sample_hist_laws(1) sample_hist_laws(2) [of ?s], of 3 5 2 "[9]"]
    by (auto simp: in_int64_def)
qed

text \<open>
  C16: With all lookups successful, a validator receives the initial engagement points exactly when
  they are enabled, its self delegation reaches the minimum and it has fewer points: one sudo call to
  the engagement contract then sets them; in all other cases nothing happens. Points are never
  lowered.
\<close>

theorem initial_engagement_points:
  assumes n: "GetInitialValidatorEngagementPoints s = Ok n" and m: "MinimumDelegationAmounts s = Ok m"
    and c: "NewCoins K [selfDelegation] = Ok coins" and a: "GetPoEContractAddress PoEContractTypeEngagement s = Ok a"
    and q: "QueryTG4Member K (x_QuerySmart X s) a opAddr = Ok w"
  shows "SetValidatorInitialEngagementPoints K X opAddr selfDelegation s =
    (if n = 0 \<or> \<not> Coins_IsAllGTE K coins m \<or> n \<le> points_of w then (Ok (), s)
     else wrapS ''set engagement points'' (SetEngagementPoints K (x_Sudo X) a opAddr n) s)"
  by (rule initial_points_cases [OF n m c a q])

text \<open>The contract of the sample answers every member query with the points in the world state and sets them on sudo.\<close>

definition sample_calls :: "int poe_calls" where
  "sample_calls =
     \<lparr>x_Execute = (\<lambda>c s m f. ret []),
      x_Sudo = (\<lambda>c m s. (Ok RawEmpty, s\<lparr>p_world := 10\<rparr>)),
      x_QuerySmart = (\<lambda>s c q. Ok (RawJson (JObj [(''points'', JInt (p_world s))])))\<rparr>"

definition sample_params :: "string \<rightharpoonup> poe_param" where
  "sample_params = [KeyHistoricalEntries \<mapsto> Uint32Param 2, KeyInitialValEngagementPoints \<mapsto> Uint64Param 10,
     KeyMinDelegationAmounts \<mapsto> CoinsParam []]"

theorem initial_engagement_points_witness:
  "SetValidatorInitialEngagementPoints sample_sdk sample_calls [1] \<lparr>mc_Denom = ''ufury'', mc_Amount = Some 1\<rparr>
     (SetPoEContractAddress PoEContractTypeEngagement [7] ((emptyState 5)\<lparr>p_params := sample_params\<rparr>)) =
   (Ok (), SetPoEContractAddress PoEContractTypeEngagement [7] ((emptyState 10)\<lparr>p_params := sample_params\<rparr>))"
proof -
  let ?s = "SetPoEContractAddress PoEContractTypeEngagement [7] ((emptyState 5)\<lparr>p_params := sample_params\<rparr>)"
  let ?c = "\<lparr>mc_Denom = ''ufury'', mc_Amount = Some 1\<rparr>"
  have 1: "GetInitialValidatorEngagementPoints ?s = Ok 10" "MinimumDelegationAmounts ?s = Ok []"
    by (simp_all add: GetInitialValidatorEngagementPoints_def MinimumDelegationAmounts_def SetPoEContractAddress_def
        sample_params_def KeyHistoricalEntries_def KeyInitialValEngagementPoints_def KeyMinDelegationAmounts_def)
  have 2: "NewCoins sample_sdk [?c] = Ok [\<lparr>coin_Denom = ''ufury'', coin_Amount = 1\<rparr>]"
    by (simp add: sample_sdk_def)
  have 3: "GetPoEContractAddress PoEContractTypeEngagement ?s = Ok [7]"
    by (simp add: cs.get_put PoEContractType_valid_iff poe_type_defs)
  have 4: "QueryTG4Member sample_sdk (x_QuerySmart sample_calls ?s) [7] [1] = Ok (Some 5)"
    by (simp add: QueryTG4Member_def doQuery_def json_Unmarshal_def dec_TG4MemberResponse_def dec_defs sample_calls_def
        SetPoEContractAddress_def emptyState_def in_int64_def)
  have "points_of (Some 5) = 5" by (simp add: points_of_def uint64_of_int64_def)
  with initial_engagement_points [OF 1 2 3 4] show ?thesis
    by (simp add: sample_sdk_def SetEngagementPoints_def sample_calls_def wrapS_def dropS_def bindS_def ret_def
        SetPoEContractAddress_def emptyState_def)
qed

text \<open>
  C17: Importing a valid dump with canonical addresses and valid parameters into a module without
  contracts succeeds, and the export of the result holds the same parameters and the same contracts
  and is valid again.
\<close>

theorem poe_genesis_roundtrip:
  assumes s: "registry_ok s" "prefix_entries ContractPrefix (p_store s) = []" "p_cache s = Map.empty"
    and p: "Params_Validate K (gs_Params g) = Ok ()" and g: "gs_SetupMode g = ImportMode (Some contracts)"
    and dump: "ImportDump_ValidateBasic K contracts = Ok ()" and can: "\<forall>c \<in> set contracts. canonical K c"
  shows "\<exists>s' cs'. poe_InitGenesis K G g s = (Ok (), s') \<and>
    poe_ExportGenesis K s' = Ok (g\<lparr>gs_SetupMode := ImportMode (Some cs')\<rparr>) \<and>
    set cs' = set contracts \<and> ImportDump_ValidateBasic K cs' = Ok ()"
proof -
  obtain s1 where s1: "setParams K (gs_Params g) s = (Ok (), s1)" by (rule setParams_ok [OF p])
  note P = setParams_GetParams [OF s1]
  let ?s = "cs.put_all (map (decoded K) contracts) s1"
  have "registry_ok s1" using s(1) P by (simp add: registry_ok_def)
  note E = import_export [OF this _ _ dump can]
  have E1: "set (exported K ?s) = set contracts" and E2: "registry_ok ?s" using E s P by auto
  have init: "poe_InitGenesis K G g s = (Ok (), ?s)"
    by (simp add: poe_InitGenesis_def bindS_def s1 GetImportDump_def g import_dump_effect [OF can])
  have "GetParams ?s = Ok (gs_Params g)"
    using P(1) by (simp add: GetParams_def poe_HistoricalEntries_def GetInitialValidatorEngagementPoints_def
        MinimumDelegationAmounts_def p_params_put_all)
  then have exp: "poe_ExportGenesis K ?s = Ok (g\<lparr>gs_SetupMode := ImportMode (Some (exported K ?s))\<rparr>)"
    by (simp add: poe_ExportGenesis_def iterate_export exported_def)
  have "ImportDump_ValidateBasic K (exported K ?s) = Ok ()"
    using dump E1 exported_distinct [OF E2] unfolding ImportDump_valid_iff by (metis image_set)
  with init exp E1 show ?thesis by blast
qed

definition sample_gentx :: "(unit, unit, unit) gentx_ops" where
  "sample_gentx = \<lparr>TxJSONDecoder = (\<lambda>_. fail (ExternalErr ''tx'')), Tx_ValidateBasic = (\<lambda>_. Ok ()), TxEncoder = (\<lambda>_. Ok []),
     deliverTx = (\<lambda>bz s. (True, s))\<rparr>"

theorem poe_genesis_roundtrip_witness:
  "\<exists>s' cs'. poe_InitGenesis sample_sdk sample_gentx
      (\<lparr>gs_Params = poe_DefaultParams, gs_SetupMode = ImportMode (Some sample_dump)\<rparr> :: (unit, rat option) poe_GenesisState)
      (emptyState ()) = (Ok (), s') \<and> set cs' = set sample_dump"
proof -
  let ?g = "\<lparr>gs_Params = poe_DefaultParams, gs_SetupMode = ImportMode (Some sample_dump)\<rparr> :: (unit, rat option) poe_GenesisState"
  have "ImportDump_ValidateBasic sample_sdk sample_dump = Ok ()"
    unfolding ImportDump_valid_iff
  proof (intro conjI)
    show "set (map pc_ContractType sample_dump) = {1..11}"
      unfolding set_eq_iff by (simp add: sample_dump_def) arith
  qed (simp_all add: sample_dump_def sample_sdk_def)
  moreover have "\<forall>c \<in> set sample_dump. canonical sample_sdk c"
    by (simp add: sample_dump_def canonical_def sample_sdk_def) (simp add: string_bytes_def)
  moreover have "Params_Validate sample_sdk (gs_Params ?g) = Ok ()"
    by (simp add: Params_Validate_def poe_DefaultParams_def NewParams_def sample_sdk_def)
  ultimately show ?thesis
    using poe_genesis_roundtrip [OF registry_ok_empty, of "()" sample_sdk ?g sample_dump sample_gentx]
    by (auto simp: emptyState_def prefix_entries_def)
qed

end
