(* ===== verification/PoEMsgServer.thy ===== *)
theory PoEMsgServer
  imports PoERegistry
begin

text \<open>
  \<open>x/poe/keeper/msg_server.go\<close> and \<open>x/poe/handler.go\<close>: the messages of the module and their dispatch.
  A message acts on the state of the module and, through the contract calls, on the world outside.
\<close>

section \<open>Environment\<close>

text \<open>
  The SDK's names of event types and attributes, its length check and merge of descriptions, the key
  that a protobuf \<open>Any\<close> holds, and the consensus parameters of the context: \<open>None\<close> without a section
  on validators, else the accepted types of keys.
\<close>

record 'a msg_env =
  EventTypeMessage :: string
  AttributeKeyModule :: string
  AttributeKeySender :: string
  AttributeKeyAmount :: string
  EnsureLength :: "Description \<Rightarrow> Description res"
  UpdateDescription :: "Description \<Rightarrow> Description \<Rightarrow> Description res"
  CachedPubKey :: "'a \<Rightarrow> pubkey option"
  ctx_PubKeyTypes :: "string list option"

definition EventTypeCreateValidator :: string where
  "EventTypeCreateValidator = ''create_validator''"

definition EventTypeUpdateValidator :: string where
  "EventTypeUpdateValidator = ''update_validator''"

definition EventTypeDelegate :: string where
  "EventTypeDelegate = ''delegate''"

definition EventTypeUndelegate :: string where
  "EventTypeUndelegate = ''undelegate''"

definition AttributeKeyValOperator :: string where
  "AttributeKeyValOperator = ''operator''"

definition AttributeKeyMoniker :: string where
  "AttributeKeyMoniker = ''moniker''"

definition AttributeKeyPubKeyHex :: string where
  "AttributeKeyPubKeyHex = ''pubkey''"

definition AttributeValueCategory :: string where
  "AttributeValueCategory = ''poe''"

text \<open>\<open>hex.EncodeToString\<close>.\<close>

definition hex_digit :: "nat \<Rightarrow> char" where
  "hex_digit n = ''0123456789abcdef'' ! n"

definition hex_encode :: "bytes \<Rightarrow> string" where
  "hex_encode bs = concat (map (\<lambda>b. [hex_digit (unat b div 16), hex_digit (unat b mod 16)]) bs)"

definition EmitEvents :: "event list \<Rightarrow> ('w poe_state, unit) act" where
  "EmitEvents evs = modify (\<lambda>s. s\<lparr>p_events := p_events s @ evs\<rparr>)"

text \<open>A call with an event manager of its own: the events it emits are returned.\<close>

definition executeEm ::
    "'w poe_calls \<Rightarrow> addr \<Rightarrow> addr \<Rightarrow> json \<Rightarrow> coin list \<Rightarrow> 'w poe_state \<Rightarrow> (bytes res \<times> event list) \<times> 'w poe_state" where
  "executeEm X contractAddr sender msg funds s =
     (let (r, s') = x_Execute X contractAddr sender msg funds (s\<lparr>p_events := []\<rparr>) in
      ((r, p_events s'), s'\<lparr>p_events := p_events s\<rparr>))"

definition poeAddress :: "PoEContractType \<Rightarrow> ('w poe_state, addr) act" where
  "poeAddress t s = (GetPoEContractAddress t s, s)"

text \<open>\<open>status.Error(code, err.Error())\<close>.\<close>

fun grpc :: "grpc_code \<Rightarrow> 'b res \<Rightarrow> 'b res" where
  "grpc c (Ok x) = Ok x"
| "grpc c (Err e) = fail (GrpcErr c ''err.Error()'')"
| "grpc c (Panic p) = Panic p"

definition grpcS :: "grpc_code \<Rightarrow> ('s, 'b) act \<Rightarrow> ('s, 'b) act" where
  "grpcS c m s = (grpc c (fst (m s)), snd (m s))"

section \<open>Messages\<close>

definition module_event :: "'a msg_env \<Rightarrow> string \<Rightarrow> event" where
  "module_event E sender =
     Event (EventTypeMessage E) [(AttributeKeyModule E, AttributeValueCategory), (AttributeKeySender E, sender)]"

definition bad_key_type :: "'a msg_env \<Rightarrow> pubkey \<Rightarrow> bool" where
  "bad_key_type E pk = (case ctx_PubKeyTypes E of None \<Rightarrow> False | Some ts \<Rightarrow> pk_Type pk \<notin> set ts)"

definition msg_CreateValidator ::
    "sdk_ops \<Rightarrow> 'a msg_env \<Rightarrow> 'w poe_calls \<Rightarrow> 'a MsgCreateValidator \<Rightarrow> ('w poe_state, unit) act" where
  "msg_CreateValidator K E X msg =
     (case cv_Pubkey msg of None \<Rightarrow> lift_res (Panic ''nil pointer dereference'')
      | Some any \<Rightarrow>
     (case CachedPubKey E any of None \<Rightarrow> lift_res (failw SdkErrInvalidType ''Expecting cryptotypes.PubKey, got %T'')
      | Some pk \<Rightarrow>
     bindS (lift_res (EnsureLength E (cv_Description msg))) (\<lambda>_.
     if bad_key_type E pk then lift_res (failw StakingErrPubKeyTypeNotSupported ''got: %s, expected: %s'')
     else bindS (wrapS ''valset'' (poeAddress PoEContractTypeValset)) (\<lambda>valsetContractAddr.
     bindS (lift_res (wrap_res ''operator address'' (sAccAddressFromBech32 K (cv_OperatorAddress msg)))) (\<lambda>operatorAddress.
     bindS (wrapS ''register validator''
       (RegisterValidator (x_Execute X) valsetContractAddr pk operatorAddress (cv_Description msg))) (\<lambda>_.
     bindS (wrapS ''staking contract'' (poeAddress PoEContractTypeStaking)) (\<lambda>stakingContractAddr.
     bindS (lift_res (NewCoins K [cv_Amount msg])) (\<lambda>amount.
     bindS (wrapS ''self delegation validator''
       (BondDelegation K (x_Execute X) stakingContractAddr operatorAddress amount (Some (cv_VestingAmount msg)))) (\<lambda>_.
     bindS (lift_res (Coin_Add K (cv_Amount msg) (cv_VestingAmount msg))) (\<lambda>totalAmount.
     bindS (EmitEvents
       [module_event E (cv_OperatorAddress msg),
        Event EventTypeCreateValidator
          [(AttributeKeyValOperator, cv_OperatorAddress msg),
           (AttributeKeyMoniker, Moniker (cv_Description msg)),
           (AttributeKeyPubKeyHex, hex_encode (pk_Bytes pk)),
           (AttributeKeyAmount E, Int_String K (mc_Amount totalAmount))]]) (\<lambda>_.
     grpcS Internal (SetValidatorInitialEngagementPoints K X operatorAddress totalAmount))))))))))))"

text \<open>\<open>current\<close> is nil, with no error, when the contract does not know the operator.\<close>

definition msg_UpdateValidator ::
    "sdk_ops \<Rightarrow> 'a msg_env \<Rightarrow> ('b, 'd) val_env \<Rightarrow> 'w poe_calls \<Rightarrow> MsgUpdateValidator \<Rightarrow> ('w poe_state, unit) act" where
  "msg_UpdateValidator K E V X msg =
     bindS (lift_res (wrap_res ''description'' (EnsureLength E (uv_Description msg)))) (\<lambda>_.
     bindS (wrapS ''valset'' (poeAddress PoEContractTypeValset)) (\<lambda>valsetContractAddr.
     bindS (lift_res (wrap_res ''operator address'' (sAccAddressFromBech32 K (uv_OperatorAddress msg)))) (\<lambda>operatorAddress.
     bindS (\<lambda>s. (wrap_res ''query contract'' (QueryValidator K V (x_QuerySmart X s) (ValsetContract s) operatorAddress), s))
       (\<lambda>current.
     case current of
       None \<Rightarrow> lift_res (Panic ''nil pointer dereference'')
     | Some cur \<Rightarrow>
     bindS (lift_res (wrap_res ''merge description'' (UpdateDescription E (sv_Description cur) (uv_Description msg)))) (\<lambda>newDescr.
     bindS (wrapS ''update validator'' (contract_UpdateValidator (x_Execute X) valsetContractAddr operatorAddress newDescr)) (\<lambda>_.
     EmitEvents
       [module_event E (uv_OperatorAddress msg),
        Event EventTypeUpdateValidator
          [(AttributeKeyValOperator, uv_OperatorAddress msg),
           (AttributeKeyMoniker, Moniker (uv_Description msg))]]))))))"

definition msg_Delegate :: "sdk_ops \<Rightarrow> 'a msg_env \<Rightarrow> 'w poe_calls \<Rightarrow> MsgDelegate \<Rightarrow> ('w poe_state, unit) act" where
  "msg_Delegate K E X msg =
     bindS (lift_res (wrap_res ''operator address'' (sAccAddressFromBech32 K (de_OperatorAddress msg)))) (\<lambda>operatorAddress.
     bindS (wrapS ''staking contract'' (poeAddress PoEContractTypeStaking)) (\<lambda>stakingContractAddr.
     bindS (lift_res (NewCoins K [de_Amount msg])) (\<lambda>amount.
     bindS (wrapS ''bond delegation''
       (BondDelegation K (x_Execute X) stakingContractAddr operatorAddress amount (Some (de_VestingAmount msg)))) (\<lambda>_.
     EmitEvents
       [module_event E (de_OperatorAddress msg),
        Event EventTypeDelegate [(AttributeKeyAmount E, Coin_String K (de_Amount msg))]]))))"

text \<open>The response holds the completion time, in nanoseconds.\<close>

definition msg_Undelegate ::
    "sdk_ops \<Rightarrow> wasmd_ops \<Rightarrow> 'a msg_env \<Rightarrow> 'w poe_calls \<Rightarrow> MsgUndelegate \<Rightarrow> ('w poe_state, int) act" where
  "msg_Undelegate K N E X msg =
     bindS (lift_res (wrap_res ''operator address'' (sAccAddressFromBech32 K (un_OperatorAddress msg)))) (\<lambda>operatorAddress.
     bindS (wrapS ''staking contract'' (poeAddress PoEContractTypeStaking)) (\<lambda>stakingContractAddr.
     bindS (wrapS ''unbond delegation'' (UnbondDelegation K N (executeEm X) (\<lambda>evs s. s\<lparr>p_events := p_events s @ evs\<rparr>)
       stakingContractAddr operatorAddress (un_Amount msg))) (\<lambda>completionTime.
     bindS (EmitEvents
       [module_event E (un_OperatorAddress msg),
        Event EventTypeUndelegate [(AttributeKeyAmount E, Coin_String K (un_Amount msg))]]) (\<lambda>_.
     ret completionTime))))"

section \<open>The handler\<close>

datatype 'a poe_msg =
    CreateValidatorMsg "'a MsgCreateValidator"
  | UpdateValidatorMsg MsgUpdateValidator
  | DelegateMsg MsgDelegate
  | UndelegateMsg MsgUndelegate
  | UnknownMsg

datatype poe_response =
    CreateValidatorResponse | UpdateValidatorResponse | DelegateResponse | UndelegateResponse int

text \<open>
  \<open>sdk.WrapServiceResult\<close> returns the error or the response with the events of the context, whose
  event manager is new.
\<close>

definition WrapServiceResult ::
    "('r \<Rightarrow> poe_response) \<Rightarrow> ('w poe_state, 'r) act \<Rightarrow> ('w poe_state, poe_response \<times> event list) act" where
  "WrapServiceResult resp m s =
     (let (r, s') = m (s\<lparr>p_events := []\<rparr>) in
      (bind_res r (\<lambda>x. Ok (resp x, p_events s')), s'\<lparr>p_events := p_events s\<rparr>))"

definition poe_newHandler ::
    "sdk_ops \<Rightarrow> wasmd_ops \<Rightarrow> 'a msg_env \<Rightarrow> ('b, 'd) val_env \<Rightarrow> 'w poe_calls \<Rightarrow> 'a poe_msg \<Rightarrow>
     ('w poe_state, poe_response \<times> event list) act" where
  "poe_newHandler K N E V X msg =
     (case msg of
        CreateValidatorMsg m \<Rightarrow> WrapServiceResult (\<lambda>_. CreateValidatorResponse) (msg_CreateValidator K E X m)
      | UpdateValidatorMsg m \<Rightarrow> WrapServiceResult (\<lambda>_. UpdateValidatorResponse) (msg_UpdateValidator K E V X m)
      | DelegateMsg m \<Rightarrow> WrapServiceResult (\<lambda>_. DelegateResponse) (msg_Delegate K E X m)
      | UndelegateMsg m \<Rightarrow> WrapServiceResult UndelegateResponse (msg_Undelegate K N E X m)
      | UnknownMsg \<Rightarrow> lift_res (failw SdkErrUnknownRequest ''unrecognized %s message type: %T''))"


section \<open>Contract calls and the state of the module\<close>

text \<open>
  The part of the state that belongs to the module. Contracts are called with a context for the whole
  application but write to their own stores; this is what the bootstrap of the contracts relies on.
\<close>

definition own_state :: "'w poe_state \<Rightarrow> kv \<times> (PoEContractType \<rightharpoonup> addr) \<times> (string \<rightharpoonup> poe_param) \<times> abci_VoteInfo list" where
  "own_state s = (p_store s, p_cache s, p_params s, p_votes s)"

lemma own_state_events [simp]: "own_state (s\<lparr>p_events := evs\<rparr>) = own_state s"
  by (simp add: own_state_def)

definition calls_frame :: "'w poe_calls \<Rightarrow> bool" where
  "calls_frame X \<longleftrightarrow>
     (\<forall>c a m f s. own_state (snd (x_Execute X c a m f s)) = own_state s) \<and>
     (\<forall>c m s. own_state (snd (x_Sudo X c m s)) = own_state s)"

lemma keeps_calls:
  assumes "calls_frame X"
  shows "keeps (\<lambda>s. own_state s = o0) (x_Execute X c a m f)" "keeps (\<lambda>s. own_state s = o0) (x_Sudo X c m)"
  using assms by (auto simp: calls_frame_def keeps_def)

lemma keeps_poeAddress: "keeps P (poeAddress t)"
  by (simp add: keeps_def poeAddress_def)

lemma keeps_read: "keeps P (\<lambda>s. (g s, s))"
  by (simp add: keeps_def)

lemma keeps_EmitEvents: "keeps (\<lambda>s. own_state s = o0) (EmitEvents evs)"
  by (simp add: keeps_def EmitEvents_def modify_def)

lemma keeps_grpcS: "keeps P m \<Longrightarrow> keeps P (grpcS c m)"
  by (simp add: keeps_def grpcS_def)

lemma keeps_dropS: "keeps P m \<Longrightarrow> keeps P (dropS m)"
  by (simp add: dropS_def keeps_bindS keeps_ret)

lemma keeps_if: "keeps P m \<Longrightarrow> keeps P n \<Longrightarrow> keeps P (if b then m else n)"
  by simp

lemma keeps_option: "keeps P m \<Longrightarrow> (\<And>x. keeps P (f x)) \<Longrightarrow> keeps P (case z of None \<Rightarrow> m | Some x \<Rightarrow> f x)"
  by (cases z) simp_all

lemmas keeps_msg = keeps_rules keeps_poeAddress keeps_read keeps_EmitEvents keeps_grpcS keeps_dropS keeps_if keeps_option

section \<open>The completion time of an unbonding\<close>

text \<open>The attributes that the contract itself has emitted.\<close>

definition genuine_attributes :: "sdk_ops \<Rightarrow> wasmd_ops \<Rightarrow> addr \<Rightarrow> event list \<Rightarrow> (string \<times> string) list" where
  "genuine_attributes K N c evs =
     concat (map event_Attributes (filter (\<lambda>e. event_Type e = WasmModuleEventType N \<and> trusted_event K N c e) evs))"

lemma find_append: "find P (xs @ ys) = (case find P xs of None \<Rightarrow> find P ys | Some x \<Rightarrow> Some x)"
  by (induction xs) auto

lemma find_completion_genuine:
  "find_completion K N c evs =
     (case find (\<lambda>a. fst a = ''completion_time'') (genuine_attributes K N c evs) of
        None \<Rightarrow> failw PoeErrInvalid ''completion_time event attribute''
      | Some a \<Rightarrow> wrap_res ''completion time value'' (parse_int (snd a)))"
  by (induction evs) (auto simp: genuine_attributes_def find_append split: option.split)

lemma unbond_amount:
  assumes "sdk_laws K"
  shows "bad_unbond_amount K c = Ok False \<longleftrightarrow> (\<exists>n. mc_Amount c = Some n \<and> 0 < n \<and> n < 2 ^ 63)"
    and "0 < n \<Longrightarrow> n < 2 ^ 63 \<Longrightarrow> Int_Uint64 K (Some n) = Ok (word_of_int n)"
proof -
  have law: "mc_Amount c = Some n \<Longrightarrow> Coin_IsZero K c = Ok (n = 0) \<and> Coin_IsNegative K c = Ok (n < 0) \<and>
      Int_IsInt64 K (Some n) = Ok (in_int64 n)" for n
    using assms by (simp add: sdk_laws_def)
  show "bad_unbond_amount K c = Ok False \<longleftrightarrow> (\<exists>n. mc_Amount c = Some n \<and> 0 < n \<and> n < 2 ^ 63)"
    using law by (cases "mc_Amount c") (auto simp: bad_unbond_amount_def in_int64_def)
  show "0 < n \<Longrightarrow> n < 2 ^ 63 \<Longrightarrow> Int_Uint64 K (Some n) = Ok (word_of_int n)"
    using assms by (simp add: sdk_laws_def)
qed


section \<open>Properties\<close>

text \<open>
  C18: Undelegating a positive amount within \<open>int64\<close> calls the staking contract once, in the name of the
  operator and for exactly this amount, and answers with the first completion time that this contract
  has emitted itself: events of other contracts or of other types are not believed, and without a
  well-formed time the message fails. All other amounts are refused before any call.
\<close>

theorem undelegate_completion:
  assumes laws: "sdk_laws K" and op: "sAccAddressFromBech32 K (un_OperatorAddress msg) = Ok op"
    and c: "GetPoEContractAddress PoEContractTypeStaking s = Ok c"
  shows "msg_Undelegate K N E X msg s = (Ok t, s') \<longleftrightarrow>
    (\<exists>n bz s1 a. mc_Amount (un_Amount msg) = Some n \<and> 0 < n \<and> n < 2 ^ 63 \<and>
       x_Execute X c op (JObj [(''unbond'', JObj [(''tokens'',
         enc_wasm_coin (wasmvm_NewCoin N (word_of_int n) (mc_Denom (un_Amount msg))))])]) [] (s\<lparr>p_events := []\<rparr>) = (Ok bz, s1) \<and>
       find (\<lambda>a. fst a = ''completion_time'') (genuine_attributes K N c (p_events s1)) = Some a \<and>
       parse_int (snd a) = Ok t \<and>
       s' = s1\<lparr>p_events := p_events s @ p_events s1 @
         [module_event E (un_OperatorAddress msg),
          Event EventTypeUndelegate [(AttributeKeyAmount E, Coin_String K (un_Amount msg))]]\<rparr>)"
  (is "?l \<longleftrightarrow> ?r")
proof (cases "bad_unbond_amount K (un_Amount msg) = Ok False")
  case False
  then have "\<not> ?r" using unbond_amount(1) [OF laws] by blast
  moreover have "\<not> ?l"
    using False by (cases "bad_unbond_amount K (un_Amount msg)")
      (auto simp: msg_Undelegate_def op bindS_def wrapS_def poeAddress_def c UnbondDelegation_def failw_def lift_res_def
        split: if_splits)
  ultimately show ?thesis by blast
next
  case True
  then obtain n where n: "mc_Amount (un_Amount msg) = Some n" "0 < n" "n < 2 ^ 63"
    using unbond_amount(1) [OF laws] by blast
  let ?m = "JObj [(''unbond'', JObj [(''tokens'',
         enc_wasm_coin (wasmvm_NewCoin N (word_of_int n) (mc_Denom (un_Amount msg))))])]"
  obtain r s1 where x: "x_Execute X c op ?m [] (s\<lparr>p_events := []\<rparr>) = (r, s1)" by (cases "x_Execute X c op ?m [] (s\<lparr>p_events := []\<rparr>)")
  have "enc_TG4StakeExecute (noStakeExecute\<lparr>se_Unbond := Some (wasmvm_NewCoin N (word_of_int n) (mc_Denom (un_Amount msg)))\<rparr>) = ?m"
    by (simp add: enc_TG4StakeExecute_def noStakeExecute_def omit_nil_def)
  then have u: "UnbondDelegation K N (executeEm X) (\<lambda>evs s. s\<lparr>p_events := p_events s @ evs\<rparr>) c op (un_Amount msg) s =
      (case r of Ok bz \<Rightarrow> find_completion K N c (p_events s1) | Err e \<Rightarrow> Err (Wrapped e ''execute staking contract'') | Panic p \<Rightarrow> Panic p,
       s1\<lparr>p_events := p_events s @ p_events s1\<rparr>)"
    using unbond_amount(2) [OF laws n(2,3)] by (simp add: UnbondDelegation_def True n(1) executeEm_def x split: res.split)
  have "find_completion K N c (p_events s1) = Ok t \<longleftrightarrow>
      (\<exists>a. find (\<lambda>a. fst a = ''completion_time'') (genuine_attributes K N c (p_events s1)) = Some a \<and> parse_int (snd a) = Ok t)"
    by (auto simp: find_completion_genuine split: option.splits)
  then show ?thesis
    using n(3) by (cases r; cases "find_completion K N c (p_events s1)")
      (auto simp: msg_Undelegate_def op bindS_def wrapS_def poeAddress_def c u EmitEvents_def modify_def ret_def lift_res_def n(1,2) x)
qed

text \<open>
  An update of a validator that the contract does not know panics; for a known one with a merge
  of the descriptions that succeeds, the contract receives exactly the merged description.
\<close>

lemma update_validator_merges:
  assumes d: "EnsureLength E (uv_Description msg) = Ok d" and a: "sAccAddressFromBech32 K (uv_OperatorAddress msg) = Ok op"
    and v: "GetPoEContractAddress PoEContractTypeValset s = Ok c"
    and q: "QueryValidator K V (x_QuerySmart X s) (NewBaseContractAdapter c None) op = Ok cur"
  shows "(case cur of
      None \<Rightarrow> (\<exists>p. msg_UpdateValidator K E V X msg s = (Panic p, s))
    | Some val \<Rightarrow>
        (\<forall>new. UpdateDescription E (sv_Description val) (uv_Description msg) = Ok new \<longrightarrow>
          msg_UpdateValidator K E V X msg s =
            bindS (wrapS ''update validator'' (contract_UpdateValidator (x_Execute X) c op new))
              (\<lambda>_. EmitEvents [module_event E (uv_OperatorAddress msg),
                 Event EventTypeUpdateValidator [(AttributeKeyValOperator, uv_OperatorAddress msg),
                   (AttributeKeyMoniker, Moniker (uv_Description msg))]]) s) \<and>
        (\<forall>e. UpdateDescription E (sv_Description val) (uv_Description msg) = Err e \<longrightarrow>
          msg_UpdateValidator K E V X msg s = (Err (Wrapped e ''merge description''), s)))"
proof -
  have "ValsetContract s = NewBaseContractAdapter c None" by (simp add: ValsetContract_def lookup_adapter_def v)
  then have "msg_UpdateValidator K E V X msg s =
    (case cur of
       None \<Rightarrow> lift_res (Panic ''nil pointer dereference'')
     | Some cur \<Rightarrow>
     bindS (lift_res (wrap_res ''merge description'' (UpdateDescription E (sv_Description cur) (uv_Description msg)))) (\<lambda>newDescr.
     bindS (wrapS ''update validator'' (contract_UpdateValidator (x_Execute X) c op newDescr)) (\<lambda>_.
     EmitEvents
       [module_event E (uv_OperatorAddress msg),
        Event EventTypeUpdateValidator
          [(AttributeKeyValOperator, uv_OperatorAddress msg),
           (AttributeKeyMoniker, Moniker (uv_Description msg))]]))) s"
    using q by (simp add: msg_UpdateValidator_def d a bindS_def wrapS_def poeAddress_def v lift_res_def)
  then show ?thesis by (auto simp: bindS_def lift_res_def split: option.split)
qed

section \<open>Samples\<close>

definition sample_env :: "unit msg_env" where
  "sample_env =
     \<lparr>EventTypeMessage = ''message'', AttributeKeyModule = ''module'', AttributeKeySender = ''sender'',
      AttributeKeyAmount = ''amount'', EnsureLength = Ok, UpdateDescription = (\<lambda>d d'. Ok d'),
      CachedPubKey = (\<lambda>_. None), ctx_PubKeyTypes = None\<rparr>"

definition sample_wasmd :: wasmd_ops where
  "sample_wasmd = \<lparr>WasmModuleEventType = ''wasm'', wn_AttributeKeyContractAddr = ''_contract_address'',
     wasmvm_NewCoin = (\<lambda>n d. \<lparr>wc_Denom = d, wc_Amount = format_int (uint n)\<rparr>)\<rparr>"

text \<open>A contract that answers every call with a completion time, after an event of another contract.\<close>

definition sample_staking :: "unit poe_calls" where
  "sample_staking =
     \<lparr>x_Execute = (\<lambda>c a m f s. (Ok [], s\<lparr>p_events := p_events s @
        [Event ''wasm'' [(''_contract_address'', ''other''), (''completion_time'', ''1'')],
         Event ''wasm'' [(''_contract_address'', bytes_string c), (''completion_time'', ''42'')]]\<rparr>)),
      x_Sudo = (\<lambda>c m s. (Ok RawEmpty, s)),
      x_QuerySmart = (\<lambda>s c q. Ok (RawJson (JObj [])))\<rparr>"

lemma update_validator_merges_sample:
  "\<exists>p. msg_UpdateValidator sample_sdk sample_env (\<lparr>newAny = (\<lambda>_. Ok ()), val_OneDec = 1\<rparr> :: (unit, rat) val_env)
     sample_staking \<lparr>uv_Description = emptyDescription, uv_OperatorAddress = ''a''\<rparr>
     (SetPoEContractAddress PoEContractTypeValset [7] (emptyState ())) =
   (Panic p, SetPoEContractAddress PoEContractTypeValset [7] (emptyState ()))"
proof -
  let ?s = "SetPoEContractAddress PoEContractTypeValset [7] (emptyState ())"
  let ?msg = "\<lparr>uv_Description = emptyDescription, uv_OperatorAddress = ''a''\<rparr>"
  let ?V = "\<lparr>newAny = (\<lambda>_. Ok ()), val_OneDec = 1\<rparr> :: (unit, rat) val_env"
  have d: "EnsureLength sample_env (uv_Description ?msg) = Ok emptyDescription" by (simp add: sample_env_def)
  have a: "sAccAddressFromBech32 sample_sdk (uv_OperatorAddress ?msg) = Ok (string_bytes ''a'')" by (simp add: sample_sdk_def)
  have v: "GetPoEContractAddress PoEContractTypeValset ?s = Ok [7]"
    by (simp add: cs.get_put PoEContractType_valid_iff poe_type_defs)
  have "QueryValidator sample_sdk ?V (x_QuerySmart sample_staking ?s) (NewBaseContractAdapter [7] None) (string_bytes ''a'') = Ok None"
    by (simp add: QueryValidator_def adapter_doQuery_def NewBaseContractAdapter_def sample_staking_def json_Unmarshal_def dec_struct_def)
  from update_validator_merges [OF d a v this] show ?thesis by simp
qed

theorem undelegate_completion_witness:
  "\<exists>s'. msg_Undelegate sample_sdk sample_wasmd sample_env sample_staking
     \<lparr>un_OperatorAddress = ''a'', un_Amount = \<lparr>mc_Denom = ''ufury'', mc_Amount = Some 5\<rparr>\<rparr>
     (SetPoEContractAddress PoEContractTypeStaking [7] (emptyState ())) = (Ok 42, s')"
proof -
  let ?s = "SetPoEContractAddress PoEContractTypeStaking [7] (emptyState ())"
  let ?msg = "\<lparr>un_OperatorAddress = ''a'', un_Amount = \<lparr>mc_Denom = ''ufury'', mc_Amount = Some 5\<rparr>\<rparr>"
  have a: "sAccAddressFromBech32 sample_sdk (un_OperatorAddress ?msg) = Ok (string_bytes ''a'')" by (simp add: sample_sdk_def)
  have c: "GetPoEContractAddress PoEContractTypeStaking ?s = Ok [7]"
    by (simp add: cs.get_put PoEContractType_valid_iff poe_type_defs)
  have p: "parse_int ''42'' = Ok 42" by code_simp
  show ?thesis
    unfolding undelegate_completion [OF sample_sdk_laws a c]
    by (simp add: sample_staking_def genuine_attributes_def trusted_event_def sample_wasmd_def sample_sdk_def p bytes_string_def)
qed

end
