(* ===== verification/PoEAbci.thy ===== *)
theory PoEAbci
  imports PoEMsgServer TwasmProperties
begin

text \<open>
  \<open>x/poe/abci.go\<close>: the validator diff at the end of a block, which the one registered validator set
  updater provides, and the bookkeeping at its beginning. The state of the end of a block is the one of
  the twasm keeper, whose privilege index names the updater; \<open>sudo\<close> is its call of a contract and \<open>fwd\<close>
  what the SDK forwards of the events of a committed branch.
\<close>

section \<open>End of a block\<close>

text \<open>
  The callback for a validator set updater, on the variable \<open>diff\<close> and the state. It runs on a branch
  of the state that is committed when the call and the conversion succeed. An error ends the
  iteration with a nil diff; a panic is recovered and leaves the callback's result at its zero value,
  so the iteration goes on with the next contract.
\<close>

definition valset_callback ::
    "'w tw_state sudoer \<Rightarrow> (event list \<Rightarrow> event list) \<Rightarrow> uint8 \<Rightarrow> addr \<Rightarrow>
     (abci_ValidatorUpdate list \<times> 'w tw_state, bool) act" where
  "valset_callback sudo fwd pos contractAddr ds =
     (case ds of (diff, s) \<Rightarrow>
       (case CallEndBlockWithValidatorUpdate sudo contractAddr (s\<lparr>tw_events := []\<rparr>) of
          (Ok d, s') \<Rightarrow> (Ok True, (d, s'\<lparr>tw_events := tw_events s @ fwd (tw_events s')\<rparr>))
        | (Err e, s') \<Rightarrow> (Ok True, ([], s))
        | (Panic p, s') \<Rightarrow> (Ok False, (diff, s))))"

definition poe_EndBlocker ::
    "'w tw_state sudoer \<Rightarrow> (event list \<Rightarrow> event list) \<Rightarrow> ('w tw_state, abci_ValidatorUpdate list) act" where
  "poe_EndBlocker sudo fwd s =
     (let (r, (diff, s')) = iterate_entries
            (\<lambda>e. bindS (lift_res (parseContractPosition (fst e))) (\<lambda>pos. valset_callback sudo fwd pos (snd e)))
            (prefix_entries (getContractPrivilegesSecondaryIndexPrefix PrivilegeTypeValidatorSetUpdate) (tw_store s)) ([], s) in
      (bind_res r (\<lambda>_. Ok diff), s'))"

section \<open>Beginning of a block\<close>

definition poe_BeginBlocker ::
    "('hd, 'h) hist_ops \<Rightarrow> abci_VoteInfo list \<Rightarrow> int \<Rightarrow> 'hd \<Rightarrow> ('w poe_state, unit) act" where
  "poe_BeginBlocker H votes blockHeight header =
     bindS (modify (UpdateValidatorVotes votes)) (\<lambda>_. TrackHistoricalInfo H blockHeight header)"

section \<open>The validator diff\<close>

lemma entries_unique:
  assumes inv: "tw_inv X s" and single: "IsSingleton t"
  shows "type_entries t s = [] \<or> (\<exists>p a. type_entries t s = [([p], a)] \<and> privilege_reg s t p = Some a)"
proof -
  have idx: "index_inv s" using inv by (simp add: tw_inv_def)
  have "\<not> 1 < length (type_entries t s)"
  proof
    assume "1 < length (type_entries t s)"
    then obtain p q where "p < q" "privilege_reg s t p \<noteq> None" "privilege_reg s t q \<noteq> None"
      using type_entries_ascending [OF idx, of 0 1 t] by auto
    then show False using inv single by (auto simp: tw_inv_def)
  qed
  then consider "type_entries t s = []" | x a where "type_entries t s = [(x, a)]"
    by (cases "type_entries t s" rule: list.exhaust; cases "tl (type_entries t s)") auto
  then show ?thesis
  proof cases
    case 2
    then have "(x, a) \<in> set (type_entries t s)" by simp
    with 2 show ?thesis using in_type_entries [OF idx, of x a t] by auto
  qed simp
qed

text \<open>What the end of a block does with the answer of the one updater.\<close>

definition diff_of ::
    "'w tw_state sudoer \<Rightarrow> (event list \<Rightarrow> event list) \<Rightarrow> addr \<Rightarrow> 'w tw_state \<Rightarrow> abci_ValidatorUpdate list \<times> 'w tw_state" where
  "diff_of sudo fwd a s =
     (case CallEndBlockWithValidatorUpdate sudo a (s\<lparr>tw_events := []\<rparr>) of
        (Ok d, s') \<Rightarrow> (d, s'\<lparr>tw_events := tw_events s @ fwd (tw_events s')\<rparr>)
      | _ \<Rightarrow> ([], s))"

lemma end_blocker_single:
  assumes "type_entries PrivilegeTypeValidatorSetUpdate s = [([p], a)]"
  shows "poe_EndBlocker sudo fwd s = (Ok (fst (diff_of sudo fwd a s)), snd (diff_of sudo fwd a s))"
  using assms
  by (simp add: poe_EndBlocker_def bindS_def lift_res_def parseContractPosition_def valset_callback_def diff_of_def
      split: prod.split res.split)

lemma end_blocker_none:
  assumes "type_entries PrivilegeTypeValidatorSetUpdate s = []"
  shows "poe_EndBlocker sudo fwd s = (Ok [], s)"
  using assms by (simp add: poe_EndBlocker_def)

text \<open>Every update in the diff comes from an entry of the contract's answer, in order, with a supported key.\<close>

lemma convert_diffs_iff:
  "convert_diffs vs = Ok us \<longleftrightarrow>
    list_all2 (\<lambda>v u. ConvertToTendermintPubKey (vu_PubKey v) = Ok (au_PubKey u) \<and> au_Power u = int64_of_uint64 (vu_Power v)) vs us"
proof (induction vs arbitrary: us)
  case (Cons v vs)
  show ?case
    using Cons.IH by (cases us) (auto simp: bind_res_Ok_iff)
qed auto

lemma end_blocker_cases:
  assumes inv: "tw_inv X s"
  obtains diff s' where "poe_EndBlocker sudo fwd s = (Ok diff, s')"
    "(\<forall>p. privilege_reg s PrivilegeTypeValidatorSetUpdate p = None) \<and> diff = [] \<and> s' = s \<or>
     (\<exists>p a. privilege_reg s PrivilegeTypeValidatorSetUpdate p = Some a \<and> (diff, s') = diff_of sudo fwd a s)"
proof -
  have "IsSingleton PrivilegeTypeValidatorSetUpdate" by (simp add: IsSingleton_iff)
  from entries_unique [OF inv this] show thesis
  proof
    assume none: "type_entries PrivilegeTypeValidatorSetUpdate s = []"
    then have "privilege_reg s PrivilegeTypeValidatorSetUpdate p = None" for p
      using in_type_entries [OF inv_index [OF inv], of "[p]" _ PrivilegeTypeValidatorSetUpdate]
      by (cases "privilege_reg s PrivilegeTypeValidatorSetUpdate p") auto
    with end_blocker_none [OF none] show thesis using that by blast
  next
    assume "\<exists>p a. type_entries PrivilegeTypeValidatorSetUpdate s = [([p], a)] \<and>
      privilege_reg s PrivilegeTypeValidatorSetUpdate p = Some a"
    then obtain p a where "type_entries PrivilegeTypeValidatorSetUpdate s = [([p], a)]"
      "privilege_reg s PrivilegeTypeValidatorSetUpdate p = Some a" by blast
    then show thesis using that end_blocker_single by (metis prod.collapse)
  qed
qed

section \<open>Properties\<close>

text \<open>
  C20: In every state reachable from an empty chain, or from an imported genesis state with valid lists,
  no custom state and every singleton privilege given out at most once, the end of a block of the poe
  module returns without error and panic. Without a
  validator set updater there is no diff and nothing changes. The one updater is called with its own
  branch of the state: when its answer is well formed the diff holds its entries in order and the
  branch is committed, when the call fails or panics or the answer is malformed the diff is empty and
  the state is as before.
\<close>

theorem validator_diff_isolated:
  assumes "wasm_laws X" and "sudo_effects X" and "handler_laws X H" and "genesis_laws X G"
    and reach: "tw_reachable X G H fwd s"
  shows "\<exists>diff s'. poe_EndBlocker sudo fwd' s = (Ok diff, s') \<and>
    ((\<forall>p. privilege_reg s PrivilegeTypeValidatorSetUpdate p = None) \<and> diff = [] \<and> s' = s \<or>
     (\<exists>p a. privilege_reg s PrivilegeTypeValidatorSetUpdate p = Some a \<and>
        (case CallEndBlockWithValidatorUpdate sudo a (s\<lparr>tw_events := []\<rparr>) of
           (Ok d, t) \<Rightarrow> diff = d \<and> s' = t\<lparr>tw_events := tw_events s @ fwd' (tw_events t)\<rparr>
         | _ \<Rightarrow> diff = [] \<and> s' = s)))"
proof -
  have inv: "tw_inv X s" by (rule reachable_inv [OF assms])
  obtain diff s' where d: "poe_EndBlocker sudo fwd' s = (Ok diff, s')"
    "(\<forall>p. privilege_reg s PrivilegeTypeValidatorSetUpdate p = None) \<and> diff = [] \<and> s' = s \<or>
     (\<exists>p a. privilege_reg s PrivilegeTypeValidatorSetUpdate p = Some a \<and> (diff, s') = diff_of sudo fwd' a s)"
    by (rule end_blocker_cases [OF inv])
  have answer: "case CallEndBlockWithValidatorUpdate sudo a (s\<lparr>tw_events := []\<rparr>) of
      (Ok d, t) \<Rightarrow> diff = d \<and> s' = t\<lparr>tw_events := tw_events s @ fwd' (tw_events t)\<rparr>
    | _ \<Rightarrow> diff = [] \<and> s' = s" if "(diff, s') = diff_of sudo fwd' a s" for a
    using that by (simp add: diff_of_def split: prod.splits res.splits)
  from d(2) show ?thesis
  proof
    assume "\<exists>p a. privilege_reg s PrivilegeTypeValidatorSetUpdate p = Some a \<and> (diff, s') = diff_of sudo fwd' a s"
    then obtain p a where "privilege_reg s PrivilegeTypeValidatorSetUpdate p = Some a" "(diff, s') = diff_of sudo fwd' a s"
      by blast
    then show ?thesis
      by (intro exI [of _ diff] exI [of _ s'] conjI [OF d(1)] disjI2 exI [of _ p] exI [of _ a] conjI answer)
  qed (intro exI [of _ diff] exI [of _ s'] conjI [OF d(1)] disjI1)
qed

text \<open>A contract that reports one new validator and a contract that panics.\<close>

definition reports_one :: "sample_w tw_state sudoer" where
  "reports_one a m s =
     (Ok (RawJson (JObj [(''diffs'', JArr [JObj [(''pubkey'', JObj [(''ed25519'', JStr ''AQ=='')]), (''power'', JInt 5)]])])), s)"

theorem validator_diff_isolated_witness:
  "\<exists>s'. poe_EndBlocker reports_one (\<lambda>e. e) sample5 = (Ok [\<lparr>au_PubKey = TmEd25519 [1], au_Power = 5\<rparr>], s')"
proof -
  have call: "CallEndBlockWithValidatorUpdate reports_one [7] s = (Ok [\<lparr>au_PubKey = TmEd25519 [1], au_Power = 5\<rparr>], s)" for s
  proof -
    have "json_Unmarshal dec_EndWithValidatorUpdateResponse (RawJson (JObj [(''diffs'',
        JArr [JObj [(''pubkey'', JObj [(''ed25519'', JStr ''AQ=='')]), (''power'', JInt 5)]])])) \<lparr>er_Diffs = []\<rparr> =
      Ok \<lparr>er_Diffs = [\<lparr>vu_PubKey = noPubkey\<lparr>vp_Ed25519 := Some [1]\<rparr>, vu_Power = 5\<rparr>]\<rparr>" by code_simp
    then show ?thesis
      by (simp add: CallEndBlockWithValidatorUpdate_def reports_one_def bindS_def wrapS_def lift_res_def
          ConvertToTendermintPubKey_def int64_of_uint64_small)
  qed
  have reg: "privilege_reg sample5 PrivilegeTypeValidatorSetUpdate 1 = Some [7]" by code_simp
  have inv: "tw_inv sample_ext sample5"
    by (rule reachable_inv [OF sample_laws sample_effects sample_handler_laws sample_genesis_laws sample5_reachable])
  have only: "a = [7]" if "privilege_reg sample5 PrivilegeTypeValidatorSetUpdate p = Some a" for p a
  proof -
    have "p = 1" using inv reg that unfolding tw_inv_def by (metis IsSingleton_iff option.distinct(1))
    with reg that show ?thesis by simp
  qed
  obtain d s' where r: "poe_EndBlocker reports_one (\<lambda>e. e) sample5 = (Ok d, s')" and
    "(\<forall>p. privilege_reg sample5 PrivilegeTypeValidatorSetUpdate p = None) \<and> d = [] \<and> s' = sample5 \<or>
     (\<exists>p a. privilege_reg sample5 PrivilegeTypeValidatorSetUpdate p = Some a \<and>
        (case CallEndBlockWithValidatorUpdate reports_one a (sample5\<lparr>tw_events := []\<rparr>) of
           (Ok e, t) \<Rightarrow> d = e \<and> s' = t\<lparr>tw_events := tw_events sample5 @ tw_events t\<rparr>
         | _ \<Rightarrow> d = [] \<and> s' = sample5))"
    using validator_diff_isolated [OF sample_laws sample_effects sample_handler_laws sample_genesis_laws sample5_reachable, of reports_one "\<lambda>e. e"]
    by (elim exE conjE) (rule that, assumption, assumption)
  then obtain p a where "privilege_reg sample5 PrivilegeTypeValidatorSetUpdate p = Some a" and
    c: "case CallEndBlockWithValidatorUpdate reports_one a (sample5\<lparr>tw_events := []\<rparr>) of
           (Ok e, t) \<Rightarrow> d = e \<and> s' = t\<lparr>tw_events := tw_events sample5 @ tw_events t\<rparr>
         | _ \<Rightarrow> d = [] \<and> s' = sample5"
    using reg by (elim disjE exE conjE) (simp, rule that, assumption, assumption)
  then have "a = [7]" using only by blast
  with c have "d = [\<lparr>au_PubKey = TmEd25519 [1], au_Power = 5\<rparr>]" by (simp add: call)
  with r show ?thesis by blast
qed

end
