(* ===== verification/PoEAnte.thy ===== *)
theory PoEAnte
  imports PoEMsgServer
begin

text \<open>
  \<open>x/poe/ante.go\<close>: the decorator that charges the fee of a transaction and pays it to the validator
  set contract.
\<close>

section \<open>Transactions\<close>

text \<open>
  A transaction that implements \<open>sdk.FeeTx\<close>, or another one. \<open>fx_FeeGranter\<close> is nil when there is no
  granter.
\<close>

record 'm poe_fee_tx =
  fx_Fee :: "coin list"
  fx_FeePayer :: addr
  fx_FeeGranter :: "addr option"
  fx_Msgs :: "'m list"

datatype 'm tx = FeeTx "'m poe_fee_tx" | OtherTx

text \<open>
  What the decorator uses of the SDK: account, bank and fee grant keepers (the last one may be nil)
  and functions on coins and addresses.
\<close>

record ('m, 'w) fee_ops =
  GetAccount :: "addr \<Rightarrow> 'w poe_state \<Rightarrow> addr option"
  SendCoins :: "addr \<Rightarrow> addr \<Rightarrow> coin list \<Rightarrow> ('w poe_state, unit) act"
  UseGrantedFees :: "(addr \<Rightarrow> addr \<Rightarrow> coin list \<Rightarrow> 'm list \<Rightarrow> ('w poe_state, unit) act) option"
  Addr_Equals :: "addr \<Rightarrow> addr \<Rightarrow> bool"
  Coins_IsZero :: "coin list \<Rightarrow> bool"
  Coins_IsValid :: "coin list \<Rightarrow> bool"
  Coins_String :: "coin list \<Rightarrow> string"
  EventTypeTx :: string
  AttributeKeyFee :: string

section \<open>The decorator\<close>

text \<open>The account is represented by its address.\<close>

definition DeductFees :: "('m, 'w) fee_ops \<Rightarrow> addr \<Rightarrow> coin list \<Rightarrow> ('w poe_state, unit) act" where
  "DeductFees F acc fees =
     (if \<not> Coins_IsValid F fees then lift_res (failw SdkErrInsufficientFee ''invalid fee amount: %s'')
      else bindS (\<lambda>s. (case GetPoEContractAddress PoEContractTypeValset s of
          Ok a \<Rightarrow> Ok a
        | Err e \<Rightarrow> Panic ''%s contract address has not been set''
        | Panic p \<Rightarrow> Panic p, s)) (\<lambda>feeCollector.
      (\<lambda>s. case SendCoins F acc feeCollector fees s of (r, s') \<Rightarrow> (recast SdkErrInsufficientFunds r, s'))))"

text \<open>The use of a fee grant, which gives the account to charge.\<close>

definition use_grant :: "('m, 'w) fee_ops \<Rightarrow> 'm poe_fee_tx \<Rightarrow> ('w poe_state, addr) act" where
  "use_grant F tx =
     (case fx_FeeGranter tx of
        None \<Rightarrow> ret (fx_FeePayer tx)
      | Some feeGranter \<Rightarrow>
          (case UseGrantedFees F of
             None \<Rightarrow> lift_res (failw SdkErrInvalidRequest ''fee grants are not enabled'')
           | Some use \<Rightarrow>
               if \<not> Addr_Equals F feeGranter (fx_FeePayer tx) then
                 bindS (wrapS ''%s not allowed to pay fees from %s''
                   (use feeGranter (fx_FeePayer tx) (fx_Fee tx) (fx_Msgs tx))) (\<lambda>_. ret feeGranter)
               else ret feeGranter))"

definition AnteHandle ::
    "('m, 'w) fee_ops \<Rightarrow> ('m tx \<Rightarrow> bool \<Rightarrow> ('w poe_state, 'r) act) \<Rightarrow> 'm tx \<Rightarrow> bool \<Rightarrow> ('w poe_state, 'r) act" where
  "AnteHandle F next' tx simulate =
     (case tx of
        OtherTx \<Rightarrow> lift_res (failw SdkErrTxDecode ''Tx must be a FeeTx'')
      | FeeTx feeTx \<Rightarrow>
          bindS (use_grant F feeTx) (\<lambda>deductFeesFrom.
          bindS (gets (GetAccount F deductFeesFrom)) (\<lambda>deductFeesFromAcc.
          case deductFeesFromAcc of
            None \<Rightarrow> lift_res (failw SdkErrUnknownAddress ''fee payer address: %s does not exist'')
          | Some acc \<Rightarrow>
              bindS (if \<not> Coins_IsZero F (fx_Fee feeTx) then DeductFees F acc (fx_Fee feeTx) else ret ()) (\<lambda>_.
              bindS (EmitEvents [Event (EventTypeTx F) [(AttributeKeyFee F, Coins_String F (fx_Fee feeTx))]]) (\<lambda>_.
              next' tx simulate)))))"

section \<open>What is charged\<close>

text \<open>The grant is used, the state changes from \<open>s\<close> to \<open>s'\<close> and \<open>a\<close> is to be charged.\<close>

definition granted :: "('m, 'w) fee_ops \<Rightarrow> 'm poe_fee_tx \<Rightarrow> 'w poe_state \<Rightarrow> addr \<Rightarrow> 'w poe_state \<Rightarrow> bool" where
  "granted F tx s a s' \<longleftrightarrow>
     (case fx_FeeGranter tx of
        None \<Rightarrow> a = fx_FeePayer tx \<and> s' = s
      | Some g \<Rightarrow> a = g \<and> (\<exists>use. UseGrantedFees F = Some use \<and>
          (if Addr_Equals F g (fx_FeePayer tx) then s' = s
           else use g (fx_FeePayer tx) (fx_Fee tx) (fx_Msgs tx) s = (Ok (), s'))))"

lemma use_grant_iff: "use_grant F tx s = (Ok a, s') \<longleftrightarrow> granted F tx s a s'"
proof (cases "fx_FeeGranter tx")
  case (Some g)
  show ?thesis
  proof (cases "UseGrantedFees F")
    case (Some use)
    obtain r t where "use g (fx_FeePayer tx) (fx_Fee tx) (fx_Msgs tx) s = (r, t)" by fastforce
    with \<open>fx_FeeGranter tx = Some g\<close> Some show ?thesis
      by (cases r) (auto simp: use_grant_def granted_def bindS_def wrapS_def ret_def)
  qed (simp add: use_grant_def granted_def Some lift_res_def)
qed (auto simp: use_grant_def granted_def ret_def)

lemma DeductFees_iff:
  "DeductFees F acc fees s = (Ok (), s') \<longleftrightarrow>
    Coins_IsValid F fees \<and> (\<exists>c. GetPoEContractAddress PoEContractTypeValset s = Ok c \<and> SendCoins F acc c fees s = (Ok (), s'))"
  by (auto simp: DeductFees_def bindS_def lift_res_def split: res.splits prod.splits)

lemma bindS_Ok_iff: "bindS m f s = (Ok y, t) \<longleftrightarrow> (\<exists>x s'. m s = (Ok x, s') \<and> f x s' = (Ok y, t))"
  by (auto simp: bindS_def elim: bindS_OkE split: prod.splits res.splits)

lemma option_Ok_iff:
  "(case z of None \<Rightarrow> lift_res (failw k m) | Some x \<Rightarrow> f x) s = (Ok y, t) \<longleftrightarrow> (\<exists>x. z = Some x \<and> f x s = (Ok y, t))"
  by (cases z) (simp_all add: lift_res_def)

lemma charge_iff:
  "(if \<not> Coins_IsZero F fees then DeductFees F acc fees else ret ()) s1 = (Ok (), s2) \<longleftrightarrow>
    (if Coins_IsZero F fees then s2 = s1
     else Coins_IsValid F fees \<and>
       (\<exists>c. GetPoEContractAddress PoEContractTypeValset s1 = Ok c \<and> SendCoins F acc c fees s1 = (Ok (), s2)))"
  by (auto simp: DeductFees_iff ret_def)

section \<open>Properties\<close>

text \<open>
  C30: A transaction passes the decorator exactly when its fee grant, if any, is accepted, the account
  to charge exists and, for a fee that is not zero, the fee is valid and was sent from that account to
  the validator set contract; then the rest of the chain of handlers runs, after an event with the
  fee. A valid fee that is not zero panics when the validator set contract has no address.
\<close>

theorem fees_go_to_valset:
  "(AnteHandle F next' (FeeTx tx) simulate s = (Ok r, s') \<longleftrightarrow>
    (\<exists>a acc s1 s2. granted F tx s a s1 \<and> GetAccount F a s1 = Some acc \<and>
       (if Coins_IsZero F (fx_Fee tx) then s2 = s1
        else Coins_IsValid F (fx_Fee tx) \<and>
          (\<exists>c. GetPoEContractAddress PoEContractTypeValset s1 = Ok c \<and> SendCoins F acc c (fx_Fee tx) s1 = (Ok (), s2))) \<and>
       next' (FeeTx tx) simulate
         (s2\<lparr>p_events := p_events s2 @ [Event (EventTypeTx F) [(AttributeKeyFee F, Coins_String F (fx_Fee tx))]]\<rparr>) = (Ok r, s'))) \<and>
   (granted F tx s a s1 \<and> GetAccount F a s1 = Some acc \<and> Coins_IsValid F (fx_Fee tx) \<and> \<not> Coins_IsZero F (fx_Fee tx) \<and>
      GetPoEContractAddress PoEContractTypeValset s1 = Err e \<longrightarrow>
    (\<exists>p. AnteHandle F next' (FeeTx tx) simulate s = (Panic p, s1)))"
proof
  show "AnteHandle F next' (FeeTx tx) simulate s = (Ok r, s') \<longleftrightarrow>
    (\<exists>a acc s1 s2. granted F tx s a s1 \<and> GetAccount F a s1 = Some acc \<and>
       (if Coins_IsZero F (fx_Fee tx) then s2 = s1
        else Coins_IsValid F (fx_Fee tx) \<and>
          (\<exists>c. GetPoEContractAddress PoEContractTypeValset s1 = Ok c \<and> SendCoins F acc c (fx_Fee tx) s1 = (Ok (), s2))) \<and>
       next' (FeeTx tx) simulate
         (s2\<lparr>p_events := p_events s2 @ [Event (EventTypeTx F) [(AttributeKeyFee F, Coins_String F (fx_Fee tx))]]\<rparr>) = (Ok r, s'))"
    by (cases "Coins_IsZero F (fx_Fee tx)")
      (simp_all add: AnteHandle_def bindS_Ok_iff option_Ok_iff use_grant_iff DeductFees_iff ret_def EmitEvents_def modify_def gets_def,
        blast+)
next
  show "granted F tx s a s1 \<and> GetAccount F a s1 = Some acc \<and> Coins_IsValid F (fx_Fee tx) \<and> \<not> Coins_IsZero F (fx_Fee tx) \<and>
      GetPoEContractAddress PoEContractTypeValset s1 = Err e \<longrightarrow>
    (\<exists>p. AnteHandle F next' (FeeTx tx) simulate s = (Panic p, s1))"
    unfolding use_grant_iff [symmetric] by (auto simp: AnteHandle_def bindS_def gets_def DeductFees_def)
qed

definition sample_fee_ops :: "(unit, int) fee_ops" where
  "sample_fee_ops =
     \<lparr>GetAccount = (\<lambda>a s. Some a), SendCoins = (\<lambda>a b c s. (Ok (), s\<lparr>p_world := p_world s + 1\<rparr>)), UseGrantedFees = None,
      Addr_Equals = (=), Coins_IsZero = (\<lambda>c. c = []), Coins_IsValid = (\<lambda>c. True), Coins_String = (\<lambda>c. []),
      EventTypeTx = ''tx'', AttributeKeyFee = ''fee''\<rparr>"

theorem fees_go_to_valset_witness:
  "\<exists>p. AnteHandle sample_fee_ops (\<lambda>t b. ret ()) (FeeTx \<lparr>fx_Fee = [\<lparr>coin_Denom = ''ufury'', coin_Amount = 1\<rparr>],
       fx_FeePayer = [1], fx_FeeGranter = None, fx_Msgs = []\<rparr>) False (emptyState 0) = (Panic p, emptyState 0)"
proof -
  let ?tx = "\<lparr>fx_Fee = [\<lparr>coin_Denom = ''ufury'', coin_Amount = 1\<rparr>], fx_FeePayer = [1], fx_FeeGranter = None, fx_Msgs = []\<rparr> :: unit poe_fee_tx"
  have "GetPoEContractAddress PoEContractTypeValset (emptyState (0 :: int)) = Err (Sentinel WasmErrNotFound)" by code_simp
  moreover have "granted sample_fee_ops ?tx (emptyState 0) [1] (emptyState 0)" by (simp add: granted_def)
  ultimately show ?thesis
    using fees_go_to_valset [of sample_fee_ops "\<lambda>t b. ret ()" ?tx False "emptyState 0" "()" _ "[1]" "emptyState 0" "[1]"
        "Sentinel WasmErrNotFound"] by (simp add: sample_fee_ops_def)
qed

end
