(* ===== verification/PoEQueries.thy ===== *)
theory PoEQueries
  imports PoEMsgServer
begin

text \<open>
  The queries of \<open>x/poe/keeper\<close>: \<open>querier.go\<close> and the legacy queries of the staking, distribution and
  slashing modules that the contracts answer. A query reads the state; a response is the data that the
  code puts into the response struct.
\<close>

section \<open>Environment\<close>

text \<open>
  Constructors and operations of the SDK's coins and decimals that the queries use; \<open>'c\<close> are the
  SDK's decimal coins.
\<close>

record ('d, 'c) query_ops =
  q_NewCoin :: "string \<Rightarrow> int \<Rightarrow> msg_coin res"
  q_NewDecCoin :: "string \<Rightarrow> int option \<Rightarrow> 'c res"
  q_NewDecCoins :: "'c \<Rightarrow> 'c list res"
  q_OneDec :: 'd
  q_ZeroDec :: 'd
  q_Int_GT :: "int option \<Rightarrow> int option \<Rightarrow> bool res"
  q_Addr_Equals :: "addr \<Rightarrow> addr \<Rightarrow> bool"
  q_nilDec :: 'd

text \<open>\<open>status.Code\<close> of an error that a query returns.\<close>

definition status_Code :: "go_error \<Rightarrow> grpc_code option" where
  "status_Code e = (case e of Sentinel (GrpcErr c m) \<Rightarrow> Some c | _ \<Rightarrow> None)"

text \<open>A request is a pointer; \<open>nil\<close> is refused first.\<close>

definition with_request :: "'q option \<Rightarrow> ('q \<Rightarrow> 'r res) \<Rightarrow> 'r res" where
  "with_request req f =
     (case req of None \<Rightarrow> fail (GrpcErr InvalidArgument ''empty request'') | Some r \<Rightarrow> f r)"

text \<open>Any error is replaced by a status with a text of its own.\<close>

fun grpc_text :: "grpc_code \<Rightarrow> string \<Rightarrow> 'r res \<Rightarrow> 'r res" where
  "grpc_text c m (Ok x) = Ok x"
| "grpc_text c m (Err e) = fail (GrpcErr c m)"
| "grpc_text c m (Panic p) = Panic p"

definition refuse_empty :: "string \<Rightarrow> string \<Rightarrow> 'r res \<Rightarrow> 'r res" where
  "refuse_empty a m r = (if a = [] then fail (GrpcErr InvalidArgument m) else r)"

section \<open>Queries of the module\<close>

definition query_ContractAddress :: "sdk_ops \<Rightarrow> 'w poe_state \<Rightarrow> PoEContractType option \<Rightarrow> string res" where
  "query_ContractAddress K s req = with_request req (\<lambda>t.
     case GetPoEContractAddress t s of
       Ok addr \<Rightarrow> Ok (sAddrString K addr)
     | Err e \<Rightarrow> if err_is WasmErrNotFound e then fail (GrpcErr NotFound ''err.Error()'')
                else fail (GrpcErr Internal ''err.Error()'')
     | Panic p \<Rightarrow> Panic p)"

record validators_request =
  vq_Status :: string
  vq_Pagination :: "PageRequest option"

text \<open>The response has the validators and the next key, when there is one.\<close>

definition query_Validators ::
    "('a, 'd) val_env \<Rightarrow> 'w poe_calls \<Rightarrow> 'w poe_state \<Rightarrow> validators_request option \<Rightarrow>
     (('a, 'd) sdk_Validator list \<times> bytes option) res" where
  "query_Validators V X s req = with_request req (\<lambda>r.
     if vq_Status r \<noteq> [] then fail (GrpcErr Unimplemented ''status not supported, yet'')
     else bind_res (NewPaginator (vq_Pagination r)) (\<lambda>pagination.
     bind_res (grpc Internal (ListValidators V (x_QuerySmart X s) (ValsetContract s) pagination)) (\<lambda>(vals, cursor).
     Ok (vals, if cursor_bytes cursor \<noteq> [] then cursor else None))))"

definition query_Validator ::
    "sdk_ops \<Rightarrow> ('a, 'd) val_env \<Rightarrow> 'w poe_calls \<Rightarrow> 'w poe_state \<Rightarrow> string option \<Rightarrow> ('a, 'd) sdk_Validator res" where
  "query_Validator K V X s req = with_request req (\<lambda>addr.
     refuse_empty addr ''validator address cannot be empty''
     (bind_res (sAccAddressFromBech32 K addr) (\<lambda>opAddr.
     bind_res (grpc Internal (QueryValidator K V (x_QuerySmart X s) (ValsetContract s) opAddr)) (\<lambda>val.
     case val of None \<Rightarrow> fail (GrpcErr NotFound ''by address'') | Some v \<Rightarrow> Ok v))))"

definition query_UnbondingPeriod :: "'w poe_calls \<Rightarrow> 'w poe_state \<Rightarrow> unit option \<Rightarrow> duration res" where
  "query_UnbondingPeriod X s req = with_request req (\<lambda>_.
     grpc Internal (QueryStakingUnbondingPeriod (x_QuerySmart X s) (StakeContract s)))"

definition query_ValidatorDelegation ::
    "sdk_ops \<Rightarrow> coin_ext \<Rightarrow> ('d, 'c) query_ops \<Rightarrow> 'w poe_calls \<Rightarrow> 'w poe_state \<Rightarrow> string option \<Rightarrow> msg_coin res" where
  "query_ValidatorDelegation K C O' X s req = with_request req (\<lambda>addr.
     bind_res (grpc_text InvalidArgument ''validator address'' (sAccAddressFromBech32 K addr)) (\<lambda>opAddr.
     bind_res (grpc Internal (QueryStakedAmount K C (x_QuerySmart X s) (StakeContract s) opAddr)) (\<lambda>amount.
     case amount of
       None \<Rightarrow> fail (GrpcErr NotFound ''not a validator operator address'')
     | Some n \<Rightarrow> q_NewCoin O' (GetBondDenom s) n)))"

definition query_ValidatorUnbondingDelegations ::
    "sdk_ops \<Rightarrow> 'd sdk_json \<Rightarrow> 'w poe_calls \<Rightarrow> 'w poe_state \<Rightarrow> string option \<Rightarrow> UnbondingDelegationEntry list res" where
  "query_ValidatorUnbondingDelegations K J X s req = with_request req (\<lambda>addr.
     bind_res (grpc_text InvalidArgument ''validator address'' (sAccAddressFromBech32 K addr)) (\<lambda>opAddr.
     grpc Internal (QueryStakingUnbonding K J (x_QuerySmart X s) (StakeContract s) opAddr)))"

definition query_HistoricalInfo :: "('hd, 'h) hist_ops \<Rightarrow> 'w poe_state \<Rightarrow> int option \<Rightarrow> 'h res" where
  "query_HistoricalInfo H s req = with_request req (\<lambda>height.
     bind_res (GetHistoricalInfo H height s) (\<lambda>hi.
     case hi of None \<Rightarrow> fail (GrpcErr NotFound ''historical info for height %d not found'') | Some h \<Rightarrow> Ok h))"

text \<open>The two rewards differ in the contract they ask; \<open>ask\<close> is that query.\<close>

definition query_reward ::
    "sdk_ops \<Rightarrow> ('d, 'c) query_ops \<Rightarrow> (addr \<Rightarrow> msg_coin res) \<Rightarrow> string option \<Rightarrow> 'c res" where
  "query_reward K O' ask req = with_request req (\<lambda>addr.
     refuse_empty addr ''address cannot be empty''
     (bind_res (grpc_text InvalidArgument ''address invalid'' (sAccAddressFromBech32 K addr)) (\<lambda>valAddr.
     case ask valAddr of
       Ok reward \<Rightarrow> q_NewDecCoin O' (mc_Denom reward) (mc_Amount reward)
     | Err e \<Rightarrow> if err_is PoeErrNotFound e then fail (GrpcErr NotFound ''address'')
                else fail (GrpcErr Internal ''err.Error()'')
     | Panic p \<Rightarrow> Panic p)))"

definition query_ValidatorOutstandingReward ::
    "sdk_ops \<Rightarrow> ('d, 'c) query_ops \<Rightarrow> 'd sdk_json \<Rightarrow> 'w poe_calls \<Rightarrow> 'w poe_state \<Rightarrow> string option \<Rightarrow> 'c res" where
  "query_ValidatorOutstandingReward K O' J X s =
     query_reward K O' (contract_ValidatorOutstandingReward K J (x_QuerySmart X s) (DistributionContract s))"

definition query_ValidatorEngagementReward ::
    "sdk_ops \<Rightarrow> ('d, 'c) query_ops \<Rightarrow> 'd sdk_json \<Rightarrow> 'w poe_calls \<Rightarrow> 'w poe_state \<Rightarrow> string option \<Rightarrow> 'c res" where
  "query_ValidatorEngagementReward K O' J X s =
     query_reward K O' (QueryWithdrawableRewards K J (x_QuerySmart X s) (EngagementContract s))"

section \<open>Queries of the staking module\<close>

record 'd DelegationResponse =
  dr_DelegatorAddress :: string
  dr_ValidatorAddress :: string
  dr_Shares :: 'd
  dr_Balance :: msg_coin

record UnbondingDelegation =
  ud_DelegatorAddress :: string
  ud_ValidatorAddress :: string
  ud_Entries :: "UnbondingDelegationEntry list"

definition legacy_Validators where
  "legacy_Validators V X s req = query_Validators V X s req"

definition legacy_Validator where
  "legacy_Validator K V X s req = query_Validator K V X s req"

definition legacy_ValidatorDelegations ::
    "sdk_ops \<Rightarrow> coin_ext \<Rightarrow> ('d, 'c) query_ops \<Rightarrow> 'w poe_calls \<Rightarrow> 'w poe_state \<Rightarrow> string option \<Rightarrow>
     'd DelegationResponse list res" where
  "legacy_ValidatorDelegations K C O' X s req = with_request req (\<lambda>addr.
     case query_ValidatorDelegation K C O' X s (Some addr) of
       Err e \<Rightarrow> if status_Code e = Some NotFound then Ok [] else Err e
     | Panic p \<Rightarrow> Panic p
     | Ok balance \<Rightarrow> Ok [\<lparr>dr_DelegatorAddress = addr, dr_ValidatorAddress = addr, dr_Shares = q_OneDec O', dr_Balance = balance\<rparr>])"

definition legacy_ValidatorUnbondingDelegations ::
    "sdk_ops \<Rightarrow> 'd sdk_json \<Rightarrow> 'w poe_calls \<Rightarrow> 'w poe_state \<Rightarrow> string option \<Rightarrow> UnbondingDelegation list res" where
  "legacy_ValidatorUnbondingDelegations K J X s req = with_request req (\<lambda>addr.
     bind_res (query_ValidatorUnbondingDelegations K J X s (Some addr)) (\<lambda>entries.
     Ok [\<lparr>ud_DelegatorAddress = addr, ud_ValidatorAddress = addr, ud_Entries = entries\<rparr>]))"

text \<open>A request for a pair of delegator and validator.\<close>

record pair_request =
  pq_DelegatorAddr :: string
  pq_ValidatorAddr :: string

definition legacy_Delegation ::
    "sdk_ops \<Rightarrow> coin_ext \<Rightarrow> ('d, 'c) query_ops \<Rightarrow> 'w poe_calls \<Rightarrow> 'w poe_state \<Rightarrow> pair_request option \<Rightarrow>
     'd DelegationResponse res" where
  "legacy_Delegation K C O' X s req = with_request req (\<lambda>r.
     refuse_empty (pq_DelegatorAddr r) ''delegator address cannot be empty''
     (refuse_empty (pq_ValidatorAddr r) ''validator address cannot be empty''
     (if pq_ValidatorAddr r \<noteq> pq_DelegatorAddr r then fail (GrpcErr NotFound ''delegation with delegator not found'')
      else bind_res (legacy_ValidatorDelegations K C O' X s (Some (pq_ValidatorAddr r))) (\<lambda>qr.
      case qr of [] \<Rightarrow> fail (GrpcErr NotFound ''delegation for delegator not found'') | d # _ \<Rightarrow> Ok d))))"

definition legacy_UnbondingDelegation ::
    "sdk_ops \<Rightarrow> 'd sdk_json \<Rightarrow> 'w poe_calls \<Rightarrow> 'w poe_state \<Rightarrow> pair_request option \<Rightarrow> UnbondingDelegation res" where
  "legacy_UnbondingDelegation K J X s req = with_request req (\<lambda>r.
     refuse_empty (pq_DelegatorAddr r) ''delegator address cannot be empty''
     (refuse_empty (pq_ValidatorAddr r) ''validator address cannot be empty''
     (if pq_ValidatorAddr r \<noteq> pq_DelegatorAddr r
      then fail (GrpcErr NotFound ''delegation with delegator %s not found for validator %s'')
      else bind_res (legacy_ValidatorUnbondingDelegations K J X s (Some (pq_ValidatorAddr r))) (\<lambda>qr.
      case qr of [] \<Rightarrow> fail (GrpcErr NotFound ''delegation for delegator not found'') | u # _ \<Rightarrow> Ok u))))"

definition legacy_DelegatorDelegations ::
    "sdk_ops \<Rightarrow> coin_ext \<Rightarrow> ('d, 'c) query_ops \<Rightarrow> 'w poe_calls \<Rightarrow> 'w poe_state \<Rightarrow> string option \<Rightarrow>
     'd DelegationResponse list res" where
  "legacy_DelegatorDelegations K C O' X s req = with_request req (\<lambda>addr.
     refuse_empty addr ''delegator address cannot be empty'' (legacy_ValidatorDelegations K C O' X s (Some addr)))"

definition legacy_DelegatorUnbondingDelegations ::
    "sdk_ops \<Rightarrow> 'd sdk_json \<Rightarrow> 'w poe_calls \<Rightarrow> 'w poe_state \<Rightarrow> string option \<Rightarrow> UnbondingDelegation list res" where
  "legacy_DelegatorUnbondingDelegations K J X s req = with_request req (\<lambda>addr.
     refuse_empty addr ''delegator address cannot be empty'' (legacy_ValidatorUnbondingDelegations K J X s (Some addr)))"

definition legacy_Redelegations :: "unit option \<Rightarrow> 'r list res" where
  "legacy_Redelegations req = with_request req (\<lambda>_. Ok [])"

text \<open>The validators of a delegator: the requests of both queries begin with the delegator.\<close>

definition legacy_DelegatorValidators ::
    "sdk_ops \<Rightarrow> ('a, 'd) val_env \<Rightarrow> 'w poe_calls \<Rightarrow> 'w poe_state \<Rightarrow> string option \<Rightarrow> ('a, 'd) sdk_Validator list res" where
  "legacy_DelegatorValidators K V X s req = with_request req (\<lambda>addr.
     bind_res (legacy_Validator K V X s (Some addr)) (\<lambda>v. Ok [v]))"

definition legacy_DelegatorValidator ::
    "sdk_ops \<Rightarrow> ('a, 'd) val_env \<Rightarrow> 'w poe_calls \<Rightarrow> 'w poe_state \<Rightarrow> pair_request option \<Rightarrow> ('a, 'd) sdk_Validator res" where
  "legacy_DelegatorValidator K V X s req = with_request req (\<lambda>r.
     legacy_Validator K V X s (Some (pq_DelegatorAddr r)))"

definition legacy_HistoricalInfo :: "('hd, 'h) hist_ops \<Rightarrow> 'w poe_state \<Rightarrow> int option \<Rightarrow> 'h res" where
  "legacy_HistoricalInfo H s req = with_request req (\<lambda>height.
     bind_res (GetHistoricalInfo H height s) (\<lambda>hi.
     case hi of None \<Rightarrow> fail (GrpcErr NotFound ''historical info for height %d not found'') | Some h \<Rightarrow> Ok h))"

definition legacy_Pool :: "unit option \<Rightarrow> 'r res" where
  "legacy_Pool req = with_request req (\<lambda>_. fail (GrpcErr Unimplemented ''not available, yet''))"

record staking_Params =
  sp_UnbondingTime :: duration
  sp_MaxValidators :: uint32
  sp_MaxEntries :: uint32
  sp_HistoricalEntries :: uint32
  sp_BondDenom :: string

definition legacy_Params ::
    "('d, 'c) query_ops \<Rightarrow> 'd sdk_json \<Rightarrow> 'w poe_calls \<Rightarrow> 'w poe_state \<Rightarrow> unit option \<Rightarrow> staking_Params res" where
  "legacy_Params O' J X s req = with_request req (\<lambda>_.
     bind_res (grpc Internal (QueryConfig (q_nilDec O') J (x_QuerySmart X s) (ValsetContract s))) (\<lambda>valsetConfig.
     bind_res (grpc Internal (QueryStakingUnbondingPeriod (x_QuerySmart X s) (StakeContract s))) (\<lambda>unbondingTime.
     bind_res (poe_HistoricalEntries s) (\<lambda>entries.
     Ok \<lparr>sp_UnbondingTime = unbondingTime, sp_MaxValidators = vc_MaxValidators valsetConfig, sp_MaxEntries = 0,
         sp_HistoricalEntries = entries, sp_BondDenom = GetBondDenom s\<rparr>))))"

section \<open>Queries of the distribution module\<close>

definition legacy_ValidatorOutstandingRewards ::
    "sdk_ops \<Rightarrow> ('d, 'c) query_ops \<Rightarrow> 'd sdk_json \<Rightarrow> 'w poe_calls \<Rightarrow> 'w poe_state \<Rightarrow> string option \<Rightarrow> 'c list res" where
  "legacy_ValidatorOutstandingRewards K O' J X s req = with_request req (\<lambda>addr.
     bind_res (query_ValidatorOutstandingReward K O' J X s (Some addr)) (\<lambda>reward. q_NewDecCoins O' reward))"

text \<open>The commission is always empty.\<close>

definition legacy_ValidatorCommission :: "sdk_ops \<Rightarrow> string option \<Rightarrow> unit res" where
  "legacy_ValidatorCommission K req = with_request req (\<lambda>addr.
     refuse_empty addr ''delegator address cannot be empty''
     (bind_res (grpc_text InvalidArgument ''operator address invalid'' (sAccAddressFromBech32 K addr)) (\<lambda>_. Ok ())))"

record 'd ValidatorSlashEvent =
  ve_ValidatorPeriod :: uint64
  ve_Fraction :: 'd

definition legacy_ValidatorSlashes ::
    "sdk_ops \<Rightarrow> ('d, 'c) query_ops \<Rightarrow> 'd sdk_json \<Rightarrow> 'w poe_calls \<Rightarrow> 'w poe_state \<Rightarrow> string option \<Rightarrow>
     'd ValidatorSlashEvent list res" where
  "legacy_ValidatorSlashes K O' J X s req = with_request req (\<lambda>addr.
     refuse_empty addr ''delegator address cannot be empty''
     (bind_res (grpc_text InvalidArgument ''operator address invalid'' (sAccAddressFromBech32 K addr)) (\<lambda>opAddr.
     bind_res (grpc Internal (ListValidatorSlashing K (q_nilDec O') J (x_QuerySmart X s) (ValsetContract s) opAddr)) (\<lambda>got.
     Ok (map (\<lambda>sl. \<lparr>ve_ValidatorPeriod = sl_Height sl, ve_Fraction = sl_Portion sl\<rparr>) got)))))"

definition legacy_DelegationRewards :: "sdk_ops \<Rightarrow> pair_request option \<Rightarrow> unit res" where
  "legacy_DelegationRewards K req = with_request req (\<lambda>r.
     refuse_empty (pq_DelegatorAddr r) ''delegator address cannot be empty''
     (bind_res (grpc_text InvalidArgument ''delegator address invalid'' (sAccAddressFromBech32 K (pq_ValidatorAddr r)))
       (\<lambda>_. Ok ())))"

definition legacy_DelegationTotalRewards :: "sdk_ops \<Rightarrow> string option \<Rightarrow> unit res" where
  "legacy_DelegationTotalRewards K req = with_request req (\<lambda>addr.
     refuse_empty addr ''delegator address cannot be empty''
     (bind_res (grpc_text InvalidArgument ''delegator address invalid'' (sAccAddressFromBech32 K addr)) (\<lambda>_. Ok ())))"

definition distribution_DelegatorValidators ::
    "sdk_ops \<Rightarrow> ('a, 'd) val_env \<Rightarrow> 'w poe_calls \<Rightarrow> 'w poe_state \<Rightarrow> string option \<Rightarrow> string list res" where
  "distribution_DelegatorValidators K V X s req = with_request req (\<lambda>addr.
     refuse_empty addr ''delegator address cannot be empty''
     (case query_Validator K V X s (Some addr) of
        Ok v \<Rightarrow> Ok [sv_OperatorAddress v]
      | Err e \<Rightarrow> if status_Code e = Some NotFound then Ok [] else Err e
      | Panic p \<Rightarrow> Panic p))"

definition legacy_DelegatorWithdrawAddress ::
    "sdk_ops \<Rightarrow> 'w poe_calls \<Rightarrow> 'w poe_state \<Rightarrow> string option \<Rightarrow> string res" where
  "legacy_DelegatorWithdrawAddress K X s req = with_request req (\<lambda>addr.
     refuse_empty addr ''delegator address cannot be empty''
     (bind_res (grpc_text InvalidArgument ''delegator address invalid'' (sAccAddressFromBech32 K addr)) (\<lambda>ownerAddr.
     grpc Internal (QueryDelegated K (x_QuerySmart X s) (EngagementContract s) ownerAddr))))"

definition legacy_CommunityPool :: "unit option \<Rightarrow> 'c list res" where
  "legacy_CommunityPool req = with_request req (\<lambda>_. Ok [])"

record 'd distribution_Params =
  dp_CommunityTax :: 'd
  dp_BaseProposerReward :: 'd
  dp_BonusProposerReward :: 'd
  dp_WithdrawAddrEnabled :: bool

definition legacy_distribution_Params :: "('d, 'c) query_ops \<Rightarrow> unit option \<Rightarrow> 'd distribution_Params res" where
  "legacy_distribution_Params O' req =
     Ok \<lparr>dp_CommunityTax = q_ZeroDec O', dp_BaseProposerReward = q_ZeroDec O', dp_BonusProposerReward = q_ZeroDec O',
         dp_WithdrawAddrEnabled = False\<rparr>"

section \<open>Queries of the slashing module\<close>

record ValidatorSigningInfo =
  vsi_Address :: string
  vsi_StartHeight :: int
  vsi_IndexOffset :: int
  vsi_Tombstoned :: bool
  vsi_MissedBlocksCounter :: int

definition legacy_SigningInfo :: "sdk_ops \<Rightarrow> string option \<Rightarrow> ValidatorSigningInfo res" where
  "legacy_SigningInfo K req = with_request req (\<lambda>addr.
     bind_res (grpc_text InvalidArgument ''validator address'' (sAccAddressFromBech32 K addr)) (\<lambda>valAddr.
     Ok \<lparr>vsi_Address = sAddrString K valAddr, vsi_StartHeight = 0, vsi_IndexOffset = 0, vsi_Tombstoned = False,
         vsi_MissedBlocksCounter = 0\<rparr>))"

definition legacy_SigningInfos :: "unit option \<Rightarrow> 'r res" where
  "legacy_SigningInfos req = fail (GrpcErr Unimplemented ''not available, yet'')"

record 'd slashing_Params =
  sp_SignedBlocksWindow :: int
  sp_MinSignedPerWindow :: 'd
  sp_DowntimeJailDuration :: duration
  sp_SlashFractionDoubleSign :: 'd
  sp_SlashFractionDowntime :: 'd

definition legacy_slashing_Params :: "('d, 'c) query_ops \<Rightarrow> unit option \<Rightarrow> 'd slashing_Params res" where
  "legacy_slashing_Params O' req =
     Ok \<lparr>sp_SignedBlocksWindow = 0, sp_MinSignedPerWindow = q_ZeroDec O', sp_DowntimeJailDuration = 0,
         sp_SlashFractionDoubleSign = q_ZeroDec O', sp_SlashFractionDowntime = q_ZeroDec O'\<rparr>"

end
