(* ===== verification/PoEWasm.thy ===== *)
theory PoEWasm
  imports PoEQueries
begin

text \<open>
  \<open>x/poe/wasm/query_plugin.go\<close>: the staking and custom queries that contracts send.
\<close>

section \<open>Staking queries of contracts\<close>

text \<open>
  The request and the responses are structs of wasmvm; a response is marshalled as it is. The field
  of a request that is set first, in this order, is answered.
\<close>

record StakingQuery =
  wq_BondedDenom :: "unit option"
  wq_AllValidators :: "unit option"
  wq_Validator :: "string option"
  wq_AllDelegations :: "string option"
  wq_Delegation :: "(string \<times> string) option"

record wasm_Validator =
  wv_Address :: string
  wv_Commission :: string
  wv_MaxCommission :: string
  wv_MaxChangeRate :: string

record wasm_Delegation =
  wd_Delegator :: string
  wd_Validator :: string
  wd_Amount :: wasm_coin

record FullDelegation =
  fd_Delegator :: string
  fd_Validator :: string
  fd_Amount :: wasm_coin
  fd_CanRedelegate :: wasm_coin
  fd_AccumulatedRewards :: "wasm_coin list"

datatype staking_response =
    BondedDenomResponse string
  | AllValidatorsResponse "wasm_Validator list"
  | ValidatorResponse "wasm_Validator option"
  | AllDelegationsResponse "wasm_Delegation list"
  | DelegationResponse "FullDelegation option"

text \<open>\<open>zero\<close> is the text of the decimal zero.\<close>

definition wasm_validator :: "string \<Rightarrow> ('a, 'd) sdk_Validator \<Rightarrow> wasm_Validator" where
  "wasm_validator zero v =
     \<lparr>wv_Address = sv_OperatorAddress v, wv_Commission = zero, wv_MaxCommission = zero, wv_MaxChangeRate = zero\<rparr>"

text \<open>
  The loop over the pages of all validators; \<open>fuel\<close> bounds the number of pages, \<open>None\<close> is a loop that
  has not ended by then.
\<close>

fun all_validators ::
    "nat \<Rightarrow> ('a, 'd) val_env \<Rightarrow> querier \<Rightarrow> BaseContractAdapter \<Rightarrow> string \<Rightarrow> Paginator \<Rightarrow> wasm_Validator list \<Rightarrow>
     wasm_Validator list res option" where
  "all_validators 0 V Q v zero pagination wasmVals = None"
| "all_validators (Suc fuel) V Q v zero pagination wasmVals =
     (case ListValidators V Q v (Some pagination) of
        Err e \<Rightarrow> Some (Err e)
      | Panic p \<Rightarrow> Some (Panic p)
      | Ok (batch, cursor) \<Rightarrow>
          let wasmVals' = wasmVals @ map (wasm_validator zero) batch in
          if cursor_bytes cursor = [] then Some (Ok wasmVals')
          else all_validators fuel V Q v zero (pagination\<lparr>pg_StartAfter := cursor\<rparr>) wasmVals')"

definition invalid_address :: "sdk_ops \<Rightarrow> string \<Rightarrow> addr res" where
  "invalid_address K a =
     (case sAccAddressFromBech32 K a of Ok x \<Rightarrow> Ok x | Err e \<Rightarrow> failw SdkErrInvalidAddress a | Panic p \<Rightarrow> Panic p)"

definition query_delegation ::
    "sdk_ops \<Rightarrow> coin_ext \<Rightarrow> wasmd_ops \<Rightarrow> ('d, 'c) query_ops \<Rightarrow> 'd sdk_json \<Rightarrow> 'w poe_calls \<Rightarrow> 'w poe_state \<Rightarrow>
     addr \<Rightarrow> FullDelegation option res" where
  "query_delegation K C N O' J X s delegator =
     bind_res (wrap_res ''query staked amount'' (QueryStakedAmount K C (x_QuerySmart X s) (StakeContract s) delegator)) (\<lambda>staked.
     bind_res (wrap_res ''query outstanding reward''
       (contract_ValidatorOutstandingReward K J (x_QuerySmart X s) (DistributionContract s) delegator)) (\<lambda>reward.
     let stakedAmount = (case staked of None \<Rightarrow> Some 0 | Some n \<Rightarrow> Some n) in
     bind_res (bind_res (q_Int_GT O' stakedAmount (Some 0)) (\<lambda>b.
       if b then Ok True else q_Int_GT O' (mc_Amount reward) (Some 0))) (\<lambda>some.
     if \<not> some then Ok None
     else bind_res (Int_Uint64 K stakedAmount) (\<lambda>n.
       bind_res (Int_Uint64 K (mc_Amount reward)) (\<lambda>m.
       Ok (Some \<lparr>fd_Delegator = sAddrString K delegator, fd_Validator = sAddrString K delegator,
         fd_Amount = wasmvm_NewCoin N n (GetBondDenom s), fd_CanRedelegate = wasmvm_NewCoin N 0 (GetBondDenom s),
         fd_AccumulatedRewards = [wasmvm_NewCoin N m (mc_Denom reward)]\<rparr>))))))"

definition query_all_delegations ::
    "sdk_ops \<Rightarrow> coin_ext \<Rightarrow> wasmd_ops \<Rightarrow> 'w poe_calls \<Rightarrow> 'w poe_state \<Rightarrow> addr \<Rightarrow> wasm_Delegation list res" where
  "query_all_delegations K C N X s delegator =
     bind_res (QueryStakedAmount K C (x_QuerySmart X s) (StakeContract s) delegator) (\<lambda>staked.
     case staked of
       None \<Rightarrow> Ok []
     | Some amount \<Rightarrow> bind_res (Int_Uint64 K (Some amount)) (\<lambda>n.
         Ok [\<lparr>wd_Delegator = sAddrString K delegator, wd_Validator = sAddrString K delegator,
              wd_Amount = wasmvm_NewCoin N n (GetBondDenom s)\<rparr>]))"

definition StakingQuerier ::
    "nat \<Rightarrow> sdk_ops \<Rightarrow> coin_ext \<Rightarrow> wasmd_ops \<Rightarrow> ('d, 'c) query_ops \<Rightarrow> 'd sdk_json \<Rightarrow> ('a, 'd) val_env \<Rightarrow> string \<Rightarrow>
     'w poe_calls \<Rightarrow> 'w poe_state \<Rightarrow> StakingQuery \<Rightarrow> staking_response res option" where
  "StakingQuerier fuel K C N O' J V zero X s request =
     (if wq_BondedDenom request \<noteq> None then Some (Ok (BondedDenomResponse (GetBondDenom s)))
      else if wq_AllValidators request \<noteq> None then
        map_option (\<lambda>r. bind_res r (\<lambda>vs. Ok (AllValidatorsResponse vs)))
          (all_validators fuel V (x_QuerySmart X s) (ValsetContract s) zero \<lparr>pg_StartAfter = None, pg_Limit = 0\<rparr> [])
      else Some (case wq_Validator request of
        Some a \<Rightarrow>
          bind_res (sAccAddressFromBech32 K a) (\<lambda>valAddr.
          bind_res (QueryValidator K V (x_QuerySmart X s) (ValsetContract s) valAddr) (\<lambda>v.
          Ok (ValidatorResponse (map_option (wasm_validator zero) v))))
      | None \<Rightarrow>
      (case wq_AllDelegations request of
        Some a \<Rightarrow>
          bind_res (invalid_address K a) (\<lambda>delegator.
          bind_res (query_all_delegations K C N X s delegator) (\<lambda>ds. Ok (AllDelegationsResponse ds)))
      | None \<Rightarrow>
      (case wq_Delegation request of
        Some (d, v) \<Rightarrow>
          bind_res (invalid_address K d) (\<lambda>delegator.
          bind_res (invalid_address K v) (\<lambda>validator.
          if \<not> q_Addr_Equals O' delegator validator then Ok (DelegationResponse None)
          else bind_res (query_delegation K C N O' J X s delegator) (\<lambda>fd. Ok (DelegationResponse fd))))
      | None \<Rightarrow> fail (ExternalErr ''unknown Staking variant'')))))"

section \<open>Custom queries of contracts\<close>

record PetriQuery =
  tq_PoEContractAddress :: "string option"
  tq_ValidatorVotes :: "unit option"

definition dec_PetriQuery :: "PetriQuery decoder" where
  "dec_PetriQuery = dec_struct
     [(''poe_contract_address'', at_field tq_PoEContractAddress tq_PoEContractAddress_update
         (dec_ptr [] (dec_struct [(''contract_type'', dec_string)]))),
      (''validator_votes'', at_field tq_ValidatorVotes tq_ValidatorVotes_update (dec_ptr () (dec_struct [])))]"

definition enc_ValidatorVote :: "sdk_ops \<Rightarrow> abci_VoteInfo \<Rightarrow> json" where
  "enc_ValidatorVote K v =
     JObj [(''address'', JStr (sAddrString K (vt_Address v))), (''power'', enc_uint64 (uint64_of_int64 (vt_Power v))),
       (''voted'', JBool (vt_SignedLastBlock v))]"

definition handleValidatorVotesQuery :: "sdk_ops \<Rightarrow> 'w poe_state \<Rightarrow> json res" where
  "handleValidatorVotesQuery K s = Ok (JObj [(''votes'', JArr (map (enc_ValidatorVote K) (GetValidatorVotes s)))])"

definition handlePoEContractAddressQuery :: "sdk_ops \<Rightarrow> 'w poe_state \<Rightarrow> string \<Rightarrow> json res" where
  "handlePoEContractAddressQuery K s contractType =
     bind_res (wrap_res ''poe contract address query'' (GetPoEContractAddress (PoEContractTypeFrom contractType) s)) (\<lambda>addr.
     Ok (JObj [(''address'', JStr (sAddrString K addr))]))"

definition CustomQuerier :: "sdk_ops \<Rightarrow> 'w poe_state \<Rightarrow> raw_json \<Rightarrow> json res" where
  "CustomQuerier K s request =
     bind_res (wrap_res ''furya query'' (json_Unmarshal dec_PetriQuery request
       \<lparr>tq_PoEContractAddress = None, tq_ValidatorVotes = None\<rparr>)) (\<lambda>q.
     case tq_PoEContractAddress q of
       Some t \<Rightarrow> handlePoEContractAddressQuery K s t
     | None \<Rightarrow>
         if tq_ValidatorVotes q \<noteq> None then handleValidatorVotesQuery K s
         else fail (ExternalErr ''unknown poe query variant''))"

end
