(* ===== verification/PoEPaging.thy ===== *)
theory PoEPaging
  imports PoEAdapters
begin

text \<open>
  The loop of \<open>IterateActiveValidators\<close> (\<open>x/poe/contract/petri_valset.go\<close>) against a contract that
  serves pages: it ends, and what its callback sees.
\<close>

section \<open>A contract that serves pages\<close>

text \<open>
  The validator set contract as its clients see it: it lists the active validators in a fixed order,
  in pages that start behind the operator of the request and are empty at the end only. The size of a
  page depends on the requested limit.
\<close>

definition enc_ValidatorInfo :: "ValidatorInfo \<Rightarrow> json" where
  "enc_ValidatorInfo v =
     JObj [(''operator'', JStr (vi_Operator v)), (''validator_pubkey'', enc_ValidatorPubkey (vi_ValidatorPubkey v)),
       (''power'', enc_uint64 (vi_Power v))]"

text \<open>The elements of a list behind the one that the cursor names; \<open>op\<close> gives the name of an element.\<close>

definition after :: "('v \<Rightarrow> string) \<Rightarrow> string \<Rightarrow> 'v list \<Rightarrow> 'v list" where
  "after op c vals = (if c = [] then vals else tl (dropWhile (\<lambda>v. op v \<noteq> c) vals))"

definition serves :: "('s \<Rightarrow> querier) \<Rightarrow> addr \<Rightarrow> (int \<Rightarrow> nat) \<Rightarrow> ValidatorInfo list \<Rightarrow> bool" where
  "serves Q a psize vals \<longleftrightarrow>
     (\<forall>s c l. 0 < psize l \<and> Q s a (enc_ValsetQuery (QListActiveValidators c l)) =
        Ok (RawJson (JObj [(''validators'', JArr (map enc_ValidatorInfo (take (psize l) (after vi_Operator c vals))))])))"

text \<open>Validators with Ed25519 keys only, and distinct operators.\<close>

definition ed_only :: "ValidatorInfo \<Rightarrow> bool" where
  "ed_only v \<longleftrightarrow> vp_Secp256k1 (vi_ValidatorPubkey v) = None \<and> vp_Sr25519 (vi_ValidatorPubkey v) = None"

definition active_ok :: "ValidatorInfo list \<Rightarrow> bool" where
  "active_ok vals \<longleftrightarrow> distinct (map vi_Operator vals) \<and>
     list_all (\<lambda>v. vi_Operator v \<noteq> [] \<and> ed_only v \<and> (\<exists>k. vp_Ed25519 (vi_ValidatorPubkey v) = Some k \<and> k \<noteq> [])) vals"

section \<open>Decoding a page\<close>

lemma dec_info:
  assumes "ed_only old" "ed_only v" "vp_Ed25519 (vi_ValidatorPubkey v) = Some k" "k \<noteq> []"
  shows "dec_ValidatorInfo (enc_ValidatorInfo v) old = Ok v"
proof -
  have key: "enc_ValidatorPubkey (vi_ValidatorPubkey v) = JObj [(''ed25519'', JStr (base64_encode k))]"
    using assms by (simp add: enc_ValidatorPubkey_def omit_bytes_def ed_only_def)
  have "dec_ValidatorPubkey (JObj [(''ed25519'', JStr (base64_encode k))]) (vi_ValidatorPubkey old) = Ok (vi_ValidatorPubkey v)"
    using assms by (simp add: dec_ValidatorPubkey_def dec_struct_def find_field_def at_field_def dec_bytes_nil_def dec_bytes_def
        base64_roundtrip ed_only_def)
  moreover have "dec_uint64 (enc_uint64 (vi_Power v)) w = Ok (vi_Power v)" for w
    using uint_bounded [of "vi_Power v"] by (simp add: dec_uint64_def enc_uint64_def)
  ultimately show ?thesis
    by (simp add: dec_ValidatorInfo_def enc_ValidatorInfo_def dec_struct_def find_field_def at_field_def key dec_string_def)
qed

lemma dec_infos:
  assumes "list_all ed_only old" "list_all (\<lambda>v. ed_only v \<and> (\<exists>k. vp_Ed25519 (vi_ValidatorPubkey v) = Some k \<and> k \<noteq> [])) vs"
  shows "dec_elems noInfo dec_ValidatorInfo (map enc_ValidatorInfo vs) old = Ok vs"
  using assms
proof (induction vs arbitrary: old)
  case (Cons v vs)
  have "ed_only (case old of [] \<Rightarrow> noInfo | x # _ \<Rightarrow> x)"
    using Cons.prems(1) by (cases old) (simp_all add: ed_only_def noInfo_def noPubkey_def)
  moreover obtain k where "ed_only v" "vp_Ed25519 (vi_ValidatorPubkey v) = Some k" "k \<noteq> []" using Cons.prems(2) by auto
  ultimately have "dec_ValidatorInfo (enc_ValidatorInfo v) (case old of [] \<Rightarrow> noInfo | x # _ \<Rightarrow> x) = Ok v"
    by (rule dec_info)
  moreover have "list_all ed_only (tl old)" using Cons.prems(1) by (cases old) simp_all
  ultimately show ?case using Cons by simp
qed simp

lemma dec_page:
  assumes "list_all ed_only (backing rsp)" "list_all (\<lambda>v. ed_only v \<and> (\<exists>k. vp_Ed25519 (vi_ValidatorPubkey v) = Some k \<and> k \<noteq> [])) vs"
  shows "\<exists>rsp'. dec_ListActiveValidatorsResponse (JObj [(''validators'', JArr (map enc_ValidatorInfo vs))]) rsp = Ok rsp' \<and>
    slice_list rsp' = vs \<and> list_all ed_only (backing rsp')"
proof (cases vs)
  case Nil
  then show ?thesis
    by (simp add: dec_ListActiveValidatorsResponse_def dec_struct_def find_field_def dec_slice_def slice_list_def)
next
  case (Cons v vs')
  have d: "dec_elems noInfo dec_ValidatorInfo (map enc_ValidatorInfo vs) (backing rsp) = Ok vs" by (rule dec_infos [OF assms])
  have "list_all ed_only (drop n (backing rsp))" for n
    using assms(1) by (auto simp: list_all_iff dest: in_set_dropD)
  moreover have "list_all ed_only vs" using assms(2) by (auto simp: list_all_iff)
  ultimately show ?thesis
    using d Cons by (simp add: dec_ListActiveValidatorsResponse_def dec_struct_def find_field_def dec_slice_def slice_list_def)
qed

section \<open>The cursor moves on\<close>

lemma after_last:
  assumes "distinct (map op (pre @ page @ rest))" "page \<noteq> []" "op (last page) \<noteq> []"
  shows "after op (op (last page)) (pre @ page @ rest) = rest"
proof -
  obtain xs x where page: "page = xs @ [x]" using assms(2) by (cases page rule: rev_cases) auto
  have "dropWhile (\<lambda>v. op v \<noteq> op x) ((pre @ xs) @ x # rest) = x # rest"
    using assms(1) page by (subst dropWhile_append2) (auto intro: rev_image_eqI)
  then show ?thesis using assms(3) page by (simp add: after_def)
qed

lemma call_infos_append:
  "call_infos cb (xs @ ys) s =
    (case call_infos cb xs s of (Ok stop, s') \<Rightarrow> if stop then (Ok True, s') else call_infos cb ys s' | r \<Rightarrow> r)"
  by (induction xs arbitrary: s) (auto simp: bindS_def ret_def split: prod.splits res.splits)

lemma after_suffix: "\<exists>pre. vals = pre @ after op c vals"
proof (cases "c = [] \<or> dropWhile (\<lambda>v. op v \<noteq> c) vals = []")
  case True
  then have "after op c vals = [] \<or> after op c vals = vals" by (metis after_def list.sel(2))
  then show ?thesis by auto
next
  case False
  then obtain x xs where "dropWhile (\<lambda>v. op v \<noteq> c) vals = x # xs" by (meson list.exhaust)
  moreover have "vals = takeWhile (\<lambda>v. op v \<noteq> c) vals @ dropWhile (\<lambda>v. op v \<noteq> c) vals" by simp
  ultimately have "vals = (takeWhile (\<lambda>v. op v \<noteq> c) vals @ [x]) @ after op c vals" using False by (simp add: after_def)
  then show ?thesis by blast
qed

text \<open>The callback is called with every validator in turn until it asks to stop or fails.\<close>

definition visit_infos :: "(ValidatorInfo \<Rightarrow> ('s, bool) act) \<Rightarrow> ValidatorInfo list \<Rightarrow> ('s, unit) act" where
  "visit_infos cb vs = bindS (call_infos cb vs) (\<lambda>_. ret ())"

lemma page_query:
  assumes serves: "serves Q (ba_contractAddr v) psize vals" and ok: "active_ok vals" and err: "ba_addressLookupErr v = None"
    and clean: "list_all ed_only (backing rsp)"
  obtains rsp' where "doPageableQuery (Q s) v (enc_ValsetQuery (QListActiveValidators c l)) dec_ListActiveValidatorsResponse
      ListActiveValidators_PaginationCursor rsp = Ok (rsp', ListActiveValidators_PaginationCursor rsp')"
    and "slice_list rsp' = take (psize l) (after vi_Operator c vals)" "list_all ed_only (backing rsp')"
proof -
  have "set (take (psize l) (after vi_Operator c vals)) \<subseteq> set vals"
    using after_suffix [of vals vi_Operator c] by (metis Un_iff in_set_takeD set_append subsetI)
  then have "list_all (\<lambda>v. ed_only v \<and> (\<exists>k. vp_Ed25519 (vi_ValidatorPubkey v) = Some k \<and> k \<noteq> [])) (take (psize l) (after vi_Operator c vals))"
    using ok by (auto simp: active_ok_def list_all_iff)
  from dec_page [OF clean this] obtain rsp' where
    "dec_ListActiveValidatorsResponse (JObj [(''validators'', JArr (map enc_ValidatorInfo (take (psize l) (after vi_Operator c vals))))]) rsp = Ok rsp'"
    "slice_list rsp' = take (psize l) (after vi_Operator c vals)" "list_all ed_only (backing rsp')" by blast
  moreover have "Q s (ba_contractAddr v) (enc_ValsetQuery (QListActiveValidators c l)) =
        Ok (RawJson (JObj [(''validators'', JArr (map enc_ValidatorInfo (take (psize l) (after vi_Operator c vals))))]))"
    using serves by (simp add: serves_def)
  ultimately show thesis
    using that err by (simp add: doPageableQuery_def json_Unmarshal_def)
qed

lemma iterate_pages_visits:
  assumes serves: "serves Q (ba_contractAddr v) psize vals" and ok: "active_ok vals" and err: "ba_addressLookupErr v = None"
    and "list_all ed_only (backing rsp)" "vals = pre @ rest" "slice_list rsp = take n rest" "0 < n" "length rest < fuel"
  shows "iterate_pages fuel Q v cb rsp (ListActiveValidators_PaginationCursor rsp) s = Some (visit_infos cb rest s)"
  using assms(4-)
proof (induction fuel arbitrary: rsp pre rest n s)
  case (Suc fuel)
  show ?case
  proof (cases "rest = []")
    case True
    with Suc.prems show ?thesis
      by (simp add: ListActiveValidators_PaginationCursor_def PaginationCursor_Empty_def cursor_bytes_def visit_infos_def ret_def)
  next
    case False
    let ?page = "take n rest" and ?rest = "drop n rest"
    have page: "?page \<noteq> []" using False Suc.prems(4) by simp
    have vals: "vals = pre @ ?page @ ?rest" using Suc.prems(2) by simp
    have "last ?page \<in> set vals" using page last_in_set [OF page] vals by (metis Un_iff set_append)
    then have op: "vi_Operator (last ?page) \<noteq> []" using ok by (auto simp: active_ok_def list_all_iff)
    have after: "after vi_Operator (vi_Operator (last ?page)) vals = ?rest"
      using after_last [where op = vi_Operator, OF _ page op, of pre ?rest] ok vals by (metis active_ok_def)
    have cur: "ListActiveValidators_PaginationCursor rsp = Some (string_bytes (vi_Operator (last ?page)))"
      using page by (simp add: ListActiveValidators_PaginationCursor_def Suc.prems(3))
    have ne: "\<not> PaginationCursor_Empty (Some (string_bytes (vi_Operator (last ?page))))"
      using op by (simp add: PaginationCursor_Empty_def cursor_bytes_def string_bytes_def)
    then have str: "PaginationCursor_String (Some (string_bytes (vi_Operator (last ?page)))) = vi_Operator (last ?page)"
      by (simp add: PaginationCursor_String_def cursor_bytes_def)
    obtain r s' where c: "call_infos cb ?page s = (r, s')" by fastforce
    have split: "call_infos cb rest s =
        (case (r, s') of (Ok stop, s') \<Rightarrow> if stop then (Ok True, s') else call_infos cb ?rest s' | r \<Rightarrow> r)"
      using call_infos_append [of cb ?page ?rest s] c by simp
    show ?thesis
    proof (cases "r = Ok False")
      case True
      obtain rsp' where q: "doPageableQuery (Q s') v (enc_ValsetQuery (QListActiveValidators (vi_Operator (last ?page)) 0))
          dec_ListActiveValidatorsResponse ListActiveValidators_PaginationCursor rsp =
            Ok (rsp', ListActiveValidators_PaginationCursor rsp')"
        "slice_list rsp' = take (psize 0) ?rest" "list_all ed_only (backing rsp')"
        using page_query [OF serves ok err Suc.prems(1), of s' "vi_Operator (last ?page)" 0] after by metis
      have "iterate_pages fuel Q v cb rsp' (ListActiveValidators_PaginationCursor rsp') s' = Some (visit_infos cb ?rest s')"
      proof (intro Suc.IH [OF q(3) _ q(2)])
        show "vals = (pre @ ?page) @ ?rest" using vals by simp
        show "0 < psize 0" using serves by (simp add: serves_def)
        have "0 < length rest" using \<open>rest \<noteq> []\<close> by simp
        then show "length ?rest < fuel" using Suc.prems(4,5) unfolding length_drop by linarith
      qed
      moreover have "visit_infos cb rest s = visit_infos cb ?rest s'" using split True by (simp add: visit_infos_def bindS_def)
      ultimately show ?thesis using c True q(1) by (simp add: cur ne str Suc.prems(3))
    next
      case False
      then show ?thesis
        using c split by (cases r) (auto simp: cur ne Suc.prems(3) visit_infos_def bindS_def ret_def)
    qed
  qed
qed simp

lemma active_visited:
  assumes "serves Q (ba_contractAddr v) psize vals" and "active_ok vals" and "ba_addressLookupErr v = None"
    and fuel: "length vals < fuel"
  shows "IterateActiveValidators fuel Q v cb pagination s = Some (visit_infos cb (after vi_Operator (fst (ToQuery pagination)) vals) s)"
proof -
  obtain c l where p: "ToQuery pagination = (c, l)" by fastforce
  obtain rsp where q: "doPageableQuery (Q s) v (enc_ValsetQuery (QListActiveValidators c l)) dec_ListActiveValidatorsResponse
      ListActiveValidators_PaginationCursor (Slice [] 0) = Ok (rsp, ListActiveValidators_PaginationCursor rsp)"
    "slice_list rsp = take (psize l) (after vi_Operator c vals)" "list_all ed_only (backing rsp)"
    using page_query [OF assms(1-3), of "Slice [] 0" s c l] by auto
  obtain pre where pre: "vals = pre @ after vi_Operator c vals" using after_suffix by blast
  then have "length (after vi_Operator c vals) < fuel" using fuel by (metis add_lessD1 add.commute length_append)
  moreover have "0 < psize l" using assms(1) by (simp add: serves_def)
  ultimately have "iterate_pages fuel Q v cb rsp (ListActiveValidators_PaginationCursor rsp) s = Some (visit_infos cb (after vi_Operator c vals) s)"
    using iterate_pages_visits [OF assms(1-3) q(3) pre q(2)] by blast
  with q(1) show ?thesis by (simp add: IterateActiveValidators_def p)
qed

section \<open>Properties\<close>

text \<open>
  C31: Against a contract that serves its active validators in pages, all with Ed25519 keys, the loop
  over the pages ends: with more rounds than there are validators left it returns, and the callback
  was called with exactly the validators behind the start of the pagination, in order, until it
  asked to stop or failed.
\<close>

theorem active_validators_visited:
  assumes "serves Q (ba_contractAddr v) psize vals" and "active_ok vals" and "ba_addressLookupErr v = None"
    and fuel: "length vals < fuel"
  shows "IterateActiveValidators fuel Q v cb pagination s = Some (visit_infos cb (after vi_Operator (fst (ToQuery pagination)) vals) s)"
  by (rule active_visited [OF assms])

text \<open>Two validators, one per page; the callback collects what it sees.\<close>

definition two_validators :: "ValidatorInfo list" where
  "two_validators =
     [\<lparr>vi_Operator = ''a'', vi_ValidatorPubkey = noPubkey\<lparr>vp_Ed25519 := Some [1]\<rparr>, vi_Power = 3\<rparr>,
      \<lparr>vi_Operator = ''b'', vi_ValidatorPubkey = noPubkey\<lparr>vp_Ed25519 := Some [2]\<rparr>, vi_Power = 4\<rparr>]"

definition read_start :: "json \<Rightarrow> string" where
  "read_start j =
     (case j of JObj [(_, JObj ((k, JStr c) # _))] \<Rightarrow> if k = ''start_after'' then c else [] | _ \<Rightarrow> [])"

definition page_server :: "ValidatorInfo list \<Rightarrow> 's \<Rightarrow> querier" where
  "page_server vals s a j =
     Ok (RawJson (JObj [(''validators'', JArr (map enc_ValidatorInfo (take 1 (after vi_Operator (read_start j) vals))))]))"

lemma page_server_serves: "serves (page_server vals) a (\<lambda>_. 1) vals"
  by (auto simp: serves_def page_server_def read_start_def enc_ListValidatorsQuery_def omit_str_def omit_int_def)

definition collect_info :: "ValidatorInfo \<Rightarrow> (ValidatorInfo list, bool) act" where
  "collect_info v s = (Ok False, s @ [v])"

theorem active_validators_visited_witness:
  "IterateActiveValidators 3 (page_server two_validators) (NewBaseContractAdapter [7] None) collect_info None [] =
    Some (Ok (), two_validators)"
proof -
  have "active_ok two_validators"
    by (simp add: active_ok_def two_validators_def ed_only_def noPubkey_def)
  then have "IterateActiveValidators 3 (page_server two_validators) (NewBaseContractAdapter [7] None) collect_info None [] =
      Some (visit_infos collect_info (after vi_Operator (fst (ToQuery None)) two_validators) [])"
    using active_validators_visited [OF page_server_serves, of two_validators "NewBaseContractAdapter [7] None" 3]
    by (simp add: NewBaseContractAdapter_def two_validators_def)
  then show ?thesis
    by (simp add: ToQuery_def after_def two_validators_def visit_infos_def collect_info_def bindS_def ret_def)
qed

text \<open>
  Pages are decoded into the elements of the page before. A validator with another type of key on the
  second page is seen with the Ed25519 key of the validator that stood there on the first page as well.
\<close>

definition mixed_validators :: "ValidatorInfo list" where
  "mixed_validators =
     [\<lparr>vi_Operator = ''a'', vi_ValidatorPubkey = noPubkey\<lparr>vp_Ed25519 := Some [1]\<rparr>, vi_Power = 3\<rparr>,
      \<lparr>vi_Operator = ''b'', vi_ValidatorPubkey = noPubkey\<lparr>vp_Secp256k1 := Some [2]\<rparr>, vi_Power = 4\<rparr>]"

text \<open>
  Two active validators on two pages, the second with a Secp256k1 key: the callback sees the
  second one with the first one's Ed25519 key in addition, and the conversion to a consensus key
  takes that one.
\<close>

lemma stale_key_on_second_page:
  "\<exists>v. IterateActiveValidators 3 (page_server mixed_validators) (NewBaseContractAdapter [7] None) collect_info None [] =
      Some (Ok (), [mixed_validators ! 0, v]) \<and> vi_Operator v = ''b'' \<and>
    ConvertToTendermintPubKey (vi_ValidatorPubkey v) = Ok (TmEd25519 [1]) \<and>
    ConvertToTendermintPubKey (vi_ValidatorPubkey (mixed_validators ! 1)) = Ok (TmSecp256K1 [2])"
proof -
  let ?v = "\<lparr>vi_Operator = ''b'', vi_ValidatorPubkey = noPubkey\<lparr>vp_Ed25519 := Some [1], vp_Secp256k1 := Some [2]\<rparr>, vi_Power = 4\<rparr>"
  have "IterateActiveValidators 3 (page_server mixed_validators) (NewBaseContractAdapter [7] None) collect_info None [] =
      Some (Ok (), [mixed_validators ! 0, ?v])" by code_simp
  then show ?thesis
    by (intro exI [of _ ?v]) (simp add: ConvertToTendermintPubKey_def mixed_validators_def noPubkey_def)
qed

end
