(* ===== verification/PoEQueryProperties.thy ===== *)
theory PoEQueryProperties
  imports PoEWasm PoEPaging
begin

text \<open>
  What the queries answer: self delegations only, and all validators exactly once.
\<close>

section \<open>Self delegations\<close>

text \<open>
  In PoE an operator delegates to itself only. A pair has a delegation exactly when both are the same
  known operator; its balance is the sum of the liquid and the vesting amount.
\<close>

lemma grpc_Ok_iff [simp]: "grpc c r = Ok x \<longleftrightarrow> r = Ok x"
  by (cases r) (simp_all add: fail_def)

lemma grpc_text_Ok_iff [simp]: "grpc_text c m r = Ok x \<longleftrightarrow> r = Ok x"
  by (cases r) (simp_all add: fail_def)

lemma status_grpc [simp]: "status_Code (Sentinel (GrpcErr c m)) = Some c"
  by (simp add: status_Code_def)

lemma delegation_of_staked:
  assumes "sAccAddressFromBech32 K addr = Ok op"
    and "QueryStakedAmount K C (x_QuerySmart X s) (StakeContract s) op = Ok amount"
  shows "legacy_ValidatorDelegations K C O' X s (Some addr) =
    (case amount of None \<Rightarrow> Ok [] | Some n \<Rightarrow>
       (case q_NewCoin O' (GetBondDenom s) n of
          Ok c \<Rightarrow> Ok [\<lparr>dr_DelegatorAddress = addr, dr_ValidatorAddress = addr, dr_Shares = q_OneDec O', dr_Balance = c\<rparr>]
        | Err e \<Rightarrow> if status_Code e = Some NotFound then Ok [] else Err e
        | Panic p \<Rightarrow> Panic p))"
  using assms
  by (simp add: legacy_ValidatorDelegations_def with_request_def query_ValidatorDelegation_def fail_def
      split: option.split res.split)

lemma ValidatorDelegations_nonempty:
  "(\<exists>ds. legacy_ValidatorDelegations K C O' X s (Some addr) = Ok (d # ds)) \<longleftrightarrow>
    (\<exists>op n c. sAccAddressFromBech32 K addr = Ok op \<and>
       QueryStakedAmount K C (x_QuerySmart X s) (StakeContract s) op = Ok (Some n) \<and> q_NewCoin O' (GetBondDenom s) n = Ok c \<and>
       d = \<lparr>dr_DelegatorAddress = addr, dr_ValidatorAddress = addr, dr_Shares = q_OneDec O', dr_Balance = c\<rparr>)"
  by (cases "query_ValidatorDelegation K C O' X s (Some addr)")
    (auto simp: legacy_ValidatorDelegations_def with_request_def query_ValidatorDelegation_def bind_res_Ok_iff
      split: option.splits if_splits)

lemma first_Ok_iff:
  "bind_res m (\<lambda>qr. case qr of [] \<Rightarrow> fail k | d # _ \<Rightarrow> Ok d) = Ok d \<longleftrightarrow> (\<exists>ds. m = Ok (d # ds))"
proof (cases m)
  case (Ok qr)
  then show ?thesis by (cases qr) auto
qed simp_all

lemma Delegation_iff:
  "legacy_Delegation K C O' X s (Some r) = Ok d \<longleftrightarrow>
    pq_ValidatorAddr r \<noteq> [] \<and> pq_DelegatorAddr r = pq_ValidatorAddr r \<and>
    (\<exists>ds. legacy_ValidatorDelegations K C O' X s (Some (pq_ValidatorAddr r)) = Ok (d # ds))"
  by (simp add: legacy_Delegation_def with_request_def refuse_empty_def first_Ok_iff)

section \<open>All validators\<close>

text \<open>The contract lists its operators in pages, as for the active validators.\<close>

definition serves_operators :: "querier \<Rightarrow> addr \<Rightarrow> (int \<Rightarrow> nat) \<Rightarrow> OperatorResponse list \<Rightarrow> bool" where
  "serves_operators Q a psize ops \<longleftrightarrow>
     (\<forall>c l. 0 < psize l \<and> (\<exists>raw. Q a (enc_ValsetQuery (QListValidators c l)) = Ok raw \<and>
        json_Unmarshal dec_ListValidatorsResponse raw [] = Ok (take (psize l) (after or_Operator c ops))))"

lemma list_page:
  assumes "serves_operators Q (ba_contractAddr v) psize ops" and "ba_addressLookupErr v = None"
  shows "ListValidators V Q v (Some \<lparr>pg_StartAfter = c, pg_Limit = 0\<rparr>) =
    (let page = take (psize 0) (after or_Operator (bytes_string (cursor_bytes c)) ops) in
     bind_res (convert_validators V page) (\<lambda>vals. Ok (vals, ListValidators_PaginationCursor page)))"
proof -
  have l: "ToQuery (Some \<lparr>pg_StartAfter = c, pg_Limit = 0\<rparr>) = (bytes_string (cursor_bytes c), 0)"
    by (simp add: ToQuery_def int64_of_uint64_def)
  obtain raw where "Q (ba_contractAddr v) (enc_ValsetQuery (QListValidators (bytes_string (cursor_bytes c)) 0)) = Ok raw"
    "json_Unmarshal dec_ListValidatorsResponse raw [] = Ok (take (psize 0) (after or_Operator (bytes_string (cursor_bytes c)) ops))"
    using assms(1) unfolding serves_operators_def by meson
  with l assms(2) show ?thesis
    by (simp add: ListValidators_def doPageableQuery_def Let_def)
qed

lemma convert_validators_append:
  "convert_validators V (xs @ ys) =
    bind_res (convert_validators V xs) (\<lambda>us. bind_res (convert_validators V ys) (\<lambda>vs. Ok (us @ vs)))"
proof (induction xs)
  case Nil
  show ?case by (cases "convert_validators V ys") simp_all
next
  case (Cons x xs)
  show ?case
    by (cases "ToValidator V x"; cases "convert_validators V xs"; cases "convert_validators V ys") (simp_all add: Cons.IH)
qed

lemma all_validators_pages:
  assumes serves: "serves_operators Q (ba_contractAddr v) psize ops" and err: "ba_addressLookupErr v = None"
    and names: "distinct (map or_Operator ops)" "\<forall>w \<in> set ops. or_Operator w \<noteq> []"
    and "ops = pre @ rest" "after or_Operator (bytes_string (cursor_bytes c)) ops = rest"
      "convert_validators V rest = Ok vals" "length rest < fuel"
  shows "all_validators fuel V Q v zero \<lparr>pg_StartAfter = c, pg_Limit = 0\<rparr> acc = Some (Ok (acc @ map (wasm_validator zero) vals))"
  using assms(5-)
proof (induction fuel arbitrary: pre rest c vals acc)
  case (Suc fuel)
  let ?page = "take (psize 0) rest" and ?rest = "drop (psize 0) rest"
  have size: "0 < psize 0" using serves by (simp add: serves_operators_def)
  obtain us ws where conv: "convert_validators V ?page = Ok us" "convert_validators V ?rest = Ok ws" "vals = us @ ws"
    using Suc.prems(3) convert_validators_append [of V ?page ?rest]
    by (cases "convert_validators V ?page"; cases "convert_validators V ?rest") auto
  have list: "ListValidators V Q v (Some \<lparr>pg_StartAfter = c, pg_Limit = 0\<rparr>) = Ok (us, ListValidators_PaginationCursor ?page)"
    using list_page [OF serves err, of V c] Suc.prems(2) conv(1) by (simp add: Let_def)
  show ?case
  proof (cases "rest = []")
    case True
    with conv have "us = []" "ws = []" by simp_all
    with True list conv(3) show ?thesis
      by (simp add: ListValidators_PaginationCursor_def cursor_bytes_def)
  next
    case False
    then have page: "?page \<noteq> []" using size by simp
    have ops: "ops = pre @ ?page @ ?rest" using Suc.prems(1) by simp
    have "last ?page \<in> set ops" using last_in_set [OF page] ops by (metis Un_iff set_append)
    then have name: "or_Operator (last ?page) \<noteq> []" using names(2) by blast
    let ?c = "Some (string_bytes (or_Operator (last ?page)))"
    have cur: "ListValidators_PaginationCursor ?page = ?c" using page by (simp add: ListValidators_PaginationCursor_def)
    have ne: "cursor_bytes ?c \<noteq> []" using name by (simp add: cursor_bytes_def string_bytes_def)
    have nxt: "after or_Operator (bytes_string (cursor_bytes ?c)) ops = ?rest"
      using after_last [where op = or_Operator, OF _ page name, of pre ?rest] names(1) ops by (simp add: cursor_bytes_def)
    have "all_validators fuel V Q v zero \<lparr>pg_StartAfter = ?c, pg_Limit = 0\<rparr> (acc @ map (wasm_validator zero) us) =
        Some (Ok ((acc @ map (wasm_validator zero) us) @ map (wasm_validator zero) ws))"
    proof (intro Suc.IH [OF _ nxt conv(2)])
      show "ops = (pre @ ?page) @ ?rest" using ops by simp
      have "0 < length rest" using False by simp
      then show "length ?rest < fuel" using size Suc.prems(4) unfolding length_drop by linarith
    qed
    then show ?thesis using list cur ne conv(3) by (simp add: Let_def)
  qed
qed simp

section \<open>Properties\<close>

text \<open>
  A query for the delegation of a pair answers exactly when delegator and validator are the same
  address of an operator for which the staking contract reports an amount; the balance is this amount
  in the bond denomination. For an operator without stake, or with amounts in the contract's response
  that are no numbers, it answers that nothing was found.
\<close>

lemma self_delegation_only:
  "(legacy_Delegation K C O' X s (Some r) = Ok d \<longleftrightarrow>
     (\<exists>op n c. pq_ValidatorAddr r \<noteq> [] \<and> pq_DelegatorAddr r = pq_ValidatorAddr r \<and>
        sAccAddressFromBech32 K (pq_ValidatorAddr r) = Ok op \<and>
        QueryStakedAmount K C (x_QuerySmart X s) (StakeContract s) op = Ok (Some n) \<and> q_NewCoin O' (GetBondDenom s) n = Ok c \<and>
        d = \<lparr>dr_DelegatorAddress = pq_DelegatorAddr r, dr_ValidatorAddress = pq_ValidatorAddr r,
             dr_Shares = q_OneDec O', dr_Balance = c\<rparr>)) \<and>
   (pq_ValidatorAddr r \<noteq> [] \<and> pq_DelegatorAddr r = pq_ValidatorAddr r \<and> sAccAddressFromBech32 K (pq_ValidatorAddr r) = Ok a \<and>
      contract_QueryStakedAmount K (x_QuerySmart X s) (ba_contractAddr (StakeContract s)) a = Ok resp \<and>
      NewIntFromString C (wc_Amount (sa_Liquid resp)) = None \<longrightarrow>
    (\<exists>e. legacy_Delegation K C O' X s (Some r) = Err e \<and> status_Code e = Some NotFound))"
proof (intro conjI impI)
  show "legacy_Delegation K C O' X s (Some r) = Ok d \<longleftrightarrow>
     (\<exists>op n c. pq_ValidatorAddr r \<noteq> [] \<and> pq_DelegatorAddr r = pq_ValidatorAddr r \<and>
        sAccAddressFromBech32 K (pq_ValidatorAddr r) = Ok op \<and>
        QueryStakedAmount K C (x_QuerySmart X s) (StakeContract s) op = Ok (Some n) \<and> q_NewCoin O' (GetBondDenom s) n = Ok c \<and>
        d = \<lparr>dr_DelegatorAddress = pq_DelegatorAddr r, dr_ValidatorAddress = pq_ValidatorAddr r,
             dr_Shares = q_OneDec O', dr_Balance = c\<rparr>)"
    unfolding Delegation_iff ValidatorDelegations_nonempty by auto
next
  assume h: "pq_ValidatorAddr r \<noteq> [] \<and> pq_DelegatorAddr r = pq_ValidatorAddr r \<and> sAccAddressFromBech32 K (pq_ValidatorAddr r) = Ok a \<and>
      contract_QueryStakedAmount K (x_QuerySmart X s) (ba_contractAddr (StakeContract s)) a = Ok resp \<and>
      NewIntFromString C (wc_Amount (sa_Liquid resp)) = None"
  then have "QueryStakedAmount K C (x_QuerySmart X s) (StakeContract s) a = Ok None" by (simp add: QueryStakedAmount_def)
  with h have "legacy_ValidatorDelegations K C O' X s (Some (pq_ValidatorAddr r)) = Ok []"
    using delegation_of_staked [of K "pq_ValidatorAddr r" a C X s None O'] by simp
  with h show "\<exists>e. legacy_Delegation K C O' X s (Some r) = Err e \<and> status_Code e = Some NotFound"
    by (simp add: legacy_Delegation_def with_request_def refuse_empty_def fail_def)
qed

text \<open>
  C32: Against a contract that serves its operators in pages, under distinct names, the query of a
  contract for all validators ends, with more rounds than there are operators, and returns every
  operator exactly once, in the contract's order.
\<close>

theorem all_validators_complete:
  assumes serves: "serves_operators (x_QuerySmart X s) c psize ops" and c: "GetPoEContractAddress PoEContractTypeValset s = Ok c"
    and names: "distinct (map or_Operator ops)" "\<forall>w \<in> set ops. or_Operator w \<noteq> []"
    and conv: "convert_validators V ops = Ok vals" and fuel: "length ops < fuel"
    and q: "wq_BondedDenom q = None" "wq_AllValidators q = Some ()"
  shows "StakingQuerier fuel K C N O' J V zero X s q = Some (Ok (AllValidatorsResponse (map (wasm_validator zero) vals))) \<and>
    map wv_Address (map (wasm_validator zero) vals) = map or_Operator ops"
proof
  have v: "ValsetContract s = NewBaseContractAdapter c None" by (simp add: ValsetContract_def lookup_adapter_def c)
  have "all_validators fuel V (x_QuerySmart X s) (ValsetContract s) zero \<lparr>pg_StartAfter = None, pg_Limit = 0\<rparr> [] =
      Some (Ok ([] @ map (wasm_validator zero) vals))"
    using serves names conv fuel
    by (intro all_validators_pages [of _ _ psize ops "[]"])
      (simp_all add: v NewBaseContractAdapter_def cursor_bytes_def bytes_string_def after_def)
  then show "StakingQuerier fuel K C N O' J V zero X s q = Some (Ok (AllValidatorsResponse (map (wasm_validator zero) vals)))"
    by (simp add: StakingQuerier_def q)
  have "map sv_OperatorAddress vals = map or_Operator ops"
    using conv by (induction ops arbitrary: vals) (auto simp: bind_res_Ok_iff ToValidator_def)
  then show "map wv_Address (map (wasm_validator zero) vals) = map or_Operator ops"
    by (simp add: wasm_validator_def comp_def)
qed

section \<open>Samples\<close>

definition sample_query_ops :: "(rat, rat) query_ops" where
  "sample_query_ops =
     \<lparr>q_NewCoin = (\<lambda>d n. if n < 0 then Panic ''negative'' else Ok \<lparr>mc_Denom = d, mc_Amount = Some n\<rparr>),
      q_NewDecCoin = (\<lambda>d n. case n of None \<Rightarrow> Panic ''nil'' | Some m \<Rightarrow> Ok (of_int m)),
      q_NewDecCoins = (\<lambda>c. Ok [c]), q_OneDec = 1, q_ZeroDec = 0,
      q_Int_GT = (\<lambda>a b. case (a, b) of (Some m, Some n) \<Rightarrow> Ok (n < m) | _ \<Rightarrow> Panic ''nil''),
      q_Addr_Equals = (=), q_nilDec = 0\<rparr>"

text \<open>One operator; every other query is answered with the amount \<open>x\<close>, which is no number.\<close>

definition one_operator :: OperatorResponse where
  "one_operator = noOperator\<lparr>or_Operator := ''a'', or_Pubkey := noPubkey\<lparr>vp_Ed25519 := Some [1]\<rparr>\<rparr>"

definition one_page :: "string \<Rightarrow> raw_json" where
  "one_page c = RawJson (JObj [(''validators'', JArr (if c = [] then
     [JObj [(''operator'', JStr ''a''), (''pubkey'', JObj [(''ed25519'', JStr ''AQ=='')])]] else []))])"

definition one_validator_calls :: "unit poe_calls" where
  "one_validator_calls =
     \<lparr>x_Execute = (\<lambda>c a m f. ret []), x_Sudo = (\<lambda>c m. ret RawEmpty),
      x_QuerySmart = (\<lambda>s c q. case q of JObj [(k, _)] \<Rightarrow>
        if k = ''list_validators'' then Ok (one_page (read_start q))
        else Ok (RawJson (JObj [(''liquid'', JObj [(''denom'', JStr ''ufury''), (''amount'', JStr ''x'')])]))
      | _ \<Rightarrow> Ok RawEmpty)\<rparr>"

lemma one_page_decoded:
  "json_Unmarshal dec_ListValidatorsResponse (one_page c) [] = Ok (take 10 (after or_Operator c [one_operator]))"
proof (cases "c = []")
  case True
  have "json_Unmarshal dec_ListValidatorsResponse (one_page []) [] = Ok [one_operator]" by code_simp
  with True show ?thesis by (simp add: after_def)
next
  case False
  then show ?thesis
    by (simp add: one_page_def json_Unmarshal_def dec_ListValidatorsResponse_def dec_struct_def find_field_def dec_list_def after_def)
qed

lemma one_validator_serves: "serves_operators (x_QuerySmart one_validator_calls s) a (\<lambda>_. 10) [one_operator]"
proof -
  have "x_QuerySmart one_validator_calls s a (enc_ValsetQuery (QListValidators c l)) = Ok (one_page c)" for c l
    by (simp add: one_validator_calls_def read_start_def enc_ListValidatorsQuery_def omit_str_def omit_int_def)
  then show ?thesis by (simp add: serves_operators_def one_page_decoded)
qed

definition sample_val_env :: "(unit, rat) val_env" where
  "sample_val_env = \<lparr>newAny = (\<lambda>_. Ok ()), val_OneDec = 1\<rparr>"

definition sample_coin_json :: "rat sdk_json" where
  "sample_coin_json = \<lparr>dec_sdk_Coin = (\<lambda>j c. Ok c), dec_sdk_Int = (\<lambda>j i. Ok i), dec_sdk_Dec = (\<lambda>j d. Ok d),
     enc_sdk_Coin = (\<lambda>c. JNull), enc_sdk_Int = (\<lambda>i. JNull), enc_sdk_Dec = (\<lambda>d. JNull)\<rparr>"

theorem all_validators_complete_witness:
  "\<exists>vs. StakingQuerier 2 sample_sdk \<lparr>NewIntFromString = (\<lambda>_. None), Coin_Validate = (\<lambda>_. Ok ())\<rparr> sample_wasmd sample_query_ops
      sample_coin_json sample_val_env ''0'' one_validator_calls (SetPoEContractAddress PoEContractTypeValset [7] (emptyState ()))
      \<lparr>wq_BondedDenom = None, wq_AllValidators = Some (), wq_Validator = None, wq_AllDelegations = None, wq_Delegation = None\<rparr> =
    Some (Ok (AllValidatorsResponse vs)) \<and> map wv_Address vs = [''a'']"
proof -
  let ?s = "SetPoEContractAddress PoEContractTypeValset [7] (emptyState ())"
  let ?q = "\<lparr>wq_BondedDenom = None, wq_AllValidators = Some (), wq_Validator = None, wq_AllDelegations = None, wq_Delegation = None\<rparr>"
  have c: "GetPoEContractAddress PoEContractTypeValset ?s = Ok [7]"
    by (simp add: cs.get_put PoEContractType_valid_iff poe_type_defs)
  obtain vals where "convert_validators sample_val_env [one_operator] = Ok vals"
    by (simp add: ToValidator_def toCosmosPubKey_def one_operator_def sample_val_env_def)
  from all_validators_complete [OF one_validator_serves c _ _ this, of 2 ?q sample_sdk
      "\<lparr>NewIntFromString = (\<lambda>_. None), Coin_Validate = (\<lambda>_. Ok ())\<rparr>" sample_wasmd sample_query_ops sample_coin_json "''0''"]
  show ?thesis by (simp add: one_operator_def)
qed

lemma self_delegation_only_sample:
  "\<exists>e. legacy_Delegation sample_sdk \<lparr>NewIntFromString = (\<lambda>_. None), Coin_Validate = (\<lambda>_. Ok ())\<rparr> sample_query_ops
      one_validator_calls (SetPoEContractAddress PoEContractTypeStaking [7] (emptyState ()))
      (Some \<lparr>pq_DelegatorAddr = ''a'', pq_ValidatorAddr = ''a''\<rparr>) = Err e \<and> status_Code e = Some NotFound"
proof -
  let ?s = "SetPoEContractAddress PoEContractTypeStaking [7] (emptyState ())"
  let ?C = "\<lparr>NewIntFromString = (\<lambda>_. None), Coin_Validate = (\<lambda>_. Ok ())\<rparr>"
  let ?r = "\<lparr>pq_DelegatorAddr = ''a'', pq_ValidatorAddr = ''a''\<rparr>"
  have "\<exists>resp. contract_QueryStakedAmount sample_sdk (x_QuerySmart one_validator_calls ?s) (ba_contractAddr (StakeContract ?s))
      (string_bytes ''a'') = Ok resp"
    by (simp add: contract_QueryStakedAmount_def doQuery_def one_validator_calls_def json_Unmarshal_def
        dec_TG4StakedAmountsResponse_def dec_wasm_coin_def dec_struct_def find_field_def at_field_def dec_string_def)
  then obtain resp where "contract_QueryStakedAmount sample_sdk (x_QuerySmart one_validator_calls ?s)
      (ba_contractAddr (StakeContract ?s)) (string_bytes ''a'') = Ok resp" by blast
  moreover have "sAccAddressFromBech32 sample_sdk ''a'' = Ok (string_bytes ''a'')" by (simp add: sample_sdk_def)
  ultimately show ?thesis
    using self_delegation_only [of sample_sdk ?C sample_query_ops one_validator_calls ?s ?r _ "string_bytes ''a''" resp] by simp
qed

end
