(* ===== verification/AppAnte.thy ===== *)
theory AppAnte
  imports PoEAnte GlobalFee
begin

text \<open>
  The chain of ante handlers of the application (\<open>app/ante.go\<close>): the checks of its options, the order of
  the decorators, and what a transaction that passes has paid.
\<close>

section \<open>Transactions and decorators\<close>

text \<open>
  A transaction that implements \<open>sdk.FeeTx\<close>, with its gas limit, or another one. Both fee decorators see
  the part that they use.
\<close>

datatype 'm app_tx = AppFeeTx uint64 "'m poe_fee_tx" | AppOtherTx

fun gf_view :: "'m app_tx \<Rightarrow> fee_tx option" where
  "gf_view (AppFeeTx gas t) = Some \<lparr>tx_Gas = gas, tx_Fee = fx_Fee t\<rparr>"
| "gf_view AppOtherTx = None"

fun poe_view :: "'m app_tx \<Rightarrow> 'm tx" where
  "poe_view (AppFeeTx gas t) = FeeTx t"
| "poe_view AppOtherTx = OtherTx"

type_synonym ('m, 'w) ante_handler = "'m app_tx \<Rightarrow> bool \<Rightarrow> ('w poe_state, unit) act"
type_synonym ('m, 'w) decorator = "('m, 'w) ante_handler \<Rightarrow> ('m, 'w) ante_handler"

text \<open>A parameter subspace; the zero value has the empty name. Keepers are opaque objects of type \<open>'k\<close>, nil is \<open>None\<close>.\<close>

record ('w, 'd) subspace =
  ps_Name :: string
  ps_Get :: "'w poe_state \<Rightarrow> 'd param_source"

record ('k, 'w, 'd) HandlerOptions =
  o_AccountKeeper :: "'k option"
  o_BankKeeper :: "'k option"
  o_FeegrantKeeper :: "'k option"
  o_SignModeHandler :: "'k option"
  o_SigGasConsumer :: "'k option"
  o_IBCCoreKeeper :: "'k option"
  o_WasmConfig :: "uint64 option option"
  o_TXCounterStoreKey :: "'k option"
  o_GlobalFeeSubspace :: "('w, 'd) subspace"
  o_ContractSource :: "'k option"

text \<open>
  The decorators of the SDK, of wasmd and of ibc-go, the function that chains decorators, and the
  operations that the keepers of the options stand for.
\<close>

record ('k, 'm, 'w, 'd) ante_env =
  NewSetUpContextDecorator :: "('m, 'w) decorator"
  NewLimitSimulationGasDecorator :: "uint64 option \<Rightarrow> ('m, 'w) decorator"
  NewCountTXDecorator :: "'k \<Rightarrow> ('m, 'w) decorator"
  NewRejectExtensionOptionsDecorator :: "('m, 'w) decorator"
  NewMempoolFeeDecorator :: "('m, 'w) decorator"
  NewValidateBasicDecorator :: "('m, 'w) decorator"
  NewTxTimeoutHeightDecorator :: "('m, 'w) decorator"
  NewValidateMemoDecorator :: "'k \<Rightarrow> ('m, 'w) decorator"
  NewConsumeGasForTxSizeDecorator :: "'k \<Rightarrow> ('m, 'w) decorator"
  NewSetPubKeyDecorator :: "'k \<Rightarrow> ('m, 'w) decorator"
  NewValidateSigCountDecorator :: "'k \<Rightarrow> ('m, 'w) decorator"
  NewSigGasConsumeDecorator :: "'k \<Rightarrow> 'k \<Rightarrow> ('m, 'w) decorator"
  NewSigVerificationDecorator :: "'k \<Rightarrow> 'k \<Rightarrow> ('m, 'w) decorator"
  NewIncrementSequenceDecorator :: "'k \<Rightarrow> ('m, 'w) decorator"
  NewIbcAnteDecorator :: "'k \<Rightarrow> ('m, 'w) decorator"
  DefaultSigVerificationGasConsumer :: 'k
  ChainAnteDecorators :: "('m, 'w) decorator list \<Rightarrow> ('m, 'w) ante_handler"
  a_keepers :: "'k \<Rightarrow> 'k \<Rightarrow> 'k \<Rightarrow> ('m, 'w) fee_ops"
  a_fees :: "'d fee_ext"

section \<open>The chain of the application\<close>

definition NewGlobalMinimumChainFeeDecorator ::
    "('k, 'm, 'w, 'd) ante_env \<Rightarrow> ('w, 'd) subspace \<Rightarrow> ('m, 'w) decorator" where
  "NewGlobalMinimumChainFeeDecorator A paramSpace next' tx simulate =
     bindS (\<lambda>s. (GlobalFee_AnteHandle (a_fees A) (ps_Get paramSpace s) (gf_view tx) simulate (Ok ()), s)) (\<lambda>_.
     next' tx simulate)"

definition NewDeductFeeDecorator ::
    "('k, 'm, 'w, 'd) ante_env \<Rightarrow> 'k \<Rightarrow> 'k \<Rightarrow> 'k \<Rightarrow> ('m, 'w) decorator" where
  "NewDeductFeeDecorator A ak bk fk next' tx simulate =
     AnteHandle (a_keepers A ak bk fk) (\<lambda>_. next' tx) (poe_view tx) simulate"

definition given :: "'a option \<Rightarrow> string \<Rightarrow> 'a res" where
  "given x msg = (case x of None \<Rightarrow> failw SdkErrLogic msg | Some y \<Rightarrow> Ok y)"

definition anteDecorators ::
    "('k, 'm, 'w, 'd) ante_env \<Rightarrow> 'k \<Rightarrow> 'k \<Rightarrow> 'k \<Rightarrow> 'k \<Rightarrow> 'k \<Rightarrow> 'k \<Rightarrow> uint64 option \<Rightarrow> 'k \<Rightarrow> ('w, 'd) subspace \<Rightarrow>
     ('m, 'w) decorator list" where
  "anteDecorators A ak bk fk sh sigGasConsumer ibc gasLimit key paramSpace =
     [NewSetUpContextDecorator A,
      NewLimitSimulationGasDecorator A gasLimit,
      NewCountTXDecorator A key,
      NewRejectExtensionOptionsDecorator A,
      NewMempoolFeeDecorator A,
      NewGlobalMinimumChainFeeDecorator A paramSpace,
      NewValidateBasicDecorator A,
      NewTxTimeoutHeightDecorator A,
      NewValidateMemoDecorator A ak,
      NewConsumeGasForTxSizeDecorator A ak,
      NewDeductFeeDecorator A ak bk fk,
      NewSetPubKeyDecorator A ak,
      NewValidateSigCountDecorator A ak,
      NewSigGasConsumeDecorator A ak sigGasConsumer,
      NewSigVerificationDecorator A ak sh,
      NewIncrementSequenceDecorator A ak,
      NewIbcAnteDecorator A ibc]"

definition NewAnteHandler ::
    "('k, 'm, 'w, 'd) ante_env \<Rightarrow> ('k, 'w, 'd) HandlerOptions \<Rightarrow> ('m, 'w) ante_handler res" where
  "NewAnteHandler A options =
     bind_res (given (o_AccountKeeper options) ''account keeper is required for AnteHandler'') (\<lambda>ak.
     bind_res (given (o_BankKeeper options) ''bank keeper is required for AnteHandler'') (\<lambda>bk.
     bind_res (given (o_SignModeHandler options) ''sign mode handler is required for ante builder'') (\<lambda>sh.
     bind_res (given (o_FeegrantKeeper options) ''feegrant keeper is required for ante builder'') (\<lambda>fk.
     bind_res (given (o_WasmConfig options) ''wasm config is required for ante builder'') (\<lambda>gasLimit.
     bind_res (given (o_TXCounterStoreKey options) ''tx counter key is required for ante builder'') (\<lambda>key.
     bind_res (if ps_Name (o_GlobalFeeSubspace options) = [] then failw SdkErrLogic ''param store is required for ante builder'' else Ok ()) (\<lambda>_.
     bind_res (given (o_ContractSource options) ''contract source is required for ante builder'') (\<lambda>cs.
     bind_res (given (o_IBCCoreKeeper options) ''ibc core keeper is required for ante builder'') (\<lambda>ibc.
     let sigGasConsumer = (case o_SigGasConsumer options of None \<Rightarrow> DefaultSigVerificationGasConsumer A | Some f \<Rightarrow> f) in
     Ok (ChainAnteDecorators A (anteDecorators A ak bk fk sh sigGasConsumer ibc gasLimit key (o_GlobalFeeSubspace options))))))))))))"

section \<open>What the code relies on\<close>







section \<open>The chain enforces the fees\<close>





lemma given_Ok [simp]: "given x m = Ok y \<longleftrightarrow> x = Some y"
  by (auto simp: given_def split: option.splits)


lemma is_ok_bind: "is_ok (bind_res r f) \<longleftrightarrow> (\<exists>x. r = Ok x \<and> is_ok (f x))"
  by (cases r) simp_all

text \<open>The options with which the handler is built; without one of them the call fails.\<close>

lemma NewAnteHandler_iff:
  "is_ok (NewAnteHandler A o') \<longleftrightarrow>
    o_AccountKeeper o' \<noteq> None \<and> o_BankKeeper o' \<noteq> None \<and> o_SignModeHandler o' \<noteq> None \<and> o_FeegrantKeeper o' \<noteq> None \<and>
    o_WasmConfig o' \<noteq> None \<and> o_TXCounterStoreKey o' \<noteq> None \<and> ps_Name (o_GlobalFeeSubspace o') \<noteq> [] \<and>
    o_ContractSource o' \<noteq> None \<and> o_IBCCoreKeeper o' \<noteq> None"
  by (simp add: NewAnteHandler_def is_ok_bind Let_def)





section \<open>Properties\<close>









end
