(* ===== verification/PoEVoting.thy ===== *)
theory PoEVoting
  imports PoEAdapters
begin

text \<open>
  The voting contracts of \<open>x/poe/contract\<close>: the base adapter of \<open>voting.go\<close>, the oversight
  community proposals, the trusted circle, and the messages that instantiate them.
\<close>

section \<open>Proposals and votes\<close>

text \<open>Voting rules as the contracts have them: quorum and threshold as fractions of one.\<close>

record 'd contract_VotingRules =
  cr_VotingPeriod :: uint32
  cr_Quorum :: 'd
  cr_Threshold :: 'd
  cr_AllowEndEarly :: bool

definition enc_VotingRules :: "'d sdk_json \<Rightarrow> 'd contract_VotingRules \<Rightarrow> json" where
  "enc_VotingRules J v =
     JObj [(''voting_period'', JInt (uint (cr_VotingPeriod v))), (''quorum'', enc_sdk_Dec J (cr_Quorum v)),
       (''threshold'', enc_sdk_Dec J (cr_Threshold v)), (''allow_end_early'', JBool (cr_AllowEndEarly v))]"

definition dec_VotingRules :: "'d sdk_json \<Rightarrow> 'd contract_VotingRules decoder" where
  "dec_VotingRules J = dec_struct
     [(''voting_period'', at_field cr_VotingPeriod cr_VotingPeriod_update dec_uint32),
      (''quorum'', at_field cr_Quorum cr_Quorum_update (dec_sdk_Dec J)),
      (''threshold'', at_field cr_Threshold cr_Threshold_update (dec_sdk_Dec J)),
      (''allow_end_early'', at_field cr_AllowEndEarly cr_AllowEndEarly_update dec_bool)]"

type_synonym Vote = string

definition YesVote :: Vote where "YesVote = ''yes''"
definition NoVote :: Vote where "NoVote = ''no''"
definition AbstainVote :: Vote where "AbstainVote = ''abstain''"
definition VetoVote :: Vote where "VetoVote = ''veto''"

record VoteMsg =
  vo_Vote :: Vote
  vo_ProposalID :: uint64

record GrantEngagementProposal =
  ge_Member :: string
  ge_Points :: uint64

record 'd SlashProposal =
  sp_Member :: string
  sp_Portion :: 'd

record 'd OversightProposal =
  op_GrantEngagement :: "GrantEngagementProposal option"
  op_Slash :: "'d SlashProposal option"

record 'd ProposalMsg =
  pm_Title :: string
  pm_Description :: string
  pm_Proposal :: "'d OversightProposal"

record 'd OCProposalsExecuteMsg =
  oe_Propose :: "'d ProposalMsg option"
  oe_Vote :: "VoteMsg option"
  oe_Execute :: "uint64 option"
  oe_Close :: "uint64 option"

definition noOCExecute :: "'d OCProposalsExecuteMsg" where
  "noOCExecute = \<lparr>oe_Propose = None, oe_Vote = None, oe_Execute = None, oe_Close = None\<rparr>"

definition enc_ProposalID :: "uint64 \<Rightarrow> json" where
  "enc_ProposalID i = JObj [(''proposal_id'', enc_uint64 i)]"

definition enc_OversightProposal :: "'d sdk_json \<Rightarrow> 'd OversightProposal \<Rightarrow> json" where
  "enc_OversightProposal J p =
     JObj (omit_nil ''grant_engagement'' (\<lambda>g. JObj [(''member'', JStr (ge_Member g)), (''points'', enc_uint64 (ge_Points g))])
         (op_GrantEngagement p) @
       omit_nil ''punish'' (\<lambda>s. JObj [(''member'', JStr (sp_Member s)), (''portion'', enc_sdk_Dec J (sp_Portion s))])
         (op_Slash p))"

definition enc_OCProposalsExecuteMsg :: "'d sdk_json \<Rightarrow> 'd OCProposalsExecuteMsg \<Rightarrow> json" where
  "enc_OCProposalsExecuteMsg J m =
     JObj (omit_nil ''propose'' (\<lambda>p. JObj [(''title'', JStr (pm_Title p)), (''description'', JStr (pm_Description p)),
         (''proposal'', enc_OversightProposal J (pm_Proposal p))]) (oe_Propose m) @
       omit_nil ''vote'' (\<lambda>v. JObj [(''vote'', JStr (vo_Vote v)), (''proposal_id'', enc_uint64 (vo_ProposalID v))]) (oe_Vote m) @
       omit_nil ''execute'' enc_ProposalID (oe_Execute m) @
       omit_nil ''close'' enc_ProposalID (oe_Close m))"

record Votes =
  vs_Yes :: uint64
  vs_No :: uint64
  vs_Abstain :: uint64
  vs_Veto :: uint64

record 'd OCProposalResponse =
  pp_ID :: uint64
  pp_Title :: string
  pp_Description :: string
  pp_Proposal :: "'d OversightProposal"
  pp_Status :: string
  pp_CreatedBy :: string
  pp_Rules :: "'d contract_VotingRules"
  pp_TotalPoints :: uint64
  pp_Votes :: Votes

definition noOCProposal :: "'d \<Rightarrow> 'd OCProposalResponse" where
  "noOCProposal nilDec =
     \<lparr>pp_ID = 0, pp_Title = [], pp_Description = [], pp_Proposal = \<lparr>op_GrantEngagement = None, op_Slash = None\<rparr>,
      pp_Status = [], pp_CreatedBy = [],
      pp_Rules = \<lparr>cr_VotingPeriod = 0, cr_Quorum = nilDec, cr_Threshold = nilDec, cr_AllowEndEarly = False\<rparr>,
      pp_TotalPoints = 0, pp_Votes = \<lparr>vs_Yes = 0, vs_No = 0, vs_Abstain = 0, vs_Veto = 0\<rparr>\<rparr>"

definition dec_OversightProposal :: "'d \<Rightarrow> 'd sdk_json \<Rightarrow> 'd OversightProposal decoder" where
  "dec_OversightProposal nilDec J = dec_struct
     [(''grant_engagement'', at_field op_GrantEngagement op_GrantEngagement_update
         (dec_ptr \<lparr>ge_Member = [], ge_Points = 0\<rparr> (dec_struct
            [(''member'', at_field ge_Member ge_Member_update dec_string),
             (''points'', at_field ge_Points ge_Points_update dec_uint64)]))),
      (''punish'', at_field op_Slash op_Slash_update
         (dec_ptr \<lparr>sp_Member = [], sp_Portion = nilDec\<rparr> (dec_struct
            [(''member'', at_field sp_Member sp_Member_update dec_string),
             (''portion'', at_field sp_Portion sp_Portion_update (dec_sdk_Dec J))])))]"

definition dec_Votes :: "Votes decoder" where
  "dec_Votes = dec_struct
     [(''yes'', at_field vs_Yes vs_Yes_update dec_uint64), (''no'', at_field vs_No vs_No_update dec_uint64),
      (''abstain'', at_field vs_Abstain vs_Abstain_update dec_uint64), (''veto'', at_field vs_Veto vs_Veto_update dec_uint64)]"

definition dec_OCProposalResponse :: "'d \<Rightarrow> 'd sdk_json \<Rightarrow> 'd OCProposalResponse decoder" where
  "dec_OCProposalResponse nilDec J = dec_struct
     [(''id'', at_field pp_ID pp_ID_update dec_uint64),
      (''title'', at_field pp_Title pp_Title_update dec_string),
      (''description'', at_field pp_Description pp_Description_update dec_string),
      (''proposal'', at_field pp_Proposal pp_Proposal_update (dec_OversightProposal nilDec J)),
      (''status'', at_field pp_Status pp_Status_update dec_string),
      (''created_by'', at_field pp_CreatedBy pp_CreatedBy_update dec_string),
      (''rules'', at_field pp_Rules pp_Rules_update (dec_VotingRules J)),
      (''total_points'', at_field pp_TotalPoints pp_TotalPoints_update dec_uint64),
      (''votes'', at_field pp_Votes pp_Votes_update dec_Votes)]"

text \<open>The variants of \<open>ProposalsQuery\<close> that the adapters send.\<close>

datatype ProposalsQuery = QProposal uint64 | QReverseProposals uint64 uint32 | QListVoters string uint32

primrec enc_ProposalsQuery :: "ProposalsQuery \<Rightarrow> json" where
  "enc_ProposalsQuery (QProposal i) = JObj [(''proposal'', enc_ProposalID i)]"
| "enc_ProposalsQuery (QReverseProposals startAfter limit) =
     JObj [(''reverse_proposals'', JObj (omit_int ''start_after'' (uint startAfter) @ omit_int ''limit'' (uint limit)))]"
| "enc_ProposalsQuery (QListVoters startAfter limit) =
     JObj [(''list_voters'', JObj (omit_str ''start_after'' startAfter @ omit_int ''limit'' (uint limit)))]"

definition LatestProposal ::
    "'d \<Rightarrow> 'd sdk_json \<Rightarrow> querier \<Rightarrow> BaseContractAdapter \<Rightarrow> 'd OCProposalResponse option res" where
  "LatestProposal nilDec J Q v =
     bind_res (wrap_res ''contract query'' (adapter_doQuery Q v (enc_ProposalsQuery (QReverseProposals 0 1))
       (dec_struct [(''proposals'', dec_list (noOCProposal nilDec) (dec_OCProposalResponse nilDec J))]) [])) (\<lambda>rsp.
     case rsp of [] \<Rightarrow> Ok None | p # _ \<Rightarrow> Ok (Some p))"

definition QueryProposal ::
    "'d \<Rightarrow> 'd sdk_json \<Rightarrow> querier \<Rightarrow> BaseContractAdapter \<Rightarrow> uint64 \<Rightarrow> 'd OCProposalResponse res" where
  "QueryProposal nilDec J Q v i =
     wrap_res ''contract query'' (adapter_doQuery Q v (enc_ProposalsQuery (QProposal i))
       (dec_OCProposalResponse nilDec J) (noOCProposal nilDec))"

definition VoteProposal ::
    "'d sdk_json \<Rightarrow> 's executor \<Rightarrow> BaseContractAdapter \<Rightarrow> uint64 \<Rightarrow> Vote \<Rightarrow> addr \<Rightarrow> ('s, unit) act" where
  "VoteProposal J execute v proposalID vote sender =
     doExecute execute v (enc_OCProposalsExecuteMsg J
       (noOCExecute\<lparr>oe_Vote := Some \<lparr>vo_Vote = vote, vo_ProposalID = proposalID\<rparr>\<rparr>)) sender []"

definition ExecuteProposal :: "'d sdk_json \<Rightarrow> 's executor \<Rightarrow> BaseContractAdapter \<Rightarrow> uint64 \<Rightarrow> addr \<Rightarrow> ('s, unit) act" where
  "ExecuteProposal J execute v proposalID sender =
     doExecute execute v (enc_OCProposalsExecuteMsg J (noOCExecute\<lparr>oe_Execute := Some proposalID\<rparr>)) sender []"

section \<open>Oversight community proposals\<close>

definition ProposeSlash ::
    "sdk_ops \<Rightarrow> 'd sdk_json \<Rightarrow> 's executor \<Rightarrow> BaseContractAdapter \<Rightarrow> addr \<Rightarrow> 'd \<Rightarrow> addr \<Rightarrow> ('s, unit) act" where
  "ProposeSlash K J execute v member portion sender =
     doExecute execute v (enc_OCProposalsExecuteMsg J (noOCExecute\<lparr>oe_Propose := Some
       \<lparr>pm_Title = ''Slash them'', pm_Description = ''Slash them harder!'',
        pm_Proposal = \<lparr>op_GrantEngagement = None,
          op_Slash = Some \<lparr>sp_Member = sAddrString K member, sp_Portion = portion\<rparr>\<rparr>\<rparr>\<rparr>)) sender []"

definition ProposeGrant ::
    "sdk_ops \<Rightarrow> 'd sdk_json \<Rightarrow> 's executor \<Rightarrow> BaseContractAdapter \<Rightarrow> addr \<Rightarrow> uint64 \<Rightarrow> addr \<Rightarrow> ('s, unit) act" where
  "ProposeGrant K J execute v grantee points sender =
     doExecute execute v (enc_OCProposalsExecuteMsg J (noOCExecute\<lparr>oe_Propose := Some
       \<lparr>pm_Title = ''Slash them'', pm_Description = ''Slash them harder!'',
        pm_Proposal = \<lparr>op_GrantEngagement = Some \<lparr>ge_Member = sAddrString K grantee, ge_Points = points\<rparr>,
          op_Slash = None\<rparr>\<rparr>\<rparr>)) sender []"

section \<open>Trusted circle\<close>

record AddRemoveNonVotingMembers =
  ar_Add :: "string list"
  ar_Remove :: "string list"

record ProposalContent =
  AddVotingMembers :: "string list option"
  AddRemoveMembers :: "AddRemoveNonVotingMembers option"

record ProposeMsg =
  tp_Title :: string
  tp_Description :: string
  tp_Proposal :: ProposalContent

record TrustedCircleExecute =
  te_DepositEscrow :: "unit option"
  te_Propose :: "ProposeMsg option"
  te_Execute :: "uint64 option"
  te_WithdrawRewards :: "unit option"

definition noCircleExecute :: TrustedCircleExecute where
  "noCircleExecute = \<lparr>te_DepositEscrow = None, te_Propose = None, te_Execute = None, te_WithdrawRewards = None\<rparr>"

definition enc_ProposalContent :: "ProposalContent \<Rightarrow> json" where
  "enc_ProposalContent c =
     JObj (omit_nil ''add_voting_members'' (\<lambda>vs. JObj [(''voters'', JArr (map JStr vs))]) (AddVotingMembers c) @
       omit_nil ''add_remove_non_voting_members'' (\<lambda>m. JObj [(''add'', JArr (map JStr (ar_Add m))),
         (''remove'', JArr (map JStr (ar_Remove m)))]) (AddRemoveMembers c))"

definition enc_TrustedCircleExecute :: "TrustedCircleExecute \<Rightarrow> json" where
  "enc_TrustedCircleExecute m =
     JObj (omit_nil ''deposit_escrow'' enc_unit (te_DepositEscrow m) @
       omit_nil ''propose'' (\<lambda>p. JObj [(''title'', JStr (tp_Title p)), (''description'', JStr (tp_Description p)),
         (''proposal'', enc_ProposalContent (tp_Proposal p))]) (te_Propose m) @
       omit_nil ''execute'' enc_ProposalID (te_Execute m) @
       omit_nil ''withdraw_rewards'' enc_unit (te_WithdrawRewards m))"

text \<open>A nil slice of members is encoded as null; the callers pass slices that are not nil.\<close>

definition AddVotingMembersProposal :: "'s executor \<Rightarrow> BaseContractAdapter \<Rightarrow> string list \<Rightarrow> addr \<Rightarrow> ('s, unit) act" where
  "AddVotingMembersProposal execute a members sender =
     doExecute execute a (enc_TrustedCircleExecute (noCircleExecute\<lparr>te_Propose := Some
       \<lparr>tp_Title = ''Add voting members'', tp_Description = ''Add voting members'',
        tp_Proposal = \<lparr>AddVotingMembers = Some members, AddRemoveMembers = None\<rparr>\<rparr>\<rparr>)) sender []"

definition DepositEscrow :: "'s executor \<Rightarrow> BaseContractAdapter \<Rightarrow> coin \<Rightarrow> addr \<Rightarrow> ('s, unit) act" where
  "DepositEscrow execute a deposit sender =
     doExecute execute a (enc_TrustedCircleExecute (noCircleExecute\<lparr>te_DepositEscrow := Some ()\<rparr>)) sender [deposit]"

definition QueryListVoters :: "querier \<Rightarrow> BaseContractAdapter \<Rightarrow> TG4Member list res" where
  "QueryListVoters Q a =
     wrap_res ''contract query'' (adapter_doQuery Q a (enc_ProposalsQuery (QListVoters [] 0)) dec_TG4MemberListResponse [])"

end
