(* ===== verification/PoEInitMsgs.thy ===== *)
theory PoEInitMsgs
  imports PoEVoting PoEKeeper
begin

text \<open>
  The messages that instantiate the PoE contracts (\<open>x/poe/contract\<close>) and how \<open>x/poe/bootstrap.go\<close>
  builds them from the seed configuration. A configuration is a pointer: reading a field of a nil one
  panics. \<open>init_env\<close> collects the third-party functions involved: the SDK's addresses and coins, its
  decimals with their JSON form, and the platform's conversion of negative floats.
\<close>

section \<open>Environment\<close>

record 'd init_env =
  e_sdk :: sdk_ops
  e_dec :: "'d dec_ops"
  e_QuoInt64 :: "'d \<Rightarrow> int \<Rightarrow> 'd res"
  e_nilDec :: 'd
  e_json :: "'d sdk_json"
  e_neg :: "rat \<Rightarrow> uint64"

text \<open>Reading through a pointer.\<close>

definition deref :: "'a option \<Rightarrow> 'a res" where
  "deref p = (case p of None \<Rightarrow> Panic ''invalid memory address or nil pointer dereference'' | Some x \<Rightarrow> Ok x)"

lemma deref_simps [simp]: "deref (Some x) = Ok x" "deref p = Ok x \<longleftrightarrow> p = Some x"
  by (simp_all add: deref_def split: option.split)

definition DecimalFromPercentage :: "'d init_env \<Rightarrow> 'd \<Rightarrow> 'd option res" where
  "DecimalFromPercentage E percent =
     bind_res (Dec_IsZero (e_dec E) percent) (\<lambda>zero.
     if zero then Ok None
     else bind_res (e_QuoInt64 E percent 100) (\<lambda>res. Ok (Some res)))"

definition DecimalFromProMille :: "'d init_env \<Rightarrow> int \<Rightarrow> 'd option res" where
  "DecimalFromProMille E promille =
     bind_res (e_QuoInt64 E (dNewDec (e_dec E) promille) 1000) (\<lambda>res. Ok (Some res))"

text \<open>\<open>*contract.DecimalFromPercentage(percent)\<close>\<close>

definition fraction :: "'d init_env \<Rightarrow> 'd \<Rightarrow> 'd res" where
  "fraction E percent = bind_res (DecimalFromPercentage E percent) deref"

section \<open>Messages\<close>

record TG4EngagementInitMsg =
  ei_Admin :: string
  ei_Members :: "TG4Member list"
  ei_PreAuthsHooks :: uint64
  ei_PreAuthsSlashing :: uint64
  ei_Halflife :: uint64
  ei_Denom :: string

definition enc_TG4EngagementInitMsg :: "TG4EngagementInitMsg \<Rightarrow> json" where
  "enc_TG4EngagementInitMsg m =
     JObj (omit_str ''admin'' (ei_Admin m) @
       [(''members'', JArr (map enc_TG4Member (ei_Members m)))] @
       omit_int ''preauths_hooks'' (uint (ei_PreAuthsHooks m)) @
       omit_int ''preauths_slashing'' (uint (ei_PreAuthsSlashing m)) @
       omit_int ''halflife'' (uint (ei_Halflife m)) @
       [(''denom'', JStr (ei_Denom m))])"

text \<open>The tag \<open>string\<close> writes a number as text.\<close>

definition enc_uint64_string :: "uint64 \<Rightarrow> json" where
  "enc_uint64_string w = JStr (format_int (uint w))"

record TG4StakeInitMsg =
  si_Admin :: string
  si_Denom :: string
  si_MinBond :: uint64
  si_TokensPerPoint :: uint64
  si_UnbondingPeriod :: uint64
  si_AutoReturnLimit :: "uint64 option"
  si_PreAuthsHooks :: uint64
  si_PreAuthsSlashing :: uint64

definition enc_TG4StakeInitMsg :: "TG4StakeInitMsg \<Rightarrow> json" where
  "enc_TG4StakeInitMsg m =
     JObj (omit_str ''admin'' (si_Admin m) @
       [(''denom'', JStr (si_Denom m)), (''min_bond'', enc_uint64_string (si_MinBond m)),
        (''tokens_per_point'', enc_uint64_string (si_TokensPerPoint m)),
        (''unbonding_period'', enc_uint64 (si_UnbondingPeriod m))] @
       omit_nil ''auto_return_limit'' enc_uint64 (si_AutoReturnLimit m) @
       omit_int ''preauths_hooks'' (uint (si_PreAuthsHooks m)) @
       omit_int ''preauths_slashing'' (uint (si_PreAuthsSlashing m)))"

record 'd contract_Sigmoid =
  sg_MaxPoints :: uint64
  sg_P :: 'd
  sg_S :: 'd

record 'd SigmoidSqrt =
  ss_MaxPoints :: uint64
  ss_S :: 'd

record 'd AlgebraicSigmoid =
  as_MaxPoints :: uint64
  as_A :: 'd
  as_P :: 'd
  as_S :: 'd

record 'd MixerFunction =
  mf_GeometricMean :: "unit option"
  mf_Sigmoid :: "'d contract_Sigmoid option"
  mf_SigmoidSqrt :: "'d SigmoidSqrt option"
  mf_AlgebraicSigmoid :: "'d AlgebraicSigmoid option"

definition enc_MixerFunction :: "'d sdk_json \<Rightarrow> 'd MixerFunction \<Rightarrow> json" where
  "enc_MixerFunction J f =
     JObj (omit_nil ''geometric_mean'' enc_unit (mf_GeometricMean f) @
       omit_nil ''sigmoid'' (\<lambda>g. JObj [(''max_points'', enc_uint64_string (sg_MaxPoints g)),
         (''p'', enc_sdk_Dec J (sg_P g)), (''s'', enc_sdk_Dec J (sg_S g))]) (mf_Sigmoid f) @
       omit_nil ''sigmoid_sqrt'' (\<lambda>g. JObj [(''max_points'', enc_uint64_string (ss_MaxPoints g)),
         (''s'', enc_sdk_Dec J (ss_S g))]) (mf_SigmoidSqrt f) @
       omit_nil ''algebraic_sigmoid'' (\<lambda>g. JObj [(''max_points'', enc_uint64_string (as_MaxPoints g)),
         (''a'', enc_sdk_Dec J (as_A g)), (''p'', enc_sdk_Dec J (as_P g)), (''s'', enc_sdk_Dec J (as_S g))])
         (mf_AlgebraicSigmoid f))"

record 'd TG4MixerInitMsg =
  mi_LeftGroup :: string
  mi_RightGroup :: string
  mi_PreAuthsHooks :: uint64
  mi_PreAuthsSlashing :: uint64
  mi_FunctionType :: "'d MixerFunction"

definition enc_TG4MixerInitMsg :: "'d sdk_json \<Rightarrow> 'd TG4MixerInitMsg \<Rightarrow> json" where
  "enc_TG4MixerInitMsg J m =
     JObj ([(''left_group'', JStr (mi_LeftGroup m)), (''right_group'', JStr (mi_RightGroup m))] @
       omit_int ''preauths_hooks'' (uint (mi_PreAuthsHooks m)) @
       omit_int ''preauths_slashing'' (uint (mi_PreAuthsSlashing m)) @
       [(''function_type'', enc_MixerFunction J (mi_FunctionType m))])"

record 'd TrustedCircleInitMsg =
  ti_Name :: string
  ti_Denom :: string
  ti_EscrowAmount :: "int option"
  ti_VotingPeriod :: uint32
  ti_Quorum :: 'd
  ti_Threshold :: 'd
  ti_AllowEndEarly :: bool
  ti_InitialMembers :: "string list"
  ti_DenyList :: string
  ti_EditTrustedCircleDisabled :: bool
  ti_RewardDenom :: string

definition enc_TrustedCircleInitMsg :: "'d sdk_json \<Rightarrow> 'd TrustedCircleInitMsg \<Rightarrow> json" where
  "enc_TrustedCircleInitMsg J m =
     JObj ([(''name'', JStr (ti_Name m)), (''denom'', JStr (ti_Denom m)),
        (''escrow_amount'', enc_sdk_Int J (ti_EscrowAmount m)),
        (''voting_period'', JInt (uint (ti_VotingPeriod m))), (''quorum'', enc_sdk_Dec J (ti_Quorum m)),
        (''threshold'', enc_sdk_Dec J (ti_Threshold m)), (''allow_end_early'', JBool (ti_AllowEndEarly m)),
        (''initial_members'', JArr (map JStr (ti_InitialMembers m)))] @
       omit_str ''deny_list'' (ti_DenyList m) @
       [(''edit_trusted_circle_disabled'', JBool (ti_EditTrustedCircleDisabled m)),
        (''reward_denom'', JStr (ti_RewardDenom m))])"

record valset_Validator =
  vk_Operator :: string
  vk_ValidatorPubkey :: ValidatorPubkey

record 'd ValsetInitMsg =
  vi_Admin :: string
  vi_Membership :: string
  vi_MinPoints :: uint64
  vi_MaxValidators :: uint32
  vi_EpochLength :: uint64
  vi_EpochReward :: msg_coin
  vi_InitialKeys :: "valset_Validator list"
  vi_Scaling :: uint32
  vi_FeePercentage :: "'d option"
  vi_AutoUnjail :: bool
  vi_DistributionContracts :: "'d contract_DistributionContract list"
  vi_ValidatorGroupCodeID :: uint64
  vi_VerifyValidators :: bool
  vi_OfflineJailDuration :: uint64

definition enc_ValsetInitMsg :: "'d sdk_json \<Rightarrow> 'd ValsetInitMsg \<Rightarrow> json" where
  "enc_ValsetInitMsg J m =
     JObj (omit_str ''admin'' (vi_Admin m) @
       [(''membership'', JStr (vi_Membership m)), (''min_points'', enc_uint64 (vi_MinPoints m)),
        (''max_validators'', JInt (uint (vi_MaxValidators m))), (''epoch_length'', enc_uint64 (vi_EpochLength m)),
        (''epoch_reward'', enc_sdk_Coin J (vi_EpochReward m)),
        (''initial_keys'', JArr (map (\<lambda>k. JObj [(''operator'', JStr (vk_Operator k)),
           (''validator_pubkey'', enc_ValidatorPubkey (vk_ValidatorPubkey k))]) (vi_InitialKeys m)))] @
       omit_int ''scaling'' (uint (vi_Scaling m)) @
       omit_nil ''fee_percentage'' (enc_sdk_Dec J) (vi_FeePercentage m) @
       [(''auto_unjail'', JBool (vi_AutoUnjail m))] @
       (if vi_DistributionContracts m = [] then []
        else [(''distribution_contracts'', JArr (map (\<lambda>d. JObj [(''contract'', JStr (dc_Address d)),
           (''ratio'', enc_sdk_Dec J (dc_Ratio d))]) (vi_DistributionContracts m)))]) @
       [(''validator_group_code_id'', enc_uint64 (vi_ValidatorGroupCodeID m)),
        (''verify_validators'', JBool (vi_VerifyValidators m)),
        (''offline_jail_duration'', enc_uint64 (vi_OfflineJailDuration m))])"

text \<open>The community pool and the validator voting contract have the same two fields.\<close>

record 'd CommunityPoolInitMsg =
  ci_VotingRules :: "'d contract_VotingRules"
  ci_GroupAddress :: string

definition enc_CommunityPoolInitMsg :: "'d sdk_json \<Rightarrow> 'd CommunityPoolInitMsg \<Rightarrow> json" where
  "enc_CommunityPoolInitMsg J m =
     JObj [(''rules'', enc_VotingRules J (ci_VotingRules m)), (''group_addr'', JStr (ci_GroupAddress m))]"

record 'd ValidatorVotingInitMsg =
  vv_Rules :: "'d contract_VotingRules"
  vv_GroupAddress :: string

definition enc_ValidatorVotingInitMsg :: "'d sdk_json \<Rightarrow> 'd ValidatorVotingInitMsg \<Rightarrow> json" where
  "enc_ValidatorVotingInitMsg J m =
     JObj [(''rules'', enc_VotingRules J (vv_Rules m)), (''group_addr'', JStr (vv_GroupAddress m))]"

record 'd OCProposalsInitMsg =
  oi_VotingRules :: "'d contract_VotingRules"
  oi_GroupContractAddress :: string
  oi_EngagementContractAddress :: string
  oi_ValsetContractAddress :: string

definition enc_OCProposalsInitMsg :: "'d sdk_json \<Rightarrow> 'd OCProposalsInitMsg \<Rightarrow> json" where
  "enc_OCProposalsInitMsg J m =
     JObj [(''rules'', enc_VotingRules J (oi_VotingRules m)), (''group_addr'', JStr (oi_GroupContractAddress m)),
       (''engagement_addr'', JStr (oi_EngagementContractAddress m)), (''valset_addr'', JStr (oi_ValsetContractAddress m))]"

record 'd APVotingInitMsg =
  ai_VotingRules :: "'d contract_VotingRules"
  ai_GroupContractAddress :: string
  ai_DisputeCost :: msg_coin
  ai_WaitingPeriod :: uint64
  ai_MultisigCodeID :: uint64

definition enc_APVotingInitMsg :: "'d sdk_json \<Rightarrow> 'd APVotingInitMsg \<Rightarrow> json" where
  "enc_APVotingInitMsg J m =
     JObj [(''rules'', enc_VotingRules J (ai_VotingRules m)), (''group_addr'', JStr (ai_GroupContractAddress m)),
       (''dispute_cost'', enc_sdk_Coin J (ai_DisputeCost m)), (''waiting_period'', enc_uint64 (ai_WaitingPeriod m)),
       (''multisig_code_id'', enc_uint64 (ai_MultisigCodeID m))]"

section \<open>Messages from the seed configuration\<close>

definition toContractVotingRules :: "'d init_env \<Rightarrow> 'd VotingRules \<Rightarrow> 'd contract_VotingRules res" where
  "toContractVotingRules E votingRules =
     bind_res (fraction E (Quorum votingRules)) (\<lambda>quorum.
     bind_res (fraction E (Threshold votingRules)) (\<lambda>threshold.
     Ok \<lparr>cr_VotingPeriod = VotingPeriod votingRules, cr_Quorum = quorum, cr_Threshold = threshold,
         cr_AllowEndEarly = AllowEndEarly votingRules\<rparr>))"

definition newOCInitMsg :: "'d init_env \<Rightarrow> ('t, 'd) SeedContracts \<Rightarrow> 'd TrustedCircleInitMsg res" where
  "newOCInitMsg E gs =
     bind_res (deref (sc_OversightCommittee gs)) (\<lambda>cfg.
     bind_res (fraction E (Quorum (oc_VotingRules cfg))) (\<lambda>quorum.
     bind_res (fraction E (Threshold (oc_VotingRules cfg))) (\<lambda>threshold.
     Ok \<lparr>ti_Name = oc_Name cfg, ti_Denom = mc_Denom (oc_EscrowAmount cfg),
         ti_EscrowAmount = mc_Amount (oc_EscrowAmount cfg), ti_VotingPeriod = VotingPeriod (oc_VotingRules cfg),
         ti_Quorum = quorum, ti_Threshold = threshold, ti_AllowEndEarly = AllowEndEarly (oc_VotingRules cfg),
         ti_InitialMembers = [], ti_DenyList = oc_DenyListContractAddress cfg, ti_EditTrustedCircleDisabled = True,
         ti_RewardDenom = mc_Denom (oc_EscrowAmount cfg)\<rparr>)))"

definition newOCGovProposalsInitMsg ::
    "'d init_env \<Rightarrow> ('t, 'd) SeedContracts \<Rightarrow> addr \<Rightarrow> addr \<Rightarrow> addr \<Rightarrow> 'd OCProposalsInitMsg res" where
  "newOCGovProposalsInitMsg E gs ocContract engagementContract valsetContract =
     bind_res (deref (sc_OversightCommittee gs)) (\<lambda>cfg.
     bind_res (toContractVotingRules E (oc_VotingRules cfg)) (\<lambda>rules.
     Ok \<lparr>oi_VotingRules = rules, oi_GroupContractAddress = sAddrString (e_sdk E) ocContract,
         oi_EngagementContractAddress = sAddrString (e_sdk E) engagementContract,
         oi_ValsetContractAddress = sAddrString (e_sdk E) valsetContract\<rparr>))"

definition newAPTrustedCircleInitMsg :: "'d init_env \<Rightarrow> ('t, 'd) SeedContracts \<Rightarrow> 'd TrustedCircleInitMsg res" where
  "newAPTrustedCircleInitMsg E gs =
     bind_res (deref (sc_ArbiterPool gs)) (\<lambda>cfg.
     bind_res (fraction E (Quorum (ap_VotingRules cfg))) (\<lambda>quorum.
     bind_res (fraction E (Threshold (ap_VotingRules cfg))) (\<lambda>threshold.
     Ok \<lparr>ti_Name = ap_Name cfg, ti_Denom = mc_Denom (ap_EscrowAmount cfg),
         ti_EscrowAmount = mc_Amount (ap_EscrowAmount cfg), ti_VotingPeriod = VotingPeriod (ap_VotingRules cfg),
         ti_Quorum = quorum, ti_Threshold = threshold, ti_AllowEndEarly = AllowEndEarly (ap_VotingRules cfg),
         ti_InitialMembers = [], ti_DenyList = ap_DenyListContractAddress cfg, ti_EditTrustedCircleDisabled = True,
         ti_RewardDenom = mc_Denom (ap_EscrowAmount cfg)\<rparr>)))"

definition newArbiterPoolVotingInitMsg ::
    "'d init_env \<Rightarrow> ('t, 'd) SeedContracts \<Rightarrow> addr \<Rightarrow> 'd APVotingInitMsg res" where
  "newArbiterPoolVotingInitMsg E gs apContract =
     bind_res (deref (sc_ArbiterPool gs)) (\<lambda>cfg.
     bind_res (toContractVotingRules E (ap_VotingRules cfg)) (\<lambda>rules.
     Ok \<lparr>ai_VotingRules = rules, ai_GroupContractAddress = sAddrString (e_sdk E) apContract,
         ai_DisputeCost = ap_DisputeCost cfg, ai_WaitingPeriod = uint64_seconds (e_neg E) (ap_WaitingPeriod cfg),
         ai_MultisigCodeID = 0\<rparr>))"

definition newEngagementInitMsg :: "'d init_env \<Rightarrow> ('t, 'd) SeedContracts \<Rightarrow> addr \<Rightarrow> TG4EngagementInitMsg res" where
  "newEngagementInitMsg E gs bootstrapAccountAddr =
     bind_res (deref (sc_Engagement gs)) (\<lambda>cfg.
     Ok \<lparr>ei_Admin = sAddrString (e_sdk E) bootstrapAccountAddr,
         ei_Members = map (\<lambda>v. \<lparr>tm_Addr = gm_Address v, tm_Points = gm_Points v, tm_StartHeight = 0\<rparr>) (Engagement gs),
         ei_PreAuthsHooks = 1, ei_PreAuthsSlashing = 1,
         ei_Halflife = uint64_seconds (e_neg E) (Halflife cfg), ei_Denom = BondDenom gs\<rparr>)"

definition newStakeInitMsg :: "'d init_env \<Rightarrow> ('t, 'd) SeedContracts \<Rightarrow> addr \<Rightarrow> TG4StakeInitMsg res" where
  "newStakeInitMsg E gs adminAddr =
     bind_res (deref (sc_Stake gs)) (\<lambda>cfg.
     Ok \<lparr>si_Admin = sAddrString (e_sdk E) adminAddr, si_Denom = BondDenom gs, si_MinBond = MinBond cfg,
         si_TokensPerPoint = TokensPerPoint cfg,
         si_UnbondingPeriod = uint64_seconds (e_neg E) (UnbondingPeriod cfg),
         si_AutoReturnLimit = Some (ClaimAutoreturnLimit cfg), si_PreAuthsHooks = 1, si_PreAuthsSlashing = 1\<rparr>)"

definition newValsetInitMsg ::
    "'d init_env \<Rightarrow> ('t, 'd) SeedContracts \<Rightarrow> addr \<Rightarrow> addr \<Rightarrow> addr \<Rightarrow> addr \<Rightarrow> uint64 \<Rightarrow> 'd ValsetInitMsg res" where
  "newValsetInitMsg E gs admin mixerContractAddr engagementAddr communityPoolAddr engagementCodeID =
     bind_res (deref (sc_Valset gs)) (\<lambda>config.
     bind_res (DecimalFromPercentage E (FeePercentage config)) (\<lambda>feePercentage.
     bind_res (fraction E (EngagementRewardRatio config)) (\<lambda>engagementRatio.
     bind_res (fraction E (CommunityPoolRewardRatio config)) (\<lambda>communityPoolRatio.
     Ok \<lparr>vi_Admin = sAddrString (e_sdk E) admin, vi_Membership = sAddrString (e_sdk E) mixerContractAddr,
         vi_MinPoints = MinPoints config, vi_MaxValidators = MaxValidators config,
         vi_EpochLength = uint64_seconds (e_neg E) (EpochLength config), vi_EpochReward = EpochReward config,
         vi_InitialKeys = [], vi_Scaling = Scaling config, vi_FeePercentage = feePercentage,
         vi_AutoUnjail = AutoUnjail config,
         vi_DistributionContracts =
           [\<lparr>dc_Address = sAddrString (e_sdk E) engagementAddr, dc_Ratio = engagementRatio\<rparr>,
            \<lparr>dc_Address = sAddrString (e_sdk E) communityPoolAddr, dc_Ratio = communityPoolRatio\<rparr>],
         vi_ValidatorGroupCodeID = engagementCodeID, vi_VerifyValidators = VerifyValidators config,
         vi_OfflineJailDuration = uint64_seconds (e_neg E) (OfflineJailDuration config)\<rparr>))))"

end
