(* ===== verification/PoEBootstrap.thy ===== *)
theory PoEBootstrap
  imports PoEInitMsgs PoEAbci
begin

text \<open>
  \<open>x/poe/bootstrap.go\<close>: storing and instantiating the PoE contracts at genesis, handing them over to
  the validator voting contract, and the check of the result. The world outside of the PoE module is
  the state of the twasm keeper; \<open>contract_ops\<close> is wasmd's contract keeper on the whole state. A code
  that is stored may be instantiated by everybody. The embedded WebAssembly files are data.
\<close>

section \<open>Environment\<close>

record 's contract_ops =
  k_Create :: "addr \<Rightarrow> bytes \<Rightarrow> ('s, code_id) act"
  k_Instantiate :: "code_id \<Rightarrow> addr \<Rightarrow> addr \<Rightarrow> json \<Rightarrow> string \<Rightarrow> coin list \<Rightarrow> ('s, addr) act"
  k_PinCode :: "code_id \<Rightarrow> ('s, unit) act"
  k_UpdateContractAdmin :: "addr \<Rightarrow> addr \<Rightarrow> addr \<Rightarrow> ('s, unit) act"

record embedded_code =
  pt4Engagement :: bytes
  pt4Stake :: bytes
  pt4Mixer :: bytes
  tgValset :: bytes
  tgTrustedCircles :: bytes
  tgOCGovProposalsCircles :: bytes
  tgCommunityPool :: bytes
  tgValidatorVoting :: bytes
  tgArbiterPool :: bytes

definition ClearEmbeddedContracts :: "embedded_code \<Rightarrow> embedded_code" where
  "ClearEmbeddedContracts C =
     \<lparr>pt4Engagement = [], pt4Stake = [], pt4Mixer = [], tgValset = [], tgTrustedCircles = [],
      tgOCGovProposalsCircles = [], tgCommunityPool = [], tgValidatorVoting = [], tgArbiterPool = []\<rparr>"

text \<open>
  All that the bootstrap is given: \<open>b_msg\<close> the functions for messages, \<open>b_ext\<close> what the twasm keeper
  uses of wasmd, \<open>b_calls\<close> the calls of contracts, \<open>b_ops\<close> the contract keeper, \<open>b_code\<close> the embedded
  files and \<open>b_order\<close> the order in which Go visits the map of contract kinds.
\<close>

type_synonym 'w boot_state = "'w tw_state poe_state"

record ('w, 'd) boot_env =
  b_msg :: "'d init_env"
  b_ext :: "'w wasm_ext"
  b_calls :: "'w tw_state poe_calls"
  b_ops :: "'w boot_state contract_ops"
  b_code :: embedded_code
  b_order :: "(int \<times> string) list"

text \<open>A call of the twasm keeper, which emits its events into the same context.\<close>

definition on_tw :: "('w tw_state, 'a) act \<Rightarrow> ('w boot_state, 'a) act" where
  "on_tw m s =
     (let (r, t) = m ((p_world s)\<lparr>tw_events := p_events s\<rparr>) in (r, s\<lparr>p_world := t, p_events := tw_events t\<rparr>))"

definition boot_SetPrivileged :: "('w, 'd) boot_env \<Rightarrow> addr \<Rightarrow> ('w boot_state, unit) act" where
  "boot_SetPrivileged B contractAddr = on_tw (SetPrivileged (b_ext B) contractAddr)"

section \<open>Trusted circles\<close>

text \<open>An amount that is nil has made \<open>sdk.NewCoins\<close> panic before the first deposit.\<close>

definition deposit_coin :: "msg_coin \<Rightarrow> coin res" where
  "deposit_coin c = bind_res (deref (mc_Amount c)) (\<lambda>n. Ok \<lparr>coin_Denom = mc_Denom c, coin_Amount = n\<rparr>)"

fun deposit_escrows ::
    "('w, 'd) boot_env \<Rightarrow> BaseContractAdapter \<Rightarrow> msg_coin \<Rightarrow> string list \<Rightarrow> ('w boot_state, unit) act" where
  "deposit_escrows B tcAdapter deposit [] = ret ()"
| "deposit_escrows B tcAdapter deposit (member # members) =
     bindS (lift_res (wrap_res ''%s member'' (sAccAddressFromBech32 (e_sdk (b_msg B)) member))) (\<lambda>addr.
     bindS (lift_res (deposit_coin deposit)) (\<lambda>coin.
     bindS (wrapS ''%s deposit escrow'' (DepositEscrow (x_Execute (b_calls B)) tcAdapter coin addr)) (\<lambda>_.
     deposit_escrows B tcAdapter deposit members)))"

definition addToTrustedCircle ::
    "('w, 'd) boot_env \<Rightarrow> addr \<Rightarrow> string list \<Rightarrow> addr \<Rightarrow> msg_coin \<Rightarrow> ('w boot_state, unit) act" where
  "addToTrustedCircle B contractAddr members sender deposit =
     (let tcAdapter = NewBaseContractAdapter contractAddr None in
      bindS (wrapS ''add voting members proposal''
        (AddVotingMembersProposal (x_Execute (b_calls B)) tcAdapter members sender)) (\<lambda>_.
      bindS (\<lambda>s. (wrap_res ''query latest proposal''
        (LatestProposal (e_nilDec (b_msg B)) (e_json (b_msg B)) (x_QuerySmart (b_calls B) s) tcAdapter), s)) (\<lambda>latest.
      bindS (lift_res (deref latest)) (\<lambda>proposal.
      bindS (wrapS ''execute proposal''
        (ExecuteProposal (e_json (b_msg B)) (x_Execute (b_calls B)) tcAdapter (pp_ID proposal) sender)) (\<lambda>_.
      deposit_escrows B tcAdapter deposit members)))))"

text \<open>\<open>members[0]\<close> and the optional proposal for the others.\<close>

definition first_member :: "string list \<Rightarrow> string res" where
  "first_member members = (case members of [] \<Rightarrow> Panic ''index out of range'' | m # _ \<Rightarrow> Ok m)"

definition add_others ::
    "('w, 'd) boot_env \<Rightarrow> addr \<Rightarrow> string list \<Rightarrow> addr \<Rightarrow> msg_coin \<Rightarrow> ('w boot_state, unit) act" where
  "add_others B contractAddr members sender deposit =
     (if length members > 1 then addToTrustedCircle B contractAddr (tl members) sender deposit else ret ())"

section \<open>The contracts\<close>

definition setup_engagement ::
    "('w, 'd) boot_env \<Rightarrow> ('t, 'd) SeedContracts \<Rightarrow> addr \<Rightarrow> ('w boot_state, code_id \<times> addr) act" where
  "setup_engagement B gs bootstrapAccountAddr =
     bindS (lift_res (newEngagementInitMsg (b_msg B) gs bootstrapAccountAddr)) (\<lambda>msg.
     bindS (wrapS ''store pt4 engagement contract''
       (k_Create (b_ops B) bootstrapAccountAddr (pt4Engagement (b_code B)))) (\<lambda>codeID.
     bindS (wrapS ''instantiate pt4 engagement''
       (k_Instantiate (b_ops B) codeID bootstrapAccountAddr bootstrapAccountAddr
         (enc_TG4EngagementInitMsg msg) ''engagement'' [])) (\<lambda>contractAddr.
     bindS (modify (SetPoEContractAddress PoEContractTypeEngagement contractAddr)) (\<lambda>_.
     bindS (wrapS ''pin pt4 engagement contract'' (k_PinCode (b_ops B) codeID)) (\<lambda>_.
     ret (codeID, contractAddr))))))"

definition setup_oversight_community ::
    "('w, 'd) boot_env \<Rightarrow> ('t, 'd) SeedContracts \<Rightarrow> addr \<Rightarrow> ('w boot_state, code_id \<times> addr) act" where
  "setup_oversight_community B gs bootstrapAccountAddr =
     bindS (wrapS ''store tg trusted circle contract''
       (k_Create (b_ops B) bootstrapAccountAddr (tgTrustedCircles (b_code B)))) (\<lambda>codeID.
     bindS (lift_res (newOCInitMsg (b_msg B) gs)) (\<lambda>msg.
     bindS (lift_res (first_member (OversightCommunityMembers gs))) (\<lambda>m.
     bindS (lift_res (wrap_res ''first member'' (sAccAddressFromBech32 (e_sdk (b_msg B)) m))) (\<lambda>firstOCMember.
     bindS (lift_res (deref (sc_OversightCommittee gs))) (\<lambda>cfg.
     bindS (lift_res (NewCoins (e_sdk (b_msg B)) [oc_EscrowAmount cfg])) (\<lambda>coins.
     bindS (wrapS ''instantiate tg trusted circle contract''
       (k_Instantiate (b_ops B) codeID firstOCMember bootstrapAccountAddr
         (enc_TrustedCircleInitMsg (e_json (b_msg B)) msg) ''oversight_committee'' coins)) (\<lambda>contractAddr.
     bindS (modify (SetPoEContractAddress PoEContractTypeOversightCommunity contractAddr)) (\<lambda>_.
     bindS (wrapS ''pin tg trusted circle contract'' (k_PinCode (b_ops B) codeID)) (\<lambda>_.
     bindS (add_others B contractAddr (OversightCommunityMembers gs) firstOCMember (oc_EscrowAmount cfg)) (\<lambda>_.
     ret (codeID, contractAddr)))))))))))"

definition setup_stake ::
    "('w, 'd) boot_env \<Rightarrow> ('t, 'd) SeedContracts \<Rightarrow> addr \<Rightarrow> ('w boot_state, addr) act" where
  "setup_stake B gs bootstrapAccountAddr =
     bindS (wrapS ''store pt4 stake contract''
       (k_Create (b_ops B) bootstrapAccountAddr (pt4Stake (b_code B)))) (\<lambda>codeID.
     bindS (lift_res (newStakeInitMsg (b_msg B) gs bootstrapAccountAddr)) (\<lambda>msg.
     bindS (wrapS ''instantiate pt4 stake''
       (k_Instantiate (b_ops B) codeID bootstrapAccountAddr bootstrapAccountAddr
         (enc_TG4StakeInitMsg msg) ''stakers'' [])) (\<lambda>contractAddr.
     bindS (modify (SetPoEContractAddress PoEContractTypeStaking contractAddr)) (\<lambda>_.
     bindS (wrapS ''grant privileges to stake contract'' (boot_SetPrivileged B contractAddr)) (\<lambda>_.
     ret contractAddr)))))"

definition newMixerInitMsg ::
    "'d init_env \<Rightarrow> ('t, 'd) SeedContracts \<Rightarrow> addr \<Rightarrow> addr \<Rightarrow> 'd TG4MixerInitMsg res" where
  "newMixerInitMsg E gs engagementContractAddr stakeContractAddr =
     bind_res (deref (sc_Mixer gs)) (\<lambda>cfg.
     Ok \<lparr>mi_LeftGroup = sAddrString (e_sdk E) engagementContractAddr,
         mi_RightGroup = sAddrString (e_sdk E) stakeContractAddr, mi_PreAuthsHooks = 0, mi_PreAuthsSlashing = 1,
         mi_FunctionType = \<lparr>mf_GeometricMean = None,
           mf_Sigmoid = Some \<lparr>sg_MaxPoints = MaxPoints cfg, sg_P = Sigmoid_P cfg, sg_S = Sigmoid_S cfg\<rparr>,
           mf_SigmoidSqrt = None, mf_AlgebraicSigmoid = None\<rparr>\<rparr>)"

definition setup_mixer ::
    "('w, 'd) boot_env \<Rightarrow> ('t, 'd) SeedContracts \<Rightarrow> addr \<Rightarrow> addr \<Rightarrow> addr \<Rightarrow> ('w boot_state, addr) act" where
  "setup_mixer B gs bootstrapAccountAddr engagementContractAddr stakeContractAddr =
     bindS (lift_res (newMixerInitMsg (b_msg B) gs engagementContractAddr stakeContractAddr)) (\<lambda>msg.
     bindS (wrapS ''store pt4 mixer contract''
       (k_Create (b_ops B) bootstrapAccountAddr (pt4Mixer (b_code B)))) (\<lambda>codeID.
     bindS (wrapS ''instantiate pt4 mixer''
       (k_Instantiate (b_ops B) codeID bootstrapAccountAddr bootstrapAccountAddr
         (enc_TG4MixerInitMsg (e_json (b_msg B)) msg) ''poe'' [])) (\<lambda>contractAddr.
     bindS (modify (SetPoEContractAddress PoEContractTypeMixer contractAddr)) (\<lambda>_.
     bindS (wrapS ''pin pt4 mixer contract'' (k_PinCode (b_ops B) codeID)) (\<lambda>_.
     ret contractAddr)))))"

definition setup_community_pool ::
    "('w, 'd) boot_env \<Rightarrow> ('t, 'd) SeedContracts \<Rightarrow> addr \<Rightarrow> addr \<Rightarrow> ('w boot_state, addr) act" where
  "setup_community_pool B gs bootstrapAccountAddr engagementContractAddr =
     bindS (wrapS ''store community pool contract''
       (k_Create (b_ops B) bootstrapAccountAddr (tgCommunityPool (b_code B)))) (\<lambda>codeID.
     bindS (lift_res (deref (sc_CommunityPool gs))) (\<lambda>cfg.
     bindS (lift_res (toContractVotingRules (b_msg B) (cp_VotingRules cfg))) (\<lambda>rules.
     bindS (wrapS ''instantiate community pool''
       (k_Instantiate (b_ops B) codeID bootstrapAccountAddr bootstrapAccountAddr
         (enc_CommunityPoolInitMsg (e_json (b_msg B))
           \<lparr>ci_VotingRules = rules, ci_GroupAddress = sAddrString (e_sdk (b_msg B)) engagementContractAddr\<rparr>)
         ''stakers'' [])) (\<lambda>contractAddr.
     bindS (modify (SetPoEContractAddress PoEContractTypeCommunityPool contractAddr)) (\<lambda>_.
     bindS (wrapS ''pin community pool contract'' (k_PinCode (b_ops B) codeID)) (\<lambda>_.
     ret contractAddr))))))"

text \<open>The distribution contract is one that the validator set contract has instantiated.\<close>

definition setup_valset ::
    "('w, 'd) boot_env \<Rightarrow> ('t, 'd) SeedContracts \<Rightarrow> addr \<Rightarrow> addr \<Rightarrow> addr \<Rightarrow> addr \<Rightarrow> code_id \<Rightarrow>
     ('w boot_state, addr \<times> addr) act" where
  "setup_valset B gs bootstrapAccountAddr mixerContractAddr engagementContractAddr communityPoolContractAddr
      engagementCodeID =
     bindS (wrapS ''store valset contract''
       (k_Create (b_ops B) bootstrapAccountAddr (tgValset (b_code B)))) (\<lambda>codeID.
     bindS (lift_res (newValsetInitMsg (b_msg B) gs bootstrapAccountAddr mixerContractAddr engagementContractAddr
       communityPoolContractAddr engagementCodeID)) (\<lambda>msg.
     bindS (wrapS ''instantiate valset with: %s''
       (k_Instantiate (b_ops B) codeID bootstrapAccountAddr bootstrapAccountAddr
         (enc_ValsetInitMsg (e_json (b_msg B)) msg) ''valset'' [])) (\<lambda>contractAddr.
     bindS (modify (SetPoEContractAddress PoEContractTypeValset contractAddr)) (\<lambda>_.
     bindS (\<lambda>s. (wrap_res ''query valset config'' (QueryConfig (e_nilDec (b_msg B)) (e_json (b_msg B))
       (x_QuerySmart (b_calls B) s) (ValsetContract s)), s)) (\<lambda>valsetCfg.
     bindS (lift_res (wrap_res ''distribution contract address''
       (sAccAddressFromBech32 (e_sdk (b_msg B)) (vc_ValidatorGroup valsetCfg)))) (\<lambda>distrAddr.
     bindS (modify (SetPoEContractAddress PoEContractTypeDistribution distrAddr)) (\<lambda>_.
     bindS (wrapS ''grant privileges to valset contract'' (boot_SetPrivileged B contractAddr)) (\<lambda>_.
     ret (contractAddr, distrAddr)))))))))"

definition setup_oc_proposals ::
    "('w, 'd) boot_env \<Rightarrow> ('t, 'd) SeedContracts \<Rightarrow> addr \<Rightarrow> addr \<Rightarrow> addr \<Rightarrow> addr \<Rightarrow> ('w boot_state, unit) act" where
  "setup_oc_proposals B gs bootstrapAccountAddr ocContractAddr engagementContractAddr valsetContractAddr =
     bindS (wrapS ''store tg oc gov proposals contract: ''
       (k_Create (b_ops B) bootstrapAccountAddr (tgOCGovProposalsCircles (b_code B)))) (\<lambda>codeID.
     bindS (lift_res (newOCGovProposalsInitMsg (b_msg B) gs ocContractAddr engagementContractAddr valsetContractAddr)) (\<lambda>msg.
     bindS (wrapS ''instantiate tg oc gov proposals contract''
       (k_Instantiate (b_ops B) codeID bootstrapAccountAddr bootstrapAccountAddr
         (enc_OCProposalsInitMsg (e_json (b_msg B)) msg) ''oversight_committee gov proposals'' [])) (\<lambda>contractAddr.
     bindS (modify (SetPoEContractAddress PoEContractTypeOversightCommunityGovProposals contractAddr)) (\<lambda>_.
     bindS (wrapS ''pin tg oc gov proposals contract'' (k_PinCode (b_ops B) codeID)) (\<lambda>_.
     bindS (wrapS ''set new engagement contract admin'' (\<lambda>s. Engagement_UpdateAdmin (e_sdk (b_msg B))
       (x_Execute (b_calls B)) (EngagementContract s) contractAddr bootstrapAccountAddr s)) (\<lambda>_.
     wrapS ''set new valset contract admin'' (\<lambda>s. Valset_UpdateAdmin (e_sdk (b_msg B))
       (x_Execute (b_calls B)) (ValsetContract s) contractAddr bootstrapAccountAddr s)))))))"

definition setup_validator_voting ::
    "('w, 'd) boot_env \<Rightarrow> ('t, 'd) SeedContracts \<Rightarrow> addr \<Rightarrow> addr \<Rightarrow> ('w boot_state, addr) act" where
  "setup_validator_voting B gs bootstrapAccountAddr distrAddr =
     bindS (wrapS ''store validator voting contract''
       (k_Create (b_ops B) bootstrapAccountAddr (tgValidatorVoting (b_code B)))) (\<lambda>codeID.
     bindS (lift_res (deref (sc_ValidatorVoting gs))) (\<lambda>cfg.
     bindS (lift_res (toContractVotingRules (b_msg B) (vv_VotingRules cfg))) (\<lambda>rules.
     bindS (wrapS ''instantiate validator voting''
       (k_Instantiate (b_ops B) codeID bootstrapAccountAddr bootstrapAccountAddr
         (enc_ValidatorVotingInitMsg (e_json (b_msg B))
           \<lparr>vv_Rules = rules, vv_GroupAddress = sAddrString (e_sdk (b_msg B)) distrAddr\<rparr>) ''stakers'' [])) (\<lambda>contractAddr.
     bindS (modify (SetPoEContractAddress PoEContractTypeValidatorVoting contractAddr)) (\<lambda>_.
     bindS (wrapS ''grant privileges to validator voting contract'' (boot_SetPrivileged B contractAddr)) (\<lambda>_.
     ret contractAddr))))))"

definition setup_arbiter_pool ::
    "('w, 'd) boot_env \<Rightarrow> ('t, 'd) SeedContracts \<Rightarrow> addr \<Rightarrow> code_id \<Rightarrow> ('w boot_state, addr) act" where
  "setup_arbiter_pool B gs bootstrapAccountAddr trustedCircleCodeID =
     bindS (lift_res (newAPTrustedCircleInitMsg (b_msg B) gs)) (\<lambda>msg.
     bindS (lift_res (first_member (ArbiterPoolMembers gs))) (\<lambda>m.
     bindS (lift_res (wrap_res ''first ap member'' (sAccAddressFromBech32 (e_sdk (b_msg B)) m))) (\<lambda>firstAPMember.
     bindS (lift_res (deref (sc_ArbiterPool gs))) (\<lambda>cfg.
     bindS (lift_res (NewCoins (e_sdk (b_msg B)) [ap_EscrowAmount cfg])) (\<lambda>coins.
     bindS (wrapS ''instantiate tg trusted circle contract''
       (k_Instantiate (b_ops B) trustedCircleCodeID firstAPMember bootstrapAccountAddr
         (enc_TrustedCircleInitMsg (e_json (b_msg B)) msg) ''arbiter_pool'' coins)) (\<lambda>contractAddr.
     bindS (modify (SetPoEContractAddress PoEContractTypeArbiterPool contractAddr)) (\<lambda>_.
     bindS (add_others B contractAddr (ArbiterPoolMembers gs) firstAPMember (ap_EscrowAmount cfg)) (\<lambda>_.
     ret contractAddr))))))))"

definition setup_arbiter_pool_voting ::
    "('w, 'd) boot_env \<Rightarrow> ('t, 'd) SeedContracts \<Rightarrow> addr \<Rightarrow> addr \<Rightarrow> ('w boot_state, unit) act" where
  "setup_arbiter_pool_voting B gs bootstrapAccountAddr apContractAddr =
     bindS (wrapS ''store arbiter voting contract: ''
       (k_Create (b_ops B) bootstrapAccountAddr (tgArbiterPool (b_code B)))) (\<lambda>codeID.
     bindS (lift_res (newArbiterPoolVotingInitMsg (b_msg B) gs apContractAddr)) (\<lambda>msg.
     bindS (wrapS ''instantiate tg ap voting contract''
       (k_Instantiate (b_ops B) codeID bootstrapAccountAddr bootstrapAccountAddr
         (enc_APVotingInitMsg (e_json (b_msg B)) msg) ''arbiter pool voting'' [])) (\<lambda>contractAddr.
     bindS (modify (SetPoEContractAddress PoEContractTypeArbiterPoolVoting contractAddr)) (\<lambda>_.
     wrapS ''pin tg ap voting contract'' (k_PinCode (b_ops B) codeID)))))"

section \<open>Migrators\<close>

text \<open>The callback stops at the first error, which it leaves in \<open>rspErr\<close>.\<close>

definition migrator_cb ::
    "('w, 'd) boot_env \<Rightarrow> addr \<Rightarrow> addr \<Rightarrow> PoEContractType \<Rightarrow> (unit res \<times> 'w boot_state, bool) act" where
  "migrator_cb B oldAdminAddr newAdminAddr tp es =
     (case es of (rspErr, s) \<Rightarrow>
       (case GetPoEContractAddress tp s of
          Err e \<Rightarrow> (Ok True, (Err (Wrapped e ''failed to find contract address for %s''), s))
        | Panic p \<Rightarrow> (Panic p, (rspErr, s))
        | Ok addr \<Rightarrow>
            (case k_UpdateContractAdmin (b_ops B) addr oldAdminAddr newAdminAddr s of
               (Err e, s') \<Rightarrow> (Ok True, (Err (Wrapped e ''%s contract''), s'))
             | (Panic p, s') \<Rightarrow> (Panic p, (rspErr, s'))
             | (Ok _, s') \<Rightarrow> (Ok (rspErr \<noteq> Ok ()), (rspErr, s')))))"

definition setAllPoEContractsInstanceMigrators ::
    "('w, 'd) boot_env \<Rightarrow> addr \<Rightarrow> addr \<Rightarrow> ('w boot_state, unit) act" where
  "setAllPoEContractsInstanceMigrators B oldAdminAddr newAdminAddr s =
     (let (r, (rspErr, s')) =
        IteratePoEContractTypes (b_order B) (migrator_cb B oldAdminAddr newAdminAddr) (Ok (), s) in
      (bind_res r (\<lambda>_. rspErr), s'))"

definition BootstrapPoEContracts ::
    "('w, 'd) boot_env \<Rightarrow> ('t, 'd) SeedContracts \<Rightarrow> ('w boot_state, unit) act" where
  "BootstrapPoEContracts B gs =
     bindS (lift_res (wrap_res ''bootstrap account''
       (sAccAddressFromBech32 (e_sdk (b_msg B)) (BootstrapAccountAddress gs)))) (\<lambda>bootstrapAccountAddr.
     bindS (setup_engagement B gs bootstrapAccountAddr) (\<lambda>(engagementCodeID, engagementContractAddr).
     bindS (setup_oversight_community B gs bootstrapAccountAddr) (\<lambda>(trustedCircleCodeID, ocContractAddr).
     bindS (setup_stake B gs bootstrapAccountAddr) (\<lambda>stakeContractAddr.
     bindS (setup_mixer B gs bootstrapAccountAddr engagementContractAddr stakeContractAddr) (\<lambda>mixerContractAddr.
     bindS (setup_community_pool B gs bootstrapAccountAddr engagementContractAddr) (\<lambda>communityPoolContractAddr.
     bindS (setup_valset B gs bootstrapAccountAddr mixerContractAddr engagementContractAddr
       communityPoolContractAddr engagementCodeID) (\<lambda>(valsetContractAddr, distrAddr).
     bindS (setup_oc_proposals B gs bootstrapAccountAddr ocContractAddr engagementContractAddr valsetContractAddr) (\<lambda>_.
     bindS (setup_validator_voting B gs bootstrapAccountAddr distrAddr) (\<lambda>validatorVotingContractAddr.
     bindS (setup_arbiter_pool B gs bootstrapAccountAddr trustedCircleCodeID) (\<lambda>apContractAddr.
     bindS (setup_arbiter_pool_voting B gs bootstrapAccountAddr apContractAddr) (\<lambda>_.
     wrapS ''set new instance admin''
       (setAllPoEContractsInstanceMigrators B bootstrapAccountAddr validatorVotingContractAddr))))))))))))"

section \<open>Verification of the setup\<close>

text \<open>The callback leaves the error in \<open>err\<close>; a code that is not pinned is only logged.\<close>

definition verify_cb :: "('w, 'd) boot_env \<Rightarrow> addr \<Rightarrow> 'w boot_state \<Rightarrow> PoEContractType \<Rightarrow> (unit res, bool) act" where
  "verify_cb B valVotingContractAddr s tp err =
     (case GetPoEContractAddress tp s of
        Err e \<Rightarrow> (Ok True, Err e)
      | Panic p \<Rightarrow> (Panic p, err)
      | Ok addr \<Rightarrow>
          (case GetContractInfo (b_ext B) addr (p_world s) of
             None \<Rightarrow> (Ok True, failw PoeErrInvalid ''unknown contract: %s'')
           | Some c \<Rightarrow>
               if ci_Admin c \<noteq> sAddrString (e_sdk (b_msg B)) valVotingContractAddr
               then (Ok True, failw PoeErrInvalid ''admin address: %s'')
               else (Ok False, Ok ())))"

definition verify_admins :: "('w, 'd) boot_env \<Rightarrow> addr \<Rightarrow> 'w boot_state \<Rightarrow> unit res" where
  "verify_admins B valVotingContractAddr s =
     (let (r, err) = IteratePoEContractTypes (b_order B) (verify_cb B valVotingContractAddr s) (Ok ()) in
      bind_res r (\<lambda>_. err))"

definition VerifyPoEContracts :: "('w, 'd) boot_env \<Rightarrow> 'w boot_state \<Rightarrow> unit res" where
  "VerifyPoEContracts B s =
     bind_res (wrap_res ''validator voting address''
       (GetPoEContractAddress PoEContractTypeValidatorVoting s)) (\<lambda>valVotingContractAddr.
     bind_res (verify_admins B valVotingContractAddr s) (\<lambda>_.
     bind_res (wrap_res ''valset addr'' (GetPoEContractAddress PoEContractTypeValset s)) (\<lambda>addr.
     bind_res (wrap_res ''valset contract''
       (HasPrivilegedContract (b_ext B) addr PrivilegeTypeValidatorSetUpdate (p_world s))) (\<lambda>ok.
     if \<not> ok then failw PoeErrInvalid ''valset contract not registered for validator updates''
     else bind_res (wrap_res ''validator voting address'' (GetPoEContractAddress PoEContractTypeStaking s)) (\<lambda>stakeContractAddr.
     bind_res (wrap_res ''staking contract''
       (HasPrivilegedContract (b_ext B) stakeContractAddr PrivilegeDelegator (p_world s))) (\<lambda>ok.
     if \<not> ok then failw PoeErrInvalid ''no contract with delegator privileges'' else Ok ()))))))"

end
