(* ===== verification/PoESetup.thy ===== *)
theory PoESetup
  imports PoEBootstrap
begin

text \<open>
  What a bootstrap that succeeds has set up: the contracts of all kinds are registered, their admin is
  the validator voting contract, and what the check of the setup then depends on. The proofs run
  through the stages with postconditions.
\<close>

section \<open>Postconditions\<close>

text \<open>
  What holds after a call that succeeds from a state with \<open>P\<close>: partial correctness with the result in
  the postcondition, and its rules.
\<close>

definition post :: "('s \<Rightarrow> bool) \<Rightarrow> ('s, 'a) act \<Rightarrow> ('a \<Rightarrow> 's \<Rightarrow> bool) \<Rightarrow> bool" where
  "post P m Q \<longleftrightarrow> (\<forall>s x s'. P s \<longrightarrow> m s = (Ok x, s') \<longrightarrow> Q x s')"

lemma postD: "post P m Q \<Longrightarrow> P s \<Longrightarrow> m s = (Ok x, s') \<Longrightarrow> Q x s'"
  by (auto simp: post_def)

lemma post_bindS: "post P m R \<Longrightarrow> (\<And>x. post (R x) (f x) Q) \<Longrightarrow> post P (bindS m f) Q"
  unfolding post_def by (blast elim: bindS_OkE)

lemma post_modify: "(\<And>s. P s \<Longrightarrow> Q () (f s)) \<Longrightarrow> post P (modify f) Q"
  by (auto simp: post_def act_simps)

lemma post_ret: "(\<And>s. P s \<Longrightarrow> Q x s) \<Longrightarrow> post P (ret x) Q"
  by (auto simp: post_def act_simps)

lemma post_keeps: "keeps P m \<Longrightarrow> post P m (\<lambda>_. P)"
  by (auto simp: post_def dest: keepsD)

lemma post_weaken: "post P m Q \<Longrightarrow> (\<And>x s. Q x s \<Longrightarrow> R x s) \<Longrightarrow> post P m R"
  by (auto simp: post_def)

lemma post_wrapS: "post P m Q \<Longrightarrow> post P (wrapS msg m) Q"
  by (auto simp: post_def wrapS_Ok_iff)

lemma post_bindS_prod:
  "post P m (\<lambda>(a, b). R a b) \<Longrightarrow> (\<And>a b. post (R a b) (f a b) Q) \<Longrightarrow> post P (bindS m (\<lambda>(a, b). f a b)) Q"
  by (erule post_bindS) auto

lemma post_bindS_ex:
  "post P m (\<lambda>_ s. \<exists>a. R a s) \<Longrightarrow> (\<And>x a. post (R a) (f x) Q) \<Longrightarrow> post P (bindS m f) Q"
  by (erule post_bindS) (auto simp: post_def)

text \<open>The next step keeps the precondition, or changes it as stated.\<close>

lemma post_keep_bindS: "keeps P m \<Longrightarrow> (\<And>x. post P (f x) Q) \<Longrightarrow> post P (bindS m f) Q"
  by (rule post_bindS [OF post_keeps])

section \<open>Laws of the environment\<close>

text \<open>
  The calls of wasmd write to their own stores only, and a successful change of the admin of a contract
  changes this one field of one contract.
\<close>

definition boot_laws :: "('w, 'd) boot_env \<Rightarrow> bool" where
  "boot_laws B \<longleftrightarrow>
     calls_frame (b_calls B) \<and>
     (\<forall>a c s. own_state (snd (k_Create (b_ops B) a c s)) = own_state s) \<and>
     (\<forall>i a c m l f s. own_state (snd (k_Instantiate (b_ops B) i a c m l f s)) = own_state s) \<and>
     (\<forall>i s. own_state (snd (k_PinCode (b_ops B) i s)) = own_state s) \<and>
     (\<forall>a old new s s'. k_UpdateContractAdmin (b_ops B) a old new s = (Ok (), s') \<longrightarrow>
        own_state s' = own_state s \<and>
        (\<exists>info. GetContractInfo (b_ext B) a (p_world s) = Some info \<and>
           (\<forall>c. GetContractInfo (b_ext B) c (p_world s') =
              (if c = a then Some (info\<lparr>ci_Admin := sAddrString (e_sdk (b_msg B)) new\<rparr>)
               else GetContractInfo (b_ext B) c (p_world s)))))"

lemma boot_laws_frame:
  assumes "boot_laws B"
  shows "calls_frame (b_calls B)"
    and "keeps (\<lambda>s. own_state s = st) (k_Create (b_ops B) a c)"
    and "keeps (\<lambda>s. own_state s = st) (k_Instantiate (b_ops B) i a d m l f)"
    and "keeps (\<lambda>s. own_state s = st) (k_PinCode (b_ops B) i)"
  using assms by (simp_all add: boot_laws_def keeps_def)

lemma boot_laws_admin:
  assumes "boot_laws B" and "k_UpdateContractAdmin (b_ops B) a old new s = (Ok (), s')"
  obtains info where "own_state s' = own_state s" and "GetContractInfo (b_ext B) a (p_world s) = Some info"
    and "\<And>c. GetContractInfo (b_ext B) c (p_world s') =
      (if c = a then Some (info\<lparr>ci_Admin := sAddrString (e_sdk (b_msg B)) new\<rparr>)
       else GetContractInfo (b_ext B) c (p_world s))"
  using assms unfolding boot_laws_def by blast

section \<open>The registry during the setup\<close>

definition registered :: "(PoEContractType \<rightharpoonup> addr) \<Rightarrow> 'w poe_state \<Rightarrow> bool" where
  "registered M s \<longleftrightarrow> (\<forall>t a. M t = Some a \<longrightarrow> GetPoEContractAddress t s = Ok a)"

lemma GetPoEContractAddress_own: "own_state s' = own_state s \<Longrightarrow> GetPoEContractAddress t s' = GetPoEContractAddress t s"
  by (simp add: own_state_def GetPoEContractAddress_def cong: option.case_cong)

lemma registered_keeps:
  fixes m :: "('w poe_state, 'a) act"
  assumes "\<And>st. keeps (\<lambda>s. own_state s = st) m"
  shows "keeps (registered M) m"
proof
  fix s :: "'w poe_state" assume "registered M s"
  moreover have "own_state (snd (m s)) = own_state s" using assms by (simp add: keeps_def)
  ultimately show "registered M (snd (m s))"
    using GetPoEContractAddress_own [of "snd (m s)" s] by (simp add: registered_def)
qed

lemma registered_set:
  assumes t: "PoEContractType_ValidateBasic t = Ok ()" and M: "registered M s"
  shows "registered (M(t \<mapsto> a)) (SetPoEContractAddress t a s)"
  unfolding registered_def
proof (intro allI impI)
  fix u b assume b: "(M(t \<mapsto> a)) u = Some b"
  show "GetPoEContractAddress u (SetPoEContractAddress t a s) = Ok b"
  proof (cases "u = t")
    case True
    with b t show ?thesis by (simp add: cs.get_put)
  next
    case False
    with b M have "GetPoEContractAddress u s = Ok b" by (simp add: registered_def)
    moreover from this have "PoEContractType_ValidateBasic u = Ok ()" using cs.get_undefined [of u s] by auto
    ultimately show ?thesis using False by (simp add: cs.get_put)
  qed
qed

lemma keeps_on_tw: "keeps (\<lambda>s. own_state s = st) (on_tw m)"
  by (auto simp: keeps_def on_tw_def own_state_def split: prod.split)

lemma keeps_doExecute:
  "calls_frame X \<Longrightarrow> keeps (\<lambda>s. own_state s = st) (doExecute (x_Execute X) a msg sender coins)"
  unfolding doExecute_def by (intro keeps_msg keeps_calls)

lemma keeps_deposit_escrows:
  "calls_frame (b_calls B) \<Longrightarrow> keeps (\<lambda>s. own_state s = st) (deposit_escrows B tc deposit members)"
  by (induction members) (simp_all add: keeps_rules DepositEscrow_def keeps_doExecute)

lemma keeps_add_others:
  assumes "calls_frame (b_calls B)"
  shows "keeps (\<lambda>s. own_state s = st) (add_others B a members sender deposit)"
  unfolding add_others_def addToTrustedCircle_def Let_def AddVotingMembersProposal_def ExecuteProposal_def
  by (intro keeps_msg keeps_doExecute keeps_deposit_escrows assms)

lemma keeps_admin_updates:
  assumes "calls_frame X"
  shows "keeps (\<lambda>s. own_state s = st) (\<lambda>s. Engagement_UpdateAdmin K (x_Execute X) (f s) n b s)"
    "keeps (\<lambda>s. own_state s = st) (\<lambda>s. Valset_UpdateAdmin K (x_Execute X) (f s) n b s)"
  using keeps_doExecute [OF assms]
  by (simp_all add: keeps_def Engagement_UpdateAdmin_def Valset_UpdateAdmin_def)

text \<open>Every step but \<open>SetPoEContractAddress\<close> keeps what is registered.\<close>

lemma registered_steps:
  assumes "boot_laws B"
  shows "keeps (registered M) (wrapS msg (k_Create (b_ops B) a c))"
    and "keeps (registered M) (wrapS msg (k_Instantiate (b_ops B) i a d m l f))"
    and "keeps (registered M) (wrapS msg (k_PinCode (b_ops B) i))"
    and "keeps (registered M) (wrapS msg (boot_SetPrivileged B a))"
    and "keeps (registered M) (add_others B a ms a' coin)"
    and "keeps (registered M) (wrapS msg (\<lambda>s. Engagement_UpdateAdmin K (x_Execute (b_calls B)) (g s) n b s))"
    and "keeps (registered M) (wrapS msg (\<lambda>s. Valset_UpdateAdmin K (x_Execute (b_calls B)) (g s) n b s))"
  unfolding boot_SetPrivileged_def
  by (intro registered_keeps keeps_rules boot_laws_frame keeps_on_tw keeps_add_others keeps_admin_updates assms)+

lemma valid_kinds:
  "PoEContractType_ValidateBasic PoEContractTypeStaking = Ok ()"
  "PoEContractType_ValidateBasic PoEContractTypeValset = Ok ()"
  "PoEContractType_ValidateBasic PoEContractTypeEngagement = Ok ()"
  "PoEContractType_ValidateBasic PoEContractTypeMixer = Ok ()"
  "PoEContractType_ValidateBasic PoEContractTypeDistribution = Ok ()"
  "PoEContractType_ValidateBasic PoEContractTypeOversightCommunity = Ok ()"
  "PoEContractType_ValidateBasic PoEContractTypeOversightCommunityGovProposals = Ok ()"
  "PoEContractType_ValidateBasic PoEContractTypeCommunityPool = Ok ()"
  "PoEContractType_ValidateBasic PoEContractTypeValidatorVoting = Ok ()"
  "PoEContractType_ValidateBasic PoEContractTypeArbiterPool = Ok ()"
  "PoEContractType_ValidateBasic PoEContractTypeArbiterPoolVoting = Ok ()"
  by (simp_all add: PoEContractType_valid_iff poe_type_defs)

lemma post_set_bindS:
  "PoEContractType_ValidateBasic t = Ok () \<Longrightarrow> post (registered (M(t \<mapsto> a))) (g ()) Q \<Longrightarrow>
    post (registered M) (bindS (modify (SetPoEContractAddress t a)) g) Q"
  by (rule post_bindS [where R = "\<lambda>_. registered (M(t \<mapsto> a))"], rule post_modify) (simp_all add: registered_set)

lemmas post_steps = post_set_bindS post_keep_bindS valid_kinds post_ret keeps_lift_res keeps_read

lemma setup_engagement_post:
  assumes "boot_laws B"
  shows "post (registered M) (setup_engagement B gs ba)
    (\<lambda>(c, a). registered (M(PoEContractTypeEngagement \<mapsto> a)))"
  unfolding setup_engagement_def by (intro post_steps registered_steps assms) simp

lemma setup_oversight_community_post:
  assumes "boot_laws B"
  shows "post (registered M) (setup_oversight_community B gs ba)
    (\<lambda>(c, a). registered (M(PoEContractTypeOversightCommunity \<mapsto> a)))"
  unfolding setup_oversight_community_def by (intro post_steps registered_steps assms) simp

lemma setup_stake_post:
  assumes "boot_laws B"
  shows "post (registered M) (setup_stake B gs ba) (\<lambda>a. registered (M(PoEContractTypeStaking \<mapsto> a)))"
  unfolding setup_stake_def by (intro post_steps registered_steps assms)

lemma setup_mixer_post:
  assumes "boot_laws B"
  shows "post (registered M) (setup_mixer B gs ba e st) (\<lambda>a. registered (M(PoEContractTypeMixer \<mapsto> a)))"
  unfolding setup_mixer_def by (intro post_steps registered_steps assms)

lemma setup_community_pool_post:
  assumes "boot_laws B"
  shows "post (registered M) (setup_community_pool B gs ba e) (\<lambda>a. registered (M(PoEContractTypeCommunityPool \<mapsto> a)))"
  unfolding setup_community_pool_def by (intro post_steps registered_steps assms)

lemma setup_valset_post:
  assumes "boot_laws B"
  shows "post (registered M) (setup_valset B gs ba m e c i)
    (\<lambda>(a, d). registered (M(PoEContractTypeValset \<mapsto> a, PoEContractTypeDistribution \<mapsto> d)))"
  unfolding setup_valset_def by (intro post_steps registered_steps assms) simp

lemma setup_oc_proposals_post:
  assumes "boot_laws B"
  shows "post (registered M) (setup_oc_proposals B gs ba oc e v)
    (\<lambda>_ s. \<exists>a. registered (M(PoEContractTypeOversightCommunityGovProposals \<mapsto> a)) s)"
  unfolding setup_oc_proposals_def
  by (intro post_steps registered_steps assms)
    (rule post_weaken [OF post_keeps [OF registered_steps(7) [OF assms]]], blast)

lemma setup_validator_voting_post:
  assumes "boot_laws B"
  shows "post (registered M) (setup_validator_voting B gs ba d) (\<lambda>a. registered (M(PoEContractTypeValidatorVoting \<mapsto> a)))"
  unfolding setup_validator_voting_def by (intro post_steps registered_steps assms)

lemma setup_arbiter_pool_post:
  assumes "boot_laws B"
  shows "post (registered M) (setup_arbiter_pool B gs ba c) (\<lambda>a. registered (M(PoEContractTypeArbiterPool \<mapsto> a)))"
  unfolding setup_arbiter_pool_def by (intro post_steps registered_steps assms)

lemma setup_arbiter_pool_voting_post:
  assumes "boot_laws B"
  shows "post (registered M) (setup_arbiter_pool_voting B gs ba ap)
    (\<lambda>_ s. \<exists>a. registered (M(PoEContractTypeArbiterPoolVoting \<mapsto> a)) s)"
  unfolding setup_arbiter_pool_voting_def
  by (intro post_steps registered_steps assms)
    (rule post_weaken [OF post_keeps [OF registered_steps(3) [OF assms]]], blast)

section \<open>Migrators\<close>

definition admin_is :: "('w, 'd) boot_env \<Rightarrow> addr \<Rightarrow> addr \<Rightarrow> 'w boot_state \<Rightarrow> bool" where
  "admin_is B admin a s \<longleftrightarrow>
     (\<exists>info. GetContractInfo (b_ext B) a (p_world s) = Some info \<and> ci_Admin info = sAddrString (e_sdk (b_msg B)) admin)"

lemma migrators_loop:
  assumes laws: "boot_laws B" and "registered M s" and "\<And>n. n \<in> set names \<Longrightarrow> \<exists>a. M (PoEContractTypeFrom n) = Some a"
    and "call_types names (migrator_cb B old new) (Ok (), s) = (Ok (), (Ok (), s'))"
  shows "registered M s' \<and> (\<forall>n \<in> set names. admin_is B new (the (M (PoEContractTypeFrom n))) s') \<and>
    (\<forall>a. admin_is B new a s \<longrightarrow> admin_is B new a s')"
  using assms(2-)
proof (induction names arbitrary: s)
  case Nil
  then show ?case by (simp add: ret_def)
next
  case (Cons n names)
  obtain a where a: "M (PoEContractTypeFrom n) = Some a" using Cons.prems(2) [of n] by auto
  then have g: "GetPoEContractAddress (PoEContractTypeFrom n) s = Ok a"
    using Cons.prems(1) by (simp add: registered_def)
  obtain r s1 where u: "k_UpdateContractAdmin (b_ops B) a old new s = (r, s1)" by fastforce
  have r: "r = Ok ()"
    using Cons.prems(3) by (cases r) (simp_all add: bindS_def migrator_cb_def g u ret_def)
  have rest: "call_types names (migrator_cb B old new) (Ok (), s1) = (Ok (), (Ok (), s'))"
  proof -
    have "migrator_cb B old new (PoEContractTypeFrom n) (Ok (), s) = (Ok False, (Ok (), s1))"
      by (simp add: migrator_cb_def g u r)
    then show ?thesis using Cons.prems(3) by (simp add: bindS_def)
  qed
  obtain info where o: "own_state s1 = own_state s" and i: "\<And>c. GetContractInfo (b_ext B) c (p_world s1) =
      (if c = a then Some (info\<lparr>ci_Admin := sAddrString (e_sdk (b_msg B)) new\<rparr>)
       else GetContractInfo (b_ext B) c (p_world s))"
    using boot_laws_admin [OF laws u [unfolded r]] by metis
  have "registered M s1"
    using Cons.prems(1) GetPoEContractAddress_own [OF o] by (simp add: registered_def)
  then have IH: "registered M s' \<and> (\<forall>n \<in> set names. admin_is B new (the (M (PoEContractTypeFrom n))) s') \<and>
      (\<forall>a. admin_is B new a s1 \<longrightarrow> admin_is B new a s')"
    using Cons.IH Cons.prems(2) rest by simp
  have "admin_is B new a s1" "\<And>c. admin_is B new c s \<Longrightarrow> admin_is B new c s1"
    by (auto simp: admin_is_def i)
  with IH a show ?case by simp
qed

definition all_kinds :: "(PoEContractType \<rightharpoonup> addr) \<Rightarrow> bool" where
  "all_kinds M \<longleftrightarrow> (\<forall>t. PoEContractType_ValidateBasic t = Ok () \<longrightarrow> M t \<noteq> None)"

lemma sorted_names_valid:
  "PoEContractType_ValidateBasic t = Ok () \<longleftrightarrow> (\<exists>n \<in> set sorted_type_names. t = PoEContractTypeFrom n)"
proof -
  have "(\<exists>n \<in> set sorted_type_names. t = PoEContractTypeFrom n) \<longleftrightarrow> t \<in> set (map PoEContractTypeFrom sorted_type_names)"
    by auto
  also have "\<dots> \<longleftrightarrow> PoEContractType_ValidateBasic t = Ok ()"
    unfolding sorted_type_names_types PoEContractType_valid_iff by (simp, arith)
  finally show ?thesis by blast
qed

lemma migrators_post:
  assumes laws: "boot_laws B" and ord: "mset (b_order B) = mset PoEContractType_name" and M: "all_kinds M"
  shows "post (registered M) (setAllPoEContractsInstanceMigrators B old new)
    (\<lambda>_ s. registered M s \<and> (\<forall>t a. PoEContractType_ValidateBasic t = Ok () \<longrightarrow> M t = Some a \<longrightarrow> admin_is B new a s))"
  unfolding post_def
proof (intro allI impI)
  fix s x s' assume r: "registered M s" and "setAllPoEContractsInstanceMigrators B old new s = (Ok x, s')"
  then have run: "call_types sorted_type_names (migrator_cb B old new) (Ok (), s) = (Ok (), (Ok (), s'))"
    by (auto simp: setAllPoEContractsInstanceMigrators_def IteratePoEContractTypes_def sort_collect_names [OF ord]
        bind_res_Ok_iff split: prod.splits)
  have d: "\<exists>a. M (PoEContractTypeFrom n) = Some a" if "n \<in> set sorted_type_names" for n
    using M that sorted_names_valid by (auto simp: all_kinds_def)
  show "registered M s' \<and> (\<forall>t a. PoEContractType_ValidateBasic t = Ok () \<longrightarrow> M t = Some a \<longrightarrow> admin_is B new a s')"
    using migrators_loop [OF laws r d run] by (auto simp: sorted_names_valid)
qed

lemma all_kinds_setup:
  "all_kinds (M(PoEContractTypeEngagement \<mapsto> e, PoEContractTypeOversightCommunity \<mapsto> oc, PoEContractTypeStaking \<mapsto> st,
     PoEContractTypeMixer \<mapsto> mi, PoEContractTypeCommunityPool \<mapsto> cp, PoEContractTypeValset \<mapsto> vs,
     PoEContractTypeDistribution \<mapsto> di, PoEContractTypeOversightCommunityGovProposals \<mapsto> og,
     PoEContractTypeValidatorVoting \<mapsto> vv, PoEContractTypeArbiterPool \<mapsto> ap, PoEContractTypeArbiterPoolVoting \<mapsto> av))"
  unfolding all_kinds_def by (auto simp: poe_type_defs elim: valid_type_cases)

text \<open>All kinds are registered, and the admin of each is the validator voting contract.\<close>

definition handed_over :: "('w, 'd) boot_env \<Rightarrow> (PoEContractType \<Rightarrow> addr) \<Rightarrow> 'w boot_state \<Rightarrow> bool" where
  "handed_over B addr s \<longleftrightarrow>
     (\<forall>t. PoEContractType_ValidateBasic t = Ok () \<longrightarrow>
        GetPoEContractAddress t s = Ok (addr t) \<and> admin_is B (addr PoEContractTypeValidatorVoting) (addr t) s)"

lemma migrators_hand_over:
  assumes "boot_laws B" and "mset (b_order B) = mset PoEContractType_name" and M: "all_kinds M"
    and "M PoEContractTypeValidatorVoting = Some vv"
  shows "post (registered M) (wrapS msg (setAllPoEContractsInstanceMigrators B old vv)) (\<lambda>_ s. \<exists>addr. handed_over B addr s)"
proof (rule post_wrapS, rule post_weaken [OF migrators_post [OF assms(1-3)]])
  fix x :: unit and s
  assume h: "registered M s \<and> (\<forall>t a. PoEContractType_ValidateBasic t = Ok () \<longrightarrow> M t = Some a \<longrightarrow> admin_is B vv a s)"
  have "handed_over B (\<lambda>t. the (M t)) s"
    using h M assms(4) by (fastforce simp: handed_over_def all_kinds_def registered_def)
  then show "\<exists>addr. handed_over B addr s" by blast
qed

lemma bootstrap_post:
  assumes "boot_laws B" and "mset (b_order B) = mset PoEContractType_name"
  shows "post (registered Map.empty) (BootstrapPoEContracts B gs) (\<lambda>_ s. \<exists>addr. handed_over B addr s)"
  unfolding BootstrapPoEContracts_def
  by (rule post_keep_bindS [OF keeps_lift_res] post_bindS_prod post_bindS_ex [OF setup_oc_proposals_post [OF assms(1)]]
        post_bindS_ex [OF setup_arbiter_pool_voting_post [OF assms(1)]] post_bindS
      setup_engagement_post setup_oversight_community_post setup_stake_post setup_mixer_post setup_community_pool_post
      setup_valset_post setup_validator_voting_post setup_arbiter_pool_post
      migrators_hand_over all_kinds_setup assms)+
    (simp add: poe_type_defs)

section \<open>Verification\<close>

lemma verify_loop:
  assumes "handed_over B addr s" and "\<And>n. n \<in> set names \<Longrightarrow> PoEContractType_ValidateBasic (PoEContractTypeFrom n) = Ok ()"
  shows "call_types names (verify_cb B (addr PoEContractTypeValidatorVoting) s) (Ok ()) = (Ok (), Ok ())"
  using assms(2)
proof (induction names)
  case (Cons n names)
  have "verify_cb B (addr PoEContractTypeValidatorVoting) s (PoEContractTypeFrom n) (Ok ()) = (Ok False, Ok ())"
    using Cons.prems [of n] assms(1) by (auto simp: handed_over_def admin_is_def verify_cb_def)
  with Cons show ?case by (simp add: bindS_def)
qed (simp add: ret_def)

lemma verify_handed_over:
  assumes h: "handed_over B addr s" and ord: "mset (b_order B) = mset PoEContractType_name"
  shows "VerifyPoEContracts B s = Ok () \<longleftrightarrow>
    HasPrivilegedContract (b_ext B) (addr PoEContractTypeValset) PrivilegeTypeValidatorSetUpdate (p_world s) = Ok True \<and>
    HasPrivilegedContract (b_ext B) (addr PoEContractTypeStaking) PrivilegeDelegator (p_world s) = Ok True"
proof -
  have g: "GetPoEContractAddress t s = Ok (addr t)" if "PoEContractType_ValidateBasic t = Ok ()" for t
    using h that by (simp add: handed_over_def)
  have "call_types sorted_type_names (verify_cb B (addr PoEContractTypeValidatorVoting) s) (Ok ()) = (Ok (), Ok ())"
    by (rule verify_loop [OF h]) (auto simp: sorted_names_valid)
  then have "verify_admins B (addr PoEContractTypeValidatorVoting) s = Ok ()"
    by (simp add: verify_admins_def IteratePoEContractTypes_def sort_collect_names [OF ord])
  then show ?thesis
    by (auto simp: VerifyPoEContracts_def g valid_kinds bind_res_Ok_iff)
qed

end
