(* ===== verification/PoELaunch.thy ===== *)
theory PoELaunch
  imports PoESetup
begin

text \<open>
  When the bootstrap succeeds: on a chain that accepts the calls, for a seed that passes the validation.
  A reward ratio of zero passes it too and makes the bootstrap panic.
\<close>

section \<open>Success\<close>

text \<open>A call that returns a value from every state with \<open>P\<close>, and the rules for sequences of such calls.\<close>

definition returns :: "('s \<Rightarrow> bool) \<Rightarrow> ('s, 'a) act \<Rightarrow> bool" where
  "returns P m \<longleftrightarrow> (\<forall>s. P s \<longrightarrow> is_ok (fst (m s)))"

lemma is_ok_iff: "is_ok r \<longleftrightarrow> (\<exists>x. r = Ok x)"
  by (cases r) auto

lemma returnsD:
  assumes "returns P m" and "P s"
  obtains x s' where "m s = (Ok x, s')"
  using assms by (cases "m s") (auto simp: returns_def is_ok_iff)

lemma returns_bindS:
  assumes "returns P m" and "post P m R" and "\<And>x. returns (R x) (f x)"
  shows "returns P (bindS m f)"
  unfolding returns_def
proof (intro allI impI)
  fix s assume "P s"
  with assms(1) obtain x s' where m: "m s = (Ok x, s')" by (rule returnsD)
  with assms(2) \<open>P s\<close> have "R x s'" by (rule postD)
  then show "is_ok (fst (bindS m f s))" using assms(3) m by (simp add: returns_def bindS_Ok)
qed

lemma returns_step: "returns P m \<Longrightarrow> keeps P m \<Longrightarrow> (\<And>x. returns P (f x)) \<Longrightarrow> returns P (bindS m f)"
  by (rule returns_bindS [OF _ post_keeps])

lemma returns_lift: "r = Ok v \<Longrightarrow> returns P (f v) \<Longrightarrow> returns P (bindS (lift_res r) f)"
  by (simp add: returns_def bindS_Ok lift_res_def)

lemma bindS_lift_Ok: "bindS (lift_res (Ok v)) f = f v"
  by (simp add: fun_eq_iff bindS_def lift_res_def)

lemma returns_ret: "returns P (ret x)"
  by (simp add: returns_def ret_def)

lemma returns_wrapS: "returns P m \<Longrightarrow> returns P (wrapS msg m)"
  by (auto simp: returns_def wrapS_def is_ok_iff)

lemma returns_set:
  "PoEContractType_ValidateBasic t = Ok () \<Longrightarrow> returns (registered (M(t \<mapsto> a))) (g ()) \<Longrightarrow>
    returns (registered M) (bindS (modify (SetPoEContractAddress t a)) g)"
  by (simp add: returns_def registered_set)

lemma returns_bindS_prod:
  "returns P m \<Longrightarrow> post P m (\<lambda>(a, b). R a b) \<Longrightarrow> (\<And>a b. returns (R a b) (f a b)) \<Longrightarrow>
    returns P (bindS m (\<lambda>(a, b). f a b))"
  by (erule returns_bindS) auto

lemma returns_bindS_ex:
  "returns P m \<Longrightarrow> post P m (\<lambda>_ s. \<exists>a. R a s) \<Longrightarrow> (\<And>x a. returns (R a) (f x)) \<Longrightarrow> returns P (bindS m f)"
  by (erule returns_bindS) (auto simp: returns_def)

text \<open>
  A chain that accepts the setup: every call of wasmd succeeds, the validator set contract names a
  distribution contract, and a trusted circle has a latest proposal.
\<close>

definition boot_accepts :: "('w, 'd) boot_env \<Rightarrow> bool" where
  "boot_accepts B \<longleftrightarrow>
     (\<forall>a c s. is_ok (fst (k_Create (b_ops B) a c s))) \<and>
     (\<forall>i a c m l f s. is_ok (fst (k_Instantiate (b_ops B) i a c m l f s))) \<and>
     (\<forall>i s. is_ok (fst (k_PinCode (b_ops B) i s))) \<and>
     (\<forall>a old new s. is_ok (fst (k_UpdateContractAdmin (b_ops B) a old new s))) \<and>
     (\<forall>c a m f s. is_ok (fst (x_Execute (b_calls B) c a m f s))) \<and>
     (\<forall>a s. is_ok (fst (SetPrivileged (b_ext B) a s))) \<and>
     (\<forall>s a. \<exists>cfg. QueryConfig (e_nilDec (b_msg B)) (e_json (b_msg B)) (x_QuerySmart (b_calls B) s)
        (NewBaseContractAdapter a None) = Ok cfg \<and> is_ok (sAccAddressFromBech32 (e_sdk (b_msg B)) (vc_ValidatorGroup cfg))) \<and>
     (\<forall>s a. \<exists>p. LatestProposal (e_nilDec (b_msg B)) (e_json (b_msg B)) (x_QuerySmart (b_calls B) s)
        (NewBaseContractAdapter a None) = Ok (Some p))"

lemma returns_on_tw: "(\<And>t. is_ok (fst (m t))) \<Longrightarrow> returns P (on_tw m)"
  unfolding returns_def on_tw_def Let_def case_prod_beta by simp

lemma acceptsD:
  assumes "boot_accepts B"
  shows "is_ok (fst (k_Create (b_ops B) a c s))" "is_ok (fst (k_Instantiate (b_ops B) i a d m l f s))"
    "is_ok (fst (k_PinCode (b_ops B) i s))" "is_ok (fst (k_UpdateContractAdmin (b_ops B) a old new s))"
    "is_ok (fst (x_Execute (b_calls B) d a m f s))" "is_ok (fst (SetPrivileged (b_ext B) a t))"
  using assms by (simp_all add: boot_accepts_def)

lemma accepts_queries:
  assumes "boot_accepts B"
  shows "\<exists>p. LatestProposal (e_nilDec (b_msg B)) (e_json (b_msg B)) (x_QuerySmart (b_calls B) s)
      (NewBaseContractAdapter a None) = Ok (Some p)"
    and "\<exists>cfg. QueryConfig (e_nilDec (b_msg B)) (e_json (b_msg B)) (x_QuerySmart (b_calls B) s)
      (NewBaseContractAdapter a None) = Ok cfg \<and> is_ok (sAccAddressFromBech32 (e_sdk (b_msg B)) (vc_ValidatorGroup cfg))"
  using assms by (simp_all add: boot_accepts_def)

lemma accepts_calls:
  assumes "boot_accepts B"
  shows "returns P (wrapS msg (k_Create (b_ops B) a c))"
    and "returns P (wrapS msg (k_Instantiate (b_ops B) i a d m l f))"
    and "returns P (wrapS msg (k_PinCode (b_ops B) i))"
    and "returns P (wrapS msg (boot_SetPrivileged B a))"
  unfolding boot_SetPrivileged_def
  by (intro returns_wrapS returns_on_tw acceptsD [OF assms]; simp add: returns_def acceptsD [OF assms])+

lemma returns_dropS: "(\<And>s. is_ok (fst (m s))) \<Longrightarrow> returns P (dropS m)"
  unfolding returns_def dropS_def bindS_def by (auto simp: ret_def split: prod.split res.split) (metis fst_conv is_ok.simps)+

lemma accepts_execute:
  assumes "boot_accepts B" and "ba_addressLookupErr a = None"
  shows "returns P (doExecute (x_Execute (b_calls B)) a msg sender coins)"
  using assms(2) by (simp add: doExecute_def returns_wrapS returns_dropS acceptsD [OF assms(1)])

lemma returns_deposit_escrows:
  assumes acc: "boot_accepts B" and "calls_frame (b_calls B)" and "mc_Amount deposit = Some n"
    and "\<forall>m \<in> set members. is_ok (sAccAddressFromBech32 (e_sdk (b_msg B)) m)" and "ba_addressLookupErr tc = None"
  shows "returns (registered M) (deposit_escrows B tc deposit members)"
  using assms(4)
proof (induction members)
  case (Cons m ms)
  then obtain a where "sAccAddressFromBech32 (e_sdk (b_msg B)) m = Ok a" by (auto simp: is_ok_iff)
  then show ?case
    using Cons assms
    by (auto simp: deposit_coin_def DepositEscrow_def
        intro!: returns_lift returns_step returns_wrapS accepts_execute registered_keeps keeps_wrapS keeps_doExecute)
qed (simp add: returns_ret)

lemma returns_add_others:
  fixes B :: "('w, 'd) boot_env"
  assumes acc: "boot_accepts B" and fr: "calls_frame (b_calls B)" and "mc_Amount deposit = Some n"
    and "\<forall>m \<in> set members. is_ok (sAccAddressFromBech32 (e_sdk (b_msg B)) m)"
  shows "returns (registered M) (add_others B a members sender deposit)"
proof -
  let ?tc = "NewBaseContractAdapter a None"
  have tc: "ba_addressLookupErr ?tc = None" by (simp add: NewBaseContractAdapter_def)
  have "\<forall>m \<in> set (tl members). is_ok (sAccAddressFromBech32 (e_sdk (b_msg B)) m)"
    using assms(4) by (cases members) auto
  note dep = returns_deposit_escrows [OF acc fr assms(3) this tc]
  have latest: "returns (registered M) (bindS (\<lambda>s. (wrap_res ''query latest proposal''
        (LatestProposal (e_nilDec (b_msg B)) (e_json (b_msg B)) (x_QuerySmart (b_calls B) s) ?tc), s)) (\<lambda>latest.
      bindS (lift_res (deref latest)) f))" if "\<And>x. returns (registered M) (f x)" for f
    unfolding returns_def
  proof (intro allI impI)
    fix s :: "'w boot_state" assume s: "registered M s"
    obtain p where "LatestProposal (e_nilDec (b_msg B)) (e_json (b_msg B)) (x_QuerySmart (b_calls B) s) ?tc = Ok (Some p)"
      using accepts_queries(1) [OF acc] by blast
    then show "is_ok (fst (bindS (\<lambda>s. (wrap_res ''query latest proposal''
        (LatestProposal (e_nilDec (b_msg B)) (e_json (b_msg B)) (x_QuerySmart (b_calls B) s) ?tc), s)) (\<lambda>latest.
      bindS (lift_res (deref latest)) f) s))"
      using that s by (simp add: bindS_def lift_res_def returns_def)
  qed
  show ?thesis
    unfolding add_others_def addToTrustedCircle_def Let_def AddVotingMembersProposal_def ExecuteProposal_def
    by (auto intro!: returns_ret returns_step latest dep returns_wrapS accepts_execute [OF acc tc] registered_keeps
        keeps_wrapS keeps_doExecute [OF fr])
qed

text \<open>The stages return when the messages can be built and the addresses decode.\<close>

lemmas returns_steps = returns_set returns_step valid_kinds returns_ret

lemmas pure_steps = bindS_lift_Ok deref_simps(1) wrap_res.simps first_member_def list.case

lemma setup_engagement_returns:
  assumes B: "boot_laws B" "boot_accepts B" and "newEngagementInitMsg (b_msg B) gs ba = Ok msg"
  shows "returns (registered M) (setup_engagement B gs ba)"
  unfolding setup_engagement_def assms(3) pure_steps by (intro returns_steps accepts_calls registered_steps B)

lemma setup_oversight_community_returns:
  assumes B: "boot_laws B" "boot_accepts B" and "newOCInitMsg (b_msg B) gs = Ok msg"
    and "sc_OversightCommittee gs = Some cfg" and "NewCoins (e_sdk (b_msg B)) [oc_EscrowAmount cfg] = Ok coins"
    and "mc_Amount (oc_EscrowAmount cfg) = Some n" and "OversightCommunityMembers gs = m # ms"
    and mem: "\<forall>m \<in> set (OversightCommunityMembers gs). is_ok (sAccAddressFromBech32 (e_sdk (b_msg B)) m)"
  shows "returns (registered M) (setup_oversight_community B gs ba)"
proof -
  obtain a where a: "sAccAddressFromBech32 (e_sdk (b_msg B)) m = Ok a" using mem assms(7) by (auto simp: is_ok_iff)
  show ?thesis
    unfolding setup_oversight_community_def assms(3-4,7) pure_steps a assms(5)
    by (intro returns_steps accepts_calls registered_steps B
        returns_add_others [OF B(2) boot_laws_frame(1) [OF B(1)] assms(6)] mem [unfolded assms(7)])
qed

lemma setup_stake_returns:
  assumes B: "boot_laws B" "boot_accepts B" and "newStakeInitMsg (b_msg B) gs ba = Ok msg"
  shows "returns (registered M) (setup_stake B gs ba)"
  unfolding setup_stake_def assms(3) pure_steps by (intro returns_steps accepts_calls registered_steps B)

lemma setup_mixer_returns:
  assumes B: "boot_laws B" "boot_accepts B" and "newMixerInitMsg (b_msg B) gs e st = Ok msg"
  shows "returns (registered M) (setup_mixer B gs ba e st)"
  unfolding setup_mixer_def assms(3) pure_steps by (intro returns_steps accepts_calls registered_steps B)

lemma setup_community_pool_returns:
  assumes B: "boot_laws B" "boot_accepts B" and "sc_CommunityPool gs = Some cfg"
    and "toContractVotingRules (b_msg B) (cp_VotingRules cfg) = Ok rules"
  shows "returns (registered M) (setup_community_pool B gs ba e)"
  unfolding setup_community_pool_def assms(3) pure_steps assms(4) by (intro returns_steps accepts_calls registered_steps B)

lemma ValsetContract_registered:
  "registered M s \<Longrightarrow> M PoEContractTypeValset = Some a \<Longrightarrow> ValsetContract s = NewBaseContractAdapter a None"
  by (simp add: registered_def ValsetContract_def lookup_adapter_def)

lemma EngagementContract_registered:
  "registered M s \<Longrightarrow> M PoEContractTypeEngagement = Some a \<Longrightarrow> EngagementContract s = NewBaseContractAdapter a None"
  by (simp add: registered_def EngagementContract_def lookup_adapter_def)

lemma setup_valset_returns:
  fixes B :: "('w, 'd) boot_env"
  assumes B: "boot_laws B" "boot_accepts B" and "newValsetInitMsg (b_msg B) gs ba m e c i = Ok msg"
  shows "returns (registered M) (setup_valset B gs ba m e c i)"
proof -
  have cfg: "returns (registered (M(PoEContractTypeValset \<mapsto> a))) (bindS (\<lambda>s. (wrap_res ''query valset config''
       (QueryConfig (e_nilDec (b_msg B)) (e_json (b_msg B)) (x_QuerySmart (b_calls B) s) (ValsetContract s)), s)) (\<lambda>valsetCfg.
     bindS (lift_res (wrap_res ''distribution contract address''
       (sAccAddressFromBech32 (e_sdk (b_msg B)) (vc_ValidatorGroup valsetCfg)))) f))"
    if f: "\<And>x. returns (registered (M(PoEContractTypeValset \<mapsto> a))) (f x)" for a f
    unfolding returns_def
  proof (intro allI impI)
    fix s :: "'w boot_state" assume s: "registered (M(PoEContractTypeValset \<mapsto> a)) s"
    then have v: "ValsetContract s = NewBaseContractAdapter a None" by (rule ValsetContract_registered) simp
    obtain cfg d where "QueryConfig (e_nilDec (b_msg B)) (e_json (b_msg B)) (x_QuerySmart (b_calls B) s)
        (NewBaseContractAdapter a None) = Ok cfg" "sAccAddressFromBech32 (e_sdk (b_msg B)) (vc_ValidatorGroup cfg) = Ok d"
      using accepts_queries(2) [OF B(2), of s a] by (auto simp: is_ok_iff)
    then show "is_ok (fst (bindS (\<lambda>s. (wrap_res ''query valset config''
       (QueryConfig (e_nilDec (b_msg B)) (e_json (b_msg B)) (x_QuerySmart (b_calls B) s) (ValsetContract s)), s)) (\<lambda>valsetCfg.
     bindS (lift_res (wrap_res ''distribution contract address''
       (sAccAddressFromBech32 (e_sdk (b_msg B)) (vc_ValidatorGroup valsetCfg)))) f) s))"
      using f s v by (simp add: bindS_def lift_res_def returns_def)
  qed
  show ?thesis
    unfolding setup_valset_def assms(3) pure_steps
    by (intro returns_set cfg returns_steps accepts_calls registered_steps B)
qed

lemma returns_update_admins:
  assumes "boot_accepts B"
  shows "M PoEContractTypeEngagement = Some a \<Longrightarrow> returns (registered M) (wrapS msg
      (\<lambda>s. Engagement_UpdateAdmin K (x_Execute (b_calls B)) (EngagementContract s) n b s))"
    and "M PoEContractTypeValset = Some a \<Longrightarrow> returns (registered M) (wrapS msg
      (\<lambda>s. Valset_UpdateAdmin K (x_Execute (b_calls B)) (ValsetContract s) n b s))"
  using accepts_execute [OF assms, of "NewBaseContractAdapter a None" "\<lambda>_. True"]
  by (intro returns_wrapS; simp add: returns_def Engagement_UpdateAdmin_def Valset_UpdateAdmin_def
      EngagementContract_registered ValsetContract_registered NewBaseContractAdapter_def)+

lemma setup_oc_proposals_returns:
  assumes B: "boot_laws B" "boot_accepts B" and "newOCGovProposalsInitMsg (b_msg B) gs oc e v = Ok msg"
    and "M PoEContractTypeEngagement = Some a" and "M PoEContractTypeValset = Some a'"
  shows "returns (registered M) (setup_oc_proposals B gs ba oc e v)"
  unfolding setup_oc_proposals_def assms(3) pure_steps
  by (intro returns_steps accepts_calls registered_steps B returns_update_admins;
      simp add: poe_type_defs assms(4,5) [unfolded poe_type_defs])

lemma setup_validator_voting_returns:
  assumes B: "boot_laws B" "boot_accepts B" and "sc_ValidatorVoting gs = Some cfg"
    and "toContractVotingRules (b_msg B) (vv_VotingRules cfg) = Ok rules"
  shows "returns (registered M) (setup_validator_voting B gs ba d)"
  unfolding setup_validator_voting_def assms(3) pure_steps assms(4) by (intro returns_steps accepts_calls registered_steps B)

lemma setup_arbiter_pool_returns:
  assumes B: "boot_laws B" "boot_accepts B" and "newAPTrustedCircleInitMsg (b_msg B) gs = Ok msg"
    and "sc_ArbiterPool gs = Some cfg" and "NewCoins (e_sdk (b_msg B)) [ap_EscrowAmount cfg] = Ok coins"
    and "mc_Amount (ap_EscrowAmount cfg) = Some n" and "ArbiterPoolMembers gs = m # ms"
    and mem: "\<forall>m \<in> set (ArbiterPoolMembers gs). is_ok (sAccAddressFromBech32 (e_sdk (b_msg B)) m)"
  shows "returns (registered M) (setup_arbiter_pool B gs ba c)"
proof -
  obtain a where a: "sAccAddressFromBech32 (e_sdk (b_msg B)) m = Ok a" using mem assms(7) by (auto simp: is_ok_iff)
  show ?thesis
    unfolding setup_arbiter_pool_def assms(3-4,7) pure_steps a assms(5)
    by (intro returns_steps accepts_calls registered_steps B
        returns_add_others [OF B(2) boot_laws_frame(1) [OF B(1)] assms(6)] mem [unfolded assms(7)])
qed

lemma setup_arbiter_pool_voting_returns:
  assumes B: "boot_laws B" "boot_accepts B" and "newArbiterPoolVotingInitMsg (b_msg B) gs ap = Ok msg"
  shows "returns (registered M) (setup_arbiter_pool_voting B gs ba ap)"
  unfolding setup_arbiter_pool_voting_def assms(3) pure_steps by (intro returns_steps accepts_calls registered_steps B)

lemma migrators_return:
  assumes laws: "boot_laws B" and acc: "boot_accepts B" and ord: "mset (b_order B) = mset PoEContractType_name"
    and M: "all_kinds M"
  shows "returns (registered M) (setAllPoEContractsInstanceMigrators B old new)"
proof -
  have loop: "\<exists>s'. call_types names (migrator_cb B old new) (Ok (), s) = (Ok (), (Ok (), s'))"
    if "registered M s" "\<And>n. n \<in> set names \<Longrightarrow> \<exists>a. M (PoEContractTypeFrom n) = Some a" for names s
    using that
  proof (induction names arbitrary: s)
    case (Cons n names)
    obtain a where "M (PoEContractTypeFrom n) = Some a" using Cons.prems(2) [of n] by auto
    then have g: "GetPoEContractAddress (PoEContractTypeFrom n) s = Ok a"
      using Cons.prems(1) by (simp add: registered_def)
    obtain s1 where u: "k_UpdateContractAdmin (b_ops B) a old new s = (Ok (), s1)"
      using acceptsD(4) [OF acc, of a old new s] by (cases "k_UpdateContractAdmin (b_ops B) a old new s") (auto simp: is_ok_iff)
    have "own_state s1 = own_state s" using boot_laws_admin [OF laws u] by metis
    then have "registered M s1" using Cons.prems(1) GetPoEContractAddress_own by (metis registered_def)
    then obtain s' where r: "call_types names (migrator_cb B old new) (Ok (), s1) = (Ok (), (Ok (), s'))"
      using Cons by auto
    have "migrator_cb B old new (PoEContractTypeFrom n) (Ok (), s) = (Ok False, (Ok (), s1))"
      by (simp add: migrator_cb_def g u)
    with r show ?case by (simp add: bindS_def)
  qed (simp add: ret_def)
  have "\<exists>a. M (PoEContractTypeFrom n) = Some a" if "n \<in> set sorted_type_names" for n
    using M that sorted_names_valid by (auto simp: all_kinds_def)
  then show ?thesis
    using loop [of _ sorted_type_names]
    by (fastforce simp: returns_def setAllPoEContractsInstanceMigrators_def IteratePoEContractTypes_def
        sort_collect_names [OF ord])
qed

text \<open>The messages that the setup sends can be built, that for the validator set contract apart.\<close>

definition messages_ok :: "'d init_env \<Rightarrow> ('t, 'd) SeedContracts \<Rightarrow> bool" where
  "messages_ok E gs \<longleftrightarrow>
     (\<forall>ba. is_ok (newEngagementInitMsg E gs ba) \<and> is_ok (newStakeInitMsg E gs ba)) \<and> is_ok (newOCInitMsg E gs) \<and>
     (\<forall>e st. is_ok (newMixerInitMsg E gs e st)) \<and>
     (\<exists>c. sc_CommunityPool gs = Some c \<and> is_ok (toContractVotingRules E (cp_VotingRules c))) \<and>
     (\<forall>oc e v. is_ok (newOCGovProposalsInitMsg E gs oc e v)) \<and>
     (\<exists>c. sc_ValidatorVoting gs = Some c \<and> is_ok (toContractVotingRules E (vv_VotingRules c))) \<and>
     is_ok (newAPTrustedCircleInitMsg E gs) \<and> (\<forall>ap. is_ok (newArbiterPoolVotingInitMsg E gs ap)) \<and>
     (\<exists>c n. sc_OversightCommittee gs = Some c \<and> is_ok (NewCoins (e_sdk E) [oc_EscrowAmount c]) \<and>
        mc_Amount (oc_EscrowAmount c) = Some n) \<and>
     (\<exists>c n. sc_ArbiterPool gs = Some c \<and> is_ok (NewCoins (e_sdk E) [ap_EscrowAmount c]) \<and>
        mc_Amount (ap_EscrowAmount c) = Some n) \<and>
     OversightCommunityMembers gs \<noteq> [] \<and> (\<forall>m \<in> set (OversightCommunityMembers gs). is_ok (sAccAddressFromBech32 (e_sdk E) m)) \<and>
     ArbiterPoolMembers gs \<noteq> [] \<and> (\<forall>m \<in> set (ArbiterPoolMembers gs). is_ok (sAccAddressFromBech32 (e_sdk E) m)) \<and>
     is_ok (sAccAddressFromBech32 (e_sdk E) (BootstrapAccountAddress gs))"

lemma stages_return:
  assumes B: "boot_laws B" "boot_accepts B" and msgs: "messages_ok (b_msg B) gs"
  shows "returns (registered M) (setup_engagement B gs ba)" "returns (registered M) (setup_oversight_community B gs ba)"
    "returns (registered M) (setup_stake B gs ba)" "returns (registered M) (setup_mixer B gs ba e st)"
    "returns (registered M) (setup_community_pool B gs ba e)"
    "M PoEContractTypeEngagement = Some a \<Longrightarrow> M PoEContractTypeValset = Some a' \<Longrightarrow>
       returns (registered M) (setup_oc_proposals B gs ba oc e v)"
    "returns (registered M) (setup_validator_voting B gs ba d)" "returns (registered M) (setup_arbiter_pool B gs ba i)"
    "returns (registered M) (setup_arbiter_pool_voting B gs ba ap)"
  subgoal using setup_engagement_returns [OF B] msgs unfolding messages_ok_def is_ok_iff by metis
  subgoal using setup_oversight_community_returns [OF B] msgs unfolding messages_ok_def is_ok_iff
    by (metis neq_Nil_conv)
  subgoal using setup_stake_returns [OF B] msgs unfolding messages_ok_def is_ok_iff by metis
  subgoal using setup_mixer_returns [OF B] msgs unfolding messages_ok_def is_ok_iff by metis
  subgoal using setup_community_pool_returns [OF B] msgs unfolding messages_ok_def is_ok_iff by metis
  subgoal using setup_oc_proposals_returns [OF B] msgs unfolding messages_ok_def is_ok_iff by metis
  subgoal using setup_validator_voting_returns [OF B] msgs unfolding messages_ok_def is_ok_iff by metis
  subgoal using setup_arbiter_pool_returns [OF B] msgs unfolding messages_ok_def is_ok_iff
    by (metis neq_Nil_conv)
  subgoal using setup_arbiter_pool_voting_returns [OF B] msgs unfolding messages_ok_def is_ok_iff by metis
  done

lemmas stage_posts =
  returns_bindS_prod [OF _ setup_engagement_post] returns_bindS_prod [OF _ setup_oversight_community_post]
  returns_bindS [OF _ setup_stake_post] returns_bindS [OF _ setup_mixer_post]
  returns_bindS [OF _ setup_community_pool_post] returns_bindS_prod [OF _ setup_valset_post]
  returns_bindS_ex [OF _ setup_oc_proposals_post] returns_bindS [OF _ setup_validator_voting_post]
  returns_bindS [OF _ setup_arbiter_pool_post] returns_bindS_ex [OF _ setup_arbiter_pool_voting_post]

lemma bootstrap_returns:
  assumes B: "boot_laws B" "boot_accepts B" and ord: "mset (b_order B) = mset PoEContractType_name"
    and msgs: "messages_ok (b_msg B) gs" and vs: "\<And>ba m e c i. is_ok (newValsetInitMsg (b_msg B) gs ba m e c i)"
  shows "returns (registered Map.empty) (BootstrapPoEContracts B gs)"
proof -
  obtain ba where ba: "sAccAddressFromBech32 (e_sdk (b_msg B)) (BootstrapAccountAddress gs) = Ok ba"
    using msgs by (auto simp: messages_ok_def is_ok_iff)
  have valset: "returns (registered M) (setup_valset B gs ba m e c i)" for M m e c i
    using setup_valset_returns [OF B] vs unfolding is_ok_iff by metis
  show ?thesis
    unfolding BootstrapPoEContracts_def ba pure_steps
    by (rule stage_posts stages_return [OF B msgs] valset returns_wrapS migrators_return [OF B ord] all_kinds_setup B
      | (simp add: poe_type_defs; fail))+
qed

text \<open>A call that panics from every state with \<open>P\<close>.\<close>

definition panics :: "('s \<Rightarrow> bool) \<Rightarrow> ('s, 'a) act \<Rightarrow> bool" where
  "panics P m \<longleftrightarrow> (\<forall>s. P s \<longrightarrow> (\<exists>p s'. m s = (Panic p, s')))"

lemma panics_first: "panics P m \<Longrightarrow> panics P (bindS m f)"
  unfolding panics_def by (metis bindS_Panic)

lemma panics_later:
  assumes "returns P m" and "post P m R" and "\<And>x. panics (R x) (f x)"
  shows "panics P (bindS m f)"
  unfolding panics_def
proof (intro allI impI)
  fix s assume "P s"
  with assms(1) obtain x s' where m: "m s = (Ok x, s')" by (rule returnsD)
  with assms(2) \<open>P s\<close> have "R x s'" by (rule postD)
  then show "\<exists>p s'. bindS m f s = (Panic p, s')" using assms(3) m by (simp add: panics_def bindS_Ok)
qed

lemma panics_later_prod:
  "returns P m \<Longrightarrow> post P m (\<lambda>(a, b). R a b) \<Longrightarrow> (\<And>a b. panics (R a b) (f a b)) \<Longrightarrow>
    panics P (bindS m (\<lambda>(a, b). f a b))"
  by (erule panics_later) auto

lemma setup_valset_panics:
  assumes B: "boot_laws B" "boot_accepts B" and "newValsetInitMsg (b_msg B) gs ba m e c i = Panic p"
  shows "panics (registered M) (setup_valset B gs ba m e c i)"
  unfolding setup_valset_def assms(3)
  by (rule panics_later, rule accepts_calls, fact, rule post_keeps, rule registered_steps, fact)
    (simp add: panics_def bindS_def lift_res_def)

lemma bootstrap_panics:
  assumes B: "boot_laws B" "boot_accepts B" and msgs: "messages_ok (b_msg B) gs"
    and vs: "\<And>ba m e c i. newValsetInitMsg (b_msg B) gs ba m e c i = Panic p"
  shows "panics (registered Map.empty) (BootstrapPoEContracts B gs)"
proof -
  obtain ba where ba: "sAccAddressFromBech32 (e_sdk (b_msg B)) (BootstrapAccountAddress gs) = Ok ba"
    using msgs by (auto simp: messages_ok_def is_ok_iff)
  show ?thesis
    unfolding BootstrapPoEContracts_def ba pure_steps
    by (rule panics_first [OF setup_valset_panics] panics_later_prod [OF _ setup_engagement_post]
        panics_later_prod [OF _ setup_oversight_community_post] panics_later [OF _ setup_stake_post]
        panics_later [OF _ setup_mixer_post] panics_later [OF _ setup_community_pool_post]
        stages_return [OF B msgs] B vs)+
qed

section \<open>Messages from a validated seed\<close>

definition quo_laws :: "('d \<Rightarrow> rat) \<Rightarrow> 'd init_env \<Rightarrow> bool" where
  "quo_laws val E \<longleftrightarrow>
     dec_laws val (e_dec E) \<and> (\<forall>x n. \<not> Dec_IsNil (e_dec E) x \<longrightarrow> n \<noteq> 0 \<longrightarrow> is_ok (e_QuoInt64 E x n)) \<and>
     sdk_laws (e_sdk E) \<and> (\<forall>c. coin_valid (e_sdk E) c \<longrightarrow> is_ok (NewCoins (e_sdk E) [c])) \<and>
     (\<forall>n. \<not> is_ok (Int_LTE (e_sdk E) None n))"

lemma DecimalFromPercentage_law:
  assumes "quo_laws val E" and "\<not> Dec_IsNil (e_dec E) x"
  shows "DecimalFromPercentage E x = Ok None \<longleftrightarrow> val x = 0"
    and "val x \<noteq> 0 \<Longrightarrow> \<exists>y. DecimalFromPercentage E x = Ok (Some y)"
proof -
  have z: "Dec_IsZero (e_dec E) x = Ok (val x = 0)" using assms by (simp add: quo_laws_def dec_laws_def)
  obtain y where "e_QuoInt64 E x 100 = Ok y" using assms unfolding quo_laws_def is_ok_iff by fastforce
  with z show "DecimalFromPercentage E x = Ok None \<longleftrightarrow> val x = 0"
    "val x \<noteq> 0 \<Longrightarrow> \<exists>y. DecimalFromPercentage E x = Ok (Some y)"
    by (simp_all add: DecimalFromPercentage_def)
qed

lemma fraction_law:
  assumes "quo_laws val E" and "\<not> Dec_IsNil (e_dec E) x"
  shows "is_ok (fraction E x) \<longleftrightarrow> val x \<noteq> 0"
    and "val x = 0 \<Longrightarrow> fraction E x = Panic ''invalid memory address or nil pointer dereference''"
  using DecimalFromPercentage_law [OF assms]
  by (cases "val x = 0"; force simp: fraction_def deref_def)+

lemma voting_rules_message:
  assumes E: "quo_laws val E" and "VotingRules_ValidateBasic (e_dec E) v = Ok ()"
  shows "is_ok (fraction E (Quorum v))" "is_ok (fraction E (Threshold v))" "is_ok (toContractVotingRules E v)"
proof -
  have "\<not> Dec_IsNil (e_dec E) (Quorum v) \<and> val (Quorum v) \<noteq> 0 \<and> \<not> Dec_IsNil (e_dec E) (Threshold v) \<and> val (Threshold v) \<noteq> 0"
    using assms VotingRules_valid_iff [of val "e_dec E" v] by (auto simp: quo_laws_def)
  then show q: "is_ok (fraction E (Quorum v))" "is_ok (fraction E (Threshold v))"
    using fraction_law(1) [OF E] by simp_all
  then show "is_ok (toContractVotingRules E v)" by (auto simp: toContractVotingRules_def is_ok_iff)
qed

lemma valset_message_iff:
  assumes E: "quo_laws val E" and c: "sc_Valset gs = Some c" and n: "\<forall>r \<in> set (FeePercentage c # ratios c). \<not> Dec_IsNil (e_dec E) r"
  shows "is_ok (newValsetInitMsg E gs a m e p i) \<longleftrightarrow> val (EngagementRewardRatio c) \<noteq> 0 \<and> val (CommunityPoolRewardRatio c) \<noteq> 0"
    and "\<not> is_ok (newValsetInitMsg E gs a m e p i) \<Longrightarrow>
      newValsetInitMsg E gs a m e p i = Panic ''invalid memory address or nil pointer dereference''"
proof -
  obtain f where f: "DecimalFromPercentage E (FeePercentage c) = Ok f"
    using DecimalFromPercentage_law [OF E, of "FeePercentage c"] n by (cases "val (FeePercentage c) = 0") auto
  have r: "is_ok (fraction E x) \<longleftrightarrow> val x \<noteq> 0"
    "val x = 0 \<Longrightarrow> fraction E x = Panic ''invalid memory address or nil pointer dereference''"
    if "x = EngagementRewardRatio c \<or> x = CommunityPoolRewardRatio c" for x
    using fraction_law [OF E, of x] n that by (auto simp: ratios_def)
  obtain x where x: "val (EngagementRewardRatio c) \<noteq> 0 \<Longrightarrow> fraction E (EngagementRewardRatio c) = Ok x"
    using r(1) [of "EngagementRewardRatio c"] by (auto simp: is_ok_iff)
  obtain y where y: "val (CommunityPoolRewardRatio c) \<noteq> 0 \<Longrightarrow> fraction E (CommunityPoolRewardRatio c) = Ok y"
    using r(1) [of "CommunityPoolRewardRatio c"] by (auto simp: is_ok_iff)
  show "is_ok (newValsetInitMsg E gs a m e p i) \<longleftrightarrow> val (EngagementRewardRatio c) \<noteq> 0 \<and> val (CommunityPoolRewardRatio c) \<noteq> 0"
    "\<not> is_ok (newValsetInitMsg E gs a m e p i) \<Longrightarrow>
      newValsetInitMsg E gs a m e p i = Panic ''invalid memory address or nil pointer dereference''"
    by (cases "val (EngagementRewardRatio c) = 0"; cases "val (CommunityPoolRewardRatio c) = 0";
        simp add: newValsetInitMsg_def c f x y r(2))+
qed

lemma circle_messages:
  assumes E: "quo_laws val E" and seed: "validateSeedContracts (e_sdk E) (e_dec E) G gs = Ok ()"
  shows "is_ok (newOCInitMsg E gs)" "is_ok (newOCGovProposalsInitMsg E gs oc e v)"
    "is_ok (newAPTrustedCircleInitMsg E gs)" "is_ok (newArbiterPoolVotingInitMsg E gs ap)"
    "\<exists>c. sc_CommunityPool gs = Some c \<and> is_ok (toContractVotingRules E (cp_VotingRules c))"
    "\<exists>c. sc_ValidatorVoting gs = Some c \<and> is_ok (toContractVotingRules E (vv_VotingRules c))"
proof -
  note seed' = seed [unfolded seed_valid_iff]
  obtain c where c: "sc_OversightCommittee gs = Some c" "OversightCommitteeContractConfig_ValidateBasic (e_sdk E) (e_dec E) c = Ok ()"
    using seed' by (elim conjE exE) (rule that, assumption+)
  have "VotingRules_ValidateBasic (e_dec E) (oc_VotingRules c) = Ok ()"
    using c(2) by (simp add: OversightCommitteeContractConfig_ValidateBasic_def all_checks_Ok circle_checks_def)
  from voting_rules_message [OF E this] show "is_ok (newOCInitMsg E gs)" "is_ok (newOCGovProposalsInitMsg E gs oc e v)"
    by (auto simp: newOCInitMsg_def newOCGovProposalsInitMsg_def c(1) is_ok_iff)
  obtain d where d: "sc_ArbiterPool gs = Some d" "ArbiterPoolContractConfig_ValidateBasic (e_sdk E) (e_dec E) (negUint64 G) d = Ok ()"
    using seed' by (elim conjE exE) (rule that, assumption+)
  have "VotingRules_ValidateBasic (e_dec E) (ap_VotingRules d) = Ok ()"
    using d(2) by (simp add: ArbiterPoolContractConfig_ValidateBasic_def all_checks_Ok circle_checks_def)
  from voting_rules_message [OF E this] show "is_ok (newAPTrustedCircleInitMsg E gs)" "is_ok (newArbiterPoolVotingInitMsg E gs ap)"
    by (auto simp: newAPTrustedCircleInitMsg_def newArbiterPoolVotingInitMsg_def d(1) is_ok_iff)
  obtain p where "sc_CommunityPool gs = Some p" "CommunityPoolContractConfig_ValidateBasic (e_dec E) p = Ok ()"
    using seed' by (elim conjE exE) (rule that, assumption+)
  then show "\<exists>c. sc_CommunityPool gs = Some c \<and> is_ok (toContractVotingRules E (cp_VotingRules c))"
    using voting_rules_message(3) [OF E] by (simp add: CommunityPoolContractConfig_ValidateBasic_def)
  obtain q where "sc_ValidatorVoting gs = Some q" "ValidatorVotingContractConfig_ValidateBasic (e_dec E) q = Ok ()"
    using seed' by (elim conjE exE) (rule that, assumption+)
  then show "\<exists>c. sc_ValidatorVoting gs = Some c \<and> is_ok (toContractVotingRules E (vv_VotingRules c))"
    using voting_rules_message(3) [OF E] by (simp add: ValidatorVotingContractConfig_ValidateBasic_def)
qed

lemma oc_escrow_valid:
  assumes E: "quo_laws val E" and seed: "validateSeedContracts (e_sdk E) (e_dec E) G gs = Ok ()"
  shows "\<exists>c n. sc_OversightCommittee gs = Some c \<and> is_ok (NewCoins (e_sdk E) [oc_EscrowAmount c]) \<and>
    mc_Amount (oc_EscrowAmount c) = Some n"
proof -
  note seed' = seed [unfolded seed_valid_iff]
  obtain c where c: "sc_OversightCommittee gs = Some c" "OversightCommitteeContractConfig_ValidateBasic (e_sdk E) (e_dec E) c = Ok ()"
      "mc_Denom (oc_EscrowAmount c) = BondDenom gs"
    using seed' by (elim conjE exE) (rule that, assumption+)
  have l: "Int_LTE (e_sdk E) (mc_Amount (oc_EscrowAmount c)) (Some minEscrowAmount) = Ok False"
    using c(2) by (simp add: OversightCommitteeContractConfig_ValidateBasic_def all_checks_Ok circle_checks_def)
  then obtain n where n: "mc_Amount (oc_EscrowAmount c) = Some n"
    using E by (cases "mc_Amount (oc_EscrowAmount c)") (auto simp: quo_laws_def is_ok_iff)
  have "Int_LTE (e_sdk E) (Some n) (Some minEscrowAmount) = Ok (n \<le> minEscrowAmount)"
    using E unfolding quo_laws_def sdk_laws_def by blast
  with l n have "0 \<le> n" by (simp add: minEscrowAmount_def)
  moreover have "ValidateDenom (e_sdk E) (BondDenom gs) = Ok ()" using seed' by (elim conjE)
  ultimately have "coin_valid (e_sdk E) (oc_EscrowAmount c)" using n c(3) by (simp add: coin_valid_def)
  then show ?thesis using E c(1) n by (simp add: quo_laws_def)
qed

lemma seed_messages_ok:
  assumes E: "quo_laws val E" and seed: "validateSeedContracts (e_sdk E) (e_dec E) G gs = Ok ()"
    and ap: "sc_ArbiterPool gs = Some d" "coin_valid (e_sdk E) (ap_EscrowAmount d)"
  shows "messages_ok E gs"
  unfolding messages_ok_def
proof (intro conjI allI circle_messages [OF E seed] oc_escrow_valid [OF E seed])
  note seed' = seed [unfolded seed_valid_iff]
  obtain c where c: "sc_Engagement gs = Some c" using seed' by (elim conjE exE) (rule that, assumption+)
  then show "is_ok (newEngagementInitMsg E gs ba)" for ba by (simp add: newEngagementInitMsg_def)
  obtain c where c: "sc_Stake gs = Some c" using seed' by (elim conjE exE) (rule that, assumption+)
  then show "is_ok (newStakeInitMsg E gs ba)" for ba by (simp add: newStakeInitMsg_def)
  have "MixerContractConfig_ValidateBasic (e_dec E) (sc_Mixer gs) = Ok ()" using seed' by (elim conjE)
  then obtain c where c: "sc_Mixer gs = Some c" by (cases "sc_Mixer gs") (auto simp: MixerContractConfig_ValidateBasic_def)
  then show "is_ok (newMixerInitMsg E gs e st)" for e st by (simp add: newMixerInitMsg_def)
  show "\<exists>c n. sc_ArbiterPool gs = Some c \<and> is_ok (NewCoins (e_sdk E) [ap_EscrowAmount c]) \<and> mc_Amount (ap_EscrowAmount c) = Some n"
    using ap E by (auto simp: coin_valid_def quo_laws_def)
  show "OversightCommunityMembers gs \<noteq> []" using seed' by (elim conjE)
  show "ArbiterPoolMembers gs \<noteq> []" using seed' by (elim conjE)
  show "\<forall>m \<in> set (OversightCommunityMembers gs). is_ok (sAccAddressFromBech32 (e_sdk E) m)"
    unfolding is_ok_iff using seed' by (elim conjE)
  show "\<forall>m \<in> set (ArbiterPoolMembers gs). is_ok (sAccAddressFromBech32 (e_sdk E) m)"
    unfolding is_ok_iff using seed' by (elim conjE)
  show "is_ok (sAccAddressFromBech32 (e_sdk E) (BootstrapAccountAddress gs))"
    unfolding is_ok_iff using seed' by (elim conjE)
qed

section \<open>A sample environment\<close>

text \<open>
  Every address is a contract with both privileges, whose admin is the bootstrap account until it is
  changed; the validator set contract names the contract \<open>d\<close> for the distribution.
\<close>

type_synonym boot_w = "(addr \<times> string) list"

definition boot_ext :: "boot_w wasm_ext" where
  "boot_ext =
     \<lparr>AddrString = bytes_string, AttributeKeyContractAddr = ''_contract_address'',
      AccAddressFromBech32 = (\<lambda>a. Ok (string_bytes a)),
      wGetContractInfo = (\<lambda>w a. Some \<lparr>ci_CodeID = 1, ci_Admin = (case map_of w a of None \<Rightarrow> ''b'' | Some x \<Rightarrow> x),
        ci_Extension = None\<rparr>),
      wReadExtension = (\<lambda>info. Ok [registered_as PrivilegeTypeValidatorSetUpdate 1, registered_as PrivilegeDelegator 1]),
      wSetContractInfoExtension = (\<lambda>a rs. ret ()), wPinCode = (\<lambda>c. ret ()), wUnpinCode = (\<lambda>c. ret ()),
      wContractsByCode = (\<lambda>w c. []), wSudo = (\<lambda>a msg. ret [])\<rparr>"

definition boot_json :: "rat option sdk_json" where
  "boot_json =
     \<lparr>dec_sdk_Coin = (\<lambda>j c. Ok c), dec_sdk_Int = (\<lambda>j i. Ok i), dec_sdk_Dec = (\<lambda>j d. Ok d),
      enc_sdk_Coin = (\<lambda>c. JNull), enc_sdk_Int = (\<lambda>i. JNull), enc_sdk_Dec = (\<lambda>d. JNull)\<rparr>"

definition boot_calls :: "boot_w tw_state poe_calls" where
  "boot_calls =
     \<lparr>x_Execute = (\<lambda>c a m f. ret []), x_Sudo = (\<lambda>c m. ret RawEmpty),
      x_QuerySmart = (\<lambda>s c q. Ok (RawJson (JObj [(''validator_group'', JStr ''d''),
        (''proposals'', JArr [JObj [(''id'', JInt 1)]])])))\<rparr>"

definition boot_contracts :: "boot_w boot_state contract_ops" where
  "boot_contracts =
     \<lparr>k_Create = (\<lambda>a c. ret 1), k_Instantiate = (\<lambda>i a admin m l f. ret (string_bytes l)), k_PinCode = (\<lambda>i. ret ()),
      k_UpdateContractAdmin = (\<lambda>a old new s.
        (Ok (), s\<lparr>p_world := (p_world s)\<lparr>tw_wasm := (a, bytes_string new) # tw_wasm (p_world s)\<rparr>\<rparr>))\<rparr>"

definition boot_msgs :: "rat option init_env" where
  "boot_msgs =
     \<lparr>e_sdk = sample_sdk, e_dec = PoEGenesis.sample_dec,
      e_QuoInt64 = (\<lambda>x n. case x of None \<Rightarrow> Panic ''nil'' | Some r \<Rightarrow> Ok (Some (r / of_int n))),
      e_nilDec = None, e_json = boot_json, e_neg = (\<lambda>_. 0)\<rparr>"

definition boot_sample :: "(boot_w, rat option) boot_env" where
  "boot_sample =
     \<lparr>b_msg = boot_msgs, b_ext = boot_ext, b_calls = boot_calls, b_ops = boot_contracts,
      b_code = \<lparr>pt4Engagement = [1], pt4Stake = [2], pt4Mixer = [3], tgValset = [4], tgTrustedCircles = [5],
        tgOCGovProposalsCircles = [6], tgCommunityPool = [7], tgValidatorVoting = [8], tgArbiterPool = [9]\<rparr>,
      b_order = PoEContractType_name\<rparr>"

lemma boot_sample_order: "mset (b_order boot_sample) = mset PoEContractType_name"
  by (simp add: boot_sample_def)

lemma boot_sample_laws: "boot_laws boot_sample"
  unfolding boot_laws_def
  by (simp add: boot_sample_def boot_calls_def boot_contracts_def calls_frame_def ret_def own_state_def
      GetContractInfo_def boot_ext_def boot_msgs_def sample_sdk_def)

lemma boot_sample_queries:
  "QueryConfig None boot_json (x_QuerySmart boot_calls s) (NewBaseContractAdapter a None) =
     Ok \<lparr>vc_Membership = [], vc_MinPoints = 0, vc_MaxValidators = 0, vc_Scaling = 0, vc_EpochReward = noCoin,
       vc_FeePercentage = None, vc_DistributionContracts = [], vc_ValidatorGroup = ''d'', vc_AutoUnjail = False\<rparr>"
  "LatestProposal None boot_json (x_QuerySmart boot_calls s) (NewBaseContractAdapter a None) =
     Ok (Some ((noOCProposal None)\<lparr>pp_ID := 1\<rparr>))"
  by code_simp+

lemma boot_sample_accepts: "boot_accepts boot_sample"
  unfolding boot_accepts_def
proof (intro conjI allI)
  fix a s
  show "\<exists>cfg. QueryConfig (e_nilDec (b_msg boot_sample)) (e_json (b_msg boot_sample)) (x_QuerySmart (b_calls boot_sample) s)
        (NewBaseContractAdapter a None) = Ok cfg \<and>
      is_ok (sAccAddressFromBech32 (e_sdk (b_msg boot_sample)) (vc_ValidatorGroup cfg))"
    by (simp add: boot_sample_def boot_msgs_def boot_sample_queries sample_sdk_def)
  show "\<exists>p. LatestProposal (e_nilDec (b_msg boot_sample)) (e_json (b_msg boot_sample)) (x_QuerySmart (b_calls boot_sample) s)
        (NewBaseContractAdapter a None) = Ok (Some p)"
    by (simp add: boot_sample_def boot_msgs_def boot_sample_queries)
qed (simp_all add: boot_sample_def boot_contracts_def boot_calls_def boot_ext_def ret_def SetPrivileged_def
    GetContractInfo_def seqS_def bindS_def wrapS_def on_wasm_def setPrivilegedFlag_def EmitEvent_def modify_def Let_def)

lemma boot_sample_quo: "quo_laws the (b_msg boot_sample)"
  unfolding quo_laws_def
proof (intro conjI allI impI)
  show "dec_laws the (e_dec (b_msg boot_sample))" by (simp add: boot_sample_def boot_msgs_def sample_dec_laws)
  show "sdk_laws (e_sdk (b_msg boot_sample))" by (simp add: boot_sample_def boot_msgs_def sample_sdk_laws)
qed (auto simp: boot_sample_def boot_msgs_def PoEGenesis.sample_dec_def sample_sdk_def coin_valid_def split: option.splits if_splits)

definition boot_start :: "boot_w boot_state" where
  "boot_start =
     \<lparr>p_store = [], p_cache = Map.empty, p_params = Map.empty, p_votes = [], p_events = [],
      p_world = \<lparr>tw_store = [], tw_wasm = [], tw_events = []\<rparr>\<rparr>"

section \<open>Properties\<close>

text \<open>
  C21: When the bootstrap succeeds, all eleven kinds of contracts are registered and the admin of each is
  the registered validator voting contract. The check of the setup that follows then passes exactly
  when the validator set contract holds the validator set update privilege and the staking contract the
  delegator privilege.
\<close>

theorem bootstrap_hands_over:
  assumes "boot_laws B" and "mset (b_order B) = mset PoEContractType_name"
    and run: "BootstrapPoEContracts B gs s = (Ok (), s')"
  shows "\<exists>addr.
    (\<forall>t. PoEContractType_ValidateBasic t = Ok () \<longrightarrow> GetPoEContractAddress t s' = Ok (addr t) \<and>
       (\<exists>info. GetContractInfo (b_ext B) (addr t) (p_world s') = Some info \<and>
          ci_Admin info = sAddrString (e_sdk (b_msg B)) (addr PoEContractTypeValidatorVoting))) \<and>
    (VerifyPoEContracts B s' = Ok () \<longleftrightarrow>
       HasPrivilegedContract (b_ext B) (addr PoEContractTypeValset) PrivilegeTypeValidatorSetUpdate (p_world s') = Ok True \<and>
       HasPrivilegedContract (b_ext B) (addr PoEContractTypeStaking) PrivilegeDelegator (p_world s') = Ok True)"
proof -
  obtain addr where h: "handed_over B addr s'"
    using postD [OF bootstrap_post [OF assms(1,2)] _ run] by (auto simp: registered_def)
  with verify_handed_over [OF h assms(2)] show ?thesis
    unfolding handed_over_def admin_is_def by (intro exI [of _ addr] conjI) (blast, simp)
qed

lemma boot_sample_privileged:
  "HasPrivilegedContract (b_ext boot_sample) a PrivilegeTypeValidatorSetUpdate w = Ok True \<and>
   HasPrivilegedContract (b_ext boot_sample) a PrivilegeDelegator w = Ok True"
  by (simp add: boot_sample_def boot_ext_def HasPrivilegedContract_def getContractDetails_def GetContractInfo_def readDetails_def)
    code_simp

lemma boot_sample_seed_valid:
  assumes "ValsetContractConfig_ValidateBasic PoEGenesis.sample_dec c = Ok ()" and "mc_Denom (EpochReward c) = BondDenom sample_seed"
  shows "validateSeedContracts (e_sdk (b_msg boot_sample)) (e_dec (b_msg boot_sample)) sample_genesis_env
    (sample_seed\<lparr>sc_Valset := Some c\<rparr>) = Ok ()"
  using assms sample_seed_valid
  unfolding boot_sample_def boot_msgs_def seed_valid_iff gentxs_ok_def boot_env.simps init_env.simps SeedContracts.simps
  by (elim conjE) (intro conjI, auto)

lemma boot_sample_arbiters:
  "\<exists>d. sc_ArbiterPool sample_seed = Some d \<and> coin_valid (e_sdk (b_msg boot_sample)) (ap_EscrowAmount d)"
  by (simp add: sample_seed_def poe_DefaultGenesisState_def GetSeedContracts_def boot_sample_def boot_msgs_def coin_valid_def
      bond_coin_def sample_sdk_def DefaultBondDenom_def)

definition sample_valset :: "rat option ValsetContractConfig" where
  "sample_valset = the (sc_Valset sample_seed)"

lemma sample_valset_valid:
  "ValsetContractConfig_ValidateBasic PoEGenesis.sample_dec
    (sample_valset\<lparr>EngagementRewardRatio := Some 0, CommunityPoolRewardRatio := Some (105 / 2)\<rparr>) = Ok ()"
  by (rule ValsetConfig_valid_iff [OF sample_dec_laws, THEN iffD2])
    (simp_all add: sample_valset_def sample_seed_def poe_DefaultGenesisState_def GetSeedContracts_def ratios_def
      in_int64_def PoEGenesis.sample_dec_def)

text \<open>
  C22: On a chain that accepts every call, the bootstrap of a validated seed whose decimals are set
  and whose arbiter pool escrow is a valid coin returns, with every kind of contract registered,
  when neither the engagement nor the community pool reward ratio is zero. With a ratio of zero, which
  the validation accepts, it panics while it builds the message for the validator set contract.
\<close>

theorem bootstrap_succeeds_iff:
  assumes B: "boot_laws B" "boot_accepts B" and ord: "mset (b_order B) = mset PoEContractType_name"
    and E: "quo_laws val (b_msg B)"
    and seed: "validateSeedContracts (e_sdk (b_msg B)) (e_dec (b_msg B)) G gs = Ok ()"
    and c: "sc_Valset gs = Some c" and n: "\<forall>r \<in> set (FeePercentage c # ratios c). \<not> Dec_IsNil (e_dec (b_msg B)) r"
    and ap: "sc_ArbiterPool gs = Some d" "coin_valid (e_sdk (b_msg B)) (ap_EscrowAmount d)"
  shows "if val (EngagementRewardRatio c) \<noteq> 0 \<and> val (CommunityPoolRewardRatio c) \<noteq> 0
    then \<exists>s'. BootstrapPoEContracts B gs s = (Ok (), s') \<and>
      (\<forall>t. PoEContractType_ValidateBasic t = Ok () \<longrightarrow> is_ok (GetPoEContractAddress t s'))
    else \<exists>p s'. BootstrapPoEContracts B gs s = (Panic p, s')"
proof -
  have reg: "registered Map.empty s" by (simp add: registered_def)
  note msgs = seed_messages_ok [OF E seed ap]
  note vs = valset_message_iff [OF E c n]
  show ?thesis
  proof (cases "val (EngagementRewardRatio c) \<noteq> 0 \<and> val (CommunityPoolRewardRatio c) \<noteq> 0")
    case True
    then have "returns (registered Map.empty) (BootstrapPoEContracts B gs)"
      using bootstrap_returns [OF B ord msgs] vs(1) by simp
    then obtain x s' where "BootstrapPoEContracts B gs s = (Ok x, s')" using reg by (rule returnsD)
    then have s': "BootstrapPoEContracts B gs s = (Ok (), s')" by simp
    then have "\<exists>addr. handed_over B addr s'" using postD [OF bootstrap_post [OF B(1) ord] reg] by blast
    with s' True show ?thesis by (auto simp: handed_over_def)
  next
    case False
    then have "panics (registered Map.empty) (BootstrapPoEContracts B gs)"
      using bootstrap_panics [OF B msgs] vs by blast
    with False reg show ?thesis by (auto simp: panics_def)
  qed
qed

theorem bootstrap_succeeds_iff_witness:
  "\<exists>gs. validateSeedContracts sample_sdk PoEGenesis.sample_dec sample_genesis_env gs = Ok () \<and>
     (\<exists>p s'. BootstrapPoEContracts boot_sample gs boot_start = (Panic p, s'))"
proof -
  let ?c = "sample_valset\<lparr>EngagementRewardRatio := Some 0, CommunityPoolRewardRatio := Some (105 / 2)\<rparr>"
  let ?gs = "sample_seed\<lparr>sc_Valset := Some ?c\<rparr>"
  have v: "validateSeedContracts (e_sdk (b_msg boot_sample)) (e_dec (b_msg boot_sample)) sample_genesis_env ?gs = Ok ()"
    by (rule boot_sample_seed_valid [OF sample_valset_valid])
      (simp_all add: sample_valset_def sample_seed_def poe_DefaultGenesisState_def GetSeedContracts_def bond_coin_def)
  obtain d where d: "sc_ArbiterPool ?gs = Some d" "coin_valid (e_sdk (b_msg boot_sample)) (ap_EscrowAmount d)"
    using boot_sample_arbiters by auto
  have n: "\<forall>r \<in> set (FeePercentage ?c # ratios ?c). \<not> Dec_IsNil (e_dec (b_msg boot_sample)) r"
    by (simp add: ratios_def boot_sample_def boot_msgs_def PoEGenesis.sample_dec_def sample_valset_def sample_seed_def
        poe_DefaultGenesisState_def GetSeedContracts_def)
  have "\<exists>p s'. BootstrapPoEContracts boot_sample ?gs boot_start = (Panic p, s')"
    using bootstrap_succeeds_iff [OF boot_sample_laws boot_sample_accepts boot_sample_order boot_sample_quo v _ n d, of boot_start]
    by simp
  with v show ?thesis by (auto simp: boot_sample_def boot_msgs_def)
qed

lemma boot_sample_run: "\<exists>s'. BootstrapPoEContracts boot_sample sample_seed boot_start = (Ok (), s')"
proof -
  obtain d where d: "sc_ArbiterPool sample_seed = Some d" "coin_valid (e_sdk (b_msg boot_sample)) (ap_EscrowAmount d)"
    using boot_sample_arbiters by auto
  have v: "validateSeedContracts (e_sdk (b_msg boot_sample)) (e_dec (b_msg boot_sample)) sample_genesis_env sample_seed = Ok ()"
    using sample_seed_valid by (simp add: boot_sample_def boot_msgs_def)
  have c: "sc_Valset sample_seed = Some sample_valset"
    by (simp add: sample_valset_def sample_seed_def poe_DefaultGenesisState_def GetSeedContracts_def)
  have "is_ok (newValsetInitMsg (b_msg boot_sample) sample_seed ba m e cc i)" for ba m e cc i
    by (rule valset_message_iff(1) [OF boot_sample_quo c, THEN iffD2])
      (simp_all add: ratios_def boot_sample_def boot_msgs_def PoEGenesis.sample_dec_def sample_valset_def sample_seed_def
        poe_DefaultGenesisState_def GetSeedContracts_def)
  then have "returns (registered Map.empty) (BootstrapPoEContracts boot_sample sample_seed)"
    by (rule bootstrap_returns [OF boot_sample_laws boot_sample_accepts boot_sample_order seed_messages_ok [OF boot_sample_quo v d]])
  moreover have "registered Map.empty boot_start" by (simp add: registered_def)
  ultimately show ?thesis by (rule returnsD) auto
qed

theorem bootstrap_hands_over_witness:
  "\<exists>s'. BootstrapPoEContracts boot_sample sample_seed boot_start = (Ok (), s') \<and> VerifyPoEContracts boot_sample s' = Ok ()"
proof -
  obtain s' where s': "BootstrapPoEContracts boot_sample sample_seed boot_start = (Ok (), s')" using boot_sample_run by blast
  with bootstrap_hands_over [OF boot_sample_laws boot_sample_order s'] boot_sample_privileged show ?thesis by blast
qed

end
