(* ===== verification/PoEModule.thy ===== *)
theory PoEModule
  imports PoELaunch PoEPaging
begin

text \<open>
  The entry points of the module (\<open>x/poe/module.go\<close>): the start of the chain in seed and in import mode
  with the validator set it hands to the consensus engine, the calls of every block and the export.
\<close>

section \<open>Genesis of the module\<close>

text \<open>An error ends the start of the chain with a panic.\<close>

definition panic_on_err :: "string \<Rightarrow> ('s, 'a) act \<Rightarrow> ('s, 'a) act" where
  "panic_on_err msg m s =
     (case m s of
        (Ok x, s') \<Rightarrow> (Ok x, s')
      | (Err e, s') \<Rightarrow> (Panic msg, s')
      | (Panic p, s') \<Rightarrow> (Panic p, s'))"

definition seed_setup ::
    "('w, 'd) boot_env \<Rightarrow> ('t, 'd) poe_GenesisState \<Rightarrow> ('w boot_state, unit) act" where
  "seed_setup B genesisState =
     (case GetSeedContracts genesisState of
        None \<Rightarrow> ret ()
      | Some seed \<Rightarrow>
          if GenTxs seed = [] then lift_res (Panic ''empty gentx'')
          else panic_on_err ''bootstrap PoE contracts: %+v'' (BootstrapPoEContracts B seed))"

text \<open>In import mode the active validators are converted one by one; a key that cannot be converted panics.\<close>

definition active_cb :: "ValidatorInfo \<Rightarrow> (abci_ValidatorUpdate list, bool) act" where
  "active_cb c activeSet =
     (case ConvertToTendermintPubKey (vi_ValidatorPubkey c) of
        Ok pub \<Rightarrow> (Ok False, activeSet @ [\<lparr>au_PubKey = pub, au_Power = int64_of_uint64 (vi_Power c)\<rparr>])
      | _ \<Rightarrow> (Panic ''convert pubkey for %s'', activeSet))"

definition initial_set :: "('w, 'd) boot_env \<Rightarrow> addr \<Rightarrow> ('w boot_state, abci_ValidatorUpdate list) act" where
  "initial_set B addr =
     bindS (panic_on_err ''poe sudo call: %s'' (CallEndBlockWithValidatorUpdate (x_Sudo (b_calls B)) addr)) (\<lambda>initialSet.
     if initialSet = [] then lift_res (Panic ''initial valset must not be empty'') else ret initialSet)"

text \<open>The queries do not change the state; the rounds of the loop over the pages are bounded by \<open>fuel\<close>.\<close>

definition active_set :: "nat \<Rightarrow> ('w, 'd) boot_env \<Rightarrow> 'w boot_state \<Rightarrow> abci_ValidatorUpdate list res option" where
  "active_set fuel B s =
     (case IterateActiveValidators fuel (\<lambda>_. x_QuerySmart (b_calls B) s) (ValsetContract s) active_cb None [] of
        None \<Rightarrow> None
      | Some (Ok _, activeSet) \<Rightarrow>
          Some (if activeSet = [] then Panic ''active valset must not be empty'' else Ok activeSet)
      | Some (Err e, _) \<Rightarrow> Some (Panic ''iterate active validators: %s'')
      | Some (Panic p, _) \<Rightarrow> Some (Panic p))"

definition genesis_setup ::
    "('w, 'd) boot_env \<Rightarrow> ('t, 'x, 'w tw_state) gentx_ops \<Rightarrow> ('t, 'd) poe_GenesisState \<Rightarrow> ('w boot_state, addr) act" where
  "genesis_setup B G genesisState =
     bindS (seed_setup B genesisState) (\<lambda>_.
     bindS (panic_on_err ''err'' (poe_InitGenesis (e_sdk (b_msg B)) G genesisState)) (\<lambda>_.
     bindS (panic_on_err ''verify PoE bootstrap contracts: %+v'' (\<lambda>s. (VerifyPoEContracts B s, s))) (\<lambda>_.
     panic_on_err ''valset addr: %s'' (\<lambda>s. (GetPoEContractAddress PoEContractTypeValset s, s)))))"

definition AppModule_InitGenesis ::
    "nat \<Rightarrow> ('w, 'd) boot_env \<Rightarrow> ('t, 'x, 'w tw_state) gentx_ops \<Rightarrow> ('t, 'd) poe_GenesisState \<Rightarrow> 'w boot_state \<Rightarrow>
     (abci_ValidatorUpdate list res \<times> 'w boot_state) option" where
  "AppModule_InitGenesis fuel B G genesisState s =
     (case genesis_setup B G genesisState s of
        (Err e, s') \<Rightarrow> Some (Err e, s')
      | (Panic p, s') \<Rightarrow> Some (Panic p, s')
      | (Ok addr, s') \<Rightarrow>
          if GetSeedContracts genesisState \<noteq> None then Some (initial_set B addr s')
          else map_option (\<lambda>r. (r, s')) (active_set fuel B s'))"

text \<open>The module's other entry points.\<close>

definition AppModule_BeginBlock ::
    "('hd, 'h) hist_ops \<Rightarrow> abci_VoteInfo list \<Rightarrow> int \<Rightarrow> 'hd \<Rightarrow> ('w poe_state, unit) act" where
  "AppModule_BeginBlock H votes blockHeight header = poe_BeginBlocker H votes blockHeight header"

definition AppModule_EndBlock ::
    "'w tw_state sudoer \<Rightarrow> (event list \<Rightarrow> event list) \<Rightarrow>
     (embedded_code \<times> 'w tw_state, abci_ValidatorUpdate list) act" where
  "AppModule_EndBlock sudo fwd cs =
     (case cs of (C, s) \<Rightarrow> (let (r, s') = poe_EndBlocker sudo fwd s in (r, (ClearEmbeddedContracts C, s'))))"

definition AppModule_ExportGenesis :: "('w, 'd) boot_env \<Rightarrow> 'w boot_state \<Rightarrow> ('t, 'd) poe_GenesisState res" where
  "AppModule_ExportGenesis B s = poe_ExportGenesis (e_sdk (b_msg B)) s"

section \<open>The initial validator set\<close>

lemma panic_on_err_Ok [simp]: "panic_on_err msg m s = (Ok x, s') \<longleftrightarrow> m s = (Ok x, s')"
  by (cases "m s"; cases "fst (m s)") (auto simp: panic_on_err_def)

lemma genesis_setup_verified:
  assumes "genesis_setup B G g s = (Ok addr, s')"
  shows "VerifyPoEContracts B s' = Ok ()" and "GetPoEContractAddress PoEContractTypeValset s' = Ok addr"
  using assms unfolding genesis_setup_def by (auto elim!: bindS_OkE)

lemma visit_active:
  assumes "list_all (\<lambda>v. is_ok (ConvertToTendermintPubKey (vi_ValidatorPubkey v))) vals"
  shows "\<exists>us. visit_infos active_cb vals acc = (Ok (), acc @ us) \<and>
     list_all2 (\<lambda>v u. ConvertToTendermintPubKey (vi_ValidatorPubkey v) = Ok (au_PubKey u) \<and>
       au_Power u = int64_of_uint64 (vi_Power v)) vals us"
  using assms
proof (induction vals arbitrary: acc)
  case (Cons v vals)
  then obtain k where k: "ConvertToTendermintPubKey (vi_ValidatorPubkey v) = Ok k" by (auto simp: is_ok_iff)
  let ?u = "\<lparr>au_PubKey = k, au_Power = int64_of_uint64 (vi_Power v)\<rparr>"
  obtain us where us: "visit_infos active_cb vals (acc @ [?u]) = (Ok (), (acc @ [?u]) @ us)"
    "list_all2 (\<lambda>v u. ConvertToTendermintPubKey (vi_ValidatorPubkey v) = Ok (au_PubKey u) \<and>
       au_Power u = int64_of_uint64 (vi_Power v)) vals us"
    using Cons by fastforce
  have "visit_infos active_cb (v # vals) acc = visit_infos active_cb vals (acc @ [?u])"
    by (simp add: visit_infos_def bindS_def active_cb_def k)
  with us k show ?case by (intro exI [of _ "?u # us"]) simp
qed (simp add: visit_infos_def bindS_def ret_def)

lemma active_set_law:
  assumes "serves (\<lambda>_ :: abci_ValidatorUpdate list. x_QuerySmart (b_calls B) s) addr psize vals" and ok: "active_ok vals" and "length vals < fuel"
    and "GetPoEContractAddress PoEContractTypeValset s = Ok addr"
  shows "\<exists>us. active_set fuel B s = Some (if us = [] then Panic ''active valset must not be empty'' else Ok us) \<and>
    list_all2 (\<lambda>v u. ConvertToTendermintPubKey (vi_ValidatorPubkey v) = Ok (au_PubKey u) \<and>
       au_Power u = int64_of_uint64 (vi_Power v)) vals us"
proof -
  have v: "ValsetContract s = NewBaseContractAdapter addr None"
    by (simp add: ValsetContract_def lookup_adapter_def assms(4))
  have "list_all (\<lambda>v. is_ok (ConvertToTendermintPubKey (vi_ValidatorPubkey v))) vals"
    using ok by (auto simp: active_ok_def list_all_iff ConvertToTendermintPubKey_def)
  from visit_active [OF this, of "[]"] obtain us where us: "visit_infos active_cb vals [] = (Ok (), us)"
    "list_all2 (\<lambda>v u. ConvertToTendermintPubKey (vi_ValidatorPubkey v) = Ok (au_PubKey u) \<and>
       au_Power u = int64_of_uint64 (vi_Power v)) vals us" by auto
  have "IterateActiveValidators fuel (\<lambda>_. x_QuerySmart (b_calls B) s) (ValsetContract s) active_cb None [] =
      Some (visit_infos active_cb (after vi_Operator (fst (ToQuery None)) vals) [])"
    by (rule active_visited) (use assms in \<open>simp_all add: v NewBaseContractAdapter_def\<close>)
  then have "active_set fuel B s = Some (if us = [] then Panic ''active valset must not be empty'' else Ok us)"
    using us(1) by (simp add: active_set_def ToQuery_def after_def)
  with us(2) show ?thesis by blast
qed

lemma genesis_set_nonempty:
  assumes "AppModule_InitGenesis fuel B G g s = Some (Ok set0, s')"
  shows "set0 \<noteq> [] \<and> (\<exists>addr s1. genesis_setup B G g s = (Ok addr, s1) \<and> VerifyPoEContracts B s1 = Ok ())"
proof -
  obtain addr s1 where g: "genesis_setup B G g s = (Ok addr, s1)"
    using assms by (cases "genesis_setup B G g s"; cases "fst (genesis_setup B G g s)") (auto simp: AppModule_InitGenesis_def)
  have "set0 \<noteq> []"
  proof (cases "GetSeedContracts g")
    case None
    then have "active_set fuel B s1 = Some (Ok set0)" using assms g by (auto simp: AppModule_InitGenesis_def)
    then show ?thesis by (auto simp: active_set_def split: option.splits prod.splits res.splits if_splits)
  next
    case (Some seed)
    then have "initial_set B addr s1 = (Ok set0, s')" using assms g by (simp add: AppModule_InitGenesis_def)
    then show ?thesis
      by (auto simp: initial_set_def lift_res_def ret_def elim!: bindS_OkE split: if_splits)
  qed
  with g genesis_setup_verified(1) [OF g] show ?thesis by blast
qed

section \<open>Properties\<close>

text \<open>
  C23: The genesis of the module never returns an empty validator set and only returns after the check of
  the setup has passed. From a dump, with a validator set contract that serves its active validators in
  pages, all with Ed25519 keys, it returns exactly these validators, in order, with their keys and
  powers; without an active validator it panics.
\<close>

theorem genesis_validator_set:
  assumes st: "genesis_setup B G g s = (Ok addr, s1)" and "GetSeedContracts g = None"
    and "serves (\<lambda>_ :: abci_ValidatorUpdate list. x_QuerySmart (b_calls B) s1) addr psize vals" and "active_ok vals" and "length vals < fuel"
  shows "\<exists>us. AppModule_InitGenesis fuel B G g s =
      Some (if vals = [] then Panic ''active valset must not be empty'' else Ok us, s1) \<and>
    list_all2 (\<lambda>v u. ConvertToTendermintPubKey (vi_ValidatorPubkey v) = Ok (au_PubKey u) \<and>
       au_Power u = int64_of_uint64 (vi_Power v)) vals us \<and>
    (\<forall>n g' t set0 t'. AppModule_InitGenesis n B G g' t = Some (Ok set0, t') \<longrightarrow>
       set0 \<noteq> [] \<and> (\<exists>a t1. genesis_setup B G g' t = (Ok a, t1) \<and> VerifyPoEContracts B t1 = Ok ()))"
proof -
  obtain us where us: "active_set fuel B s1 = Some (if us = [] then Panic ''active valset must not be empty'' else Ok us)"
    "list_all2 (\<lambda>v u. ConvertToTendermintPubKey (vi_ValidatorPubkey v) = Ok (au_PubKey u) \<and>
       au_Power u = int64_of_uint64 (vi_Power v)) vals us"
    using active_set_law [OF assms(3-5) genesis_setup_verified(2) [OF st]] by blast
  have "us = [] \<longleftrightarrow> vals = []" using us(2) by (auto dest: list_all2_lengthD)
  then have "AppModule_InitGenesis fuel B G g s =
      Some (if vals = [] then Panic ''active valset must not be empty'' else Ok us, s1)"
    using us(1) st assms(2) by (simp add: AppModule_InitGenesis_def)
  with us(2) genesis_set_nonempty show ?thesis by blast
qed

text \<open>A chain with the dump of one address for all kinds, whose contract serves two validators.\<close>

definition import_sample :: "(boot_w, rat option) boot_env" where
  "import_sample =
     boot_sample\<lparr>b_ext := boot_ext\<lparr>wGetContractInfo := (\<lambda>w a. Some \<lparr>ci_CodeID = 1, ci_Admin = ''furya1'', ci_Extension = None\<rparr>)\<rparr>,
       b_calls := boot_calls\<lparr>x_QuerySmart := page_server two_validators\<rparr>\<rparr>"

definition import_gentx :: "(unit, unit, boot_w tw_state) gentx_ops" where
  "import_gentx =
     \<lparr>TxJSONDecoder = (\<lambda>t. Ok ()), Tx_ValidateBasic = (\<lambda>x. Ok ()), TxEncoder = (\<lambda>x. Ok []), deliverTx = (\<lambda>b s. (True, s))\<rparr>"

definition import_genesis :: "(unit, rat option) poe_GenesisState" where
  "import_genesis = poe_GenesisState.make (NewParams 1 1 []) (ImportMode (Some sample_dump))"

lemma import_sample_setup:
  "\<exists>s1. genesis_setup import_sample import_gentx import_genesis boot_start = (Ok (string_bytes ''furya1''), s1)"
proof -
  let ?K = "e_sdk (b_msg import_sample)" and ?a = "string_bytes ''furya1''"
  have K: "?K = sample_sdk" by (simp add: import_sample_def boot_sample_def boot_msgs_def)
  have can: "\<forall>c \<in> set sample_dump. canonical ?K c"
    unfolding K by (simp add: sample_dump_def canonical_def sample_sdk_def) (simp add: string_bytes_def)
  have "Params_Validate ?K (NewParams 1 1 []) = Ok ()"
    unfolding K by (simp add: Params_Validate_def NewParams_def sample_sdk_def)
  then obtain s1 where s1: "setParams ?K (NewParams 1 1 []) boot_start = (Ok (), s1)" by (rule setParams_ok)
  let ?s = "cs.put_all (map (decoded ?K) sample_dump) s1"
  have seed: "seed_setup import_sample import_genesis boot_start = (Ok (), boot_start)"
    by (simp add: seed_setup_def import_genesis_def GetSeedContracts_def poe_GenesisState.make_def ret_def)
  have init: "poe_InitGenesis ?K import_gentx import_genesis boot_start = (Ok (), ?s)"
    using s1 by (simp add: poe_InitGenesis_def bindS_def GetImportDump_def import_genesis_def poe_GenesisState.make_def
        import_dump_effect [OF can])
  have get: "GetPoEContractAddress t ?s = Ok ?a" if "PoEContractType_ValidateBasic t = Ok ()" for t
  proof (rule cs.get_put_all_member [OF _ _ that])
    show "(t, ?a) \<in> set (map (decoded ?K) sample_dump)"
      using that by (rule valid_type_cases) (simp_all add: K decoded_def sample_dump_def sample_sdk_def)
  qed (simp add: K decoded_def sample_dump_def)
  have str: "sAddrString sample_sdk ?a = ''furya1''" by code_simp
  have info: "GetContractInfo (b_ext import_sample) c w = Some \<lparr>ci_CodeID = 1, ci_Admin = ''furya1'', ci_Extension = None\<rparr>" for c w
    by (simp add: GetContractInfo_def import_sample_def)
  have h: "handed_over import_sample (\<lambda>_. ?a) ?s"
    unfolding handed_over_def admin_is_def using get by (simp add: info K str)
  have ext: "HasPrivilegedContract (b_ext import_sample) c t w = HasPrivilegedContract (b_ext boot_sample) c t w" for c t w
    by (simp add: HasPrivilegedContract_def getContractDetails_def readDetails_def info)
      (simp add: import_sample_def boot_sample_def boot_ext_def GetContractInfo_def readDetails_def)
  have "mset (b_order import_sample) = mset PoEContractType_name" by (simp add: import_sample_def boot_sample_order)
  from verify_handed_over [OF h this] have "VerifyPoEContracts import_sample ?s = Ok ()"
    unfolding ext using boot_sample_privileged by blast
  with seed init get show ?thesis
    by (simp add: genesis_setup_def bindS_def panic_on_err_def valid_kinds)
qed

theorem genesis_validator_set_witness:
  "\<exists>us s1. AppModule_InitGenesis 3 import_sample import_gentx import_genesis boot_start = Some (Ok us, s1) \<and>
     length us = 2"
proof -
  obtain s1 where s1: "genesis_setup import_sample import_gentx import_genesis boot_start = (Ok (string_bytes ''furya1''), s1)"
    using import_sample_setup by blast
  have seed: "GetSeedContracts import_genesis = None" by (simp add: import_genesis_def GetSeedContracts_def poe_GenesisState.make_def)
  have sv: "serves (\<lambda>_ :: abci_ValidatorUpdate list. x_QuerySmart (b_calls import_sample) s1) (string_bytes ''furya1'') (\<lambda>_. 1) two_validators"
    using page_server_serves [of two_validators "string_bytes ''furya1''"]
    by (simp add: import_sample_def serves_def page_server_def)
  have "active_ok two_validators" by (simp add: active_ok_def two_validators_def ed_only_def noPubkey_def)
  from genesis_validator_set [OF s1 seed sv this, of 3] obtain us where
    "AppModule_InitGenesis 3 import_sample import_gentx import_genesis boot_start = Some (Ok us, s1)"
    "list_all2 (\<lambda>v u. ConvertToTendermintPubKey (vi_ValidatorPubkey v) = Ok (au_PubKey u) \<and>
       au_Power u = int64_of_uint64 (vi_Power v)) two_validators us"
    by (auto simp: two_validators_def)
  then show ?thesis by (auto simp: two_validators_def dest!: list_all2_lengthD)
qed

end
