(* ===== verification/AppExport.thy ===== *)
theory AppExport
  imports PoEModule
begin

text \<open>
  The export of the chain (\<open>app/export.go\<close>) with the active validators, the restoring of a snapshot
  (\<open>app/snapshotter.go\<close>) and the end of the construction of the application (\<open>app/app.go\<close>).
\<close>

section \<open>The exported validator set\<close>

text \<open>
  A validator of a genesis document, with \<open>'pk\<close> for Tendermint's keys. \<open>PubKeyFromProto\<close> and \<open>pk_Address\<close>
  are Tendermint's.
\<close>

record 'pk GenesisValidator =
  gv_Address :: bytes
  gv_PubKey :: 'pk
  gv_Power :: int
  gv_Name :: string

record 'pk tm_keys =
  PubKeyFromProto :: "tm_pubkey \<Rightarrow> 'pk res"
  pk_Address :: "'pk \<Rightarrow> bytes"

text \<open>
  The callback stores the validators it has converted and the first error in variables of the caller; an
  error ends the iteration.
\<close>

definition export_cb ::
    "sdk_ops \<Rightarrow> ('a, 'd) val_env \<Rightarrow> 'pk tm_keys \<Rightarrow> querier \<Rightarrow> BaseContractAdapter \<Rightarrow> ValidatorInfo \<Rightarrow>
     ('pk GenesisValidator list \<times> unit res, bool) act" where
  "export_cb K V T Q valset c st =
     (case sAccAddressFromBech32 K (vi_Operator c) of
        Panic p \<Rightarrow> (Panic p, st)
      | Err e \<Rightarrow> (Ok True, (fst st, Err e))
      | Ok opAddr \<Rightarrow>
     (case ConvertToTendermintPubKey (vi_ValidatorPubkey c) of
        Panic p \<Rightarrow> (Panic p, st)
      | Err e \<Rightarrow> (Ok True, (fst st, Err e))
      | Ok pk \<Rightarrow>
     (case PubKeyFromProto T pk of
        Panic p \<Rightarrow> (Panic p, st)
      | Err e \<Rightarrow> (Ok True, (fst st, Err e))
      | Ok tmPk \<Rightarrow>
     (case QueryValidator K V Q valset opAddr of
        Panic p \<Rightarrow> (Panic p, st)
      | Err e \<Rightarrow> (Ok True, (fst st, Err e))
      | Ok meta \<Rightarrow>
          (Ok False, (fst st @ [\<lparr>gv_Address = pk_Address T tmPk, gv_PubKey = tmPk, gv_Power = int64_of_uint64 (vi_Power c),
             gv_Name = (case meta of None \<Rightarrow> [] | Some m \<Rightarrow> Moniker (sv_Description m))\<rparr>], Ok ()))))))"

definition activeValidatorSet ::
    "nat \<Rightarrow> sdk_ops \<Rightarrow> ('a, 'd) val_env \<Rightarrow> 'pk tm_keys \<Rightarrow> 'w poe_calls \<Rightarrow> 'w poe_state \<Rightarrow> 'pk GenesisValidator list res option" where
  "activeValidatorSet fuel K V T X s =
     (let Q = x_QuerySmart X s; valset = ValsetContract s in
      case IterateActiveValidators fuel (\<lambda>_. Q) valset (export_cb K V T Q valset) None ([], Ok ()) of
        None \<Rightarrow> None
      | Some (Ok _, (result, err)) \<Rightarrow> Some (bind_res err (\<lambda>_. Ok result))
      | Some (Err xerr, _) \<Rightarrow> Some (Err xerr)
      | Some (Panic p, _) \<Rightarrow> Some (Panic p))"

text \<open>\<open>genState\<close> is the marshalled export of all modules, \<open>consensusParams\<close> the parameters of the base application.\<close>

record ('pk, 'p) ExportedApp =
  ea_AppState :: bytes
  ea_Validators :: "'pk GenesisValidator list"
  ea_Height :: int
  ea_ConsensusParams :: 'p

definition ExportAppStateAndValidators ::
    "nat \<Rightarrow> sdk_ops \<Rightarrow> ('a, 'd) val_env \<Rightarrow> 'pk tm_keys \<Rightarrow> 'w poe_calls \<Rightarrow> ('w poe_state \<Rightarrow> bytes res) \<Rightarrow> ('w poe_state \<Rightarrow> 'p) \<Rightarrow>
     bool \<Rightarrow> int \<Rightarrow> 'w poe_state \<Rightarrow> ('pk, 'p) ExportedApp res option" where
  "ExportAppStateAndValidators fuel K V T X genState consensusParams forZeroHeight lastBlockHeight s =
     (if forZeroHeight then Some (Panic ''zero height export not supported'')
      else
        (let height = to_int64 (lastBlockHeight + 1) in
         case genState s of
           Err e \<Rightarrow> Some (Err e)
         | Panic p \<Rightarrow> Some (Panic p)
         | Ok appState \<Rightarrow>
             map_option (\<lambda>r. bind_res r (\<lambda>validators.
               Ok \<lparr>ea_AppState = appState, ea_Validators = validators, ea_Height = height, ea_ConsensusParams = consensusParams s\<rparr>))
               (activeValidatorSet fuel K V T X s)))"

section \<open>Restart and snapshots\<close>

text \<open>
  The end of \<open>NewPetriApp\<close> when the latest version is loaded, with the SDK's loading of the stores and
  wasmd's pinning; a failure ends the process. The keeper's cache of contract addresses is filled from
  the store, after a restart and after a snapshot was restored.
\<close>

definition app_LoadLatest ::
    "('w poe_state, unit) act \<Rightarrow> ('w poe_state, unit) act \<Rightarrow> ('w poe_state, unit) act" where
  "app_LoadLatest LoadLatestVersion InitializePinnedCodes =
     bindS (panic_on_err ''failed to load latest version: %s'' LoadLatestVersion) (\<lambda>_.
     bindS (panic_on_err ''failed initialize pinned codes %s'' InitializePinnedCodes) (\<lambda>_.
     InitContractAddressCache))"

definition PetriSnapshotter_Restore ::
    "('w poe_state, 'i) act \<Rightarrow> ('w poe_state, 'i) act" where
  "PetriSnapshotter_Restore wasmRestore =
     bindS wasmRestore (\<lambda>item. bindS InitContractAddressCache (\<lambda>_. ret item))"

section \<open>The export as a traversal\<close>

text \<open>What is exported for one validator.\<close>

definition export_validator ::
    "sdk_ops \<Rightarrow> ('a, 'd) val_env \<Rightarrow> 'pk tm_keys \<Rightarrow> querier \<Rightarrow> BaseContractAdapter \<Rightarrow> ValidatorInfo \<Rightarrow> 'pk GenesisValidator res" where
  "export_validator K V T Q valset c =
     bind_res (sAccAddressFromBech32 K (vi_Operator c)) (\<lambda>opAddr.
     bind_res (ConvertToTendermintPubKey (vi_ValidatorPubkey c)) (\<lambda>pk.
     bind_res (PubKeyFromProto T pk) (\<lambda>tmPk.
     bind_res (QueryValidator K V Q valset opAddr) (\<lambda>meta.
     Ok \<lparr>gv_Address = pk_Address T tmPk, gv_PubKey = tmPk, gv_Power = int64_of_uint64 (vi_Power c),
         gv_Name = (case meta of None \<Rightarrow> [] | Some m \<Rightarrow> Moniker (sv_Description m))\<rparr>))))"

lemma export_cb_one:
  "export_cb K V T Q valset c st =
    (case export_validator K V T Q valset c of
       Ok g \<Rightarrow> (Ok False, (fst st @ [g], Ok ()))
     | Err e \<Rightarrow> (Ok True, (fst st, Err e))
     | Panic p \<Rightarrow> (Panic p, st))"
  by (simp add: export_cb_def export_validator_def split: res.split)

lemma call_export:
  "case traverse (export_validator K V T Q valset) vals of
     Ok gs \<Rightarrow> visit_infos (export_cb K V T Q valset) vals (acc, Ok ()) = (Ok (), (acc @ gs, Ok ()))
   | Err e \<Rightarrow> \<exists>acc'. visit_infos (export_cb K V T Q valset) vals (acc, Ok ()) = (Ok (), (acc', Err e))
   | Panic p \<Rightarrow> \<exists>st. visit_infos (export_cb K V T Q valset) vals (acc, Ok ()) = (Panic p, st)"
proof (induction vals arbitrary: acc)
  case (Cons c vals)
  have step: "visit_infos (export_cb K V T Q valset) (c # vals) (acc, Ok ()) =
    (case export_validator K V T Q valset c of
       Ok g \<Rightarrow> visit_infos (export_cb K V T Q valset) vals (acc @ [g], Ok ())
     | Err e \<Rightarrow> (Ok (), (acc, Err e))
     | Panic p \<Rightarrow> (Panic p, (acc, Ok ())))"
    by (simp add: visit_infos_def bindS_def export_cb_one ret_def split: res.split)
  show ?case
  proof (cases "export_validator K V T Q valset c")
    case (Ok g)
    then show ?thesis using Cons.IH [of "acc @ [g]"] step
      by (cases "traverse (export_validator K V T Q valset) vals") auto
  qed (use step in auto)
qed (simp add: visit_infos_def bindS_def ret_def)

lemma active_export:
  assumes "serves (\<lambda>_ :: 'pk GenesisValidator list \<times> unit res. x_QuerySmart X s) addr psize vals" and "active_ok vals" and "length vals < fuel"
    and addr: "GetPoEContractAddress PoEContractTypeValset s = Ok addr"
  shows "activeValidatorSet fuel K V (T :: 'pk tm_keys) X s =
    Some (traverse (export_validator K V T (x_QuerySmart X s) (ValsetContract s)) vals)"
proof -
  let ?cb = "export_cb K V T (x_QuerySmart X s) (ValsetContract s)"
  have v: "ValsetContract s = NewBaseContractAdapter addr None"
    by (simp add: ValsetContract_def lookup_adapter_def addr)
  have "IterateActiveValidators fuel (\<lambda>_. x_QuerySmart X s) (ValsetContract s) ?cb None ([], Ok ()) =
      Some (visit_infos ?cb (after vi_Operator (fst (ToQuery None)) vals) ([], Ok ()))"
    by (rule active_visited) (use assms in \<open>simp_all add: v NewBaseContractAdapter_def\<close>)
  then have "IterateActiveValidators fuel (\<lambda>_. x_QuerySmart X s) (ValsetContract s) ?cb None ([], Ok ()) =
      Some (visit_infos ?cb vals ([], Ok ()))"
    by (simp add: ToQuery_def after_def)
  then show ?thesis
    using call_export [of K V T "x_QuerySmart X s" "ValsetContract s" vals "[]"]
    by (auto simp: activeValidatorSet_def Let_def split: res.splits)
qed

lemma traverse_stops:
  assumes "\<not> is_ok (traverse f xs)"
  shows "\<exists>ys x zs. xs = ys @ x # zs \<and> (\<forall>y \<in> set ys. is_ok (f y)) \<and>
    ((\<exists>e. f x = Err e \<and> traverse f xs = Err e) \<or> (\<exists>p. f x = Panic p \<and> traverse f xs = Panic p))"
  using assms
proof (induction xs)
  case (Cons x xs)
  show ?case
  proof (cases "f x")
    case (Ok r)
    with Cons.prems have "\<not> is_ok (traverse f xs)" by (cases "traverse f xs") auto
    from Cons.IH [OF this] obtain ys y zs where "xs = ys @ y # zs" "\<forall>y \<in> set ys. is_ok (f y)"
      "(\<exists>e. f y = Err e \<and> traverse f xs = Err e) \<or> (\<exists>p. f y = Panic p \<and> traverse f xs = Panic p)" by blast
    with Ok show ?thesis by (intro exI [of _ "x # ys"] exI [of _ y] exI [of _ zs]) auto
  qed (intro exI [of _ "[]"] exI [of _ x] exI [of _ xs], simp)+
qed simp

text \<open>
  After a snapshot was restored into a process with an empty cache, or after a restart, the lookups answer
  as on the node that the store comes from.
\<close>

lemma cache_from_store:
  assumes "registry_ok s"
  shows "\<exists>s'. InitContractAddressCache (without_cache s) = (Ok (), s') \<and> registry_ok s' \<and>
    (\<forall>t. GetPoEContractAddress t s' = GetPoEContractAddress t s)"
proof -
  obtain s' where s': "InitContractAddressCache (without_cache s) = (Ok (), s')" "registry_ok s'" "p_store s' = p_store s"
    by (rule init_cache_ok [OF assms])
  then have "GetPoEContractAddress t s' = GetPoEContractAddress t s" for t
    using cache_transparent [OF assms] cache_transparent [OF s'(2)] by (simp add: GetPoEContractAddress_def without_cache_def)
  with s' show ?thesis by blast
qed

lemma restore_registry:
  assumes "wasmRestore s = (Ok item, without_cache s1)" and "registry_ok s1"
  shows "\<exists>s2. PetriSnapshotter_Restore wasmRestore s = (Ok item, s2) \<and> registry_ok s2 \<and>
    (\<forall>t. GetPoEContractAddress t s2 = GetPoEContractAddress t s1)"
  using cache_from_store [OF assms(2)] assms(1) by (auto simp: PetriSnapshotter_Restore_def bindS_def ret_def)

lemma restart_registry:
  assumes "load s = (Ok (), t)" and "pin t = (Ok (), without_cache s1)" and "registry_ok s1"
  shows "\<exists>s2. app_LoadLatest load pin s = (Ok (), s2) \<and> registry_ok s2 \<and>
    (\<forall>t. GetPoEContractAddress t s2 = GetPoEContractAddress t s1)"
  using cache_from_store [OF assms(3)] assms(1,2) by (auto simp: app_LoadLatest_def panic_on_err_def bindS_def)

section \<open>Properties\<close>

text \<open>
  C26: With a validator set contract that serves its active validators in pages, all with Ed25519 keys, and
  a state that can be marshalled, the export ends. It lists exactly the active validators in the order of the
  contract, each with its Tendermint key and the address of this key, its power as a signed number and the
  moniker that the contract has for its operator (none when it has no such validator), at the height after
  the last block; or, when a validator cannot be converted or queried, it ends with the error or panic of the
  first one. An export for height zero panics.
\<close>

theorem validators_exported:
  fixes T :: "'pk tm_keys"
  assumes addr: "GetPoEContractAddress PoEContractTypeValset s = Ok addr"
    and pages: "serves (\<lambda>_ :: 'pk GenesisValidator list \<times> unit res. x_QuerySmart X s) addr psize vals"
    and ok: "active_ok vals" "length vals < fuel" and app: "genState s = Ok appState"
  shows "ExportAppStateAndValidators fuel K V T X genState params True height s = Some (Panic ''zero height export not supported'') \<and>
    ((\<exists>gvs. ExportAppStateAndValidators fuel K V T X genState params False height s =
        Some (Ok \<lparr>ea_AppState = appState, ea_Validators = gvs, ea_Height = to_int64 (height + 1), ea_ConsensusParams = params s\<rparr>) \<and>
      list_all2 (\<lambda>v g. \<exists>op pk meta. sAccAddressFromBech32 K (vi_Operator v) = Ok op \<and>
        ConvertToTendermintPubKey (vi_ValidatorPubkey v) = Ok pk \<and> PubKeyFromProto T pk = Ok (gv_PubKey g) \<and>
        gv_Address g = pk_Address T (gv_PubKey g) \<and> gv_Power g = int64_of_uint64 (vi_Power v) \<and>
        QueryValidator K V (x_QuerySmart X s) (ValsetContract s) op = Ok meta \<and>
        gv_Name g = (case meta of None \<Rightarrow> [] | Some m \<Rightarrow> Moniker (sv_Description m))) vals gvs) \<or>
     (\<exists>xs v ys. vals = xs @ v # ys \<and>
       (\<forall>x \<in> set xs. is_ok (export_validator K V T (x_QuerySmart X s) (ValsetContract s) x)) \<and>
       ((\<exists>e. export_validator K V T (x_QuerySmart X s) (ValsetContract s) v = Err e \<and>
          ExportAppStateAndValidators fuel K V T X genState params False height s = Some (Err e)) \<or>
        (\<exists>p. export_validator K V T (x_QuerySmart X s) (ValsetContract s) v = Panic p \<and>
          ExportAppStateAndValidators fuel K V T X genState params False height s = Some (Panic p)))))"
proof -
  let ?f = "export_validator K V T (x_QuerySmart X s) (ValsetContract s)"
  have e: "activeValidatorSet fuel K V T X s = Some (traverse ?f vals)" by (rule active_export [OF pages ok addr])
  have run: "ExportAppStateAndValidators fuel K V T X genState params False height s =
      Some (bind_res (traverse ?f vals) (\<lambda>gvs.
        Ok \<lparr>ea_AppState = appState, ea_Validators = gvs, ea_Height = to_int64 (height + 1), ea_ConsensusParams = params s\<rparr>))"
    by (simp add: ExportAppStateAndValidators_def app e)
  have zero: "ExportAppStateAndValidators fuel K V T X genState params True height s = Some (Panic ''zero height export not supported'')"
    by (simp add: ExportAppStateAndValidators_def)
  show ?thesis
  proof (cases "is_ok (traverse ?f vals)")
    case True
    then obtain gvs where gvs: "traverse ?f vals = Ok gvs" by (cases "traverse ?f vals") auto
    from gvs [unfolded traverse_all2] have "list_all2 (\<lambda>v g. \<exists>op pk meta. sAccAddressFromBech32 K (vi_Operator v) = Ok op \<and>
        ConvertToTendermintPubKey (vi_ValidatorPubkey v) = Ok pk \<and> PubKeyFromProto T pk = Ok (gv_PubKey g) \<and>
        gv_Address g = pk_Address T (gv_PubKey g) \<and> gv_Power g = int64_of_uint64 (vi_Power v) \<and>
        QueryValidator K V (x_QuerySmart X s) (ValsetContract s) op = Ok meta \<and>
        gv_Name g = (case meta of None \<Rightarrow> [] | Some m \<Rightarrow> Moniker (sv_Description m))) vals gvs"
      by (rule list_all2_mono) (auto simp: export_validator_def bind_res_Ok_iff)
    then show ?thesis by (intro conjI [OF zero] disjI1 exI [of _ gvs]) (simp add: run gvs)
  next
    case False
    from traverse_stops [OF this] obtain ys x zs where "vals = ys @ x # zs" "\<forall>y \<in> set ys. is_ok (?f y)"
      "(\<exists>e. ?f x = Err e \<and> traverse ?f vals = Err e) \<or> (\<exists>p. ?f x = Panic p \<and> traverse ?f vals = Panic p)" by blast
    then show ?thesis by (intro conjI [OF zero] disjI2 exI [of _ ys] exI [of _ x] exI [of _ zs]) (auto simp: run)
  qed
qed

text \<open>Keys are their bytes.\<close>

definition sample_keys :: "bytes tm_keys" where
  "sample_keys = \<lparr>PubKeyFromProto = (\<lambda>k. case k of TmEd25519 b \<Rightarrow> Ok b | TmSecp256K1 b \<Rightarrow> Ok b), pk_Address = (\<lambda>b. b)\<rparr>"

definition sample_vals :: "(unit, unit) val_env" where
  "sample_vals = \<lparr>newAny = (\<lambda>_. Ok ()), val_OneDec = ()\<rparr>"

theorem validators_exported_witness:
  "\<exists>gvs. ExportAppStateAndValidators 3 sample_sdk sample_vals sample_keys (b_calls import_sample) (\<lambda>_. Ok [0x7B, 0x7D]) (\<lambda>_. ()) False 9
      (SetPoEContractAddress PoEContractTypeValset [7] boot_start) =
      Some (Ok \<lparr>ea_AppState = [0x7B, 0x7D], ea_Validators = gvs, ea_Height = 10, ea_ConsensusParams = ()\<rparr>) \<and>
    map gv_PubKey gvs = [[1], [2]]"
proof -
  let ?s = "SetPoEContractAddress PoEContractTypeValset [7] boot_start"
  have q: "x_QuerySmart (b_calls import_sample) s = page_server two_validators ()" for s
    by (simp add: import_sample_def page_server_def fun_eq_iff)
  have sv: "serves (\<lambda>_ :: bytes GenesisValidator list \<times> unit res. x_QuerySmart (b_calls import_sample) s) addr (\<lambda>_. 1) two_validators" for s addr
    unfolding q using page_server_serves [of two_validators addr] by (simp add: serves_def page_server_def)
  have addr: "GetPoEContractAddress PoEContractTypeValset ?s = Ok [7]" by (simp add: SetPoEContractAddress_def GetPoEContractAddress_def valid_kinds)
  have ok: "active_ok two_validators" "length two_validators < 3"
    by (simp_all add: active_ok_def two_validators_def ed_only_def noPubkey_def)
  note law = validators_exported [where genState = "\<lambda>_. Ok [0x7B, 0x7D]" and params = "\<lambda>_. ()" and height = 9,
      OF addr sv ok refl, of sample_sdk sample_vals sample_keys]
  have v: "ValsetContract ?s = NewBaseContractAdapter [7] None" by (simp add: ValsetContract_def lookup_adapter_def addr)
  have qv: "QueryValidator sample_sdk sample_vals (page_server two_validators ()) (NewBaseContractAdapter [7] None) a = Ok None" for a
    by (simp add: QueryValidator_def adapter_doQuery_def NewBaseContractAdapter_def page_server_def json_Unmarshal_def dec_struct_def find_field_def)
  have dec: "\<exists>a. sAccAddressFromBech32 sample_sdk (vi_Operator v) = Ok a" if "v \<in> set two_validators" for v
    using that by (auto simp: two_validators_def sample_sdk_def)
  have one: "\<exists>g. export_validator sample_sdk sample_vals sample_keys (page_server two_validators ()) (NewBaseContractAdapter [7] None) v = Ok g \<and>
      gv_PubKey g = k" if "v \<in> set two_validators" "vi_ValidatorPubkey v = noPubkey\<lparr>vp_Ed25519 := Some k\<rparr>" for v k
    using dec [OF that(1)] that(2) by (auto simp: export_validator_def qv ConvertToTendermintPubKey_def sample_keys_def noPubkey_def)
  have keys: "map vi_ValidatorPubkey two_validators = [noPubkey\<lparr>vp_Ed25519 := Some [1]\<rparr>, noPubkey\<lparr>vp_Ed25519 := Some [2]\<rparr>]"
    by (simp add: two_validators_def)
  have good: "\<exists>g. export_validator sample_sdk sample_vals sample_keys (x_QuerySmart (b_calls import_sample) ?s) (ValsetContract ?s) v = Ok g"
    if "v \<in> set two_validators" for v
  proof -
    have "vi_ValidatorPubkey v \<in> set (map vi_ValidatorPubkey two_validators)" using that by simp
    then show ?thesis unfolding keys q v using one [OF that] by auto
  qed
  have bad: False if "two_validators = xs @ v # ys"
    "export_validator sample_sdk sample_vals sample_keys (x_QuerySmart (b_calls import_sample) ?s) (ValsetContract ?s) v = r" "\<not> is_ok r" for xs v ys r
  proof -
    have "v \<in> set two_validators" unfolding that(1) by simp
    from good [OF this] that(2,3) show False by auto
  qed
  obtain gvs where e: "ExportAppStateAndValidators 3 sample_sdk sample_vals sample_keys (b_calls import_sample) (\<lambda>_. Ok [0x7B, 0x7D]) (\<lambda>_. ()) False 9 ?s =
      Some (Ok \<lparr>ea_AppState = [0x7B, 0x7D], ea_Validators = gvs, ea_Height = to_int64 (9 + 1), ea_ConsensusParams = ()\<rparr>)"
    and l: "list_all2 (\<lambda>v g. \<exists>pk. ConvertToTendermintPubKey (vi_ValidatorPubkey v) = Ok pk \<and> PubKeyFromProto sample_keys pk = Ok (gv_PubKey g))
      two_validators gvs"
    using law by (elim conjE disjE exE) (rule that, assumption, erule list_all2_mono, blast, (rule FalseE, rule bad, assumption, assumption, simp)+)
  obtain g0 g1 where g: "gvs = [g0, g1]" and "gv_PubKey g0 = [1]" "gv_PubKey g1 = [2]"
    using l by (auto simp: two_validators_def list_all2_Cons1 ConvertToTendermintPubKey_def sample_keys_def noPubkey_def)
  moreover have "to_int64 (9 + 1) = 10" by code_simp
  ultimately show ?thesis using e by (intro exI [of _ gvs]) simp
qed

end
