(* ===== verification/AppUpgrades.thy ===== *)
theory AppUpgrades
  imports PoELaunch
begin

text \<open>
  The software upgrades of the chain (\<open>app/upgrades\<close>) and their registration (\<open>app/app.go\<close>). The upgrade v3
  is to bring the end of the vesting of a fixed list of accounts forward. \<open>v3_upgrade_accounts\<close> shows what it does
  when the addresses decode; \<open>v3_upgrade_fails\<close> shows that they do not, with the checksum of Bech32 addresses.
\<close>

unbundle bit_operations_syntax

section \<open>Accounts\<close>

text \<open>
  An account of the SDK: a continuous vesting account with its address and end time, or an account of
  another type. \<open>'b\<close> is all else that it holds.
\<close>

record 'b vesting_account =
  va_Address :: addr
  va_EndTime :: int
  va_Rest :: 'b

datatype 'b sdk_account = ContinuousVestingAccount "'b vesting_account" | OtherAccount addr 'b

fun account_addr :: "'b sdk_account \<Rightarrow> addr" where
  "account_addr (ContinuousVestingAccount v) = va_Address v"
| "account_addr (OtherAccount a b) = a"

text \<open>The account keeper and the module manager, over the state \<open>'s\<close> of the chain and the version map \<open>'v\<close>.\<close>

record ('s, 'b, 'v) upgrade_ext =
  ak_GetAccount :: "addr \<Rightarrow> 's \<Rightarrow> 'b sdk_account option"
  ak_SetAccount :: "'b sdk_account \<Rightarrow> 's \<Rightarrow> 's"
  mm_RunMigrations :: "'v \<Rightarrow> ('s, 'v) act"

type_synonym ('s, 'v) upgrade_handler = "'v \<Rightarrow> ('s, 'v) act"

section \<open>The upgrades\<close>

definition oldEndTime :: int where
  "oldEndTime = 1703435178"

definition newEndTime :: int where
  "newEndTime = 1688220000"

definition addresses :: "string list" where
  "addresses =
     [''furya1s0lankh33kprer2l22nank5rvsuh9ksa4nr6gl'',
      ''furya179skd62nvdvvt440l0krmlj40ewywv4rscgq8z'',
      ''furya1tkgvwuns7l7vkpc0pq2nnjkkdz509vwrzf86sw'',
      ''furya1we8a49nlqr3apex8zxxahh3zf2ye69dy8pcgmv'',
      ''furya1wlagucxdxvsmvj6330864x8q3vxz4x02d0ssjl'',
      ''furya1cemam36qz7le8p0k9gykvkshnvhussphax76mh'',
      ''furya1hcwcxnz5stwnrupf964lzc3txdzgctv5069nzw'',
      ''furya16g4x972lvchrpc7zgtfad3sjqe3nw5njmuk7rp'',
      ''furya1daujfmddygyty3pjsnr9xhz3vxymh6u00krlym'',
      ''furya1lpwnu27qk29sxptphmkw37x0dzreqz34mg25p8'',
      ''furya1grnsmfmhcsl2dllkyyq7qzm9whlnwxzc77ul0t'',
      ''furya1quw3zpwklv3l4ntpfj37c2tx4393ly03tnfc98'',
      ''furya1efp3hmnslju2pn8g2qukp5k5xs028rhppznk67'',
      ''furya1y4v7dcwe5upna6vpgfggrfy23l07r9jdusek5j'',
      ''furya102c8nrsw5wlezdkj9m6rvmx8rrlwf5n0t2yatd'',
      ''furya1cv4leeaavx5lu5n7jgrdklt76rgx2xtd2hlrue'',
      ''furya1qe8uuf5x69c526h4nzxwv4ltftr73v7qt4v8ku'',
      ''furya10wxn2lv29yqnw2uf4jf439kwy5ef00qdms5tvk'',
      ''furya1jdc8qm80m3lvgajuvn36x2nmxfjauclxtyp7rg'',
      ''furya1cxmsyzr90qh85gwgwnvptukhk2tvvhq6t4dr2a'',
      ''furya1k8efqy9seesd0dcvr7207nmmlkfz944p97fypq'',
      ''furya1tvzlc7n05ht0wx8n77a04kkv75yy8dpsfy4d6h'',
      ''furya1utgcen4kj42gs0cpzkqvyvhu2tcp4pvt4gt8m0'',
      ''furya1q3gxkm46daqw48fmnpqu8sdfcedqhnmzleaccr'',
      ''furya1azrgt5aneucrun989pta6jayexnl6lagfcz927'',
      ''furya17h2x3j7u44qkrq0sk8ul0r2qr440rwgjca5y25'',
      ''furya1wa7cr30cpyacj7eznhpvv3rdperwhle0jeec49'',
      ''furya1zkg2tdja965738slnyfxx5kgqprwfl44ecnh3h'',
      ''furya1jplyne08tx0qu77fatnyun8s0u9mtcgwz84zgv'',
      ''furya18xp9dch3k2uxyrz6mdnqd24vmp2na6u55dxwpc'',
      ''furya1js7ezrm55fqgxu3p62d9xn6patjku2z7ne5dvg'',
      ''furya1c9ye54e3pzwm3e0zpdlel6pnavrj9qqvdvmqdq'',
      ''furya1ypwzuhaffvr06ktu0ne6lnm69gxj32qwx2a7lt'',
      ''furya1n3mhyp9fvcmuu8l0q8qvjy07x0rql8q45a9py4'',
      ''furya1kepe077yknqm9kyt63l4zu9rcjla0aku52f7vn'',
      ''furya1c8xa9nxxuvgd32put8qqmd33r29hwuq2ptzh36'',
      ''furya1hnesd8eqjtpu82t89jeqqs74vte440z4y33za6'',
      ''furya1n5s3tepr6a7dr0n4lzjq2x5jqn0a0hqngzn2dv'',
      ''furya1ey2xwu3tfgqxkg3wmrejt6qmn5dx3fl8cserz7'',
      ''furya1admh0ft2553aw6u9hxn7v2vw488r0yyg6u345u'',
      ''furya1u44vteu9tlzhwk7cxfqekgtc7rumlg32vkxgz5'',
      ''furya18nej8s0ykc88hgfumqdvs6kg9c7h0hdqvpalhe'',
      ''furya18uvsa2m93xkewwg60eylvx27c6qfa3675zfsjj'',
      ''furya154cvfyu85tduekt60ga8ydc45lc76w7yy6935n'',
      ''furya1j50e4wwhw332aq922x45p9phc70r7sy44v44y8'',
      ''furya1w8mztnvl55pwmlkgkpaquax6q37n5d2spaadcn'',
      ''furya1fy2s7er0c6uxc8hmnqfgukvkf7xh22s4upgc7u'',
      ''furya1kcdne83mkvygg7guueswnfyfwtsdmewywvnq5q'',
      ''furya1yj87cjq0ent7jnrj9lfffjhht6602dhy0fzlru'',
      ''furya16ycdyzj48pz4nvdprrxkxkq5ax76ksmg5ux6gj'',
      ''furya1a2fa2c4psh39n8mr62w403smnqxxcynxqgfuxs'',
      ''furya10nq2ea7fms8g58fyaqlc2m3thq9kjx5wun6rk9'',
      ''furya17lclxtnwyk64u9nuzfx0d3ljwzddrht0t965ll'',
      ''furya1s3366h2rpwhvlt0w0x49ssyh27778dyztnsz3g'',
      ''furya1q5q2fkxd92n8da8e4ja9mfcl9cesfg7e6l9rud'',
      ''furya1wgkky0dpzufmqxc93lynymfk6uf68005hdh7x2'',
      ''furya1dz487qtggarfaxja70grhs3lgfv02mpn0l9f3j'',
      ''furya1skc8aut895jvg4hdxx7q89sus5x63edeq0mgrk'',
      ''furya1ydw2lp4gcxn8qv09qe8w5qdpgt8qeu30gpf392'',
      ''furya1y4my6z3lgjgw4f7x6wnldpkfagev2wd7hu6vrg'',
      ''furya1zfcmwh56kmz4wqqg2t8pxrm228dx2c6hwwyxfm'',
      ''furya1x20lytyf6zkcrv5edpkfkn8sz578qg5s7azap8'',
      ''furya1vrq3kjq95kkh26vp3g6sfx84xzw654qa4kg2pe'']"

definition v2_CreateUpgradeHandler :: "('s, 'b, 'v) upgrade_ext \<Rightarrow> ('s, 'v) upgrade_handler" where
  "v2_CreateUpgradeHandler U fromVM = mm_RunMigrations U fromVM"

fun move_end_times :: "sdk_ops \<Rightarrow> ('s, 'b, 'v) upgrade_ext \<Rightarrow> string list \<Rightarrow> ('s, unit) act" where
  "move_end_times K U [] = ret ()"
| "move_end_times K U (addr # addrs) =
     bindS (lift_res (sAccAddressFromBech32 K addr)) (\<lambda>accAddr.
     bindS (gets (ak_GetAccount U accAddr)) (\<lambda>acc.
     case acc of
       Some (ContinuousVestingAccount vestingAccount) \<Rightarrow>
         if va_EndTime vestingAccount \<noteq> oldEndTime
         then lift_res (fail (PlainErr ''account %s end time is %d instead of %d''))
         else bindS (modify (ak_SetAccount U (ContinuousVestingAccount (vestingAccount\<lparr>va_EndTime := newEndTime\<rparr>)))) (\<lambda>_.
           move_end_times K U addrs)
     | _ \<Rightarrow> lift_res (fail (PlainErr ''cannot cast account %s to vesting account''))))"

definition v3_CreateUpgradeHandler :: "sdk_ops \<Rightarrow> ('s, 'b, 'v) upgrade_ext \<Rightarrow> ('s, 'v) upgrade_handler" where
  "v3_CreateUpgradeHandler K U fromVM =
     bindS (move_end_times K U addresses) (\<lambda>_. mm_RunMigrations U fromVM)"

text \<open>The list of upgrades and their registration with the upgrade keeper \<open>'u\<close>.\<close>

definition Upgrades :: "sdk_ops \<Rightarrow> ('s, 'b, 'v) upgrade_ext \<Rightarrow> (string \<times> ('s, 'v) upgrade_handler) list" where
  "Upgrades K U = [(''v2'', v2_CreateUpgradeHandler U), (''v3'', v3_CreateUpgradeHandler K U)]"

definition setupUpgradeHandlers ::
    "(string \<Rightarrow> ('s, 'v) upgrade_handler \<Rightarrow> 'u \<Rightarrow> 'u) \<Rightarrow> sdk_ops \<Rightarrow> ('s, 'b, 'v) upgrade_ext \<Rightarrow> 'u \<Rightarrow> 'u" where
  "setupUpgradeHandlers SetUpgradeHandler K U k = foldl (\<lambda>k (name, h). SetUpgradeHandler name h k) k (Upgrades K U)"

section \<open>The checksum of Bech32\<close>

text \<open>
  The format of the addresses is published (BIP 173): the prefix, the last \<open>1\<close> of the string, and characters
  that stand for numbers below 32, of which the last six make the checksum of all of them, prefix included,
  come out as one. It is what a decoder of addresses is known to check.
\<close>

definition bech32_charset :: string where
  "bech32_charset = ''qpzry9x8gf2tvdw0s3jn54khce6mua7l''"

definition bech32_step :: "32 word \<Rightarrow> 32 word \<Rightarrow> 32 word" where
  "bech32_step chk v =
     (let top = drop_bit 25 chk;
          chk1 = push_bit 5 (chk AND 0x1ffffff) XOR v
      in foldl (\<lambda>c (i, g). if bit top i then c XOR g else c) chk1
           [(0, 0x3b6a57b2), (1, 0x26508e6d), (2, 0x1ea119fa), (3, 0x3d4233dd), (4, 0x2a1462b3)])"

definition hrp_expand :: "string \<Rightarrow> 32 word list" where
  "hrp_expand hrp = map (\<lambda>c. drop_bit 5 (of_char c)) hrp @ [0] @ map (\<lambda>c. of_char c AND 31) hrp"

fun split_last :: "char \<Rightarrow> string \<Rightarrow> (string \<times> string) option" where
  "split_last c [] = None"
| "split_last c (d # ds) =
     (case split_last c ds of
        Some (as, bs) \<Rightarrow> Some (d # as, bs)
      | None \<Rightarrow> if c = d then Some ([], ds) else None)"

fun position :: "char \<Rightarrow> string \<Rightarrow> nat option" where
  "position c [] = None"
| "position c (d # ds) = (if c = d then Some 0 else map_option Suc (position c ds))"

fun data_values :: "string \<Rightarrow> 32 word list option" where
  "data_values [] = Some []"
| "data_values (c # cs) =
     (case (position c bech32_charset, data_values cs) of
        (Some i, Some vs) \<Rightarrow> Some (of_nat i # vs)
      | _ \<Rightarrow> None)"

definition bech32_checksum :: "string \<Rightarrow> bool" where
  "bech32_checksum s =
     (case split_last (CHR ''1'') s of
        None \<Rightarrow> False
      | Some (hrp, ds) \<Rightarrow>
          (case data_values ds of
             None \<Rightarrow> False
           | Some vs \<Rightarrow> hrp \<noteq> [] \<and> 6 \<le> length vs \<and> foldl bech32_step 1 (hrp_expand hrp @ vs) = 1))"

text \<open>A decoder of addresses refuses a text without capital letters that does not have the checksum.\<close>

definition bech32_decoder :: "sdk_ops \<Rightarrow> bool" where
  "bech32_decoder K \<longleftrightarrow>
     (\<forall>s. list_all (\<lambda>c. \<not> (CHR ''A'' \<le> c \<and> c \<le> CHR ''Z'')) s \<longrightarrow> \<not> bech32_checksum s \<longrightarrow>
        (\<exists>e. sAccAddressFromBech32 K s = Err e))"

text \<open>The first address of the upgrade has the checksum of the prefix \<open>tgrade\<close>, not of its own.\<close>

lemma first_address:
  "\<not> bech32_checksum (hd addresses)" "bech32_checksum (''tgrade'' @ drop 5 (hd addresses))"
  unfolding addresses_def list.sel by code_simp+

section \<open>What the upgrade changes\<close>

text \<open>The account keeper stores accounts under their address.\<close>

definition account_laws :: "('s, 'b, 'v) upgrade_ext \<Rightarrow> bool" where
  "account_laws U \<longleftrightarrow>
     (\<forall>a s x. ak_GetAccount U a s = Some x \<longrightarrow> account_addr x = a) \<and>
     (\<forall>a s x. ak_GetAccount U a (ak_SetAccount U x s) = (if a = account_addr x then Some x else ak_GetAccount U a s))"

definition vests_until :: "('s, 'b, 'v) upgrade_ext \<Rightarrow> int \<Rightarrow> 's \<Rightarrow> addr \<Rightarrow> bool" where
  "vests_until U t s a \<longleftrightarrow> (\<exists>v. ak_GetAccount U a s = Some (ContinuousVestingAccount v) \<and> va_EndTime v = t)"

fun with_end_time :: "int \<Rightarrow> 'b sdk_account \<Rightarrow> 'b sdk_account" where
  "with_end_time t (ContinuousVestingAccount v) = ContinuousVestingAccount (v\<lparr>va_EndTime := t\<rparr>)"
| "with_end_time t (OtherAccount a b) = OtherAccount a b"

text \<open>The accounts of \<open>s'\<close> are those of \<open>s\<close>, with the new end time for the ones in \<open>as\<close>.\<close>

definition moved :: "('s, 'b, 'v) upgrade_ext \<Rightarrow> addr list \<Rightarrow> 's \<Rightarrow> 's \<Rightarrow> bool" where
  "moved U as s s' \<longleftrightarrow> (\<forall>a. ak_GetAccount U a s' =
     (if a \<in> set as then map_option (with_end_time newEndTime) (ak_GetAccount U a s) else ak_GetAccount U a s))"

lemma move_step:
  assumes "account_laws U" and "vests_until U oldEndTime s a" and "sAccAddressFromBech32 K addr = Ok a"
  obtains s1 where "move_end_times K U (addr # addrs) s = move_end_times K U addrs s1" "moved U [a] s s1"
proof -
  obtain v where v: "ak_GetAccount U a s = Some (ContinuousVestingAccount v)" "va_EndTime v = oldEndTime"
    using assms(2) by (auto simp: vests_until_def)
  let ?x = "ContinuousVestingAccount (v\<lparr>va_EndTime := newEndTime\<rparr>)"
  have "account_addr (ContinuousVestingAccount v) = a" using assms(1) v(1) unfolding account_laws_def by blast
  then have addr: "account_addr ?x = a" by simp
  have set: "ak_GetAccount U b (ak_SetAccount U ?x s) = (if b = a then Some ?x else ak_GetAccount U b s)" for b
    using assms(1) addr unfolding account_laws_def by metis
  show thesis
  proof (rule that)
    show "move_end_times K U (addr # addrs) s = move_end_times K U addrs (ak_SetAccount U ?x s)"
      using v assms(3) by simp
    show "moved U [a] s (ak_SetAccount U ?x s)" using v set by (simp add: moved_def)
  qed
qed

lemma move_refused:
  assumes "\<not> (\<exists>a. sAccAddressFromBech32 K addr = Ok a \<and> vests_until U oldEndTime s a)"
  shows "\<not> is_ok (fst (move_end_times K U (addr # addrs) s)) \<and> snd (move_end_times K U (addr # addrs) s) = s"
  using assms
  by (cases "sAccAddressFromBech32 K addr")
    (auto simp: vests_until_def lift_res_def fail_def split: option.splits sdk_account.splits)

text \<open>
  For addresses that decode to different accounts the loop succeeds exactly when all of them vest until the
  old end time, and moves exactly these accounts.
\<close>

lemma move_end_times_iff:
  assumes "account_laws U" and "list_all2 (\<lambda>addr a. sAccAddressFromBech32 K addr = Ok a) addrs as" and "distinct as"
  shows "if \<forall>a \<in> set as. vests_until U oldEndTime s a
     then \<exists>s'. move_end_times K U addrs s = (Ok (), s') \<and> moved U as s s'
     else \<not> is_ok (fst (move_end_times K U addrs s))"
  using assms(2,3)
proof (induction addrs as arbitrary: s rule: list_all2_induct)
  case Nil
  then show ?case by (simp add: ret_def moved_def)
next
  case (Cons addr addrs a as)
  show ?case
  proof (cases "vests_until U oldEndTime s a")
    case True
    obtain s1 where s1: "move_end_times K U (addr # addrs) s = move_end_times K U addrs s1" "moved U [a] s s1"
      by (rule move_step [OF assms(1) True Cons.hyps(1)])
    have same: "vests_until U oldEndTime s1 b \<longleftrightarrow> vests_until U oldEndTime s b" if "b \<in> set as" for b
      using s1(2) that Cons.prems by (auto simp: moved_def vests_until_def)
    have comp: "moved U (a # as) s s'" if "moved U as s1 s'" for s'
      using that s1(2) Cons.prems by (auto simp: moved_def)
    show ?thesis using Cons.IH [of s1] Cons.prems s1(1) same comp True by (auto split: if_splits)
  next
    case False
    then show ?thesis using move_refused [of K addr U s addrs] Cons.hyps(1) by auto
  qed
qed

lemma addresses_distinct: "distinct addresses"
  unfolding addresses_def by code_simp

lemma addresses_length: "length addresses = 63"
  by (simp add: addresses_def)

text \<open>
  When the 63 addresses of the upgrade decode to different accounts, the upgrade v3 runs the migrations exactly
  when each of them is a continuous vesting account with the old end time. Then these accounts, and no others,
  have the new end time and are otherwise unchanged, and the upgrade is refused when it is run again. If one
  account does not have this form the upgrade fails.
\<close>

lemma v3_upgrade_accounts:
  assumes laws: "account_laws U" and dec: "list_all2 (\<lambda>addr a. sAccAddressFromBech32 K addr = Ok a) addresses as" and dist: "distinct as"
  shows "if \<forall>a \<in> set as. vests_until U oldEndTime s a
    then \<exists>s1. v3_CreateUpgradeHandler K U fromVM s = mm_RunMigrations U fromVM s1 \<and> moved U as s s1 \<and>
      (\<forall>vm. \<not> is_ok (fst (v3_CreateUpgradeHandler K U vm s1)))
    else \<not> is_ok (fst (v3_CreateUpgradeHandler K U fromVM s))"
proof -
  have run: "if \<forall>a \<in> set as. vests_until U oldEndTime s a
    then \<exists>s1. v3_CreateUpgradeHandler K U fromVM s = mm_RunMigrations U fromVM s1 \<and> moved U as s s1
    else \<not> is_ok (fst (v3_CreateUpgradeHandler K U fromVM s))" for s fromVM
    using move_end_times_iff [OF laws dec dist, of s]
    by (auto simp: v3_CreateUpgradeHandler_def bindS_def is_ok_iff split: prod.splits res.splits if_splits)
  have again: "\<not> is_ok (fst (v3_CreateUpgradeHandler K U vm s1))"
    if "\<forall>a \<in> set as. vests_until U oldEndTime s a" "moved U as s s1" for s1 vm
  proof -
    have "as \<noteq> []" using dec by (auto simp: addresses_def)
    then obtain a where a: "a \<in> set as" by fastforce
    with that(1) obtain v where "ak_GetAccount U a s = Some (ContinuousVestingAccount v)" by (auto simp: vests_until_def)
    then have "ak_GetAccount U a s1 = Some (ContinuousVestingAccount (v\<lparr>va_EndTime := newEndTime\<rparr>))"
      using that(2) a by (simp add: moved_def)
    then have "\<not> vests_until U oldEndTime s1 a" by (simp add: vests_until_def newEndTime_def oldEndTime_def)
    with a have "\<not> (\<forall>a \<in> set as. vests_until U oldEndTime s1 a)" by blast
    then show ?thesis using run [of s1 vm] by simp
  qed
  show ?thesis
  proof (cases "\<forall>a \<in> set as. vests_until U oldEndTime s a")
    case True
    then obtain s1 where "v3_CreateUpgradeHandler K U fromVM s = mm_RunMigrations U fromVM s1" "moved U as s s1"
      using run [of s fromVM] by auto
    with again [OF True] True show ?thesis by auto
  next
    case False
    then have "\<not> is_ok (fst (v3_CreateUpgradeHandler K U fromVM s))" using run [of s fromVM] by (simp only: if_False not_False_eq_True)
    with False show ?thesis by (simp only: if_False not_False_eq_True)
  qed
qed

text \<open>A chain whose state is the map of its accounts.\<close>

definition sample_accounts :: "(addr \<rightharpoonup> unit sdk_account, unit, nat) upgrade_ext" where
  "sample_accounts =
     \<lparr>ak_GetAccount = (\<lambda>a s. case s a of Some x \<Rightarrow> if account_addr x = a then Some x else None | None \<Rightarrow> None),
      ak_SetAccount = (\<lambda>x s. s(account_addr x \<mapsto> x)), mm_RunMigrations = (\<lambda>vm s. (Ok (vm + 1), s))\<rparr>"

definition vesting_state :: "addr \<rightharpoonup> unit sdk_account" where
  "vesting_state a = Some (ContinuousVestingAccount \<lparr>va_Address = a, va_EndTime = oldEndTime, va_Rest = ()\<rparr>)"

lemma sample_account_laws: "account_laws sample_accounts"
  by (auto simp: account_laws_def sample_accounts_def split: option.splits if_splits)

lemma v3_upgrade_accounts_sample:
  "\<exists>s1. v3_CreateUpgradeHandler sample_sdk sample_accounts 1 vesting_state = (Ok 2, s1) \<and>
     moved sample_accounts (map string_bytes addresses) vesting_state s1"
proof -
  have ne: "\<forall>addr \<in> set addresses. addr \<noteq> []" by (simp add: addresses_def)
  have dec: "list_all2 (\<lambda>addr a. sAccAddressFromBech32 sample_sdk addr = Ok a) addresses (map string_bytes addresses)"
    using ne by (simp add: list_all2_conv_all_nth sample_sdk_def)
  have dist: "distinct (map string_bytes addresses)"
    using addresses_distinct by (simp add: distinct_map inj_on_def string_bytes_inj)
  have "\<forall>a \<in> set (map string_bytes addresses). vests_until sample_accounts oldEndTime vesting_state a"
    by (simp add: vests_until_def sample_accounts_def vesting_state_def)
  with v3_upgrade_accounts [OF sample_account_laws dec dist, of vesting_state 1] show ?thesis
    by (auto simp: sample_accounts_def)
qed

section \<open>Properties\<close>

text \<open>
  C27: The upgrade v3 fails on every chain, whatever its accounts are: with any decoder that refuses a text
  without a valid Bech32 checksum, the handler returns the error for its first address, leaves the state as it
  is and does not run the migrations. The checksum of that address is the one for the prefix \<open>tgrade\<close>, while
  its text has the prefix \<open>furya\<close>.
\<close>

theorem v3_upgrade_fails:
  assumes "bech32_decoder K"
  shows "(\<exists>e. sAccAddressFromBech32 K (hd addresses) = Err e \<and> v3_CreateUpgradeHandler K U fromVM s = (Err e, s)) \<and>
    take 5 (hd addresses) = ''furya'' \<and> bech32_checksum (''tgrade'' @ drop 5 (hd addresses))"
proof -
  have "list_all (\<lambda>c. \<not> (CHR ''A'' \<le> c \<and> c \<le> CHR ''Z'')) (hd addresses)"
    unfolding addresses_def list.sel by code_simp
  then obtain e where e: "sAccAddressFromBech32 K (hd addresses) = Err e"
    using assms first_address(1) unfolding bech32_decoder_def by blast
  moreover have "v3_CreateUpgradeHandler K U fromVM s = (Err e, s)"
    using e by (simp add: v3_CreateUpgradeHandler_def addresses_def bindS_def lift_res_def)
  moreover have "take 5 (hd addresses) = ''furya''" by (simp add: addresses_def)
  ultimately show ?thesis using first_address(2) by blast
qed

definition checked_sdk :: sdk_ops where
  "checked_sdk = sample_sdk\<lparr>sAccAddressFromBech32 :=
     (\<lambda>s. if bech32_checksum s then Ok (string_bytes s) else fail (PlainErr ''invalid checksum''))\<rparr>"

theorem v3_upgrade_fails_witness:
  "\<exists>e. v3_CreateUpgradeHandler checked_sdk sample_accounts 1 vesting_state = (Err e, vesting_state)"
proof -
  have "bech32_decoder checked_sdk" by (simp add: bech32_decoder_def checked_sdk_def fail_def)
  from v3_upgrade_fails [OF this, of sample_accounts 1 vesting_state] show ?thesis by blast
qed

end
