(* ===== verification/AppWiring.thy ===== *)
theory AppWiring
  imports PoEModule
begin

text \<open>
  How the application joins its parts (\<open>app/app.go\<close>, \<open>app/wasm.go\<close>): the modules and their order, the
  module accounts, the routing of the messages of contracts and the end of a block.
\<close>

section \<open>Modules and their order\<close>

text \<open>The modules that the application is built from.\<close>

datatype app_module =
    MAuth | MPoe | MBank | MCapability | MParams | MCrisis | MFeegrant | MAuthz | MIbc | MUpgrade | MTransfer | MVesting
  | MTwasm | MGlobalfee | MIca

definition ModuleBasics :: "app_module list" where
  "ModuleBasics =
     [MAuth, MPoe, MBank, MCapability, MParams, MCrisis, MFeegrant, MAuthz, MIbc, MUpgrade, MTransfer, MVesting, MTwasm,
      MGlobalfee, MIca]"

definition managerModules :: "app_module list" where
  "managerModules =
     [MPoe, MAuth, MVesting, MBank, MCapability, MUpgrade, MTwasm, MFeegrant, MAuthz, MIbc, MParams, MTransfer, MGlobalfee,
      MIca, MCrisis]"

definition OrderBeginBlockers :: "app_module list" where
  "OrderBeginBlockers =
     [MUpgrade, MCapability, MAuth, MBank, MCrisis, MAuthz, MFeegrant, MParams, MVesting, MIbc, MTransfer, MIbc, MIca, MPoe,
      MTwasm, MGlobalfee]"

definition OrderEndBlockers :: "app_module list" where
  "OrderEndBlockers =
     [MCrisis, MCapability, MAuth, MBank, MAuthz, MFeegrant, MParams, MUpgrade, MVesting, MTransfer, MIbc, MIca, MGlobalfee,
      MTwasm, MPoe]"

definition OrderInitGenesis :: "app_module list" where
  "OrderInitGenesis =
     [MCapability, MAuth, MBank, MCrisis, MAuthz, MFeegrant, MParams, MUpgrade, MVesting, MTransfer, MIbc, MIca, MTwasm, MPoe,
      MGlobalfee]"

text \<open>
  Every module has its place in the genesis and at the end of a block exactly once. At the beginning of a
  block the IBC module is listed twice.
\<close>

lemma module_orders:
  "mset OrderInitGenesis = mset managerModules" "mset OrderEndBlockers = mset managerModules"
  "mset ModuleBasics = mset managerModules" "mset OrderBeginBlockers = add_mset MIbc (mset managerModules)"
  by (simp_all add: OrderInitGenesis_def OrderEndBlockers_def OrderBeginBlockers_def ModuleBasics_def managerModules_def)

section \<open>Module accounts\<close>

text \<open>The permissions of the module accounts. \<open>NewModuleAddress\<close> and the text form of addresses are the SDK's.\<close>

datatype permission = Minter | Burner | Staking

datatype module_account = AccTransfer | AccIca | AccTwasm | AccBondedPool

definition maccPerms :: "module_account \<rightharpoonup> permission list" where
  "maccPerms = [AccTransfer \<mapsto> [Minter, Burner], AccIca \<mapsto> [], AccTwasm \<mapsto> [Minter, Burner], AccBondedPool \<mapsto> [Burner, Staking]]"

definition GetMaccPerms :: "module_account \<rightharpoonup> permission list" where
  "GetMaccPerms = maccPerms"

definition ModuleAccountAddrs :: "(module_account \<Rightarrow> addr) \<Rightarrow> (addr \<Rightarrow> string) \<Rightarrow> string \<rightharpoonup> bool" where
  "ModuleAccountAddrs NewModuleAddress str a =
     (if a \<in> (str \<circ> NewModuleAddress) ` dom maccPerms then Some True else None)"

text \<open>The mint message of a contract needs the account of the twasm module to mint.\<close>

lemma minters: "maccPerms a = Some ps \<and> Minter \<in> set ps \<longleftrightarrow> (a = AccTransfer \<or> a = AccTwasm) \<and> ps = [Minter, Burner]"
  by (cases a) (auto simp: maccPerms_def)

section \<open>Messages of contracts\<close>

text \<open>
  A message of a contract: a staking message, a custom message or one of the others \<open>'m\<close>. A messenger
  executes a message of a contract. \<open>chain\<close> is wasmd's chain of messengers.
\<close>

record 'm cosmos_msg =
  cm_Staking :: "'m option"
  cm_Custom :: "json option option"
  cm_Other :: "'m option"

type_synonym ('w, 'm) messenger = "addr \<Rightarrow> string \<Rightarrow> 'm cosmos_msg \<Rightarrow> ('w tw_state, event list) act"

definition noStaking :: "('w, 'm) messenger" where
  "noStaking contractAddr contractIBCPortID msg =
     lift_res (if cm_Staking msg \<noteq> None then failw WasmErrExecuteFailed ''not supported, yet'' else fail WasmErrUnknownMsg)"

definition extMessageHandler ::
    "(('w, 'm) messenger list \<Rightarrow> ('w, 'm) messenger) \<Rightarrow> 'w wasm_ext \<Rightarrow> ('w, 'f, 'v) handler_ext \<Rightarrow> ('w, 'm) messenger \<Rightarrow>
     ('w, 'm) messenger" where
  "extMessageHandler chain X H nested =
     chain [noStaking, nested, (\<lambda>contractAddr contractIBCPortID msg. DispatchMsg X H contractAddr (cm_Custom msg))]"

section \<open>Block and genesis\<close>

text \<open>
  What the application uses of the SDK's module manager over its state \<open>'s\<close>: the end of a block runs the
  modules in an order and collects their validator updates, and the genesis.
\<close>

type_synonym 's module_run = "app_module \<Rightarrow> ('s, abci_ValidatorUpdate list) act"

definition module_EndBlock ::
    "'w wasm_ext \<Rightarrow> 'w tw_state sudoer \<Rightarrow> (event list \<Rightarrow> event list) \<Rightarrow> 'w tw_state module_run \<Rightarrow> 'w tw_state module_run" where
  "module_EndBlock X sudo fwd others m =
     (case m of
        MTwasm \<Rightarrow> bindS (EndBlocker X fwd) (\<lambda>_ :: unit list. ret [])
      | MPoe \<Rightarrow> poe_EndBlocker sudo fwd
      | _ \<Rightarrow> others m)"

definition PetriApp_EndBlocker ::
    "(app_module list \<Rightarrow> 'w tw_state module_run \<Rightarrow> ('w tw_state, abci_ValidatorUpdate list) act) \<Rightarrow> 'w wasm_ext \<Rightarrow>
     'w tw_state sudoer \<Rightarrow> (event list \<Rightarrow> event list) \<Rightarrow> 'w tw_state module_run \<Rightarrow> ('w tw_state, abci_ValidatorUpdate list) act" where
  "PetriApp_EndBlocker mm_EndBlock X sudo fwd others = mm_EndBlock OrderEndBlockers (module_EndBlock X sudo fwd others)"

definition InitChainer ::
    "(bytes \<Rightarrow> 'g res) \<Rightarrow> ('s \<Rightarrow> 's) \<Rightarrow> ('g \<Rightarrow> ('s, abci_ValidatorUpdate list) act) \<Rightarrow> bytes \<Rightarrow> ('s, abci_ValidatorUpdate list) act" where
  "InitChainer unmarshal SetModuleVersionMap mm_InitGenesis appStateBytes =
     bindS (panic_on_err ''err'' (lift_res (unmarshal appStateBytes))) (\<lambda>genesisState.
     bindS (modify SetModuleVersionMap) (\<lambda>_.
     mm_InitGenesis genesisState))"

section \<open>What the code relies on\<close>

text \<open>
  wasmd's chain asks its messengers in order until one knows the message. The module manager collects the
  updates of one module and panics on those of a second one.
\<close>

fun chain_of :: "('w, 'm) messenger list \<Rightarrow> ('w, 'm) messenger" where
  "chain_of [] a port msg s = (failw WasmErrUnknownMsg ''no handler found'', s)"
| "chain_of (h # hs) a port msg s =
     (case h a port msg s of
        (Err e, s') \<Rightarrow> if err_is WasmErrUnknownMsg e then chain_of hs a port msg s' else (Err e, s')
      | r \<Rightarrow> r)"

fun end_all :: "'s module_run \<Rightarrow> app_module list \<Rightarrow> abci_ValidatorUpdate list \<Rightarrow> ('s, abci_ValidatorUpdate list) act" where
  "end_all exec [] us = ret us"
| "end_all exec (m # ms) us =
     bindS (exec m) (\<lambda>vs.
       if vs = [] then end_all exec ms us
       else if us \<noteq> [] then lift_res (Panic ''validator EndBlock updates already set by a previous module'')
       else end_all exec ms vs)"

text \<open>
  The other modules may fail, panic (crisis does on a broken invariant) or return updates of their own;
  they leave the registrations and the privileges of contracts alone, which are in the store of twasm.
\<close>

definition others_frame :: "'w wasm_ext \<Rightarrow> 'w tw_state module_run \<Rightarrow> bool" where
  "others_frame X others \<longleftrightarrow>
     (\<forall>m s us s'. others m s = (Ok us, s') \<longrightarrow> tw_store s' = tw_store s \<and> privs_of X s' = privs_of X s)"

lemma end_all_append: "end_all r (ms @ rest) us = bindS (end_all r ms us) (end_all r rest)"
  by (induction ms arbitrary: us) (auto simp: bindS_def ret_def lift_res_def fun_eq_iff split: prod.splits res.splits)

lemma end_all_cong: "(\<And>m. m \<in> set ms \<Longrightarrow> r m = r' m) \<Longrightarrow> end_all r ms us = end_all r' ms us"
  by (induction ms arbitrary: us) (auto simp: bindS_def fun_eq_iff split: prod.splits res.splits)

lemma end_all_frame:
  assumes frame: "others_frame X others"
  shows "end_all others ms us s = (Ok vs, s') \<Longrightarrow> tw_store s' = tw_store s \<and> privs_of X s' = privs_of X s"
proof (induction ms arbitrary: us s)
  case (Cons m ms)
  from Cons.prems obtain ws s1 where m: "others m s = (Ok ws, s1)"
    and rest: "end_all others ms (if ws = [] then us else ws) s1 = (Ok vs, s')"
    by (auto simp: lift_res_def split: if_splits elim!: bindS_OkE)
  have "tw_store s1 = tw_store s \<and> privs_of X s1 = privs_of X s" using frame m unfolding others_frame_def by blast
  with Cons.IH [OF rest] show ?case by simp
qed (simp add: ret_def)

abbreviation other_modules :: "app_module list" where
  "other_modules \<equiv> filter (\<lambda>m. m \<noteq> MTwasm \<and> m \<noteq> MPoe) OrderEndBlockers"

lemma order_split: "OrderEndBlockers = other_modules @ [MTwasm, MPoe]"
  by (simp add: OrderEndBlockers_def)

text \<open>The end of a block is that of the other modules, then that of twasm and of poe.\<close>

lemma end_block_split:
  assumes manager: "\<And>ms r. mm_EndBlock ms r = end_all r ms []"
  shows "PetriApp_EndBlocker mm_EndBlock X sudo fwd others =
    bindS (end_all others other_modules []) (end_all (module_EndBlock X sudo fwd others) [MTwasm, MPoe])"
proof -
  have "module_EndBlock X sudo fwd others m = others m" if "m \<in> set other_modules" for m
    using that by (auto simp: module_EndBlock_def split: app_module.splits)
  from end_all_cong [OF this] show ?thesis
    unfolding PetriApp_EndBlocker_def manager by (subst order_split, subst end_all_append) (simp only:)
qed

section \<open>Properties\<close>

text \<open>
  C24: In every state reachable from an empty chain, or from an imported genesis state with valid lists, no
  custom state and every singleton privilege given out at most once, the end of a block of the application
  does not fail in twasm or poe: it fails only when one of the other modules, which run first, does, and then
  with its error or panic. When they return, with updates or without, the contracts that are registered for the end of a
  block are called, then the one validator set updater, in the state they have left, and neither the contracts'
  failures nor a malformed answer stops the block. When the other modules have returned no updates, as those
  of the application do, the updates are the updater's well formed answer, or none; the module manager panics
  when both have updates.
\<close>

theorem app_end_block:
  assumes laws: "wasm_laws X" "sudo_effects X" "handler_laws X H" "genesis_laws X G" and reach: "tw_reachable X G H fwd s"
    and manager: "\<And>ms r. mm_EndBlock ms r = end_all r ms []" and frame: "others_frame X others"
    and others: "end_all others other_modules [] s = (r0, s0)"
  shows "case r0 of
      Err e \<Rightarrow> PetriApp_EndBlocker mm_EndBlock X sudo fwd others s = (Err e, s0)
    | Panic p \<Rightarrow> PetriApp_EndBlocker mm_EndBlock X sudo fwd others s = (Panic p, s0)
    | Ok us \<Rightarrow>
        (\<exists>s1 diff s'.
          s1 = fold (try_sudo X fwd (emptySudoMsg\<lparr>sudo_EndBlock := Some ()\<rparr>)) (contracts_of PrivilegeTypeEndBlock s) s0 \<and>
          tw_reachable X G H fwd s1 \<and>
          ((\<forall>p. privilege_reg s1 PrivilegeTypeValidatorSetUpdate p = None) \<and> diff = [] \<and> s' = s1 \<or>
           (\<exists>p a. privilege_reg s1 PrivilegeTypeValidatorSetUpdate p = Some a \<and> (diff, s') = diff_of sudo fwd a s1)) \<and>
          PetriApp_EndBlocker mm_EndBlock X sudo fwd others s =
            (if us = [] then Ok diff else if diff = [] then Ok us
             else Panic ''validator EndBlock updates already set by a previous module'', s'))"
proof (cases r0)
  case (Ok us)
  have s0: "tw_store s0 = tw_store s" "privs_of X s0 = privs_of X s" using end_all_frame [OF frame] others Ok by blast+
  have reach0: "tw_reachable X G H fwd s0" by (rule tw_reachable.outside [OF reach s0])
  have inv0: "tw_inv X s0" by (rule reachable_inv [OF laws reach0])
  define s1 where "s1 = fold (try_sudo X fwd (emptySudoMsg\<lparr>sudo_EndBlock := Some ()\<rparr>)) (contracts_of PrivilegeTypeEndBlock s) s0"
  have "contracts_of PrivilegeTypeEndBlock s0 = contracts_of PrivilegeTypeEndBlock s" using s0(1) by (simp add: contracts_of_def)
  then have tw: "EndBlocker X fwd s0 = (Ok [], s1)" unfolding s1_def using EndBlocker_spec [OF inv_index [OF inv0]] by simp
  have reach1: "tw_reachable X G H fwd s1" using tw_reachable.end_block [OF reach0] tw by blast
  have inv1: "tw_inv X s1" by (rule reachable_inv [OF laws reach1])
  obtain diff s' where d: "poe_EndBlocker sudo fwd s1 = (Ok diff, s')"
    "(\<forall>p. privilege_reg s1 PrivilegeTypeValidatorSetUpdate p = None) \<and> diff = [] \<and> s' = s1 \<or>
     (\<exists>p a. privilege_reg s1 PrivilegeTypeValidatorSetUpdate p = Some a \<and> (diff, s') = diff_of sudo fwd a s1)"
    by (rule end_blocker_cases [OF inv1])
  have "PetriApp_EndBlocker mm_EndBlock X sudo fwd others s =
      (if us = [] then Ok diff else if diff = [] then Ok us
       else Panic ''validator EndBlock updates already set by a previous module'', s')"
    by (simp add: end_block_split [OF manager] others Ok bindS_def module_EndBlock_def tw ret_def d(1) lift_res_def)
  with d(2) reach1 Ok show ?thesis by (auto simp: s1_def)
qed (simp_all add: end_block_split [OF manager] others bindS_def)

text \<open>
  A module manager as documented; modules that do nothing, and modules of which the first one panics.
\<close>

definition crisis_halts :: "'w tw_state module_run" where
  "crisis_halts m s = (if m = MCrisis then (Panic ''invariant broken'', s) else (Ok [], s))"

theorem app_end_block_witness:
  "(\<exists>diff s'. PetriApp_EndBlocker (\<lambda>ms r. end_all r ms []) sample_ext reports_one (\<lambda>e. e) (\<lambda>m s. (Ok [], s)) sample5 = (Ok diff, s')) \<and>
   PetriApp_EndBlocker (\<lambda>ms r. end_all r ms []) sample_ext reports_one (\<lambda>e. e) crisis_halts sample5 = (Panic ''invariant broken'', sample5)"
proof -
  have frames: "others_frame sample_ext (\<lambda>m s. (Ok [], s))" "others_frame sample_ext crisis_halts"
    by (auto simp: others_frame_def crisis_halts_def split: if_splits)
  have quiet: "end_all (\<lambda>m s. (Ok [], s)) other_modules [] sample5 = (Ok [], sample5)"
    and halts: "end_all crisis_halts other_modules [] sample5 = (Panic ''invariant broken'', sample5)"
    by (simp_all add: OrderEndBlockers_def bindS_def ret_def crisis_halts_def)
  note law = app_end_block [where mm_EndBlock = "\<lambda>ms r. end_all r ms []" and sudo = reports_one and fwd = "\<lambda>e. e",
      OF sample_laws sample_effects sample_handler_laws sample_genesis_laws sample5_reachable refl]
  from law [OF frames(1) quiet] law [OF frames(2) halts] show ?thesis by auto
qed

definition unknown :: "'a res \<Rightarrow> bool" where
  "unknown r \<longleftrightarrow> (\<exists>e. r = Err e \<and> err_is WasmErrUnknownMsg e)"

text \<open>
  A staking message of a contract is refused without any effect. Every other message goes to wasmd's
  messengers first; only a message that they do not know goes to the handler of custom messages, which
  does not know it either when the contract is not privileged, and then leaves the state alone.
\<close>

lemma contract_messages_routed:
  assumes "chain = chain_of"
  shows "(cm_Staking msg \<noteq> None \<longrightarrow> extMessageHandler chain X H nested a port msg s = (failw WasmErrExecuteFailed ''not supported, yet'', s)) \<and>
    (cm_Staking msg = None \<and> nested a port msg s = (r, s') \<longrightarrow>
      (\<not> unknown r \<longrightarrow> extMessageHandler chain X H nested a port msg s = (r, s')) \<and>
      (unknown r \<and> DispatchMsg X H a (cm_Custom msg) s' = (Ok evts, s2) \<longrightarrow>
         IsPrivileged a s' \<and> extMessageHandler chain X H nested a port msg s = (Ok evts, s2)) \<and>
      (unknown r \<and> \<not> IsPrivileged a s' \<longrightarrow>
         (\<exists>f. err_is WasmErrUnknownMsg f \<and> extMessageHandler chain X H nested a port msg s = (Err f, s'))))"
proof (cases "cm_Staking msg")
  case None
  have start: "extMessageHandler chain X H nested a port msg s =
      chain_of [nested, (\<lambda>a port msg. DispatchMsg X H a (cm_Custom msg))] a port msg s"
    using assms None by (simp add: extMessageHandler_def noStaking_def lift_res_def fail_def)
  have unprivileged: "DispatchMsg X H a (cm_Custom msg) s' = (Err (Sentinel WasmErrUnknownMsg), s')" if "\<not> IsPrivileged a s'"
    using that by (cases "cm_Custom msg") (simp_all add: DispatchMsg_def fail_def)
  show ?thesis
    unfolding start using None unprivileged
    by (cases "IsPrivileged a s'"; cases r) (auto simp: unknown_def failw_def fail_def)
qed (use assms in \<open>simp add: extMessageHandler_def noStaking_def lift_res_def failw_def\<close>)

lemma contract_messages_routed_sample:
  "extMessageHandler chain_of sample_ext sample_handler (\<lambda>a port msg. lift_res (fail WasmErrUnknownMsg)) [9] ''''
     \<lparr>cm_Staking = Some (), cm_Custom = None, cm_Other = None\<rparr> sample5 = (failw WasmErrExecuteFailed ''not supported, yet'', sample5)"
  using contract_messages_routed [of chain_of "\<lparr>cm_Staking = Some (), cm_Custom = None, cm_Other = None\<rparr>" sample_ext sample_handler
      "\<lambda>a port msg. lift_res (fail WasmErrUnknownMsg)" "[9]" "''''" sample5] by simp

end
