(* ===== verification/PoETxCmds.thy ===== *)
theory PoETxCmds
  imports PoEVoting PoEGenesis
begin

text \<open>
  The commands of the module (\<open>x/poe/client/cli/tx.go\<close>, \<open>flags.go\<close>): which messages they build from flags
  and arguments. Signing and broadcasting are the SDK's.
\<close>

section \<open>Flags and environment\<close>

text \<open>
  The flags of a command: a name that was not defined is an error for \<open>GetString\<close> and the zero value where
  the code ignores the error.
\<close>

record flag_set =
  fl_str :: "string \<rightharpoonup> string"
  fl_bool :: "string \<rightharpoonup> bool"

definition GetString :: "flag_set \<Rightarrow> string \<Rightarrow> string res" where
  "GetString fs name = (case fl_str fs name of None \<Rightarrow> fail (PlainErr ''flag accessed but not defined: %s'') | Some v \<Rightarrow> Ok v)"

definition GetBool :: "flag_set \<Rightarrow> string \<Rightarrow> bool res" where
  "GetBool fs name = (case fl_bool fs name of None \<Rightarrow> fail (PlainErr ''flag accessed but not defined: %s'') | Some v \<Rightarrow> Ok v)"

definition str_or_empty :: "flag_set \<Rightarrow> string \<Rightarrow> string" where
  "str_or_empty fs name = (case fl_str fs name of None \<Rightarrow> [] | Some v \<Rightarrow> v)"

abbreviation "FlagPubKey \<equiv> ''pubkey''"
abbreviation "FlagAmount \<equiv> ''amount''"
abbreviation "FlagVestingAmount \<equiv> ''vesting-amount''"
abbreviation "FlagMoniker \<equiv> ''moniker''"
abbreviation "FlagIdentity \<equiv> ''identity''"
abbreviation "FlagWebsite \<equiv> ''website''"
abbreviation "FlagSecurityContact \<equiv> ''security-contact''"
abbreviation "FlagDetails \<equiv> ''details''"
abbreviation "FlagNodeID \<equiv> ''node-id''"
abbreviation "FlagIP \<equiv> ''ip''"
abbreviation "flagEngagement \<equiv> ''engagement''"
abbreviation "flagDistribution \<equiv> ''distribution''"
abbreviation "FlagGenerateOnly \<equiv> ''generate-only''"

text \<open>The execute message of wasmd, and the messages that the commands send.\<close>

record MsgExecuteContract =
  ex_Sender :: string
  ex_Contract :: string
  ex_Msg :: json

datatype 'a cli_msg =
    CmdCreateValidator "'a MsgCreateValidator"
  | CmdUpdateValidator MsgUpdateValidator
  | CmdDelegate MsgDelegate
  | CmdUndelegate MsgUndelegate
  | CmdExecute MsgExecuteContract

text \<open>
  What the commands use of the SDK and of wasmd: parsing of coins and keys (\<open>'k\<close>, packed as \<open>'a\<close>), the
  validation of an execute message, the query for the address of a contract, and the sender's address.
\<close>

record ('k, 'a) cli_env =
  c_sdk :: sdk_ops
  c_ParseCoinNormalized :: "string \<Rightarrow> msg_coin res"
  c_UnmarshalPubKey :: "string \<Rightarrow> 'k option res"
  c_newAny :: "'k \<Rightarrow> 'a res"
  c_ValidateExecute :: "MsgExecuteContract \<Rightarrow> unit res"
  c_ContractAddress :: "PoEContractType \<Rightarrow> string res"
  c_FromAddress :: addr
  c_PowerReduction :: int

definition defaultAmount :: "('k, 'a) cli_env \<Rightarrow> string" where
  "defaultAmount E = format_int (100 * c_PowerReduction E) @ DefaultBondDenom"

text \<open>The memo names the node for the peers; the transaction factory is represented by its memo.\<close>

definition node_memo :: "string \<Rightarrow> string \<Rightarrow> string \<Rightarrow> string" where
  "node_memo nodeID ip memo = (if nodeID \<noteq> [] \<and> ip \<noteq> [] then nodeID @ ''@'' @ ip @ '':26656'' else memo)"

definition flag_description :: "flag_set \<Rightarrow> Description" where
  "flag_description fs =
     \<lparr>Moniker = str_or_empty fs FlagMoniker, Identity = str_or_empty fs FlagIdentity, Website = str_or_empty fs FlagWebsite,
      SecurityContact = str_or_empty fs FlagSecurityContact, Details = str_or_empty fs FlagDetails\<rparr>"

section \<open>The commands\<close>

definition NewBuildCreateValidatorMsg :: "('k, 'a) cli_env \<Rightarrow> string \<Rightarrow> flag_set \<Rightarrow> (string \<times> 'a cli_msg) res" where
  "NewBuildCreateValidatorMsg E memo fs =
     bind_res (wrap_res ''liquid'' (GetString fs FlagAmount)) (\<lambda>liquidAmt.
     bind_res (wrap_res ''liquid'' (c_ParseCoinNormalized E liquidAmt)) (\<lambda>liquidStakeAmount.
     bind_res (wrap_res ''vesting'' (GetString fs FlagVestingAmount)) (\<lambda>vestingAmt.
     bind_res (wrap_res ''vesting'' (c_ParseCoinNormalized E vestingAmt)) (\<lambda>vestingStakeAmount.
     bind_res (GetString fs FlagPubKey) (\<lambda>pkStr.
     bind_res (c_UnmarshalPubKey E pkStr) (\<lambda>pk.
     bind_res (NewMsgCreateValidator (c_sdk E) (c_newAny E) (c_FromAddress E) pk liquidStakeAmount vestingStakeAmount
       (flag_description fs)) (\<lambda>msg.
     bind_res (MsgCreateValidator_ValidateBasic (c_sdk E) msg) (\<lambda>_.
     bind_res (wrap_res ''generate flag'' (GetBool fs FlagGenerateOnly)) (\<lambda>genOnly.
     Ok (if genOnly then node_memo (str_or_empty fs FlagNodeID) (str_or_empty fs FlagIP) memo else memo,
         CmdCreateValidator msg))))))))))"

definition NewCreateValidatorCmd :: "('k, 'a) cli_env \<Rightarrow> string \<Rightarrow> flag_set \<Rightarrow> 'a cli_msg list res" where
  "NewCreateValidatorCmd E memo fs = bind_res (NewBuildCreateValidatorMsg E memo fs) (\<lambda>(memo', msg). Ok [msg])"

definition NewEditValidatorCmd :: "('k, 'a) cli_env \<Rightarrow> flag_set \<Rightarrow> 'a cli_msg list res" where
  "NewEditValidatorCmd E fs =
     (let msg = NewMsgUpdateValidator (c_sdk E) (c_FromAddress E) (flag_description fs) in
      bind_res (MsgUpdateValidator_ValidateBasic (c_sdk E) msg) (\<lambda>_. Ok [CmdUpdateValidator msg]))"

definition NewDelegateCmd :: "('k, 'a) cli_env \<Rightarrow> string \<Rightarrow> string \<Rightarrow> 'a cli_msg list res" where
  "NewDelegateCmd E arg0 arg1 =
     bind_res (c_ParseCoinNormalized E arg0) (\<lambda>amount.
     bind_res (c_ParseCoinNormalized E arg1) (\<lambda>vestingAmount.
     let msg = NewMsgDelegate (c_sdk E) (c_FromAddress E) amount vestingAmount in
     bind_res (MsgDelegate_ValidateBasic (c_sdk E) msg) (\<lambda>_. Ok [CmdDelegate msg])))"

definition NewUnbondCmd :: "('k, 'a) cli_env \<Rightarrow> string \<Rightarrow> 'a cli_msg list res" where
  "NewUnbondCmd E arg0 =
     bind_res (c_ParseCoinNormalized E arg0) (\<lambda>amount.
     let msg = NewMsgUndelegate (c_sdk E) (c_FromAddress E) amount in
     bind_res (MsgUndelegate_ValidateBasic (c_sdk E) msg) (\<lambda>_. Ok [CmdUndelegate msg]))"

text \<open>The execute messages: the address of a contract is queried, the message is encoded and validated.\<close>

definition execute_msg :: "('k, 'a) cli_env \<Rightarrow> PoEContractType \<Rightarrow> string \<Rightarrow> string \<Rightarrow> json \<Rightarrow> 'a cli_msg res" where
  "execute_msg E ctype wrapMsg sender payload =
     bind_res (wrap_res wrapMsg (c_ContractAddress E ctype)) (\<lambda>address.
     let msg = \<lparr>ex_Sender = sender, ex_Contract = address, ex_Msg = payload\<rparr> in
     bind_res (c_ValidateExecute E msg) (\<lambda>_. Ok (CmdExecute msg)))"

definition NewUnjailTxCmd :: "('k, 'a) cli_env \<Rightarrow> 'a cli_msg list res" where
  "NewUnjailTxCmd E =
     bind_res (execute_msg E PoEContractTypeValset ''query valset contract address'' (sAddrString (c_sdk E) (c_FromAddress E))
       (enc_TG4ValsetExecute (noValsetExecute\<lparr>ve_Unjail := Some \<lparr>um_Operator = []\<rparr>\<rparr>))) (\<lambda>msg. Ok [msg])"

definition noEngagementExecute :: TG4EngagementExecute where
  "noEngagementExecute = \<lparr>ee_UpdateMembers = None, ee_UpdateAdmin = None, ee_WithdrawRewards = None, ee_DelegateWithdrawal = None\<rparr>"

definition buildDistributionWithdrawRewardsMsgExecute :: "('k, 'a) cli_env \<Rightarrow> string \<Rightarrow> 'a cli_msg res" where
  "buildDistributionWithdrawRewardsMsgExecute E sender =
     execute_msg E PoEContractTypeDistribution ''query distribution contract address'' sender
       (enc_TrustedCircleExecute (noCircleExecute\<lparr>te_WithdrawRewards := Some ()\<rparr>))"

definition buildEngagementWithdrawRewardsMsgExecute :: "('k, 'a) cli_env \<Rightarrow> string \<Rightarrow> 'a cli_msg res" where
  "buildEngagementWithdrawRewardsMsgExecute E sender =
     execute_msg E PoEContractTypeEngagement ''query engagement contract address'' sender
       (enc_TG4EngagementExecute (noEngagementExecute\<lparr>ee_WithdrawRewards := Some \<lparr>wr_Owner = None, wr_Receiver = None\<rparr>\<rparr>))"

definition NewClaimRewardsCmd :: "('k, 'a) cli_env \<Rightarrow> flag_set \<Rightarrow> 'a cli_msg list res" where
  "NewClaimRewardsCmd E fs =
     (let nodeOperator = sAddrString (c_sdk E) (c_FromAddress E) in
      bind_res (GetBool fs flagDistribution) (\<lambda>distrRewards.
      bind_res (GetBool fs flagEngagement) (\<lambda>engRewards.
      bind_res (if distrRewards \<or> \<not> (distrRewards \<or> engRewards)
        then bind_res (buildDistributionWithdrawRewardsMsgExecute E nodeOperator) (\<lambda>m. Ok [m]) else Ok []) (\<lambda>msgs.
      bind_res (if engRewards \<or> \<not> (distrRewards \<or> engRewards)
        then bind_res (buildEngagementWithdrawRewardsMsgExecute E nodeOperator) (\<lambda>m. Ok [m]) else Ok []) (\<lambda>msgs'.
      Ok (msgs @ msgs'))))))"

definition NewSetWithdrawAddressCmd :: "('k, 'a) cli_env \<Rightarrow> string \<Rightarrow> 'a cli_msg list res" where
  "NewSetWithdrawAddressCmd E arg0 =
     bind_res (wrap_res ''query engagement contract address'' (c_ContractAddress E PoEContractTypeEngagement)) (\<lambda>address.
     bind_res (sAccAddressFromBech32 (c_sdk E) arg0) (\<lambda>delegateAddress.
     let msg = \<lparr>ex_Sender = sAddrString (c_sdk E) (c_FromAddress E), ex_Contract = address,
       ex_Msg = enc_TG4EngagementExecute (noEngagementExecute\<lparr>ee_DelegateWithdrawal := Some (sAddrString (c_sdk E) delegateAddress)\<rparr>)\<rparr> in
     bind_res (c_ValidateExecute E msg) (\<lambda>_. Ok [CmdExecute msg])))"

section \<open>The validator of a genesis transaction\<close>

record 'k TxCreateValidatorConfig =
  cc_ChainID :: string
  cc_NodeID :: string
  cc_Moniker :: string
  cc_LiquidAmount :: string
  cc_VestingAmount :: string
  cc_PubKey :: "'k option"
  cc_IP :: string
  cc_Website :: string
  cc_SecurityContact :: string
  cc_Details :: string
  cc_Identity :: string

definition PrepareConfigForTxCreateValidator ::
    "('k, 'a) cli_env \<Rightarrow> flag_set \<Rightarrow> string \<Rightarrow> string \<Rightarrow> string \<Rightarrow> 'k option \<Rightarrow> 'k TxCreateValidatorConfig res" where
  "PrepareConfigForTxCreateValidator E flagSet moniker nodeID chainID valPubKey =
     bind_res (GetString flagSet FlagIP) (\<lambda>ip.
     bind_res (GetString flagSet FlagWebsite) (\<lambda>website.
     bind_res (GetString flagSet FlagSecurityContact) (\<lambda>securityContact.
     bind_res (GetString flagSet FlagDetails) (\<lambda>details.
     bind_res (GetString flagSet FlagIdentity) (\<lambda>identity.
     bind_res (GetString flagSet FlagAmount) (\<lambda>liquidAmount.
     bind_res (GetString flagSet FlagVestingAmount) (\<lambda>vestingAmount.
     Ok \<lparr>cc_ChainID = chainID, cc_NodeID = nodeID, cc_Moniker = moniker,
         cc_LiquidAmount = (if liquidAmount = [] then defaultAmount E else liquidAmount), cc_VestingAmount = vestingAmount,
         cc_PubKey = valPubKey, cc_IP = ip, cc_Website = website, cc_SecurityContact = securityContact, cc_Details = details,
         cc_Identity = identity\<rparr>)))))))"

definition BuildCreateValidatorMsg ::
    "('k, 'a) cli_env \<Rightarrow> 'k TxCreateValidatorConfig \<Rightarrow> string \<Rightarrow> bool \<Rightarrow> (string \<times> 'a MsgCreateValidator) res" where
  "BuildCreateValidatorMsg E config memo generateOnly =
     bind_res (c_ParseCoinNormalized E (cc_LiquidAmount config)) (\<lambda>liquidStakeAmount.
     bind_res (c_ParseCoinNormalized E (cc_VestingAmount config)) (\<lambda>vestingStakeAmount.
     bind_res (NewMsgCreateValidator (c_sdk E) (c_newAny E) (c_FromAddress E) (cc_PubKey config) liquidStakeAmount vestingStakeAmount
       \<lparr>Moniker = cc_Moniker config, Identity = cc_Identity config, Website = cc_Website config,
        SecurityContact = cc_SecurityContact config, Details = cc_Details config\<rparr>) (\<lambda>msg.
     Ok (if generateOnly then node_memo (cc_NodeID config) (cc_IP config) memo else memo, msg))))"

end
