(* ===== verification/PoEGenTx.thy ===== *)
theory PoEGenTx
  imports PoETxCmds
begin

text \<open>
  Genesis transactions: how the command creates them (\<open>x/poe/client/cli/genutil_gentx.go\<close>), how they are
  collected from files (\<open>x/poe/client/genutil_collect.go\<close>) and put into the genesis state of the module
  (\<open>x/poe/types/genesisio.go\<close>).
\<close>

section \<open>The genesis state of the application\<close>

text \<open>
  The genesis state of the application by module; \<open>'raw\<close> is the JSON of one module and \<open>codec_ops\<close> the codec.
  Genesis transactions have the type \<open>'x\<close>, their JSON the type \<open>'t\<close>.
\<close>

type_synonym 'raw app_state = "string \<rightharpoonup> 'raw"

record ('raw, 't, 'd) codec_ops =
  j_MustUnmarshal :: "'raw \<Rightarrow> ('t, 'd) poe_GenesisState res"
  j_MustMarshal :: "('t, 'd) poe_GenesisState \<Rightarrow> 'raw res"

definition poe_ModuleName :: string where
  "poe_ModuleName = ''poe''"

definition GetGenesisStateFromAppState :: "('raw, 't, 'd) codec_ops \<Rightarrow> 'raw app_state \<Rightarrow> ('t, 'd) poe_GenesisState res" where
  "GetGenesisStateFromAppState J appState =
     (case appState poe_ModuleName of
        None \<Rightarrow> Ok (poe_GenesisState.make (NewParams 0 0 []) NoSetup)
      | Some raw \<Rightarrow> j_MustUnmarshal J raw)"

definition SetGenesisStateInAppState ::
    "('raw, 't, 'd) codec_ops \<Rightarrow> 'raw app_state \<Rightarrow> ('t, 'd) poe_GenesisState \<Rightarrow> 'raw app_state res" where
  "SetGenesisStateInAppState J appState genesisState =
     bind_res (j_MustMarshal J genesisState) (\<lambda>genesisStateBz. Ok (appState(poe_ModuleName \<mapsto> genesisStateBz)))"

definition SetGenTxsInAppGenesisState ::
    "('raw, 't, 'd) codec_ops \<Rightarrow> ('x \<Rightarrow> 't res) \<Rightarrow> 'raw app_state \<Rightarrow> 'x list \<Rightarrow> 'raw app_state res" where
  "SetGenTxsInAppGenesisState J txJSONEncoder appGenesisState genTxs =
     bind_res (GetGenesisStateFromAppState J appGenesisState) (\<lambda>genesisState.
     bind_res (traverse txJSONEncoder genTxs) (\<lambda>genTxsBz.
     case GetSeedContracts genesisState of
       None \<Rightarrow> failw SdkErrNotSupported ''in state dump import mode''
     | Some seed \<Rightarrow>
         SetGenesisStateInAppState J appGenesisState
           (genesisState\<lparr>gs_SetupMode := SeedMode (Some (seed\<lparr>GenTxs := genTxsBz\<rparr>))\<rparr>)))"

section \<open>Collecting genesis transactions\<close>

text \<open>
  What is used of a decoded transaction: its memo, when it has one, and its messages. A file of the
  directory has a name and content, which may not be readable. Balances of the genesis state are pairs of
  address and coins.
\<close>

record ('x, 'a) tx_view =
  tv_Memo :: "'x \<Rightarrow> string option"
  tv_Msgs :: "'x \<Rightarrow> 'a gen_msg list"

record 'c dir_entry =
  fo_Name :: string
  fo_IsDir :: bool
  fo_Content :: "'c res"

type_synonym balance = "addr \<times> coin list"

definition has_suffix :: "string \<Rightarrow> string \<Rightarrow> bool" where
  "has_suffix s suffix \<longleftrightarrow> length suffix \<le> length s \<and> drop (length s - length suffix) s = suffix"

text \<open>The map of balances by the text of the address; a later entry replaces an earlier one.\<close>

definition balances_map :: "sdk_ops \<Rightarrow> balance list \<Rightarrow> string \<rightharpoonup> balance" where
  "balances_map K bals = map_of (rev (map (\<lambda>b. (sAddrString K (fst b), b)) bals))"

text \<open>\<open>AmountOf\<close> is \<open>sdk.Coins.AmountOf\<close>. The first comparison dereferences the amount of the message.\<close>

definition check_gen_tx ::
    "('x, 'a) tx_view \<Rightarrow> (coin list \<Rightarrow> string \<Rightarrow> int res) \<Rightarrow> (string \<rightharpoonup> balance) \<Rightarrow> 'x \<Rightarrow> (string \<times> 'a MsgCreateValidator) res" where
  "check_gen_tx T AmountOf balancesMap genTx =
     (case tv_Memo T genTx of
        None \<Rightarrow> fail (PlainErr ''expected TxWithMemo, got %T'')
      | Some nodeAddrIP \<Rightarrow>
     if nodeAddrIP = [] then fail (PlainErr ''failed to find node's address and IP in %s'')
     else (case tv_Msgs T genTx of
        [m] \<Rightarrow>
          (case m of
             OtherMsg \<Rightarrow> Panic ''interface conversion''
           | CreateMsg msg \<Rightarrow>
               (case balancesMap (cv_OperatorAddress msg) of
                  None \<Rightarrow> fail (PlainErr ''account %s balance not in genesis state: %+v'')
                | Some delBal \<Rightarrow>
                    bind_res (AmountOf (snd delBal) (mc_Denom (cv_Amount msg))) (\<lambda>available.
                    case mc_Amount (cv_Amount msg) of
                      None \<Rightarrow> Panic ''nil pointer dereference''
                    | Some amount \<Rightarrow>
                        if available < amount then fail (PlainErr ''insufficient fund for delegation %v: %v < %v'')
                        else Ok (nodeAddrIP, msg))))
      | _ \<Rightarrow> fail (PlainErr ''each genesis transaction must provide a single genesis message'')))"

fun collect_files ::
    "('c \<Rightarrow> 'x res) \<Rightarrow> ('x, 'a) tx_view \<Rightarrow> (coin list \<Rightarrow> string \<Rightarrow> int res) \<Rightarrow> (string \<rightharpoonup> balance) \<Rightarrow> string \<Rightarrow>
     'c dir_entry list \<Rightarrow> 'x list \<Rightarrow> string list \<Rightarrow> ('x list \<times> string list) res" where
  "collect_files decodeTx T AmountOf balancesMap moniker [] appGenTxs addressesIPs = Ok (appGenTxs, addressesIPs)"
| "collect_files decodeTx T AmountOf balancesMap moniker (fo # fos) appGenTxs addressesIPs =
     (if fo_IsDir fo then collect_files decodeTx T AmountOf balancesMap moniker fos appGenTxs addressesIPs
      else if \<not> has_suffix (fo_Name fo) ''.json''
      then collect_files decodeTx T AmountOf balancesMap moniker fos appGenTxs addressesIPs
      else
        bind_res (fo_Content fo) (\<lambda>jsonRawTx.
        bind_res (decodeTx jsonRawTx) (\<lambda>genTx.
        bind_res (check_gen_tx T AmountOf balancesMap genTx) (\<lambda>(nodeAddrIP, msg).
        collect_files decodeTx T AmountOf balancesMap moniker fos (appGenTxs @ [genTx])
          (if Moniker (cv_Description msg) \<noteq> moniker then addressesIPs @ [nodeAddrIP] else addressesIPs)))))"

definition strings_Join :: "string list \<Rightarrow> string \<Rightarrow> string" where
  "strings_Join xs sep = (case xs of [] \<Rightarrow> [] | y # ys \<Rightarrow> y @ concat (map (\<lambda>x. sep @ x) ys))"

text \<open>\<open>readDir\<close> lists a directory, \<open>genBalances\<close> are the balances in the state of the bank module.\<close>

definition collectTxs ::
    "sdk_ops \<Rightarrow> ('c \<Rightarrow> 'x res) \<Rightarrow> ('x, 'a) tx_view \<Rightarrow> (coin list \<Rightarrow> string \<Rightarrow> int res) \<Rightarrow> string \<Rightarrow> 'c dir_entry list res \<Rightarrow>
     'raw app_state res \<Rightarrow> ('raw app_state \<Rightarrow> balance list) \<Rightarrow> ('x list \<times> string) res" where
  "collectTxs K decodeTx T AmountOf moniker readDir genDocAppState genBalances =
     bind_res genDocAppState (\<lambda>appState.
     bind_res readDir (\<lambda>fos.
     bind_res (collect_files decodeTx T AmountOf (balances_map K (genBalances appState)) moniker fos [] [])
       (\<lambda>(appGenTxs, addressesIPs). Ok (appGenTxs, strings_Join (sort addressesIPs) '','' ))))"

text \<open>
  The files that the command writes: the peers in the configuration and the genesis file. The first is
  written before the transactions are counted.
\<close>

record 'raw node_files =
  nf_PersistentPeers :: string
  nf_Genesis :: "'raw app_state"

definition AddGenTxsToGenesisFile ::
    "sdk_ops \<Rightarrow> ('raw, 't, 'd) codec_ops \<Rightarrow> ('c \<Rightarrow> 'x res) \<Rightarrow> ('x \<Rightarrow> 't res) \<Rightarrow> ('x, 'a) tx_view \<Rightarrow> (coin list \<Rightarrow> string \<Rightarrow> int res) \<Rightarrow>
     string \<Rightarrow> 'c dir_entry list res \<Rightarrow> 'raw app_state res \<Rightarrow> ('raw app_state \<Rightarrow> balance list) \<Rightarrow> ('raw app_state \<Rightarrow> unit res) \<Rightarrow>
     ('raw node_files, 'raw app_state) act" where
  "AddGenTxsToGenesisFile K J decodeTx txJSONEncoder T AmountOf moniker readDir genDocAppState genBalances exportGenesisFile =
     bindS (lift_res (collectTxs K decodeTx T AmountOf moniker readDir genDocAppState genBalances)) (\<lambda>(appGenTxs, persistentPeers).
     bindS (modify (\<lambda>f. f\<lparr>nf_PersistentPeers := persistentPeers\<rparr>)) (\<lambda>_.
     if appGenTxs = [] then lift_res (fail (PlainErr ''there must be at least one genesis tx''))
     else
       bindS (lift_res genDocAppState) (\<lambda>appGenesisState.
       bindS (lift_res (SetGenTxsInAppGenesisState J txJSONEncoder appGenesisState appGenTxs)) (\<lambda>appState.
       bindS (lift_res (exportGenesisFile appState)) (\<lambda>_.
       bindS (modify (\<lambda>f. f\<lparr>nf_Genesis := appState\<rparr>)) (\<lambda>_. ret appState))))))"

section \<open>Creating a genesis transaction\<close>

text \<open>The loop over the balances ends with the first entry of the account.\<close>

fun find_balance :: "(coin list \<Rightarrow> string \<Rightarrow> int res) \<Rightarrow> addr \<Rightarrow> coin list \<Rightarrow> string \<Rightarrow> balance list \<Rightarrow> unit res" where
  "find_balance AmountOf addr coins bondDenom [] =
     fail (PlainErr ''account %s does not have a balance in the genesis state'')"
| "find_balance AmountOf addr coins bondDenom (bal # bals) =
     (if fst bal = addr then
        bind_res (AmountOf coins bondDenom) (\<lambda>wanted.
        bind_res (AmountOf (snd bal) bondDenom) (\<lambda>available.
        if available < wanted
        then fail (PlainErr ''account %s has a balance in genesis, but it only has %v%s available to stake, not %v%s'')
        else Ok ()))
      else find_balance AmountOf addr coins bondDenom bals)"

definition ValidateAccountInGenesis ::
    "('raw, 't, 'd) codec_ops \<Rightarrow> (coin list \<Rightarrow> string \<Rightarrow> int res) \<Rightarrow> ('raw app_state \<Rightarrow> balance list) \<Rightarrow> 'raw app_state \<Rightarrow>
     addr \<Rightarrow> coin list \<Rightarrow> unit res" where
  "ValidateAccountInGenesis J AmountOf genBalances appGenesisState addr coins =
     bind_res (GetGenesisStateFromAppState J appGenesisState) (\<lambda>gs.
     case GetSeedContracts gs of
       None \<Rightarrow> Panic ''nil pointer dereference''
     | Some seed \<Rightarrow> find_balance AmountOf addr coins (BondDenom seed) (genBalances appGenesisState))"

text \<open>
  What the command \<open>gentx\<close> reads and calls: the node's files, the genesis document with the chain id, the
  validation by all modules, the keyring, parsing and adding of coins. The transaction is then signed and
  written with this memo and message.
\<close>

record ('k, 'a, 'raw, 't, 'd) gentx_env =
  ge_cli :: "('k, 'a) cli_env"
  ge_codec :: "('raw, 't, 'd) codec_ops"
  ge_InitializeNodeValidatorFiles :: "(string \<times> 'k option) res"
  ge_GenesisDocFromFile :: "(string \<times> 'raw app_state res) res"
  ge_ValidateGenesis :: "'raw app_state \<Rightarrow> unit res"
  ge_Key :: "string \<Rightarrow> addr res"
  ge_ParseCoinsNormalized :: "string \<Rightarrow> coin list res"
  ge_Coins_Add :: "coin list \<Rightarrow> coin list \<Rightarrow> coin list res"
  ge_AmountOf :: "coin list \<Rightarrow> string \<Rightarrow> int res"
  ge_genBalances :: "'raw app_state \<Rightarrow> balance list"
  ge_configMoniker :: string
  ge_factoryMemo :: string

text \<open>The node's id and key, which flags may replace; the validated genesis state; the sum of both amounts.\<close>

definition gentx_node :: "('k, 'a, 'raw, 't, 'd) gentx_env \<Rightarrow> flag_set \<Rightarrow> (string \<times> 'k option) res" where
  "gentx_node G fs =
     bind_res (wrap_res ''failed to initialize node validator files'' (ge_InitializeNodeValidatorFiles G)) (\<lambda>(fileNodeID, fileKey).
     bind_res (if str_or_empty fs FlagPubKey \<noteq> []
       then wrap_res ''failed to unmarshal validator public key'' (c_UnmarshalPubKey (ge_cli G) (str_or_empty fs FlagPubKey))
       else Ok fileKey) (\<lambda>valPubKey.
     Ok (if str_or_empty fs FlagNodeID \<noteq> [] then str_or_empty fs FlagNodeID else fileNodeID, valPubKey)))"

definition gentx_genesis :: "('k, 'a, 'raw, 't, 'd) gentx_env \<Rightarrow> (string \<times> 'raw app_state) res" where
  "gentx_genesis G =
     bind_res (wrap_res ''failed to read genesis doc file %s'' (ge_GenesisDocFromFile G)) (\<lambda>(chainID, docState).
     bind_res (wrap_res ''failed to unmarshal genesis state'' docState) (\<lambda>genesisState.
     bind_res (wrap_res ''failed to validate genesis state'' (ge_ValidateGenesis G genesisState)) (\<lambda>_.
     Ok (chainID, genesisState))))"

definition gentx_coins :: "('k, 'a, 'raw, 't, 'd) gentx_env \<Rightarrow> string \<Rightarrow> string \<Rightarrow> coin list res" where
  "gentx_coins G liquidAmount vestedAmount =
     bind_res (wrap_res ''failed to parse coins for liquid amount'' (ge_ParseCoinsNormalized G liquidAmount)) (\<lambda>liquidCoins.
     bind_res (wrap_res ''failed to parse coins for vested amount'' (ge_ParseCoinsNormalized G vestedAmount)) (\<lambda>vestedCoins.
     ge_Coins_Add G liquidCoins vestedCoins))"

definition amounts_match :: "'k TxCreateValidatorConfig \<Rightarrow> string \<Rightarrow> string \<Rightarrow> unit res" where
  "amounts_match createValCfg liquidAmount vestedAmount =
     (if cc_LiquidAmount createValCfg \<noteq> [] \<and> cc_LiquidAmount createValCfg \<noteq> liquidAmount
      then fail (PlainErr ''liquid amount param and argument missmatch'')
      else if cc_VestingAmount createValCfg \<noteq> [] \<and> cc_VestingAmount createValCfg \<noteq> vestedAmount
      then fail (PlainErr ''vesting amount param and argument missmatch'')
      else Ok ())"

definition GenTx_message ::
    "('k, 'a, 'raw, 't, 'd) gentx_env \<Rightarrow> flag_set \<Rightarrow> string \<Rightarrow> string \<Rightarrow> string \<Rightarrow> (string \<times> 'a MsgCreateValidator) res" where
  "GenTx_message G fs name liquidAmount vestedAmount =
     bind_res (gentx_node G fs) (\<lambda>(nodeID, valPubKey).
     bind_res (gentx_genesis G) (\<lambda>(chainID, genesisState).
     bind_res (wrap_res ''failed to fetch '%s' from the keyring'' (ge_Key G name)) (\<lambda>key.
     let moniker = (if str_or_empty fs FlagMoniker \<noteq> [] then str_or_empty fs FlagMoniker else ge_configMoniker G) in
     bind_res (wrap_res ''error creating configuration to create validator msg''
       (PrepareConfigForTxCreateValidator (ge_cli G) fs moniker nodeID chainID valPubKey)) (\<lambda>createValCfg.
     bind_res (gentx_coins G liquidAmount vestedAmount) (\<lambda>coins.
     bind_res (wrap_res ''failed to validate account in genesis''
       (ValidateAccountInGenesis (ge_codec G) (ge_AmountOf G) (ge_genBalances G) genesisState key coins)) (\<lambda>_.
     bind_res (amounts_match createValCfg liquidAmount vestedAmount) (\<lambda>_.
     wrap_res ''failed to build create-validator message''
       (BuildCreateValidatorMsg ((ge_cli G)\<lparr>c_FromAddress := key\<rparr>)
         (createValCfg\<lparr>cc_LiquidAmount := liquidAmount, cc_VestingAmount := vestedAmount\<rparr>) (ge_factoryMemo G) True))))))))"

section \<open>What is collected\<close>

definition json_files :: "'c dir_entry list \<Rightarrow> 'c dir_entry list" where
  "json_files fos = filter (\<lambda>fo. \<not> fo_IsDir fo \<and> has_suffix (fo_Name fo) ''.json'') fos"

definition read_gen_tx ::
    "('c \<Rightarrow> 'x res) \<Rightarrow> ('x, 'a) tx_view \<Rightarrow> (coin list \<Rightarrow> string \<Rightarrow> int res) \<Rightarrow> (string \<rightharpoonup> balance) \<Rightarrow> 'c dir_entry \<Rightarrow>
     ('x \<times> string \<times> 'a MsgCreateValidator) res" where
  "read_gen_tx decodeTx T AmountOf bals fo =
     bind_res (fo_Content fo) (\<lambda>raw. bind_res (decodeTx raw) (\<lambda>tx.
     bind_res (check_gen_tx T AmountOf bals tx) (\<lambda>(memo, msg). Ok (tx, memo, msg))))"

text \<open>The peers: the memos of all nodes but the own one.\<close>

definition peers_of :: "string \<Rightarrow> ('x \<times> string \<times> 'a MsgCreateValidator) list \<Rightarrow> string list" where
  "peers_of moniker rs = map (\<lambda>(tx, memo, msg). memo) (filter (\<lambda>(tx, memo, msg). Moniker (cv_Description msg) \<noteq> moniker) rs)"

lemma collect_files_traverse:
  "collect_files decodeTx T AmountOf bals moniker fos txs ips =
    bind_res (traverse (read_gen_tx decodeTx T AmountOf bals) (json_files fos)) (\<lambda>rs.
      Ok (txs @ map fst rs, ips @ peers_of moniker rs))"
proof (induction fos arbitrary: txs ips)
  case (Cons fo fos)
  show ?case
  proof (cases "\<not> fo_IsDir fo \<and> has_suffix (fo_Name fo) ''.json''")
    case True
    have step: "collect_files decodeTx T AmountOf bals moniker (fo # fos) txs ips =
      bind_res (read_gen_tx decodeTx T AmountOf bals fo) (\<lambda>(tx, memo, msg).
        collect_files decodeTx T AmountOf bals moniker fos (txs @ [tx])
          (if Moniker (cv_Description msg) \<noteq> moniker then ips @ [memo] else ips))"
      using True by (simp add: read_gen_tx_def bind_res_assoc case_prod_beta' cong: if_cong)
    have "json_files (fo # fos) = fo # json_files fos" using True by (simp add: json_files_def)
    then show ?thesis
      unfolding step Cons.IH
      by (cases "read_gen_tx decodeTx T AmountOf bals fo"; cases "traverse (read_gen_tx decodeTx T AmountOf bals) (json_files fos)")
        (auto simp: peers_of_def)
  next
    case False
    then have "json_files (fo # fos) = json_files fos" by (auto simp: json_files_def)
    with False Cons.IH show ?thesis by auto
  qed
qed (simp add: json_files_def peers_of_def)

text \<open>A genesis transaction that is accepted: from a node, with one validator that can pay its liquid amount.\<close>

definition funded_gen_tx ::
    "('x, 'a) tx_view \<Rightarrow> (coin list \<Rightarrow> string \<Rightarrow> int res) \<Rightarrow> (string \<rightharpoonup> balance) \<Rightarrow> 'x \<Rightarrow> string \<Rightarrow> 'a MsgCreateValidator \<Rightarrow> bool" where
  "funded_gen_tx T AmountOf bals tx memo msg \<longleftrightarrow>
     tv_Memo T tx = Some memo \<and> memo \<noteq> [] \<and> tv_Msgs T tx = [CreateMsg msg] \<and>
     (\<exists>b n m. bals (cv_OperatorAddress msg) = Some b \<and> AmountOf (snd b) (mc_Denom (cv_Amount msg)) = Ok n \<and>
        mc_Amount (cv_Amount msg) = Some m \<and> m \<le> n)"

lemma check_gen_tx_iff:
  "check_gen_tx T AmountOf bals tx = Ok (memo, msg) \<longleftrightarrow> funded_gen_tx T AmountOf bals tx memo msg"
proof
  assume "check_gen_tx T AmountOf bals tx = Ok (memo, msg)"
  then show "funded_gen_tx T AmountOf bals tx memo msg"
    by (auto simp: check_gen_tx_def funded_gen_tx_def bind_res_Ok_iff split: option.splits list.splits gen_msg.splits if_splits)
qed (auto simp: check_gen_tx_def funded_gen_tx_def)

lemma read_gen_tx_iff:
  "read_gen_tx decodeTx T AmountOf bals fo = Ok (tx, memo, msg) \<longleftrightarrow>
    (\<exists>raw. fo_Content fo = Ok raw \<and> decodeTx raw = Ok tx \<and> funded_gen_tx T AmountOf bals tx memo msg)"
  by (auto simp: read_gen_tx_def bind_res_Ok_iff check_gen_tx_iff)

text \<open>
  With a codec that reads what it has written, the state with the transactions is read back, and the
  other modules are untouched.
\<close>

lemma set_gen_txs:
  assumes "\<And>g raw. j_MustMarshal J g = Ok raw \<Longrightarrow> j_MustUnmarshal J raw = Ok g"
    and "SetGenTxsInAppGenesisState J enc app txs = Ok app'"
  shows "\<exists>gs seed bs. GetGenesisStateFromAppState J app = Ok gs \<and> GetSeedContracts gs = Some seed \<and>
    list_all2 (\<lambda>tx b. enc tx = Ok b) txs bs \<and>
    GetGenesisStateFromAppState J app' = Ok (gs\<lparr>gs_SetupMode := SeedMode (Some (seed\<lparr>GenTxs := bs\<rparr>))\<rparr>) \<and>
    (\<forall>m. m \<noteq> poe_ModuleName \<longrightarrow> app' m = app m)"
proof -
  obtain gs bs where gs: "GetGenesisStateFromAppState J app = Ok gs" and bs: "list_all2 (\<lambda>tx b. enc tx = Ok b) txs bs"
    and rest: "(case GetSeedContracts gs of None \<Rightarrow> failw SdkErrNotSupported ''in state dump import mode''
      | Some seed \<Rightarrow> SetGenesisStateInAppState J app (gs\<lparr>gs_SetupMode := SeedMode (Some (seed\<lparr>GenTxs := bs\<rparr>))\<rparr>)) = Ok app'"
    using assms(2) unfolding SetGenTxsInAppGenesisState_def bind_res_Ok_iff traverse_all2 by blast
  then obtain seed raw where seed: "GetSeedContracts gs = Some seed"
    and raw: "j_MustMarshal J (gs\<lparr>gs_SetupMode := SeedMode (Some (seed\<lparr>GenTxs := bs\<rparr>))\<rparr>) = Ok raw" "app' = app(poe_ModuleName \<mapsto> raw)"
    by (auto simp: SetGenesisStateInAppState_def bind_res_Ok_iff split: option.splits)
  have "GetGenesisStateFromAppState J app' = Ok (gs\<lparr>gs_SetupMode := SeedMode (Some (seed\<lparr>GenTxs := bs\<rparr>))\<rparr>)"
    using raw(2) assms(1) [OF raw(1)] by (simp add: GetGenesisStateFromAppState_def)
  with gs seed bs raw(2) show ?thesis by (intro exI [of _ gs] exI [of _ seed] exI [of _ bs]) simp
qed

section \<open>Properties\<close>

text \<open>
  C29: Collecting succeeds exactly when every file with the suffix .json holds a transaction with the memo of
  a node and one message that creates a validator whose account has the liquid amount in the genesis
  state. It returns these transactions in the order of the directory and, sorted and separated by commas,
  the memos of all nodes with another moniker.
\<close>

theorem collected_txs:
  "collectTxs K decodeTx T AmountOf moniker (Ok fos) (Ok appState) genBalances = Ok (txs, peers) \<longleftrightarrow>
    (\<exists>rs. list_all2 (\<lambda>fo (tx, memo, msg). \<exists>raw. fo_Content fo = Ok raw \<and> decodeTx raw = Ok tx \<and>
        funded_gen_tx T AmountOf (balances_map K (genBalances appState)) tx memo msg) (json_files fos) rs \<and>
      txs = map fst rs \<and> peers = strings_Join (sort (peers_of moniker rs)) '','')"
proof -
  let ?f = "read_gen_tx decodeTx T AmountOf (balances_map K (genBalances appState))"
  have "(\<lambda>fo r. ?f fo = Ok r) = (\<lambda>fo (tx, memo, msg). \<exists>raw. fo_Content fo = Ok raw \<and> decodeTx raw = Ok tx \<and>
        funded_gen_tx T AmountOf (balances_map K (genBalances appState)) tx memo msg)"
    by (auto simp: fun_eq_iff read_gen_tx_iff)
  then show ?thesis
    by (auto simp: collectTxs_def collect_files_traverse bind_res_Ok_iff traverse_all2)
qed

lemma find_balance_iff:
  "find_balance AmountOf a coins d bals = Ok () \<longleftrightarrow>
    (\<exists>b wanted available. find (\<lambda>b. fst b = a) bals = Some b \<and> AmountOf coins d = Ok wanted \<and>
       AmountOf (snd b) d = Ok available \<and> wanted \<le> available)"
proof (induction bals)
  case (Cons b bals)
  show ?case
  proof (cases "fst b = a")
    case True
    then show ?thesis by (cases "AmountOf coins d"; cases "AmountOf (snd b) d") auto
  qed (use Cons.IH in simp)
qed simp

lemma balances_map_find:
  assumes "distinct (map fst bals)" and "inj (sAddrString K)" and "find (\<lambda>b. fst b = a) bals = Some b"
  shows "balances_map K bals (sAddrString K a) = Some b"
proof -
  have b: "b \<in> set bals" "fst b = a" using assms(3) by (auto simp: find_Some_iff)
  have "distinct (map fst (rev (map (\<lambda>b. (sAddrString K (fst b), b)) bals)))"
    using assms(1,2) by (auto simp: rev_map [symmetric] distinct_map comp_def inj_on_def)
  moreover have "(sAddrString K a, b) \<in> set (rev (map (\<lambda>b. (sAddrString K (fst b), b)) bals))" using b by force
  ultimately show ?thesis unfolding balances_map_def by (simp add: map_of_eq_Some_iff)
qed

text \<open>
  What is documented of the SDK: a coin is parsed to a list with this coin only, or to the empty list for a
  zero amount; amounts are not negative and are added per denomination. Addresses have different texts and
  an account has one balance.
\<close>

definition gentx_laws :: "('k, 'a, 'raw, 't, 'd) gentx_env \<Rightarrow> bool" where
  "gentx_laws G \<longleftrightarrow>
     inj (sAddrString (c_sdk (ge_cli G))) \<and>
     (\<forall>app. distinct (map fst (ge_genBalances G app))) \<and>
     (\<forall>str c cs. c_ParseCoinNormalized (ge_cli G) str = Ok c \<and> ge_ParseCoinsNormalized G str = Ok cs \<longrightarrow>
        (\<exists>n. mc_Amount c = Some n \<and> ge_AmountOf G cs (mc_Denom c) = Ok n)) \<and>
     (\<forall>str cs d n. ge_ParseCoinsNormalized G str = Ok cs \<and> ge_AmountOf G cs d = Ok n \<longrightarrow> 0 \<le> n) \<and>
     (\<forall>x y z d n. ge_Coins_Add G x y = Ok z \<and> ge_AmountOf G z d = Ok n \<longrightarrow>
        (\<exists>k l. ge_AmountOf G x d = Ok k \<and> ge_AmountOf G y d = Ok l \<and> n = k + l))"

text \<open>The parts of a command that has built its message.\<close>

lemma GenTx_message_parts:
  assumes "GenTx_message G fs name liquid vested = Ok (memo, msg)"
  obtains nodeID pk chainID app key cfg coins where
    "gentx_node G fs = Ok (nodeID, pk)" "gentx_genesis G = Ok (chainID, app)" "ge_Key G name = Ok key"
    "\<exists>m. PrepareConfigForTxCreateValidator (ge_cli G) fs m nodeID chainID pk = Ok cfg"
    "gentx_coins G liquid vested = Ok coins"
    "ValidateAccountInGenesis (ge_codec G) (ge_AmountOf G) (ge_genBalances G) app key coins = Ok ()"
    "amounts_match cfg liquid vested = Ok ()"
    "BuildCreateValidatorMsg ((ge_cli G)\<lparr>c_FromAddress := key\<rparr>)
      (cfg\<lparr>cc_LiquidAmount := liquid, cc_VestingAmount := vested\<rparr>) (ge_factoryMemo G) True = Ok (memo, msg)"
  using assms unfolding GenTx_message_def Let_def
  by (simp only: bind_res_Ok_iff split_beta wrap_res_Ok_iff) (elim exE conjE, rule that, auto intro: prod_eqI)

lemma built_msg:
  assumes "BuildCreateValidatorMsg E cfg memo0 gen = Ok (memo, msg)"
  obtains c where "c_ParseCoinNormalized E (cc_LiquidAmount cfg) = Ok c" "cv_Amount msg = c"
    "cv_OperatorAddress msg = sAddrString (c_sdk E) (c_FromAddress E)"
    "memo = (if gen then node_memo (cc_NodeID cfg) (cc_IP cfg) memo0 else memo0)"
  using assms that by (auto simp: BuildCreateValidatorMsg_def NewMsgCreateValidator_def bind_res_Ok_iff)

lemma GetString_Ok: "GetString fs name = Ok v \<longleftrightarrow> fl_str fs name = Some v"
  by (simp add: GetString_def split: option.split)

lemma prepared:
  assumes "PrepareConfigForTxCreateValidator E fs m nodeID chainID pk = Ok cfg"
  shows "cc_NodeID cfg = nodeID" "fl_str fs FlagIP = Some (cc_IP cfg)"
    "\<exists>l. fl_str fs FlagAmount = Some l \<and> cc_LiquidAmount cfg = (if l = [] then defaultAmount E else l)"
  using assms unfolding PrepareConfigForTxCreateValidator_def bind_res_Ok_iff GetString_Ok res.inject
  by (elim exE conjE, hypsubst, simp)+

lemma gentx_lawsD:
  assumes "gentx_laws G"
  shows "inj (sAddrString (c_sdk (ge_cli G)))" "distinct (map fst (ge_genBalances G app))"
    "c_ParseCoinNormalized (ge_cli G) str = Ok c \<Longrightarrow> ge_ParseCoinsNormalized G str = Ok cs \<Longrightarrow>
      \<exists>n. mc_Amount c = Some n \<and> ge_AmountOf G cs (mc_Denom c) = Ok n"
    "ge_ParseCoinsNormalized G str = Ok cs \<Longrightarrow> ge_AmountOf G cs d = Ok n \<Longrightarrow> 0 \<le> n"
    "ge_Coins_Add G x y = Ok z \<Longrightarrow> ge_AmountOf G z d = Ok n \<Longrightarrow>
      \<exists>k l. ge_AmountOf G x d = Ok k \<and> ge_AmountOf G y d = Ok l \<and> n = k + l"
  using assms by (simp_all add: gentx_laws_def)

lemma gentx_funded:
  assumes laws: "gentx_laws G" and c: "c_ParseCoinNormalized (ge_cli G) liquid = Ok c"
    and coins: "gentx_coins G liquid vested = Ok coins"
    and bal: "find_balance (ge_AmountOf G) key coins (mc_Denom c) (ge_genBalances G app) = Ok ()"
  shows "\<exists>b n m. balances_map (c_sdk (ge_cli G)) (ge_genBalances G app) (sAddrString (c_sdk (ge_cli G)) key) = Some b \<and>
    ge_AmountOf G (snd b) (mc_Denom c) = Ok n \<and> mc_Amount c = Some m \<and> m \<le> n"
proof -
  obtain b wanted available where b: "find (\<lambda>b. fst b = key) (ge_genBalances G app) = Some b"
    "ge_AmountOf G coins (mc_Denom c) = Ok wanted" "ge_AmountOf G (snd b) (mc_Denom c) = Ok available" "wanted \<le> available"
    using bal unfolding find_balance_iff by blast
  obtain lc vc where lv: "ge_ParseCoinsNormalized G liquid = Ok lc" "ge_ParseCoinsNormalized G vested = Ok vc" "ge_Coins_Add G lc vc = Ok coins"
    using coins by (auto simp: gentx_coins_def bind_res_Ok_iff)
  obtain k l where kl: "ge_AmountOf G lc (mc_Denom c) = Ok k" "ge_AmountOf G vc (mc_Denom c) = Ok l" "wanted = k + l"
    using gentx_lawsD(5) [OF laws lv(3) b(2)] by blast
  obtain n where n: "mc_Amount c = Some n" "ge_AmountOf G lc (mc_Denom c) = Ok n"
    using gentx_lawsD(3) [OF laws c lv(1)] by blast
  have "0 \<le> l" by (rule gentx_lawsD(4) [OF laws lv(2) kl(2)])
  then have "n \<le> available" using n(2) kl b(4) by simp
  moreover have "balances_map (c_sdk (ge_cli G)) (ge_genBalances G app) (sAddrString (c_sdk (ge_cli G)) key) = Some b"
    by (rule balances_map_find [OF gentx_lawsD(2,1) [OF laws] b(1)])
  ultimately show ?thesis using b(3) n(1) by blast
qed

text \<open>What the command has built passes the checks of the collection.\<close>

lemma gentx_checked:
  assumes laws: "gentx_laws G" and cmd: "GenTx_message G fs name liquid vested = Ok (memo, msg)"
    and genesis: "gentx_genesis G = Ok (chainID, app)" "GetGenesisStateFromAppState (ge_codec G) app = Ok gs"
      "GetSeedContracts gs = Some seed" "mc_Denom (cv_Amount msg) = BondDenom seed"
    and node: "gentx_node G fs = Ok (nodeID, pk)" "nodeID \<noteq> []" "fl_str fs FlagIP = Some ip" "ip \<noteq> []"
    and tx: "tv_Memo T tx = Some memo" "tv_Msgs T tx = [CreateMsg msg]"
  shows "memo = nodeID @ ''@'' @ ip @ '':26656'' \<and>
    check_gen_tx T (ge_AmountOf G) (balances_map (c_sdk (ge_cli G)) (ge_genBalances G app)) tx = Ok (memo, msg)"
proof -
  obtain nodeID' pk' chainID' app' key cfg coins where p: "gentx_node G fs = Ok (nodeID', pk')" "gentx_genesis G = Ok (chainID', app')"
    "\<exists>m. PrepareConfigForTxCreateValidator (ge_cli G) fs m nodeID' chainID' pk' = Ok cfg"
    and co: "gentx_coins G liquid vested = Ok coins"
    and va: "ValidateAccountInGenesis (ge_codec G) (ge_AmountOf G) (ge_genBalances G) app' key coins = Ok ()"
    and bu: "BuildCreateValidatorMsg ((ge_cli G)\<lparr>c_FromAddress := key\<rparr>)
      (cfg\<lparr>cc_LiquidAmount := liquid, cc_VestingAmount := vested\<rparr>) (ge_factoryMemo G) True = Ok (memo, msg)"
    by (rule GenTx_message_parts [OF cmd])
  have same: "nodeID' = nodeID" "app' = app" using p(1,2) node(1) genesis(1) by simp_all
  obtain m where cfg: "PrepareConfigForTxCreateValidator (ge_cli G) fs m nodeID' chainID' pk' = Ok cfg" using p(3) by blast
  have ids: "cc_NodeID cfg = nodeID" "cc_IP cfg = ip" using prepared(1,2) [OF cfg] same node(3) by simp_all
  obtain c where c: "c_ParseCoinNormalized (ge_cli G) liquid = Ok c" "cv_Amount msg = c"
    "cv_OperatorAddress msg = sAddrString (c_sdk (ge_cli G)) key" "memo = node_memo nodeID ip (ge_factoryMemo G)"
    using built_msg [OF bu] ids by auto
  have memo: "memo = nodeID @ ''@'' @ ip @ '':26656''" using c(4) node(2,4) by (simp add: node_memo_def)
  have "find_balance (ge_AmountOf G) key coins (mc_Denom c) (ge_genBalances G app) = Ok ()"
    using va genesis(2-4) same c(2) by (simp add: ValidateAccountInGenesis_def)
  from gentx_funded [OF laws c(1) co this] have
    "funded_gen_tx T (ge_AmountOf G) (balances_map (c_sdk (ge_cli G)) (ge_genBalances G app)) tx memo msg"
    using tx memo c(2,3) by (simp add: funded_gen_tx_def)
  with memo show ?thesis by (simp add: check_gen_tx_iff)
qed

text \<open>
  C28: A transaction that the command for genesis transactions has built, with a liquid amount in the bond
  denomination, for a node with an id and an address, is accepted when the transactions for the same
  genesis state are collected: it has the memo of its node, and its account exists and has the amount.
\<close>

theorem gentx_is_collected:
  assumes laws: "gentx_laws G" and cmd: "GenTx_message G fs name liquid vested = Ok (memo, msg)"
    and genesis: "gentx_genesis G = Ok (chainID, app)" "GetGenesisStateFromAppState (ge_codec G) app = Ok gs"
      "GetSeedContracts gs = Some seed" "mc_Denom (cv_Amount msg) = BondDenom seed"
    and node: "gentx_node G fs = Ok (nodeID, pk)" "nodeID \<noteq> []" "fl_str fs FlagIP = Some ip" "ip \<noteq> []"
    and tx: "tv_Memo T tx = Some memo" "tv_Msgs T tx = [CreateMsg msg]"
  shows "memo = nodeID @ ''@'' @ ip @ '':26656'' \<and>
    check_gen_tx T (ge_AmountOf G) (balances_map (c_sdk (ge_cli G)) (ge_genBalances G app)) tx = Ok (memo, msg)"
  by (rule gentx_checked [OF assms])

text \<open>
  Without the flag for the amount the command refuses every liquid amount but the default one, although
  it takes the amount as an argument.
\<close>

lemma gentx_needs_amount_flag:
  assumes "fl_str fs FlagAmount = Some []" and "liquid \<noteq> defaultAmount (ge_cli G)" and "defaultAmount (ge_cli G) \<noteq> []"
  shows "GenTx_message G fs name liquid vested \<noteq> Ok r"
proof
  assume "GenTx_message G fs name liquid vested = Ok r"
  then obtain memo msg where "GenTx_message G fs name liquid vested = Ok (memo, msg)" by (cases r) auto
  then obtain nodeID pk chainID cfg where
    "\<exists>m. PrepareConfigForTxCreateValidator (ge_cli G) fs m nodeID chainID pk = Ok cfg" "amounts_match cfg liquid vested = Ok ()"
    by (rule GenTx_message_parts)
  then have "cc_LiquidAmount cfg = defaultAmount (ge_cli G)" "cc_LiquidAmount cfg = [] \<or> cc_LiquidAmount cfg = liquid"
    using prepared(3) assms(1) by (fastforce, auto simp: amounts_match_def split: if_splits)
  with assms(2,3) show False by auto
qed

text \<open>
  A small chain: coins are counted by the length of their text, one account has ten coins.
\<close>

definition sample_cli :: "(unit, unit) cli_env" where
  "sample_cli =
     \<lparr>c_sdk = sample_sdk,
      c_ParseCoinNormalized = (\<lambda>str. Ok \<lparr>mc_Denom = ''ufury'', mc_Amount = Some (int (length str))\<rparr>),
      c_UnmarshalPubKey = (\<lambda>_. Ok None), c_newAny = (\<lambda>_. Ok ()), c_ValidateExecute = (\<lambda>_. Ok ()),
      c_ContractAddress = (\<lambda>_. Ok ''furya1''), c_FromAddress = [], c_PowerReduction = 1000000\<rparr>"

definition sample_gentx :: "(unit, unit, unit, unit, rat option) gentx_env" where
  "sample_gentx =
     \<lparr>ge_cli = sample_cli,
      ge_codec = \<lparr>j_MustUnmarshal = (\<lambda>_. Ok (poe_GenesisState.make (NewParams 1 1 []) (SeedMode (Some sample_seed)))), j_MustMarshal = (\<lambda>_. Ok ())\<rparr>,
      ge_InitializeNodeValidatorFiles = Ok (''node'', Some ()), ge_GenesisDocFromFile = Ok (''chain'', Ok [''poe'' \<mapsto> ()]),
      ge_ValidateGenesis = (\<lambda>_. Ok ()), ge_Key = (\<lambda>_. Ok [1]),
      ge_ParseCoinsNormalized = (\<lambda>str. Ok [\<lparr>coin_Denom = ''ufury'', coin_Amount = int (length str)\<rparr>]),
      ge_Coins_Add = (\<lambda>a b. Ok (a @ b)),
      ge_AmountOf = (\<lambda>cs d. Ok (sum_list (map coin_Amount (filter (\<lambda>c. coin_Denom c = d) cs)))),
      ge_genBalances = (\<lambda>_. [([1], [\<lparr>coin_Denom = ''ufury'', coin_Amount = 10\<rparr>])]),
      ge_configMoniker = ''moniker'', ge_factoryMemo = []\<rparr>"

definition sample_flags :: "string \<Rightarrow> flag_set" where
  "sample_flags amount =
     \<lparr>fl_str = (\<lambda>n. Some (if n = FlagIP then ''1.2.3.4'' else if n = FlagAmount then amount else [])), fl_bool = (\<lambda>_. None)\<rparr>"

lemma sample_gentx_laws: "gentx_laws sample_gentx"
proof -
  have "inj bytes_string" by (rule inj_on_inverseI [of _ string_bytes]) (simp add: string_bytes_inverse)
  then show ?thesis
    by (auto simp: gentx_laws_def sample_gentx_def sample_cli_def sample_sdk_def)
qed

lemma sample_gentx_message:
  "\<exists>msg. GenTx_message sample_gentx (sample_flags ''123'') ''key'' ''123'' ''45'' = Ok (''node@1.2.3.4:26656'', msg) \<and>
     mc_Denom (cv_Amount msg) = ''ufury''"
proof -
  have n: "gentx_node sample_gentx (sample_flags ''123'') = Ok (''node'', Some ())"
    and g: "gentx_genesis sample_gentx = Ok (''chain'', [''poe'' \<mapsto> ()])"
    by (simp_all add: gentx_node_def gentx_genesis_def sample_gentx_def sample_flags_def str_or_empty_def)
  have d: "BondDenom sample_seed = ''ufury''"
    by (simp add: sample_seed_def poe_DefaultGenesisState_def GetSeedContracts_def DefaultBondDenom_def)
  have v: "gentx_coins sample_gentx ''123'' ''45'' = Ok [\<lparr>coin_Denom = ''ufury'', coin_Amount = 3\<rparr>, \<lparr>coin_Denom = ''ufury'', coin_Amount = 2\<rparr>]"
    by (simp add: gentx_coins_def sample_gentx_def)
  have a: "ValidateAccountInGenesis (ge_codec sample_gentx) (ge_AmountOf sample_gentx) (ge_genBalances sample_gentx) [''poe'' \<mapsto> ()] [1]
      [\<lparr>coin_Denom = ''ufury'', coin_Amount = 3\<rparr>, \<lparr>coin_Denom = ''ufury'', coin_Amount = 2\<rparr>] = Ok ()"
    by (simp add: ValidateAccountInGenesis_def sample_gentx_def GetGenesisStateFromAppState_def poe_ModuleName_def
        GetSeedContracts_def poe_GenesisState.make_def d)
  show ?thesis
    unfolding GenTx_message_def n g v
    by (simp add: a [unfolded sample_gentx_def, simplified] sample_gentx_def sample_cli_def sample_flags_def str_or_empty_def PrepareConfigForTxCreateValidator_def
        GetString_def amounts_match_def BuildCreateValidatorMsg_def NewMsgCreateValidator_def node_memo_def Let_def)
qed

theorem gentx_is_collected_witness:
  "\<exists>msg. GenTx_message sample_gentx (sample_flags ''123'') ''key'' ''123'' ''45'' = Ok (''node@1.2.3.4:26656'', msg) \<and>
     check_gen_tx \<lparr>tv_Memo = (\<lambda>_ :: unit. Some ''node@1.2.3.4:26656''), tv_Msgs = (\<lambda>_. [CreateMsg msg])\<rparr> (ge_AmountOf sample_gentx)
       (balances_map sample_sdk [([1], [\<lparr>coin_Denom = ''ufury'', coin_Amount = 10\<rparr>])]) () = Ok (''node@1.2.3.4:26656'', msg)"
proof -
  obtain msg where m: "GenTx_message sample_gentx (sample_flags ''123'') ''key'' ''123'' ''45'' = Ok (''node@1.2.3.4:26656'', msg)"
    and denom: "mc_Denom (cv_Amount msg) = ''ufury''" using sample_gentx_message by blast
  have n: "gentx_node sample_gentx (sample_flags ''123'') = Ok (''node'', Some ())"
    and g: "gentx_genesis sample_gentx = Ok (''chain'', [''poe'' \<mapsto> ()])"
    and ip: "fl_str (sample_flags ''123'') FlagIP = Some ''1.2.3.4''"
    by (simp_all add: gentx_node_def gentx_genesis_def sample_gentx_def sample_flags_def str_or_empty_def)
  have gs: "GetGenesisStateFromAppState (ge_codec sample_gentx) [''poe'' \<mapsto> ()] = Ok (poe_GenesisState.make (NewParams 1 1 []) (SeedMode (Some sample_seed)))"
    by (simp add: sample_gentx_def GetGenesisStateFromAppState_def poe_ModuleName_def)
  have seed: "GetSeedContracts (poe_GenesisState.make (NewParams 1 1 []) (SeedMode (Some sample_seed))) = Some sample_seed"
    by (simp add: GetSeedContracts_def poe_GenesisState.make_def)
  have d: "mc_Denom (cv_Amount msg) = BondDenom sample_seed"
    by (simp add: denom sample_seed_def poe_DefaultGenesisState_def GetSeedContracts_def DefaultBondDenom_def)
  let ?T = "\<lparr>tv_Memo = (\<lambda>_ :: unit. Some ''node@1.2.3.4:26656''), tv_Msgs = (\<lambda>_. [CreateMsg msg])\<rparr>"
  have "check_gen_tx ?T (ge_AmountOf sample_gentx) (balances_map (c_sdk (ge_cli sample_gentx)) (ge_genBalances sample_gentx [''poe'' \<mapsto> ()])) () =
      Ok (''node@1.2.3.4:26656'', msg)"
    using gentx_is_collected [OF sample_gentx_laws m g gs seed d n _ ip, of ?T "()"] by simp
  with m show ?thesis by (auto simp: sample_gentx_def sample_cli_def)
qed

lemma gentx_needs_amount_flag_sample:
  "\<not> (\<exists>r. GenTx_message sample_gentx (sample_flags []) ''key'' ''123'' ''45'' = Ok r)"
proof -
  have d: "defaultAmount (ge_cli sample_gentx) = format_int 100000000 @ ''ufury''"
    by (simp add: sample_gentx_def sample_cli_def defaultAmount_def DefaultBondDenom_def)
  then have "last (defaultAmount (ge_cli sample_gentx)) = CHR ''y''" "defaultAmount (ge_cli sample_gentx) \<noteq> []" by simp_all
  have "fl_str (sample_flags []) FlagAmount = Some []" by (simp add: sample_flags_def)
  moreover have "''123'' \<noteq> defaultAmount (ge_cli sample_gentx)"
    using \<open>last (defaultAmount (ge_cli sample_gentx)) = CHR ''y''\<close> by (intro notI) (drule sym, simp)
  ultimately show ?thesis using gentx_needs_amount_flag [of "sample_flags []" "''123''" sample_gentx "''key''" "''45''"]
      \<open>defaultAmount (ge_cli sample_gentx) \<noteq> []\<close> by blast
qed

end
