(* ===== verification/TwasmGenesisTool.thy ===== *)
theory TwasmGenesisTool
  imports TwasmProperties
begin

text \<open>
  The commands that change the genesis file of the module (\<open>x/twasm/client/cli/genesisio.go\<close>,
  \<open>genesis_flags.go\<close>).
\<close>

section \<open>The genesis file\<close>

text \<open>
  The file holds the state of every module, \<open>'raw\<close> for one; \<open>tw_codec\<close> is the codec with the zero value of the
  state, \<open>exportFile\<close> the SDK's writing of a completed document.
\<close>

record ('raw, 'm, 'g) tw_codec =
  tc_MustUnmarshal :: "'raw \<Rightarrow> ('m, 'g) GenesisState res"
  tc_Marshal :: "('m, 'g) GenesisState \<Rightarrow> 'raw res"
  tc_zero :: "('m, 'g) GenesisState"

type_synonym 'raw genesis_app = "string \<rightharpoonup> 'raw"

definition twasm_ModuleName :: string where
  "twasm_ModuleName = ''wasm''"

definition ReadTWasmGenesis :: "('raw, 'm, 'g) tw_codec \<Rightarrow> 'raw genesis_app \<Rightarrow> ('m, 'g) GenesisState res" where
  "ReadTWasmGenesis J appState =
     (case appState twasm_ModuleName of None \<Rightarrow> Ok (tc_zero J) | Some raw \<Rightarrow> tc_MustUnmarshal J raw)"

definition ReadWasmGenesis :: "('raw, 'm, 'g) tw_codec \<Rightarrow> 'raw genesis_app \<Rightarrow> ('m, 'g) wasm_genesis res" where
  "ReadWasmGenesis J appState = bind_res (ReadTWasmGenesis J appState) (\<lambda>g. Ok (RawWasmState g))"

text \<open>The callback may change the state of the module and the map of all modules.\<close>

definition AlterTWasmModuleState ::
    "'w wasm_ext \<Rightarrow> ('w, 'm, 'g, 'u) genesis_ext \<Rightarrow> ('raw, 'm, 'g) tw_codec \<Rightarrow> ('raw genesis_app \<Rightarrow> unit res) \<Rightarrow>
     (('m, 'g) GenesisState \<Rightarrow> 'raw genesis_app \<Rightarrow> (('m, 'g) GenesisState \<times> 'raw genesis_app) res) \<Rightarrow> ('raw genesis_app, unit) act" where
  "AlterTWasmModuleState X G J exportFile callback gen =
     (case bind_res (ReadTWasmGenesis J gen) (\<lambda>state.
           bind_res (callback state gen) (\<lambda>(state', appState).
           bind_res (GenesisState_ValidateBasic X G state') (\<lambda>_.
           bind_res (wrap_res ''marshal twasm genesis state'' (tc_Marshal J state')) (\<lambda>bz.
           let appState' = appState(twasm_ModuleName \<mapsto> bz) in
           bind_res (exportFile appState') (\<lambda>_. Ok appState'))))) of
        Ok appState \<Rightarrow> (Ok (), appState)
      | Err e \<Rightarrow> (Err e, gen)
      | Panic p \<Rightarrow> (Panic p, gen))"

definition AlterWasmModuleState ::
    "'w wasm_ext \<Rightarrow> ('w, 'm, 'g, 'u) genesis_ext \<Rightarrow> ('raw, 'm, 'g) tw_codec \<Rightarrow> ('raw genesis_app \<Rightarrow> unit res) \<Rightarrow>
     (('m, 'g) wasm_genesis \<Rightarrow> 'raw genesis_app \<Rightarrow> (('m, 'g) wasm_genesis \<times> 'raw genesis_app) res) \<Rightarrow> ('raw genesis_app, unit) act" where
  "AlterWasmModuleState X G J exportFile callback =
     AlterTWasmModuleState X G J exportFile (\<lambda>state appState.
       bind_res (callback (RawWasmState state) appState) (\<lambda>(wasmState, appState'). Ok (state\<lparr>gs_GenMsgs := wg_GenMsgs wasmState\<rparr>, appState')))"

section \<open>The commands\<close>

definition GenesisSetPrivileged ::
    "'w wasm_ext \<Rightarrow> ('w, 'm, 'g, 'u) genesis_ext \<Rightarrow> ('raw, 'm, 'g) tw_codec \<Rightarrow> ('raw genesis_app \<Rightarrow> unit res) \<Rightarrow> string \<Rightarrow> ('raw genesis_app, unit) act" where
  "GenesisSetPrivileged X G J exportFile arg0 =
     bindS (lift_res (wrap_res ''contract address'' (AccAddressFromBech32 X arg0))) (\<lambda>_.
     AlterTWasmModuleState X G J exportFile (\<lambda>state appState.
       if arg0 \<in> set (gs_PrivilegedContractAddresses state) then failw WasmErrDuplicate ''contract address already privileged''
       else Ok (state\<lparr>gs_PrivilegedContractAddresses := gs_PrivilegedContractAddresses state @ [arg0]\<rparr>, appState)))"

text \<open>\<open>parseUint\<close> is \<open>strconv.ParseUint\<close> with base 10 and 64 bits.\<close>

definition GenesisSetPinned ::
    "'w wasm_ext \<Rightarrow> ('w, 'm, 'g, 'u) genesis_ext \<Rightarrow> ('raw, 'm, 'g) tw_codec \<Rightarrow> ('raw genesis_app \<Rightarrow> unit res) \<Rightarrow> (string \<Rightarrow> code_id res) \<Rightarrow>
     string \<Rightarrow> ('raw genesis_app, unit) act" where
  "GenesisSetPinned X G J exportFile parseUint arg0 =
     bindS (lift_res (wrap_res ''code ID is not a valid number: %w'' (parseUint arg0))) (\<lambda>codeID.
     AlterTWasmModuleState X G J exportFile (\<lambda>state appState.
       if codeID \<in> set (gs_PinnedCodeIDs state) then failw WasmErrDuplicate ''code already pinned''
       else Ok (state\<lparr>gs_PinnedCodeIDs := gs_PinnedCodeIDs state @ [codeID]\<rparr>, appState)))"

section \<open>The file stays valid\<close>

text \<open>The state of the module that the file holds is valid.\<close>

definition file_valid :: "'w wasm_ext \<Rightarrow> ('w, 'm, 'g, 'u) genesis_ext \<Rightarrow> ('raw, 'm, 'g) tw_codec \<Rightarrow> 'raw genesis_app \<Rightarrow> bool" where
  "file_valid X G J gen \<longleftrightarrow> (\<exists>g. ReadTWasmGenesis J gen = Ok g \<and> GenesisState_ValidateBasic X G g = Ok ())"

lemma alter_twasm:
  assumes codec: "\<And>g raw. tc_Marshal J g = Ok raw \<Longrightarrow> tc_MustUnmarshal J raw = Ok g"
  shows "case AlterTWasmModuleState X G J exportFile callback gen of
      (Ok _, gen') \<Rightarrow> (\<exists>g g' app. ReadTWasmGenesis J gen = Ok g \<and> callback g gen = Ok (g', app) \<and>
         ReadTWasmGenesis J gen' = Ok g' \<and> GenesisState_ValidateBasic X G g' = Ok () \<and>
         (\<forall>m. m \<noteq> twasm_ModuleName \<longrightarrow> gen' m = app m))
    | (_, gen') \<Rightarrow> gen' = gen"
proof -
  have "\<exists>g g' app. ReadTWasmGenesis J gen = Ok g \<and> callback g gen = Ok (g', app) \<and>
         ReadTWasmGenesis J gen' = Ok g' \<and> GenesisState_ValidateBasic X G g' = Ok () \<and>
         (\<forall>m. m \<noteq> twasm_ModuleName \<longrightarrow> gen' m = app m)"
    if run: "AlterTWasmModuleState X G J exportFile callback gen = (Ok u, gen')" for u gen'
  proof -
    obtain g g' app bz where "ReadTWasmGenesis J gen = Ok g" "callback g gen = Ok (g', app)"
      "GenesisState_ValidateBasic X G g' = Ok ()" and bz: "tc_Marshal J g' = Ok bz" "gen' = app(twasm_ModuleName \<mapsto> bz)"
      using run by (auto simp: AlterTWasmModuleState_def Let_def bind_res_Ok_iff split: res.splits)
    moreover have "ReadTWasmGenesis J gen' = Ok g'" using codec [OF bz(1)] bz(2) by (simp add: ReadTWasmGenesis_def)
    ultimately show ?thesis using bz(2) by auto
  qed
  moreover have "gen' = gen" if "AlterTWasmModuleState X G J exportFile callback gen = (r, gen')" "\<not> is_ok r" for r gen'
    using that by (auto simp: AlterTWasmModuleState_def split: res.splits)
  ultimately show ?thesis
    by (cases "AlterTWasmModuleState X G J exportFile callback gen"; cases "fst (AlterTWasmModuleState X G J exportFile callback gen)") auto
qed

text \<open>The steps of the tool: the two commands and every use of wasmd's commands.\<close>

inductive tool_step ::
    "'w wasm_ext \<Rightarrow> ('w, 'm, 'g, 'u) genesis_ext \<Rightarrow> ('raw, 'm, 'g) tw_codec \<Rightarrow> 'raw genesis_app \<Rightarrow> 'raw genesis_app \<Rightarrow> bool"
  for X G J where
  privileged: "tool_step X G J gen (snd (GenesisSetPrivileged X G J exportFile arg0 gen))"
| pinned: "tool_step X G J gen (snd (GenesisSetPinned X G J exportFile parseUint arg0 gen))"
| wasm: "tool_step X G J gen (snd (AlterWasmModuleState X G J exportFile callback gen))"

lemma alter_keeps_valid:
  assumes "\<And>g raw. tc_Marshal J g = Ok raw \<Longrightarrow> tc_MustUnmarshal J raw = Ok g" and "file_valid X G J gen"
  shows "file_valid X G J (snd (AlterTWasmModuleState X G J exportFile callback gen))"
  using alter_twasm [OF assms(1), where X = X and G = G and exportFile = exportFile and callback = callback and gen = gen] assms(2)
  by (cases "AlterTWasmModuleState X G J exportFile callback gen"; cases "fst (AlterTWasmModuleState X G J exportFile callback gen)")
    (auto simp: file_valid_def)

lemma tool_keeps_valid:
  assumes "\<And>g raw. tc_Marshal J g = Ok raw \<Longrightarrow> tc_MustUnmarshal J raw = Ok g"
  shows "tool_step X G J gen gen' \<Longrightarrow> file_valid X G J gen \<Longrightarrow> file_valid X G J gen'"
proof (induction rule: tool_step.induct)
  case (privileged gen exportFile arg0)
  then show ?case
    using alter_keeps_valid [OF assms]
    by (cases "AccAddressFromBech32 X arg0") (simp_all add: GenesisSetPrivileged_def)
next
  case (pinned gen exportFile parseUint arg0)
  then show ?case
    using alter_keeps_valid [OF assms]
    by (cases "parseUint arg0") (simp_all add: GenesisSetPinned_def)
next
  case (wasm gen exportFile callback)
  then show ?case using alter_keeps_valid [OF assms] by (simp add: AlterWasmModuleState_def)
qed

text \<open>The commands of wasmd change the messages of the genesis state and nothing else of the module.\<close>

lemma wasm_commands_change_messages:
  assumes "\<And>g raw. tc_Marshal J g = Ok raw \<Longrightarrow> tc_MustUnmarshal J raw = Ok g"
    and "AlterWasmModuleState X G J exportFile callback gen = (Ok (), gen')"
  shows "\<exists>g msgs. ReadTWasmGenesis J gen = Ok g \<and> ReadTWasmGenesis J gen' = Ok (g\<lparr>gs_GenMsgs := msgs\<rparr>)"
  using alter_twasm [OF assms(1), where X = X and G = G and exportFile = exportFile and gen = gen and callback =
      "\<lambda>state appState. bind_res (callback (RawWasmState state) appState)
        (\<lambda>(wasmState, appState'). Ok (state\<lparr>gs_GenMsgs := wg_GenMsgs wasmState\<rparr>, appState'))"] assms(2)
  by (auto simp: AlterWasmModuleState_def bind_res_Ok_iff)

section \<open>Properties\<close>

text \<open>
  C11: Every sequence of the commands that change the genesis file of the module, whether they succeed or
  fail, leads from a file with a valid state of the module to a file with a valid state. A contract that
  was set privileged is the last one of the privileged contracts and is not one of them a second time.
\<close>

theorem genesis_tool_valid:
  assumes codec: "\<And>g raw. tc_Marshal J g = Ok raw \<Longrightarrow> tc_MustUnmarshal J raw = Ok g"
    and steps: "(tool_step X G J)\<^sup>*\<^sup>* gen gen1" and valid: "file_valid X G J gen"
  shows "file_valid X G J gen1 \<and>
    (GenesisSetPrivileged X G J exportFile a gen1 = (Ok (), gen2) \<longrightarrow>
      (\<exists>g. ReadTWasmGenesis J gen1 = Ok g \<and> a \<notin> set (gs_PrivilegedContractAddresses g) \<and>
        ReadTWasmGenesis J gen2 = Ok (g\<lparr>gs_PrivilegedContractAddresses := gs_PrivilegedContractAddresses g @ [a]\<rparr>) \<and>
        file_valid X G J gen2))"
proof -
  have v1: "file_valid X G J gen1"
    using steps valid by (induction rule: rtranclp_induct) (auto intro: tool_keeps_valid [OF codec])
  have "\<exists>g. ReadTWasmGenesis J gen1 = Ok g \<and> a \<notin> set (gs_PrivilegedContractAddresses g) \<and>
        ReadTWasmGenesis J gen2 = Ok (g\<lparr>gs_PrivilegedContractAddresses := gs_PrivilegedContractAddresses g @ [a]\<rparr>) \<and>
        file_valid X G J gen2"
    if "GenesisSetPrivileged X G J exportFile a gen1 = (Ok (), gen2)"
  proof -
    let ?cb = "\<lambda>state appState. if a \<in> set (gs_PrivilegedContractAddresses state)
       then failw WasmErrDuplicate ''contract address already privileged''
       else Ok (state\<lparr>gs_PrivilegedContractAddresses := gs_PrivilegedContractAddresses state @ [a]\<rparr>, appState)"
    have "AlterTWasmModuleState X G J exportFile ?cb gen1 = (Ok (), gen2)"
      using that by (auto simp: GenesisSetPrivileged_def lift_res_def elim!: bindS_OkE)
    with alter_twasm [OF codec, where X = X and G = G and exportFile = exportFile and gen = gen1 and callback = ?cb]
    show ?thesis by (auto simp: file_valid_def split: if_splits)
  qed
  with v1 show ?thesis by blast
qed

text \<open>A file that stores the state as it is.\<close>

definition plain_codec :: "((unit, unit) GenesisState, unit, unit) tw_codec" where
  "plain_codec = \<lparr>tc_MustUnmarshal = Ok, tc_Marshal = Ok, tc_zero = sample_genesis\<rparr>"

theorem genesis_tool_valid_witness:
  "file_valid sample_ext sample_genesis_ext plain_codec
     (snd (GenesisSetPrivileged sample_ext sample_genesis_ext plain_codec (\<lambda>_. Ok ()) [CHR 0x08] Map.empty))"
proof -
  let ?J = plain_codec
  have codec: "tc_MustUnmarshal ?J raw = Ok g" if "tc_Marshal ?J g = Ok raw" for g raw using that by (simp add: plain_codec_def)
  have "GenesisState_ValidateBasic sample_ext sample_genesis_ext sample_genesis = Ok ()"
    by (simp add: GenesisState_ValidateBasic_iff sample_genesis_ext_def sample_genesis_def sample_ext_def sample_contract_def
        RawWasmState_def raw_contract_def)
  then have "file_valid sample_ext sample_genesis_ext ?J Map.empty" by (simp add: file_valid_def ReadTWasmGenesis_def plain_codec_def)
  then show ?thesis
    using genesis_tool_valid [OF codec r_into_rtranclp [of "tool_step sample_ext sample_genesis_ext ?J", OF tool_step.privileged]] by blast
qed

end
