(* ===== verification/GenesisAccounts.thy ===== *)
theory GenesisAccounts
  imports Prelude Coins "HOL-Library.Multiset"
begin

text \<open>
  The command that adds an account to the genesis file (\<open>cmd/furya/genaccounts.go\<close>).
\<close>

section \<open>Genesis accounts\<close>

text \<open>
  The accounts that the command creates: a base account, or one that vests an amount until an end time,
  continuously from a start time or all at the end.
\<close>

datatype gen_account =
    BaseAccount addr
  | ContinuousVesting addr "coin list" int int
  | DelayedVesting addr "coin list" int

fun ga_address :: "gen_account \<Rightarrow> addr" where
  "ga_address (BaseAccount a) = a"
| "ga_address (ContinuousVesting a v e s) = a"
| "ga_address (DelayedVesting a v e) = a"

text \<open>
  The genesis file by the parts that the command reads and writes; \<open>'o\<close> is all else. The command uses the
  SDK for addresses, keys, coins, the validation of an account and the sorting of accounts and balances.
\<close>

record 'o genesis_file =
  gf_Accounts :: "gen_account list"
  gf_Balances :: "(addr \<times> coin list) list"
  gf_Supply :: "coin list"
  gf_Other :: 'o

record account_env =
  ga_AccAddressFromBech32 :: "string \<Rightarrow> addr res"
  ga_KeyAddress :: "string \<Rightarrow> addr res"
  ga_ParseCoinsNormalized :: "string \<Rightarrow> coin list res"
  ga_Coins_Sort :: "coin list \<Rightarrow> coin list"
  ga_Coins_IsZero :: "coin list \<Rightarrow> bool"
  ga_Coins_IsAnyGT :: "coin list \<Rightarrow> coin list \<Rightarrow> bool"
  ga_Coins_Add :: "coin list \<Rightarrow> coin list \<Rightarrow> coin list"
  ga_Validate :: "gen_account \<Rightarrow> unit res"
  ga_SanitizeAccounts :: "gen_account list \<Rightarrow> gen_account list"
  ga_SanitizeBalances :: "(addr \<times> coin list) list \<Rightarrow> (addr \<times> coin list) list"

definition account_address :: "account_env \<Rightarrow> string \<Rightarrow> addr res" where
  "account_address E arg0 =
     (case ga_AccAddressFromBech32 E arg0 of
        Ok addr \<Rightarrow> Ok addr
      | Err e \<Rightarrow> wrap_res ''failed to get address from Keyring: %w'' (ga_KeyAddress E arg0)
      | Panic p \<Rightarrow> Panic p)"

definition new_gen_account :: "account_env \<Rightarrow> addr \<Rightarrow> coin list \<Rightarrow> coin list \<Rightarrow> int \<Rightarrow> int \<Rightarrow> gen_account res" where
  "new_gen_account E addr balance vestingAmt vestingStart vestingEnd =
     (if \<not> ga_Coins_IsZero E vestingAmt then
        (let originalVesting = ga_Coins_Sort E vestingAmt in
         if (ga_Coins_IsZero E balance \<and> \<not> ga_Coins_IsZero E originalVesting) \<or> ga_Coins_IsAnyGT E originalVesting balance
         then fail (PlainErr ''vesting amount cannot be greater than total amount'')
         else if vestingStart \<noteq> 0 \<and> vestingEnd \<noteq> 0 then Ok (ContinuousVesting addr originalVesting vestingEnd vestingStart)
         else if vestingEnd \<noteq> 0 then Ok (DelayedVesting addr originalVesting vestingEnd)
         else fail (PlainErr ''invalid vesting parameters; must supply start and end time or end time''))
      else Ok (BaseAccount addr))"

definition AddGenesisAccount ::
    "account_env \<Rightarrow> string \<Rightarrow> string \<Rightarrow> int \<Rightarrow> int \<Rightarrow> string \<Rightarrow> ('o genesis_file, unit) act" where
  "AddGenesisAccount E arg0 arg1 vestingStart vestingEnd vestingAmtStr =
     bindS (lift_res (account_address E arg0)) (\<lambda>addr.
     bindS (lift_res (wrap_res ''failed to parse coins: %w'' (ga_ParseCoinsNormalized E arg1))) (\<lambda>coins.
     bindS (lift_res (wrap_res ''failed to parse vesting amount: %w'' (ga_ParseCoinsNormalized E vestingAmtStr))) (\<lambda>vestingAmt.
     let balance = ga_Coins_Sort E coins in
     bindS (lift_res (new_gen_account E addr balance vestingAmt vestingStart vestingEnd)) (\<lambda>genAccount.
     bindS (lift_res (wrap_res ''failed to validate new genesis account: %w'' (ga_Validate E genAccount))) (\<lambda>_.
     bindS (gets gf_Accounts) (\<lambda>accs.
     if addr \<in> ga_address ` set accs then lift_res (fail (PlainErr ''cannot add account at existing address %s''))
     else modify (\<lambda>f. f\<lparr>gf_Accounts := ga_SanitizeAccounts E (accs @ [genAccount]),
       gf_Balances := ga_SanitizeBalances E (gf_Balances f @ [(addr, balance)]),
       gf_Supply := ga_Coins_Add E (gf_Supply f) balance\<rparr>)))))))"

lemma new_gen_account_address: "new_gen_account E addr b v vs ve = Ok acc \<Longrightarrow> ga_address acc = addr"
  by (auto simp: new_gen_account_def Let_def split: if_splits)

lemma AddGenesisAccount_fails:
  assumes "AddGenesisAccount E arg0 arg1 vs ve amt f = (r, f')" and "\<not> is_ok r"
  shows "f' = f"
  using assms unfolding AddGenesisAccount_def Let_def
  by (cases "account_address E arg0"; cases "ga_ParseCoinsNormalized E arg1"; cases "ga_ParseCoinsNormalized E amt")
    (auto simp: lift_res_def bindS_def gets_def modify_def split: res.splits if_splits, metis is_ok.simps(1))

lemma AddGenesisAccount_Ok:
  assumes "AddGenesisAccount E arg0 arg1 vs ve amt f = (Ok u, f')"
  shows "\<exists>addr coins acc. account_address E arg0 = Ok addr \<and> ga_ParseCoinsNormalized E arg1 = Ok coins \<and>
    ga_address acc = addr \<and> addr \<notin> ga_address ` set (gf_Accounts f) \<and>
    f' = f\<lparr>gf_Accounts := ga_SanitizeAccounts E (gf_Accounts f @ [acc]),
       gf_Balances := ga_SanitizeBalances E (gf_Balances f @ [(addr, ga_Coins_Sort E coins)]),
       gf_Supply := ga_Coins_Add E (gf_Supply f) (ga_Coins_Sort E coins)\<rparr>"
  using assms unfolding AddGenesisAccount_def Let_def
  by (elim bindS_OkE) (auto simp: lift_res_def gets_def modify_def split: if_splits dest: new_gen_account_address)

text \<open>
  The accounts stay without duplicates, the new one has its balance, and a failure leaves the file as it
  was; sanitizing reorders the entries.
\<close>

lemma genesis_account_added:
  assumes "\<And>accs. mset (map ga_address (ga_SanitizeAccounts E accs)) = mset (map ga_address accs)"
    and "\<And>bs. mset (ga_SanitizeBalances E bs) = mset bs"
    and dist: "distinct (map ga_address (gf_Accounts f))"
  shows "case AddGenesisAccount E arg0 arg1 vs ve amt f of
      (Ok _, f') \<Rightarrow> \<exists>addr coins. account_address E arg0 = Ok addr \<and> ga_ParseCoinsNormalized E arg1 = Ok coins \<and>
        addr \<notin> set (map ga_address (gf_Accounts f)) \<and>
        mset (map ga_address (gf_Accounts f')) = add_mset addr (mset (map ga_address (gf_Accounts f))) \<and>
        distinct (map ga_address (gf_Accounts f')) \<and>
        mset (gf_Balances f') = add_mset (addr, ga_Coins_Sort E coins) (mset (gf_Balances f)) \<and>
        gf_Supply f' = ga_Coins_Add E (gf_Supply f) (ga_Coins_Sort E coins) \<and> gf_Other f' = gf_Other f
    | (_, f') \<Rightarrow> f' = f"
proof (cases "AddGenesisAccount E arg0 arg1 vs ve amt f")
  case (Pair r f')
  show ?thesis
  proof (cases r)
    case (Ok u)
    then obtain addr coins acc where a: "account_address E arg0 = Ok addr" "ga_ParseCoinsNormalized E arg1 = Ok coins"
        "ga_address acc = addr" "addr \<notin> ga_address ` set (gf_Accounts f)" and
      f': "f' = f\<lparr>gf_Accounts := ga_SanitizeAccounts E (gf_Accounts f @ [acc]),
         gf_Balances := ga_SanitizeBalances E (gf_Balances f @ [(addr, ga_Coins_Sort E coins)]),
         gf_Supply := ga_Coins_Add E (gf_Supply f) (ga_Coins_Sort E coins)\<rparr>"
      using AddGenesisAccount_Ok [OF Pair [unfolded Ok]] by blast
    have "mset (map ga_address (gf_Accounts f')) = add_mset addr (mset (map ga_address (gf_Accounts f)))"
      using f' a(3) assms(1) [of "gf_Accounts f @ [acc]"] by simp
    moreover have "distinct (map ga_address (gf_Accounts f @ [acc]))" using dist a(3,4) by simp
    then have "distinct (map ga_address (gf_Accounts f'))"
      using f' assms(1) [of "gf_Accounts f @ [acc]"] mset_eq_imp_distinct_iff by fastforce
    ultimately show ?thesis using Pair Ok a f' assms(2) by (auto simp: image_iff)
  next
    case (Err e)
    then show ?thesis using Pair AddGenesisAccount_fails [OF Pair] by simp
  next
    case (Panic p)
    then show ?thesis using Pair AddGenesisAccount_fails [OF Pair] by simp
  qed
qed

end
