(* ===== verification/NodeAddress.thy ===== *)
theory NodeAddress
  imports GoStrings
begin

text \<open>
  The address of a node of a test network (\<open>cmd/furya/testnet.go\<close>: \<open>calculateIP\<close>, \<open>getIP\<close>), with the parsing and
  printing of dotted addresses of Go's package \<open>net\<close> that they use.
\<close>

section \<open>Dotted addresses\<close>

text \<open>
  \<open>net.ParseIP(s).To4()\<close>: a text whose first separator is a dot has four numbers below 256 without leading
  zeros. A text whose first separator is a colon is read by the parser for the longer addresses,
  \<open>parseIPv6\<close>, whose result \<open>To4\<close> turns into four bytes when it embeds such an address.
\<close>

definition dtoi :: "string \<Rightarrow> (nat \<times> string) option" where
  "dtoi s = (let ds = takeWhile is_digit s in
     if ds = [] \<or> 16777215 \<le> read_nat ds then None else Some (read_nat ds, ds))"

definition ip_field :: "string \<Rightarrow> (byte \<times> string) option" where
  "ip_field s =
     (case dtoi s of
        None \<Rightarrow> None
      | Some (n, ds) \<Rightarrow> if 255 < n \<or> (1 < length ds \<and> s \<noteq> [] \<and> s ! 0 = CHR ''0'') then None else Some (of_nat n, drop (length ds) s))"

fun ip_fields :: "nat \<Rightarrow> bool \<Rightarrow> string \<Rightarrow> bytes option" where
  "ip_fields 0 later s = (if s = [] then Some [] else None)"
| "ip_fields (Suc n) later s =
     (if s = [] \<or> (later \<and> s ! 0 \<noteq> CHR ''.'') then None
      else
        (case ip_field (if later then drop 1 s else s) of
           None \<Rightarrow> None
         | Some (b, rest) \<Rightarrow> map_option (\<lambda>bs. b # bs) (ip_fields n True rest)))"

definition ParseIP_To4 :: "(string \<Rightarrow> bytes option) \<Rightarrow> string \<Rightarrow> bytes option" where
  "ParseIP_To4 parseIPv6 s =
     (case dropWhile (\<lambda>c. c \<noteq> CHR ''.'' \<and> c \<noteq> CHR '':'') s of
        [] \<Rightarrow> None
      | c # _ \<Rightarrow> if c = CHR ''.'' then ip_fields 4 False s else parseIPv6 s)"

fun IP_String :: "bytes \<Rightarrow> string" where
  "IP_String [] = []"
| "IP_String [b] = format_nat (unat b)"
| "IP_String (b # bs) = format_nat (unat b) @ ''.'' @ IP_String bs"

section \<open>The address of a node\<close>

text \<open>The loop increments the last byte \<open>i\<close> times; there is no carry.\<close>

fun bump_last :: "nat \<Rightarrow> bytes \<Rightarrow> bytes" where
  "bump_last 0 ipv4 = ipv4"
| "bump_last (Suc j) ipv4 = bump_last j (ipv4[3 := ipv4 ! 3 + 1])"

definition calculateIP :: "(string \<Rightarrow> bytes option) \<Rightarrow> string \<Rightarrow> nat \<Rightarrow> string res" where
  "calculateIP parseIPv6 ip i =
     (case ParseIP_To4 parseIPv6 ip of
        None \<Rightarrow> fail (PlainErr ''%v: non ipv4 address'')
      | Some ipv4 \<Rightarrow> Ok (IP_String (bump_last i ipv4)))"

definition getIP :: "string res \<Rightarrow> (string \<Rightarrow> bytes option) \<Rightarrow> nat \<Rightarrow> string \<Rightarrow> string res" where
  "getIP ExternalIP parseIPv6 i startingIPAddr =
     (if length startingIPAddr = 0 then ExternalIP else calculateIP parseIPv6 startingIPAddr i)"

section \<open>Parsing what was printed\<close>

lemma format_nat_no_zero: "n \<noteq> 0 \<Longrightarrow> format_nat n ! 0 \<noteq> CHR ''0''"
proof (induction n rule: format_nat.induct)
  case (1 n)
  show ?case
  proof (cases "n < 10")
    case True
    have "char_of (48 + n) \<noteq> CHR ''0''"
    proof
      assume "char_of (48 + n) = CHR ''0''"
      then have "(of_char (char_of (48 + n) :: char) :: nat) = of_char (CHR ''0'')" by simp
      with True 1(2) show False by simp
    qed
    then show ?thesis using True by (subst format_nat.simps) simp
  next
    case False
    then have "format_nat (n div 10) ! 0 \<noteq> CHR ''0''" using 1 by simp
    moreover have "format_nat (n div 10) \<noteq> []" by (rule format_nat_not_Nil)
    ultimately show ?thesis using False by (subst format_nat.simps) (simp add: nth_append)
  qed
qed

lemma take_digits_format:
  assumes "rest = [] \<or> \<not> is_digit (hd rest)"
  shows "takeWhile is_digit (format_nat n @ rest) = format_nat n"
proof -
  have "\<forall>c \<in> set (format_nat n). is_digit c" using list_all_format_nat [of n] by (simp add: list_all_iff)
  then show ?thesis using assms by (cases rest) (simp_all add: takeWhile_append)
qed

lemma format_nat_single: "n < 10 \<Longrightarrow> length (format_nat n) = 1"
  by (subst format_nat.simps) simp

lemma ip_field_format:
  assumes "rest = [] \<or> \<not> is_digit (hd rest)"
  shows "ip_field (format_nat (unat b) @ rest) = Some (b, rest)"
proof -
  have b: "unat b < 256" using unsigned_less [of b] by simp
  have d: "dtoi (format_nat (unat b) @ rest) = Some (unat b, format_nat (unat b))"
    using b by (simp add: dtoi_def take_digits_format [OF assms] read_format_nat format_nat_not_Nil)
  have "\<not> (1 < length (format_nat (unat b)) \<and> format_nat (unat b) ! 0 = CHR ''0'')"
  proof (cases "unat b = 0")
    case True
    then show ?thesis using format_nat_single [of 0] by simp
  qed (simp add: format_nat_no_zero)
  moreover have "(format_nat (unat b) @ rest) ! 0 = format_nat (unat b) ! 0"
    using format_nat_not_Nil [of "unat b"] by (simp add: nth_append)
  ultimately show ?thesis using b unfolding ip_field_def d by simp
qed

lemma ip_fields_String:
  "ip_fields (length bs) True (concat (map (\<lambda>b. ''.'' @ format_nat (unat b)) bs)) = Some bs"
proof (induction bs)
  case (Cons b bs)
  have "ip_field (format_nat (unat b) @ concat (map (\<lambda>b. ''.'' @ format_nat (unat b)) bs)) =
      Some (b, concat (map (\<lambda>b. ''.'' @ format_nat (unat b)) bs))"
    by (rule ip_field_format) (cases bs; simp add: is_digit_def)
  with Cons show ?case by simp
qed simp

lemma IP_String_concat: "IP_String (b # bs) = format_nat (unat b) @ concat (map (\<lambda>b. ''.'' @ format_nat (unat b)) bs)"
  by (induction bs arbitrary: b) simp_all

lemma digit_no_separator: "is_digit c \<Longrightarrow> c \<noteq> CHR ''.'' \<and> c \<noteq> CHR '':''"
  by (auto simp: is_digit_def)

lemma ParseIP_String:
  assumes "length bs = 4"
  shows "ParseIP_To4 v6 (IP_String bs) = Some bs"
proof -
  obtain b cs where bs: "bs = b # cs" "length cs = 3" using assms by (cases bs) auto
  let ?rest = "concat (map (\<lambda>b. ''.'' @ format_nat (unat b)) cs)"
  obtain xs where r: "?rest = CHR ''.'' # xs" using bs(2) by (cases cs) auto
  have "c \<noteq> CHR ''.'' \<and> c \<noteq> CHR '':''" if "c \<in> set (format_nat (unat b))" for c
    using list_all_format_nat [of "unat b"] digit_no_separator that by (simp add: list_all_iff)
  then have "dropWhile (\<lambda>c. c \<noteq> CHR ''.'' \<and> c \<noteq> CHR '':'') (format_nat (unat b) @ ?rest) = ?rest"
    by (subst dropWhile_append2) (assumption, simp only: r, simp)
  then have "dropWhile (\<lambda>c. c \<noteq> CHR ''.'' \<and> c \<noteq> CHR '':'') (IP_String bs) = CHR ''.'' # xs"
    by (simp only: bs(1) IP_String_concat r)
  moreover have "ip_fields 4 False (IP_String bs) = Some bs"
  proof -
    have "ip_field (format_nat (unat b) @ ?rest) = Some (b, ?rest)"
      by (rule ip_field_format) (simp only: r, simp add: is_digit_def)
    moreover have "ip_fields 3 True ?rest = Some cs" using ip_fields_String [of cs] bs(2) by simp
    moreover have "(4 :: nat) = Suc 3" "format_nat (unat b) @ ?rest \<noteq> []" using format_nat_not_Nil by simp_all
    ultimately show ?thesis unfolding bs(1) IP_String_concat
      by (simp only: ip_fields.simps if_False simp_thms option.case prod.case option.map)
  qed
  ultimately show ?thesis by (simp add: ParseIP_To4_def)
qed

lemma IP_String_inj: "length as = 4 \<Longrightarrow> length bs = 4 \<Longrightarrow> IP_String as = IP_String bs \<longleftrightarrow> as = bs"
  by (metis ParseIP_String option.inject)

lemma bump_last_add: "length ipv4 = 4 \<Longrightarrow> bump_last i ipv4 = ipv4[3 := ipv4 ! 3 + of_nat i]"
  by (induction i arbitrary: ipv4) (simp_all add: ac_simps)

lemma byte_of_nat_eq: "(of_nat i :: byte) = of_nat j \<longleftrightarrow> i mod 256 = j mod 256"
  by (simp add: word_of_nat_eq_iff take_bit_eq_mod)

section \<open>Properties\<close>

text \<open>
  C35: Starting from a dotted address, node \<open>i\<close> gets the address whose last number is larger by \<open>i\<close>, modulo
  256: there is no carry into the third number, and two nodes have the same address exactly when their
  numbers are equal modulo 256.
\<close>

theorem node_addresses:
  "calculateIP v6 (IP_String [a, b, c, d]) i = Ok (IP_String [a, b, c, d + of_nat i]) \<and>
   (calculateIP v6 (IP_String [a, b, c, d]) i = calculateIP v6 (IP_String [a, b, c, d]) j \<longleftrightarrow> i mod 256 = j mod 256)"
proof -
  have calc: "calculateIP v6 (IP_String [a, b, c, d]) k = Ok (IP_String [a, b, c, d + of_nat k])" for k
    using ParseIP_String [of "[a, b, c, d]" v6] bump_last_add [of "[a, b, c, d]" k]
    by (simp add: calculateIP_def numeral_eq_Suc)
  moreover have "IP_String [a, b, c, d + of_nat i] = IP_String [a, b, c, d + of_nat j] \<longleftrightarrow> i mod 256 = j mod 256"
    using IP_String_inj [of "[a, b, c, d + of_nat i]" "[a, b, c, d + of_nat j]"] byte_of_nat_eq [of i j] by simp
  ultimately show ?thesis by simp
qed

end
