(* ===== verification/Testnet.thy ===== *)
theory Testnet
  imports PoEGenTx GenesisAccounts NodeAddress "HOL-Library.AList"
begin

text \<open>
  The command that writes the files of a test network (\<open>cmd/furya/testnet.go\<close>): keys, accounts and a genesis
  transaction per node, the genesis file with the seed of the contracts, and the collection of the
  transactions for every node.
\<close>

section \<open>Data\<close>

text \<open>A path is the list of the parts that \<open>filepath.Join\<close> joins; the parts are taken as they are, without cleaning.\<close>

type_synonym path = "string list"

definition stakingToken :: string where
  "stakingToken = ''ufury''"

record testnet_args =
  ta_outputDir :: string
  ta_chainID :: string
  ta_minGasPrices :: string
  ta_nodeDirPrefix :: string
  ta_nodeDaemonHome :: string
  ta_startingIPAddress :: string
  ta_keyringBackend :: string
  ta_algo :: string
  ta_numValidators :: int
  ta_singleMachine :: bool
  ta_vestingVals :: bool

text \<open>The parts of the node's and the application's configuration that the command sets.\<close>

record node_config =
  nc_RootDir :: path
  nc_Moniker :: string
  nc_AddrBookStrict :: bool
  nc_PexReactor :: bool
  nc_AllowDuplicateIP :: bool
  nc_RPCListen :: string
  nc_P2PListen :: string
  nc_TimeoutCommit :: duration

record app_config =
  ap_MinGasPrices :: string
  ap_APIAddress :: string
  ap_GRPCAddress :: string
  ap_GRPCWebAddress :: string
  ap_GlobalLabels :: "(string \<times> string) list"

record genesis_doc =
  gd_ChainID :: string
  gd_AppState :: string
  gd_GenesisTime :: "int option"

record 'o bank_GenesisState =
  bk_Balances :: "balance list"
  bk_Supply :: "coin list"
  bk_Other :: 'o

text \<open>
  The variables of \<open>InitTestnet\<close> and the files below the output directory: seeds of keys, configurations and
  genesis documents by the directory of the node, and the genesis transactions by file name. \<open>ts_peers\<close> are
  the persistent peers in the node's configuration file.
\<close>

record ('k, 't) testnet =
  ts_cfg :: node_config
  ts_appcfg :: app_config
  ts_p2pPortStart :: int
  ts_nodeIDs :: "string list"
  ts_valPubKeys :: "'k option list"
  ts_genAccounts :: "gen_account list"
  ts_genBalances :: "balance list"
  ts_genOCMembers :: "string list"
  ts_genAPMembers :: "string list"
  ts_genFiles :: "path list"
  ts_bootstrap :: addr
  ts_gentxs :: "(string \<times> 't) list"
  ts_seeds :: "path \<rightharpoonup> (string \<rightharpoonup> string)"
  ts_apptoml :: "path \<rightharpoonup> app_config"
  ts_config :: "path \<rightharpoonup> node_config"
  ts_peers :: "path \<Rightarrow> string"
  ts_genesis :: "path \<rightharpoonup> genesis_doc"

text \<open>
  What the command uses of the SDK, of Tendermint and of the system: directories and files, keys, coins,
  signing and encoding of transactions, and the state of the modules (\<open>'g\<close> for \<open>auth\<close>, \<open>'p\<close> a packed account).
  \<open>n_Sanitize\<close> returns its result and what it leaves in the slice it was given; \<open>n_now\<close> is the time in seconds.
\<close>

record ('k, 'a, 'x, 't, 'raw, 'd, 'g, 'p, 'o) testnet_env =
  n_sdk :: sdk_ops
  n_codec :: "('raw, 't, 'd) codec_ops"
  n_randStr :: string
  n_ExternalIP :: "string res"
  n_parseIPv6 :: "string \<Rightarrow> bytes option"
  n_MkdirAll :: "path \<Rightarrow> unit res"
  n_EnsureDir :: "path \<Rightarrow> unit res"
  n_WriteFile :: "path \<Rightarrow> unit res"
  n_InitializeNodeValidatorFiles :: "node_config \<Rightarrow> (string \<times> 'k option) res"
  n_keyring :: "string \<Rightarrow> path \<Rightarrow> unit res"
  n_SigningAlgo :: "string \<Rightarrow> unit res"
  n_GenerateSaveCoinKey :: "path \<Rightarrow> string \<Rightarrow> (addr \<times> string) res"
  n_TokensFromConsensusPower :: "int \<Rightarrow> int"
  n_now :: int
  n_NewCoin :: "string \<Rightarrow> int \<Rightarrow> coin res"
  n_Sort :: "coin list \<Rightarrow> coin list"
  n_NewCoins :: "coin list \<Rightarrow> coin list res"
  n_Add :: "coin list \<Rightarrow> coin list \<Rightarrow> coin list res"
  n_AmountOf :: "coin list \<Rightarrow> string \<Rightarrow> int res"
  n_Sanitize :: "balance list \<Rightarrow> balance list \<times> balance list"
  n_newAny :: "'k \<Rightarrow> 'a res"
  n_SetMsgs :: "'a MsgCreateValidator \<Rightarrow> unit res"
  n_Sign :: "string \<Rightarrow> string \<Rightarrow> path \<Rightarrow> string \<Rightarrow> 'a MsgCreateValidator \<Rightarrow> 'x res"
  n_TxJSONEncoder :: "'x \<Rightarrow> 't res"
  n_TxJSONDecoder :: "'t \<Rightarrow> 'x res"
  n_view :: "('x, 'a) tx_view"
  n_DefaultGenesis :: "'raw app_state"
  n_authGet :: "'raw option \<Rightarrow> 'g res"
  n_PackAccounts :: "gen_account list \<Rightarrow> 'p list res"
  n_authPut :: "'g \<Rightarrow> 'p list \<Rightarrow> 'raw res"
  n_bankGet :: "'raw option \<Rightarrow> 'o bank_GenesisState res"
  n_bankPut :: "'o bank_GenesisState \<Rightarrow> 'raw res"
  n_MarshalIndent :: "'raw app_state \<Rightarrow> string res"
  n_UnmarshalAppState :: "string \<Rightarrow> 'raw app_state res"
  n_genBalances :: "'raw app_state \<Rightarrow> balance list"
  n_ValidateAndComplete :: "genesis_doc \<Rightarrow> genesis_doc res"
  n_GenesisDocFromFile :: "genesis_doc option \<Rightarrow> genesis_doc res"
  n_genTime :: int

section \<open>Helpers\<close>

definition node_name :: "testnet_args \<Rightarrow> nat \<Rightarrow> string" where
  "node_name P i = ta_nodeDirPrefix P @ format_nat i"

definition node_dir :: "testnet_args \<Rightarrow> nat \<Rightarrow> path" where
  "node_dir P i = [ta_outputDir P, node_name P i, ta_nodeDaemonHome P]"

definition gentxs_dir :: "testnet_args \<Rightarrow> path" where
  "gentxs_dir P = [ta_outputDir P, ''gentxs'']"

definition portOffset :: "testnet_args \<Rightarrow> nat \<Rightarrow> int" where
  "portOffset P i = (if ta_singleMachine P then int i else 0)"

definition writeFile :: "('k, 'a, 'x, 't, 'raw, 'd, 'g, 'p, 'o) testnet_env \<Rightarrow> string \<Rightarrow> path \<Rightarrow> unit res" where
  "writeFile E name dir = bind_res (n_EnsureDir E dir) (\<lambda>_. n_WriteFile E (dir @ [name]))"

text \<open>After some of the errors the output directory is removed.\<close>

definition remove_output :: "('k, 't) testnet \<Rightarrow> ('k, 't) testnet" where
  "remove_output s = s\<lparr>ts_gentxs := [], ts_seeds := Map.empty, ts_apptoml := Map.empty, ts_config := Map.empty,
     ts_peers := (\<lambda>_. []), ts_genesis := Map.empty\<rparr>"

definition removing :: "'a res \<Rightarrow> (('k, 't) testnet, 'a) act" where
  "removing r s = (r, case r of Err e \<Rightarrow> remove_output s | _ \<Rightarrow> s)"

definition addGenAccount ::
    "('k, 'a, 'x, 't, 'raw, 'd, 'g, 'p, 'o) testnet_env \<Rightarrow> addr \<Rightarrow> coin list \<Rightarrow> (('k, 't) testnet, unit) act" where
  "addGenAccount E addr coins =
     modify (\<lambda>s. s\<lparr>ts_genBalances := ts_genBalances s @ [(addr, n_Sort E coins)], ts_genAccounts := ts_genAccounts s @ [BaseAccount addr]\<rparr>)"

definition vestingStart :: "int \<Rightarrow> int" where
  "vestingStart now = now + 1 * 30 * 24 * 3600"

definition vestingEnd :: "int \<Rightarrow> int" where
  "vestingEnd now = now + 18 * 30 * 24 * 3600"

definition addGenVestingAccount ::
    "('k, 'a, 'x, 't, 'raw, 'd, 'g, 'p, 'o) testnet_env \<Rightarrow> addr \<Rightarrow> coin \<Rightarrow> coin list \<Rightarrow> (('k, 't) testnet, unit) act" where
  "addGenVestingAccount E addr vestingAmt liquidAmts =
     bindS (lift_res (n_NewCoins E [vestingAmt])) (\<lambda>vesting.
     bindS (lift_res (n_Add E vesting liquidAmts)) (\<lambda>coins.
     modify (\<lambda>s. s\<lparr>ts_genBalances := ts_genBalances s @ [(addr, n_Sort E coins)],
       ts_genAccounts := ts_genAccounts s @ [ContinuousVesting addr vesting (vestingEnd (n_now E)) (vestingStart (n_now E))]\<rparr>)))"

section \<open>One node\<close>

text \<open>The configuration, the directory, the address and the keys of node \<open>i\<close>: its id, key and memo.\<close>

definition prepare_config :: "testnet_args \<Rightarrow> nat \<Rightarrow> ('k, 't) testnet \<Rightarrow> ('k, 't) testnet" where
  "prepare_config P i s =
     (let s1 = (if ta_singleMachine P
         then s\<lparr>ts_p2pPortStart := 16656,
           ts_cfg := (ts_cfg s)\<lparr>nc_AddrBookStrict := False, nc_PexReactor := False, nc_AllowDuplicateIP := True\<rparr>\<rparr> else s) in
      s1\<lparr>ts_cfg := (ts_cfg s1)\<lparr>nc_RootDir := node_dir P i\<rparr>,
        ts_appcfg := (ts_appcfg s1)\<lparr>ap_APIAddress := ''tcp://0.0.0.0:'' @ format_int (1317 + portOffset P i),
          ap_GRPCAddress := ''0.0.0.0:'' @ format_int (9090 + portOffset P i),
          ap_GRPCWebAddress := ''0.0.0.0:'' @ format_int (8090 + portOffset P i)\<rparr>\<rparr>)"

definition init_node_files ::
    "('k, 'a, 'x, 't, 'raw, 'd, 'g, 'p, 'o) testnet_env \<Rightarrow> testnet_args \<Rightarrow> nat \<Rightarrow> (('k, 't) testnet, 'k option \<times> string) act" where
  "init_node_files E P i =
     bindS (modify (prepare_config P i)) (\<lambda>_.
     bindS (removing (n_MkdirAll E (node_dir P i @ [''config'']))) (\<lambda>_.
     bindS (modify (\<lambda>s. s\<lparr>ts_cfg := (ts_cfg s)\<lparr>nc_Moniker := node_name P i\<rparr>\<rparr>)) (\<lambda>_.
     bindS (removing (getIP (n_ExternalIP E) (n_parseIPv6 E) i (ta_startingIPAddress P))) (\<lambda>ip.
     bindS (gets ts_cfg) (\<lambda>nodeConfig.
     bindS (removing (n_InitializeNodeValidatorFiles E nodeConfig)) (\<lambda>(nodeID, valPubKey).
     bindS (modify (\<lambda>s. s\<lparr>ts_nodeIDs := (ts_nodeIDs s)[i := nodeID], ts_valPubKeys := (ts_valPubKeys s)[i := valPubKey],
       ts_genFiles := ts_genFiles s @ [nc_RootDir nodeConfig]\<rparr>)) (\<lambda>_.
     bindS (gets ts_p2pPortStart) (\<lambda>p2pPortStart.
     ret (valPubKey, nodeID @ ''@'' @ ip @ '':'' @ format_int (p2pPortStart + portOffset P i))))))))))"

text \<open>The first node holds the keys of the bootstrap account and of the members of both circles.\<close>

fun add_members ::
    "('k, 'a, 'x, 't, 'raw, 'd, 'g, 'p, 'o) testnet_env \<Rightarrow> path \<Rightarrow> string \<Rightarrow> nat list \<Rightarrow> (string \<rightharpoonup> string) \<Rightarrow>
     (('k, 't) testnet, string list \<times> (string \<rightharpoonup> string)) act" where
  "add_members E dir label [] seeds = ret ([], seeds)"
| "add_members E dir label (i # is) seeds =
     bindS (removing (n_GenerateSaveCoinKey E dir (label @ format_nat (i + 1)))) (\<lambda>(memberAddr, secret).
     bindS (lift_res (n_NewCoin E stakingToken 1000000000)) (\<lambda>coin.
     bindS (addGenAccount E memberAddr [coin]) (\<lambda>_.
     bindS (add_members E dir label is (seeds(sAddrString (n_sdk E) memberAddr \<mapsto> secret))) (\<lambda>(addrs, seeds').
     ret (sAddrString (n_sdk E) memberAddr # addrs, seeds')))))"

definition add_bootstrap ::
    "('k, 'a, 'x, 't, 'raw, 'd, 'g, 'p, 'o) testnet_env \<Rightarrow> path \<Rightarrow> (string \<rightharpoonup> string) \<Rightarrow> (('k, 't) testnet, string \<rightharpoonup> string) act" where
  "add_bootstrap E dir seeds =
     bindS (removing (n_GenerateSaveCoinKey E dir ''bootstrap-account'')) (\<lambda>(bootstrapAccountAddr, secret).
     bindS (modify (\<lambda>s. s\<lparr>ts_bootstrap := bootstrapAccountAddr\<rparr>)) (\<lambda>_.
     bindS (lift_res (n_NewCoin E stakingToken 100000000000)) (\<lambda>coin.
     bindS (addGenAccount E bootstrapAccountAddr [coin]) (\<lambda>_.
     bindS (add_members E dir ''oc-member-'' [0..<3] (seeds(sAddrString (n_sdk E) bootstrapAccountAddr \<mapsto> secret))) (\<lambda>(oc, seeds1).
     bindS (modify (\<lambda>s. s\<lparr>ts_genOCMembers := ts_genOCMembers s @ oc\<rparr>)) (\<lambda>_.
     bindS (add_members E dir ''ap-member-'' [0..<2] seeds1) (\<lambda>(ap, seeds2).
     bindS (modify (\<lambda>s. s\<lparr>ts_genAPMembers := ts_genAPMembers s @ ap\<rparr>)) (\<lambda>_. ret seeds2))))))))"

definition node_keys ::
    "('k, 'a, 'x, 't, 'raw, 'd, 'g, 'p, 'o) testnet_env \<Rightarrow> testnet_args \<Rightarrow> nat \<Rightarrow> (('k, 't) testnet, addr) act" where
  "node_keys E P i =
     bindS (lift_res (n_keyring E (ta_keyringBackend P) (node_dir P i))) (\<lambda>_.
     bindS (lift_res (n_SigningAlgo E (ta_algo P))) (\<lambda>_.
     bindS (removing (n_GenerateSaveCoinKey E (node_dir P i) (node_name P i))) (\<lambda>(addr, secret).
     bindS (if i = 0 then add_bootstrap E (node_dir P i) [''secret'' \<mapsto> secret] else ret [''secret'' \<mapsto> secret]) (\<lambda>seeds.
     bindS (lift_res (writeFile E ''key_seed.json'' (node_dir P i))) (\<lambda>_.
     bindS (modify (\<lambda>s. s\<lparr>ts_seeds := (ts_seeds s)(node_dir P i \<mapsto> seeds)\<rparr>)) (\<lambda>_. ret addr))))))"

text \<open>The account of the node and the amounts that it stakes, liquid and vesting.\<close>

definition node_account ::
    "('k, 'a, 'x, 't, 'raw, 'd, 'g, 'p, 'o) testnet_env \<Rightarrow> testnet_args \<Rightarrow> nat \<Rightarrow> addr \<Rightarrow> (('k, 't) testnet, int \<times> int) act" where
  "node_account E P i addr =
     (let liquidTokens = n_TokensFromConsensusPower E 1000;
          vestingTokens = n_TokensFromConsensusPower E 600;
          valTokens = n_TokensFromConsensusPower E 100 in
      if ta_vestingVals P then
        bindS (lift_res (n_NewCoin E stakingToken vestingTokens)) (\<lambda>vestingCoin.
        bindS (lift_res (n_NewCoin E (node_name P i @ ''token'') valTokens)) (\<lambda>valCoin.
        bindS (lift_res (n_NewCoin E stakingToken liquidTokens)) (\<lambda>liquidCoin.
        bindS (addGenVestingAccount E addr vestingCoin [valCoin, liquidCoin]) (\<lambda>_.
        ret (0, n_TokensFromConsensusPower E 600)))))
      else
        bindS (lift_res (n_NewCoin E (node_name P i @ ''token'') valTokens)) (\<lambda>valCoin.
        bindS (lift_res (n_NewCoin E stakingToken (liquidTokens + vestingTokens))) (\<lambda>coin.
        bindS (addGenAccount E addr [valCoin, coin]) (\<lambda>_.
        ret (n_TokensFromConsensusPower E 700, 0)))))"

definition msg_coin_of :: "coin \<Rightarrow> msg_coin" where
  "msg_coin_of c = \<lparr>mc_Denom = coin_Denom c, mc_Amount = Some (coin_Amount c)\<rparr>"

definition node_gentx ::
    "('k, 'a, 'x, 't, 'raw, 'd, 'g, 'p, 'o) testnet_env \<Rightarrow> testnet_args \<Rightarrow> string \<Rightarrow> nat \<Rightarrow> addr \<Rightarrow> 'k option \<Rightarrow> string \<Rightarrow> int \<Rightarrow> int \<Rightarrow>
     (('k, 't) testnet, unit) act" where
  "node_gentx E P chainID i addr valPubKey memo liquidStakingAmount vestingStakingAmount =
     bindS (lift_res (n_NewCoin E stakingToken liquidStakingAmount)) (\<lambda>liquid.
     bindS (lift_res (n_NewCoin E stakingToken vestingStakingAmount)) (\<lambda>vesting.
     bindS (lift_res (NewMsgCreateValidator (n_sdk E) (n_newAny E) addr valPubKey (msg_coin_of liquid) (msg_coin_of vesting)
       (emptyDescription\<lparr>Moniker := ''moniker-'' @ format_nat i\<rparr>))) (\<lambda>createValMsg.
     bindS (lift_res (n_SetMsgs E createValMsg)) (\<lambda>_.
     bindS (lift_res (n_Sign E chainID memo (node_dir P i) (node_name P i) createValMsg)) (\<lambda>tx.
     bindS (lift_res (n_TxJSONEncoder E tx)) (\<lambda>txBz.
     bindS (lift_res (writeFile E (node_name P i @ ''.json'') (gentxs_dir P))) (\<lambda>_.
     modify (\<lambda>s. s\<lparr>ts_gentxs := AList.update (node_name P i @ ''.json'') txBz (ts_gentxs s)\<rparr>))))))))"

definition init_node ::
    "('k, 'a, 'x, 't, 'raw, 'd, 'g, 'p, 'o) testnet_env \<Rightarrow> testnet_args \<Rightarrow> string \<Rightarrow> nat \<Rightarrow> (('k, 't) testnet, unit) act" where
  "init_node E P chainID i =
     bindS (init_node_files E P i) (\<lambda>(valPubKey, memo).
     bindS (node_keys E P i) (\<lambda>addr.
     bindS (node_account E P i addr) (\<lambda>(liquid, vesting).
     bindS (node_gentx E P chainID i addr valPubKey memo liquid vesting) (\<lambda>_.
     modify (\<lambda>s. s\<lparr>ts_apptoml := (ts_apptoml s)(node_dir P i \<mapsto> ts_appcfg s)\<rparr>)))))"

fun init_nodes ::
    "('k, 'a, 'x, 't, 'raw, 'd, 'g, 'p, 'o) testnet_env \<Rightarrow> testnet_args \<Rightarrow> string \<Rightarrow> nat list \<Rightarrow> (('k, 't) testnet, unit) act" where
  "init_nodes E P chainID [] = ret ()"
| "init_nodes E P chainID (i # is) = seqS (init_node E P chainID i) (init_nodes E P chainID is)"

section \<open>The genesis files\<close>

text \<open>\<open>strings.ReplaceAll\<close> for a text that is not empty.\<close>

fun strings_ReplaceAll :: "string \<Rightarrow> string \<Rightarrow> string \<Rightarrow> string" where
  "strings_ReplaceAll [] old new = []"
| "strings_ReplaceAll (c # cs) old new =
     (if old \<noteq> [] \<and> take (length old) (c # cs) = old
      then new @ strings_ReplaceAll (drop (length old - 1) cs) old new
      else c # strings_ReplaceAll cs old new)"

fun sum_coins :: "(coin list \<Rightarrow> coin list \<Rightarrow> coin list res) \<Rightarrow> coin list \<Rightarrow> balance list \<Rightarrow> coin list res" where
  "sum_coins add totals [] = Ok totals"
| "sum_coins add totals (v # vs) = bind_res (add totals (snd v)) (\<lambda>totals'. sum_coins add totals' vs)"

text \<open>The points of an account: the first one has as many as there are accounts, the last one has one.\<close>

definition engagement_members :: "sdk_ops \<Rightarrow> gen_account list \<Rightarrow> genesis_member list" where
  "engagement_members K genAccounts =
     map (\<lambda>(i, acc). \<lparr>gm_Address = sAddrString K (ga_address acc), gm_Points = of_nat (length genAccounts - i)\<rparr>)
       (enumerate 0 genAccounts)"

definition quoted :: "string \<Rightarrow> string" where
  "quoted s = CHR 0x22 # s @ [CHR 0x22]"

definition genesis_app_state ::
    "('k, 'a, 'x, 't, 'raw, 'd, 'g, 'p, 'o) testnet_env \<Rightarrow> gen_account list \<Rightarrow> balance list \<Rightarrow> addr \<Rightarrow> string list \<Rightarrow> string list \<Rightarrow>
     'raw app_state res" where
  "genesis_app_state E genAccounts genBalances admin ocMemberAddrs apMemberAddrs =
     (let appGenState = n_DefaultGenesis E in
      bind_res (n_authGet E (appGenState ''auth'')) (\<lambda>authGenState.
      bind_res (n_PackAccounts E genAccounts) (\<lambda>accounts.
      bind_res (n_authPut E authGenState accounts) (\<lambda>authRaw.
      let appGenState1 = appGenState(''auth'' \<mapsto> authRaw) in
      bind_res (n_bankGet E (appGenState1 ''bank'')) (\<lambda>bankGenState.
      let genBalances' = snd (n_Sanitize E genBalances) in
      bind_res (sum_coins (n_Add E) [] genBalances') (\<lambda>totals.
      bind_res (n_Add E (bk_Supply bankGenState) totals) (\<lambda>supply.
      bind_res (n_bankPut E (bankGenState\<lparr>bk_Supply := supply, bk_Balances := genBalances'\<rparr>)) (\<lambda>bankRaw.
      let appGenState2 = appGenState1(''bank'' \<mapsto> bankRaw) in
      bind_res (GetGenesisStateFromAppState (n_codec E) appGenState2) (\<lambda>poeGenesisState.
      case GetSeedContracts poeGenesisState of
        None \<Rightarrow> Panic ''nil pointer dereference''
      | Some seed \<Rightarrow>
          SetGenesisStateInAppState (n_codec E) appGenState2
            (poeGenesisState\<lparr>gs_SetupMode := SeedMode (Some (seed\<lparr>
               Engagement := Engagement seed @ engagement_members (n_sdk E) genAccounts,
               BootstrapAccountAddress := sAddrString (n_sdk E) admin,
               OversightCommunityMembers := ocMemberAddrs, ArbiterPoolMembers := apMemberAddrs\<rparr>))\<rparr>))))))))))"

fun save_docs ::
    "('k, 'a, 'x, 't, 'raw, 'd, 'g, 'p, 'o) testnet_env \<Rightarrow> genesis_doc \<Rightarrow> path list \<Rightarrow> (('k, 't) testnet, unit) act" where
  "save_docs E genDoc [] = ret ()"
| "save_docs E genDoc (p # ps) =
     bindS (lift_res (n_WriteFile E (p @ [''genesis.json'']))) (\<lambda>_.
     bindS (modify (\<lambda>s. s\<lparr>ts_genesis := (ts_genesis s)(p \<mapsto> genDoc)\<rparr>)) (\<lambda>_. save_docs E genDoc ps))"

definition initGenFiles ::
    "('k, 'a, 'x, 't, 'raw, 'd, 'g, 'p, 'o) testnet_env \<Rightarrow> string \<Rightarrow> nat \<Rightarrow> (('k, 't) testnet, unit) act" where
  "initGenFiles E chainID numValidators =
     bindS (gets (\<lambda>s. genesis_app_state E (ts_genAccounts s) (ts_genBalances s) (ts_bootstrap s) (ts_genOCMembers s) (ts_genAPMembers s)))
       (\<lambda>r.
     bindS (lift_res r) (\<lambda>appGenState.
     bindS (lift_res (n_MarshalIndent E appGenState)) (\<lambda>appGenStateJSON.
     let genDoc = \<lparr>gd_ChainID = chainID, gd_AppState = strings_ReplaceAll appGenStateJSON (quoted ''stake'') (quoted stakingToken),
       gd_GenesisTime = None\<rparr> in
     bindS (gets (\<lambda>s. take numValidators (ts_genFiles s))) (\<lambda>files. save_docs E genDoc files))))"

text \<open>
  The file is completed, validated and saved. Collecting reads the files of the directory, which are listed
  in the order of their names.
\<close>

definition export_doc ::
    "('k, 'a, 'x, 't, 'raw, 'd, 'g, 'p, 'o) testnet_env \<Rightarrow> path \<Rightarrow> genesis_doc \<Rightarrow> (('k, 't) testnet, unit) act" where
  "export_doc E nodeDir genDoc =
     bindS (lift_res (n_ValidateAndComplete E genDoc)) (\<lambda>doc.
     bindS (lift_res (n_WriteFile E (nodeDir @ [''genesis.json'']))) (\<lambda>_.
     modify (\<lambda>s. s\<lparr>ts_genesis := (ts_genesis s)(nodeDir \<mapsto> doc)\<rparr>)))"

definition gentx_entries :: "(string \<times> 't) list \<Rightarrow> 't dir_entry list" where
  "gentx_entries files = map (\<lambda>(name, content). \<lparr>fo_Name = name, fo_IsDir = False, fo_Content = Ok content\<rparr>) (sort_key fst files)"

definition add_gen_txs ::
    "('k, 'a, 'x, 't, 'raw, 'd, 'g, 'p, 'o) testnet_env \<Rightarrow> path \<Rightarrow> genesis_doc \<Rightarrow> (('k, 't) testnet, string) act" where
  "add_gen_txs E nodeDir genDoc s =
     (let fos = Ok (gentx_entries (ts_gentxs s));
          appState = n_UnmarshalAppState E (gd_AppState genDoc);
          moniker = nc_Moniker (ts_cfg s);
          exported = (\<lambda>app. bind_res (n_MarshalIndent E app) (\<lambda>text. fst (export_doc E nodeDir (genDoc\<lparr>gd_AppState := text\<rparr>) s)));
          (r, f) = AddGenTxsToGenesisFile (n_sdk E) (n_codec E) (n_TxJSONDecoder E) (n_TxJSONEncoder E) (n_view E) (n_AmountOf E)
            moniker fos appState (n_genBalances E) exported \<lparr>nf_PersistentPeers = ts_peers s nodeDir, nf_Genesis = Map.empty\<rparr>;
          s1 = (if is_ok (collectTxs (n_sdk E) (n_TxJSONDecoder E) (n_view E) (n_AmountOf E) moniker fos appState (n_genBalances E))
            then s\<lparr>ts_config := (ts_config s)(nodeDir \<mapsto> ts_cfg s), ts_peers := (ts_peers s)(nodeDir := nf_PersistentPeers f)\<rparr> else s) in
      bindS (lift_res (bind_res r (n_MarshalIndent E))) (\<lambda>text.
      bindS (export_doc E nodeDir (genDoc\<lparr>gd_AppState := text\<rparr>)) (\<lambda>_. ret text)) s1)"

definition collect_config :: "testnet_args \<Rightarrow> nat \<Rightarrow> ('k, 't) testnet \<Rightarrow> ('k, 't) testnet" where
  "collect_config P i s =
     s\<lparr>ts_cfg := (ts_cfg s)\<lparr>nc_Moniker := node_name P i, nc_RPCListen := ''tcp://0.0.0.0:'' @ format_int (26657 + portOffset P i),
       nc_P2PListen := ''tcp://0.0.0.0:'' @ format_int (ts_p2pPortStart s + portOffset P i), nc_RootDir := node_dir P i\<rparr>\<rparr>"

fun collectGenFiles ::
    "('k, 'a, 'x, 't, 'raw, 'd, 'g, 'p, 'o) testnet_env \<Rightarrow> testnet_args \<Rightarrow> string \<Rightarrow> nat list \<Rightarrow> string option \<Rightarrow> (('k, 't) testnet, unit) act" where
  "collectGenFiles E P chainID [] appState = ret ()"
| "collectGenFiles E P chainID (i # is) appState =
     bindS (modify (collect_config P i)) (\<lambda>_.
     bindS (gets (\<lambda>s. ts_genesis s (node_dir P i))) (\<lambda>content.
     bindS (lift_res (n_GenesisDocFromFile E content)) (\<lambda>genDoc.
     bindS (add_gen_txs E (node_dir P i) genDoc) (\<lambda>nodeAppState.
     let appState' = (case appState of None \<Rightarrow> nodeAppState | Some a \<Rightarrow> a) in
     bindS (export_doc E (node_dir P i) \<lparr>gd_ChainID = chainID, gd_AppState = appState', gd_GenesisTime = Some (n_genTime E)\<rparr>) (\<lambda>_.
     collectGenFiles E P chainID is (Some appState'))))))"

section \<open>The command\<close>

definition testnet_start ::
    "testnet_args \<Rightarrow> string \<Rightarrow> ('k, 't) testnet \<Rightarrow> ('k, 't) testnet" where
  "testnet_start P chainID s =
     s\<lparr>ts_nodeIDs := replicate (nat (ta_numValidators P)) [], ts_valPubKeys := replicate (nat (ta_numValidators P)) None,
       ts_appcfg := (ts_appcfg s)\<lparr>ap_MinGasPrices := ta_minGasPrices P, ap_GlobalLabels := [(''chain_id'', chainID)]\<rparr>,
       ts_genAccounts := [], ts_genBalances := [], ts_genOCMembers := [], ts_genAPMembers := [], ts_genFiles := [],
       ts_bootstrap := [], ts_p2pPortStart := 26656\<rparr>"

definition InitTestnet ::
    "('k, 'a, 'x, 't, 'raw, 'd, 'g, 'p, 'o) testnet_env \<Rightarrow> testnet_args \<Rightarrow> (('k, 't) testnet, unit) act" where
  "InitTestnet E P =
     (let chainID = (if ta_chainID P = [] then ''chain-'' @ n_randStr E else ta_chainID P);
          nodes = [0..<nat (ta_numValidators P)] in
      if ta_numValidators P < 0 then lift_res (Panic ''makeslice: len out of range'')
      else
        bindS (modify (testnet_start P chainID)) (\<lambda>_.
        bindS (init_nodes E P chainID nodes) (\<lambda>_.
        bindS (initGenFiles E chainID (nat (ta_numValidators P))) (\<lambda>_.
        collectGenFiles E P chainID nodes None))))"

end
