(* ===== verification/TestnetProperties.thy ===== *)
theory TestnetProperties
  imports Testnet
begin

text \<open>
  What the command for test networks guarantees: the transactions that it writes are accepted when it
  collects them, all nodes get the same genesis document, and the engagement group has all accounts.
\<close>

section \<open>Laws\<close>

text \<open>
  What is documented of the SDK: a signed transaction has the memo and the message it was built from and is
  decoded from its encoding; a new coin has the given denomination and amount, which is not negative; sorted
  coins without duplicates are looked up; coins in the order of their denominations are added; the tokens for a power are proportional to it. Every name in
  every key directory has its own address.
\<close>

definition coin_total :: "coin list \<Rightarrow> string \<Rightarrow> int" where
  "coin_total cs d = sum_list (map coin_Amount (filter (\<lambda>c. coin_Denom c = d) cs))"

definition denoms_ok :: "coin list \<Rightarrow> bool" where
  "denoms_ok cs \<longleftrightarrow> sorted (map coin_Denom cs) \<and> distinct (map coin_Denom cs)"

definition fresh_keys :: "('k, 'a, 'x, 't, 'raw, 'd, 'g, 'p, 'o) testnet_env \<Rightarrow> bool" where
  "fresh_keys E \<longleftrightarrow>
     (\<forall>dir k dir' k' a sec sec'. n_GenerateSaveCoinKey E dir k = Ok (a, sec) \<longrightarrow> n_GenerateSaveCoinKey E dir' k' = Ok (a, sec') \<longrightarrow>
        dir = dir' \<and> k = k')"

definition testnet_laws :: "('k, 'a, 'x, 't, 'raw, 'd, 'g, 'p, 'o) testnet_env \<Rightarrow> bool" where
  "testnet_laws E \<longleftrightarrow>
     inj (sAddrString (n_sdk E)) \<and>
     (\<forall>tx c. n_TxJSONEncoder E tx = Ok c \<longrightarrow> n_TxJSONDecoder E c = Ok tx) \<and>
     (\<forall>ch memo dir name msg tx. n_Sign E ch memo dir name msg = Ok tx \<longrightarrow>
        tv_Memo (n_view E) tx = Some memo \<and> tv_Msgs (n_view E) tx = [CreateMsg msg]) \<and>
     (\<forall>d a c. n_NewCoin E d a = Ok c \<longrightarrow> c = \<lparr>coin_Denom = d, coin_Amount = a\<rparr> \<and> 0 \<le> a) \<and>
     (\<forall>cs d. distinct (map coin_Denom cs) \<longrightarrow> n_AmountOf E (n_Sort E cs) d = Ok (coin_total cs d)) \<and>
     (\<forall>c x. n_NewCoins E [c] = Ok x \<longrightarrow> x = (if coin_Amount c = 0 then [] else [c])) \<and>
     (\<forall>x y z. n_Add E x y = Ok z \<longrightarrow> denoms_ok x \<longrightarrow> denoms_ok y \<longrightarrow>
        distinct (map coin_Denom z) \<and> (\<forall>d. coin_total z d = coin_total x d + coin_total y d)) \<and>
     (\<forall>m. n_TokensFromConsensusPower E m = m * n_TokensFromConsensusPower E 1) \<and>
     fresh_keys E"

lemma testnet_lawsD:
  assumes "testnet_laws E"
  shows "inj (sAddrString (n_sdk E))"
    "n_TxJSONEncoder E tx = Ok c \<Longrightarrow> n_TxJSONDecoder E c = Ok tx"
    "n_Sign E ch memo dir name msg = Ok tx \<Longrightarrow> tv_Memo (n_view E) tx = Some memo \<and> tv_Msgs (n_view E) tx = [CreateMsg msg]"
    "n_NewCoin E d a = Ok coin \<Longrightarrow> coin = \<lparr>coin_Denom = d, coin_Amount = a\<rparr> \<and> 0 \<le> a"
    "distinct (map coin_Denom cs) \<Longrightarrow> n_AmountOf E (n_Sort E cs) d = Ok (coin_total cs d)"
    "n_NewCoins E [coin] = Ok x \<Longrightarrow> x = (if coin_Amount coin = 0 then [] else [coin])"
    "n_Add E x y = Ok z \<Longrightarrow> denoms_ok x \<Longrightarrow> denoms_ok y \<Longrightarrow>
      distinct (map coin_Denom z) \<and> (\<forall>d. coin_total z d = coin_total x d + coin_total y d)"
    "n_GenerateSaveCoinKey E dir k = Ok (ad, sec) \<Longrightarrow> n_GenerateSaveCoinKey E dir' k' = Ok (ad, sec') \<Longrightarrow> dir = dir' \<and> k = k'"
    "n_TokensFromConsensusPower E m = m * n_TokensFromConsensusPower E 1"
proof -
  note L = assms[unfolded testnet_laws_def]
  show "inj (sAddrString (n_sdk E))" using L by (elim conjE)
  show "n_TxJSONEncoder E tx = Ok c \<Longrightarrow> n_TxJSONDecoder E c = Ok tx" using L by (elim conjE) simp
  show "n_Sign E ch memo dir name msg = Ok tx \<Longrightarrow> tv_Memo (n_view E) tx = Some memo \<and> tv_Msgs (n_view E) tx = [CreateMsg msg]"
    using L by (elim conjE) simp
  show "n_NewCoin E d a = Ok coin \<Longrightarrow> coin = \<lparr>coin_Denom = d, coin_Amount = a\<rparr> \<and> 0 \<le> a" using L by (elim conjE) simp
  show "distinct (map coin_Denom cs) \<Longrightarrow> n_AmountOf E (n_Sort E cs) d = Ok (coin_total cs d)" using L by (elim conjE) simp
  show "n_NewCoins E [coin] = Ok x \<Longrightarrow> x = (if coin_Amount coin = 0 then [] else [coin])" using L by (elim conjE) blast
  show "n_Add E x y = Ok z \<Longrightarrow> denoms_ok x \<Longrightarrow> denoms_ok y \<Longrightarrow>
      distinct (map coin_Denom z) \<and> (\<forall>d. coin_total z d = coin_total x d + coin_total y d)" using L by (elim conjE) blast
  show "n_TokensFromConsensusPower E m = m * n_TokensFromConsensusPower E 1" using L by (elim conjE) blast
  have "fresh_keys E" using L by (elim conjE)
  then show "n_GenerateSaveCoinKey E dir k = Ok (ad, sec) \<Longrightarrow> n_GenerateSaveCoinKey E dir' k' = Ok (ad, sec') \<Longrightarrow> dir = dir' \<and> k = k'"
    unfolding fresh_keys_def by blast
qed

section \<open>What one node adds\<close>

lemma act_Ok_simps:
  "removing r s = (Ok x, t) \<longleftrightarrow> r = Ok x \<and> t = s"
  "lift_res r s = (Ok x, t) \<longleftrightarrow> r = Ok x \<and> t = s"
  "ret y s = (Ok x, t) \<longleftrightarrow> x = y \<and> t = s"
  "modify f s = (Ok u, t) \<longleftrightarrow> t = f s"
  "gets g s = (Ok x, t) \<longleftrightarrow> x = g s \<and> t = s"
  by (auto simp: removing_def lift_res_def ret_def modify_def gets_def)

text \<open>The balances of the addresses that were generated for a list of keys.\<close>

definition keyed :: "('k, 'a, 'x, 't, 'raw, 'd, 'g, 'p, 'o) testnet_env \<Rightarrow> (path \<times> string) list \<Rightarrow> balance list \<Rightarrow> bool" where
  "keyed E ks bals \<longleftrightarrow> list_all2 (\<lambda>k b. \<exists>sec. n_GenerateSaveCoinKey E (fst k) (snd k) = Ok (fst b, sec)) ks bals"

lemma keyed_simps [simp]:
  "keyed E [] bals \<longleftrightarrow> bals = []"
  "keyed E (k # ks) (b # bals) \<longleftrightarrow> (\<exists>sec. n_GenerateSaveCoinKey E (fst k) (snd k) = Ok (fst b, sec)) \<and> keyed E ks bals"
  by (simp_all add: keyed_def)

lemma keyed_append: "keyed E ks bals \<Longrightarrow> keyed E ks' bals' \<Longrightarrow> keyed E (ks @ ks') (bals @ bals')"
  unfolding keyed_def by (rule list_all2_appendI)

lemma keyed_distinct:
  assumes "testnet_laws E" and "keyed E ks bals" and "distinct ks"
  shows "distinct (map fst bals)"
  using assms(2,3)
proof (induction ks arbitrary: bals)
  case (Cons k ks)
  then obtain b bs sec where bals: "bals = b # bs" "n_GenerateSaveCoinKey E (fst k) (snd k) = Ok (fst b, sec)" "keyed E ks bs"
    by (cases bals) (auto simp: keyed_def)
  have "fst b \<noteq> fst b'" if "b' \<in> set bs" for b'
  proof
    assume eq: "fst b = fst b'"
    obtain j where "j < length bs" "bs ! j = b'" using \<open>b' \<in> set bs\<close> by (auto simp: in_set_conv_nth)
    then obtain k' sec' where "k' \<in> set ks" "n_GenerateSaveCoinKey E (fst k') (snd k') = Ok (fst b', sec')"
      using bals(3) unfolding keyed_def list_all2_conv_all_nth by (metis nth_mem)
    with bals(2) eq testnet_lawsD(8) [OF assms(1)] have "k = k'" by (metis prod_eq_iff)
    with \<open>k' \<in> set ks\<close> Cons.prems(2) show False by simp
  qed
  with bals Cons show ?case by auto
qed simp

definition member_keys :: "path \<Rightarrow> string \<Rightarrow> nat list \<Rightarrow> (path \<times> string) list" where
  "member_keys dir label is = map (\<lambda>i. (dir, label @ format_nat (i + 1))) is"

lemma add_members_Ok:
  assumes "add_members E dir label is seeds s = (Ok r, s')"
  shows "\<exists>new. ts_genBalances s' = ts_genBalances s @ new \<and> keyed E (member_keys dir label is) new \<and> ts_gentxs s' = ts_gentxs s"
  using assms
proof (induction "is" arbitrary: seeds s r)
  case Nil
  then show ?case by (simp add: act_Ok_simps member_keys_def)
next
  case (Cons i "is")
  from Cons.prems obtain a sec coin s1 s2 where
    gen: "n_GenerateSaveCoinKey E dir (label @ format_nat (i + 1)) = Ok (a, sec)"
    and acc: "addGenAccount E a [coin] s = (Ok (), s1)"
    and more: "add_members E dir label is (seeds(sAddrString (n_sdk E) a \<mapsto> sec)) s1 = (Ok s2, s')"
    by (auto elim!: bindS_OkE simp: act_Ok_simps)
  from Cons.IH [OF more] obtain new where new: "ts_genBalances s' = ts_genBalances s1 @ new" "keyed E (member_keys dir label is) new"
    "ts_gentxs s' = ts_gentxs s1" by blast
  have s1: "ts_genBalances s1 = ts_genBalances s @ [(a, n_Sort E [coin])]" "ts_gentxs s1 = ts_gentxs s"
    using acc by (simp_all add: addGenAccount_def act_Ok_simps)
  show ?case
    using new s1 gen by (intro exI [of _ "(a, n_Sort E [coin]) # new"]) (simp add: member_keys_def)
qed

definition bootstrap_keys :: "path \<Rightarrow> (path \<times> string) list" where
  "bootstrap_keys dir = (dir, ''bootstrap-account'') # member_keys dir ''oc-member-'' [0..<3] @ member_keys dir ''ap-member-'' [0..<2]"

lemma add_bootstrap_Ok:
  assumes "add_bootstrap E dir seeds s = (Ok r, s')"
  shows "\<exists>new. ts_genBalances s' = ts_genBalances s @ new \<and> keyed E (bootstrap_keys dir) new \<and> ts_gentxs s' = ts_gentxs s"
proof -
  from assms obtain a sec coin s1 s2 s3 oc ap seeds' seeds'' where
    gen: "n_GenerateSaveCoinKey E dir ''bootstrap-account'' = Ok (a, sec)"
    and acc: "addGenAccount E a [coin] (s\<lparr>ts_bootstrap := a\<rparr>) = (Ok (), s1)"
    and oc: "add_members E dir ''oc-member-'' [0..<3] (seeds(sAddrString (n_sdk E) a \<mapsto> sec)) s1 = (Ok (oc, seeds'), s2)"
    and ap: "add_members E dir ''ap-member-'' [0..<2] seeds' (s2\<lparr>ts_genOCMembers := ts_genOCMembers s2 @ oc\<rparr>) = (Ok (ap, seeds''), s3)"
    and s': "s' = s3\<lparr>ts_genAPMembers := ts_genAPMembers s3 @ ap\<rparr>"
    unfolding add_bootstrap_def by (elim bindS_OkE) (auto elim!: bindS_OkE simp: act_Ok_simps)
  have s1: "ts_genBalances s1 = ts_genBalances s @ [(a, n_Sort E [coin])]" "ts_gentxs s1 = ts_gentxs s"
    using acc by (simp_all add: addGenAccount_def act_Ok_simps)
  obtain n2 where n2: "ts_genBalances s2 = ts_genBalances s1 @ n2" "keyed E (member_keys dir ''oc-member-'' [0..<3]) n2" "ts_gentxs s2 = ts_gentxs s1"
    using add_members_Ok [OF oc] by blast
  obtain n3 where n3: "ts_genBalances s3 = ts_genBalances s2 @ n3" "keyed E (member_keys dir ''ap-member-'' [0..<2]) n3" "ts_gentxs s3 = ts_gentxs s2"
    using add_members_Ok [OF ap] by auto
  have "keyed E (bootstrap_keys dir) ((a, n_Sort E [coin]) # n2 @ n3)"
    using gen keyed_append [OF n2(2) n3(2)] by (simp add: bootstrap_keys_def)
  then show ?thesis using s1 n2 n3 s' by (intro exI [of _ "(a, n_Sort E [coin]) # n2 @ n3"]) simp
qed

text \<open>The memo of node \<open>i\<close>: the id of the files in its directory, and its address.\<close>

definition own_memo :: "('k, 'a, 'x, 't, 'raw, 'd, 'g, 'p, 'o) testnet_env \<Rightarrow> testnet_args \<Rightarrow> nat \<Rightarrow> string \<Rightarrow> bool" where
  "own_memo E P i memo \<longleftrightarrow>
     (\<exists>cfg nodeID pk ip port. nc_RootDir cfg = node_dir P i \<and> n_InitializeNodeValidatorFiles E cfg = Ok (nodeID, pk) \<and>
        getIP (n_ExternalIP E) (n_parseIPv6 E) i (ta_startingIPAddress P) = Ok ip \<and>
        memo = nodeID @ ''@'' @ ip @ '':'' @ format_int port)"

lemma own_memo_nonempty: "own_memo E P i memo \<Longrightarrow> memo \<noteq> []"
  by (auto simp: own_memo_def)

lemma init_node_files_Ok:
  assumes "init_node_files E P i s = (Ok (pk, memo), s')"
  shows "own_memo E P i memo" "ts_genBalances s' = ts_genBalances s" "ts_gentxs s' = ts_gentxs s"
proof -
  let ?s0 = "prepare_config P i s"
  let ?cfg = "(ts_cfg ?s0)\<lparr>nc_Moniker := node_name P i\<rparr>"
  from assms obtain ip nodeID pk' where "getIP (n_ExternalIP E) (n_parseIPv6 E) i (ta_startingIPAddress P) = Ok ip"
    "n_InitializeNodeValidatorFiles E ?cfg = Ok (nodeID, pk')"
    "memo = nodeID @ ''@'' @ ip @ '':'' @ format_int (ts_p2pPortStart ?s0 + portOffset P i)"
    and s': "ts_genBalances s' = ts_genBalances ?s0" "ts_gentxs s' = ts_gentxs ?s0"
    unfolding init_node_files_def by (auto elim!: bindS_OkE simp: act_Ok_simps)
  moreover have "nc_RootDir ?cfg = node_dir P i" by (simp add: prepare_config_def Let_def)
  ultimately show "own_memo E P i memo" unfolding own_memo_def by blast
  show "ts_genBalances s' = ts_genBalances s" "ts_gentxs s' = ts_gentxs s" using s' by (simp_all add: prepare_config_def Let_def)
qed

definition bootstrap_part :: "testnet_args \<Rightarrow> nat \<Rightarrow> (path \<times> string) list" where
  "bootstrap_part P i = (if i = 0 then bootstrap_keys (node_dir P i) else [])"

lemma node_keys_Ok:
  assumes "node_keys E P i s = (Ok a, s')"
  shows "\<exists>sec. n_GenerateSaveCoinKey E (node_dir P i) (node_name P i) = Ok (a, sec)"
    "\<exists>new. ts_genBalances s' = ts_genBalances s @ new \<and> keyed E (bootstrap_part P i) new \<and> ts_gentxs s' = ts_gentxs s"
proof -
  from assms obtain sec seeds s1 where gen: "n_GenerateSaveCoinKey E (node_dir P i) (node_name P i) = Ok (a, sec)"
    and boot: "(if i = 0 then add_bootstrap E (node_dir P i) [''secret'' \<mapsto> sec] else ret [''secret'' \<mapsto> sec]) s = (Ok seeds, s1)"
    and s': "s' = s1\<lparr>ts_seeds := (ts_seeds s1)(node_dir P i \<mapsto> seeds)\<rparr>"
    unfolding node_keys_def by (elim bindS_OkE) (auto simp: act_Ok_simps elim!: bindS_OkE)
  from gen show "\<exists>sec. n_GenerateSaveCoinKey E (node_dir P i) (node_name P i) = Ok (a, sec)" by blast
  show "\<exists>new. ts_genBalances s' = ts_genBalances s @ new \<and> keyed E (bootstrap_part P i) new \<and> ts_gentxs s' = ts_gentxs s"
  proof (cases "i = 0")
    case True
    then show ?thesis using boot s' add_bootstrap_Ok [of E "node_dir P i" _ s seeds s1] by (auto simp: bootstrap_part_def)
  next
    case False
    then show ?thesis using boot s' by (auto simp: bootstrap_part_def act_Ok_simps)
  qed
qed

lemma coin_total_simps [simp]:
  "coin_total [] d = 0"
  "coin_total (c # cs) d = (if coin_Denom c = d then coin_Amount c else 0) + coin_total cs d"
  by (simp_all add: coin_total_def)

text \<open>The account has its stake: the liquid amount that is staked is not more than the balance.\<close>

lemma token_not_staking: "name @ ''token'' \<noteq> stakingToken"
proof
  assume "name @ ''token'' = stakingToken"
  then have "last (name @ ''token'') = last stakingToken" by simp
  then show False by (simp add: stakingToken_def)
qed

lemma base_account_Ok:
  assumes laws: "testnet_laws E" and v: "\<not> ta_vestingVals P" and ok: "node_account E P i a s = (Ok (liquid, vesting), s')"
  shows "\<exists>cs n. ts_genBalances s' = ts_genBalances s @ [(a, cs)] \<and> ts_gentxs s' = ts_gentxs s \<and>
    n_AmountOf E cs stakingToken = Ok n \<and> liquid \<le> n"
proof -
  let ?d = "node_name P i @ ''token''"
  from ok v obtain c1 c2 where c: "n_NewCoin E ?d (n_TokensFromConsensusPower E 100) = Ok c1"
      "n_NewCoin E stakingToken (n_TokensFromConsensusPower E 1000 + n_TokensFromConsensusPower E 600) = Ok c2"
    and s': "s' = s\<lparr>ts_genBalances := ts_genBalances s @ [(a, n_Sort E [c1, c2])], ts_genAccounts := ts_genAccounts s @ [BaseAccount a]\<rparr>"
    and l: "liquid = n_TokensFromConsensusPower E 700"
    unfolding node_account_def Let_def addGenAccount_def by (auto elim!: bindS_OkE simp: act_Ok_simps)
  note c1 = testnet_lawsD(4) [OF laws c(1)] and c2 = testnet_lawsD(4) [OF laws c(2)]
  have "distinct (map coin_Denom [c1, c2])" using c1 c2 token_not_staking by simp
  from testnet_lawsD(5) [OF laws this, of stakingToken]
  have "n_AmountOf E (n_Sort E [c1, c2]) stakingToken = Ok (1600 * n_TokensFromConsensusPower E 1)"
    using c1 c2 token_not_staking testnet_lawsD(9) [OF laws, of 1000] testnet_lawsD(9) [OF laws, of 600] by simp
  moreover have "liquid \<le> 1600 * n_TokensFromConsensusPower E 1"
    using c2 l testnet_lawsD(9) [OF laws, of 1000] testnet_lawsD(9) [OF laws, of 600] testnet_lawsD(9) [OF laws, of 700] by simp
  ultimately show ?thesis using s' by simp
qed

lemma vesting_account_Ok:
  assumes laws: "testnet_laws E" and v: "ta_vestingVals P" and order: "node_name P i @ ''token'' < stakingToken"
    and ok: "node_account E P i a s = (Ok (liquid, vesting), s')"
  shows "\<exists>cs n. ts_genBalances s' = ts_genBalances s @ [(a, cs)] \<and> ts_gentxs s' = ts_gentxs s \<and>
    n_AmountOf E cs stakingToken = Ok n \<and> liquid \<le> n"
proof -
  let ?d = "node_name P i @ ''token''"
  from ok v obtain c1 c2 c3 x z where c: "n_NewCoin E stakingToken (n_TokensFromConsensusPower E 600) = Ok c1"
      "n_NewCoin E ?d (n_TokensFromConsensusPower E 100) = Ok c2"
      "n_NewCoin E stakingToken (n_TokensFromConsensusPower E 1000) = Ok c3"
    and x: "n_NewCoins E [c1] = Ok x" "n_Add E x [c2, c3] = Ok z"
    and s': "ts_genBalances s' = ts_genBalances s @ [(a, n_Sort E z)]" "ts_gentxs s' = ts_gentxs s"
    and l: "liquid = 0"
    unfolding node_account_def Let_def addGenVestingAccount_def by (auto elim!: bindS_OkE simp: act_Ok_simps)
  note c1 = testnet_lawsD(4) [OF laws c(1)] and c2 = testnet_lawsD(4) [OF laws c(2)] and c3 = testnet_lawsD(4) [OF laws c(3)]
  have "denoms_ok x" using testnet_lawsD(6) [OF laws x(1)] by (simp add: denoms_ok_def)
  moreover have "denoms_ok [c2, c3]" using c2 c3 less_imp_le [OF order] token_not_staking by (simp add: denoms_ok_def)
  ultimately have z: "distinct (map coin_Denom z)" "\<forall>d. coin_total z d = coin_total x d + coin_total [c2, c3] d"
    using testnet_lawsD(7) [OF laws x(2)] by blast+
  have "0 \<le> coin_total x stakingToken" using testnet_lawsD(6) [OF laws x(1)] c1 by simp
  moreover have "0 \<le> coin_total [c2, c3] stakingToken" using c2 c3 by simp
  ultimately have "0 \<le> coin_total z stakingToken" using z(2) by simp
  with testnet_lawsD(5) [OF laws z(1), of stakingToken] s' l show ?thesis by auto
qed

section \<open>The transactions of the nodes\<close>

text \<open>
  The content of the file of node \<open>i\<close>: a transaction with the memo of the node and a message for the node's
  key, which can be paid from one of the balances.
\<close>

definition own_tx ::
    "('k, 'a, 'x, 't, 'raw, 'd, 'g, 'p, 'o) testnet_env \<Rightarrow> testnet_args \<Rightarrow> nat \<Rightarrow> 't \<Rightarrow> 'x \<Rightarrow> string \<Rightarrow> 'a MsgCreateValidator \<Rightarrow> bool" where
  "own_tx E P i c tx memo msg \<longleftrightarrow>
     n_TxJSONDecoder E c = Ok tx \<and> tv_Memo (n_view E) tx = Some memo \<and> own_memo E P i memo \<and>
     tv_Msgs (n_view E) tx = [CreateMsg msg] \<and> Moniker (cv_Description msg) = ''moniker-'' @ format_nat i \<and>
     (\<exists>a sec. n_GenerateSaveCoinKey E (node_dir P i) (node_name P i) = Ok (a, sec) \<and> cv_OperatorAddress msg = sAddrString (n_sdk E) a)"

definition node_tx ::
    "('k, 'a, 'x, 't, 'raw, 'd, 'g, 'p, 'o) testnet_env \<Rightarrow> testnet_args \<Rightarrow> nat \<Rightarrow> balance list \<Rightarrow> 't \<Rightarrow> bool" where
  "node_tx E P i bals c \<longleftrightarrow>
     (\<exists>tx memo msg a cs n m. own_tx E P i c tx memo msg \<and>
        cv_OperatorAddress msg = sAddrString (n_sdk E) a \<and> (a, cs) \<in> set bals \<and>
        n_AmountOf E cs (mc_Denom (cv_Amount msg)) = Ok n \<and> mc_Amount (cv_Amount msg) = Some m \<and> m \<le> n)"

lemma node_tx_mono: "node_tx E P i bals c \<Longrightarrow> set bals \<subseteq> set bals' \<Longrightarrow> node_tx E P i bals' c"
  unfolding node_tx_def by blast

lemma balances_map_mem:
  assumes "distinct (map fst bals)" and "inj (sAddrString K)" and "(a, cs) \<in> set bals"
  shows "balances_map K bals (sAddrString K a) = Some (a, cs)"
proof -
  have "find (\<lambda>b. fst b = a) bals = Some (a, cs)"
    using assms(1,3) by (induction bals) (auto simp: image_iff)
  from balances_map_find [OF assms(1,2) this] show ?thesis .
qed

lemma node_tx_read:
  assumes "testnet_laws E" and "node_tx E P i bals c" and "distinct (map fst bals)"
  shows "\<exists>tx memo msg. own_tx E P i c tx memo msg \<and>
    (\<forall>name. read_gen_tx (n_TxJSONDecoder E) (n_view E) (n_AmountOf E) (balances_map (n_sdk E) bals)
      \<lparr>fo_Name = name, fo_IsDir = False, fo_Content = Ok c\<rparr> = Ok (tx, memo, msg))"
proof -
  from assms(2) obtain tx memo msg a cs n m where t: "own_tx E P i c tx memo msg"
    and b: "cv_OperatorAddress msg = sAddrString (n_sdk E) a" "(a, cs) \<in> set bals"
      "n_AmountOf E cs (mc_Denom (cv_Amount msg)) = Ok n" "mc_Amount (cv_Amount msg) = Some m" "m \<le> n"
    unfolding node_tx_def by blast
  have t': "n_TxJSONDecoder E c = Ok tx" "tv_Memo (n_view E) tx = Some memo" "memo \<noteq> []" "tv_Msgs (n_view E) tx = [CreateMsg msg]"
    using t own_memo_nonempty by (simp_all add: own_tx_def) blast
  have "balances_map (n_sdk E) bals (cv_OperatorAddress msg) = Some (a, cs)"
    unfolding b(1) by (rule balances_map_mem [OF assms(3) testnet_lawsD(1) [OF assms(1)] b(2)])
  then have "funded_gen_tx (n_view E) (n_AmountOf E) (balances_map (n_sdk E) bals) tx memo msg"
    using t' b unfolding funded_gen_tx_def by simp
  then have "read_gen_tx (n_TxJSONDecoder E) (n_view E) (n_AmountOf E) (balances_map (n_sdk E) bals)
      \<lparr>fo_Name = name, fo_IsDir = False, fo_Content = Ok c\<rparr> = Ok (tx, memo, msg)" for name
    using t'(1) by (simp add: read_gen_tx_iff)
  with t show ?thesis by blast
qed

lemma node_gentx_Ok:
  assumes laws: "testnet_laws E" and memo: "own_memo E P i memo"
    and key: "n_GenerateSaveCoinKey E (node_dir P i) (node_name P i) = Ok (a, sec)"
    and bal: "(a, cs) \<in> set (ts_genBalances s)" "n_AmountOf E cs stakingToken = Ok n" "liquid \<le> n"
    and ok: "node_gentx E P chainID i a pk memo liquid vesting s = (Ok u, s')"
  shows "\<exists>c. ts_gentxs s' = AList.update (node_name P i @ ''.json'') c (ts_gentxs s) \<and>
    ts_genBalances s' = ts_genBalances s \<and> node_tx E P i (ts_genBalances s) c"
proof -
  from ok obtain c1 c2 msg tx c where c1: "n_NewCoin E stakingToken liquid = Ok c1"
    and msg: "NewMsgCreateValidator (n_sdk E) (n_newAny E) a pk (msg_coin_of c1) (msg_coin_of c2)
        (emptyDescription\<lparr>Moniker := ''moniker-'' @ format_nat i\<rparr>) = Ok msg"
    and sign: "n_Sign E chainID memo (node_dir P i) (node_name P i) msg = Ok tx" and enc: "n_TxJSONEncoder E tx = Ok c"
    and s': "s' = s\<lparr>ts_gentxs := AList.update (node_name P i @ ''.json'') c (ts_gentxs s)\<rparr>"
    unfolding node_gentx_def by (auto elim!: bindS_OkE simp: act_Ok_simps)
  have m: "cv_OperatorAddress msg = sAddrString (n_sdk E) a" "cv_Amount msg = msg_coin_of c1"
    "cv_Description msg = emptyDescription\<lparr>Moniker := ''moniker-'' @ format_nat i\<rparr>"
    using msg by (auto simp: NewMsgCreateValidator_def bind_res_Ok_iff)
  have co: "mc_Denom (cv_Amount msg) = stakingToken" "mc_Amount (cv_Amount msg) = Some liquid"
    using testnet_lawsD(4) [OF laws c1] m(2) by (simp_all add: msg_coin_of_def)
  have "Moniker (cv_Description msg) = ''moniker-'' @ format_nat i" using m(3) by simp
  then have "own_tx E P i c tx memo msg" unfolding own_tx_def
    using testnet_lawsD(2) [OF laws enc] testnet_lawsD(3) [OF laws sign] memo m(1) key by simp
  then have "node_tx E P i (ts_genBalances s) c" unfolding node_tx_def using m(1) bal co by metis
  with s' show ?thesis by auto
qed

lemma node_account_Ok:
  assumes "testnet_laws E" and "ta_vestingVals P \<longrightarrow> node_name P i @ ''token'' < stakingToken"
    and "node_account E P i a s = (Ok (liquid, vesting), s')"
  shows "\<exists>cs n. ts_genBalances s' = ts_genBalances s @ [(a, cs)] \<and> ts_gentxs s' = ts_gentxs s \<and>
    n_AmountOf E cs stakingToken = Ok n \<and> liquid \<le> n"
  using base_account_Ok [OF assms(1) _ assms(3)] vesting_account_Ok [OF assms(1) _ _ assms(3)] assms(2) by blast

definition keys_of_node :: "testnet_args \<Rightarrow> nat \<Rightarrow> (path \<times> string) list" where
  "keys_of_node P i = bootstrap_part P i @ [(node_dir P i, node_name P i)]"

lemma init_node_Ok:
  assumes laws: "testnet_laws E" and order: "ta_vestingVals P \<longrightarrow> node_name P i @ ''token'' < stakingToken"
    and ok: "init_node E P chainID i s = (Ok u, s')"
  shows "\<exists>c new. ts_gentxs s' = AList.update (node_name P i @ ''.json'') c (ts_gentxs s) \<and>
    ts_genBalances s' = ts_genBalances s @ new \<and> keyed E (keys_of_node P i) new \<and> node_tx E P i (ts_genBalances s') c"
proof -
  from ok obtain pk memo a liquid vesting s1 s2 s3 s4 u4 where f: "init_node_files E P i s = (Ok (pk, memo), s1)"
    and k: "node_keys E P i s1 = (Ok a, s2)" and acc: "node_account E P i a s2 = (Ok (liquid, vesting), s3)"
    and g: "node_gentx E P chainID i a pk memo liquid vesting s3 = (Ok u4, s4)"
    and s': "s' = s4\<lparr>ts_apptoml := (ts_apptoml s4)(node_dir P i \<mapsto> ts_appcfg s4)\<rparr>"
    unfolding init_node_def by (auto elim!: bindS_OkE simp: act_Ok_simps)
  note f' = init_node_files_Ok [OF f]
  obtain sec where sec: "n_GenerateSaveCoinKey E (node_dir P i) (node_name P i) = Ok (a, sec)" using node_keys_Ok(1) [OF k] by blast
  obtain new where new: "ts_genBalances s2 = ts_genBalances s1 @ new" "keyed E (bootstrap_part P i) new" "ts_gentxs s2 = ts_gentxs s1"
    using node_keys_Ok(2) [OF k] by blast
  obtain cs n where cs: "ts_genBalances s3 = ts_genBalances s2 @ [(a, cs)]" "ts_gentxs s3 = ts_gentxs s2"
    "n_AmountOf E cs stakingToken = Ok n" "liquid \<le> n" using node_account_Ok [OF laws order acc] by blast
  have "(a, cs) \<in> set (ts_genBalances s3)" using cs(1) by simp
  from node_gentx_Ok [OF laws f'(1) sec this cs(3,4) g] obtain c where
    c: "ts_gentxs s4 = AList.update (node_name P i @ ''.json'') c (ts_gentxs s3)" "ts_genBalances s4 = ts_genBalances s3"
      "node_tx E P i (ts_genBalances s3) c" by blast
  have "keyed E (keys_of_node P i) (new @ [(a, cs)])"
    unfolding keys_of_node_def using sec by (intro keyed_append [OF new(2)]) auto
  then show ?thesis using f' new cs c s' by (intro exI [of _ c] exI [of _ "new @ [(a, cs)]"]) simp
qed

text \<open>All nodes: one file each, under different names.\<close>

lemma update_new: "k \<notin> fst ` set al \<Longrightarrow> AList.update k v al = al @ [(k, v)]"
  by (induction al) auto

lemma node_name_inj: "node_name P i = node_name P j \<longleftrightarrow> i = j"
  by (simp add: node_name_def format_nat_inj)

lemma init_nodes_Ok:
  assumes laws: "testnet_laws E" and order: "\<forall>i \<in> set is. ta_vestingVals P \<longrightarrow> node_name P i @ ''token'' < stakingToken"
    and ok: "init_nodes E P chainID is s = (Ok u, s')"
    and dist: "distinct is" "\<forall>i \<in> set is. node_name P i @ ''.json'' \<notin> fst ` set (ts_gentxs s)"
  shows "\<exists>cs new. ts_gentxs s' = ts_gentxs s @ zip (map (\<lambda>i. node_name P i @ ''.json'') is) cs \<and> length cs = length is \<and>
    ts_genBalances s' = ts_genBalances s @ new \<and> keyed E (concat (map (keys_of_node P) is)) new \<and>
    list_all2 (\<lambda>i c. node_tx E P i (ts_genBalances s') c) is cs"
  using order ok dist
proof (induction "is" arbitrary: s)
  case Nil
  then show ?case by (intro exI [of _ "[]"]) (simp add: act_Ok_simps)
next
  case (Cons i "is")
  from Cons.prems(2) obtain u1 s1 where i: "init_node E P chainID i s = (Ok u1, s1)" and more: "init_nodes E P chainID is s1 = (Ok u, s')"
    unfolding init_nodes.simps seqS_def by (elim bindS_OkE)
  from init_node_Ok [OF laws _ i] Cons.prems(1) obtain c new where
    c: "ts_gentxs s1 = AList.update (node_name P i @ ''.json'') c (ts_gentxs s)" "ts_genBalances s1 = ts_genBalances s @ new"
      "keyed E (keys_of_node P i) new" "node_tx E P i (ts_genBalances s1) c" by auto
  have up: "ts_gentxs s1 = ts_gentxs s @ [(node_name P i @ ''.json'', c)]"
    unfolding c(1) by (rule update_new) (use Cons.prems(4) in simp)
  have "\<forall>j \<in> set is. node_name P j @ ''.json'' \<notin> fst ` set (ts_gentxs s1)"
    using Cons.prems(3,4) up by (auto simp: node_name_inj)
  with Cons.IH [OF _ more] Cons.prems(1,3) obtain cs new' where
    r: "ts_gentxs s' = ts_gentxs s1 @ zip (map (\<lambda>i. node_name P i @ ''.json'') is) cs" "length cs = length is"
      "ts_genBalances s' = ts_genBalances s1 @ new'" "keyed E (concat (map (keys_of_node P) is)) new'"
      "list_all2 (\<lambda>i c. node_tx E P i (ts_genBalances s') c) is cs" by auto
  have "node_tx E P i (ts_genBalances s') c" using c(4) by (rule node_tx_mono) (simp add: r(3))
  with r up c keyed_append [OF c(3) r(4)] show ?case
    by (intro exI [of _ "c # cs"] exI [of _ "new @ new'"]) simp
qed

lemma format_digits: "format_nat 0 = ''0''" "format_nat 1 = ''1''" "format_nat 2 = ''2''" "format_nat 3 = ''3''"
  by code_simp+

lemma keys_of_node_distinct: "distinct (keys_of_node P i)"
proof (cases "i = 0")
  case True
  have "last (node_name P 0) = CHR ''0''" by (simp add: node_name_def format_digits)
  then have "node_name P 0 \<noteq> ''bootstrap-account''" "node_name P 0 \<noteq> ''oc-member-1''" "node_name P 0 \<noteq> ''oc-member-2''"
    "node_name P 0 \<noteq> ''oc-member-3''" "node_name P 0 \<noteq> ''ap-member-1''" "node_name P 0 \<noteq> ''ap-member-2''"
    by auto
  then show ?thesis using True
    by (auto simp: keys_of_node_def bootstrap_part_def bootstrap_keys_def member_keys_def format_digits [unfolded One_nat_def numeral_2_eq_2 numeral_3_eq_3] upt_rec)
qed (simp add: keys_of_node_def bootstrap_part_def)

lemma keys_of_node_dir: "k \<in> set (keys_of_node P i) \<Longrightarrow> fst k = node_dir P i"
  by (auto simp: keys_of_node_def bootstrap_part_def bootstrap_keys_def member_keys_def split: if_splits)

lemma all_keys_distinct: "distinct is \<Longrightarrow> distinct (concat (map (keys_of_node P) is))"
proof (induction "is")
  case (Cons i "is")
  have "set (keys_of_node P i) \<inter> set (concat (map (keys_of_node P) is)) = {}"
  proof (rule equals0I)
    fix k assume "k \<in> set (keys_of_node P i) \<inter> set (concat (map (keys_of_node P) is))"
    then obtain j where j: "j \<in> set is" "k \<in> set (keys_of_node P i)" "k \<in> set (keys_of_node P j)" by auto
    then have "node_dir P i = node_dir P j" using keys_of_node_dir [OF j(2)] keys_of_node_dir [OF j(3)] by simp
    with Cons.prems j(1) show False by (auto simp: node_dir_def node_name_inj)
  qed
  with Cons keys_of_node_distinct show ?case by simp
qed simp

lemma traverse_total:
  assumes "\<And>x. x \<in> set xs \<Longrightarrow> \<exists>y. f x = Ok y \<and> Q y"
  shows "\<exists>ys. traverse f xs = Ok ys \<and> length ys = length xs \<and> (\<forall>y \<in> set ys. Q y)"
  using assms
proof (induction xs)
  case (Cons x xs)
  obtain y where y: "f x = Ok y" "Q y" using Cons.prems by auto
  obtain ys where "traverse f xs = Ok ys" "length ys = length xs" "\<forall>y \<in> set ys. Q y" using Cons by auto
  with y show ?case by (intro exI [of _ "y # ys"]) simp
qed simp

text \<open>The nodes in the order of the names of their files.\<close>

definition file_order :: "testnet_args \<Rightarrow> nat \<Rightarrow> nat list" where
  "file_order P n = sort_key (\<lambda>i. node_name P i @ ''.json'') [0..<n]"

lemma sort_key_map: "sort_key f (map g xs) = map g (sort_key (f \<circ> g) xs)"
proof -
  have "insort_key f (g x) (map g ys) = map g (insort_key (f \<circ> g) x ys)" for x ys by (induction ys) auto
  then show ?thesis by (induction xs) simp_all
qed

lemma gentx_entries_nodes:
  assumes "length cs = n"
  shows "gentx_entries (zip (map (\<lambda>i. node_name P i @ ''.json'') [0..<n]) cs) =
    map (\<lambda>i. \<lparr>fo_Name = node_name P i @ ''.json'', fo_IsDir = False, fo_Content = Ok (cs ! i)\<rparr>) (file_order P n)"
proof -
  have "zip (map (\<lambda>i. node_name P i @ ''.json'') [0..<n]) cs = map (\<lambda>i. (node_name P i @ ''.json'', cs ! i)) [0..<n]"
    using assms by (intro nth_equalityI) simp_all
  then show ?thesis by (simp add: gentx_entries_def sort_key_map file_order_def comp_def)
qed

lemma file_of_node:
  assumes "length cs = n" and "i < n"
  shows "map_of (zip (map (\<lambda>i. node_name P i @ ''.json'') [0..<n]) cs) (node_name P i @ ''.json'') = Some (cs ! i)"
proof (rule map_of_is_SomeI)
  show "distinct (map fst (zip (map (\<lambda>i. node_name P i @ ''.json'') [0..<n]) cs))"
    using assms(1) by (simp add: distinct_map inj_on_def node_name_inj)
  show "(node_name P i @ ''.json'', cs ! i) \<in> set (zip (map (\<lambda>i. node_name P i @ ''.json'') [0..<n]) cs)"
    unfolding in_set_zip using assms by (intro exI [of _ i]) simp
qed

lemma sort_file_order: "sort (map f (filter Q (file_order P n))) = sort (map f (filter Q [0..<n]))" for f :: "nat \<Rightarrow> string"
proof (rule properties_for_sort)
  have "mset (file_order P n) = mset [0..<n]" by (simp only: file_order_def mset_sort)
  then have "mset (filter Q (file_order P n)) = mset (filter Q [0..<n])" by (simp only: mset_filter)
  then show "mset (sort (map f (filter Q [0..<n]))) = mset (map f (filter Q (file_order P n)))" by simp
qed simp

text \<open>
  Collecting accepts the files of all nodes, in the order of their names. The peers are the memos of the nodes
  whose transactions have another moniker than the collecting node.
\<close>

lemma written_txs_collected:
  fixes E :: "('k, 'a, 'x, 't, 'raw, 'd, 'g, 'p, 'o) testnet_env"
  assumes laws: "testnet_laws E"
    and nodes: "init_nodes E P chainID [0..<n] s = (Ok (), s')" and fresh: "ts_gentxs s = []" "ts_genBalances s = []"
    and order: "ta_vestingVals P \<longrightarrow> (\<forall>i < n. node_name P i @ ''token'' < stakingToken)"
    and bals: "mset (n_genBalances E app) = mset (ts_genBalances s')"
  shows "\<exists>tx :: nat \<Rightarrow> 'x. \<exists>memo msg.
    (\<forall>i < n. \<exists>c. map_of (ts_gentxs s') (node_name P i @ ''.json'') = Some c \<and> own_tx E P i c (tx i) (memo i) (msg i)) \<and>
    collectTxs (n_sdk E) (n_TxJSONDecoder E) (n_view E) (n_AmountOf E) moniker (Ok (gentx_entries (ts_gentxs s'))) (Ok app) (n_genBalances E) =
      Ok (map tx (file_order P n),
        strings_Join (sort (map memo (filter (\<lambda>i. ''moniker-'' @ format_nat i \<noteq> moniker) [0..<n]))) '','')"
proof -
  let ?bals = "n_genBalances E app"
  let ?f = "read_gen_tx (n_TxJSONDecoder E) (n_view E) (n_AmountOf E) (balances_map (n_sdk E) ?bals)"
  obtain cs where cs: "ts_gentxs s' = zip (map (\<lambda>i. node_name P i @ ''.json'') [0..<n]) cs" "length cs = n"
    and keys: "keyed E (concat (map (keys_of_node P) [0..<n])) (ts_genBalances s')"
    and txs: "list_all2 (\<lambda>i c. node_tx E P i (ts_genBalances s') c) [0..<n] cs"
    using init_nodes_Ok [OF laws _ nodes] order fresh by auto
  have set_bals: "set ?bals = set (ts_genBalances s')" using bals by (rule mset_eq_setD)
  have "distinct (map fst (ts_genBalances s'))" by (rule keyed_distinct [OF laws keys all_keys_distinct]) simp
  moreover have "mset (map fst ?bals) = mset (map fst (ts_genBalances s'))" using bals by simp
  ultimately have dist: "distinct (map fst ?bals)" by (metis mset_eq_imp_distinct_iff)
  have "\<exists>tx memo msg. own_tx E P i (cs ! i) tx memo msg \<and>
      (\<forall>name. ?f \<lparr>fo_Name = name, fo_IsDir = False, fo_Content = Ok (cs ! i)\<rparr> = Ok (tx, memo, msg))" if "i < n" for i
  proof -
    have "node_tx E P i (ts_genBalances s') (cs ! i)" using txs that cs(2) by (auto simp: list_all2_conv_all_nth)
    then have "node_tx E P i ?bals (cs ! i)" by (rule node_tx_mono) (simp add: set_bals)
    from node_tx_read [OF laws this dist] show ?thesis .
  qed
  then obtain tx memo msg where r: "\<forall>i < n. own_tx E P i (cs ! i) (tx i) (memo i) (msg i) \<and>
      (\<forall>name. ?f \<lparr>fo_Name = name, fo_IsDir = False, fo_Content = Ok (cs ! i)\<rparr> = Ok (tx i, memo i, msg i))" by metis
  let ?rs = "map (\<lambda>i. (tx i, memo i, msg i)) (file_order P n)"
  have ord: "i < n" if "i \<in> set (file_order P n)" for i using that by (simp add: file_order_def)
  have "traverse ?f (gentx_entries (ts_gentxs s')) = Ok ?rs"
    unfolding cs(1) gentx_entries_nodes [OF cs(2)] traverse_all2 using r ord
    by (auto simp: list_all2_conv_all_nth)
  moreover have "json_files (gentx_entries (ts_gentxs s')) = gentx_entries (ts_gentxs s')"
    unfolding cs(1) gentx_entries_nodes [OF cs(2)] by (auto simp: json_files_def has_suffix_def intro!: filter_True)
  moreover have "peers_of moniker ?rs = map memo (filter (\<lambda>i. ''moniker-'' @ format_nat i \<noteq> moniker) (file_order P n))"
  proof -
    have "Moniker (cv_Description (msg i)) = ''moniker-'' @ format_nat i" if "i \<in> set (file_order P n)" for i
      using r ord [OF that] by (simp add: own_tx_def)
    then have "filter (\<lambda>i. Moniker (cv_Description (msg i)) \<noteq> moniker) (file_order P n) =
        filter (\<lambda>i. ''moniker-'' @ format_nat i \<noteq> moniker) (file_order P n)" by (intro filter_cong) simp_all
    then show ?thesis by (simp add: peers_of_def filter_map comp_def)
  qed
  ultimately have "collectTxs (n_sdk E) (n_TxJSONDecoder E) (n_view E) (n_AmountOf E) moniker (Ok (gentx_entries (ts_gentxs s'))) (Ok app)
      (n_genBalances E) = Ok (map tx (file_order P n),
        strings_Join (sort (map memo (filter (\<lambda>i. ''moniker-'' @ format_nat i \<noteq> moniker) [0..<n]))) '','')"
    by (simp add: collectTxs_def collect_files_traverse sort_file_order comp_def)
  moreover have "map_of (ts_gentxs s') (node_name P i @ ''.json'') = Some (cs ! i)" if "i < n" for i
    unfolding cs(1) by (rule file_of_node [OF cs(2) that])
  ultimately show ?thesis using r by blast
qed

text \<open>An environment in which nothing else fails, and a codec that reads what it has written.\<close>

definition all_succeed :: "('k, 'a, 'x, 't, 'raw, 'd, 'g, 'p, 'o) testnet_env \<Rightarrow> bool" where
  "all_succeed E \<longleftrightarrow>
     (\<forall>app. \<exists>js. n_MarshalIndent E app = Ok js) \<and> (\<forall>doc. \<exists>doc'. n_ValidateAndComplete E doc = Ok doc') \<and>
     (\<forall>p. n_WriteFile E p = Ok ()) \<and> (\<forall>tx. \<exists>c. n_TxJSONEncoder E tx = Ok c) \<and>
     (\<forall>g. \<exists>raw. j_MustMarshal (n_codec E) g = Ok raw \<and> j_MustUnmarshal (n_codec E) raw = Ok g)"

lemma SetGenTxs_succeeds:
  assumes "all_succeed E" and "GetGenesisStateFromAppState (n_codec E) app = Ok gs" and "GetSeedContracts gs = Some seed"
  shows "\<exists>app' bs. SetGenTxsInAppGenesisState (n_codec E) (n_TxJSONEncoder E) app txs = Ok app' \<and> traverse (n_TxJSONEncoder E) txs = Ok bs \<and>
    GetGenesisStateFromAppState (n_codec E) app' = Ok (gs\<lparr>gs_SetupMode := SeedMode (Some (seed\<lparr>GenTxs := bs\<rparr>))\<rparr>)"
proof -
  obtain bs where bs: "traverse (n_TxJSONEncoder E) txs = Ok bs"
    using traverse_total [of txs "n_TxJSONEncoder E" "\<lambda>_. True"] assms(1) by (auto simp: all_succeed_def)
  obtain raw where "j_MustMarshal (n_codec E) (gs\<lparr>gs_SetupMode := SeedMode (Some (seed\<lparr>GenTxs := bs\<rparr>))\<rparr>) = Ok raw"
    "j_MustUnmarshal (n_codec E) raw = Ok (gs\<lparr>gs_SetupMode := SeedMode (Some (seed\<lparr>GenTxs := bs\<rparr>))\<rparr>)"
    using assms(1) unfolding all_succeed_def by blast
  then show ?thesis using bs assms(2,3)
    by (intro exI [of _ "app(poe_ModuleName \<mapsto> raw)"] exI [of _ bs])
      (simp add: SetGenTxsInAppGenesisState_def SetGenesisStateInAppState_def GetGenesisStateFromAppState_def)
qed

lemma export_doc_Ok:
  "export_doc E p d s = (Ok u, t) \<longleftrightarrow>
    (\<exists>doc. n_ValidateAndComplete E d = Ok doc \<and> n_WriteFile E (p @ [''genesis.json'']) = Ok () \<and> t = s\<lparr>ts_genesis := (ts_genesis s)(p \<mapsto> doc)\<rparr>)"
  unfolding export_doc_def by (auto elim!: bindS_OkE simp: act_Ok_simps)

lemma add_gen_txs_succeeds:
  assumes all: "all_succeed E" and app: "n_UnmarshalAppState E (gd_AppState d) = Ok app"
    and gs: "GetGenesisStateFromAppState (n_codec E) app = Ok gs" "GetSeedContracts gs = Some seed"
    and coll: "collectTxs (n_sdk E) (n_TxJSONDecoder E) (n_view E) (n_AmountOf E) (nc_Moniker (ts_cfg s)) (Ok (gentx_entries (ts_gentxs s)))
      (Ok app) (n_genBalances E) = Ok (txs, peers)" and txs: "txs \<noteq> []"
  shows "\<exists>js s' app' bs. add_gen_txs E p d s = (Ok js, s') \<and> n_MarshalIndent E app' = Ok js \<and> traverse (n_TxJSONEncoder E) txs = Ok bs \<and>
    GetGenesisStateFromAppState (n_codec E) app' = Ok (gs\<lparr>gs_SetupMode := SeedMode (Some (seed\<lparr>GenTxs := bs\<rparr>))\<rparr>) \<and> ts_peers s' p = peers"
proof -
  obtain app' bs where app': "SetGenTxsInAppGenesisState (n_codec E) (n_TxJSONEncoder E) app txs = Ok app'" "traverse (n_TxJSONEncoder E) txs = Ok bs"
    "GetGenesisStateFromAppState (n_codec E) app' = Ok (gs\<lparr>gs_SetupMode := SeedMode (Some (seed\<lparr>GenTxs := bs\<rparr>))\<rparr>)"
    using SetGenTxs_succeeds [OF all gs] by blast
  obtain js doc where ok: "n_MarshalIndent E app' = Ok js" "n_ValidateAndComplete E (d\<lparr>gd_AppState := js\<rparr>) = Ok doc"
    "\<And>q. n_WriteFile E q = Ok ()" using all unfolding all_succeed_def by metis
  have ex: "export_doc E p (d\<lparr>gd_AppState := js\<rparr>) t = (Ok (), t\<lparr>ts_genesis := (ts_genesis t)(p \<mapsto> doc)\<rparr>)" for t
    by (simp add: export_doc_Ok ok)
  have "\<exists>s'. add_gen_txs E p d s = (Ok js, s') \<and> ts_peers s' p = peers"
    using coll app txs app'(1) ok ex
    by (simp add: add_gen_txs_def AddGenTxsToGenesisFile_def bindS_Ok ret_def act_simps)
  with ok(1) app'(2,3) show ?thesis by blast
qed

section \<open>Properties\<close>


lemma add_gen_txs_Ok:
  assumes "add_gen_txs E p d s = (Ok js, t)"
  shows "q \<noteq> p \<Longrightarrow> ts_genesis t q = ts_genesis s q" "ts_gentxs t = ts_gentxs s"
  using assms unfolding add_gen_txs_def Let_def case_prod_beta
  by (elim bindS_OkE; auto simp: act_Ok_simps export_doc_Ok split: if_splits)+

lemma collectGenFiles_Ok:
  assumes "collectGenFiles E P chainID is (Some a) s = (Ok u, s')"
    and "n_ValidateAndComplete E \<lparr>gd_ChainID = chainID, gd_AppState = a, gd_GenesisTime = Some (n_genTime E)\<rparr> = Ok doc"
    and "\<forall>q \<in> Q. ts_genesis s q = Some doc"
  shows "\<forall>q \<in> Q \<union> node_dir P ` set is. ts_genesis s' q = Some doc"
  using assms(1,3)
proof (induction "is" arbitrary: s Q)
  case (Cons i "is")
  from Cons.prems(1) obtain d js s1 s2 where
    add: "add_gen_txs E (node_dir P i) d (collect_config P i s) = (Ok js, s1)" and
    ex: "export_doc E (node_dir P i) \<lparr>gd_ChainID = chainID, gd_AppState = a, gd_GenesisTime = Some (n_genTime E)\<rparr> s1 = (Ok (), s2)" and
    more: "collectGenFiles E P chainID is (Some a) s2 = (Ok u, s')"
    by (auto elim!: bindS_OkE simp: act_Ok_simps Let_def)
  have "ts_genesis s2 q = Some doc" if "q \<in> insert (node_dir P i) Q" for q
    using that ex assms(2) add_gen_txs_Ok(1) [OF add, of q] Cons.prems(2) by (auto simp: export_doc_Ok collect_config_def)
  from Cons.IH [OF more, of "insert (node_dir P i) Q"] this show ?case by auto
qed (simp add: act_Ok_simps)

text \<open>
  C34: When the command succeeds for at least one node, every node has the same genesis document: the completion
  of the document with the chain id of the network, the genesis time of the command and the application state that
  was collected for the first node, from the genesis file that the command has written for it.
\<close>

theorem testnet_nodes_agree:
  assumes run: "InitTestnet E P s = (Ok (), s')" and some: "0 < ta_numValidators P"
    and chain: "chain = (if ta_chainID P = [] then ''chain-'' @ n_randStr E else ta_chainID P)"
    and n: "n = nat (ta_numValidators P)"
  shows "\<exists>s1 s2 d js t doc.
    init_nodes E P chain [0..<n] (testnet_start P chain s) = (Ok (), s1) \<and> initGenFiles E chain n s1 = (Ok (), s2) \<and>
    n_GenesisDocFromFile E (ts_genesis s2 (node_dir P 0)) = Ok d \<and>
    add_gen_txs E (node_dir P 0) d (collect_config P 0 s2) = (Ok js, t) \<and>
    n_ValidateAndComplete E \<lparr>gd_ChainID = chain, gd_AppState = js, gd_GenesisTime = Some (n_genTime E)\<rparr> = Ok doc \<and>
    (\<forall>i < n. ts_genesis s' (node_dir P i) = Some doc)"
proof -
  obtain k where k: "n = Suc k" using some n by (metis gr0_conv_Suc zero_less_nat_eq)
  from run some obtain s1 s2 where init: "init_nodes E P chain [0..<n] (testnet_start P chain s) = (Ok (), s1)"
      "initGenFiles E chain n s1 = (Ok (), s2)" and coll: "collectGenFiles E P chain [0..<n] None s2 = (Ok (), s')"
    unfolding InitTestnet_def Let_def chain [symmetric] n [symmetric]
    by (auto elim!: bindS_OkE simp: act_Ok_simps simp del: upt_Suc split: if_splits)
  from coll have "collectGenFiles E P chain (0 # [1..<n]) None s2 = (Ok (), s')" unfolding k by (simp add: upt_conv_Cons del: upt_Suc)
  then obtain d js t s3 where d: "n_GenesisDocFromFile E (ts_genesis s2 (node_dir P 0)) = Ok d"
    "add_gen_txs E (node_dir P 0) d (collect_config P 0 s2) = (Ok js, t)"
    and ex: "export_doc E (node_dir P 0) \<lparr>gd_ChainID = chain, gd_AppState = js, gd_GenesisTime = Some (n_genTime E)\<rparr> t = (Ok (), s3)"
    and more: "collectGenFiles E P chain [1..<n] (Some js) s3 = (Ok (), s')"
    by (auto elim!: bindS_OkE simp: act_Ok_simps Let_def collect_config_def)
  from ex obtain doc where doc: "n_ValidateAndComplete E \<lparr>gd_ChainID = chain, gd_AppState = js, gd_GenesisTime = Some (n_genTime E)\<rparr> = Ok doc"
    "ts_genesis s3 (node_dir P 0) = Some doc" by (auto simp: export_doc_Ok)
  from collectGenFiles_Ok [OF more doc(1), of "{node_dir P 0}"] doc(2)
  have all: "\<forall>q \<in> {node_dir P 0} \<union> node_dir P ` set [1..<n]. ts_genesis s' q = Some doc" by simp
  have "ts_genesis s' (node_dir P i) = Some doc" if "i < n" for i
    using that all by (cases "i = 0") auto
  with init d doc(1) show ?thesis by blast
qed

lemma engagement_points: "map gm_Points (engagement_members K accs) = map (\<lambda>i. of_nat (length accs - i)) [0..<length accs]"
  by (rule nth_equalityI) (simp_all add: engagement_members_def nth_enumerate_eq case_prod_beta)

lemma engagement_addresses: "map gm_Address (engagement_members K accs) = map (\<lambda>acc. sAddrString K (ga_address acc)) accs"
  by (rule nth_equalityI) (simp_all add: engagement_members_def nth_enumerate_eq case_prod_beta)

lemma of_nat_uint64_inj: "m < 2 ^ 64 \<Longrightarrow> n < 2 ^ 64 \<Longrightarrow> (of_nat m :: uint64) = of_nat n \<longleftrightarrow> m = n"
  by (simp add: word_of_nat_eq_iff take_bit_nat_eq_self)

text \<open>
  The genesis state that the command writes names every account once as a member of the engagement group,
  after the members of the default state, with different points that are not zero; the bootstrap account
  and the members of both circles are those of the first node, and the rest of the seed is the default.
\<close>

lemma testnet_engagement:
  assumes codec: "\<And>g raw. j_MustMarshal (n_codec E) g = Ok raw \<Longrightarrow> j_MustUnmarshal (n_codec E) raw = Ok g"
    and ok: "genesis_app_state E accs bals admin oc ap = Ok app" and len: "length accs < 2 ^ 64"
    and default: "GetGenesisStateFromAppState (n_codec E) (n_DefaultGenesis E) = Ok gs" "GetSeedContracts gs = Some seed"
  shows "\<exists>members. GetGenesisStateFromAppState (n_codec E) app =
      Ok (gs\<lparr>gs_SetupMode := SeedMode (Some (seed\<lparr>Engagement := Engagement seed @ members,
        BootstrapAccountAddress := sAddrString (n_sdk E) admin, OversightCommunityMembers := oc, ArbiterPoolMembers := ap\<rparr>))\<rparr>) \<and>
    map gm_Address members = map (\<lambda>acc. sAddrString (n_sdk E) (ga_address acc)) accs \<and>
    distinct (map gm_Points members) \<and> 0 \<notin> set (map gm_Points members)"
proof -
  let ?m = "engagement_members (n_sdk E) accs"
  let ?gs = "gs\<lparr>gs_SetupMode := SeedMode (Some (seed\<lparr>Engagement := Engagement seed @ ?m,
        BootstrapAccountAddress := sAddrString (n_sdk E) admin, OversightCommunityMembers := oc, ArbiterPoolMembers := ap\<rparr>))\<rparr>"
  let ?app = "\<lambda>a b. (n_DefaultGenesis E)(''auth'' \<mapsto> a, ''bank'' \<mapsto> b)"
  have same: "GetGenesisStateFromAppState (n_codec E) (?app a b) = Ok gs" for a b
    using default(1) by (simp add: GetGenesisStateFromAppState_def poe_ModuleName_def)
  have "\<exists>a b. SetGenesisStateInAppState (n_codec E) (?app a b) ?gs = Ok app"
    using ok unfolding genesis_app_state_def Let_def by (auto simp: bind_res_Ok_iff same default(2))
  then obtain raw where raw: "j_MustMarshal (n_codec E) ?gs = Ok raw" "app poe_ModuleName = Some raw"
    by (auto simp: SetGenesisStateInAppState_def bind_res_Ok_iff)
  have "GetGenesisStateFromAppState (n_codec E) app = Ok ?gs"
    using raw(2) codec [OF raw(1)] by (simp add: GetGenesisStateFromAppState_def)
  moreover have "distinct (map gm_Points ?m)"
    unfolding engagement_points distinct_map using len by (auto simp: inj_on_def of_nat_uint64_inj)
  moreover have "(of_nat (length accs - i) :: uint64) \<noteq> 0" if "i < length accs" for i
    using of_nat_uint64_inj [of "length accs - i" 0] that len by (simp del: of_nat_diff)
  then have "0 \<notin> set (map gm_Points ?m)"
    unfolding engagement_points by (auto simp del: of_nat_diff)
  ultimately show ?thesis using engagement_addresses by blast
qed

section \<open>A network with two nodes\<close>

text \<open>
  Keys have addresses in two directories only, coins are lists, the state of a module is a list of balances or
  the state of \<open>poe\<close>, and the genesis file is read as the state with the balances of the eight accounts.
\<close>

definition sample_args :: testnet_args where
  "sample_args = \<lparr>ta_outputDir = ''out'', ta_chainID = ''chain'', ta_minGasPrices = [], ta_nodeDirPrefix = ''node'', ta_nodeDaemonHome = ''furya'',
     ta_startingIPAddress = [], ta_keyringBackend = ''test'', ta_algo = ''secp256k1'', ta_numValidators = 2,
     ta_singleMachine = False, ta_vestingVals = False\<rparr>"

definition ufury :: "int \<Rightarrow> coin" where
  "ufury n = \<lparr>coin_Denom = ''ufury'', coin_Amount = n\<rparr>"

definition sample_balances :: "balance list" where
  "sample_balances =
     (string_bytes ''0bootstrap-account'', [ufury 100000000000]) #
     map (\<lambda>k. (string_bytes k, [ufury 1000000000])) [''0oc-member-1'', ''0oc-member-2'', ''0oc-member-3'', ''0ap-member-1'', ''0ap-member-2''] @
     [(string_bytes ''0node0'', [\<lparr>coin_Denom = ''node0token'', coin_Amount = 100\<rparr>, ufury 1600])]"

definition second_balance :: balance where
  "second_balance = (string_bytes ''1node1'', [\<lparr>coin_Denom = ''node1token'', coin_Amount = 100\<rparr>, ufury 1600])"

fun sample_add :: "coin list \<Rightarrow> coin list \<Rightarrow> coin list" where
  "sample_add x [] = x"
| "sample_add x (c # cs) =
     sample_add (if coin_Denom c \<in> coin_Denom ` set x
       then map (\<lambda>e. if coin_Denom e = coin_Denom c then e\<lparr>coin_Amount := coin_Amount e + coin_Amount c\<rparr> else e) x else x @ [c]) cs"

definition sample_contracts :: "(unit MsgCreateValidator \<times> string, rat option) SeedContracts" where
  "sample_contracts = SeedContracts.make [] [] [] None None None ''ufury'' None None None [] [] None None"

definition sample_poe :: "(unit MsgCreateValidator \<times> string, rat option) poe_GenesisState" where
  "sample_poe = \<lparr>gs_Params = poe_DefaultParams, gs_SetupMode = SeedMode (Some sample_contracts)\<rparr>"

definition sample_testnet ::
  "(unit, unit, unit MsgCreateValidator \<times> string, unit MsgCreateValidator \<times> string,
    balance list + (unit MsgCreateValidator \<times> string, rat option) poe_GenesisState, rat option, unit, unit, unit) testnet_env" where
  "sample_testnet =
     \<lparr>n_sdk = sample_sdk,
      n_codec = \<lparr>j_MustUnmarshal = (\<lambda>r. case r of Inr g \<Rightarrow> Ok g | Inl _ \<Rightarrow> Panic ''json''), j_MustMarshal = (\<lambda>g. Ok (Inr g))\<rparr>,
      n_randStr = [], n_ExternalIP = Ok ''127.0.0.1'', n_parseIPv6 = (\<lambda>_. None), n_MkdirAll = (\<lambda>_. Ok ()), n_EnsureDir = (\<lambda>_. Ok ()),
      n_WriteFile = (\<lambda>_. Ok ()), n_InitializeNodeValidatorFiles = (\<lambda>c. Ok (''id-'' @ nc_Moniker c, Some ())), n_keyring = (\<lambda>_ _. Ok ()),
      n_SigningAlgo = (\<lambda>_. Ok ()),
      n_GenerateSaveCoinKey = (\<lambda>dir k.
        if dir = [''out'', ''node0'', ''furya''] then Ok (string_bytes (CHR ''0'' # k), ''secret'')
        else if dir = [''out'', ''node1'', ''furya''] then Ok (string_bytes (CHR ''1'' # k), ''secret'') else fail (PlainErr ''keyring'')),
      n_TokensFromConsensusPower = (\<lambda>m. m), n_now = 0,
      n_NewCoin = (\<lambda>d n. if n < 0 then Panic ''negative coin amount'' else Ok \<lparr>coin_Denom = d, coin_Amount = n\<rparr>),
      n_Sort = (\<lambda>cs. cs), n_NewCoins = (\<lambda>cs. Ok (filter (\<lambda>c. coin_Amount c \<noteq> 0) cs)),
      n_Add = (\<lambda>x y. Ok (sample_add x y)),
      n_AmountOf = (\<lambda>cs d. Ok (coin_total cs d)), n_Sanitize = (\<lambda>bs. (bs, bs)), n_newAny = (\<lambda>_. Ok ()), n_SetMsgs = (\<lambda>_. Ok ()),
      n_Sign = (\<lambda>_ memo _ _ msg. Ok (msg, memo)), n_TxJSONEncoder = Ok, n_TxJSONDecoder = Ok,
      n_view = \<lparr>tv_Memo = (\<lambda>tx. Some (snd tx)), tv_Msgs = (\<lambda>tx. [CreateMsg (fst tx)])\<rparr>,
      n_DefaultGenesis = [''poe'' \<mapsto> Inr sample_poe],
      n_authGet = (\<lambda>_. Ok ()), n_PackAccounts = (\<lambda>_. Ok []), n_authPut = (\<lambda>_ _. Ok (Inl [])),
      n_bankGet = (\<lambda>_. Ok \<lparr>bk_Balances = [], bk_Supply = [], bk_Other = ()\<rparr>), n_bankPut = (\<lambda>b. Ok (Inl (bk_Balances b))),
      n_MarshalIndent = (\<lambda>_. Ok ''state''),
      n_UnmarshalAppState = (\<lambda>_. Ok [''bank'' \<mapsto> Inl (sample_balances @ [second_balance]), ''poe'' \<mapsto> Inr sample_poe]),
      n_genBalances = (\<lambda>app. case app ''bank'' of Some (Inl b) \<Rightarrow> b | _ \<Rightarrow> []),
      n_ValidateAndComplete = Ok, n_GenesisDocFromFile = (\<lambda>d. case d of Some doc \<Rightarrow> Ok doc | None \<Rightarrow> fail (PlainErr ''no such file'')),
      n_genTime = 1\<rparr>"

definition sample_start :: "(unit, unit MsgCreateValidator \<times> string) testnet" where
  "sample_start =
     \<lparr>ts_cfg = \<lparr>nc_RootDir = [], nc_Moniker = [], nc_AddrBookStrict = True, nc_PexReactor = True, nc_AllowDuplicateIP = False,
        nc_RPCListen = [], nc_P2PListen = [], nc_TimeoutCommit = 0\<rparr>,
      ts_appcfg = \<lparr>ap_MinGasPrices = [], ap_APIAddress = [], ap_GRPCAddress = [], ap_GRPCWebAddress = [], ap_GlobalLabels = []\<rparr>,
      ts_p2pPortStart = 0, ts_nodeIDs = [], ts_valPubKeys = [], ts_genAccounts = [], ts_genBalances = [], ts_genOCMembers = [],
      ts_genAPMembers = [], ts_genFiles = [], ts_bootstrap = [], ts_gentxs = [], ts_seeds = Map.empty, ts_apptoml = Map.empty,
      ts_config = Map.empty, ts_peers = (\<lambda>_. []), ts_genesis = Map.empty\<rparr>"

lemma sample_testnet_sel:
  shows
    "n_sdk sample_testnet = sample_sdk"
    "n_codec sample_testnet = \<lparr>j_MustUnmarshal = (\<lambda>r. case r of Inr g \<Rightarrow> Ok g | Inl _ \<Rightarrow> Panic ''json''), j_MustMarshal = (\<lambda>g. Ok (Inr g))\<rparr>"
    "n_randStr sample_testnet = []"
    "n_ExternalIP sample_testnet = Ok ''127.0.0.1''"
    "n_parseIPv6 sample_testnet = (\<lambda>_. None)"
    "n_MkdirAll sample_testnet = (\<lambda>_. Ok ())"
    "n_EnsureDir sample_testnet = (\<lambda>_. Ok ())"
    "n_WriteFile sample_testnet = (\<lambda>_. Ok ())"
    "n_InitializeNodeValidatorFiles sample_testnet = (\<lambda>c. Ok (''id-'' @ nc_Moniker c, Some ()))"
    "n_keyring sample_testnet = (\<lambda>_ _. Ok ())"
    "n_SigningAlgo sample_testnet = (\<lambda>_. Ok ())"
    "n_GenerateSaveCoinKey sample_testnet = (\<lambda>dir k.
        if dir = [''out'', ''node0'', ''furya''] then Ok (string_bytes (CHR ''0'' # k), ''secret'')
        else if dir = [''out'', ''node1'', ''furya''] then Ok (string_bytes (CHR ''1'' # k), ''secret'') else fail (PlainErr ''keyring''))"
    "n_TokensFromConsensusPower sample_testnet m = m"
    "n_now sample_testnet = 0"
    "n_NewCoin sample_testnet = (\<lambda>d n. if n < 0 then Panic ''negative coin amount'' else Ok \<lparr>coin_Denom = d, coin_Amount = n\<rparr>)"
    "n_Sort sample_testnet = (\<lambda>cs. cs)"
    "n_NewCoins sample_testnet = (\<lambda>cs. Ok (filter (\<lambda>c. coin_Amount c \<noteq> 0) cs))"
    "n_Add sample_testnet = (\<lambda>x y. Ok (sample_add x y))"
    "n_AmountOf sample_testnet = (\<lambda>cs d. Ok (coin_total cs d))"
    "n_Sanitize sample_testnet = (\<lambda>bs. (bs, bs))"
    "n_newAny sample_testnet = (\<lambda>_. Ok ())"
    "n_SetMsgs sample_testnet = (\<lambda>_. Ok ())"
    "n_Sign sample_testnet = (\<lambda>_ memo _ _ msg. Ok (msg, memo))"
    "n_TxJSONEncoder sample_testnet = Ok"
    "n_TxJSONDecoder sample_testnet = Ok"
    "n_view sample_testnet = \<lparr>tv_Memo = (\<lambda>tx. Some (snd tx)), tv_Msgs = (\<lambda>tx. [CreateMsg (fst tx)])\<rparr>"
    "n_DefaultGenesis sample_testnet = [''poe'' \<mapsto> Inr sample_poe]"
    "n_authGet sample_testnet = (\<lambda>_. Ok ())"
    "n_PackAccounts sample_testnet = (\<lambda>_. Ok [])"
    "n_authPut sample_testnet = (\<lambda>_ _. Ok (Inl []))"
    "n_bankGet sample_testnet = (\<lambda>_. Ok \<lparr>bk_Balances = [], bk_Supply = [], bk_Other = ()\<rparr>)"
    "n_bankPut sample_testnet = (\<lambda>b. Ok (Inl (bk_Balances b)))"
    "n_MarshalIndent sample_testnet = (\<lambda>_. Ok ''state'')"
    "n_UnmarshalAppState sample_testnet = (\<lambda>_. Ok [''bank'' \<mapsto> Inl (sample_balances @ [second_balance]), ''poe'' \<mapsto> Inr sample_poe])"
    "n_genBalances sample_testnet = (\<lambda>app. case app ''bank'' of Some (Inl b) \<Rightarrow> b | _ \<Rightarrow> [])"
    "n_ValidateAndComplete sample_testnet = Ok"
    "n_GenesisDocFromFile sample_testnet = (\<lambda>d. case d of Some doc \<Rightarrow> Ok doc | None \<Rightarrow> fail (PlainErr ''no such file''))"
    "n_genTime sample_testnet = 1"
  by (simp_all add: sample_testnet_def)

lemma bindS_removing [simp]: "bindS (removing (Ok x)) f s = f x s"
  by (simp add: bindS_def removing_def)

lemma sample_names: "node_name sample_args 0 = ''node0''" "node_dir sample_args 0 = [''out'', ''node0'', ''furya'']"
  "node_name sample_args (Suc 0) = ''node1''" "node_dir sample_args (Suc 0) = [''out'', ''node1'', ''furya'']"
  by (simp_all add: node_name_def node_dir_def sample_args_def format_digits format_digits(2) [unfolded One_nat_def])

abbreviation sample_dir :: path where
  "sample_dir \<equiv> [''out'', ''node0'', ''furya'']"

abbreviation second_dir :: path where
  "second_dir \<equiv> [''out'', ''node1'', ''furya'']"

lemma sample_add_members:
  "\<exists>sd. add_members sample_testnet sample_dir label is seeds s =
    (Ok (map (\<lambda>i. CHR ''0'' # label @ format_nat (i + 1)) is, sd),
     s\<lparr>ts_genBalances := ts_genBalances s @ map (\<lambda>i. (string_bytes (CHR ''0'' # label @ format_nat (i + 1)), [ufury 1000000000])) is,
       ts_genAccounts := ts_genAccounts s @ map (\<lambda>i. BaseAccount (string_bytes (CHR ''0'' # label @ format_nat (i + 1)))) is\<rparr>)"
proof (induction "is" arbitrary: seeds s)
  case (Cons i "is")
  let ?a = "string_bytes (CHR ''0'' # label @ format_nat (i + 1))"
  let ?s = "s\<lparr>ts_genBalances := ts_genBalances s @ [(?a, [ufury 1000000000])], ts_genAccounts := ts_genAccounts s @ [BaseAccount ?a]\<rparr>"
  define seeds' where "seeds' = seeds(CHR ''0'' # label @ format_nat (i + 1) \<mapsto> ''secret'')"
  have "add_members sample_testnet sample_dir label (i # is) seeds s =
    bindS (add_members sample_testnet sample_dir label is seeds') (\<lambda>(addrs, sd). ret ((CHR ''0'' # label @ format_nat (i + 1)) # addrs, sd)) ?s"
    unfolding seeds'_def by (simp add: sample_testnet_sel addGenAccount_def sample_sdk_def ufury_def stakingToken_def)
  with Cons [of seeds' ?s] show ?case by (elim exE) (simp add: bindS_Ok ret_def)
qed (simp add: ret_def)

lemma sample_bootstrap:
  "\<exists>sd. add_bootstrap sample_testnet sample_dir seeds s = (Ok sd,
     s\<lparr>ts_bootstrap := string_bytes ''0bootstrap-account'', ts_genBalances := ts_genBalances s @ butlast sample_balances,
       ts_genAccounts := ts_genAccounts s @ map (\<lambda>b. BaseAccount (fst b)) (butlast sample_balances),
       ts_genOCMembers := ts_genOCMembers s @ [''0oc-member-1'', ''0oc-member-2'', ''0oc-member-3''],
       ts_genAPMembers := ts_genAPMembers s @ [''0ap-member-1'', ''0ap-member-2'']\<rparr>)"
proof -
  note F = format_digits [unfolded One_nat_def numeral_2_eq_2 numeral_3_eq_3] format_digits(2)
  let ?s = "s\<lparr>ts_bootstrap := string_bytes ''0bootstrap-account'', ts_genBalances := ts_genBalances s @ [(string_bytes ''0bootstrap-account'', [ufury 100000000000])],
    ts_genAccounts := ts_genAccounts s @ [BaseAccount (string_bytes ''0bootstrap-account'')]\<rparr>"
  obtain sd where oc: "add_members sample_testnet sample_dir ''oc-member-'' [0..<3] (seeds(''0bootstrap-account'' \<mapsto> ''secret'')) ?s = 
    (Ok (map (\<lambda>i. CHR ''0'' # ''oc-member-'' @ format_nat (i + 1)) [0..<3], sd),
     ?s\<lparr>ts_genBalances := ts_genBalances ?s @ map (\<lambda>i. (string_bytes (CHR ''0'' # ''oc-member-'' @ format_nat (i + 1)), [ufury 1000000000])) [0..<3],
       ts_genAccounts := ts_genAccounts ?s @ map (\<lambda>i. BaseAccount (string_bytes (CHR ''0'' # ''oc-member-'' @ format_nat (i + 1)))) [0..<3]\<rparr>)"
    using sample_add_members by blast
  let ?t = "(snd (add_members sample_testnet sample_dir ''oc-member-'' [0..<3] (seeds(''0bootstrap-account'' \<mapsto> ''secret'')) ?s))
    \<lparr>ts_genOCMembers := ts_genOCMembers s @ [''0oc-member-1'', ''0oc-member-2'', ''0oc-member-3'']\<rparr>"
  obtain sd' where ap: "add_members sample_testnet sample_dir ''ap-member-'' [0..<2] sd ?t = 
    (Ok (map (\<lambda>i. CHR ''0'' # ''ap-member-'' @ format_nat (i + 1)) [0..<2], sd'),
     ?t\<lparr>ts_genBalances := ts_genBalances ?t @ map (\<lambda>i. (string_bytes (CHR ''0'' # ''ap-member-'' @ format_nat (i + 1)), [ufury 1000000000])) [0..<2],
       ts_genAccounts := ts_genAccounts ?t @ map (\<lambda>i. BaseAccount (string_bytes (CHR ''0'' # ''ap-member-'' @ format_nat (i + 1)))) [0..<2]\<rparr>)"
    using sample_add_members by blast
  show ?thesis
    using oc ap
    by (intro exI [of _ sd']) (simp add: add_bootstrap_def sample_testnet_sel addGenAccount_def sample_sdk_def stakingToken_def bindS_Ok ret_def
        sample_balances_def ufury_def upt_rec F)
qed

lemma sample_args_sel:
  "ta_startingIPAddress sample_args = []" "ta_singleMachine sample_args = False" "ta_vestingVals sample_args = False"
  "ta_numValidators sample_args = 2" "ta_chainID sample_args = ''chain''"
  by (simp_all add: sample_args_def)

lemma sample_files:
  "\<exists>memo s'. init_node_files sample_testnet sample_args 0 s = (Ok (Some (), memo), s') \<and>
    ts_genBalances s' = ts_genBalances s \<and> ts_genFiles s' = ts_genFiles s @ [sample_dir]"
  by (simp add: init_node_files_def sample_testnet_sel sample_args_sel getIP_def prepare_config_def sample_names ret_def)

lemma sample_testnet_keys:
  "\<exists>s'. node_keys sample_testnet sample_args 0 s = (Ok (string_bytes ''0node0''), s') \<and>
    ts_genBalances s' = ts_genBalances s @ butlast sample_balances \<and> ts_genFiles s' = ts_genFiles s"
proof -
  obtain sd s' where s': "add_bootstrap sample_testnet sample_dir [''secret'' \<mapsto> ''secret''] s = (Ok sd, s')"
      "ts_genBalances s' = ts_genBalances s @ butlast sample_balances" "ts_genFiles s' = ts_genFiles s"
    using sample_bootstrap [of "[''secret'' \<mapsto> ''secret'']" s] by auto
  then show ?thesis
    by (simp add: node_keys_def sample_names sample_testnet_sel sample_args_sel bindS_Ok writeFile_def ret_def)
qed

lemma sample_account:
  "\<exists>s'. node_account sample_testnet sample_args 0 (string_bytes ''0node0'') s = (Ok (700, 0), s') \<and>
    ts_genBalances s' = ts_genBalances s @ [last sample_balances] \<and> ts_genFiles s' = ts_genFiles s"
  by (simp add: node_account_def addGenAccount_def sample_names sample_testnet_sel sample_args_sel ret_def
      sample_balances_def ufury_def stakingToken_def)

lemma sample_gentx_written:
  "\<exists>s'. node_gentx sample_testnet sample_args chainID 0 a (Some ()) memo 700 0 s = (Ok (), s') \<and>
    ts_genBalances s' = ts_genBalances s \<and> ts_genFiles s' = ts_genFiles s"
  by (simp add: node_gentx_def sample_names sample_testnet_sel writeFile_def NewMsgCreateValidator_def modify_def)

lemma sample_node:
  "\<exists>s'. init_node sample_testnet sample_args chainID 0 s = (Ok (), s') \<and>
    ts_genBalances s' = ts_genBalances s @ sample_balances \<and> ts_genFiles s' = ts_genFiles s @ [sample_dir]"
proof -
  have bl: "butlast sample_balances @ [last sample_balances] = sample_balances" by (rule append_butlast_last_id) (simp add: sample_balances_def)
  obtain memo s1 where s1: "init_node_files sample_testnet sample_args 0 s = (Ok (Some (), memo), s1)"
    "ts_genBalances s1 = ts_genBalances s" "ts_genFiles s1 = ts_genFiles s @ [sample_dir]" using sample_files by blast
  obtain s2 where s2: "node_keys sample_testnet sample_args 0 s1 = (Ok (string_bytes ''0node0''), s2)"
    "ts_genBalances s2 = ts_genBalances s1 @ butlast sample_balances" "ts_genFiles s2 = ts_genFiles s1" using sample_testnet_keys by blast
  obtain s3 where s3: "node_account sample_testnet sample_args 0 (string_bytes ''0node0'') s2 = (Ok (700, 0), s3)"
    "ts_genBalances s3 = ts_genBalances s2 @ [last sample_balances]" "ts_genFiles s3 = ts_genFiles s2" using sample_account by blast
  obtain s4 where s4: "node_gentx sample_testnet sample_args chainID 0 (string_bytes ''0node0'') (Some ()) memo 700 0 s3 = (Ok (), s4)"
    "ts_genBalances s4 = ts_genBalances s3" "ts_genFiles s4 = ts_genFiles s3" using sample_gentx_written by blast
  show ?thesis
    using s1 s2 s3 s4 bl by (simp add: init_node_def bindS_Ok modify_def)
qed

lemma second_node:
  "\<exists>s'. init_node sample_testnet sample_args chainID (Suc 0) s = (Ok (), s') \<and>
    ts_genBalances s' = ts_genBalances s @ [second_balance] \<and> ts_genFiles s' = ts_genFiles s @ [second_dir]"
proof -
  obtain memo s1 where s1: "init_node_files sample_testnet sample_args (Suc 0) s = (Ok (Some (), memo), s1)"
    "ts_genBalances s1 = ts_genBalances s" "ts_genFiles s1 = ts_genFiles s @ [second_dir]"
    by (simp add: init_node_files_def sample_testnet_sel sample_args_sel getIP_def prepare_config_def sample_names ret_def)
  obtain s2 where s2: "node_keys sample_testnet sample_args (Suc 0) s1 = (Ok (string_bytes ''1node1''), s2)"
    "ts_genBalances s2 = ts_genBalances s1" "ts_genFiles s2 = ts_genFiles s1"
    by (simp add: node_keys_def sample_names sample_testnet_sel sample_args_sel bindS_Ok writeFile_def ret_def)
  obtain s3 where s3: "node_account sample_testnet sample_args (Suc 0) (string_bytes ''1node1'') s2 = (Ok (700, 0), s3)"
    "ts_genBalances s3 = ts_genBalances s2 @ [second_balance]" "ts_genFiles s3 = ts_genFiles s2"
    by (simp add: node_account_def addGenAccount_def sample_names sample_testnet_sel sample_args_sel ret_def
        second_balance_def ufury_def stakingToken_def)
  obtain s4 where s4: "node_gentx sample_testnet sample_args chainID (Suc 0) (string_bytes ''1node1'') (Some ()) memo 700 0 s3 = (Ok (), s4)"
    "ts_genBalances s4 = ts_genBalances s3" "ts_genFiles s4 = ts_genFiles s3"
    by (simp add: node_gentx_def sample_names sample_testnet_sel writeFile_def NewMsgCreateValidator_def modify_def)
  show ?thesis using s1 s2 s3 s4 by (simp add: init_node_def bindS_Ok modify_def)
qed

lemma sample_bump:
  assumes "distinct (map coin_Denom x)"
  shows "coin_total (map (\<lambda>e. if coin_Denom e = d' then e\<lparr>coin_Amount := coin_Amount e + k\<rparr> else e) x) d =
    coin_total x d + (if d = d' \<and> d' \<in> coin_Denom ` set x then k else 0)"
  using assms by (induction x) auto

lemma sample_add_total:
  "distinct (map coin_Denom x) \<Longrightarrow> distinct (map coin_Denom (sample_add x y)) \<and> coin_total (sample_add x y) d = coin_total x d + coin_total y d"
proof (induction x y rule: sample_add.induct)
  case (2 x c cs)
  let ?x = "if coin_Denom c \<in> coin_Denom ` set x
       then map (\<lambda>e. if coin_Denom e = coin_Denom c then e\<lparr>coin_Amount := coin_Amount e + coin_Amount c\<rparr> else e) x else x @ [c]"
  have "map coin_Denom (map (\<lambda>e. if coin_Denom e = coin_Denom c then e\<lparr>coin_Amount := coin_Amount e + coin_Amount c\<rparr> else e) x) = map coin_Denom x"
    by simp
  then have "distinct (map coin_Denom ?x)" using 2(2) by (cases "coin_Denom c \<in> coin_Denom ` set x") (simp_all only: if_True if_False, simp)
  moreover have "coin_total ?x d = coin_total x d + (if coin_Denom c = d then coin_Amount c else 0)"
    using sample_bump [OF 2(2), of "coin_Denom c" "coin_Amount c" d] by (auto simp: coin_total_def)
  ultimately show ?case using 2(1) by simp
qed simp

lemma sample_testnet_laws: "testnet_laws sample_testnet"
proof -
  have "inj bytes_string" by (rule inj_on_inverseI [of _ string_bytes]) (simp add: string_bytes_inverse)
  moreover have "fresh_keys sample_testnet" by (simp add: fresh_keys_def sample_testnet_sel string_bytes_inj)
  ultimately show ?thesis by (simp add: testnet_laws_def sample_testnet_sel sample_sdk_def denoms_ok_def sample_add_total)
qed

lemma sample_succeeds: "all_succeed sample_testnet"
  by (simp add: all_succeed_def sample_testnet_sel)

lemma sample_nodes:
  "\<exists>s'. init_nodes sample_testnet sample_args chainID [0..<2] s = (Ok (), s') \<and>
    ts_genBalances s' = ts_genBalances s @ sample_balances @ [second_balance] \<and> ts_genFiles s' = ts_genFiles s @ [sample_dir, second_dir]"
proof -
  obtain s1 where s1: "init_node sample_testnet sample_args chainID 0 s = (Ok (), s1)"
    "ts_genBalances s1 = ts_genBalances s @ sample_balances" "ts_genFiles s1 = ts_genFiles s @ [sample_dir]" using sample_node by blast
  obtain s2 where s2: "init_node sample_testnet sample_args chainID (Suc 0) s1 = (Ok (), s2)"
    "ts_genBalances s2 = ts_genBalances s1 @ [second_balance]" "ts_genFiles s2 = ts_genFiles s1 @ [second_dir]" using second_node by blast
  have "[0..<2] = [0, Suc 0]" by (simp add: upt_rec)
  then show ?thesis using s1 s2 by (simp add: seqS_def bindS_Ok ret_def)
qed

lemma sample_state: "GetSeedContracts sample_poe = Some sample_contracts"
  by (simp add: sample_poe_def GetSeedContracts_def)

lemma sample_app:
  "n_UnmarshalAppState sample_testnet js = Ok [''bank'' \<mapsto> Inl (sample_balances @ [second_balance]), ''poe'' \<mapsto> Inr sample_poe]"
  "GetGenesisStateFromAppState (n_codec sample_testnet) [''bank'' \<mapsto> Inl (sample_balances @ [second_balance]), ''poe'' \<mapsto> Inr sample_poe] = Ok sample_poe"
  "n_genBalances sample_testnet [''bank'' \<mapsto> Inl (sample_balances @ [second_balance]), ''poe'' \<mapsto> Inr sample_poe] = sample_balances @ [second_balance]"
  by (simp_all add: sample_testnet_sel GetGenesisStateFromAppState_def poe_ModuleName_def)


lemma sample_sum: "\<exists>t. sum_coins (n_Add sample_testnet) c bs = Ok t"
  by (induction bs arbitrary: c) (simp_all add: sample_testnet_sel)

lemma sample_genesis_state: "\<exists>app. genesis_app_state sample_testnet accs bals admin oc ap = Ok app"
proof -
  obtain t where "sum_coins (n_Add sample_testnet) [] bals = Ok t" using sample_sum by blast
  then show ?thesis
    by (simp add: genesis_app_state_def sample_testnet_sel GetGenesisStateFromAppState_def poe_ModuleName_def sample_state SetGenesisStateInAppState_def)
qed

lemma sample_init_gen_files:
  assumes "ts_genFiles s = [sample_dir, second_dir]"
  shows "\<exists>s'. initGenFiles sample_testnet ''chain'' 2 s = (Ok (), s') \<and> ts_gentxs s' = ts_gentxs s \<and>
    (\<exists>d. ts_genesis s' sample_dir = Some d \<and> ts_genesis s' second_dir = Some d)"
proof -
  obtain app where "genesis_app_state sample_testnet (ts_genAccounts s) (ts_genBalances s) (ts_bootstrap s) (ts_genOCMembers s) (ts_genAPMembers s) = Ok app"
    using sample_genesis_state by blast
  then show ?thesis using assms by (simp add: initGenFiles_def sample_testnet_sel Let_def ret_def)
qed

lemma sample_collect_one:
  assumes nodes: "init_nodes sample_testnet sample_args ''chain'' [0..<2] s = (Ok (), s1)" "ts_gentxs s = []" "ts_genBalances s = []"
      "ts_genBalances s1 = sample_balances @ [second_balance]"
    and s2: "ts_gentxs s2 = ts_gentxs s1" "ts_genesis s2 (node_dir sample_args i) = Some d"
  shows "\<exists>js s'. add_gen_txs sample_testnet (node_dir sample_args i) d (collect_config sample_args i s2) = (Ok js, s')"
proof -
  let ?s = "collect_config sample_args i s2"
  have m: "mset (n_genBalances sample_testnet [''bank'' \<mapsto> Inl (sample_balances @ [second_balance]), ''poe'' \<mapsto> Inr sample_poe]) = mset (ts_genBalances s1)"
    using nodes(4) by (simp only: sample_app)
  have v: "ta_vestingVals sample_args \<longrightarrow> (\<forall>i < 2. node_name sample_args i @ ''token'' < stakingToken)" by (simp add: sample_args_sel)
  obtain tx memo where coll: "collectTxs (n_sdk sample_testnet) (n_TxJSONDecoder sample_testnet) (n_view sample_testnet) (n_AmountOf sample_testnet)
      (nc_Moniker (ts_cfg ?s)) (Ok (gentx_entries (ts_gentxs s1)))
      (Ok [''bank'' \<mapsto> Inl (sample_balances @ [second_balance]), ''poe'' \<mapsto> Inr sample_poe]) (n_genBalances sample_testnet) =
      Ok (map tx (file_order sample_args 2), memo)"
    using written_txs_collected [OF sample_testnet_laws nodes(1,2,3) v m, of "nc_Moniker (ts_cfg ?s)"] by blast
  have files: "ts_gentxs ?s = ts_gentxs s1" using s2(1) by (simp add: collect_config_def)
  have "length (file_order sample_args 2) = 2" by (simp add: file_order_def)
  then have "map tx (file_order sample_args 2) \<noteq> []" by auto
  from add_gen_txs_succeeds [OF sample_succeeds sample_app(1,2) sample_state coll [folded files] this, of "node_dir sample_args i" d]
  show ?thesis by blast
qed

lemma sample_collect_step:
  assumes "add_gen_txs sample_testnet (node_dir sample_args i) d (collect_config sample_args i s2) = (Ok js, s3)"
    and "ts_genesis s2 (node_dir sample_args i) = Some d"
  shows "\<exists>s4 st. collectGenFiles sample_testnet sample_args ''chain'' (i # is) a s2 = collectGenFiles sample_testnet sample_args ''chain'' is (Some st) s4 \<and>
    ts_gentxs s4 = ts_gentxs s2 \<and> (\<forall>q. q \<noteq> node_dir sample_args i \<longrightarrow> ts_genesis s4 q = ts_genesis s2 q)"
proof -
  have doc: "n_GenesisDocFromFile sample_testnet (Some d) = Ok d" "\<And>doc. n_ValidateAndComplete sample_testnet doc = Ok doc"
    "\<And>q. n_WriteFile sample_testnet q = Ok ()" by (simp_all add: sample_testnet_sel)
  have g: "ts_genesis (collect_config sample_args i s2) = ts_genesis s2" "ts_gentxs (collect_config sample_args i s2) = ts_gentxs s2"
    by (simp_all add: collect_config_def)
  show ?thesis
    using assms add_gen_txs_Ok [OF assms(1)] g by (auto simp: doc bindS_Ok export_doc_def modify_def Let_def)
qed

theorem testnet_nodes_agree_witness:
  "\<exists>s' doc. InitTestnet sample_testnet sample_args sample_start = (Ok (), s') \<and> gd_ChainID doc = ''chain'' \<and>
    ts_genesis s' sample_dir = Some doc \<and> ts_genesis s' second_dir = Some doc"
proof -
  let ?s = "testnet_start sample_args ''chain'' sample_start"
  have start: "ts_gentxs ?s = []" "ts_genBalances ?s = []" "ts_genFiles ?s = []" by (simp_all add: sample_start_def testnet_start_def)
  obtain s1 where s1: "init_nodes sample_testnet sample_args ''chain'' [0..<2] ?s = (Ok (), s1)" "ts_genBalances s1 = sample_balances @ [second_balance]"
    "ts_genFiles s1 = [sample_dir, second_dir]" using sample_nodes [of "''chain''" ?s] start by auto
  obtain s2 d where s2: "initGenFiles sample_testnet ''chain'' 2 s1 = (Ok (), s2)" "ts_gentxs s2 = ts_gentxs s1"
    "ts_genesis s2 (node_dir sample_args 0) = Some d" "ts_genesis s2 (node_dir sample_args (Suc 0)) = Some d"
    using sample_init_gen_files [OF s1(3)] unfolding sample_names by blast
  obtain js s3 where s3: "add_gen_txs sample_testnet (node_dir sample_args 0) d (collect_config sample_args 0 s2) = (Ok js, s3)"
    using sample_collect_one [OF s1(1) start(1,2) s1(2) s2(2,3)] by blast
  obtain s4 st where s4: "collectGenFiles sample_testnet sample_args ''chain'' (0 # [Suc 0]) None s2 =
      collectGenFiles sample_testnet sample_args ''chain'' [Suc 0] (Some st) s4" "ts_gentxs s4 = ts_gentxs s2"
      "ts_genesis s4 (node_dir sample_args (Suc 0)) = Some d"
    using sample_collect_step [OF s3 s2(3), of "[Suc 0]" None] s2(4) by (auto simp: sample_names)
  obtain js' s5 where s5: "add_gen_txs sample_testnet (node_dir sample_args (Suc 0)) d (collect_config sample_args (Suc 0) s4) = (Ok js', s5)"
    using sample_collect_one [OF s1(1) start(1,2) s1(2) _ s4(3)] s4(2) s2(2) by auto
  obtain s' where s': "collectGenFiles sample_testnet sample_args ''chain'' [Suc 0] (Some st) s4 = (Ok (), s')"
    using sample_collect_step [OF s5 s4(3), of "[]" "Some st"] by (auto simp: ret_def)
  have two: "[0..<2] = [0, Suc 0]" "nat 2 = 2" by (simp_all add: upt_rec)
  have "InitTestnet sample_testnet sample_args sample_start = (Ok (), s')"
    using s1(1) s2(1) s4(1) s' by (simp add: InitTestnet_def Let_def sample_args_sel bindS_Ok two del: upt_Suc upt_0 init_nodes.simps collectGenFiles.simps)
  from testnet_nodes_agree [OF this _ refl refl] this show ?thesis
    by (auto simp: sample_args_sel sample_names sample_testnet_sel numeral_2_eq_2 less_Suc_eq)
qed

lemma testnet_engagement_sample:
  "\<exists>app g members. genesis_app_state sample_testnet [BaseAccount [1], BaseAccount [2]] [] [1] [] [] = Ok app \<and>
    GetGenesisStateFromAppState (n_codec sample_testnet) app = Ok g \<and> Engagement (the (GetSeedContracts g)) = members \<and>
    length members = 2 \<and> distinct (map gm_Points members) \<and> 0 \<notin> set (map gm_Points members)"
proof -
  obtain app where app: "genesis_app_state sample_testnet [BaseAccount [1], BaseAccount [2]] [] [1] [] [] = Ok app" using sample_genesis_state by blast
  have codec: "j_MustMarshal (n_codec sample_testnet) g = Ok raw \<Longrightarrow> j_MustUnmarshal (n_codec sample_testnet) raw = Ok g" for g raw
    by (auto simp: sample_testnet_sel)
  have def: "GetGenesisStateFromAppState (n_codec sample_testnet) (n_DefaultGenesis sample_testnet) = Ok sample_poe"
    by (simp add: sample_testnet_sel GetGenesisStateFromAppState_def poe_ModuleName_def)
  have len: "length [BaseAccount [1], BaseAccount [2]] < 2 ^ 64" by simp
  obtain members where
    m: "GetGenesisStateFromAppState (n_codec sample_testnet) app =
      Ok (sample_poe\<lparr>gs_SetupMode := SeedMode (Some (sample_contracts
        \<lparr>Engagement := Engagement sample_contracts @ members,
        BootstrapAccountAddress := sAddrString (n_sdk sample_testnet) [1], OversightCommunityMembers := [], ArbiterPoolMembers := []\<rparr>))\<rparr>)"
      "map gm_Address members = map (\<lambda>acc. sAddrString (n_sdk sample_testnet) (ga_address acc)) [BaseAccount [1], BaseAccount [2]]"
      "distinct (map gm_Points members)" "0 \<notin> set (map gm_Points members)"
    by (rule exE [OF testnet_engagement [OF codec app len def sample_state]], assumption, elim conjE, rule that)
  have "length (map gm_Address members) = 2" unfolding m(2) by simp
  then have "length members = 2" by simp
  with app m(1,3,4) show ?thesis
    by (intro exI [of _ app]) (simp add: GetSeedContracts_def sample_contracts_def SeedContracts.make_def)
qed

end
