(* ===== verification/NodeCmds.thy ===== *)
theory NodeCmds
  imports Testnet
begin

text \<open>
  The commands around the genesis files of nodes: what \<open>testnet\<close> reads from its flags (\<open>cmd/furya/testnet.go\<close>),
  \<open>collect-gentxs\<close> (\<open>x/poe/client/cli/genutil_collect.go\<close>) and \<open>gentx\<close> (\<open>x/poe/client/cli/genutil_gentx.go\<close>).
\<close>

section \<open>Test networks\<close>

abbreviation "flagNodeDirPrefix \<equiv> ''node-dir-prefix''"
abbreviation "flagOutputDir \<equiv> ''output-dir''"
abbreviation "flagNodeDaemonHome \<equiv> ''node-daemon-home''"
abbreviation "flagStartingIPAddress \<equiv> ''starting-ip-address''"
abbreviation "flagSingleHost \<equiv> ''single-host''"
abbreviation "flagVestingValidatorAccounts \<equiv> ''vesting-validators''"

text \<open>
  Errors of most flags are ignored, which leaves the zero value. \<open>numValidators\<close> and \<open>commitTimeout\<close> are what
  the flags for the number of nodes and for the time to wait after a commit are parsed to.
\<close>

definition testnetCmd ::
    "('k, 'a, 'x, 't, 'raw, 'd, 'g, 'p, 'o) testnet_env \<Rightarrow> flag_set \<Rightarrow> int option \<Rightarrow> duration res \<Rightarrow> (('k, 't) testnet, unit) act" where
  "testnetCmd E fs numValidators commitTimeout =
     bindS (lift_res commitTimeout) (\<lambda>timeout.
     bindS (modify (\<lambda>s. s\<lparr>ts_cfg := (ts_cfg s)\<lparr>nc_TimeoutCommit := timeout\<rparr>\<rparr>)) (\<lambda>_.
     bindS (lift_res (GetBool fs flagSingleHost)) (\<lambda>singleMachine.
     InitTestnet E
       \<lparr>ta_outputDir = str_or_empty fs flagOutputDir, ta_chainID = str_or_empty fs ''chain-id'',
        ta_minGasPrices = str_or_empty fs ''minimum-gas-prices'', ta_nodeDirPrefix = str_or_empty fs flagNodeDirPrefix,
        ta_nodeDaemonHome = str_or_empty fs flagNodeDaemonHome, ta_startingIPAddress = str_or_empty fs flagStartingIPAddress,
        ta_keyringBackend = str_or_empty fs ''keyring-backend'', ta_algo = str_or_empty fs ''algo'',
        ta_numValidators = (case numValidators of Some n \<Rightarrow> n | None \<Rightarrow> 0), ta_singleMachine = singleMachine,
        ta_vestingVals = (fl_bool fs flagVestingValidatorAccounts = Some True)\<rparr>)))"

section \<open>Collecting genesis transactions\<close>

abbreviation "flagGenTxDir \<equiv> ''gentx-dir''"

record 'm printInfo =
  pi_Moniker :: string
  pi_ChainID :: string
  pi_NodeID :: string
  pi_GenTxsDir :: path
  pi_AppMessage :: 'm

definition newPrintInfo :: "string \<Rightarrow> string \<Rightarrow> string \<Rightarrow> path \<Rightarrow> 'm \<Rightarrow> 'm printInfo" where
  "newPrintInfo moniker chainID nodeID genTxsDir appMessage =
     \<lparr>pi_Moniker = moniker, pi_ChainID = chainID, pi_NodeID = nodeID, pi_GenTxsDir = genTxsDir, pi_AppMessage = appMessage\<rparr>"

text \<open>
  What the command uses of the SDK and of Tendermint: the files of the node, of which the id is used, the
  genesis document with its chain id and state, directories, balances and the export of the file.
\<close>

record ('x, 'a, 't, 'raw, 'd, 'c, 'm) collect_env =
  co_sdk :: sdk_ops
  co_codec :: "('raw, 't, 'd) codec_ops"
  co_decode :: "'c \<Rightarrow> 'x res"
  co_encode :: "'x \<Rightarrow> 't res"
  co_view :: "('x, 'a) tx_view"
  co_AmountOf :: "coin list \<Rightarrow> string \<Rightarrow> int res"
  co_InitializeNodeValidatorFiles :: "string res"
  co_GenesisDoc :: "(string \<times> 'raw app_state res) res"
  co_ReadDir :: "path \<Rightarrow> 'c dir_entry list res"
  co_genBalances :: "'raw app_state \<Rightarrow> balance list"
  co_export :: "'raw app_state \<Rightarrow> unit res"
  co_MarshalIndent :: "'raw app_state \<Rightarrow> 'm res"
  co_print :: "'m printInfo \<Rightarrow> unit res"

definition CollectGenTxsCmd ::
    "('x, 'a, 't, 'raw, 'd, 'c, 'm) collect_env \<Rightarrow> string \<Rightarrow> string \<Rightarrow> flag_set \<Rightarrow> ('raw node_files, 'm printInfo) act" where
  "CollectGenTxsCmd E home moniker fs =
     bindS (lift_res (wrap_res ''failed to initialize node validator files'' (co_InitializeNodeValidatorFiles E))) (\<lambda>nodeID.
     bindS (lift_res (wrap_res ''failed to read genesis doc from file'' (co_GenesisDoc E))) (\<lambda>(chainID, docState).
     bindS (lift_res (wrap_res ''failed to read %q flag'' (GetString fs flagGenTxDir))) (\<lambda>genTxDir.
     let genTxsDir = (if genTxDir = [] then [home, ''config'', ''gentx''] else [genTxDir]) in
     bindS (wrapS ''failed to get genesis app state from config''
       (bindS (AddGenTxsToGenesisFile (co_sdk E) (co_codec E) (co_decode E) (co_encode E) (co_view E) (co_AmountOf E) moniker
          (co_ReadDir E genTxsDir) docState (co_genBalances E) (co_export E)) (\<lambda>app. lift_res (co_MarshalIndent E app)))) (\<lambda>appMessage.
     let toPrint = newPrintInfo moniker chainID nodeID genTxsDir appMessage in
     bindS (lift_res (co_print E toPrint)) (\<lambda>_. ret toPrint)))))"

section \<open>What is printed\<close>

text \<open>
  The state that the command prints is the one it has written to the genesis file, with at least one
  transaction from the directory of the flag or, without it, from the one of the node.
\<close>

lemma collect_prints_written_state:
  assumes "CollectGenTxsCmd E home moniker fs f = (Ok info, f')"
  shows "co_MarshalIndent E (nf_Genesis f') = Ok (pi_AppMessage info) \<and> co_export E (nf_Genesis f') = Ok () \<and>
    (\<exists>txs docState. co_GenesisDoc E = Ok (pi_ChainID info, docState) \<and> collectTxs (co_sdk E) (co_decode E) (co_view E) (co_AmountOf E) moniker (co_ReadDir E (pi_GenTxsDir info)) docState
       (co_genBalances E) = Ok (txs, nf_PersistentPeers f') \<and> txs \<noteq> []) \<and>
    (fl_str fs flagGenTxDir = Some [] \<longrightarrow> pi_GenTxsDir info = [home, ''config'', ''gentx''])"
proof -
  from assms show ?thesis
    unfolding CollectGenTxsCmd_def AddGenTxsToGenesisFile_def newPrintInfo_def Let_def
    by (auto elim!: bindS_OkE simp: GetString_def wrapS_Ok_iff lift_res_def ret_def modify_def split: if_splits option.splits)
qed

section \<open>The command for genesis transactions\<close>

text \<open>
  The part of \<open>gentx\<close> (\<open>x/poe/client/cli/genutil_gentx.go\<close>) that follows the message: what it uses of the SDK for signing
  and of the system. The files by their path; \<open>None\<close> is an empty file. Signing changes the transaction that
  the builder wraps.
\<close>

record ('x, 'a, 'b, 'c) gentx_io =
  gi_Offline :: "string \<Rightarrow> bool"
  gi_Home :: string
  gi_EnsureDir :: "path \<Rightarrow> unit res"
  gi_PrintUnsigned :: "string \<Rightarrow> 'a MsgCreateValidator \<Rightarrow> 'b res"
  gi_Decode :: "'b \<Rightarrow> 'x res"
  gi_Wrap :: "'x \<Rightarrow> unit res"
  gi_Sign :: "string \<Rightarrow> 'x \<Rightarrow> 'x res"
  gi_Encode :: "'x \<Rightarrow> 'c res"

datatype 'b gentx_out = Unsigned 'b | WrittenTo path

definition makeOutputFilepath :: "('x, 'a, 'b, 'c) gentx_io \<Rightarrow> string \<Rightarrow> path res" where
  "makeOutputFilepath I nodeID =
     (let writePath = [gi_Home I, ''config'', ''gentx''] in
      bind_res (gi_EnsureDir I writePath) (\<lambda>_. Ok (writePath @ [''gentx-'' @ nodeID @ ''.json''])))"

definition readUnsignedGenTxFile :: "('x, 'a, 'b, 'c) gentx_io \<Rightarrow> 'b \<Rightarrow> 'x res" where
  "readUnsignedGenTxFile I r = gi_Decode I r"

text \<open>The file must not exist (\<open>O_EXCL\<close>); it is created before the transaction is encoded.\<close>

definition writeSignedGenTx :: "('x, 'a, 'b, 'c) gentx_io \<Rightarrow> path \<Rightarrow> 'x \<Rightarrow> (path \<rightharpoonup> 'c option, unit) act" where
  "writeSignedGenTx I outputDocument tx files =
     (if files outputDocument \<noteq> None then (fail (PlainErr ''file exists''), files)
      else (case gi_Encode I tx of
              Ok json \<Rightarrow> (Ok (), files(outputDocument \<mapsto> Some json))
            | Err e \<Rightarrow> (Err e, files(outputDocument \<mapsto> None))
            | Panic p \<Rightarrow> (Panic p, files(outputDocument \<mapsto> None))))"

definition output_document ::
    "('k, 'a, 'raw, 't, 'd) gentx_env \<Rightarrow> ('x, 'a, 'b, 'c) gentx_io \<Rightarrow> flag_set \<Rightarrow> path res" where
  "output_document G I fs =
     bind_res (gentx_node G fs) (\<lambda>(nodeID, _).
     if str_or_empty fs ''output-document'' \<noteq> [] then Ok [str_or_empty fs ''output-document'']
     else wrap_res ''failed to create output file path'' (makeOutputFilepath I nodeID))"

definition GenTxCmd ::
    "('k, 'a, 'raw, 't, 'd) gentx_env \<Rightarrow> ('x, 'a, 'b, 'c) gentx_io \<Rightarrow> flag_set \<Rightarrow> string \<Rightarrow> string \<Rightarrow> string \<Rightarrow>
     (path \<rightharpoonup> 'c option, 'b gentx_out) act" where
  "GenTxCmd G I fs name liquidAmount vestedAmount =
     bindS (lift_res (GenTx_message G fs name liquidAmount vestedAmount)) (\<lambda>(memo, msg).
     if gi_Offline I name then bindS (lift_res (gi_PrintUnsigned I memo msg)) (\<lambda>b. ret (Unsigned b))
     else
       bindS (lift_res (wrap_res ''failed to print unsigned std tx'' (gi_PrintUnsigned I memo msg))) (\<lambda>w.
       bindS (lift_res (wrap_res ''failed to read unsigned gen tx file'' (readUnsignedGenTxFile I w))) (\<lambda>stdTx.
       bindS (lift_res (wrap_res ''error creating tx builder: %w'' (gi_Wrap I stdTx))) (\<lambda>_.
       bindS (lift_res (wrap_res ''failed to sign std tx'' (gi_Sign I name stdTx))) (\<lambda>signed.
       bindS (lift_res (output_document G I fs)) (\<lambda>outputDocument.
       bindS (wrapS ''failed to write signed gen tx'' (writeSignedGenTx I outputDocument signed)) (\<lambda>_.
       ret (WrittenTo outputDocument))))))))"

text \<open>
  What is documented of the SDK: the printed transaction has the memo and the message it was built from,
  signing keeps them, and a transaction is decoded from its encoding.
\<close>

definition gentx_io_laws :: "('x, 'a, 'b, 'c) gentx_io \<Rightarrow> ('x, 'a) tx_view \<Rightarrow> ('c \<Rightarrow> 'x res) \<Rightarrow> bool" where
  "gentx_io_laws I T decodeTx \<longleftrightarrow>
     (\<forall>memo msg b tx. gi_PrintUnsigned I memo msg = Ok b \<longrightarrow> gi_Decode I b = Ok tx \<longrightarrow> tv_Memo T tx = Some memo \<and> tv_Msgs T tx = [CreateMsg msg]) \<and>
     (\<forall>name tx tx'. gi_Sign I name tx = Ok tx' \<longrightarrow> tv_Memo T tx' = tv_Memo T tx \<and> tv_Msgs T tx' = tv_Msgs T tx) \<and>
     (\<forall>tx c. gi_Encode I tx = Ok c \<longrightarrow> decodeTx c = Ok tx)"

lemma GenTxCmd_written:
  assumes laws: "gentx_io_laws I T decodeTx" and cmd: "GenTxCmd G I fs name liquid vested s = (Ok (WrittenTo p), s')"
  obtains memo msg tx c where "GenTx_message G fs name liquid vested = Ok (memo, msg)" "tv_Memo T tx = Some memo" "tv_Msgs T tx = [CreateMsg msg]"
    "decodeTx c = Ok tx" "s p = None" "s' = s(p \<mapsto> Some c)" "output_document G I fs = Ok p"
proof -
  from cmd obtain memo msg w stdTx tx where m: "GenTx_message G fs name liquid vested = Ok (memo, msg)"
    and tx: "gi_PrintUnsigned I memo msg = Ok w" "gi_Decode I w = Ok stdTx" "gi_Sign I name stdTx = Ok tx"
    and out: "output_document G I fs = Ok p" "writeSignedGenTx I p tx s = (Ok (), s')"
    unfolding GenTxCmd_def readUnsignedGenTxFile_def
    by (auto elim!: bindS_OkE simp: lift_res_def ret_def wrapS_Ok_iff split: if_splits)
  from out(2) obtain c where "s p = None" "gi_Encode I tx = Ok c" "s' = s(p \<mapsto> Some c)"
    by (auto simp: writeSignedGenTx_def split: if_splits res.splits)
  moreover have "tv_Memo T tx = Some memo" "tv_Msgs T tx = [CreateMsg msg]"
    using laws tx unfolding gentx_io_laws_def by metis+
  moreover have "decodeTx c = Ok tx" using laws \<open>gi_Encode I tx = Ok c\<close> unfolding gentx_io_laws_def by blast
  ultimately show thesis using that m out(1) by blast
qed

text \<open>A transaction is never overwritten: the same command fails a second time and leaves the files as they are.\<close>

lemma gentx_written_once:
  assumes laws: "gentx_io_laws I T decodeTx" and cmd: "GenTxCmd G I fs name liquid vested s = (Ok (WrittenTo p), s')"
  shows "\<exists>e. GenTxCmd G I fs name liquid vested s' = (Err e, s')"
proof -
  obtain memo msg tx c where w: "s' = s(p \<mapsto> Some c)" by (rule GenTxCmd_written [OF laws cmd])
  from cmd obtain memo msg w stdTx u tx where
    steps: "GenTx_message G fs name liquid vested = Ok (memo, msg)" "\<not> gi_Offline I name" "gi_PrintUnsigned I memo msg = Ok w"
      "gi_Decode I w = Ok stdTx" "gi_Wrap I stdTx = Ok u" "gi_Sign I name stdTx = Ok tx" "output_document G I fs = Ok p"
    unfolding GenTxCmd_def readUnsignedGenTxFile_def
    by (auto elim!: bindS_OkE simp: lift_res_def ret_def wrapS_Ok_iff split: if_splits)
  have "writeSignedGenTx I p tx s' = (fail (PlainErr ''file exists''), s')" using w by (simp add: writeSignedGenTx_def)
  with steps show ?thesis
    by (simp add: GenTxCmd_def readUnsignedGenTxFile_def bindS_def lift_res_def wrapS_def fail_def)
qed

text \<open>
  C19: The transaction that the command has written to its default place, for a node with an id and an
  address and with a liquid amount in the bond denomination, is accepted when the transactions are collected: the file is a new one
  with the name of the node, and collecting it for the same genesis state gives the one transaction, with
  the node as a peer of every other node. The command does not run a second time.
\<close>

theorem gentx_command_collected:
  assumes laws: "gentx_laws G" "gentx_io_laws I T decodeTx" and cmd: "GenTxCmd G I fs name liquid vested s = (Ok (WrittenTo p), s')"
    and genesis: "gentx_genesis G = Ok (chainID, app)" "GetGenesisStateFromAppState (ge_codec G) app = Ok gs" "GetSeedContracts gs = Some seed"
      "\<forall>memo msg. GenTx_message G fs name liquid vested = Ok (memo, msg) \<longrightarrow> mc_Denom (cv_Amount msg) = BondDenom seed"
    and node: "gentx_node G fs = Ok (nodeID, pk)" "nodeID \<noteq> []" "fl_str fs FlagIP = Some ip" "ip \<noteq> []"
    and default: "str_or_empty fs ''output-document'' = []"
  shows "p = [gi_Home I, ''config'', ''gentx'', ''gentx-'' @ nodeID @ ''.json''] \<and> s p = None \<and>
    (\<exists>c tx msg. s' = s(p \<mapsto> Some c) \<and> tv_Msgs T tx = [CreateMsg msg] \<and>
      collectTxs (c_sdk (ge_cli G)) decodeTx T (ge_AmountOf G) moniker (Ok [\<lparr>fo_Name = last p, fo_IsDir = False, fo_Content = Ok c\<rparr>])
        (Ok app) (ge_genBalances G) =
        Ok ([tx], if Moniker (cv_Description msg) \<noteq> moniker then nodeID @ ''@'' @ ip @ '':26656'' else [])) \<and>
    (\<exists>e. GenTxCmd G I fs name liquid vested s' = (Err e, s'))"
proof -
  obtain memo msg tx c where m: "GenTx_message G fs name liquid vested = Ok (memo, msg)" and tx: "tv_Memo T tx = Some memo" "tv_Msgs T tx = [CreateMsg msg]"
    and c: "decodeTx c = Ok tx" "s p = None" "s' = s(p \<mapsto> Some c)" and out: "output_document G I fs = Ok p"
    by (rule GenTxCmd_written [OF laws(2) cmd])
  have p: "p = [gi_Home I, ''config'', ''gentx'', ''gentx-'' @ nodeID @ ''.json'']"
    using out node(1) default by (auto simp: output_document_def makeOutputFilepath_def bind_res_Ok_iff)
  have memo: "memo = nodeID @ ''@'' @ ip @ '':26656''"
    and chk: "check_gen_tx T (ge_AmountOf G) (balances_map (c_sdk (ge_cli G)) (ge_genBalances G app)) tx = Ok (memo, msg)"
    using gentx_checked [OF laws(1) m genesis(1-3) genesis(4) [rule_format, OF m] node tx] by simp_all
  have "has_suffix (last p) ''.json''" by (simp add: p has_suffix_def)
  then have "collectTxs (c_sdk (ge_cli G)) decodeTx T (ge_AmountOf G) moniker (Ok [\<lparr>fo_Name = last p, fo_IsDir = False, fo_Content = Ok c\<rparr>])
        (Ok app) (ge_genBalances G) =
        Ok ([tx], if Moniker (cv_Description msg) \<noteq> moniker then nodeID @ ''@'' @ ip @ '':26656'' else [])"
    using c(1) chk memo by (simp add: collectTxs_def strings_Join_def)
  with p c(2,3) tx(2) gentx_written_once [OF laws(2) cmd] show ?thesis by blast
qed

definition sample_gentx_io :: "(string \<times> unit MsgCreateValidator, unit, string \<times> unit MsgCreateValidator, string \<times> unit MsgCreateValidator) gentx_io" where
  "sample_gentx_io =
     \<lparr>gi_Offline = (\<lambda>_. False), gi_Home = ''home'', gi_EnsureDir = (\<lambda>_. Ok ()), gi_PrintUnsigned = (\<lambda>memo msg. Ok (memo, msg)), gi_Decode = Ok,
      gi_Wrap = (\<lambda>_. Ok ()), gi_Sign = (\<lambda>_ tx. Ok tx), gi_Encode = Ok\<rparr>"

definition sample_tx_view :: "(string \<times> unit MsgCreateValidator, unit) tx_view" where
  "sample_tx_view = \<lparr>tv_Memo = (\<lambda>tx. Some (fst tx)), tv_Msgs = (\<lambda>tx. [CreateMsg (snd tx)])\<rparr>"

theorem gentx_command_collected_witness:
  "\<exists>s' c tx peers. GenTxCmd sample_gentx sample_gentx_io (sample_flags ''123'') ''key'' ''123'' ''45'' Map.empty =
      (Ok (WrittenTo [''home'', ''config'', ''gentx'', ''gentx-node.json'']), s') \<and>
    collectTxs sample_sdk Ok sample_tx_view (ge_AmountOf sample_gentx) ''other''
      (Ok [\<lparr>fo_Name = ''gentx-node.json'', fo_IsDir = False, fo_Content = Ok c\<rparr>]) (Ok [''poe'' \<mapsto> ()]) (ge_genBalances sample_gentx) =
      Ok ([tx], peers)"
proof -
  let ?fs = "sample_flags ''123''" and ?p = "[''home'', ''config'', ''gentx'', ''gentx-node.json'']"
  obtain msg where m: "GenTx_message sample_gentx ?fs ''key'' ''123'' ''45'' = Ok (''node@1.2.3.4:26656'', msg)"
    and denom: "mc_Denom (cv_Amount msg) = ''ufury''" using sample_gentx_message by blast
  have io: "gentx_io_laws sample_gentx_io sample_tx_view Ok" by (simp add: gentx_io_laws_def sample_gentx_io_def sample_tx_view_def)
  have n: "gentx_node sample_gentx ?fs = Ok (''node'', Some ())" and g: "gentx_genesis sample_gentx = Ok (''chain'', [''poe'' \<mapsto> ()])"
    and ip: "fl_str ?fs FlagIP = Some ''1.2.3.4''" and out: "str_or_empty ?fs ''output-document'' = []"
    by (simp_all add: gentx_node_def gentx_genesis_def sample_gentx_def sample_flags_def str_or_empty_def)
  have gs: "GetGenesisStateFromAppState (ge_codec sample_gentx) [''poe'' \<mapsto> ()] = Ok (poe_GenesisState.make (NewParams 1 1 []) (SeedMode (Some sample_seed)))"
    by (simp add: sample_gentx_def GetGenesisStateFromAppState_def poe_ModuleName_def)
  have seed: "GetSeedContracts (poe_GenesisState.make (NewParams 1 1 []) (SeedMode (Some sample_seed))) = Some sample_seed"
    by (simp add: GetSeedContracts_def poe_GenesisState.make_def)
  have d: "\<forall>memo msg'. GenTx_message sample_gentx ?fs ''key'' ''123'' ''45'' = Ok (memo, msg') \<longrightarrow> mc_Denom (cv_Amount msg') = BondDenom sample_seed"
    using m denom by (auto simp: sample_seed_def poe_DefaultGenesisState_def GetSeedContracts_def DefaultBondDenom_def)
  obtain s' where cmd: "GenTxCmd sample_gentx sample_gentx_io ?fs ''key'' ''123'' ''45'' Map.empty = (Ok (WrittenTo ?p), s')"
    by (simp add: GenTxCmd_def m n out output_document_def makeOutputFilepath_def readUnsignedGenTxFile_def writeSignedGenTx_def sample_gentx_io_def
        bindS_def lift_res_def wrapS_def ret_def)
  have sdk: "c_sdk (ge_cli sample_gentx) = sample_sdk" and l: "last ?p = ''gentx-node.json''" and ne: "''node'' \<noteq> []" "''1.2.3.4'' \<noteq> []"
    by (simp_all add: sample_gentx_def sample_cli_def)
  note col = gentx_command_collected [OF sample_gentx_laws io cmd g gs seed d n ne(1) ip ne(2) out, where moniker = "''other''", unfolded sdk l]
  from col obtain c tx peers where "collectTxs sample_sdk Ok sample_tx_view (ge_AmountOf sample_gentx) ''other''
      (Ok [\<lparr>fo_Name = ''gentx-node.json'', fo_IsDir = False, fo_Content = Ok c\<rparr>]) (Ok [''poe'' \<mapsto> ()]) (ge_genBalances sample_gentx) =
      Ok ([tx], peers)" by (elim conjE exE)
  with cmd show ?thesis by blast
qed

end
