(* ===== verification/PoEQueryCmds.thy ===== *)
theory PoEQueryCmds
  imports PoEQueryProperties PoEGenTx
begin

text \<open>
  The query commands of the module (\<open>x/poe/client/cli/query.go\<close>): what they ask the queries of \<open>PoEQueries\<close>
  and what they print. The transport of requests and the printing itself are not modelled.
\<close>

section \<open>Environment\<close>

abbreviation "flagAddress \<equiv> ''address''"
abbreviation "FlagPageKey \<equiv> ''page-key''"

datatype 'r printed = PrintString string | PrintProto 'r

text \<open>
  What the commands use of the SDK: the pagination read from flags, addresses of operators, and the
  amount and the text of decimal coins.
\<close>

record ('d, 'c) query_cli =
  qc_ReadPageRequest :: "flag_set \<Rightarrow> PageRequest res"
  qc_ValAddressFromBech32 :: "string \<Rightarrow> addr res"
  qc_ValAddrString :: "addr \<Rightarrow> string"
  qc_Amount :: "'c \<Rightarrow> 'd"
  qc_ZeroDec :: 'd
  qc_Dec_String :: "'d \<Rightarrow> string"

section \<open>The commands\<close>

definition GetCmdShowPoEContract :: "sdk_ops \<Rightarrow> 'w poe_state \<Rightarrow> flag_set \<Rightarrow> string \<Rightarrow> string printed res" where
  "GetCmdShowPoEContract K s fs arg0 =
     (let cbt = PoEContractTypeFrom arg0 in
      if cbt = PoEContractTypeUndefined then fail (PlainErr ''unknown contract type: %q'')
      else
        bind_res (query_ContractAddress K s (Some cbt)) (\<lambda>address.
        if GetBool fs flagAddress = Ok True then Ok (PrintString address) else Ok (PrintProto address)))"

definition GetCmdQueryUnbondingPeriod :: "'w poe_calls \<Rightarrow> 'w poe_state \<Rightarrow> duration printed res" where
  "GetCmdQueryUnbondingPeriod X s = bind_res (query_UnbondingPeriod X s (Some ())) (\<lambda>r. Ok (PrintProto r))"

text \<open>\<open>panic(err.Error())\<close>; the key is decoded from base64 before the SDK reads the flags.\<close>

definition withPageKeyDecoded :: "flag_set \<Rightarrow> flag_set res" where
  "withPageKeyDecoded flagSet =
     bind_res (must_ok (GetString flagSet FlagPageKey)) (\<lambda>encoded.
     bind_res (must_ok (base64_decode encoded)) (\<lambda>raw.
     Ok (flagSet\<lparr>fl_str := (fl_str flagSet)(FlagPageKey \<mapsto> bytes_string raw)\<rparr>)))"

definition GetCmdQueryValidators ::
    "('d, 'c) query_cli \<Rightarrow> ('a, 'e) val_env \<Rightarrow> 'w poe_calls \<Rightarrow> 'w poe_state \<Rightarrow> flag_set \<Rightarrow>
     (('a, 'e) sdk_Validator list \<times> bytes option) printed res" where
  "GetCmdQueryValidators Q V X s fs =
     bind_res (withPageKeyDecoded fs) (\<lambda>fs'.
     bind_res (qc_ReadPageRequest Q fs') (\<lambda>pageReq.
     bind_res (query_Validators V X s (Some \<lparr>vq_Status = [], vq_Pagination = Some pageReq\<rparr>)) (\<lambda>result.
     Ok (PrintProto result))))"

definition GetCmdQueryValidator ::
    "sdk_ops \<Rightarrow> ('a, 'd) val_env \<Rightarrow> 'w poe_calls \<Rightarrow> 'w poe_state \<Rightarrow> string \<Rightarrow> ('a, 'd) sdk_Validator printed res" where
  "GetCmdQueryValidator K V X s arg0 =
     bind_res (sAccAddressFromBech32 K arg0) (\<lambda>addr.
     bind_res (query_Validator K V X s (Some (sAddrString K addr))) (\<lambda>v. Ok (PrintProto v)))"

definition allPoEContractTypeNames :: "(int \<times> string) list \<Rightarrow> string" where
  "allPoEContractTypeNames order =
     strings_Join (snd (IteratePoEContractTypes order (\<lambda>tp names. (Ok False, names @ [PoEContractType_String tp])) [])) '', ''"

definition GetCmdQueryHistoricalInfo :: "('hd, 'h) hist_ops \<Rightarrow> 'w poe_state \<Rightarrow> string \<Rightarrow> 'h printed res" where
  "GetCmdQueryHistoricalInfo H s arg0 =
     (case parse_int arg0 of
        Ok height \<Rightarrow>
          if height < 0 then fail (PlainErr ''height argument provided must be a non-negative-integer: %v'')
          else bind_res (query_HistoricalInfo H s (Some height)) (\<lambda>hist. Ok (PrintProto hist))
      | Err e \<Rightarrow> fail (PlainErr ''height argument provided must be a non-negative-integer: %v'')
      | Panic p \<Rightarrow> Panic p)"

definition GetCmdQueryValidatorDelegation ::
    "('d, 'c) query_cli \<Rightarrow> sdk_ops \<Rightarrow> coin_ext \<Rightarrow> ('d, 'c) query_ops \<Rightarrow> 'w poe_calls \<Rightarrow> 'w poe_state \<Rightarrow> string \<Rightarrow> msg_coin printed res" where
  "GetCmdQueryValidatorDelegation Q K C O' X s arg0 =
     bind_res (qc_ValAddressFromBech32 Q arg0) (\<lambda>valAddr.
     bind_res (query_ValidatorDelegation K C O' X s (Some (qc_ValAddrString Q valAddr))) (\<lambda>r. Ok (PrintProto r)))"

text \<open>The pagination is read and sent; the query does not look at it.\<close>

definition GetCmdQueryValidatorUnbondingDelegations ::
    "('d, 'c) query_cli \<Rightarrow> sdk_ops \<Rightarrow> 'd sdk_json \<Rightarrow> 'w poe_calls \<Rightarrow> 'w poe_state \<Rightarrow> flag_set \<Rightarrow> string \<Rightarrow>
     UnbondingDelegationEntry list printed res" where
  "GetCmdQueryValidatorUnbondingDelegations Q K J X s fs arg0 =
     bind_res (qc_ValAddressFromBech32 Q arg0) (\<lambda>valAddr.
     bind_res (withPageKeyDecoded fs) (\<lambda>fs'.
     bind_res (qc_ReadPageRequest Q fs') (\<lambda>pageReq.
     bind_res (query_ValidatorUnbondingDelegations K J X s (Some (qc_ValAddrString Q valAddr))) (\<lambda>r. Ok (PrintProto r)))))"

definition queryDistributionRewards ::
    "('d, 'c) query_cli \<Rightarrow> sdk_ops \<Rightarrow> ('d, 'c) query_ops \<Rightarrow> 'd sdk_json \<Rightarrow> 'w poe_calls \<Rightarrow> 'w poe_state \<Rightarrow> addr \<Rightarrow> 'c res" where
  "queryDistributionRewards Q K O' J X s valAddr = query_ValidatorOutstandingReward K O' J X s (Some (qc_ValAddrString Q valAddr))"

definition queryEngagementRewards ::
    "('d, 'c) query_cli \<Rightarrow> sdk_ops \<Rightarrow> ('d, 'c) query_ops \<Rightarrow> 'd sdk_json \<Rightarrow> 'w poe_calls \<Rightarrow> 'w poe_state \<Rightarrow> addr \<Rightarrow> 'c res" where
  "queryEngagementRewards Q K O' J X s valAddr = query_ValidatorEngagementReward K O' J X s (Some (qc_ValAddrString Q valAddr))"

definition add_reward :: "('d, 'c) query_cli \<Rightarrow> 'd dec_ops \<Rightarrow> 'c res \<Rightarrow> 'd \<Rightarrow> 'd res" where
  "add_reward Q D r acc = bind_res r (\<lambda>reward. Dec_Add D acc (qc_Amount Q reward))"

definition GetCmdQueryValidatorReward ::
    "('d, 'c) query_cli \<Rightarrow> sdk_ops \<Rightarrow> 'd dec_ops \<Rightarrow> ('d, 'c) query_ops \<Rightarrow> 'd sdk_json \<Rightarrow> 'w poe_calls \<Rightarrow> 'w poe_state \<Rightarrow> flag_set \<Rightarrow> string \<Rightarrow>
     string printed res" where
  "GetCmdQueryValidatorReward Q K D O' J X s fs arg0 =
     bind_res (qc_ValAddressFromBech32 Q arg0) (\<lambda>valAddr.
     bind_res (GetBool fs flagDistribution) (\<lambda>distrRewards.
     bind_res (GetBool fs flagEngagement) (\<lambda>engRewards.
     let distr = add_reward Q D (queryDistributionRewards Q K O' J X s valAddr);
         eng = add_reward Q D (queryEngagementRewards Q K O' J X s valAddr) in
     bind_res (if \<not> (distrRewards \<or> engRewards) then bind_res (distr (qc_ZeroDec Q)) eng else Ok (qc_ZeroDec Q)) (\<lambda>t1.
     bind_res (if distrRewards then distr t1 else Ok t1) (\<lambda>t2.
     bind_res (if engRewards then eng t2 else Ok t2) (\<lambda>t3.
     Ok (PrintString (qc_Dec_String Q t3))))))))"

section \<open>What the commands print\<close>

text \<open>Without flags the rewards of both contracts are added, as with both flags.\<close>

definition reward_flags :: "bool \<Rightarrow> bool \<Rightarrow> flag_set" where
  "reward_flags d e = \<lparr>fl_str = Map.empty, fl_bool = [flagDistribution \<mapsto> d, flagEngagement \<mapsto> e]\<rparr>"

lemma reward_without_flags:
  "GetCmdQueryValidatorReward Q K D O' J X s (reward_flags False False) arg0 =
   GetCmdQueryValidatorReward Q K D O' J X s (reward_flags True True) arg0"
proof -
  have b: "GetBool (reward_flags d e) flagDistribution = Ok d" "GetBool (reward_flags d e) flagEngagement = Ok e" for d e
    by (simp_all add: GetBool_def reward_flags_def)
  show ?thesis
    unfolding GetCmdQueryValidatorReward_def b
    by (cases "qc_ValAddressFromBech32 Q arg0") (simp_all add: Let_def bind_res_assoc)
qed

lemma type_names_listed:
  assumes "mset order = mset PoEContractType_name"
  shows "allPoEContractTypeNames order = ''ARBITER_POOL, ARBITER_POOL_VOTING, COMMUNITY_POOL, DISTRIBUTION, ENGAGEMENT, MIXER, '' @
    ''OVERSIGHT_COMMUNITY, OVERSIGHT_COMMUNITY_PROPOSALS, STAKING, VALIDATOR_VOTING, VALSET''"
proof -
  have all: "call_types names (\<lambda>tp names. (Ok False, names @ [PoEContractType_String tp])) acc =
      (Ok (), acc @ map (\<lambda>n. PoEContractType_String (PoEContractTypeFrom n)) names)" for names acc
    by (induction names arbitrary: acc) (simp_all add: bindS_def ret_def)
  have "map PoEContractTypeFrom sorted_type_names = [10, 11, 8, 5, 3, 4, 6, 7, 1, 9, 2]" by (rule sorted_type_names_types)
  then have "map (\<lambda>n. PoEContractType_String (PoEContractTypeFrom n)) sorted_type_names =
      map PoEContractType_String [10, 11, 8, 5, 3, 4, 6, 7, 1, 9, 2]" by (metis (no_types, lifting) list.map_comp comp_apply map_eq_conv)
  then show ?thesis
    unfolding allPoEContractTypeNames_def IteratePoEContractTypes_def sort_collect_names [OF assms] all
    by (simp add: strings_Join_def PoEContractType_String_def PoEContractType_name_def)
qed

lemma values_named:
  "list_all (\<lambda>(n, v). v \<noteq> 0 \<longrightarrow> PoEContractType_ValidateBasic v = Ok () \<and> PoEContractType_String v = n) PoEContractType_value"
  by code_simp

section \<open>Properties\<close>

text \<open>
  After an address was registered for a kind of contract, the command with the name of the kind prints
  the text of this address; for a name that is no kind it fails, without asking the chain.
\<close>

lemma show_contract_command:
  "(PoEContractType_ValidateBasic t = Ok () \<longrightarrow>
     GetCmdShowPoEContract K (SetPoEContractAddress t a s) \<lparr>fl_str = Map.empty, fl_bool = [flagAddress \<mapsto> True]\<rparr> (PoEContractType_String t) =
       Ok (PrintString (sAddrString K a))) \<and>
   ((\<forall>t. PoEContractType_ValidateBasic t = Ok () \<longrightarrow> name \<noteq> PoEContractType_String t) \<longrightarrow>
     GetCmdShowPoEContract K s fs name = fail (PlainErr ''unknown contract type: %q''))"
proof (intro conjI impI)
  assume t: "PoEContractType_ValidateBasic t = Ok ()"
  then have "t \<noteq> PoEContractTypeUndefined" by (auto simp: PoEContractType_ValidateBasic_def)
  with t show "GetCmdShowPoEContract K (SetPoEContractAddress t a s) \<lparr>fl_str = Map.empty, fl_bool = [flagAddress \<mapsto> True]\<rparr> (PoEContractType_String t) =
       Ok (PrintString (sAddrString K a))"
    by (simp add: GetCmdShowPoEContract_def PoEContractTypeFrom_String query_ContractAddress_def with_request_def cs.get_put GetBool_def)
next
  assume no: "\<forall>t. PoEContractType_ValidateBasic t = Ok () \<longrightarrow> name \<noteq> PoEContractType_String t"
  have "PoEContractTypeFrom name = PoEContractTypeUndefined"
  proof (rule ccontr)
    assume u: "PoEContractTypeFrom name \<noteq> PoEContractTypeUndefined"
    then obtain v where v: "map_of PoEContractType_value name = Some v" "PoEContractTypeFrom name = v" "v \<noteq> 0"
      by (auto simp: PoEContractTypeFrom_def PoEContractTypeUndefined_def split: option.splits)
    then have "(name, v) \<in> set PoEContractType_value" by (simp add: map_of_SomeD)
    then have "PoEContractType_ValidateBasic v = Ok () \<and> PoEContractType_String v = name"
      using v(3) values_named by (auto simp: list_all_iff)
    with no show False by auto
  qed
  then show "GetCmdShowPoEContract K s fs name = fail (PlainErr ''unknown contract type: %q'')"
    by (simp add: GetCmdShowPoEContract_def)
qed

lemma show_contract_command_sample:
  "GetCmdShowPoEContract sample_sdk (SetPoEContractAddress PoEContractTypeValset [7] (emptyState ()))
     \<lparr>fl_str = Map.empty, fl_bool = [flagAddress \<mapsto> True]\<rparr> ''VALSET'' = Ok (PrintString (sAddrString sample_sdk [7])) \<and>
   GetCmdShowPoEContract sample_sdk (emptyState ()) \<lparr>fl_str = Map.empty, fl_bool = Map.empty\<rparr> ''valset'' =
     fail (PlainErr ''unknown contract type: %q'')"
proof -
  have t: "PoEContractType_ValidateBasic PoEContractTypeValset = Ok ()" "PoEContractType_String PoEContractTypeValset = ''VALSET''"
    by code_simp+
  have v: "PoEContractTypeFrom ''valset'' = PoEContractTypeUndefined" by code_simp
  have no: "\<forall>t. PoEContractType_ValidateBasic t = Ok () \<longrightarrow> ''valset'' \<noteq> PoEContractType_String t"
  proof (intro allI impI notI)
    fix t assume ok: "PoEContractType_ValidateBasic t = Ok ()" and "''valset'' = PoEContractType_String t"
    then have "t = PoEContractTypeUndefined" using PoEContractTypeFrom_String [OF ok] v by simp
    with ok show False by (simp add: PoEContractType_ValidateBasic_def)
  qed
  show ?thesis
    using show_contract_command [of PoEContractTypeValset sample_sdk "[7]" "emptyState ()" "''valset''" "\<lparr>fl_str = Map.empty, fl_bool = Map.empty\<rparr>"] t no
      show_contract_command [of PoEContractTypeValset sample_sdk "[7]" "emptyState ()"] by simp
qed

text \<open>
  C36: The page key that a listing prints in base64 reaches the query unchanged when it is given back as a
  flag, so the command continues where the previous page ended; a key that is not base64 makes the command
  panic before anything is asked. The commands define no flag for an offset or a count.
\<close>

theorem page_key_returned:
  assumes read: "\<And>fs. \<exists>n. qc_ReadPageRequest Q fs =
      Ok \<lparr>pr_Key = Some (string_bytes (str_or_empty fs FlagPageKey)), pr_Offset = 0, pr_Limit = n, pr_CountTotal = False\<rparr>"
  shows "(fl_str fs FlagPageKey = Some (base64_encode key) \<longrightarrow> (\<exists>n. GetCmdQueryValidators Q V X s fs =
      bind_res (query_Validators V X s (Some \<lparr>vq_Status = [], vq_Pagination =
        Some \<lparr>pr_Key = Some key, pr_Offset = 0, pr_Limit = n, pr_CountTotal = False\<rparr>\<rparr>)) (\<lambda>r. Ok (PrintProto r)))) \<and>
    (fl_str fs FlagPageKey = Some given \<longrightarrow> \<not> is_ok (base64_decode given) \<longrightarrow> (\<exists>p. GetCmdQueryValidators Q V X s fs = Panic p))"
proof (intro conjI impI)
  assume key: "fl_str fs FlagPageKey = Some (base64_encode key)"
  let ?fs = "fs\<lparr>fl_str := (fl_str fs)(FlagPageKey \<mapsto> bytes_string key)\<rparr>"
  have dec: "withPageKeyDecoded fs = Ok ?fs" using key by (simp add: withPageKeyDecoded_def GetString_def base64_roundtrip)
  obtain n where "qc_ReadPageRequest Q ?fs =
      Ok \<lparr>pr_Key = Some (string_bytes (str_or_empty ?fs FlagPageKey)), pr_Offset = 0, pr_Limit = n, pr_CountTotal = False\<rparr>"
    using read by blast
  then have "qc_ReadPageRequest Q ?fs = Ok \<lparr>pr_Key = Some key, pr_Offset = 0, pr_Limit = n, pr_CountTotal = False\<rparr>"
    by (simp add: str_or_empty_def string_bytes_inverse)
  then show "\<exists>n. GetCmdQueryValidators Q V X s fs =
      bind_res (query_Validators V X s (Some \<lparr>vq_Status = [], vq_Pagination =
        Some \<lparr>pr_Key = Some key, pr_Offset = 0, pr_Limit = n, pr_CountTotal = False\<rparr>\<rparr>)) (\<lambda>r. Ok (PrintProto r))"
    by (intro exI [of _ n]) (simp add: GetCmdQueryValidators_def dec)
next
  assume "fl_str fs FlagPageKey = Some given" "\<not> is_ok (base64_decode given)"
  then show "\<exists>p. GetCmdQueryValidators Q V X s fs = Panic p"
    by (cases "base64_decode given") (simp_all add: GetCmdQueryValidators_def withPageKeyDecoded_def GetString_def)
qed

definition sample_query_cli :: "(rat, rat) query_cli" where
  "sample_query_cli =
     \<lparr>qc_ReadPageRequest = (\<lambda>fs. Ok \<lparr>pr_Key = Some (string_bytes (str_or_empty fs FlagPageKey)), pr_Offset = 0, pr_Limit = 100, pr_CountTotal = False\<rparr>),
      qc_ValAddressFromBech32 = (\<lambda>a. Ok (string_bytes a)), qc_ValAddrString = bytes_string, qc_Amount = (\<lambda>c. c), qc_ZeroDec = 0,
      qc_Dec_String = (\<lambda>_. [])\<rparr>"

theorem page_key_returned_witness:
  "(\<exists>n. GetCmdQueryValidators sample_query_cli sample_val_env sample_staking (emptyState ()) \<lparr>fl_str = [FlagPageKey \<mapsto> base64_encode [1, 2]], fl_bool = Map.empty\<rparr> =
      bind_res (query_Validators sample_val_env sample_staking (emptyState ()) (Some \<lparr>vq_Status = [], vq_Pagination =
        Some \<lparr>pr_Key = Some [1, 2], pr_Offset = 0, pr_Limit = n, pr_CountTotal = False\<rparr>\<rparr>)) (\<lambda>r. Ok (PrintProto r))) \<and>
   (\<exists>p. GetCmdQueryValidators sample_query_cli sample_val_env sample_staking (emptyState ()) \<lparr>fl_str = [FlagPageKey \<mapsto> ''!''], fl_bool = Map.empty\<rparr> = Panic p)"
proof -
  have read: "\<exists>n. qc_ReadPageRequest sample_query_cli fs =
      Ok \<lparr>pr_Key = Some (string_bytes (str_or_empty fs FlagPageKey)), pr_Offset = 0, pr_Limit = n, pr_CountTotal = False\<rparr>" for fs
    by (simp add: sample_query_cli_def)
  have bad: "\<not> is_ok (base64_decode ''!'')" by code_simp
  show ?thesis
    using page_key_returned [OF read, of "\<lparr>fl_str = [FlagPageKey \<mapsto> base64_encode [1, 2]], fl_bool = Map.empty\<rparr>" "[1, 2]" sample_val_env sample_staking "emptyState ()"]
      page_key_returned [OF read, of "\<lparr>fl_str = [FlagPageKey \<mapsto> ''!''], fl_bool = Map.empty\<rparr>" "[]" sample_val_env sample_staking "emptyState ()" "''!''"] bad
    by simp
qed

end
