(* ===== verification/RootCmd.thy ===== *)
theory RootCmd
  imports PoEQueryCmds AppExport
begin

text \<open>
  The root command (\<open>cmd/furya/root.go\<close>): the check of fees before a command runs, the registration of the
  denominations, the options of a node and of an export, and the reset of a node's data.
\<close>

section \<open>Denominations\<close>

definition HumanCoinUnit :: string where "HumanCoinUnit = ''furya''"
definition BaseCoinUnit :: string where "BaseCoinUnit = ''ufury''"
definition FuryExponent :: nat where "FuryExponent = 6"

text \<open>
  \<open>sdk.RegisterDenom\<close> changes a global registry, the state \<open>'g\<close>.
\<close>

definition registerDenoms :: "(string \<Rightarrow> rat \<Rightarrow> ('g, unit) act) \<Rightarrow> ('g, unit) act" where
  "registerDenoms RegisterDenom g =
     (case RegisterDenom HumanCoinUnit 1 g of
        (Ok _, g1) \<Rightarrow> (case RegisterDenom BaseCoinUnit (1 / 10 ^ FuryExponent) g1 of (r, g2) \<Rightarrow> (must_ok r, g2))
      | (r, g1) \<Rightarrow> (must_ok r, g1))"

section \<open>The limit on fees\<close>

abbreviation "FlagFees \<equiv> ''fees''"
abbreviation "FlagGas \<equiv> ''gas''"
abbreviation "FlagGasPrices \<equiv> ''gas-prices''"
abbreviation "GasFlagAuto \<equiv> ''auto''"

definition maxFees :: int where "maxFees = 100"

text \<open>
  The SDK's parsers and amounts; \<open>'c\<close> are decimal coins. \<open>sdk.Uint\<close> is a number, of which
  \<open>fe_Uint64\<close> is the low part (a panic when it has more than 64 bits).
\<close>

record ('g, 'c) fee_env =
  fe_ParseCoinsNormalized :: "'g \<Rightarrow> string \<Rightarrow> coin list res"
  fe_AmountOf :: "coin list \<Rightarrow> string \<Rightarrow> int"
  fe_ParseUint :: "string \<Rightarrow> nat res"
  fe_Uint64 :: "nat \<Rightarrow> uint64 res"
  fe_ParseDecCoins :: "string \<Rightarrow> 'c list res"
  fe_DecAmountOf :: "'c list \<Rightarrow> string \<Rightarrow> rat"

definition high_gas_price :: "('g, 'c) fee_env \<Rightarrow> flag_set \<Rightarrow> bool res" where
  "high_gas_price E fs =
     (case GetString fs FlagGas of
        Ok gas \<Rightarrow>
          if gas \<noteq> [] \<and> gas \<noteq> GasFlagAuto then
            (case fe_ParseUint E gas of
               Ok parsedGas \<Rightarrow>
                 (case fe_ParseDecCoins E FlagGasPrices of
                    Ok parsedGasPrices \<Rightarrow>
                      bind_res (fe_Uint64 E parsedGas) (\<lambda>w.
                      Ok (fe_DecAmountOf E parsedGasPrices HumanCoinUnit * of_int (int64_of_uint64 w) > of_int maxFees))
                  | Err e \<Rightarrow> Ok False
                  | Panic p \<Rightarrow> Panic p)
             | Err e \<Rightarrow> Ok False
             | Panic p \<Rightarrow> Panic p)
          else Ok False
      | _ \<Rightarrow> Ok False)"

definition areFeesTooHigh :: "('g, 'c) fee_env \<Rightarrow> 'g \<Rightarrow> flag_set \<Rightarrow> bool res" where
  "areFeesTooHigh E g fs =
     (case GetString fs FlagFees of
        Ok fees \<Rightarrow>
          if fees \<noteq> [] then
            (case fe_ParseCoinsNormalized E g fees of
               Ok parsedFees \<Rightarrow> Ok (fe_AmountOf E parsedFees HumanCoinUnit > maxFees)
             | Err e \<Rightarrow> Ok False
             | Panic p \<Rightarrow> Panic p)
          else high_gas_price E fs
      | _ \<Rightarrow> high_gas_price E fs)"

text \<open>What runs before every command: \<open>'ctx\<close> is the context of the client.\<close>

record 'ctx prerun_ops =
  po_ReadPersistentCommandFlags :: "'ctx \<Rightarrow> flag_set \<Rightarrow> 'ctx res"
  po_ReadFromClientConfig :: "'ctx \<Rightarrow> 'ctx res"
  po_SetCmdClientContextHandler :: "'ctx \<Rightarrow> unit res"
  po_InterceptConfigs :: "unit res"

definition PersistentPreRunE :: "('g, 'c) fee_env \<Rightarrow> 'ctx prerun_ops \<Rightarrow> 'g \<Rightarrow> 'ctx \<Rightarrow> flag_set \<Rightarrow> unit res" where
  "PersistentPreRunE E O' g initClientCtx fs =
     bind_res (po_ReadPersistentCommandFlags O' initClientCtx fs) (\<lambda>ctx1.
     bind_res (areFeesTooHigh E g fs) (\<lambda>high.
     if high then fail (PlainErr ''are you really really sure that you want to send this amount of fees? CLI is preventing fees higher than %dfurya'')
     else
       bind_res (po_ReadFromClientConfig O' ctx1) (\<lambda>ctx2.
       bind_res (po_SetCmdClientContextHandler O' ctx2) (\<lambda>_. po_InterceptConfigs O'))))"

section \<open>Commands that are changed\<close>

text \<open>A command by its name, its action on the state \<open>'w\<close>, if it has one, and its subcommands.\<close>

datatype 'w command = Command (c_Use: string) (c_RunE: "('w, unit) act option") (c_Commands: "'w command list")

text \<open>\<open>removeWasm\<close> is \<open>os.RemoveAll\<close> on the directory \<open>wasm\<close> below the root directory of the node.\<close>

definition reset_run :: "('w, unit) act \<Rightarrow> ('w, unit) act option \<Rightarrow> ('w, unit) act" where
  "reset_run removeWasm serverRunE w =
     (case serverRunE of
        None \<Rightarrow> (Panic ''nil pointer dereference'', w)
      | Some f \<Rightarrow>
          (case f w of
             (Err e, w1) \<Rightarrow> (Ok (), w1)
           | (Panic p, w1) \<Rightarrow> (Panic p, w1)
           | (Ok _, w1) \<Rightarrow> removeWasm w1))"

fun extend_sub :: "('w, unit) act \<Rightarrow> string \<Rightarrow> 'w command list \<Rightarrow> 'w command list option" where
  "extend_sub removeWasm unsafeReset [] = None"
| "extend_sub removeWasm unsafeReset (cmd # cmds) =
     (if c_Use cmd = unsafeReset then Some (Command (c_Use cmd) (Some (reset_run removeWasm (c_RunE cmd))) (c_Commands cmd) # cmds)
      else map_option (\<lambda>cs. cmd # cs) (extend_sub removeWasm unsafeReset cmds))"

fun extend_branches :: "('w, unit) act \<Rightarrow> string \<Rightarrow> 'w command list \<Rightarrow> 'w command list" where
  "extend_branches removeWasm unsafeReset [] = []"
| "extend_branches removeWasm unsafeReset (b # bs) =
     (if c_Use b \<noteq> ''tendermint'' then b # extend_branches removeWasm unsafeReset bs
      else (case extend_sub removeWasm unsafeReset (c_Commands b) of
              Some subs \<Rightarrow> Command (c_Use b) (c_RunE b) subs # bs
            | None \<Rightarrow> b # extend_branches removeWasm unsafeReset bs))"

definition extendUnsafeResetAllCmd :: "('w, unit) act \<Rightarrow> string \<Rightarrow> 'w command \<Rightarrow> 'w command" where
  "extendUnsafeResetAllCmd removeWasm unsafeReset rootCmd =
     Command (c_Use rootCmd) (c_RunE rootCmd) (extend_branches removeWasm unsafeReset (c_Commands rootCmd))"

text \<open>The context of the server, by the number of outbound peers; \<open>orig\<close> is the SDK's command.\<close>

definition customizeInitCmdDefaults ::
    "('ctx \<Rightarrow> int \<Rightarrow> 'ctx) \<Rightarrow> ('ctx \<Rightarrow> unit res) \<Rightarrow> ('ctx \<Rightarrow> unit res) \<Rightarrow> 'ctx \<Rightarrow> unit res" where
  "customizeInitCmdDefaults setMaxNumOutboundPeers SetCmdServerContext orig cfg =
     (let cfg' = setMaxNumOutboundPeers cfg 200 in bind_res (must_ok (SetCmdServerContext cfg')) (\<lambda>_. orig cfg'))"

section \<open>Starting and exporting\<close>

text \<open>
  The options of a node as the SDK reads them, and what \<open>NewPetriApp\<close> is called with; \<open>'p\<close> are pruning
  options, \<open>'s\<close> is the snapshot store. The cache between blocks is optional.
\<close>

record ('p, 's) node_options =
  no_InterBlockCache :: bool
  no_UnsafeSkipUpgrades :: "int list"
  no_PruningOptions :: "'p res"
  no_SnapshotStore :: "string list \<Rightarrow> 's res"
  no_Home :: "string option"
  no_InvCheckPeriod :: nat
  no_MinGasPrices :: string
  no_HaltHeight :: uint64
  no_HaltTime :: uint64
  no_MinRetainBlocks :: uint64
  no_Trace :: bool
  no_IndexEvents :: "string list"
  no_SnapshotInterval :: uint64
  no_SnapshotKeepRecent :: uint32

record ('p, 's) app_call =
  ac_LoadLatest :: bool
  ac_SkipUpgradeHeights :: "int \<rightharpoonup> bool"
  ac_Home :: string
  ac_InvCheckPeriod :: nat
  ac_Pruning :: "'p option"
  ac_MinGasPrices :: string
  ac_Halt :: "uint64 \<times> uint64"
  ac_MinRetainBlocks :: uint64
  ac_InterBlockCache :: bool
  ac_Trace :: bool
  ac_IndexEvents :: "string list"
  ac_SnapshotStore :: "'s option"
  ac_Snapshots :: "uint64 \<times> uint32"

fun skip_heights :: "int list \<Rightarrow> (int \<rightharpoonup> bool) \<Rightarrow> int \<rightharpoonup> bool" where
  "skip_heights [] m = m"
| "skip_heights (h # hs) m = skip_heights hs (m(to_int64 h \<mapsto> True))"

definition newApp :: "('p, 's) node_options \<Rightarrow> ('p, 's) app_call res" where
  "newApp N =
     (let home = (case no_Home N of None \<Rightarrow> [] | Some h \<Rightarrow> h) in
      bind_res (must_ok (no_PruningOptions N)) (\<lambda>pruningOpts.
      bind_res (must_ok (no_SnapshotStore N [home, ''data'', ''snapshots''])) (\<lambda>snapshotStore.
      Ok \<lparr>ac_LoadLatest = True, ac_SkipUpgradeHeights = skip_heights (no_UnsafeSkipUpgrades N) Map.empty, ac_Home = home,
          ac_InvCheckPeriod = no_InvCheckPeriod N, ac_Pruning = Some pruningOpts, ac_MinGasPrices = no_MinGasPrices N,
          ac_Halt = (no_HaltHeight N, no_HaltTime N), ac_MinRetainBlocks = no_MinRetainBlocks N,
          ac_InterBlockCache = no_InterBlockCache N, ac_Trace = no_Trace N, ac_IndexEvents = no_IndexEvents N,
          ac_SnapshotStore = Some snapshotStore, ac_Snapshots = (no_SnapshotInterval N, no_SnapshotKeepRecent N)\<rparr>)))"

text \<open>
  The application is created with or without the latest version loaded, then the height is loaded. The
  height of the last block is that of the loaded state.
\<close>

definition export_load ::
    "('w poe_state, unit) act \<Rightarrow> ('w poe_state, unit) act \<Rightarrow> (int \<Rightarrow> ('w poe_state, unit) act) \<Rightarrow> int \<Rightarrow> ('w poe_state, unit) act" where
  "export_load LoadLatestVersion InitializePinnedCodes LoadVersion height =
     (let loadLatest = (height = - 1) in
      seqS (if loadLatest then app_LoadLatest LoadLatestVersion InitializePinnedCodes else ret ())
        (if height \<noteq> - 1 then LoadVersion height else ret ()))"

definition appExport ::
    "nat \<Rightarrow> sdk_ops \<Rightarrow> ('a, 'd) val_env \<Rightarrow> 'pk tm_keys \<Rightarrow> 'w poe_calls \<Rightarrow> ('w poe_state \<Rightarrow> bytes res) \<Rightarrow> ('w poe_state \<Rightarrow> 'p) \<Rightarrow>
     ('w poe_state, unit) act \<Rightarrow> ('w poe_state \<Rightarrow> int) \<Rightarrow> string option \<Rightarrow> bool \<Rightarrow> 'w poe_state \<Rightarrow> ('pk, 'p) ExportedApp res option" where
  "appExport fuel K V T X genState consensusParams load lastBlockHeight home forZeroHeight s =
     (if home = None \<or> home = Some [] then Some (fail (PlainErr ''application home is not set''))
      else (case load s of
              (Ok _, s1) \<Rightarrow> ExportAppStateAndValidators fuel K V T X genState consensusParams forZeroHeight (lastBlockHeight s1) s1
            | (Err e, s1) \<Rightarrow> Some (Err e)
            | (Panic p, s1) \<Rightarrow> Some (Panic p)))"

section \<open>What is documented of the registry and of the parsers\<close>

text \<open>
  \<open>units\<close> are the registered denominations: registering adds one that is not registered yet. Normalized
  coins have no registered denomination but the one with the smallest unit. A decimal coin starts with its
  amount.
\<close>

definition registry_laws :: "('g \<Rightarrow> string \<rightharpoonup> rat) \<Rightarrow> (string \<Rightarrow> rat \<Rightarrow> ('g, unit) act) \<Rightarrow> bool" where
  "registry_laws units RegisterDenom \<longleftrightarrow>
     (\<forall>d u g g'. RegisterDenom d u g = (Ok (), g') \<longrightarrow> units g d = None \<and> units g' = (units g)(d \<mapsto> u))"

text \<open>What is parsed as decimal coins starts, after white space of any kind, with a number, so not with a letter.\<close>

definition amount_start :: "string \<Rightarrow> bool" where
  "amount_start str \<longleftrightarrow>
     str = [] \<or> \<not> (CHR ''a'' \<le> hd str \<and> hd str \<le> CHR ''z'' \<or> CHR ''A'' \<le> hd str \<and> hd str \<le> CHR ''Z'')"

definition fee_check_laws :: "('g \<Rightarrow> string \<rightharpoonup> rat) \<Rightarrow> ('g, 'c) fee_env \<Rightarrow> bool" where
  "fee_check_laws units E \<longleftrightarrow>
     (\<forall>g str cs c u d v. fe_ParseCoinsNormalized E g str = Ok cs \<longrightarrow> c \<in> set cs \<longrightarrow> units g (coin_Denom c) = Some u \<longrightarrow>
        units g d = Some v \<longrightarrow> u \<le> v) \<and>
     (\<forall>cs d. d \<notin> coin_Denom ` set cs \<longrightarrow> fe_AmountOf E cs d = 0) \<and>
     (\<forall>str cs. fe_ParseDecCoins E str = Ok cs \<longrightarrow> amount_start str)"

lemma registered_units:
  assumes "registry_laws units Reg" and "registerDenoms Reg g = (Ok (), g')"
  shows "units g' = (units g)(HumanCoinUnit \<mapsto> 1, BaseCoinUnit \<mapsto> 1 / 10 ^ FuryExponent)"
proof -
  obtain r1 g1 where g1: "Reg HumanCoinUnit 1 g = (r1, g1)" by fastforce
  obtain r2 g2 where g2: "Reg BaseCoinUnit (1 / 10 ^ FuryExponent) g1 = (r2, g2)" by fastforce
  from assms(2) g1 g2 have ok: "r1 = Ok ()" "r2 = Ok ()" "g2 = g'"
    by (cases r1; cases r2; auto simp: registerDenoms_def)+
  have "units g1 = (units g)(HumanCoinUnit \<mapsto> 1)" using assms(1) g1 ok(1) unfolding registry_laws_def by blast
  moreover have "units g' = (units g1)(BaseCoinUnit \<mapsto> 1 / 10 ^ FuryExponent)" using assms(1) g2 ok(2,3) unfolding registry_laws_def by blast
  ultimately show ?thesis by simp
qed

lemma gas_prices_not_parsed: "fee_check_laws units E \<Longrightarrow> fe_ParseDecCoins E FlagGasPrices \<noteq> Ok cs"
proof -
  have "\<not> amount_start FlagGasPrices" by code_simp
  then show "fee_check_laws units E \<Longrightarrow> fe_ParseDecCoins E FlagGasPrices \<noteq> Ok cs" unfolding fee_check_laws_def by blast
qed

lemma high_gas_price_never: "fee_check_laws units E \<Longrightarrow> high_gas_price E fs \<noteq> Ok True"
  using gas_prices_not_parsed [of units E]
  by (auto simp: high_gas_price_def bind_res_Ok_iff split: res.splits if_splits)

section \<open>Properties\<close>

text \<open>
  C37: The limit on fees has no effect once the denominations are registered: the amounts that the flag for
  fees is parsed to are in the base unit, while the check looks for the human unit, and the check of the gas
  price parses the name of the flag in place of its value. No command is refused for its fees.
\<close>

theorem fee_limit_without_effect:
  assumes laws: "registry_laws units Reg" "fee_check_laws units E" and reg: "registerDenoms Reg g0 = (Ok (), g)"
  shows "areFeesTooHigh E g fs \<noteq> Ok True"
proof -
  have units: "units g HumanCoinUnit = Some 1" "units g BaseCoinUnit = Some (1 / 10 ^ FuryExponent)"
    using registered_units [OF laws(1) reg] by (simp_all add: HumanCoinUnit_def BaseCoinUnit_def)
  have "fe_AmountOf E cs HumanCoinUnit \<le> maxFees" if cs: "fe_ParseCoinsNormalized E g str = Ok cs" for str cs
  proof -
    have "HumanCoinUnit \<notin> coin_Denom ` set cs"
    proof
      assume "HumanCoinUnit \<in> coin_Denom ` set cs"
      then obtain c where c: "c \<in> set cs" "coin_Denom c = HumanCoinUnit" by auto
      have "(1 :: rat) \<le> 1 / 10 ^ FuryExponent"
        using laws(2) cs c units unfolding fee_check_laws_def by metis
      then show False by (simp add: FuryExponent_def)
    qed
    then have "fe_AmountOf E cs HumanCoinUnit = 0" using laws(2) unfolding fee_check_laws_def by blast
    then show ?thesis by (simp add: maxFees_def)
  qed
  then show ?thesis
    using high_gas_price_never [OF laws(2), of fs] by (auto simp: areFeesTooHigh_def not_less split: res.splits if_splits)
qed

text \<open>
  The reset command, where the tree of commands has it, ends without an error when the reset itself has
  failed, and does not remove the directory of the contracts then; after a successful reset the directory is
  removed. All other commands are as before.
\<close>

lemma reset_hides_errors:
  assumes tree: "c_Commands rootCmd = bs1 @ Command ''tendermint'' r (cs1 @ Command reset (Some f) subs # cs2) # bs2"
    and first: "\<forall>b \<in> set bs1. c_Use b \<noteq> ''tendermint''" "\<forall>c \<in> set cs1. c_Use c \<noteq> reset"
  shows "\<exists>f'. c_Commands (extendUnsafeResetAllCmd removeWasm reset rootCmd) =
      bs1 @ Command ''tendermint'' r (cs1 @ Command reset (Some f') subs # cs2) # bs2 \<and>
    (\<forall>w e w1. f w = (Err e, w1) \<longrightarrow> f' w = (Ok (), w1)) \<and> (\<forall>w w1. f w = (Ok (), w1) \<longrightarrow> f' w = removeWasm w1)"
proof -
  have sub: "extend_sub removeWasm reset (cs1 @ Command reset (Some f) subs # cs2) =
      Some (cs1 @ Command reset (Some (reset_run removeWasm (Some f))) subs # cs2)"
    using first(2) by (induction cs1) simp_all
  have "extend_branches removeWasm reset (bs1 @ Command ''tendermint'' r (cs1 @ Command reset (Some f) subs # cs2) # bs2) =
      bs1 @ Command ''tendermint'' r (cs1 @ Command reset (Some (reset_run removeWasm (Some f))) subs # cs2) # bs2"
    using first(1) by (induction bs1) (simp_all add: sub)
  then show ?thesis
    unfolding extendUnsafeResetAllCmd_def tree by (auto simp: reset_run_def)
qed

lemma skip_heights_set: "skip_heights hs m h = (if h \<in> to_int64 ` set hs then Some True else m h)"
  by (induction hs arbitrary: m) auto

lemma newApp_skips:
  assumes "newApp N = Ok a" and "\<forall>h \<in> set (no_UnsafeSkipUpgrades N). in_int64 h"
  shows "ac_SkipUpgradeHeights a h = (if h \<in> set (no_UnsafeSkipUpgrades N) then Some True else None)"
proof -
  have "to_int64 ` set (no_UnsafeSkipUpgrades N) = set (no_UnsafeSkipUpgrades N)" using assms(2) by (force simp: to_int64_id)
  then show ?thesis using assms(1) by (auto simp: newApp_def Let_def bind_res_Ok_iff skip_heights_set)
qed

text \<open>A successful export is one of the state that was loaded, at the height after its last block.\<close>

lemma appExport_Ok:
  assumes "appExport fuel K V T X genState cp load lastBlockHeight home zero s = Some (Ok e)"
  shows "\<exists>s1 app. load s = (Ok (), s1) \<and> genState s1 = Ok app \<and> ea_AppState e = app \<and> ea_Height e = to_int64 (lastBlockHeight s1 + 1) \<and>
    \<not> zero \<and> (\<exists>h. home = Some h \<and> h \<noteq> [])"
proof -
  obtain r s1 where l: "load s = (r, s1)" by fastforce
  with assms have h: "home \<noteq> None" "home \<noteq> Some []" and r: "r = Ok ()"
    and ex: "ExportAppStateAndValidators fuel K V T X genState cp zero (lastBlockHeight s1) s1 = Some (Ok e)"
    by (cases r; auto simp: appExport_def split: if_splits)+
  from ex have "\<not> zero" "\<exists>app. genState s1 = Ok app \<and> ea_AppState e = app \<and> ea_Height e = to_int64 (lastBlockHeight s1 + 1)"
    by (auto simp: ExportAppStateAndValidators_def Let_def bind_res_Ok_iff split: if_splits res.splits)
  with l r h show ?thesis by auto
qed

section \<open>A registry as a list\<close>

definition sample_denom_register :: "string \<Rightarrow> rat \<Rightarrow> ((string \<times> rat) list, unit) act" where
  "sample_denom_register d u g = (if map_of g d = None then (Ok (), (d, u) # g) else (fail (PlainErr ''already registered''), g))"

definition sample_fee_env :: "((string \<times> rat) list, unit) fee_env" where
  "sample_fee_env =
     \<lparr>fe_ParseCoinsNormalized = (\<lambda>g str. Ok (if str = ''500furya'' \<and> g = [(''ufury'', 1 / 1000000), (''furya'', 1)] then [\<lparr>coin_Denom = ''ufury'', coin_Amount = 500000000\<rparr>] else [])),
      fe_AmountOf = (\<lambda>cs d. sum_list (map coin_Amount (filter (\<lambda>c. coin_Denom c = d) cs))),
      fe_ParseUint = (\<lambda>_. Ok 200000), fe_Uint64 = (\<lambda>n. Ok (of_nat n)), fe_ParseDecCoins = (\<lambda>str. if amount_start str then Ok [()] else fail (PlainErr ''invalid decimal coin expression'')),
      fe_DecAmountOf = (\<lambda>_ _. 1)\<rparr>"

lemma sample_registry_laws: "registry_laws map_of sample_denom_register"
  by (auto simp: registry_laws_def sample_denom_register_def fun_eq_iff split: if_splits)

lemma sample_registered: "registerDenoms sample_denom_register [] = (Ok (), [(''ufury'', 1 / 1000000), (''furya'', 1)])"
  by (simp add: registerDenoms_def sample_denom_register_def HumanCoinUnit_def BaseCoinUnit_def FuryExponent_def)

lemma sample_fee_check_laws: "fee_check_laws map_of sample_fee_env"
proof -
  have "u \<le> v" if "fe_ParseCoinsNormalized sample_fee_env g str = Ok cs" "c \<in> set cs" "map_of g (coin_Denom c) = Some u" "map_of g d = Some v" for g str cs c u d v
    using that by (auto simp: sample_fee_env_def split: if_splits)
  moreover have "fe_AmountOf sample_fee_env cs d = 0" if "d \<notin> coin_Denom ` set cs" for cs d
  proof -
    have "filter (\<lambda>c. coin_Denom c = d) cs = []" using that by (auto simp: filter_empty_conv)
    then show ?thesis by (simp add: sample_fee_env_def)
  qed
  moreover have "amount_start str" if "fe_ParseDecCoins sample_fee_env str = Ok cs" for str cs
    using that by (simp add: sample_fee_env_def split: if_splits)
  ultimately show ?thesis unfolding fee_check_laws_def by blast
qed

theorem fee_limit_without_effect_witness:
  "areFeesTooHigh sample_fee_env [(''ufury'', 1 / 1000000), (''furya'', 1)] \<lparr>fl_str = [FlagFees \<mapsto> ''500furya''], fl_bool = Map.empty\<rparr> \<noteq> Ok True \<and>
   areFeesTooHigh sample_fee_env [(''ufury'', 1 / 1000000), (''furya'', 1)] \<lparr>fl_str = [FlagGas \<mapsto> ''200000'', FlagGasPrices \<mapsto> ''1furya''], fl_bool = Map.empty\<rparr> \<noteq> Ok True"
  using fee_limit_without_effect [OF sample_registry_laws sample_fee_check_laws sample_registered] by blast

lemma reset_hides_errors_sample:
  "\<exists>f'. c_Commands (extendUnsafeResetAllCmd (\<lambda>w. (Ok (), w - {''wasm''})) ''unsafe-reset-all''
      (Command ''furya'' None [Command ''tendermint'' None [Command ''unsafe-reset-all'' (Some (\<lambda>w. (fail (PlainErr ''locked''), w))) []]])) =
      [Command ''tendermint'' None [Command ''unsafe-reset-all'' (Some f') []]] \<and> f' {''wasm'', ''data''} = (Ok (), {''wasm'', ''data''})"
  using reset_hides_errors [of "Command ''furya'' None [Command ''tendermint'' None [Command ''unsafe-reset-all'' (Some (\<lambda>w. (fail (PlainErr ''locked''), w))) []]]"
      "[]" None "[]" "''unsafe-reset-all''" "\<lambda>w. (fail (PlainErr ''locked''), w)" "[]" "[]" "[]" "\<lambda>w. (Ok (), w - {''wasm''})"]
  by (auto simp: fail_def)

end
