(* ===== verification/PoESimulation.thy ===== *)
theory PoESimulation
  imports Testnet PoEQueryCmds
begin

text \<open>
  The simulation of the module (\<open>x/poe/simulation\<close>): the messages that the simulator sends and the random
  genesis state it starts from. Delivery of the transactions is the SDK's; random choices are arguments.
\<close>

section \<open>Environment\<close>

record 'k sim_account =
  si_Address :: addr
  si_ConsKey :: "'k option"
  si_HasPrivKey :: bool

text \<open>
  Balances of the bank, coins and the random generator: \<open>sm_RandString\<close> by the number of the call,
  \<open>sm_Intn\<close> an index below its argument, \<open>sm_RandomAcc\<close> one of the accounts, \<open>sm_FindAccount\<close> that of an address.
\<close>

record ('k, 'a) sim_env =
  sm_GetBalance :: "addr \<Rightarrow> string \<Rightarrow> msg_coin"
  sm_Spendable :: "addr \<Rightarrow> string \<Rightarrow> int"
  sm_RandPositiveInt :: "int \<Rightarrow> int res"
  sm_NewCoin :: "string \<Rightarrow> int \<Rightarrow> msg_coin res"
  sm_SafeSub :: "coin list \<Rightarrow> msg_coin \<Rightarrow> coin list \<times> bool"
  sm_RandomFees :: "coin list \<Rightarrow> coin list res"
  sm_RandString :: "nat \<Rightarrow> string"
  sm_Intn :: "nat \<Rightarrow> nat"
  sm_RandomAcc :: "'k sim_account list \<Rightarrow> 'k sim_account"
  sm_FindAccount :: "'k sim_account list \<Rightarrow> addr \<rightharpoonup> 'k sim_account"
  sm_newAny :: "'k \<Rightarrow> 'a res"

text \<open>
  The outcome of an operation: nothing, for a type of message and a reason, possibly with an error; or a
  message that an account signs, with given fees (\<open>None\<close> for none) or with random ones.
\<close>

datatype ('m, 'k) sim_out =
    NoOp string string "go_error option"
  | Deliver 'm "'k sim_account" "coin list option"
  | DeliverRandFees 'm "'k sim_account"

abbreviation "TypeMsgCreateValidator \<equiv> ''create_validator''"
abbreviation "TypeMsgUpdateValidator \<equiv> ''update_validator''"
abbreviation "TypeMsgUndelegate \<equiv> ''begin_unbonding''"
abbreviation "TypeMsgDelegate \<equiv> ''delegate''"

section \<open>Operations\<close>

definition random_description :: "('k, 'a) sim_env \<Rightarrow> Description" where
  "random_description E =
     \<lparr>Moniker = sm_RandString E 0, Identity = sm_RandString E 1, Website = ''https://'' @ sm_RandString E 2,
      SecurityContact = sm_RandString E 3, Details = sm_RandString E 4\<rparr>"

text \<open>
  The amount and the fees for an account, and what is then done with them. When there are no coins that can
  be spent, the reason is given for the type of a delegation.
\<close>

definition sim_fees ::
    "sdk_ops \<Rightarrow> ('k, 'a) sim_env \<Rightarrow> string \<Rightarrow> string \<Rightarrow> int \<Rightarrow> msg_coin \<Rightarrow> (msg_coin \<Rightarrow> coin list option \<Rightarrow> ('m, 'k) sim_out res) \<Rightarrow> ('m, 'k) sim_out res" where
  "sim_fees K E msgType denom spendable selfDelegation send =
     bind_res (sm_NewCoin E denom spendable) (\<lambda>allCoin.
     bind_res (NewCoins K [allCoin]) (\<lambda>all.
     let (coins, hasNeg) = sm_SafeSub E all selfDelegation in
     if \<not> hasNeg then
       (case sm_RandomFees E coins of
          Err e \<Rightarrow> Ok (NoOp msgType ''unable to generate fees'' (Some e))
        | Panic p \<Rightarrow> Panic p
        | Ok fees \<Rightarrow> send selfDelegation (Some fees))
     else send selfDelegation None))"

definition sim_spend ::
    "sdk_ops \<Rightarrow> ('k, 'a) sim_env \<Rightarrow> string \<Rightarrow> string \<Rightarrow> addr \<Rightarrow> (msg_coin \<Rightarrow> coin list option \<Rightarrow> ('m, 'k) sim_out res) \<Rightarrow> ('m, 'k) sim_out res" where
  "sim_spend K E msgType denom addr send =
     (let balance = sm_GetBalance E addr denom; spendable = sm_Spendable E addr denom in
      case mc_Amount balance of
        None \<Rightarrow> Ok (NoOp msgType ''balance is negative'' None)
      | Some b \<Rightarrow>
          if \<not> 0 < b then Ok (NoOp msgType ''balance is negative'' None)
          else if \<not> 0 < spendable then Ok (NoOp TypeMsgDelegate ''spendable coins amount is negative'' None)
          else
            (case sm_RandPositiveInt E spendable of
               Err e \<Rightarrow> Ok (NoOp msgType ''unable to generate positive amount'' (Some e))
             | Panic p \<Rightarrow> Panic p
             | Ok amount \<Rightarrow>
                 bind_res (sm_NewCoin E denom amount) (\<lambda>selfDelegation.
                 sim_fees K E msgType denom spendable selfDelegation send)))"

text \<open>The message is nil when it could not be created, and \<open>msg.Type()\<close> dereferences it.\<close>

definition SimulateMsgCreateValidator ::
    "sdk_ops \<Rightarrow> ('v, 'd) val_env \<Rightarrow> ('k, 'a) sim_env \<Rightarrow> 'w poe_calls \<Rightarrow> 'w poe_state \<Rightarrow> 'k sim_account list \<Rightarrow>
     ('a MsgCreateValidator, 'k) sim_out res" where
  "SimulateMsgCreateValidator K V E X s accs =
     (let simAccount = sm_RandomAcc E accs; address = si_Address simAccount in
      case QueryValidator K V (x_QuerySmart X s) (ValsetContract s) address of
        Err e \<Rightarrow> Ok (NoOp TypeMsgCreateValidator ''err.Error()'' (Some e))
      | Panic p \<Rightarrow> Panic p
      | Ok (Some found) \<Rightarrow> Ok (NoOp TypeMsgCreateValidator ''validator exists'' None)
      | Ok None \<Rightarrow>
          (let denom = GetBondDenom s in
           sim_spend K E TypeMsgCreateValidator denom address (\<lambda>selfDelegation fees.
             bind_res (sm_NewCoin E denom 0) (\<lambda>zero.
             case NewMsgCreateValidator K (sm_newAny E) address (si_ConsKey simAccount) selfDelegation zero (random_description E) of
               Ok msg \<Rightarrow> Ok (Deliver msg simAccount fees)
             | Err e \<Rightarrow> Panic ''nil pointer dereference''
             | Panic p \<Rightarrow> Panic p))))"

text \<open>\<open>err.Error()\<close> is called on a nil error when the list is empty.\<close>

definition getRandValidator ::
    "sdk_ops \<Rightarrow> ('v, 'd) val_env \<Rightarrow> ('k, 'a) sim_env \<Rightarrow> 'w poe_calls \<Rightarrow> 'w poe_state \<Rightarrow> (('v, 'd) sdk_Validator \<times> addr) res" where
  "getRandValidator K V E X s =
     (case ListValidators V (x_QuerySmart X s) (ValsetContract s) None of
        Err e \<Rightarrow> fail (PlainErr ''cannot fetch validator list: %s'')
      | Panic p \<Rightarrow> Panic p
      | Ok (validators, _) \<Rightarrow>
          if validators = [] then Panic ''nil pointer dereference''
          else
            (let val = validators ! sm_Intn E (length validators) in
             bind_res (sAccAddressFromBech32 K (sv_OperatorAddress val)) (\<lambda>valAddr. Ok (val, valAddr))))"

definition with_rand_validator ::
    "sdk_ops \<Rightarrow> ('v, 'd) val_env \<Rightarrow> ('k, 'a) sim_env \<Rightarrow> 'w poe_calls \<Rightarrow> 'w poe_state \<Rightarrow> string \<Rightarrow> (addr \<Rightarrow> ('m, 'k) sim_out res) \<Rightarrow> ('m, 'k) sim_out res" where
  "with_rand_validator K V E X s msgType f =
     (case getRandValidator K V E X s of
        Err e \<Rightarrow> Ok (NoOp msgType ''cannot fetch random validator'' (Some e))
      | Panic p \<Rightarrow> Panic p
      | Ok (_, valAddr) \<Rightarrow> f valAddr)"

definition SimulateMsgUpdateValidator ::
    "sdk_ops \<Rightarrow> ('v, 'd) val_env \<Rightarrow> ('k, 'a) sim_env \<Rightarrow> 'w poe_calls \<Rightarrow> 'w poe_state \<Rightarrow> 'k sim_account list \<Rightarrow>
     (MsgUpdateValidator, 'k) sim_out res" where
  "SimulateMsgUpdateValidator K V E X s accs =
     with_rand_validator K V E X s TypeMsgUpdateValidator (\<lambda>valAddr.
     case sm_FindAccount E accs valAddr of
       None \<Rightarrow> Ok (NoOp TypeMsgUpdateValidator ''unable to find account'' (Some (Sentinel (PlainErr ''validator %s not found''))))
     | Some simAccount \<Rightarrow> Ok (DeliverRandFees (NewMsgUpdateValidator K valAddr (random_description E)) simAccount))"

definition SimulateMsgDelegate ::
    "sdk_ops \<Rightarrow> ('v, 'd) val_env \<Rightarrow> ('k, 'a) sim_env \<Rightarrow> 'w poe_calls \<Rightarrow> 'w poe_state \<Rightarrow> 'k sim_account list \<Rightarrow> (MsgDelegate, 'k) sim_out res" where
  "SimulateMsgDelegate K V E X s accs =
     with_rand_validator K V E X s TypeMsgDelegate (\<lambda>valAddr.
     case sm_FindAccount E accs valAddr of
       None \<Rightarrow> Ok (NoOp TypeMsgDelegate ''unable to find account'' (Some (Sentinel (PlainErr ''validator %s not found''))))
     | Some simAccount \<Rightarrow>
         (let denom = GetBondDenom s in
          sim_spend K E TypeMsgDelegate denom (si_Address simAccount) (\<lambda>selfDelegation fees.
            bind_res (sm_NewCoin E denom 0) (\<lambda>zero.
            Ok (Deliver (NewMsgDelegate K (si_Address simAccount) selfDelegation zero) simAccount fees)))))"

definition SimulateMsgUndelegate ::
    "sdk_ops \<Rightarrow> coin_ext \<Rightarrow> ('v, 'd) val_env \<Rightarrow> ('k, 'a) sim_env \<Rightarrow> 'w poe_calls \<Rightarrow> 'w poe_state \<Rightarrow> 'k sim_account list \<Rightarrow>
     (MsgUndelegate, 'k) sim_out res" where
  "SimulateMsgUndelegate K C V E X s accs =
     with_rand_validator K V E X s TypeMsgUndelegate (\<lambda>valAddr.
     case QueryStakedAmount K C (x_QuerySmart X s) (StakeContract s) valAddr of
       Panic p \<Rightarrow> Panic p
     | Err e \<Rightarrow> Ok (NoOp TypeMsgUndelegate ''validator does not have any delegation entries'' None)
     | Ok None \<Rightarrow> Ok (NoOp TypeMsgUndelegate ''validator does not have any delegation entries'' None)
     | Ok (Some delegated) \<Rightarrow>
         (case sm_RandPositiveInt E delegated of
            Err e \<Rightarrow> Ok (NoOp TypeMsgUndelegate ''invalid unbond amount'' (Some e))
          | Panic p \<Rightarrow> Panic p
          | Ok unbondAmt \<Rightarrow>
              if unbondAmt = 0 then Ok (NoOp TypeMsgUndelegate ''unbond amount is zero'' None)
              else
                bind_res (sm_NewCoin E (GetBondDenom s) unbondAmt) (\<lambda>coin.
                let msg = NewMsgUndelegate K valAddr coin in
                case sm_FindAccount E accs valAddr of
                  None \<Rightarrow> Ok (NoOp TypeMsgUndelegate ''unable to find account'' (Some (Sentinel (PlainErr ''delegator %s not found''))))
                | Some simAccount \<Rightarrow>
                    if \<not> si_HasPrivKey simAccount
                    then Ok (NoOp TypeMsgUndelegate ''account private key is nil''
                      (Some (Sentinel (PlainErr ''delegation addr: %s does not exist in simulation accounts''))))
                    else Ok (DeliverRandFees msg simAccount))))"

text \<open>The weights come from the parameters of the simulation or are the defaults of the SDK.\<close>

definition WeightedOperations :: "(string \<rightharpoonup> int) \<Rightarrow> (string \<Rightarrow> int) \<Rightarrow> (string \<times> int) list" where
  "WeightedOperations appParams defaults =
     map (\<lambda>op. (op, case appParams op of Some w \<Rightarrow> w | None \<Rightarrow> defaults op))
       [''op_weight_msg_create_validator'', ''op_weight_msg_update_validator'', ''op_weight_msg_delegate'', ''op_weight_msg_undelegate'']"

section \<open>The random genesis state\<close>

definition defaultDenom :: string where
  "defaultDenom = ''ufury''"

record 'k sim_state =
  sg_GenState :: "string \<rightharpoonup> string"
  sg_Accounts :: "'k sim_account list"
  sg_NumBonded :: int
  sg_InitialStake :: int

text \<open>
  The codec, the bank's state and coins, the random generator (\<open>gn_Int\<close> by the number of the call) and the
  creation of a signed transaction for an account, whose failures are panics. \<open>gn_powerReduction\<close> and
  \<open>gn_rnd\<close> are those of the default state.
\<close>

record ('k, 'a, 't, 'd, 'o) sim_genesis_env =
  gn_sdk :: sdk_ops
  gn_dec :: "'d dec_ops"
  gn_genesis :: "('t, 'a) genesis_env"
  gn_bankGet :: "string \<Rightarrow> 'o bank_GenesisState res"
  gn_bankPut :: "'o bank_GenesisState \<Rightarrow> string res"
  gn_poePut :: "('t, 'd) poe_GenesisState \<Rightarrow> string res"
  gn_AmountOf :: "coin list \<Rightarrow> string \<Rightarrow> int"
  gn_Int63n :: "int \<Rightarrow> int"
  gn_Int :: "nat \<Rightarrow> int"
  gn_NewCoin :: "string \<Rightarrow> int \<Rightarrow> msg_coin res"
  gn_Sub :: "coin list \<Rightarrow> coin list \<Rightarrow> coin list res"
  gn_SetSendEnabled :: "'o \<Rightarrow> 'o"
  gn_valKey :: "nat \<Rightarrow> 'k"
  gn_newAny :: "'k \<Rightarrow> 'a res"
  gn_signed :: "'k sim_account \<Rightarrow> 'a MsgCreateValidator \<Rightarrow> 't res"
  gn_powerReduction :: uint64
  gn_rnd :: addr

definition index_of :: "'b list \<Rightarrow> nat \<Rightarrow> 'b res" where
  "index_of xs i = (if i < length xs then Ok (xs ! i) else Panic ''index out of range'')"

definition replace_denoms :: "(string \<rightharpoonup> string) \<Rightarrow> string \<rightharpoonup> string" where
  "replace_denoms gen k = map_option (\<lambda>v. if v = [] then v else strings_ReplaceAll v (quoted ''stake'') (quoted defaultDenom)) (gen k)"

fun check_stakes :: "('k, 'a, 't, 'd, 'o) sim_genesis_env \<Rightarrow> int \<Rightarrow> balance list \<Rightarrow> nat list \<Rightarrow> int \<Rightarrow> int res" where
  "check_stakes E initialStake bals [] totalBound = Ok totalBound"
| "check_stakes E initialStake bals (i # is) totalBound =
     bind_res (index_of bals i) (\<lambda>b.
     let stakedAmount = min initialStake (gn_AmountOf E (snd b) defaultDenom) in
     if stakedAmount = 0 \<or> stakedAmount \<noteq> initialStake then Panic ''not enough to stake on balance''
     else check_stakes E initialStake bals is (totalBound + initialStake))"

definition adjust_bonded :: "('k, 'a, 't, 'd, 'o) sim_genesis_env \<Rightarrow> nat \<Rightarrow> int \<Rightarrow> int res" where
  "adjust_bonded E numAccounts numBonded =
     (if int numAccounts - numBonded = 0 then
        (if numBonded - 1 \<le> 0 then Panic ''invalid argument to Int63n'' else Ok (1 + gn_Int63n E (numBonded - 1)))
      else Ok numBonded)"

text \<open>The members of a circle: some accounts after the bonded ones. The random number plus one may wrap around.\<close>

definition random_members :: "('k, 'a, 't, 'd, 'o) sim_genesis_env \<Rightarrow> nat \<Rightarrow> 'k sim_account list \<Rightarrow> int \<Rightarrow> string list res" where
  "random_members E call accs numBonded =
     (let count = min (to_int64 (gn_Int E call + 1)) (int (length accs) - numBonded) in
      if count < 0 then Panic ''makeslice: len out of range''
      else traverse (\<lambda>i. bind_res (index_of accs (nat numBonded + i)) (\<lambda>acc. Ok (sAddrString (gn_sdk E) (si_Address acc)))) [0..<nat count])"

definition sim_gentx ::
    "('k, 'a, 't, 'd, 'o) sim_genesis_env \<Rightarrow> int \<Rightarrow> balance list \<Rightarrow> 'k sim_account list \<Rightarrow> nat \<Rightarrow> (genesis_member \<times> 't) res" where
  "sim_gentx E initialStake bals accs i =
     bind_res (index_of accs i) (\<lambda>acc.
     bind_res (index_of bals i) (\<lambda>b.
     if sAddrString (gn_sdk E) (si_Address acc) \<noteq> sAddrString (gn_sdk E) (fst b) then Panic ''all is broken when accounts do not match balances''
     else
       bind_res (gn_NewCoin E defaultDenom initialStake) (\<lambda>liquid.
       bind_res (gn_NewCoin E defaultDenom 0) (\<lambda>vesting.
       bind_res (must_ok (NewMsgCreateValidator (gn_sdk E) (gn_newAny E) (si_Address acc) (Some (gn_valKey E i)) liquid vesting
         (emptyDescription\<lparr>Moniker := ''testing''\<rparr>))) (\<lambda>createValMsg.
       bind_res (must_ok (gn_signed E acc createValMsg)) (\<lambda>txBz.
       Ok (\<lparr>gm_Address = sAddrString (gn_sdk E) (si_Address acc), gm_Points = 2000\<rparr>, txBz)))))))"

definition sim_genesis ::
    "('k, 'a, 't, 'd, 'o) sim_genesis_env \<Rightarrow> (genesis_member \<times> 't) list \<Rightarrow> addr \<Rightarrow> string list \<Rightarrow> string list \<Rightarrow> ('t, 'd) poe_GenesisState" where
  "sim_genesis E txs bootstrap ocMembers apMembers =
     (let g = poe_DefaultGenesisState (gn_sdk E) (gn_dec E) (gn_powerReduction E) (gn_rnd E);
          bond = (\<lambda>c. c\<lparr>mc_Denom := defaultDenom\<rparr>) in
      g\<lparr>gs_Params := (gs_Params g)\<lparr>InitialValEngagementPoints := 100\<rparr>,
        gs_SetupMode := SeedMode (map_option (\<lambda>seed. seed\<lparr>GenTxs := map snd txs,
          BootstrapAccountAddress := sAddrString (gn_sdk E) bootstrap, Engagement := map fst txs, BondDenom := defaultDenom,
          OversightCommunityMembers := ocMembers, ArbiterPoolMembers := apMembers,
          sc_ArbiterPool := map_option (\<lambda>c. c\<lparr>ap_EscrowAmount := bond (ap_EscrowAmount c), ap_DisputeCost := bond (ap_DisputeCost c)\<rparr>) (sc_ArbiterPool seed),
          sc_Valset := map_option (\<lambda>c. c\<lparr>EpochReward := bond (EpochReward c), EpochLength := Second\<rparr>) (sc_Valset seed),
          sc_OversightCommittee := map_option (\<lambda>c. c\<lparr>oc_EscrowAmount := bond (oc_EscrowAmount c)\<rparr>) (sc_OversightCommittee seed)\<rparr>)
          (GetSeedContracts g))\<rparr>)"

definition RandomizedGenState :: "('k, 'a, 't, 'd, 'o) sim_genesis_env \<Rightarrow> 'k sim_state \<Rightarrow> 'k sim_state res" where
  "RandomizedGenState E st =
     (let gen = replace_denoms (sg_GenState st); accs = sg_Accounts st in
      case gen ''bank'' of
        None \<Rightarrow> Panic ''no bank genesis state''
      | Some rawBankState \<Rightarrow>
          bind_res (gn_bankGet E rawBankState) (\<lambda>bank.
          bind_res (check_stakes E (sg_InitialStake st) (bk_Balances bank) [0..<nat (sg_NumBonded st)] 0) (\<lambda>totalBound.
          bind_res (adjust_bonded E (length accs) (sg_NumBonded st)) (\<lambda>numBonded.
          bind_res (random_members E 0 accs numBonded) (\<lambda>ocMembers.
          bind_res (random_members E 1 accs numBonded) (\<lambda>apMembers.
          bind_res (traverse (sim_gentx E (sg_InitialStake st) (bk_Balances bank) accs) [1..<nat numBonded]) (\<lambda>txs.
          if accs = [] then Panic ''index out of range''
          else
            (let poeGenesis = sim_genesis E txs (si_Address (last accs)) ocMembers apMembers in
             bind_res (gn_poePut E poeGenesis) (\<lambda>poeRaw.
             bind_res (must_ok (poe_ValidateGenesis (gn_sdk E) (gn_dec E) (gn_genesis E) poeGenesis)) (\<lambda>_.
             bind_res (gn_NewCoin E defaultDenom totalBound) (\<lambda>boundCoin.
             bind_res (NewCoins (gn_sdk E) [boundCoin]) (\<lambda>boundCoins.
             bind_res (gn_Sub E (bk_Supply bank) boundCoins) (\<lambda>supply.
             bind_res (gn_bankPut E (bank\<lparr>bk_Supply := supply, bk_Other := gn_SetSendEnabled E (bk_Other bank)\<rparr>)) (\<lambda>bankRaw.
             Ok (st\<lparr>sg_GenState := gen(poe_ModuleName \<mapsto> poeRaw, ''bank'' \<mapsto> bankRaw), sg_NumBonded := numBonded\<rparr>)))))))))))))))"

section \<open>Properties\<close>

text \<open>The documented behaviour of the random amounts, of new coins and of the search for an account.\<close>

definition sim_laws :: "sdk_ops \<Rightarrow> ('k, 'a) sim_env \<Rightarrow> bool" where
  "sim_laws K E \<longleftrightarrow>
     (\<forall>m x. sm_RandPositiveInt E m = Ok x \<longrightarrow> 1 \<le> x \<and> x \<le> m) \<and>
     (\<forall>d n c. sm_NewCoin E d n = Ok c \<longrightarrow> c = \<lparr>mc_Denom = d, mc_Amount = Some n\<rparr> \<and> coin_valid K c) \<and>
     (\<forall>accs a acc. sm_FindAccount E accs a = Some acc \<longrightarrow> acc \<in> set accs \<and> si_Address acc = a)"

lemma sim_lawsD:
  assumes "sim_laws K E"
  shows "sm_RandPositiveInt E m = Ok x \<Longrightarrow> 1 \<le> x \<and> x \<le> m"
    "sm_NewCoin E d n = Ok c \<Longrightarrow> c = \<lparr>mc_Denom = d, mc_Amount = Some n\<rparr> \<and> coin_valid K c"
    "sm_FindAccount E accs a = Some acc \<Longrightarrow> acc \<in> set accs \<and> si_Address acc = a"
  using assms by (simp_all add: sim_laws_def)

lemma sim_spend_Deliver:
  assumes laws: "sim_laws K E" and ok: "sim_spend K E t denom a send = Ok out" and "\<And>ty why e. out \<noteq> NoOp ty why e"
  obtains c n fees where "send c fees = Ok out" "c = \<lparr>mc_Denom = denom, mc_Amount = Some n\<rparr>" "coin_valid K c" "0 < n" "n \<le> sm_Spendable E a denom"
proof -
  from ok assms(3) obtain n c where n: "sm_RandPositiveInt E (sm_Spendable E a denom) = Ok n" "sm_NewCoin E denom n = Ok c"
    and f: "sim_fees K E t denom (sm_Spendable E a denom) c send = Ok out"
    unfolding sim_spend_def Let_def by (auto simp: bind_res_Ok_iff split: option.splits if_splits res.splits)
  obtain fees where "send c fees = Ok out"
    using f assms(3) unfolding sim_fees_def Let_def case_prod_beta by (auto simp: bind_res_Ok_iff split: if_splits res.splits)
  with sim_lawsD(1) [OF laws n(1)] sim_lawsD(2) [OF laws n(2)] that show thesis by force
qed

lemma with_rand_validator_Deliver:
  assumes "with_rand_validator K V E X s t f = Ok out" and "\<And>ty why e. out \<noteq> NoOp ty why e"
  obtains a str where "f a = Ok out" "sAccAddressFromBech32 K str = Ok a"
proof -
  from assms obtain v a where g: "getRandValidator K V E X s = Ok (v, a)" "f a = Ok out"
    unfolding with_rand_validator_def by (auto split: res.splits)
  from g(1) obtain str where "sAccAddressFromBech32 K str = Ok a"
    unfolding getRandValidator_def Let_def by (auto simp: bind_res_Ok_iff split: res.splits if_splits)
  with g(2) that show thesis by blast
qed

lemma sdk_lawsD_valid:
  assumes "sdk_laws K"
  shows "coin_valid K c \<Longrightarrow> Coin_IsValid K c = Ok True" "mc_Amount c = Some n \<Longrightarrow> Coin_IsZero K c = Ok (n = 0)"
    "Int_IsPositive K (Some n) = Ok (0 < n)"
  using assms unfolding sdk_laws_def by (elim conjE, simp)+

lemma simulated_delegation_valid:
  assumes laws: "sdk_laws K" "sim_laws K E"
    and addrs: "\<And>str a. sAccAddressFromBech32 K str = Ok a \<Longrightarrow> sAccAddressFromBech32 K (sAddrString K a) = Ok a"
    and ok: "SimulateMsgDelegate K V E X s accs = Ok (Deliver msg acc fees)"
  shows "MsgDelegate_ValidateBasic K msg = Ok () \<and> acc \<in> set accs \<and>
      (\<exists>n. de_Amount msg = \<lparr>mc_Denom = GetBondDenom s, mc_Amount = Some n\<rparr> \<and> 0 < n \<and> n \<le> sm_Spendable E (si_Address acc) (GetBondDenom s))"
proof -
  from ok obtain a str simAccount where acc: "sm_FindAccount E accs a = Some simAccount" "sAccAddressFromBech32 K str = Ok a"
    and spend: "sim_spend K E TypeMsgDelegate (GetBondDenom s) (si_Address simAccount) (\<lambda>selfDelegation fees.
            bind_res (sm_NewCoin E (GetBondDenom s) 0) (\<lambda>zero.
            Ok (Deliver (NewMsgDelegate K (si_Address simAccount) selfDelegation zero) simAccount fees))) = Ok (Deliver msg acc fees)"
    unfolding SimulateMsgDelegate_def Let_def
    by (rule with_rand_validator_Deliver) (auto split: option.splits)
  obtain c n fees' where c: "bind_res (sm_NewCoin E (GetBondDenom s) 0) (\<lambda>zero.
            Ok (Deliver (NewMsgDelegate K (si_Address simAccount) c zero) simAccount fees')) = Ok (Deliver msg acc fees)"
      "c = \<lparr>mc_Denom = GetBondDenom s, mc_Amount = Some n\<rparr>" "coin_valid K c" "0 < n" "n \<le> sm_Spendable E (si_Address simAccount) (GetBondDenom s)"
    by (rule sim_spend_Deliver [OF laws(2) spend]) auto
  then obtain z where z: "sm_NewCoin E (GetBondDenom s) 0 = Ok z" "msg = NewMsgDelegate K (si_Address simAccount) c z" "acc = simAccount"
    by (auto simp: bind_res_Ok_iff)
  have mem: "simAccount \<in> set accs" "si_Address simAccount = a" using sim_lawsD(3) [OF laws(2) acc(1)] by simp_all
  have "Coin_IsValid K c = Ok True" "Coin_IsValid K z = Ok True" "Coin_IsZero K c = Ok False"
    using sdk_lawsD_valid(1) [OF laws(1) c(3)] sdk_lawsD_valid(1) [OF laws(1) conjunct2 [OF sim_lawsD(2) [OF laws(2) z(1)]]]
      sdk_lawsD_valid(2) [OF laws(1), of c n] c(2,4) by simp_all
  then have "MsgDelegate_ValidateBasic K msg = Ok ()"
    using z(2) addrs [OF acc(2)] mem by (simp add: MsgDelegate_ValidateBasic_def NewMsgDelegate_def)
  moreover have "acc \<in> set accs" using mem z(3) by simp
  ultimately show ?thesis
    using c z by (simp add: NewMsgDelegate_def)
qed

lemma simulated_undelegation_valid:
  assumes laws: "sdk_laws K" "sim_laws K E"
    and addrs: "\<And>str a. sAccAddressFromBech32 K str = Ok a \<Longrightarrow> sAccAddressFromBech32 K (sAddrString K a) = Ok a"
    and ok: "SimulateMsgUndelegate K C V E X s accs = Ok (DeliverRandFees umsg acc)"
  shows "MsgUndelegate_ValidateBasic K umsg = Ok () \<and> acc \<in> set accs \<and>
      (\<exists>n staked. un_Amount umsg = \<lparr>mc_Denom = GetBondDenom s, mc_Amount = Some n\<rparr> \<and> 0 < n \<and> n \<le> staked \<and>
        QueryStakedAmount K C (x_QuerySmart X s) (StakeContract s) (si_Address acc) = Ok (Some staked))"
proof -
  from ok obtain a str staked n c where str: "sAccAddressFromBech32 K str = Ok a" and q: "QueryStakedAmount K C (x_QuerySmart X s) (StakeContract s) a = Ok (Some staked)"
      "sm_RandPositiveInt E staked = Ok n" "sm_NewCoin E (GetBondDenom s) n = Ok c" "sm_FindAccount E accs a = Some acc" "umsg = NewMsgUndelegate K a c"
    unfolding SimulateMsgUndelegate_def Let_def
    by (rule with_rand_validator_Deliver) (auto simp: bind_res_Ok_iff split: option.splits res.splits if_splits)
  have acc: "acc \<in> set accs" "si_Address acc = a" using sim_lawsD(3) [OF laws(2) q(4)] by simp_all
  have n: "1 \<le> n" "n \<le> staked" using sim_lawsD(1) [OF laws(2) q(2)] by simp_all
  have c: "c = \<lparr>mc_Denom = GetBondDenom s, mc_Amount = Some n\<rparr>" "coin_valid K c" using sim_lawsD(2) [OF laws(2) q(3)] by blast+
  have "Coin_IsValid K c = Ok True" by (rule sdk_lawsD_valid(1) [OF laws(1) c(2)])
  then have "MsgUndelegate_ValidateBasic K umsg = Ok ()"
    using q(5) c(1) n(1) sdk_lawsD_valid(3) [OF laws(1)] addrs [OF str] by (simp add: MsgUndelegate_ValidateBasic_def NewMsgUndelegate_def)
  with acc n c q show ?thesis
    by (simp add: NewMsgUndelegate_def)
qed

text \<open>
  C38: The delegations and undelegations that the simulator sends pass the basic validation of their message:
  they name the account of the validator, with an amount that is positive and not more than the account can
  spend or has staked.
\<close>

theorem simulated_messages_valid:
  assumes laws: "sdk_laws K" "sim_laws K E"
    and addrs: "\<And>str a. sAccAddressFromBech32 K str = Ok a \<Longrightarrow> sAccAddressFromBech32 K (sAddrString K a) = Ok a"
  shows "(SimulateMsgDelegate K V E X s accs = Ok (Deliver msg acc fees) \<longrightarrow>
      MsgDelegate_ValidateBasic K msg = Ok () \<and> acc \<in> set accs \<and>
      (\<exists>n. de_Amount msg = \<lparr>mc_Denom = GetBondDenom s, mc_Amount = Some n\<rparr> \<and> 0 < n \<and> n \<le> sm_Spendable E (si_Address acc) (GetBondDenom s))) \<and>
    (SimulateMsgUndelegate K C V E X s accs = Ok (DeliverRandFees umsg acc) \<longrightarrow>
      MsgUndelegate_ValidateBasic K umsg = Ok () \<and> acc \<in> set accs \<and>
      (\<exists>n staked. un_Amount umsg = \<lparr>mc_Denom = GetBondDenom s, mc_Amount = Some n\<rparr> \<and> 0 < n \<and> n \<le> staked \<and>
        QueryStakedAmount K C (x_QuerySmart X s) (StakeContract s) (si_Address acc) = Ok (Some staked)))"
  by ((rule conjI; rule impI), rule simulated_delegation_valid [OF laws], erule addrs, assumption,
      rule simulated_undelegation_valid [OF laws], erule addrs, assumption)

text \<open>Without validators the operations on a random validator panic.\<close>

lemma no_validators_panic:
  assumes "ListValidators V (x_QuerySmart X s) (ValsetContract s) None = Ok ([], c)"
  shows "\<exists>p. SimulateMsgUpdateValidator K V E X s accs = Panic p"
  using assms by (simp add: SimulateMsgUpdateValidator_def with_rand_validator_def getRandValidator_def)

text \<open>When all accounts are bonded and there is only one, the genesis state cannot be created.\<close>

lemma one_account_panics:
  assumes "sg_GenState st ''bank'' = Some raw" and "gn_bankGet E (the (replace_denoms (sg_GenState st) ''bank'')) = Ok bank"
    and "check_stakes E (sg_InitialStake st) (bk_Balances bank) [0..<nat (sg_NumBonded st)] 0 = Ok t"
    and "sg_NumBonded st = 1" and "length (sg_Accounts st) = 1"
  shows "\<exists>p. RandomizedGenState E st = Panic p"
  using assms by (simp add: RandomizedGenState_def replace_denoms_def adjust_bonded_def Let_def)

lemma index_of_Ok: "index_of xs i = Ok x \<longleftrightarrow> i < length xs \<and> x = xs ! i"
  by (auto simp: index_of_def)

lemma bind_res_OkE:
  assumes "bind_res r f = Ok y"
  obtains x where "r = Ok x" "f x = Ok y"
  using assms by (auto simp: bind_res_Ok_iff)

lemma random_members_Ok:
  assumes "random_members E call accs n = Ok members" and "0 \<le> n"
  shows "set members \<subseteq> (\<lambda>acc. sAddrString (gn_sdk E) (si_Address acc)) ` set (drop (nat n) accs)"
proof
  fix m assume "m \<in> set members"
  from assms obtain c where "traverse (\<lambda>i. bind_res (index_of accs (nat n + i)) (\<lambda>acc. Ok (sAddrString (gn_sdk E) (si_Address acc)))) [0..<c] = Ok members"
    by (auto simp: random_members_def Let_def split: if_splits)
  then obtain i where "bind_res (index_of accs (nat n + i)) (\<lambda>acc. Ok (sAddrString (gn_sdk E) (si_Address acc))) = Ok m"
    using \<open>m \<in> set members\<close> unfolding traverse_all2 list_all2_conv_all_nth by (metis in_set_conv_nth)
  then have i: "nat n + i < length accs" "m = sAddrString (gn_sdk E) (si_Address (accs ! (nat n + i)))"
    by (auto simp: bind_res_Ok_iff index_of_Ok)
  then have "accs ! (nat n + i) \<in> set (drop (nat n) accs)"
    by (auto simp: in_set_conv_nth intro!: exI [of _ i])
  with i(2) show "m \<in> (\<lambda>acc. sAddrString (gn_sdk E) (si_Address acc)) ` set (drop (nat n) accs)" by blast
qed

lemma sim_gentx_Ok:
  assumes "sim_gentx E stake bals accs i = Ok (m, tx)"
  shows "i < length accs \<and> m = \<lparr>gm_Address = sAddrString (gn_sdk E) (si_Address (accs ! i)), gm_Points = 2000\<rparr>"
  using assms by (auto simp: sim_gentx_def bind_res_Ok_iff index_of_Ok split: if_splits)

lemma sim_gentxs_Ok:
  assumes "traverse (sim_gentx E stake bals accs) is = Ok txs"
  shows "map fst txs = map (\<lambda>i. \<lparr>gm_Address = sAddrString (gn_sdk E) (si_Address (accs ! i)), gm_Points = 2000\<rparr>) is"
proof -
  have all: "length txs = length is" "\<And>j. j < length is \<Longrightarrow> sim_gentx E stake bals accs (is ! j) = Ok (txs ! j)"
    using assms unfolding traverse_all2 list_all2_conv_all_nth by auto
  show ?thesis
  proof (rule nth_equalityI)
    fix j assume "j < length (map fst txs)"
    with all show "map fst txs ! j = map (\<lambda>i. \<lparr>gm_Address = sAddrString (gn_sdk E) (si_Address (accs ! i)), gm_Points = 2000\<rparr>) is ! j"
      using sim_gentx_Ok [of E stake bals accs "is ! j" "fst (txs ! j)" "snd (txs ! j)"] by simp
  qed (simp add: all(1))
qed

text \<open>
  C40: A random genesis state that is created at all is valid. Its validators are the accounts from the second
  one up to the number of bonded ones, all with the same engagement and one transaction each; the members of
  both circles are accounts that are not validators.
\<close>

theorem random_genesis_valid:
  assumes ok: "RandomizedGenState E st = Ok st'" and bonded: "0 < sg_NumBonded st" "\<And>n. 0 < n \<Longrightarrow> 0 \<le> gn_Int63n E n"
  shows "\<exists>gs seed raw. sg_GenState st' poe_ModuleName = Some raw \<and> gn_poePut E gs = Ok raw \<and>
    poe_ValidateGenesis (gn_sdk E) (gn_dec E) (gn_genesis E) gs = Ok () \<and> GetSeedContracts gs = Some seed \<and>
    Engagement seed = map (\<lambda>i. \<lparr>gm_Address = sAddrString (gn_sdk E) (si_Address (sg_Accounts st ! i)), gm_Points = 2000\<rparr>) [1..<nat (sg_NumBonded st')] \<and>
    length (GenTxs seed) = nat (sg_NumBonded st') - 1 \<and>
    set (OversightCommunityMembers seed) \<union> set (ArbiterPoolMembers seed) \<subseteq>
      (\<lambda>acc. sAddrString (gn_sdk E) (si_Address acc)) ` set (drop (nat (sg_NumBonded st')) (sg_Accounts st))"
proof -
  let ?accs = "sg_Accounts st"
  obtain rawBank where b: "replace_denoms (sg_GenState st) ''bank'' = Some rawBank"
    using ok by (auto simp: RandomizedGenState_def Let_def split: option.splits)
  have ne: "?accs \<noteq> []" using ok b by (auto simp: RandomizedGenState_def Let_def bind_res_Ok_iff)
  obtain bank n oc ap txs raw bankRaw u where bank: "gn_bankGet E rawBank = Ok bank" and adj: "adjust_bonded E (length ?accs) (sg_NumBonded st) = Ok n"
    and oc: "random_members E 0 ?accs n = Ok oc" and ap: "random_members E 1 ?accs n = Ok ap"
    and txs: "traverse (sim_gentx E (sg_InitialStake st) (bk_Balances bank) ?accs) [1..<nat n] = Ok txs"
    and raw: "gn_poePut E (sim_genesis E txs (si_Address (last ?accs)) oc ap) = Ok raw"
      "must_ok (poe_ValidateGenesis (gn_sdk E) (gn_dec E) (gn_genesis E) (sim_genesis E txs (si_Address (last ?accs)) oc ap)) = Ok u"
    and st': "Ok (st\<lparr>sg_GenState := (replace_denoms (sg_GenState st))(poe_ModuleName \<mapsto> raw, ''bank'' \<mapsto> bankRaw), sg_NumBonded := n\<rparr>) = Ok st'"
    using ok unfolding RandomizedGenState_def Let_def b option.case if_not_P [OF ne] by (elim bind_res_OkE) (rule that)
  have n: "0 \<le> n" using adj bonded(1) bonded(2) [of "sg_NumBonded st - 1"] by (auto simp: adjust_bonded_def split: if_splits)
  let ?gs = "sim_genesis E txs (si_Address (last ?accs)) oc ap"
  obtain seed where seed: "GetSeedContracts ?gs = Some seed" "Engagement seed = map fst txs" "GenTxs seed = map snd txs"
      "OversightCommunityMembers seed = oc" "ArbiterPoolMembers seed = ap"
    by (simp add: sim_genesis_def Let_def poe_DefaultGenesisState_def GetSeedContracts_def)
  have len: "length txs = length [1..<nat n]" using txs unfolding traverse_all2 by (rule list_all2_lengthD [symmetric])
  have st: "sg_GenState st' poe_ModuleName = Some raw" "sg_NumBonded st' = n" using st' by (auto simp: poe_ModuleName_def)
  have valid: "poe_ValidateGenesis (gn_sdk E) (gn_dec E) (gn_genesis E) ?gs = Ok ()" using raw(2) by simp
  have mem: "set oc \<union> set ap \<subseteq> (\<lambda>acc. sAddrString (gn_sdk E) (si_Address acc)) ` set (drop (nat n) ?accs)"
    using random_members_Ok [OF oc n] random_members_Ok [OF ap n] by blast
  show ?thesis
    using raw(1) st valid seed(1) sim_gentxs_Ok [OF txs] len mem
    by (intro exI [of _ ?gs] exI [of _ seed] exI [of _ raw]) (simp add: seed(2-5))
qed

section \<open>Samples\<close>

definition sample_sim :: "(unit, unit) sim_env" where
  "sample_sim =
     \<lparr>sm_GetBalance = (\<lambda>_ d. \<lparr>mc_Denom = d, mc_Amount = Some 100\<rparr>), sm_Spendable = (\<lambda>_ _. 100),
      sm_RandPositiveInt = (\<lambda>m. if 1 \<le> m then Ok 1 else fail (PlainErr ''max too small'')),
      sm_NewCoin = (\<lambda>d n. if d \<noteq> [] \<and> 0 \<le> n then Ok \<lparr>mc_Denom = d, mc_Amount = Some n\<rparr> else Panic ''invalid coin''),
      sm_SafeSub = (\<lambda>_ _. ([], False)), sm_RandomFees = Ok, sm_RandString = (\<lambda>_. ''abcdefghij''), sm_Intn = (\<lambda>_. 0), sm_RandomAcc = hd,
      sm_FindAccount = (\<lambda>accs a. find (\<lambda>acc. si_Address acc = a) accs),
      sm_newAny = (\<lambda>_. Ok ())\<rparr>"

definition sample_ints :: coin_ext where
  "sample_ints = \<lparr>NewIntFromString = (\<lambda>_. Some 5), Coin_Validate = (\<lambda>_. Ok ())\<rparr>"

definition sim_chain :: "unit poe_state" where
  "sim_chain = SetPoEContractAddress PoEContractTypeValset [7] (SetPoEContractAddress PoEContractTypeStaking [8] (emptyState ()))"

definition sim_validator :: "unit sim_account" where
  "sim_validator = \<lparr>si_Address = string_bytes ''a'', si_ConsKey = Some (), si_HasPrivKey = True\<rparr>"

lemma sample_sim_laws: "sim_laws sample_sdk sample_sim"
  by (auto simp: sim_laws_def sample_sim_def coin_valid_def sample_sdk_def find_Some_iff split: if_splits)

lemma sim_chain_contracts:
  "ValsetContract sim_chain = NewBaseContractAdapter [7] None" "StakeContract sim_chain = NewBaseContractAdapter [8] None"
  by (simp_all add: ValsetContract_def StakeContract_def lookup_adapter_def sim_chain_def cs.get_put PoEContractType_valid_iff poe_type_defs)

lemma sim_list_validators:
  "\<exists>val c. ListValidators sample_val_env (x_QuerySmart one_validator_calls sim_chain) (ValsetContract sim_chain) None = Ok ([val], c) \<and>
    sv_OperatorAddress val = ''a''"
proof -
  have q: "x_QuerySmart one_validator_calls sim_chain a (JObj [(''list_validators'', enc_ListValidatorsQuery [] 0)]) = Ok (one_page [])" for a
    by (simp add: one_validator_calls_def read_start_def enc_ListValidatorsQuery_def omit_str_def omit_int_def)
  have p: "json_Unmarshal dec_ListValidatorsResponse (one_page []) [] = Ok [one_operator]"
    using one_page_decoded [of "[]"] by (simp add: after_def)
  obtain val where c: "convert_validators sample_val_env [one_operator] = Ok [val]" "sv_OperatorAddress val = ''a''"
    by (simp add: ToValidator_def toCosmosPubKey_def one_operator_def sample_val_env_def)
  from c(1) have "bind_res (ToValidator sample_val_env one_operator) (\<lambda>x. Ok [x]) = Ok [val]" by simp
  with c(2) show ?thesis
    by (simp add: ListValidators_def ToQuery_def doPageableQuery_def sim_chain_contracts NewBaseContractAdapter_def q p bind_res_Ok_iff)
qed

lemma sim_staked:
  "QueryStakedAmount sample_sdk sample_ints (x_QuerySmart one_validator_calls sim_chain) (StakeContract sim_chain) (string_bytes ''a'') = Ok (Some 10)"
  by code_simp

theorem simulated_messages_valid_witness:
  "\<exists>msg umsg. SimulateMsgDelegate sample_sdk sample_val_env sample_sim one_validator_calls sim_chain [sim_validator] = Ok (Deliver msg sim_validator (Some [])) \<and>
     MsgDelegate_ValidateBasic sample_sdk msg = Ok () \<and>
     SimulateMsgUndelegate sample_sdk sample_ints sample_val_env sample_sim one_validator_calls sim_chain [sim_validator] =
       Ok (DeliverRandFees umsg sim_validator) \<and>
     MsgUndelegate_ValidateBasic sample_sdk umsg = Ok ()"
proof -
  have addrs: "sAccAddressFromBech32 sample_sdk (sAddrString sample_sdk a) = Ok a" if "sAccAddressFromBech32 sample_sdk str = Ok a" for str a
    using that by (auto simp: sample_sdk_def split: if_splits)
  obtain val c where l: "ListValidators sample_val_env (x_QuerySmart one_validator_calls sim_chain) (ValsetContract sim_chain) None = Ok ([val], c)"
      "sv_OperatorAddress val = ''a''" using sim_list_validators by blast
  have g: "getRandValidator sample_sdk sample_val_env sample_sim one_validator_calls sim_chain = Ok (val, string_bytes ''a'')"
    by (simp add: getRandValidator_def l sample_sim_def sample_sdk_def)
  have key: "si_HasPrivKey sim_validator" "si_Address sim_validator = string_bytes ''a''" by (simp_all add: sim_validator_def)
  have f: "sm_FindAccount sample_sim [sim_validator] (string_bytes ''a'') = Some sim_validator" by (simp add: sample_sim_def sim_validator_def)
  have "\<exists>msg. SimulateMsgDelegate sample_sdk sample_val_env sample_sim one_validator_calls sim_chain [sim_validator] = Ok (Deliver msg sim_validator (Some []))"
    unfolding SimulateMsgDelegate_def with_rand_validator_def g f
    by (simp add: f) (simp add: Let_def sim_spend_def sim_fees_def sample_sim_def sample_sdk_def GetBondDenom_def DefaultBondDenom_def)
  moreover have "\<exists>umsg. SimulateMsgUndelegate sample_sdk sample_ints sample_val_env sample_sim one_validator_calls sim_chain [sim_validator] = Ok (DeliverRandFees umsg sim_validator)"
    unfolding SimulateMsgUndelegate_def with_rand_validator_def g
    by (simp add: f sim_staked) (simp add: key sample_sim_def GetBondDenom_def DefaultBondDenom_def)
  ultimately show ?thesis
    using simulated_messages_valid [OF sample_sdk_laws sample_sim_laws,
        where V = sample_val_env and X = one_validator_calls and s = sim_chain and accs = "[sim_validator]" and acc = sim_validator and C = sample_ints]
      addrs by blast
qed


definition sim_accounts :: "unit sim_account list" where
  "sim_accounts = [\<lparr>si_Address = [1], si_ConsKey = Some (), si_HasPrivKey = True\<rparr>, \<lparr>si_Address = [2], si_ConsKey = Some (), si_HasPrivKey = True\<rparr>,
     \<lparr>si_Address = [3], si_ConsKey = Some (), si_HasPrivKey = True\<rparr>]"

definition sample_sim_genesis :: "(unit, unit, unit MsgCreateValidator, rat option, unit) sim_genesis_env" where
  "sample_sim_genesis =
     \<lparr>gn_sdk = sample_sdk, gn_dec = sample_dec,
      gn_genesis = \<lparr>txJSONDecoder = (\<lambda>m. Ok [CreateMsg m]), Any_String = (\<lambda>_. []), negUint64 = (\<lambda>_. 0)\<rparr>,
      gn_bankGet = (\<lambda>_. Ok \<lparr>bk_Balances = map (\<lambda>acc. (si_Address acc, [\<lparr>coin_Denom = ''ufury'', coin_Amount = 100\<rparr>])) sim_accounts, bk_Supply = [], bk_Other = ()\<rparr>),
      gn_bankPut = (\<lambda>_. Ok ''bank''), gn_poePut = (\<lambda>_. Ok ''poe''), gn_AmountOf = (\<lambda>_ _. 100), gn_Int63n = (\<lambda>_. 0), gn_Int = (\<lambda>_. 0),
      gn_NewCoin = (\<lambda>d n. Ok \<lparr>mc_Denom = d, mc_Amount = Some n\<rparr>), gn_Sub = (\<lambda>a b. Ok a), gn_SetSendEnabled = (\<lambda>x. x),
      gn_valKey = (\<lambda>_. ()), gn_newAny = (\<lambda>_. Ok ()), gn_signed = (\<lambda>_ m. Ok m), gn_powerReduction = 1000000, gn_rnd = [9]\<rparr>"

definition sim_start :: "unit sim_state" where
  "sim_start = \<lparr>sg_GenState = [''bank'' \<mapsto> ''{}''], sg_Accounts = sim_accounts, sg_NumBonded = 2, sg_InitialStake = 100\<rparr>"


definition sim_tx :: "unit MsgCreateValidator" where
  "sim_tx = \<lparr>cv_Description = emptyDescription\<lparr>Moniker := ''testing''\<rparr>, cv_OperatorAddress = bytes_string [2], cv_Pubkey = Some (),
     cv_Amount = \<lparr>mc_Denom = ''ufury'', mc_Amount = Some 100\<rparr>, cv_VestingAmount = \<lparr>mc_Denom = ''ufury'', mc_Amount = Some 0\<rparr>\<rparr>"

definition sim_seed :: "(unit MsgCreateValidator, rat option) SeedContracts" where
  "sim_seed = the (GetSeedContracts (sim_genesis sample_sim_genesis [(\<lparr>gm_Address = bytes_string [2], gm_Points = 2000\<rparr>, sim_tx)]
     [3] [bytes_string [3]] [bytes_string [3]]))"

lemmas sim_seed_simps = sim_seed_def sim_genesis_def poe_DefaultGenesisState_def GetSeedContracts_def sample_sim_genesis_def Let_def

lemma sim_seed_seconds:
  "uint64_whole_seconds (\<lambda>_. 0) (Hour * 21 * 24) = Hour * 21 * 24" "uint64_whole_seconds (\<lambda>_. 0) 0 = 0"
  using uint64_whole_seconds_nonneg [of "Hour * 21 * 24"] whole_seconds_iff [of "Hour * 21 * 24"]
    uint64_whole_seconds_nonneg [of 0] whole_seconds_iff [of 0]
  by (simp_all add: in_int64_def)

lemma sim_seed_circles:
  "OversightCommitteeContractConfig_ValidateBasic sample_sdk sample_dec (the (sc_OversightCommittee sim_seed)) = Ok ()"
  "ArbiterPoolContractConfig_ValidateBasic sample_sdk sample_dec (negUint64 (gn_genesis sample_sim_genesis)) (the (sc_ArbiterPool sim_seed)) = Ok ()"
  "VotingRules_ValidateBasic sample_dec (cp_VotingRules (the (sc_CommunityPool sim_seed))) = Ok ()"
  "VotingRules_ValidateBasic sample_dec (vv_VotingRules (the (sc_ValidatorVoting sim_seed))) = Ok ()"
proof -
  have rules: "VotingRules_ValidateBasic sample_dec (oc_VotingRules (the (sc_OversightCommittee sim_seed))) = Ok ()"
    "VotingRules_ValidateBasic sample_dec (ap_VotingRules (the (sc_ArbiterPool sim_seed))) = Ok ()"
    "VotingRules_ValidateBasic sample_dec (cp_VotingRules (the (sc_CommunityPool sim_seed))) = Ok ()"
    "VotingRules_ValidateBasic sample_dec (vv_VotingRules (the (sc_ValidatorVoting sim_seed))) = Ok ()"
    unfolding VotingRules_valid_iff [OF sample_dec_laws] by (simp_all add: sim_seed_simps sample_dec_def)
  note circle = circle_checks_def minNameLength_def maxNameLength_def minEscrowAmount_def sample_sdk_def bond_coin_def
  show "OversightCommitteeContractConfig_ValidateBasic sample_sdk sample_dec (the (sc_OversightCommittee sim_seed)) = Ok ()"
    using rules(1) by (simp add: sim_seed_simps OversightCommitteeContractConfig_ValidateBasic_def all_checks_Ok circle)
  show "ArbiterPoolContractConfig_ValidateBasic sample_sdk sample_dec (negUint64 (gn_genesis sample_sim_genesis)) (the (sc_ArbiterPool sim_seed)) = Ok ()"
    using rules(2) sim_seed_seconds(2) by (simp add: sim_seed_simps ArbiterPoolContractConfig_ValidateBasic_def all_checks_Ok circle)
  show "VotingRules_ValidateBasic sample_dec (cp_VotingRules (the (sc_CommunityPool sim_seed))) = Ok ()"
    "VotingRules_ValidateBasic sample_dec (vv_VotingRules (the (sc_ValidatorVoting sim_seed))) = Ok ()" by (rule rules(3), rule rules(4))
qed

lemma sim_seed_valid:
  "validateSeedContracts sample_sdk sample_dec (gn_genesis sample_sim_genesis) sim_seed = Ok ()"
proof -
  note seed = sim_seed_simps
  have vs: "ValsetContractConfig_ValidateBasic sample_dec (the (sc_Valset sim_seed)) = Ok ()"
    by (rule ValsetConfig_valid_iff [OF sample_dec_laws, THEN iffD2])
      (simp_all add: seed ratios_def in_int64_def sample_dec_def)
  have "EngagementContractConfig_ValidateBasic (the (sc_Engagement sim_seed)) = Ok ()"
    by (simp add: seed EngagementContractConfig_ValidateBasic_def Duration_Truncate_eq_iff)
  moreover have "StakeContractConfig_ValidateBasic (negUint64 (gn_genesis sample_sim_genesis)) (the (sc_Stake sim_seed)) = Ok ()"
    using sim_seed_seconds by (simp add: seed StakeContractConfig_ValidateBasic_def all_checks_Ok)
  moreover note sim_seed_circles
  moreover have "MixerContractConfig_ValidateBasic sample_dec (sc_Mixer sim_seed) = Ok ()"
    by (simp add: seed MixerContractConfig_ValidateBasic_def all_checks_Ok nil_or_zero_def sample_dec_def)
  moreover have "ValidateDenom sample_sdk (BondDenom sim_seed) = Ok ()"
    "\<exists>a. sAccAddressFromBech32 sample_sdk (bytes_string [3]) = Ok a" "BootstrapAccountAddress sim_seed = bytes_string [3]"
    "TG4Member_ValidateBasic sample_sdk \<lparr>gm_Address = bytes_string [2], gm_Points = 2000\<rparr> = Ok ()"
    by (simp_all add: seed sample_sdk_def defaultDenom_def bytes_string_def TG4Member_ValidateBasic_def)
  moreover have "MsgCreateValidator_ValidateBasic sample_sdk sim_tx = Ok ()" by code_simp
  then have "gentxs_ok sample_sdk (gn_genesis sample_sim_genesis) sim_seed"
    unfolding gentxs_ok_def by (intro exI [of _ "[sim_tx]"]) (simp add: seed gentx_msg_def sim_tx_def)
  ultimately show ?thesis
    unfolding seed_valid_iff using vs
    by (simp add: seed CommunityPoolContractConfig_ValidateBasic_def ValidatorVotingContractConfig_ValidateBasic_def
      bond_coin_def)
qed


lemma sim_start_created: "\<exists>st. RandomizedGenState sample_sim_genesis sim_start = Ok st \<and> sg_NumBonded st = 2"
proof -
  let ?E = sample_sim_genesis
  let ?gs = "sim_genesis ?E [(\<lparr>gm_Address = bytes_string [2], gm_Points = 2000\<rparr>, sim_tx)] [3] [bytes_string [3]] [bytes_string [3]]"
  let ?bals = "map (\<lambda>acc. (si_Address acc, [\<lparr>coin_Denom = ''ufury'', coin_Amount = 100\<rparr>])) sim_accounts"
  have b: "replace_denoms (sg_GenState sim_start) ''bank'' = Some ''{}''" by code_simp
  have start: "sg_Accounts sim_start = sim_accounts" "sg_NumBonded sim_start = 2" "sg_InitialStake sim_start = 100" "length sim_accounts = 3"
      "sim_accounts \<noteq> []" "si_Address (last sim_accounts) = [3]" "nat 2 = 2" "[1..<2] = [1]"
    by (simp_all add: sim_start_def sim_accounts_def upt_rec)
  have c: "check_stakes ?E 100 ?bals [0..<2] 0 = Ok 200" by code_simp
  have m: "random_members ?E i sim_accounts 2 = Ok [bytes_string [3]]" for i
    by (simp add: random_members_def sample_sim_genesis_def start sim_accounts_def index_of_def sample_sdk_def to_int64_def)
  have g: "sim_gentx ?E 100 ?bals sim_accounts 1 = Ok (\<lparr>gm_Address = bytes_string [2], gm_Points = 2000\<rparr>, sim_tx)" by code_simp
  have t: "traverse (sim_gentx ?E 100 ?bals sim_accounts) [1] = Ok [(\<lparr>gm_Address = bytes_string [2], gm_Points = 2000\<rparr>, sim_tx)]"
    using g by simp
  have v: "poe_ValidateGenesis sample_sdk sample_dec (gn_genesis ?E) ?gs = Ok ()"
  proof -
    have "GetSeedContracts ?gs = Some sim_seed" "GetImportDump ?gs = None"
      by (simp_all add: sim_seed_def sim_genesis_def poe_DefaultGenesisState_def GetSeedContracts_def GetImportDump_def Let_def)
    moreover have "Params_Validate sample_sdk (gs_Params ?gs) = Ok ()" by code_simp
    ultimately show ?thesis by (simp add: poe_ValidateGenesis_def sim_seed_valid)
  qed
  have env: "gn_bankGet ?E r = Ok \<lparr>bk_Balances = ?bals, bk_Supply = [], bk_Other = ()\<rparr>" "gn_poePut ?E g = Ok ''poe''" "gn_sdk ?E = sample_sdk"
      "gn_dec ?E = sample_dec" "adjust_bonded ?E 3 2 = Ok 2" for r g
    by (simp_all add: sample_sim_genesis_def adjust_bonded_def)
  show ?thesis
    unfolding RandomizedGenState_def Let_def b option.case start env bind_res.simps bank_GenesisState.simps c m t if_not_P [OF start(5)]
    by (simp add: v) (simp add: sample_sim_genesis_def sample_sdk_def defaultDenom_def)
qed

theorem random_genesis_valid_witness:
  "\<exists>st. RandomizedGenState sample_sim_genesis sim_start = Ok st \<and> sg_NumBonded st = 2 \<and>
     (\<exists>gs seed. poe_ValidateGenesis sample_sdk sample_dec (gn_genesis sample_sim_genesis) gs = Ok () \<and>
        GetSeedContracts gs = Some seed \<and> length (Engagement seed) = 1 \<and> length (GenTxs seed) = 1 \<and>
        set (OversightCommunityMembers seed) \<subseteq> {bytes_string [3]})"
proof -
  obtain st where st: "RandomizedGenState sample_sim_genesis sim_start = Ok st" "sg_NumBonded st = 2"
    using sim_start_created by blast
  have env: "gn_sdk sample_sim_genesis = sample_sdk" "gn_dec sample_sim_genesis = sample_dec" "0 < sg_NumBonded sim_start"
      "\<And>n. 0 < n \<Longrightarrow> 0 \<le> gn_Int63n sample_sim_genesis n" "sAddrString sample_sdk a = bytes_string a" "drop 2 (sg_Accounts sim_start) =
        [\<lparr>si_Address = [3], si_ConsKey = Some (), si_HasPrivKey = True\<rparr>]" for a
    by (simp_all add: sample_sim_genesis_def sim_start_def sample_sdk_def sim_accounts_def)
  obtain gs seed where "poe_ValidateGenesis sample_sdk sample_dec (gn_genesis sample_sim_genesis) gs = Ok ()" "GetSeedContracts gs = Some seed"
      "length (Engagement seed) = 1" "length (GenTxs seed) = 1" "set (OversightCommunityMembers seed) \<subseteq> {bytes_string [3]}"
    using random_genesis_valid [OF st(1) env(3,4)] unfolding st(2) env(1,2) by (auto simp: env(5,6))
  with st show ?thesis by blast
qed

end
