(* ===== verification/TwasmModule.thy ===== *)
theory TwasmModule
  imports TwasmProperties PoETypes
begin

text \<open>
  The rest of the module \<open>x/twasm\<close>: the query commands (\<open>client/cli/query.go\<close>), the functions the module
  manager calls (\<open>module.go\<close>) and the selection of codes and contracts for the simulator
  (\<open>simulation/operations.go\<close>).
\<close>

section \<open>Query commands\<close>

text \<open>What is printed is the response of the query.\<close>

definition GetCmdShowPrivilegedContracts :: "'w wasm_ext \<Rightarrow> string \<Rightarrow> 'w tw_state \<Rightarrow> string list res" where
  "GetCmdShowPrivilegedContracts X arg s =
     (case PrivilegeTypeFrom arg of
        None \<Rightarrow> fail (PlainErr ''unknown privilege type: %q'')
      | Some cbt \<Rightarrow> ContractsByPrivilegeType X (PrivilegeType_String cbt) s)"

definition GetCmdListPrivilegedContracts :: "'w wasm_ext \<Rightarrow> 'w tw_state \<Rightarrow> string list res" where
  "GetCmdListPrivilegedContracts X s = PrivilegedContracts X s"

section \<open>The module\<close>

text \<open>
  The codec of the module manager; \<open>mj_none\<close> is an empty list of wasmd's entries. \<open>MustMarshalJSON\<close> and
  \<open>MustUnmarshalJSON\<close> panic on an error.
\<close>

record ('m, 'g, 'raw) module_json =
  mj_Marshal :: "('m, 'g) GenesisState \<Rightarrow> 'raw res"
  mj_Unmarshal :: "'raw \<Rightarrow> ('m, 'g) GenesisState res"
  mj_DefaultParams :: 'g
  mj_none :: 'g

definition default_state :: "('m, 'g, 'raw) module_json \<Rightarrow> ('m, 'g) GenesisState" where
  "default_state J =
     \<lparr>gs_Params = mj_DefaultParams J, gs_Codes = mj_none J, gs_Contracts = [], gs_Sequences = mj_none J, gs_GenMsgs = mj_none J,
      gs_PrivilegedContractAddresses = [], gs_PinnedCodeIDs = []\<rparr>"

definition twasm_DefaultGenesis :: "('m, 'g, 'raw) module_json \<Rightarrow> 'raw res" where
  "twasm_DefaultGenesis J = must_ok (mj_Marshal J (default_state J))"

definition twasm_ValidateGenesis ::
    "'w wasm_ext \<Rightarrow> ('w, 'm, 'g, 'u) genesis_ext \<Rightarrow> ('m, 'g, 'raw) module_json \<Rightarrow> 'raw \<Rightarrow> unit res" where
  "twasm_ValidateGenesis X G J message =
     bind_res (wrap_res ''validate genesis'' (mj_Unmarshal J message)) (\<lambda>data. GenesisState_ValidateBasic X G data)"

definition twasm_InitGenesis ::
    "'w wasm_ext \<Rightarrow> ('w, 'm, 'g, 'u) genesis_ext \<Rightarrow> ('m, 'g, 'raw) module_json \<Rightarrow> 'raw \<Rightarrow> ('w tw_state, 'u list) act" where
  "twasm_InitGenesis X G J data =
     bindS (lift_res (must_ok (mj_Unmarshal J data))) (\<lambda>genesisState s.
       case InitGenesis X G genesisState s of (r, s') \<Rightarrow> (must_ok r, s'))"

definition twasm_ExportGenesis ::
    "'w wasm_ext \<Rightarrow> ('w, 'm, 'g, 'u) genesis_ext \<Rightarrow> ('m, 'g, 'raw) module_json \<Rightarrow> ('w tw_state, 'raw) act" where
  "twasm_ExportGenesis X G J = bindS (ExportGenesis X G) (\<lambda>gs. lift_res (must_ok (mj_Marshal J gs)))"

definition twasm_BeginBlock ::
    "'w wasm_ext \<Rightarrow> (event list \<Rightarrow> event list) \<Rightarrow> abci_evidence list \<Rightarrow> ('w tw_state, unit) act" where
  "twasm_BeginBlock X fwd byzantine = BeginBlocker X fwd byzantine"

definition twasm_EndBlock :: "'w wasm_ext \<Rightarrow> (event list \<Rightarrow> event list) \<Rightarrow> ('w tw_state, 'u list) act" where
  "twasm_EndBlock X fwd = EndBlocker X fwd"

definition ReadWasmConfig :: "('o \<Rightarrow> 'c res) \<Rightarrow> 'o \<Rightarrow> 'c res" where
  "ReadWasmConfig wasm_ReadWasmConfig opts = wrap_res ''wasm'' (wasm_ReadWasmConfig opts)"

section \<open>The simulator\<close>

text \<open>
  The weights of storing, instantiating and executing. \<open>appParams\<close> are the numbers and \<open>path\<close> the path that
  the parameters of the simulation set; the weight that is set for executions is written to the variable for
  instantiations.
\<close>

definition weights :: "(string \<rightharpoonup> int) \<Rightarrow> int \<Rightarrow> int \<Rightarrow> int \<Rightarrow> int \<times> int \<times> int" where
  "weights appParams defStore defInstantiate defExecute =
     (let store = (case appParams ''op_weight_msg_store_code'' of Some w \<Rightarrow> w | None \<Rightarrow> defStore);
          inst = (case appParams ''op_weight_msg_instantiate_contract'' of Some w \<Rightarrow> w | None \<Rightarrow> defInstantiate);
          (inst', exec) = (case appParams ''op_weight_msg_execute_contract'' of Some w \<Rightarrow> (w, 0) | None \<Rightarrow> (inst, defExecute)) in
      (store, inst', exec))"

definition twasm_WeightedOperations ::
    "(string \<rightharpoonup> int) \<Rightarrow> string option \<Rightarrow> (string \<Rightarrow> bytes res) \<Rightarrow> int \<Rightarrow> int \<Rightarrow> int \<Rightarrow> ((int \<times> int \<times> int) \<times> bytes) res" where
  "twasm_WeightedOperations appParams path ReadFile defStore defInstantiate defExecute =
     bind_res (must_ok (ReadFile (case path of Some p \<Rightarrow> p | None \<Rightarrow> ''../testing/contract/reflect.wasm''))) (\<lambda>wasmBz.
     Ok (weights appParams defStore defInstantiate defExecute, wasmBz))"

text \<open>The codes with their permission and the contracts with their code in the order of the store.\<close>

fun PetriSimulationCodeIDSelector :: "(uint64 \<times> bool) list \<Rightarrow> uint64" where
  "PetriSimulationCodeIDSelector [] = 0"
| "PetriSimulationCodeIDSelector ((u, everybody) # cs) =
     (if \<not> everybody \<or> u < of_nat (length PoEContractType_name) then PetriSimulationCodeIDSelector cs else u)"

fun PetriSimulationExecuteContractSelector :: "(addr \<times> uint64) list \<Rightarrow> addr" where
  "PetriSimulationExecuteContractSelector [] = []"
| "PetriSimulationExecuteContractSelector ((address, codeID) # cs) =
     (if codeID < of_nat (length PoEContractType_name - 1) then PetriSimulationExecuteContractSelector cs else address)"

section \<open>Lemmas\<close>

lemma collect_all_Ok: "(\<And>e. e \<in> set es \<Longrightarrow> f e = Ok (g e)) \<Longrightarrow> collect_all f es = Ok (map g es)"
  by (induction es) auto

lemma query_by_type:
  assumes "index_inv s" and "PrivilegeTypeFrom name = Some t"
  shows "ContractsByPrivilegeType X name s = Ok (map (AddrString X) (contracts_of t s))"
proof -
  have "bind_res (parseContractPosition (fst e)) (\<lambda>_. Ok (AddrString X (snd e))) = Ok (AddrString X (snd e))"
    if "e \<in> set (type_entries t s)" for e
    using that in_type_entries [OF assms(1), of "fst e" "snd e"] by (auto simp: parseContractPosition_def)
  then show ?thesis
    using assms(2) by (simp add: ContractsByPrivilegeType_def contracts_of_def collect_all_Ok comp_def)
qed

lemma contracts_of_set:
  assumes "tw_inv X s"
  shows "set (contracts_of t s) = {a. \<exists>r \<in> set (privs_of X s a). priv_type r = t}"
proof -
  have inv: "index_inv s" and ag: "agrees (privilege_reg s) (privs_of X s)" using assms unfolding tw_inv_def by blast+
  have snd: "a \<in> snd ` A \<longleftrightarrow> (\<exists>x. (x, a) \<in> A)" for a :: addr and A :: "(bytes \<times> addr) set" by force
  have "a \<in> set (contracts_of t s) \<longleftrightarrow> (\<exists>pos. privilege_reg s t pos = Some a)" for a
    unfolding contracts_of_def set_map snd in_type_entries [OF inv] by blast
  with ag show ?thesis unfolding agrees_def by blast
qed

section \<open>Properties\<close>

text \<open>
  C39: In every state reachable from an empty chain, or from an imported genesis state with valid lists, no
  custom state and every singleton privilege given out at most once, the command that lists the contracts of
  a privilege type prints exactly the contracts whose own list has a privilege of this type, in the order of their positions, which is the order
  in which they are called; a name that no type has is refused.
\<close>

theorem privileged_contracts_listed:
  assumes "wasm_laws X" and "sudo_effects X" and "handler_laws X H" and "genesis_laws X G"
    and "tw_reachable X G H fwd s"
  shows "case PrivilegeTypeFrom name of
      None \<Rightarrow> GetCmdShowPrivilegedContracts X name s = fail (PlainErr ''unknown privilege type: %q'')
    | Some t \<Rightarrow> GetCmdShowPrivilegedContracts X name s = Ok (map (AddrString X) (contracts_of t s)) \<and>
        set (contracts_of t s) = {a. \<exists>r \<in> set (privs_of X s a). priv_type r = t}"
proof (cases "PrivilegeTypeFrom name")
  case (Some t)
  have inv: "tw_inv X s" by (rule reachable_inv [OF assms])
  then have "index_inv s" unfolding tw_inv_def by blast
  with Some contracts_of_set [OF inv] show ?thesis
    by (simp add: GetCmdShowPrivilegedContracts_def String_of_From query_by_type)
qed (simp add: GetCmdShowPrivilegedContracts_def)

theorem privileged_contracts_listed_witness:
  "GetCmdShowPrivilegedContracts sample_ext ''validator_set_updater'' sample5 = Ok [AddrString sample_ext [7]] \<and>
   GetCmdShowPrivilegedContracts sample_ext ''unknown'' sample5 = fail (PlainErr ''unknown privilege type: %q'')"
proof -
  have "PrivilegeTypeFrom ''validator_set_updater'' = Some 3" "PrivilegeTypeFrom ''unknown'' = None" "contracts_of 3 sample5 = [[7]]"
    by code_simp+
  then show ?thesis
    using privileged_contracts_listed [OF sample_laws sample_effects sample_handler_laws sample_genesis_laws sample5_reachable, of "''validator_set_updater''"]
      privileged_contracts_listed [OF sample_laws sample_effects sample_handler_laws sample_genesis_laws sample5_reachable, of "''unknown''"] by simp
qed

text \<open>The default state is valid when wasmd accepts its part, and starts a chain without registrations.\<close>

lemma default_genesis_valid:
  assumes "\<And>g raw. mj_Marshal J g = Ok raw \<Longrightarrow> mj_Unmarshal J raw = Ok g" and "twasm_DefaultGenesis J = Ok raw"
    and "gValidateBasic G (RawWasmState (default_state J)) = Ok ()"
  shows "twasm_ValidateGenesis X G J raw = Ok ()"
proof -
  have "mj_Marshal J (default_state J) = Ok raw" using assms(2) by (simp add: twasm_DefaultGenesis_def)
  then have "mj_Unmarshal J raw = Ok (default_state J)" by (rule assms(1))
  with assms(3) show ?thesis
    by (simp add: twasm_ValidateGenesis_def GenesisState_ValidateBasic_def default_state_def RawWasmState_def)
qed

text \<open>A weight for executions that is set replaces the one of instantiations, and nothing is executed.\<close>

lemma execute_weight_misplaced:
  "appParams ''op_weight_msg_execute_contract'' = Some w \<Longrightarrow> snd (weights appParams a b c) = (w, 0)"
  by (simp add: weights_def Let_def)

text \<open>The selected contract is the first one whose code is not below the number of kinds of contracts.\<close>

lemma execute_selector_skips:
  "PetriSimulationExecuteContractSelector cs =
     (case filter (\<lambda>c. 11 \<le> snd c) cs of [] \<Rightarrow> [] | c # _ \<Rightarrow> fst c)"
  by (induction cs rule: PetriSimulationExecuteContractSelector.induct) (auto simp: PoEContractType_name_def not_less)

end
