(* ===== verification/StakingAdapter.thy ===== *)
theory StakingAdapter
  imports PoEKeeper
begin

text \<open>
  The adapters that stand for the SDK's staking, distribution and slashing keepers (\<open>x/poe/stakingadapter\<close>).
  Every function logs that it is not implemented and returns a fixed answer; log output is dropped. \<open>'v\<close> are
  the SDK's validators, \<open>'u\<close> its validator updates and \<open>'d\<close> its decimals.
\<close>

section \<open>The staking adapter\<close>

definition ErrNotImplemented :: go_error where
  "ErrNotImplemented = Sentinel (PlainErr ''not implemented'')"

definition adapter_BondDenom :: "('s, string) act" where
  "adapter_BondDenom = ret ''ufury''"

definition adapter_GetValidator :: "addr \<Rightarrow> ('s, 'v option) act" where
  "adapter_GetValidator a = ret None"

definition adapter_GetBondedValidatorsByPower :: "('s, 'v list) act" where
  "adapter_GetBondedValidatorsByPower = ret []"

definition adapter_GetAllDelegatorDelegations :: "addr \<Rightarrow> ('s, 'v list) act" where
  "adapter_GetAllDelegatorDelegations delegator = ret []"

definition adapter_GetDelegation :: "addr \<Rightarrow> addr \<Rightarrow> ('s, 'v option) act" where
  "adapter_GetDelegation delAddr valAddr = ret None"

definition adapter_HasReceivingRedelegation :: "addr \<Rightarrow> addr \<Rightarrow> ('s, bool) act" where
  "adapter_HasReceivingRedelegation delAddr valDstAddr = ret False"

definition adapter_DelegationRewards :: "'r \<Rightarrow> ('s, 'v option) act" where
  "adapter_DelegationRewards req = ret None"

definition adapter_ValidatorByConsAddr :: "addr \<Rightarrow> ('s, 'v option) act" where
  "adapter_ValidatorByConsAddr a = ret None"

definition adapter_ApplyAndReturnValidatorSetUpdates :: "('s, 'u list) act" where
  "adapter_ApplyAndReturnValidatorSetUpdates = ret []"

text \<open>The iterators never call their function.\<close>

definition adapter_IterateValidators :: "(int \<Rightarrow> 'v \<Rightarrow> ('s, bool) act) \<Rightarrow> ('s, unit) act" where
  "adapter_IterateValidators f = ret ()"

definition adapter_Validator :: "addr \<Rightarrow> ('s, 'v option) act" where
  "adapter_Validator a = ret None"

definition adapter_Slash :: "addr \<Rightarrow> int \<Rightarrow> int \<Rightarrow> 'd \<Rightarrow> ('s, unit) act" where
  "adapter_Slash a i i2 dec = ret ()"

definition adapter_Jail :: "addr \<Rightarrow> ('s, unit) act" where
  "adapter_Jail a = ret ()"

definition adapter_Unjail :: "addr \<Rightarrow> ('s, unit) act" where
  "adapter_Unjail a = ret ()"

definition adapter_Delegation :: "addr \<Rightarrow> addr \<Rightarrow> ('s, 'v option) act" where
  "adapter_Delegation a a2 = ret None"

definition adapter_MaxValidators :: "('s, uint32) act" where
  "adapter_MaxValidators = ret 100"

definition adapter_StakingTokenSupply :: "('s, int) act" where
  "adapter_StakingTokenSupply = ret 1000000"

definition adapter_BondedRatio :: "'d \<Rightarrow> ('s, 'd) act" where
  "adapter_BondedRatio ZeroDec = ret ZeroDec"

definition adapter_IterateBondedValidatorsByPower :: "(int \<Rightarrow> 'v \<Rightarrow> ('s, bool) act) \<Rightarrow> ('s, unit) act" where
  "adapter_IterateBondedValidatorsByPower f = ret ()"

definition adapter_TotalBondedTokens :: "('s, int) act" where
  "adapter_TotalBondedTokens = ret 0"

definition adapter_IterateDelegations :: "addr \<Rightarrow> (int \<Rightarrow> 'v \<Rightarrow> ('s, bool) act) \<Rightarrow> ('s, unit) act" where
  "adapter_IterateDelegations delegator fn = ret ()"

section \<open>The slashing adapter\<close>

definition slashing_GetPubkey :: "addr \<Rightarrow> ('s, 'k) act" where
  "slashing_GetPubkey a = lift_res (Err ErrNotImplemented)"

definition slashing_IsTombstoned :: "addr \<Rightarrow> ('s, bool) act" where
  "slashing_IsTombstoned a = ret False"

definition slashing_HasValidatorSigningInfo :: "addr \<Rightarrow> ('s, bool) act" where
  "slashing_HasValidatorSigningInfo a = ret False"

definition slashing_Tombstone :: "addr \<Rightarrow> ('s, unit) act" where
  "slashing_Tombstone a = ret ()"

definition slashing_Slash :: "addr \<Rightarrow> 'd \<Rightarrow> int \<Rightarrow> int \<Rightarrow> ('s, unit) act" where
  "slashing_Slash a dec i i2 = ret ()"

definition slashing_SlashFractionDoubleSign :: "'d \<Rightarrow> ('s, 'd) act" where
  "slashing_SlashFractionDoubleSign ZeroDec = ret ZeroDec"

definition slashing_Jail :: "addr \<Rightarrow> ('s, unit) act" where
  "slashing_Jail a = ret ()"

definition slashing_JailUntil :: "addr \<Rightarrow> int \<Rightarrow> ('s, unit) act" where
  "slashing_JailUntil a t = ret ()"

section \<open>Agreement with the module\<close>

text \<open>
  The denomination that the SDK's modules are told is the one of the module; the other answers are not
  derived from the contracts: a validator that the contract knows is not found through the adapter.
\<close>

lemma adapter_bond_denom_agrees: "adapter_BondDenom s = (Ok (GetBondDenom s), s)"
  by (simp add: adapter_BondDenom_def GetBondDenom_def DefaultBondDenom_def ret_def)

end
