(* ===== verification/Spec2Isabelle.thy ===== *)
theory Spec2Isabelle
  imports TwasmProperties GlobalFee PoEGenesis PoEAbci PoEAnte PoEQueryProperties AppAnte AppExport AppUpgrades AppWiring PoEGenTx
    TwasmGenesisTool GenesisAccounts TestnetProperties NodeCmds PoEQueryCmds RootCmd PoESimulation TwasmModule StakingAdapter
begin

text \<open>
  Verification of the Furya chain, a proof of engagement chain on the Cosmos SDK whose validator set,
  staking and rewards are kept by CosmWasm contracts.

  \<^bold>\<open>The program.\<close> Three modules of \<open>x/\<close> carry its logic. \<open>x/twasm\<close> extends the SDK's wasm
  module by privileged contracts: governance promotes a contract, the contract asks for privileges (to
  be called at the beginning or the end of a block, to provide the validator set, to mint tokens, to
  execute proposals, to change consensus parameters, to delegate), and its messages are executed when
  it holds the privilege they need. \<open>x/poe\<close> connects the SDK with a fixed family of contracts: it keeps
  their addresses, translates messages and queries of staking to contract calls, asks the validator set
  contract for the diff at the end of every block and pays it the fees. \<open>x/globalfee\<close> enforces a minimum
  fee. Contracts and the rest of the SDK are reached through keepers.

  \<^bold>\<open>Foundations.\<close> \<open>Prelude\<close> has machine integers with their conversions, errors as values with the chain
  of \<open>sdkerrors.Wrap\<close>, results (value, error or panic), state changing calls and Go's slices with their
  backing array. \<open>KVStore\<close> is the sorted store with prefix iteration, with the locale of its laws.
  \<open>GoJson\<close> and \<open>ContractJson\<close> are what the code uses of \<open>encoding/json\<close> (decoding into used variables
  included), \<open>GoStrings\<close> and \<open>GoTime\<close> the conversions of numbers and durations, \<open>Coins\<close> the coin types.

  \<^bold>\<open>The module twasm.\<close> \<open>Privileges\<close> (\<open>types/privilege.go\<close>), \<open>ContractDetails\<close>
  (\<open>types/contract_extension.go\<close>), \<open>TwasmCallbacks\<close> (\<open>contract/callback_msgs.go\<close>), \<open>TwasmKeeper\<close>
  (\<open>keeper/privileged.go\<close>, \<open>keeper.go\<close>, \<open>store.go\<close>), \<open>TwasmMsgs\<close> (\<open>contract/incoming_msgs.go\<close>,
  \<open>types/proposal.go\<close>), \<open>TwasmHandler\<close> (\<open>keeper/handler_plugin.go\<close>), \<open>TwasmAbci\<close> (\<open>abci.go\<close>,
  \<open>keeper/querier.go\<close>), \<open>TwasmGov\<close> (\<open>keeper/proposal_handler.go\<close> and the step relation of the chain),
  \<open>TwasmGenesis\<close> (\<open>types/genesis.go\<close>, \<open>keeper/genesis.go\<close>). The state is the record \<open>tw_state\<close>: the
  module's store, the contracts of wasmd with their extension data, and the events. The locale of
  \<open>PrivilegeIndex\<close> states how the index by type and position agrees with the lists that the contracts
  carry; \<open>TwasmPrivileged\<close> shows that every operation keeps it, \<open>TwasmGov\<close> that every reachable state
  has it. Reachable are the states after promotions, demotions, messages of contracts and blocks, from an
  empty chain or from the import of a genesis state that is \<open>genesis_ok\<close>: with valid lists, without custom
  state of contracts, and with every singleton privilege given out at most once. The import checks none of
  this; a genesis state with two validator set updaters is accepted (\<open>import_accepts_two_updaters\<close>). \<open>TwasmSample\<close> holds concrete states and \<open>TwasmProperties\<close> the properties. \<open>TwasmModule\<close> (\<open>module.go\<close>,
  \<open>client/cli/query.go\<close>, \<open>simulation/operations.go\<close>) is what the module manager, the command line and the simulator call.

  \<^bold>\<open>The module poe.\<close> \<open>PoETypes\<close> (\<open>types/poe.go\<close>, \<open>params.go\<close>, \<open>msg.go\<close>), \<open>PoEGenesis\<close>
  (\<open>types/genesis.go\<close>), \<open>PoEContract\<close> (\<open>contract/contractio.go\<close>, \<open>callback_msgs.go\<close>, \<open>pt4.go\<close>,
  \<open>pt4_engagement.go\<close> and the messages of the staking and validator set contracts), \<open>PoEAdapters\<close>
  (\<open>contract/pt4_stake.go\<close>, \<open>petri_valset.go\<close>, \<open>petri_distribution.go\<close>), \<open>PoEVoting\<close>
  (\<open>contract/voting.go\<close>, \<open>petri_oc_proposals.go\<close>, \<open>petri_trusted_circle.go\<close>), \<open>PoEKeeper\<close>
  (\<open>keeper/keeper.go\<close>, \<open>contracts.go\<close>, \<open>params.go\<close>, \<open>historical_info.go\<close>, \<open>engagement.go\<close>,
  \<open>genesis.go\<close>), \<open>PoEMsgServer\<close> (\<open>keeper/msg_server.go\<close>, \<open>handler.go\<close>), \<open>PoEAnte\<close> (\<open>ante.go\<close>),
  \<open>PoEAbci\<close> (\<open>abci.go\<close>), \<open>PoEQueries\<close> (\<open>keeper/querier.go\<close> and the three legacy queriers), \<open>PoEWasm\<close>
  (\<open>wasm/query_plugin.go\<close>). The state is the record \<open>poe_state\<close>: the module's store, the keeper's cache
  of contract addresses, parameters, votes, events and the world outside, on which contracts act. The
  locale \<open>contract_source\<close> of \<open>PoERegistry\<close> is what clients rely on of the registry of addresses.
  \<open>PoERegistry\<close> proves the keeper correct: cache and store agree, the window of historical infos, the
  initial engagement points, the genesis round trip. \<open>PoEPaging\<close> shows that the loop over pages of
  validators ends and what it sees, \<open>PoEQueryProperties\<close> what the queries answer. \<open>PoEAbci\<close> joins both modules: the invariant of the privilege index
  gives that at most one contract provides the validator diff. \<open>StakingAdapter\<close> has the fixed answers of \<open>x/poe/stakingadapter\<close>.

  \<^bold>\<open>The start of the chain.\<close> \<open>PoEInitMsgs\<close> has the messages that instantiate the contracts, \<open>PoEBootstrap\<close> the
  stages of \<open>x/poe/bootstrap.go\<close> that store and instantiate them, hand them over and check the setup.
  \<open>PoESetup\<close> is a calculus of postconditions for its calls and shows what a bootstrap that succeeds has
  established; \<open>PoELaunch\<close> shows when it succeeds. \<open>PoEModule\<close> (\<open>x/poe/module.go\<close>) is the genesis of the module
  in both modes with the validator set it returns. Before the start, \<open>PoETxCmds\<close> (\<open>client/cli/tx.go\<close>) and
  \<open>PoEGenTx\<close> (\<open>client/cli/genutil_gentx.go\<close>, \<open>client/genutil_collect.go\<close>, \<open>types/genesisio.go\<close>) build and collect
  the genesis transactions, \<open>TwasmGenesisTool\<close> (\<open>x/twasm/client/cli\<close>) and \<open>GenesisAccounts\<close>
  (\<open>cmd/furya/genaccounts.go\<close>) change the genesis file.

  \<open>GlobalFee\<close> models \<open>x/globalfee\<close>: the fee decorator, its parameter and genesis.

  \<^bold>\<open>The application.\<close> \<open>AppAnte\<close> (\<open>app/ante.go\<close>) is the chain of ante handlers in its order: a transaction that
  passes with a minimum fee set has paid it to the validator set contract. \<open>AppWiring\<close> (\<open>app/app.go\<close>,
  \<open>app/wasm.go\<close>) has the modules with their orders, the module accounts, the routing of the messages of
  contracts, and the end of a block, which joins the end blockers of both modules and fails only when one of
  the other modules does. \<open>AppExport\<close> (\<open>app/export.go\<close>, \<open>app/snapshotter.go\<close>) is the export, which lists the
  active validators, and the cache of addresses after a restart. \<open>AppUpgrades\<close> (\<open>app/upgrades\<close>) has the upgrade
  handlers; the addresses of the upgrade v3 have no valid Bech32 checksum, so that it fails.

  \<^bold>\<open>The command line.\<close> \<open>RootCmd\<close> (\<open>cmd/furya/root.go\<close>) has what runs before every command, with the limit on fees,
  which is shown to have no effect, the extended reset, and the start and the export of a node. \<open>NodeAddress\<close>
  and \<open>Testnet\<close> (\<open>cmd/furya/testnet.go\<close>) write the files of a test network; \<open>TestnetProperties\<close> shows that all nodes get
  the genesis document collected for the first one and that the transactions written for the nodes are accepted when they are collected,
  over the same functions of \<open>PoEGenTx\<close> that the single commands use. \<open>NodeCmds\<close> reads the flags of that command and has
  \<open>collect-gentxs\<close> (\<open>x/poe/client/cli/genutil_collect.go\<close>) and \<open>gentx\<close> (\<open>x/poe/client/cli/genutil_gentx.go\<close>), whose file is accepted
  when it is collected. \<open>PoEQueryCmds\<close> (\<open>x/poe/client/cli/query.go\<close>) has the query commands
  over the queries of \<open>PoEQueries\<close>. \<open>PoESimulation\<close> (\<open>x/poe/simulation\<close>) has the operations of the simulator, whose
  messages are valid, and its random genesis state, which is valid when it is created.

  \<^bold>\<open>Code outside of the repository\<close> is an argument: wasmd's keeper (\<open>wasm_ext\<close>, \<open>poe_calls\<close>), the SDK's
  addresses, coins and decimals (\<open>sdk_ops\<close>, \<open>dec_ops\<close>, \<open>sdk_json\<close>), governance, bank, account and fee
  grant keepers (\<open>handler_ext\<close>, \<open>fee_ops\<close>), codecs (\<open>hist_ops\<close>, \<open>gentx_ops\<close>). What properties need of
  them are the predicates named \<open>laws\<close>, \<open>effects\<close> or \<open>frame\<close>; samples that satisfy them stand beside
  the properties. So are the calls of the bootstrap (\<open>boot_env\<close>), the decorators of the SDK with the function
  that chains them (\<open>ante_env\<close>), the account keeper of the upgrades (\<open>upgrade_ext\<close>), the module manager, and the
  parsing and key functions of the commands (\<open>cli_env\<close>, \<open>gentx_env\<close>, \<open>account_env\<close>, \<open>query_cli\<close>, \<open>fee_env\<close>), the files and the signing of
  genesis transactions (\<open>gentx_io\<close>), the files, keys and
  codecs of the test networks (\<open>testnet_env\<close>), wasmd's import and export (\<open>genesis_ext\<close>) and the random choices of the simulator (\<open>sim_env\<close>, \<open>sim_genesis_env\<close>). The order in which Go visits
  a map is an argument as well.

  \<^bold>\<open>Conventions.\<close> A call that fails leaves the state it has reached, as the code does; the SDK's rollback
  belongs to the caller. A function that returns a value together with an error returns the error. A
  formatted message is kept as its format string. Log output and telemetry are dropped, events are
  kept. An iterator visits the entries that were there when it was created. Messages to contracts are
  JSON values, responses are JSON values, empty or malformed.

  \<^bold>\<open>Loops.\<close> Loops over data are structural. The pruning loop counts down to zero. The loops over pages of
  validators (\<open>IterateActiveValidators\<close>, and the query for all validators) depend on a contract and may run
  for ever: they have fuel, \<open>None\<close> means that the loop has not ended, and \<open>PoEPaging\<close> and
  \<open>PoEQueryProperties\<close> show that more rounds than validators are enough.

  \<^bold>\<open>Not modelled.\<close> The construction of the keepers and the registration of modules, codecs and routers, which
  only call the SDK; the descriptions and flags of commands, signing, broadcasting and file access; the delivery of
  simulated transactions and the operations that wasmd simulates; and the generated protobuf code, apart from the types that the code uses.
\<close>

end
